(* ===== verification/Prelude.thy ===== *)
theory Prelude
  imports Main "HOL-Library.AList" "HOL-Library.List_Lexorder" "HOL-Library.Char_ord"
begin

text \<open>
  What every component shares: results (Rust's \<open>Result<T, E>\<close> as the sum \<open>'e + 'a\<close>, with
  \<open>bind_res\<close> for the \<open>?\<close> operator), the state-and-error computations the stateful handlers
  are written in (\<open>bindS\<close> is \<open>?\<close> after a call that also changed the state; the state
  change of a failing call is kept, as in Rust), the contract "this computation keeps that
  predicate" with its rules in the collection \<open>keeps\<close>, and finite directories (association
  lists) with their interface locale.
\<close>

named_theorems keeps \<open>rules that a computation keeps a predicate on the state\<close>
named_theorems result_simps \<open>unfolding of result combinators\<close>

section \<open>Results\<close>

abbreviation Ok :: "'a \<Rightarrow> 'e + 'a" where
  "Ok \<equiv> Inr"

abbreviation Err :: "'e \<Rightarrow> 'e + 'a" where
  "Err \<equiv> Inl"

fun bind_res :: "'e + 'a \<Rightarrow> ('a \<Rightarrow> 'e + 'b) \<Rightarrow> 'e + 'b" where
  "bind_res (Inl e) f = Inl e"
| "bind_res (Inr a) f = f a"

fun map_err :: "('e \<Rightarrow> 'f) \<Rightarrow> 'e + 'a \<Rightarrow> 'f + 'a" where
  "map_err g (Inl e) = Inl (g e)"
| "map_err g (Inr a) = Inr a"

fun ok_or :: "'e \<Rightarrow> 'a option \<Rightarrow> 'e + 'a" where
  "ok_or e None = Inl e"
| "ok_or e (Some a) = Inr a"

fun res_ok :: "'e + 'a \<Rightarrow> 'a option" where
  "res_ok (Inl e) = None"
| "res_ok (Inr a) = Some a"

fun is_ok :: "'e + 'a \<Rightarrow> bool" where
  "is_ok (Inl e) = False"
| "is_ok (Inr a) = True"

fun collect_res :: "('a \<Rightarrow> 'e + 'b) \<Rightarrow> 'a list \<Rightarrow> 'e + 'b list" where
  "collect_res f [] = Inr []"
| "collect_res f (x # xs) = bind_res (f x) (\<lambda>y. bind_res (collect_res f xs) (\<lambda>ys. Inr (y # ys)))"

lemma bind_res_Inr_iff [result_simps]:
  "bind_res r f = Inr b \<longleftrightarrow> (\<exists>a. r = Inr a \<and> f a = Inr b)"
  by (cases r) auto

lemma bind_res_InrE:
  assumes "bind_res r f = Inr b"
  obtains a where "r = Inr a" "f a = Inr b"
  using assms by (cases r) auto

lemma bind_res_Inl_iff [result_simps]:
  "bind_res r f = Inl e \<longleftrightarrow> r = Inl e \<or> (\<exists>a. r = Inr a \<and> f a = Inl e)"
  by (cases r) auto

lemma map_err_Inr_iff [simp]: "map_err g r = Inr a \<longleftrightarrow> r = Inr a"
  by (cases r) auto

lemma map_err_Inl_iff [result_simps]: "map_err g r = Inl f \<longleftrightarrow> (\<exists>e. r = Inl e \<and> f = g e)"
  by (cases r) auto

lemma ok_or_Inr_iff [simp]: "ok_or e x = Inr a \<longleftrightarrow> x = Some a"
  by (cases x) auto

lemma ok_or_Inl_iff [result_simps]: "ok_or e x = Inl f \<longleftrightarrow> x = None \<and> f = e"
  by (cases x) auto

lemma is_ok_iff: "is_ok r \<longleftrightarrow> (\<exists>a. r = Inr a)"
  by (cases r) auto

lemma collect_res_Inr_iff:
  "collect_res f xs = Inr ys \<longleftrightarrow> list_all2 (\<lambda>x y. f x = Inr y) xs ys"
  by (induction xs arbitrary: ys) (auto simp: result_simps list_all2_Cons1)

lemma collect_res_map: "(\<And>x. x \<in> set xs \<Longrightarrow> f x = Inr (g x)) \<Longrightarrow> collect_res f xs = Inr (map g xs)"
  by (induction xs) auto

section \<open>Computations with state and errors\<close>

type_synonym ('s, 'e, 'a) comp = "'s \<Rightarrow> ('e + 'a) \<times> 's"

definition okS :: "'a \<Rightarrow> ('s, 'e, 'a) comp" where
  "okS a s = (Inr a, s)"

definition errS :: "'e \<Rightarrow> ('s, 'e, 'a) comp" where
  "errS e s = (Inl e, s)"

definition liftS :: "'e + 'a \<Rightarrow> ('s, 'e, 'a) comp" where
  "liftS r s = (r, s)"

definition bindS :: "('s, 'e, 'a) comp \<Rightarrow> ('a \<Rightarrow> ('s, 'e, 'b) comp) \<Rightarrow> ('s, 'e, 'b) comp" where
  "bindS m f s = (case m s of (Inl e, s') \<Rightarrow> (Inl e, s') | (Inr a, s') \<Rightarrow> f a s')"

text \<open>\<open>observeS\<close> is \<open>match call() { Ok(..) => .., Err(..) => .. }\<close>: the continuation gets the whole result.\<close>

definition observeS :: "('s, 'e, 'a) comp \<Rightarrow> ('e + 'a \<Rightarrow> ('s, 'f, 'b) comp) \<Rightarrow> ('s, 'f, 'b) comp" where
  "observeS m f s = (case m s of (r, s') \<Rightarrow> f r s')"

definition map_errS :: "('e \<Rightarrow> 'f) \<Rightarrow> ('s, 'e, 'a) comp \<Rightarrow> ('s, 'f, 'a) comp" where
  "map_errS g m s = (case m s of (r, s') \<Rightarrow> (map_err g r, s'))"

fun forS :: "('a \<Rightarrow> ('s, 'e, unit) comp) \<Rightarrow> 'a list \<Rightarrow> ('s, 'e, unit) comp" where
  "forS f [] = okS ()"
| "forS f (x # xs) = bindS (f x) (\<lambda>_. forS f xs)"

lemma okS_apply [simp]: "okS a s = (Inr a, s)"
  by (simp add: okS_def)

lemma errS_apply [simp]: "errS e s = (Inl e, s)"
  by (simp add: errS_def)

lemma liftS_apply [simp]: "liftS r s = (r, s)"
  by (simp add: liftS_def)

lemma bindS_Inr_iff:
  "bindS m f s = (Inr b, s') \<longleftrightarrow> (\<exists>a s1. m s = (Inr a, s1) \<and> f a s1 = (Inr b, s'))"
  by (auto simp: bindS_def split: prod.splits sum.splits)

lemma bindS_Inl_iff:
  "bindS m f s = (Inl e, s') \<longleftrightarrow>
     m s = (Inl e, s') \<or> (\<exists>a s1. m s = (Inr a, s1) \<and> f a s1 = (Inl e, s'))"
  by (auto simp: bindS_def split: prod.splits sum.splits)

lemma bindS_okS [simp]: "bindS (okS a) f = f a"
  by (rule ext) (simp add: bindS_def)

lemma bindS_errS [simp]: "bindS (errS e) f = errS e"
  by (rule ext) (simp add: bindS_def)

lemma bindS_assoc: "bindS (bindS m f) g = bindS m (\<lambda>x. bindS (f x) g)"
  by (rule ext) (simp add: bindS_def split: prod.splits sum.splits)

lemma bindS_step: "m s = (Inr a, s1) \<Longrightarrow> bindS m f s = f a s1"
  by (simp add: bindS_def)

lemma bindS_fail: "m s = (Inl e, s1) \<Longrightarrow> bindS m f s = (Inl e, s1)"
  by (simp add: bindS_def)

lemma observeS_step: "m s = (r, s1) \<Longrightarrow> observeS m f s = f r s1"
  by (simp add: observeS_def)

text \<open>\<open>map_err(|e| format!("...: {e}"))\<close>.\<close>

definition err_prefix :: "string \<Rightarrow> ('s, string, 'a) comp \<Rightarrow> ('s, string, 'a) comp" where
  "err_prefix p m = map_errS (\<lambda>e. p @ e) m"

lemma err_prefix_Inr [simp]: "err_prefix p m s = (Inr a, s') \<longleftrightarrow> m s = (Inr a, s')"
  by (auto simp: err_prefix_def map_errS_def split: prod.splits)

lemma err_prefix_cases: "err_prefix p m s = (r, s') \<Longrightarrow> \<exists>r0. m s = (r0, s') \<and> r = map_err (\<lambda>e. p @ e) r0"
  by (auto simp: err_prefix_def map_errS_def split: prod.splits)

lemma is_ok_map_err [simp]: "is_ok (map_err g r) = is_ok r"
  by (cases r) auto

section \<open>What a computation keeps\<close>

definition keepsS :: "('s \<Rightarrow> bool) \<Rightarrow> ('s, 'e, 'a) comp \<Rightarrow> bool" where
  "keepsS P m \<longleftrightarrow> (\<forall>s. P s \<longrightarrow> P (snd (m s)))"

lemma keepsSI: "(\<And>s. P s \<Longrightarrow> P (snd (m s))) \<Longrightarrow> keepsS P m"
  by (simp add: keepsS_def)

lemma keepsSD: "keepsS P m \<Longrightarrow> P s \<Longrightarrow> P (snd (m s))"
  by (simp add: keepsS_def)

lemma keepsS_run: "keepsS P m \<Longrightarrow> P s \<Longrightarrow> m s = (r, s') \<Longrightarrow> P s'"
  by (metis keepsSD snd_conv)

lemma keepsS_okS [keeps]: "keepsS P (okS a)"
  by (simp add: keepsS_def)

lemma keepsS_errS [keeps]: "keepsS P (errS e)"
  by (simp add: keepsS_def)

lemma keepsS_Pair [keeps, simp]: "keepsS P (Pair r)"
  by (simp add: keepsS_def)

lemma keepsS_liftS [keeps]: "keepsS P (liftS r)"
  by (simp add: keepsS_def)

lemma keepsS_bindS [keeps]:
  assumes "keepsS P m" and "\<And>a. keepsS P (f a)"
  shows "keepsS P (bindS m f)"
proof (rule keepsSI)
  fix s assume "P s"
  with assms show "P (snd (bindS m f s))"
    by (auto simp: keepsS_def bindS_def split: prod.splits sum.splits)
qed

lemma keepsS_observeS [keeps]:
  assumes "keepsS P m" and "\<And>r. keepsS P (f r)"
  shows "keepsS P (observeS m f)"
  using assms by (auto simp: keepsS_def observeS_def split: prod.splits)

lemma keepsS_map_errS [keeps]: "keepsS P m \<Longrightarrow> keepsS P (map_errS g m)"
  by (auto simp: keepsS_def map_errS_def split: prod.splits)

lemma keepsS_err_prefix [keeps]: "keepsS P m \<Longrightarrow> keepsS P (err_prefix p m)"
  by (simp add: err_prefix_def keepsS_map_errS)

lemma keepsS_forS [keeps]: "(\<And>x. keepsS P (f x)) \<Longrightarrow> keepsS P (forS f xs)"
  by (induction xs) (auto intro: keeps)

lemma keepsS_if [keeps]: "(b \<Longrightarrow> keepsS P m) \<Longrightarrow> (\<not> b \<Longrightarrow> keepsS P n) \<Longrightarrow> keepsS P (if b then m else n)"
  by simp

section \<open>Triples\<close>

text \<open>
  \<open>tripleS E P m Q\<close>: started where \<open>P\<close> holds, \<open>m\<close> ends in \<open>Q a\<close> when it returns \<open>a\<close>, and in \<open>E\<close> when it fails.
\<close>

named_theorems triples \<open>rules for triples\<close>

definition tripleS ::
  "('s \<Rightarrow> bool) \<Rightarrow> ('s \<Rightarrow> bool) \<Rightarrow> ('s, 'e, 'a) comp \<Rightarrow> ('a \<Rightarrow> 's \<Rightarrow> bool) \<Rightarrow> bool" where
  "tripleS E P m Q \<longleftrightarrow> (\<forall>s. P s \<longrightarrow> (case fst (m s) of Inl _ \<Rightarrow> E | Inr a \<Rightarrow> Q a) (snd (m s)))"

lemma tripleSI:
  "(\<And>s r s'. P s \<Longrightarrow> m s = (r, s') \<Longrightarrow> (case r of Inl _ \<Rightarrow> E | Inr a \<Rightarrow> Q a) s') \<Longrightarrow> tripleS E P m Q"
  by (simp add: tripleS_def)

lemma tripleSD: "tripleS E P m Q \<Longrightarrow> P s \<Longrightarrow> m s = (r, s') \<Longrightarrow> (case r of Inl _ \<Rightarrow> E | Inr a \<Rightarrow> Q a) s'"
  by (fastforce simp: tripleS_def)

lemma tripleS_okS: "(\<And>s. P s \<Longrightarrow> Q a s) \<Longrightarrow> tripleS E P (okS a) Q"
  by (simp add: tripleS_def)

lemma tripleS_errS: "(\<And>s. P s \<Longrightarrow> E s) \<Longrightarrow> tripleS E P (errS e) Q"
  by (simp add: tripleS_def)

lemma tripleS_liftS:
  "(\<And>s a. r = Inr a \<Longrightarrow> P s \<Longrightarrow> Q a s) \<Longrightarrow> (\<And>s. P s \<Longrightarrow> E s) \<Longrightarrow> tripleS E P (liftS r) Q"
  by (cases r) (simp_all add: tripleS_def)

lemma tripleS_bindS:
  assumes "tripleS E P m R" and "\<And>a. tripleS E (R a) (f a) Q"
  shows "tripleS E P (bindS m f) Q"
  using assms by (fastforce simp: tripleS_def bindS_def split: prod.splits sum.splits)

lemma tripleS_observeS:
  assumes "tripleS N P m R" and "\<And>e. tripleS E N (f (Inl e)) Q" and "\<And>a. tripleS E (R a) (f (Inr a)) Q"
  shows "tripleS E P (observeS m f) Q"
proof (rule tripleSI)
  fix s r s' assume s: "P s" and run: "observeS m f s = (r, s')"
  obtain r1 s1 where m: "m s = (r1, s1)" by fastforce
  then have "f r1 s1 = (r, s')" using run by (simp add: observeS_def)
  then show "(case r of Inl _ \<Rightarrow> E | Inr a \<Rightarrow> Q a) s'"
    using tripleSD[OF assms(1) s m] tripleSD[OF assms(2)] tripleSD[OF assms(3)] by (cases r1) auto
qed

lemma tripleS_map_errS: "tripleS E P m Q \<Longrightarrow> tripleS E P (map_errS g m) Q"
  unfolding tripleS_def map_errS_def by (auto simp: case_prod_beta map_err.simps split: sum.splits elim!: map_err.elims)

lemma tripleS_conseq:
  "tripleS E' P' m Q' \<Longrightarrow> (\<And>s. P s \<Longrightarrow> P' s) \<Longrightarrow> (\<And>s. E' s \<Longrightarrow> E s) \<Longrightarrow> (\<And>a s. Q' a s \<Longrightarrow> Q a s) \<Longrightarrow> tripleS E P m Q"
  by (fastforce simp: tripleS_def split: sum.splits)

lemma tripleS_fact: "(F \<Longrightarrow> tripleS E P m Q) \<Longrightarrow> tripleS E (\<lambda>s. P s \<and> F) m Q"
  by (simp add: tripleS_def)

lemma tripleS_ex: "(\<And>x. tripleS E (P x) m Q) \<Longrightarrow> tripleS E (\<lambda>s. \<exists>x. P x s) m Q"
  by (auto simp: tripleS_def)

lemma tripleS_if: "(b \<Longrightarrow> tripleS E P m Q) \<Longrightarrow> (\<not> b \<Longrightarrow> tripleS E P n Q) \<Longrightarrow> tripleS E P (if b then m else n) Q"
  by simp

lemma tripleS_forS:
  assumes "\<And>x. x \<in> set xs \<Longrightarrow> tripleS E I (f x) (\<lambda>_. I)"
  shows "tripleS E I (forS f xs) (\<lambda>_. I)"
  using assms by (induction xs) (auto intro!: tripleS_okS tripleS_bindS)

section \<open>Directories\<close>

text \<open>
  A directory of files, a \<open>HashMap\<close> or a database table keyed by a column: a finite map kept
  as an association list, so that it can be listed.
\<close>

type_synonym ('k, 'v) dir = "('k \<times> 'v) list"

definition dir_get :: "('k, 'v) dir \<Rightarrow> 'k \<Rightarrow> 'v option" where
  "dir_get d k = map_of d k"

definition dir_put :: "'k \<Rightarrow> 'v \<Rightarrow> ('k, 'v) dir \<Rightarrow> ('k, 'v) dir" where
  "dir_put k v d = AList.update k v d"

definition dir_del :: "'k \<Rightarrow> ('k, 'v) dir \<Rightarrow> ('k, 'v) dir" where
  "dir_del k d = AList.delete k d"

definition dir_retain :: "('k \<Rightarrow> 'v \<Rightarrow> bool) \<Rightarrow> ('k, 'v) dir \<Rightarrow> ('k, 'v) dir" where
  "dir_retain p d = filter (\<lambda>(k, v). p k v) d"

definition dir_wf :: "('k, 'v) dir \<Rightarrow> bool" where
  "dir_wf d \<longleftrightarrow> distinct (map fst d)"

text \<open>The interface the components rely on: what a lookup returns after each update.\<close>

locale kv_store =
  fixes get :: "'m \<Rightarrow> 'k \<Rightarrow> 'v option"
    and put :: "'k \<Rightarrow> 'v \<Rightarrow> 'm \<Rightarrow> 'm"
    and del :: "'k \<Rightarrow> 'm \<Rightarrow> 'm"
    and wf :: "'m \<Rightarrow> bool"
  assumes get_put: "get (put k v m) j = (if j = k then Some v else get m j)"
    and get_del: "wf m \<Longrightarrow> get (del k m) j = (if j = k then None else get m j)"
    and wf_put: "wf m \<Longrightarrow> wf (put k v m)"
    and wf_del: "wf m \<Longrightarrow> wf (del k m)"
begin

definition dom_of :: "'m \<Rightarrow> 'k set" where
  "dom_of m = {k. get m k \<noteq> None}"

lemma get_put_same: "get (put k v m) k = Some v"
  by (simp add: get_put)

lemma get_put_other: "j \<noteq> k \<Longrightarrow> get (put k v m) j = get m j"
  by (simp add: get_put)

lemma dom_put: "dom_of (put k v m) = insert k (dom_of m)"
  by (auto simp: dom_of_def get_put)

lemma dom_del: "wf m \<Longrightarrow> dom_of (del k m) = dom_of m - {k}"
  by (auto simp: dom_of_def get_del)

lemma put_put_get: "get (put k v (put k u m)) = get (put k v m)"
  by (auto simp: get_put)

lemma move_get:
  assumes "wf a" and "get a k = Some v"
  shows "get (del k a) k = None \<and> get (put k v b) k = Some v"
  using assms by (simp add: get_put get_del)

end

interpretation dirs: kv_store dir_get dir_put dir_del dir_wf
proof unfold_locales
  fix k :: 'k and v :: 'v and m :: "('k, 'v) dir" and j :: 'k
  show "dir_get (dir_put k v m) j = (if j = k then Some v else dir_get m j)"
    by (simp add: dir_get_def dir_put_def update_conv')
  show "dir_wf m \<Longrightarrow> dir_wf (dir_put k v m)"
    by (simp add: dir_wf_def dir_put_def distinct_update)
  show "dir_wf m \<Longrightarrow> dir_get (dir_del k m) j = (if j = k then None else dir_get m j)"
    by (simp add: dir_get_def dir_del_def delete_conv')
  show "dir_wf m \<Longrightarrow> dir_wf (dir_del k m)"
    by (simp add: dir_wf_def dir_del_def distinct_delete)
qed

lemmas dir_get_put [simp] = dirs.get_put
lemmas dir_wf_put [simp] = dirs.wf_put
lemmas dir_wf_del [simp] = dirs.wf_del

lemma dir_get_del [simp]: "dir_get (dir_del k d) j = (if j = k then None else dir_get d j)"
  by (simp add: dir_get_def dir_del_def delete_conv')

lemma dir_get_Nil [simp]: "dir_get [] k = None"
  by (simp add: dir_get_def)

lemma dir_wf_Nil [simp]: "dir_wf []"
  by (simp add: dir_wf_def)

lemma dir_get_in_set: "dir_get d k = Some v \<Longrightarrow> (k, v) \<in> set d"
  by (simp add: dir_get_def map_of_SomeD)

lemma in_set_dir_get: "dir_wf d \<Longrightarrow> (k, v) \<in> set d \<Longrightarrow> dir_get d k = Some v"
  by (simp add: dir_get_def dir_wf_def)

lemma dir_wf_retain [simp]: "dir_wf d \<Longrightarrow> dir_wf (dir_retain p d)"
  unfolding dir_wf_def dir_retain_def by (induction d) auto

lemma dir_get_retain:
  assumes "dir_wf d"
  shows "dir_get (dir_retain p d) k =
    (case dir_get d k of None \<Rightarrow> None | Some v \<Rightarrow> if p k v then Some v else None)"
  using assms unfolding dir_wf_def dir_get_def dir_retain_def
  by (induction d) (auto split: option.splits simp: map_of_eq_None_iff intro: rev_image_eqI)

lemma set_dir_put: "set (dir_put k v d) \<subseteq> insert (k, v) (set d)"
  unfolding dir_put_def by (induction d) auto

lemma set_dir_del: "set (dir_del k d) \<subseteq> set d"
  by (auto simp: dir_del_def AList.delete_eq)

lemma dir_put_keys: "fst ` set (dir_put k v d) = insert k (fst ` set d)"
  unfolding dir_put_def by (simp add: dom_update)

lemma dir_put_new: "dir_get d k = None \<Longrightarrow> dir_put k v d = d @ [(k, v)]"
  unfolding dir_put_def dir_get_def by (induction d) (auto split: if_splits)

lemma dir_keys_iff: "k \<in> fst ` set d \<longleftrightarrow> dir_get d k \<noteq> None"
  by (simp add: dir_get_def map_of_eq_None_iff)

section \<open>Unsigned integers\<close>

text \<open>A \<open>u64\<close> is a natural number below \<open>2 ^ 64\<close>; additions in the release profile wrap.\<close>

definition u64_bound :: nat where
  "u64_bound = 2 ^ 64"

definition u64_add :: "nat \<Rightarrow> nat \<Rightarrow> nat" where
  "u64_add a b = (a + b) mod u64_bound"

definition u32_bound :: nat where
  "u32_bound = 2 ^ 32"

definition u32_add :: "nat \<Rightarrow> nat \<Rightarrow> nat" where
  "u32_add a b = (a + b) mod u32_bound"

definition saturating_sub :: "nat \<Rightarrow> nat \<Rightarrow> nat" where
  "saturating_sub a b = (if b \<le> a then a - b else 0)"

lemma u64_add_small: "a + b < u64_bound \<Longrightarrow> u64_add a b = a + b"
  by (simp add: u64_add_def)

lemma u64_add_bound: "u64_add a b < u64_bound"
  by (simp add: u64_add_def u64_bound_def)

lemma u32_add_small: "a + b < u32_bound \<Longrightarrow> u32_add a b = a + b"
  by (simp add: u32_add_def)

section \<open>Lists\<close>

lemma sorted_take_filter: "sorted (map f xs) \<Longrightarrow> sorted (map f (take n (filter p xs)))"
  by (metis sorted_filter sorted_wrt_take take_map)

lemma set_take_filter: "x \<in> set (take n (filter p xs)) \<Longrightarrow> x \<in> set xs \<and> p x"
  by (auto dest: in_set_takeD)

end
