(* ===== verification/Rust_Std.thy ===== *)
theory Rust_Std
  imports Prelude
begin

text \<open>
  The parts of Rust's standard library the sources use on strings and integers. A \<open>String\<close>, a
  \<open>&str\<close> and a \<open>Vec<u8>\<close> are lists of characters (a character is a byte, so \<open>as_bytes\<close> is the
  identity). Modelled: prefix stripping (\<open>strip_prefix\<close>, \<open>trim_start_matches\<close>), \<open>trim\<close> on the
  ASCII blanks, \<open>to_ascii_lowercase\<close>, the \<open>parse\<close>/\<open>from_str_radix\<close> loop on unsigned integers with
  its four errors in the order the loop finds them, decimal and hexadecimal printing, and
  \<open>to_be_bytes\<close>/\<open>to_le_bytes\<close>. The lemmas give the round trips.
\<close>

section \<open>Strings\<close>

fun strip_prefix :: "string \<Rightarrow> string \<Rightarrow> string option" where
  "strip_prefix [] s = Some s"
| "strip_prefix (p # ps) [] = None"
| "strip_prefix (p # ps) (c # cs) = (if p = c then strip_prefix ps cs else None)"

lemma strip_prefix_Some_iff: "strip_prefix p s = Some r \<longleftrightarrow> s = p @ r"
  by (induction p s rule: strip_prefix.induct) auto

lemma strip_prefix_None_iff: "strip_prefix p s = None \<longleftrightarrow> (\<nexists>r. s = p @ r)"
  by (metis not_None_eq strip_prefix_Some_iff)

definition starts_with :: "string \<Rightarrow> string \<Rightarrow> bool" where
  "starts_with p s = (strip_prefix p s \<noteq> None)"

definition strip_suffix :: "string \<Rightarrow> string \<Rightarrow> string option" where
  "strip_suffix x s = map_option rev (strip_prefix (rev x) (rev s))"

definition ends_with :: "string \<Rightarrow> string \<Rightarrow> bool" where
  "ends_with x s = (strip_suffix x s \<noteq> None)"

lemma strip_suffix_Some_iff: "strip_suffix x s = Some r \<longleftrightarrow> s = r @ x"
  by (auto simp: strip_suffix_def strip_prefix_Some_iff) (metis rev_append rev_rev_ident)+

lemma strip_suffix_append [simp]: "strip_suffix x (r @ x) = Some r"
  by (simp add: strip_suffix_Some_iff)

lemma ends_with_iff: "ends_with x s \<longleftrightarrow> (\<exists>r. s = r @ x)"
  unfolding ends_with_def by (metis not_None_eq strip_suffix_Some_iff)

text \<open>\<open>trim_end_matches\<close> strips a non-empty suffix as often as it occurs.\<close>

function trim_end_matches :: "string \<Rightarrow> string \<Rightarrow> string" where
  "trim_end_matches x s =
     (case strip_suffix x s of Some r \<Rightarrow> if x = [] then s else trim_end_matches x r | None \<Rightarrow> s)"
  by auto
termination by (relation "measure (length \<circ> snd)") (auto simp: strip_suffix_Some_iff)

declare trim_end_matches.simps [simp del]

text \<open>\<open>trim_start_matches("0x")\<close> strips the pattern as often as it occurs.\<close>

fun trim_0x :: "string \<Rightarrow> string" where
  "trim_0x (a # b # s) = (if a = CHR ''0'' \<and> b = CHR ''x'' then trim_0x s else a # b # s)"
| "trim_0x s = s"

lemma trim_0x_cons [simp]: "trim_0x (CHR ''0'' # CHR ''x'' # s) = trim_0x s"
  by simp

lemma trim_0x_idem [simp]: "trim_0x (trim_0x s) = trim_0x s"
  by (induction s rule: trim_0x.induct) auto

definition is_blank :: "char \<Rightarrow> bool" where
  "is_blank c = (of_char c \<in> {9 :: nat, 10, 11, 12, 13, 32})"

definition trim_str :: "string \<Rightarrow> string" where
  "trim_str s = rev (dropWhile is_blank (rev (dropWhile is_blank s)))"

definition to_lower :: "char \<Rightarrow> char" where
  "to_lower c = (let n = of_char c :: nat in if 65 \<le> n \<and> n \<le> 90 then char_of (n + 32) else c)"

definition to_ascii_lowercase :: "string \<Rightarrow> string" where
  "to_ascii_lowercase s = map to_lower s"

definition eq_ignore_ascii_case :: "string \<Rightarrow> string \<Rightarrow> bool" where
  "eq_ignore_ascii_case a b = (to_ascii_lowercase a = to_ascii_lowercase b)"

lemma to_lower_idem [simp]: "to_lower (to_lower c) = to_lower c"
  by (auto simp: to_lower_def Let_def)

lemma to_ascii_lowercase_idem [simp]: "to_ascii_lowercase (to_ascii_lowercase s) = to_ascii_lowercase s"
  by (simp add: to_ascii_lowercase_def comp_def)

section \<open>Digits\<close>

definition digit_char :: "nat \<Rightarrow> char" where
  "digit_char d = char_of (if d < 10 then 48 + d else 87 + d)"

definition to_digit :: "nat \<Rightarrow> char \<Rightarrow> nat option" where
  "to_digit radix c = (let n = of_char c;
      d = (if 48 \<le> n \<and> n \<le> 57 then Some (n - 48)
           else if 97 \<le> n \<and> n \<le> 122 then Some (n - 87)
           else if 65 \<le> n \<and> n \<le> 90 then Some (n - 55)
           else None)
    in case d of None \<Rightarrow> None | Some v \<Rightarrow> if v < radix then Some v else None)"

lemma to_digit_digit_char: "d < radix \<Longrightarrow> radix \<le> 36 \<Longrightarrow> to_digit radix (digit_char d) = Some d"
  by (auto simp: to_digit_def digit_char_def)

lemma digit_char_not_sign: "d < 36 \<Longrightarrow> digit_char d \<noteq> CHR ''+'' \<and> digit_char d \<noteq> CHR ''-''"
  using to_digit_digit_char[of d 36] by (auto simp: to_digit_def)

section \<open>Printing\<close>

fun show_radix :: "nat \<Rightarrow> nat \<Rightarrow> string" where
  "show_radix radix n =
     (if radix < 2 \<or> n < radix then [digit_char n]
      else show_radix radix (n div radix) @ [digit_char (n mod radix)])"

declare show_radix.simps [simp del]

definition show_nat :: "nat \<Rightarrow> string" where
  "show_nat n = show_radix 10 n"

definition show_hex :: "nat \<Rightarrow> string" where
  "show_hex n = show_radix 16 n"

text \<open>\<open>{:016x}\<close>: at least sixteen digits, padded with zeros.\<close>

definition show_hex16 :: "nat \<Rightarrow> string" where
  "show_hex16 n = replicate (16 - length (show_hex n)) (CHR ''0'') @ show_hex n"

lemma show_radix_nonempty [simp]: "show_radix r n \<noteq> []"
  by (subst show_radix.simps) simp

section \<open>Parsing unsigned integers\<close>

datatype int_error = IntEmpty | InvalidDigit | PosOverflow

fun show_int_error :: "int_error \<Rightarrow> string" where
  "show_int_error IntEmpty = ''cannot parse integer from empty string''"
| "show_int_error InvalidDigit = ''invalid digit found in string''"
| "show_int_error PosOverflow = ''number too large to fit in target type''"

fun parse_digits :: "nat \<Rightarrow> nat \<Rightarrow> nat \<Rightarrow> string \<Rightarrow> int_error + nat" where
  "parse_digits radix bound acc [] = Inr acc"
| "parse_digits radix bound acc (c # cs) =
     (case to_digit radix c of
        None \<Rightarrow> Inl InvalidDigit
      | Some d \<Rightarrow> if acc * radix + d < bound then parse_digits radix bound (acc * radix + d) cs
                  else Inl PosOverflow)"

definition from_str_radix :: "nat \<Rightarrow> nat \<Rightarrow> string \<Rightarrow> int_error + nat" where
  "from_str_radix bound radix s =
     (case s of
        [] \<Rightarrow> Inl IntEmpty
      | [c] \<Rightarrow> if c = CHR ''+'' \<or> c = CHR ''-'' then Inl InvalidDigit else parse_digits radix bound 0 s
      | c # cs \<Rightarrow> if c = CHR ''+'' then parse_digits radix bound 0 cs else parse_digits radix bound 0 s)"

definition parse_u64 :: "string \<Rightarrow> int_error + nat" where
  "parse_u64 = from_str_radix u64_bound 10"

definition u128_bound :: nat where
  "u128_bound = 2 ^ 128"

definition parse_u128 :: "string \<Rightarrow> int_error + nat" where
  "parse_u128 = from_str_radix u128_bound 10"

lemma parse_digits_append:
  "parse_digits r b acc (xs @ ys) = bind_res (parse_digits r b acc xs) (\<lambda>v. parse_digits r b v ys)"
  by (induction xs arbitrary: acc) (auto split: option.splits)

lemma parse_digits_show:
  "2 \<le> r \<Longrightarrow> r \<le> 36 \<Longrightarrow> n < b \<Longrightarrow> parse_digits r b 0 (show_radix r n) = Inr n"
proof (induction n rule: less_induct)
  case (less n)
  show ?case
  proof (cases "n < r")
    case True
    then show ?thesis
      using less.prems by (simp add: show_radix.simps to_digit_digit_char)
  next
    case False
    then have "n div r < n" and "n div r < b"
      using less.prems by (simp, meson div_le_dividend le_less_trans)
    then have "parse_digits r b 0 (show_radix r (n div r)) = Inr (n div r)"
      using less by blast
    then show ?thesis
      using False less.prems
      by (subst show_radix.simps) (simp add: parse_digits_append to_digit_digit_char)
  qed
qed

lemma hd_show_radix_not_sign:
  assumes "2 \<le> r" and "r \<le> 36"
  shows "\<exists>c cs. show_radix r n = c # cs \<and> c \<noteq> CHR ''+'' \<and> c \<noteq> CHR ''-''"
proof (induction n rule: less_induct)
  case (less n)
  show ?case
  proof (cases "n < r")
    case True
    then show ?thesis
      using assms digit_char_not_sign[of n] by (subst show_radix.simps) simp
  next
    case False
    then have "n div r < n"
      using assms by simp
    from less[OF this] show ?thesis
      using False assms by (subst show_radix.simps) auto
  qed
qed

lemma from_str_radix_show:
  assumes "2 \<le> r" and "r \<le> 36" and "n < b"
  shows "from_str_radix b r (show_radix r n) = Inr n"
proof -
  obtain c cs where "show_radix r n = c # cs" "c \<noteq> CHR ''+''" "c \<noteq> CHR ''-''"
    using hd_show_radix_not_sign[OF assms(1,2)] by blast
  then show ?thesis
    using parse_digits_show[OF assms] by (auto simp: from_str_radix_def split: list.split)
qed

lemma parse_u64_show_nat: "n < u64_bound \<Longrightarrow> parse_u64 (show_nat n) = Inr n"
  by (simp add: parse_u64_def show_nat_def from_str_radix_show)

lemma show_nat_inj: "show_nat m = show_nat n \<longleftrightarrow> m = n"
proof
  assume eq: "show_nat m = show_nat n"
  have "from_str_radix (Suc (max m n)) 10 (show_nat k) = Inr k" if "k \<le> max m n" for k
    using that by (simp add: show_nat_def from_str_radix_show)
  then show "m = n"
    using eq by (metis max.cobounded1 max.cobounded2 sum.inject(2))
qed simp

lemma parse_digits_bound: "parse_digits r b acc s = Inr n \<Longrightarrow> acc < b \<Longrightarrow> n < b"
  by (induction s arbitrary: acc) (auto split: option.splits if_splits)

lemma from_str_radix_bound: "from_str_radix b r s = Inr n \<Longrightarrow> 0 < b \<Longrightarrow> n < b"
  by (auto simp: from_str_radix_def simp del: parse_digits.simps split: list.splits if_splits
      dest: parse_digits_bound)

section \<open>Big-endian and little-endian bytes\<close>

fun le_bytes :: "nat \<Rightarrow> nat \<Rightarrow> string" where
  "le_bytes 0 n = []"
| "le_bytes (Suc k) n = char_of (n mod 256) # le_bytes k (n div 256)"

definition to_le_bytes :: "nat \<Rightarrow> string" where
  "to_le_bytes n = le_bytes 8 n"

definition to_be_bytes :: "nat \<Rightarrow> string" where
  "to_be_bytes n = rev (le_bytes 8 n)"

lemma length_le_bytes [simp]: "length (le_bytes k n) = k"
  by (induction k arbitrary: n) auto

lemma le_bytes_inj: "m < 256 ^ k \<Longrightarrow> n < 256 ^ k \<Longrightarrow> le_bytes k m = le_bytes k n \<Longrightarrow> m = n"
proof (induction k arbitrary: m n)
  case (Suc k)
  from Suc.prems have "(of_char (char_of (m mod 256) :: char) :: nat) = of_char (char_of (n mod 256) :: char)"
    by simp
  then have "m mod 256 = n mod 256" by simp
  moreover have "m div 256 = n div 256"
    using Suc.prems by (intro Suc.IH) (auto simp: less_mult_imp_div_less mult.commute)
  ultimately show ?case by (metis div_mult_mod_eq)
qed simp

lemma to_be_bytes_inj: "m < u64_bound \<Longrightarrow> n < u64_bound \<Longrightarrow> to_be_bytes m = to_be_bytes n \<Longrightarrow> m = n"
  using le_bytes_inj[of m 8 n] by (simp add: to_be_bytes_def u64_bound_def)

lemma length_to_be_bytes [simp]: "length (to_be_bytes n) = 8"
  by (simp add: to_be_bytes_def)

lemma show_nat_digits: "c \<in> set (show_nat n) \<Longrightarrow> to_digit 10 c \<noteq> None"
proof -
  have "\<forall>c \<in> set (show_radix 10 n). to_digit 10 c \<noteq> None"
  proof (induction n rule: less_induct)
    case (less n)
    have "\<forall>c \<in> set (show_radix 10 (n div 10)). to_digit 10 c \<noteq> None" if "\<not> n < 10"
      using that by (intro less.IH) simp
    then show ?case
      using to_digit_digit_char[of n 10] to_digit_digit_char[of "n mod 10" 10]
      by (subst show_radix.simps) auto
  qed
  then show "c \<in> set (show_nat n) \<Longrightarrow> to_digit 10 c \<noteq> None"
    by (simp add: show_nat_def)
qed

lemma show_nat_no_slash: "CHR ''/'' \<notin> set (show_nat n)"
  using show_nat_digits[of "CHR ''/''" n] by (auto simp: to_digit_def)

lemma show_nat_no_dot: "CHR ''.'' \<notin> set (show_nat n)"
  using show_nat_digits[of "CHR ''.''" n] by (auto simp: to_digit_def)

end
