(* ===== verification/Fs.thy ===== *)
theory Fs
  imports Rust_Std
begin

text \<open>
  The operating system as \<open>std::fs\<close>, \<open>std::path\<close> and \<open>std::time\<close> present it. A path is the list of
  its components; \<open>path_join\<close> is \<open>PathBuf::join\<close> (an absolute argument replaces the path, a
  relative one may have several components and \<open>..\<close>), and the kernel resolves \<open>..\<close> when the
  path is used. A file is \<open>Intact\<close> with the value that was serialised into it, or \<open>Torn\<close> with the
  error that parsing its bytes gives.

  Every fallible call consumes one entry of the script \<open>fs_faults\<close> (an exhausted script means
  success), so a theorem about all scripts covers every I/O failure at every call; a failing
  \<open>write_all\<close> may leave part of the data behind. The calls \<open>exists\<close>, \<open>is_file\<close> and \<open>is_dir\<close> cannot
  report an error: they answer \<open>false\<close> when the entry of \<open>fs_stat_faults\<close> says so. The clock
  reads \<open>fs_clock\<close>.
\<close>

section \<open>Paths\<close>

type_synonym path = "string list"

fun split_slash :: "string \<Rightarrow> string list" where
  "split_slash [] = [[]]"
| "split_slash (c # cs) =
     (if c = CHR ''/'' then [] # split_slash cs
      else (case split_slash cs of [] \<Rightarrow> [[c]] | w # ws \<Rightarrow> (c # w) # ws))"

definition path_components :: "string \<Rightarrow> path" where
  "path_components s = filter (\<lambda>c. c \<noteq> [] \<and> c \<noteq> ''.'') (split_slash s)"

definition path_join :: "path \<Rightarrow> string \<Rightarrow> path" where
  "path_join p s = (if starts_with ''/'' s then path_components s else p @ path_components s)"

definition path_parent :: "path \<Rightarrow> path option" where
  "path_parent p = (if p = [] then None else Some (butlast p))"

definition path_file_name :: "path \<Rightarrow> string option" where
  "path_file_name p = (if p = [] \<or> last p = ''..'' then None else Some (last p))"

text \<open>
  \<open>Path::with_extension\<close> replaces what follows the last dot of the file name; a name without a dot,
  or with a dot only at its start, has no extension.
\<close>

definition file_stem :: "string \<Rightarrow> string" where
  "file_stem n =
     (let s = rev (tl (dropWhile (\<lambda>c. c \<noteq> CHR ''.'') (rev n))) in if CHR ''.'' \<notin> set n \<or> s = [] then n else s)"

definition path_with_extension :: "string \<Rightarrow> path \<Rightarrow> path" where
  "path_with_extension ext p =
     (if path_file_name p = None then p else butlast p @ [file_stem (last p) @ ''.'' @ ext])"

definition resolve :: "path \<Rightarrow> path" where
  "resolve p = foldl (\<lambda>acc c. if c = ''..'' then butlast acc else acc @ [c]) [] p"

fun path_display :: "path \<Rightarrow> string" where
  "path_display [] = []"
| "path_display (c # cs) = CHR ''/'' # c @ path_display cs"

definition plain_name :: "string \<Rightarrow> bool" where
  "plain_name n \<longleftrightarrow> n \<noteq> [] \<and> CHR ''/'' \<notin> set n \<and> n \<noteq> ''.'' \<and> n \<noteq> ''..''"

definition plain_path :: "path \<Rightarrow> bool" where
  "plain_path p \<longleftrightarrow> ''..'' \<notin> set p"

lemma split_slash_plain: "CHR ''/'' \<notin> set n \<Longrightarrow> split_slash n = [n]"
  by (induction n) auto

lemma path_join_plain [simp]: "plain_name n \<Longrightarrow> path_join p n = p @ [n]"
  by (cases n) (auto simp: path_join_def path_components_def plain_name_def split_slash_plain starts_with_def)

lemma resolve_snoc: "resolve (p @ [c]) = (if c = ''..'' then butlast (resolve p) else resolve p @ [c])"
  by (simp add: resolve_def)

lemma resolve_plain [simp]: "plain_path p \<Longrightarrow> resolve p = p"
  by (induction p rule: rev_induct) (auto simp: plain_path_def resolve_snoc resolve_def[of "[]"])

lemma plain_path_append [simp]: "plain_path (p @ q) \<longleftrightarrow> plain_path p \<and> plain_path q"
  by (auto simp: plain_path_def)

lemma plain_path_Cons [simp]: "plain_path (c # q) \<longleftrightarrow> c \<noteq> ''..'' \<and> plain_path q"
  by (auto simp: plain_path_def)

lemma plain_path_Nil [simp]: "plain_path []"
  by (simp add: plain_path_def)

lemma plain_name_not_dots [simp]: "plain_name n \<Longrightarrow> n \<noteq> ''..''"
  by (simp add: plain_name_def)

section \<open>The state of the file system\<close>

datatype 'c fdata = Intact 'c | Torn string

datatype fault = FNone | FErr string | FPartial string string

record 'c fsys =
  fs_files :: "(path, 'c fdata) dir"
  fs_dirs :: "path list"
  fs_faults :: "fault list"
  fs_stat_faults :: "bool list"
  fs_clock :: "nat list"

definition fget :: "'c fsys \<Rightarrow> path \<Rightarrow> 'c fdata option" where
  "fget s p = dir_get (fs_files s) (resolve p)"

definition fput :: "path \<Rightarrow> 'c fdata \<Rightarrow> 'c fsys \<Rightarrow> 'c fsys" where
  "fput p f s = s \<lparr> fs_files := dir_put (resolve p) f (fs_files s) \<rparr>"

definition has_dir :: "'c fsys \<Rightarrow> path \<Rightarrow> bool" where
  "has_dir s p \<longleftrightarrow> resolve p \<in> set (fs_dirs s)"

definition next_fault :: "'c fsys \<Rightarrow> fault \<times> 'c fsys" where
  "next_fault s = (case fs_faults s of [] \<Rightarrow> (FNone, s) | f # fs \<Rightarrow> (f, s \<lparr> fs_faults := fs \<rparr>))"

section \<open>Calls\<close>

definition io_call :: "('c fsys, string, 'a) comp \<Rightarrow> ('c fsys, string, 'a) comp" where
  "io_call m s =
     (case next_fault s of
        (FNone, s') \<Rightarrow> m s'
      | (FErr e, s') \<Rightarrow> (Inl e, s')
      | (FPartial e _, s') \<Rightarrow> (Inl e, s'))"

definition ENOENT :: string where
  "ENOENT = ''No such file or directory (os error 2)''"

definition EISDIR :: string where
  "EISDIR = ''Is a directory (os error 21)''"

definition ENOTDIR :: string where
  "ENOTDIR = ''Not a directory (os error 20)''"

definition EEXIST :: string where
  "EEXIST = ''File exists (os error 17)''"

definition EOF_PARSE :: string where
  "EOF_PARSE = ''EOF while parsing a value at line 1 column 0''"

text \<open>
  \<open>create_dir_all\<close>: nothing to do for a directory that exists; a regular file in the place of the directory,
  or of one of its ancestors, is an error; otherwise the missing directories are made.
\<close>

definition fs_create_dir_all :: "path \<Rightarrow> ('c fsys, string, unit) comp" where
  "fs_create_dir_all p = io_call (\<lambda>s.
     let ds = map (\<lambda>i. take (Suc i) (resolve p)) [0..<length (resolve p)] in
     if has_dir s p then (Inr (), s)
     else if fget s p \<noteq> None then (Inl EEXIST, s)
     else if \<exists>d \<in> set ds. dir_get (fs_files s) d \<noteq> None then (Inl ENOTDIR, s)
     else (Inr (), s \<lparr> fs_dirs := fs_dirs s @ filter (\<lambda>d. d \<notin> set (fs_dirs s)) ds \<rparr>))"

definition fs_create_file :: "path \<Rightarrow> ('c fsys, string, unit) comp" where
  "fs_create_file p = io_call (\<lambda>s.
     if \<not> has_dir s (butlast (resolve p)) then (Inl ENOENT, s)
     else if has_dir s p then (Inl EISDIR, s)
     else (Inr (), fput p (Torn EOF_PARSE) s))"

definition fs_write_all :: "path \<Rightarrow> 'c \<Rightarrow> ('c fsys, string, unit) comp" where
  "fs_write_all p v s =
     (case next_fault s of
        (FNone, s') \<Rightarrow> (Inr (), fput p (Intact v) s')
      | (FErr e, s') \<Rightarrow> (Inl e, s')
      | (FPartial e pe, s') \<Rightarrow> (Inl e, fput p (Torn pe) s'))"

definition fs_sync_all :: "('c fsys, string, unit) comp" where
  "fs_sync_all = io_call (\<lambda>s. (Inr (), s))"

definition fs_rename :: "path \<Rightarrow> path \<Rightarrow> ('c fsys, string, unit) comp" where
  "fs_rename a b = io_call (\<lambda>s.
     case fget s a of
       None \<Rightarrow> (Inl ENOENT, s)
     | Some f \<Rightarrow>
         if \<not> has_dir s (butlast (resolve b)) then (Inl ENOENT, s)
         else if has_dir s b then (Inl EISDIR, s)
         else (Inr (), fput b f (s \<lparr> fs_files := dir_del (resolve a) (fs_files s) \<rparr>)))"

definition fs_remove_file :: "path \<Rightarrow> ('c fsys, string, unit) comp" where
  "fs_remove_file p = io_call (\<lambda>s.
     if fget s p = None then (Inl ENOENT, s)
     else (Inr (), s \<lparr> fs_files := dir_del (resolve p) (fs_files s) \<rparr>))"

text \<open>\<open>fs::write\<close>: create the file, then write the whole value.\<close>

definition fs_write :: "path \<Rightarrow> 'c \<Rightarrow> ('c fsys, string, unit) comp" where
  "fs_write p v = bindS (fs_create_file p) (\<lambda>_. fs_write_all p v)"

definition fs_read :: "path \<Rightarrow> ('c fsys, string, 'c fdata) comp" where
  "fs_read p = io_call (\<lambda>s. (ok_or ENOENT (fget s p), s))"

definition next_stat :: "('c fsys \<Rightarrow> bool) \<Rightarrow> 'c fsys \<Rightarrow> bool \<times> 'c fsys" where
  "next_stat q s =
     (case fs_stat_faults s of
        [] \<Rightarrow> (q s, s)
      | failed # rest \<Rightarrow> (\<not> failed \<and> q s, s \<lparr> fs_stat_faults := rest \<rparr>))"

definition stat_call :: "('c fsys \<Rightarrow> bool) \<Rightarrow> ('c fsys, 'e, bool) comp" where
  "stat_call q s = (case next_stat q s of (b, s') \<Rightarrow> (Inr b, s'))"

definition fs_is_file :: "path \<Rightarrow> ('c fsys, 'e, bool) comp" where
  "fs_is_file p = stat_call (\<lambda>s. fget s p \<noteq> None)"

definition fs_is_dir :: "path \<Rightarrow> ('c fsys, 'e, bool) comp" where
  "fs_is_dir p = stat_call (\<lambda>s. has_dir s p)"

definition fs_exists :: "path \<Rightarrow> ('c fsys, 'e, bool) comp" where
  "fs_exists p = stat_call (\<lambda>s. fget s p \<noteq> None \<or> has_dir s p)"

text \<open>
  \<open>read_dir\<close>: the entries with their \<open>is_file\<close> flag, files first, in order of creation. The name of a
  directory entry is never empty, has no slash, and \<open>.\<close> and \<open>..\<close> are left out.
\<close>

definition entry_of :: "path \<Rightarrow> path \<Rightarrow> bool" where
  "entry_of d q \<longleftrightarrow> q \<noteq> [] \<and> butlast q = d \<and> plain_name (last q)"

definition dir_entries :: "'c fsys \<Rightarrow> path \<Rightarrow> (path \<times> bool) list" where
  "dir_entries s p =
     map (\<lambda>q. (q, True)) (filter (entry_of (resolve p)) (map fst (fs_files s))) @
     map (\<lambda>q. (q, False)) (filter (entry_of (resolve p)) (fs_dirs s))"

definition fs_read_dir :: "path \<Rightarrow> ('c fsys, string, (path \<times> bool) list) comp" where
  "fs_read_dir p = io_call (\<lambda>s.
     if has_dir s p then (Inr (dir_entries s p), s) else (Inl ENOENT, s))"

definition fs_now :: "('c fsys, 'e, nat) comp" where
  "fs_now s = (case fs_clock s of [] \<Rightarrow> (Inr 0, s) | t # ts \<Rightarrow> (Inr (t mod u64_bound), s \<lparr> fs_clock := ts \<rparr>))"

section \<open>Lemmas\<close>

lemma fget_fput [simp]: "fget (fput p f s) q = (if resolve q = resolve p then Some f else fget s q)"
  by (simp add: fget_def fput_def)

lemma fput_fields [simp]:
  "fs_dirs (fput p f s) = fs_dirs s"
  "fs_faults (fput p f s) = fs_faults s" "fs_stat_faults (fput p f s) = fs_stat_faults s"
  "fs_clock (fput p f s) = fs_clock s"
  by (simp_all add: fput_def)

lemma fget_update [simp]:
  "fget (s \<lparr> fs_faults := x \<rparr>) p = fget s p" "fget (s \<lparr> fs_dirs := d \<rparr>) p = fget s p"
  "fget (s \<lparr> fs_stat_faults := y \<rparr>) p = fget s p" "fget (s \<lparr> fs_clock := c \<rparr>) p = fget s p"
  by (simp_all add: fget_def)

lemma fget_del [simp]:
  "fget (s \<lparr> fs_files := dir_del x (fs_files s) \<rparr>) q = (if resolve q = x then None else fget s q)"
  by (simp add: fget_def)

lemma has_dir_fput [simp]: "has_dir (fput p f s) q = has_dir s q"
  by (simp add: has_dir_def)

text \<open>
  The frame of a call: \<open>same_files\<close> relates two states with the same files away
  from the set of paths the call touches.
\<close>

definition same_files :: "path set \<Rightarrow> 'c fsys \<Rightarrow> 'c fsys \<Rightarrow> bool" where
  "same_files A s s' \<longleftrightarrow> (fs_stat_faults s = [] \<longrightarrow> fs_stat_faults s' = []) \<and>
     set (fs_dirs s) \<subseteq> set (fs_dirs s') \<and> (\<forall>p. resolve p \<notin> A \<longrightarrow> fget s' p = fget s p)"

lemma file_stem_json [simp]:
  assumes "n \<noteq> []" and "e \<noteq> []" and "CHR ''.'' \<notin> set e"
  shows "file_stem (n @ CHR ''.'' # e) = n"
proof -
  have "dropWhile (\<lambda>c. c \<noteq> CHR ''.'') (rev e @ CHR ''.'' # rev n) = CHR ''.'' # rev n"
    using assms(3) by (auto simp: dropWhile_append)
  then show ?thesis using assms(1) by (simp add: file_stem_def)
qed

lemma same_files_refl [simp]: "same_files A s s"
  by (simp add: same_files_def)

lemma same_files_trans: "same_files A s t \<Longrightarrow> same_files B t u \<Longrightarrow> same_files (A \<union> B) s u"
  by (auto simp: same_files_def)

lemma same_files_trans1: "same_files A s t \<Longrightarrow> same_files A t u \<Longrightarrow> same_files A s u"
  by (auto simp: same_files_def)

lemma same_files_mono: "same_files A s t \<Longrightarrow> A \<subseteq> B \<Longrightarrow> same_files B s t"
  by (auto simp: same_files_def)

lemma same_filesD: "same_files A s t \<Longrightarrow> resolve p \<notin> A \<Longrightarrow> fget t p = fget s p"
  by (simp add: same_files_def)

lemma same_files_stat: "same_files A s t \<Longrightarrow> fs_stat_faults s = [] \<Longrightarrow> fs_stat_faults t = []"
  by (simp add: same_files_def)

lemma next_fault_frame: "next_fault s = (f, s') \<Longrightarrow> same_files A s s' \<and> fget s' = fget s \<and> fs_dirs s' = fs_dirs s"
  by (auto simp: next_fault_def same_files_def split: list.splits)

lemma next_fault_fget: "next_fault s = (f, s') \<Longrightarrow> fget s' = fget s"
  by (auto simp: next_fault_def fun_eq_iff split: list.splits)

lemma next_fault_none [simp]: "fs_faults s = [] \<Longrightarrow> next_fault s = (FNone, s)"
  by (simp add: next_fault_def)

lemma io_call_none [simp]: "fs_faults s = [] \<Longrightarrow> io_call m s = m s"
  by (simp add: io_call_def)

lemma io_call_cases:
  assumes "io_call m s = (r, s')"
  obtains e where "r = Inl e" "same_files {} s s'" "fget s' = fget s" "fs_dirs s' = fs_dirs s"
  | s1 where "same_files {} s s1" "fget s1 = fget s" "fs_dirs s1 = fs_dirs s" "m s1 = (r, s')"
  using assms next_fault_frame[of s _ _ "{}"]
  by (auto simp: io_call_def split: prod.splits fault.splits)

lemma io_call_read_frame:
  assumes "\<And>t. same_files {} t (snd (m t))"
  shows "same_files {} s (snd (io_call m s))"
proof -
  obtain r s' where e: "io_call m s = (r, s')" by fastforce
  then show ?thesis
  proof (cases rule: io_call_cases)
    case (2 s1)
    then show ?thesis
      using assms[of s1] e same_files_trans1 by fastforce
  qed (simp add: e)
qed

lemma stat_call_ok [simp]: "fs_stat_faults s = [] \<Longrightarrow> stat_call q s = (Inr (q s), s)"
  by (simp add: stat_call_def next_stat_def)

lemma stat_call_frame: "stat_call q s = (r, s') \<Longrightarrow> same_files {} s s' \<and> fget s' = fget s"
  by (auto simp: stat_call_def next_stat_def same_files_def split: list.splits)

lemma fs_now_frame: "fs_now s = (r, s') \<Longrightarrow> same_files {} s s' \<and> fget s' = fget s \<and> (\<exists>t. r = Inr t \<and> t < u64_bound)"
  by (auto simp: fs_now_def same_files_def u64_bound_def split: list.splits)

section \<open>Frames of the calls\<close>

lemma plain_seq_name [simp]: "plain_name (show_nat n @ ''.json'')"
  using show_nat_no_slash[of n] by (auto simp: plain_name_def append_eq_Cons_conv)

lemma same_files_fput: "same_files {resolve p} s (fput p f s)"
  by (auto simp: same_files_def)

lemma create_dir_all_frame:
  assumes "fs_create_dir_all p s = (r, s')"
  shows "same_files {} s s' \<and> fget s' = fget s"
  using assms[unfolded fs_create_dir_all_def]
  by (cases rule: io_call_cases) (auto simp: same_files_def Let_def split: if_splits)

lemma create_file_frame:
  assumes "fs_create_file p s = (r, s')"
  shows "same_files {resolve p} s s'"
  using assms[unfolded fs_create_file_def]
  by (cases rule: io_call_cases) (auto simp: same_files_def split: if_splits)

lemma write_all_frame:
  assumes "fs_write_all p v s = (r, s')"
  shows "same_files {resolve p} s s' \<and> (is_ok r \<longrightarrow> fget s' p = Some (Intact v))"
  using assms next_fault_frame[of s _ _ "{}"]
  by (auto simp: fs_write_all_def same_files_def split: prod.splits fault.splits)

lemma sync_all_frame:
  assumes "fs_sync_all s = (r, s')"
  shows "same_files {} s s' \<and> fget s' = fget s"
  using assms[unfolded fs_sync_all_def]
  by (cases rule: io_call_cases) (auto simp: same_files_def)

lemma rename_frame:
  assumes "fs_rename p q s = (r, s')"
  shows "same_files {resolve p, resolve q} s s'"
    and "is_ok r \<Longrightarrow> fget s' q = fget s p \<and> fget s p \<noteq> None"
    and "\<not> is_ok r \<Longrightarrow> fget s' = fget s"
  using assms[unfolded fs_rename_def]
  by (cases rule: io_call_cases; auto simp: same_files_def split: if_splits option.splits)+

lemma read_frame:
  assumes "fs_read p s = (r, s')"
  shows "same_files {} s s'" "fget s' = fget s" "r = Inr f \<Longrightarrow> fget s p = Some f"
  using assms[unfolded fs_read_def]
  by (cases rule: io_call_cases; auto simp: same_files_def)+

lemma frameI:
  assumes "\<And>s r s'. m s = (r, s') \<Longrightarrow> same_files A s s'"
  shows "keepsS (same_files A s0) m"
proof (rule keepsSI)
  fix s assume "same_files A s0 s"
  moreover have "same_files A s (snd (m s))"
    using assms[of s "fst (m s)" "snd (m s)"] by simp
  ultimately show "same_files A s0 (snd (m s))"
    by (rule same_files_trans1)
qed

lemma frame_rules [keeps]:
  "keepsS (same_files A s0) (fs_create_dir_all p)"
  "resolve p \<in> A \<Longrightarrow> keepsS (same_files A s0) (fs_create_file p)"
  "resolve p \<in> A \<Longrightarrow> keepsS (same_files A s0) (fs_write_all p v)"
  "keepsS (same_files A s0) fs_sync_all"
  "resolve p \<in> A \<Longrightarrow> resolve q \<in> A \<Longrightarrow> keepsS (same_files A s0) (fs_rename p q)"
  "keepsS (same_files A s0) (fs_read p)"
  by (rule frameI; meson same_files_mono empty_subsetI insert_subset create_dir_all_frame create_file_frame
      write_all_frame sync_all_frame rename_frame(1) read_frame(1))+

lemma keepsS_io_call [keeps]:
  assumes "\<And>s1. same_files A s0 s1 \<Longrightarrow> same_files A s0 (snd (m s1))"
  shows "keepsS (same_files A s0) (io_call m)"
proof (rule keepsSI)
  fix s assume s: "same_files A s0 s"
  obtain r s' where e: "io_call m s = (r, s')" by fastforce
  then show "same_files A s0 (snd (io_call m s))"
  proof (cases rule: io_call_cases)
    case 1
    then show ?thesis using s e same_files_mono same_files_trans1 by (metis empty_subsetI snd_conv)
  next
    case (2 s1)
    then have "same_files A s0 s1"
      using s same_files_mono same_files_trans1 by (metis empty_subsetI)
    then show ?thesis using assms[of s1] 2 e by simp
  qed
qed

lemma same_files_fput_in: "same_files A s0 s \<Longrightarrow> resolve p \<in> A \<Longrightarrow> same_files A s0 (fput p f s)"
  by (auto simp: same_files_def)

lemma frame_stats [keeps]:
  "keepsS (same_files A s0) (stat_call q)" "keepsS (same_files A s0) (fs_is_file p)"
  "keepsS (same_files A s0) (fs_is_dir p)" "keepsS (same_files A s0) (fs_exists p)"
  "keepsS (same_files A s0) fs_now" "keepsS (same_files A s0) (fs_read_dir p)"
proof -
  show st: "keepsS (same_files A s0) (stat_call q)" for q
    by (rule frameI) (use stat_call_frame same_files_mono in blast)
  show "keepsS (same_files A s0) (fs_is_file p)" "keepsS (same_files A s0) (fs_is_dir p)"
    "keepsS (same_files A s0) (fs_exists p)"
    by (simp_all add: fs_is_file_def fs_is_dir_def fs_exists_def st)
  show "keepsS (same_files A s0) fs_now"
    by (rule frameI) (use fs_now_frame same_files_mono in blast)
  show "keepsS (same_files A s0) (fs_read_dir p)"
    by (auto simp: fs_read_dir_def intro!: keeps)
qed

end
