(* ===== verification/Json.thy ===== *)
theory Json
  imports Rust_Std
begin

text \<open>
  \<open>serde_json::Value\<close> as the datatype of its documented variants, with the accessors the
  sources call: \<open>get\<close>, \<open>as_str\<close>, \<open>as_u64\<close>, \<open>as_i64\<close>, \<open>as_object\<close>, \<open>as_array\<close>. An object is an association
  list; \<open>json_insert\<close> is \<open>Map::insert\<close>.
\<close>

datatype json_num = PosInt nat | NegInt int | FloatText string

datatype json =
    JNull
  | JBool bool
  | JNum json_num
  | JString string
  | JArray "json list"
  | JObject "(string \<times> json) list"

fun json_get :: "json \<Rightarrow> string \<Rightarrow> json option" where
  "json_get (JObject kvs) k = map_of kvs k"
| "json_get _ k = None"

fun json_str :: "json \<Rightarrow> string option" where
  "json_str (JString s) = Some s"
| "json_str _ = None"

fun json_u64 :: "json \<Rightarrow> nat option" where
  "json_u64 (JNum (PosInt n)) = Some n"
| "json_u64 _ = None"

text \<open>A field of type \<open>u64\<close> or \<open>usize\<close> under \<open>Deserialize\<close>.\<close>

definition json_to_u64 :: "json \<Rightarrow> nat option" where
  "json_to_u64 v = Option.bind (json_u64 v) (\<lambda>n. if n < u64_bound then Some n else None)"

fun json_i64 :: "json \<Rightarrow> int option" where
  "json_i64 (JNum (PosInt n)) = (if int n < 2 ^ 63 then Some (int n) else None)"
| "json_i64 (JNum (NegInt i)) = Some i"
| "json_i64 _ = None"

fun json_object :: "json \<Rightarrow> (string \<times> json) list option" where
  "json_object (JObject kvs) = Some kvs"
| "json_object _ = None"

fun json_array :: "json \<Rightarrow> json list option" where
  "json_array (JArray xs) = Some xs"
| "json_array _ = None"

definition json_get_str :: "json \<Rightarrow> string \<Rightarrow> string option" where
  "json_get_str v k = Option.bind (json_get v k) json_str"

definition json_insert :: "string \<Rightarrow> json \<Rightarrow> (string \<times> json) list \<Rightarrow> (string \<times> json) list" where
  "json_insert k v kvs = AList.update k v kvs"

lemma json_get_insert:
  "json_get (JObject (json_insert k v kvs)) j = (if j = k then Some v else json_get (JObject kvs) j)"
  by (simp add: json_insert_def update_conv')

lemma json_get_str_simps [simp]:
  "json_get_str (JObject kvs) k = (case map_of kvs k of Some (JString s) \<Rightarrow> Some s | _ \<Rightarrow> None)"
  by (auto simp: json_get_str_def split: option.splits json.splits)

end
