(* ===== verification/Externals.thy ===== *)
theory Externals
  imports Json
begin

text \<open>
  The third-party code the sources call, as parameters: a record of functions per library
  group, passed to every definition that uses it. A fallible call returns the library's error
  text on the left. Types the sources only pass around (a Falcon signature, a public key, a
  transaction summary, a note, a transaction request, an account snapshot, a client) are type
  parameters. \<open>Felt\<close> values are naturals (\<open>Felt::new\<close> is a parameter), a \<open>Word\<close> is four of
  them.

  The hypotheses on the parameters are stated here as named predicates, each one a documented
  law of the library: the hex codec round-trips, the \<open>Word\<close> codec round-trips.
\<close>

type_synonym felt = nat

datatype mword = MWord felt felt felt felt

definition mword_zero :: mword where
  "mword_zero = MWord 0 0 0 0"

datatype account_id = AccountId felt felt

fun as_elements :: "mword \<Rightarrow> felt list" where
  "as_elements (MWord a b c d) = [a, b, c, d]"

lemma as_elements_inj: "as_elements v = as_elements w \<longleftrightarrow> v = w"
  by (cases v; cases w) auto

lemma length_as_elements [simp]: "length (as_elements w) = 4"
  by (cases w) auto

fun account_prefix :: "account_id \<Rightarrow> felt" where
  "account_prefix (AccountId p s) = p"

fun account_suffix :: "account_id \<Rightarrow> felt" where
  "account_suffix (AccountId p s) = s"

text \<open>The crates \<open>hex\<close> and \<open>base64\<close>, serialisation of a JSON value, and \<open>miden_protocol\<close>.\<close>

record ('sig, 'pk, 'summary, 'note) externals =
  hex_encode :: "string \<Rightarrow> string"
  hex_decode :: "string \<Rightarrow> string + string"
  b64_encode :: "string \<Rightarrow> string"
  b64_decode :: "string \<Rightarrow> string + string"
  json_to_vec :: "json \<Rightarrow> string + string"
  felt_new :: "nat \<Rightarrow> felt"
  hasher_hash :: "string \<Rightarrow> mword"
  hasher_merge :: "mword \<Rightarrow> mword \<Rightarrow> mword"
  hasher_hash_elements :: "felt list \<Rightarrow> mword"
  rpo_hash_elements :: "felt list \<Rightarrow> mword"
  word_to_bytes :: "mword \<Rightarrow> string"
  word_from_bytes :: "string \<Rightarrow> string + mword"
  sig_from_bytes :: "string \<Rightarrow> string + 'sig"
  sig_to_bytes :: "'sig \<Rightarrow> string"
  sig_public_key :: "'sig \<Rightarrow> 'pk"
  sig_verify :: "'sig \<Rightarrow> mword \<Rightarrow> 'pk \<Rightarrow> bool"
  pk_from_bytes :: "string \<Rightarrow> string + 'pk"
  pk_to_commitment :: "'pk \<Rightarrow> mword"
  account_from_hex :: "string \<Rightarrow> string + account_id"
  account_to_felts :: "account_id \<Rightarrow> felt \<times> felt"
  account_to_hex :: "account_id \<Rightarrow> string"
  summary_from_bytes :: "string \<Rightarrow> string + 'summary"
  summary_to_commitment :: "'summary \<Rightarrow> mword"
  summary_input_nullifiers :: "'summary \<Rightarrow> string list"
  summary_output_notes :: "'summary \<Rightarrow> 'note option list"
  note_script_root :: "'note \<Rightarrow> mword"
  note_storage_elements :: "'note \<Rightarrow> felt list"
  note_storage_commitment :: "'note \<Rightarrow> mword"
  note_assets_commitment :: "'note \<Rightarrow> mword"
  note_fungible_assets :: "'note \<Rightarrow> (account_id \<times> nat) list"
  note_serial_num :: "'note \<Rightarrow> mword"
  nullifier_bytes :: "mword \<Rightarrow> mword \<Rightarrow> mword \<Rightarrow> mword \<Rightarrow> string"
  p2id_script_root :: mword
  p2id_storage_target :: "felt list \<Rightarrow> string + account_id"
  show_word :: "mword \<Rightarrow> string"

text \<open>
  In \<open>summary_output_notes\<close> an entry is \<open>Some\<close> note for \<open>RawOutputNote::Full\<close> and \<open>None\<close> for
  \<open>RawOutputNote::Partial\<close>. Documented laws of the codecs:
\<close>

definition hex_ok :: "('sig, 'pk, 'summary, 'note) externals \<Rightarrow> bool" where
  "hex_ok X \<longleftrightarrow> (\<forall>b. hex_decode X (hex_encode X b) = Inr b) \<and>
     (\<forall>b. set (hex_encode X b) \<subseteq> set ''0123456789abcdef'')"

definition word_codec_ok :: "('sig, 'pk, 'summary, 'note) externals \<Rightarrow> bool" where
  "word_codec_ok X \<longleftrightarrow> (\<forall>w. word_from_bytes X (word_to_bytes X w) = Inr w)"

text \<open>\<open>account::auth::Signature\<close> and the ECDSA part of \<open>miden_protocol\<close>.\<close>

datatype ('sig, 'esig) account_sig = FalconSig 'sig | EcdsaSig 'esig

record ('sig, 'esig, 'epk) ecdsa_ops =
  ecdsa_sig_from_bytes :: "string \<Rightarrow> string + 'esig"
  ecdsa_pk_from_bytes :: "string \<Rightarrow> string + 'epk"
  ecdsa_pk_commitment :: "'epk \<Rightarrow> mword"
  prepared_signature :: "('sig, 'esig) account_sig \<Rightarrow> mword \<Rightarrow> felt list"

text \<open>The client SDK (\<open>miden_client::Client\<close>); a \<open>None\<close> result is a task that died before replying.\<close>

record ('client, 'acct, 'req) client_ops =
  client_sync_state :: "'client \<Rightarrow> ((string + nat) \<times> 'client) option"
  client_add_account :: "'acct \<Rightarrow> 'client \<Rightarrow> ((string + unit) \<times> 'client) option"
  client_submit :: "account_id \<Rightarrow> 'req \<Rightarrow> 'client \<Rightarrow> ((string + string) \<times> 'client) option"
  acct_from_bytes :: "string \<Rightarrow> string + 'acct"
  req_from_bytes :: "string \<Rightarrow> string + 'req"
  req_insert_advice :: "mword \<Rightarrow> felt list \<Rightarrow> 'req \<Rightarrow> 'req"

end
