(* ===== verification/Shared.thy ===== *)
theory Shared
  imports Externals "HOL-Library.Multiset"
begin

text \<open>
  The crate \<open>shared\<close> (\<open>guardian_shared\<close>): signature schemes and signatures on the wire, hex
  codecs, the advice entry of a signature, the payload of a delta, and the two message formats
  that are signed off-chain (\<open>AuthRequestMessage\<close>, bound to an account and a request payload, and
  \<open>LookupAuthMessage\<close>, bound to a key commitment under a domain tag).
\<close>

section \<open>Signature schemes\<close>

datatype signature_scheme = Falcon | Ecdsa

definition scheme_from :: "string \<Rightarrow> string + signature_scheme" where
  "scheme_from v =
     (if eq_ignore_ascii_case v ''falcon'' then Inr Falcon
      else if eq_ignore_ascii_case v ''ecdsa'' then Inr Ecdsa
      else Inl (''unsupported signature scheme: '' @ v))"

fun scheme_as_str :: "signature_scheme \<Rightarrow> string" where
  "scheme_as_str Falcon = ''falcon''"
| "scheme_as_str Ecdsa = ''ecdsa''"

definition ensure_hex_prefix :: "string \<Rightarrow> string" where
  "ensure_hex_prefix h = (if starts_with ''0x'' h then h else ''0x'' @ h)"

definition strip_0x_once :: "string \<Rightarrow> string" where
  "strip_0x_once h = (case strip_prefix ''0x'' h of Some r \<Rightarrow> r | None \<Rightarrow> h)"

section \<open>Hex codecs (hex.rs)\<close>

definition signature_into_hex :: "('sig, 'pk, 'su, 'n) externals \<Rightarrow> 'sig \<Rightarrow> string" where
  "signature_into_hex X sg = ''0x'' @ hex_encode X (sig_to_bytes X sg)"

definition EXPECTED_SIG_LEN :: nat where
  "EXPECTED_SIG_LEN = 1524"

definition signature_from_hex :: "('sig, 'pk, 'su, 'n) externals \<Rightarrow> string \<Rightarrow> string + 'sig" where
  "signature_from_hex X h =
     bind_res (map_err (\<lambda>e. ''Invalid signature hex: '' @ e) (hex_decode X (strip_0x_once h))) (\<lambda>bytes.
     if length bytes \<noteq> EXPECTED_SIG_LEN
     then Inl (''Signature must be exactly 1524 bytes, got '' @ show_nat (length bytes) @ '' bytes'')
     else map_err (\<lambda>e. ''Failed to deserialize signature: '' @ e) (sig_from_bytes X bytes))"

definition public_key_from_hex :: "('sig, 'pk, 'su, 'n) externals \<Rightarrow> string \<Rightarrow> string + 'pk" where
  "public_key_from_hex X h =
     bind_res (map_err (\<lambda>e. ''Invalid public key hex: '' @ e) (hex_decode X (strip_0x_once h))) (\<lambda>bytes.
     map_err (\<lambda>e. ''Failed to deserialize public key: '' @ e) (pk_from_bytes X bytes))"

definition word_into_hex :: "('sig, 'pk, 'su, 'n) externals \<Rightarrow> mword \<Rightarrow> string" where
  "word_into_hex X w = ''0x'' @ hex_encode X (word_to_bytes X w)"

definition word_from_hex :: "('sig, 'pk, 'su, 'n) externals \<Rightarrow> string \<Rightarrow> string + mword" where
  "word_from_hex X h =
     bind_res (map_err (\<lambda>e. ''Invalid word hex: '' @ e) (hex_decode X (strip_0x_once h))) (\<lambda>bytes.
     map_err (\<lambda>e. ''Failed to deserialize word: '' @ e) (word_from_bytes X bytes))"

section \<open>Signatures as advice\<close>

definition parse_signature_hex ::
  "('sig, 'pk, 'su, 'n) externals \<Rightarrow> ('sig, 'esig, 'epk) ecdsa_ops \<Rightarrow> signature_scheme \<Rightarrow> string
    \<Rightarrow> string + ('sig, 'esig) account_sig" where
  "parse_signature_hex X E sch h =
     (case sch of
        Falcon \<Rightarrow>
          bind_res (map_err (\<lambda>e. ''failed to parse Falcon signature: '' @ e)
            (signature_from_hex X (ensure_hex_prefix h))) (\<lambda>sg. Inr (FalconSig sg))
      | Ecdsa \<Rightarrow>
          bind_res (map_err (\<lambda>e. ''invalid ECDSA signature hex: '' @ e) (hex_decode X (trim_0x h))) (\<lambda>bytes.
          bind_res (map_err (\<lambda>e. ''failed to parse ECDSA signature: '' @ e)
            (ecdsa_sig_from_bytes E bytes)) (\<lambda>sg. Inr (EcdsaSig sg))))"

definition signature_advice_key :: "('sig, 'pk, 'su, 'n) externals \<Rightarrow> mword \<Rightarrow> mword \<Rightarrow> mword" where
  "signature_advice_key X pubkey_commitment message =
     hasher_hash_elements X (as_elements pubkey_commitment @ as_elements message)"

definition parse_ecdsa_public_key_hex ::
  "('sig, 'pk, 'su, 'n) externals \<Rightarrow> ('sig, 'esig, 'epk) ecdsa_ops \<Rightarrow> string \<Rightarrow> string + 'epk" where
  "parse_ecdsa_public_key_hex X E h =
     bind_res (map_err (\<lambda>e. ''invalid ECDSA public key hex: '' @ e) (hex_decode X (trim_0x h))) (\<lambda>bytes.
     map_err (\<lambda>e. ''failed to deserialize ECDSA public key: '' @ e) (ecdsa_pk_from_bytes E bytes))"

definition build_signature_advice_entry ::
  "('sig, 'pk, 'su, 'n) externals \<Rightarrow> ('sig, 'esig, 'epk) ecdsa_ops \<Rightarrow> signature_scheme \<Rightarrow> mword \<Rightarrow> mword
    \<Rightarrow> ('sig, 'esig) account_sig \<Rightarrow> string option \<Rightarrow> string + (mword \<times> felt list)" where
  "build_signature_advice_entry X E sch pubkey_commitment message sg public_key_hex =
     (let key = signature_advice_key X pubkey_commitment message in
      case (sch, sg) of
        (Falcon, FalconSig _) \<Rightarrow> Inr (key, prepared_signature E sg message)
      | (Falcon, _) \<Rightarrow> Inl ''expected Falcon signature for falcon scheme''
      | (Ecdsa, EcdsaSig es) \<Rightarrow>
          bind_res (ok_or ''ECDSA signature requires public key for advice preparation'' public_key_hex) (\<lambda>pkh.
          bind_res (parse_ecdsa_public_key_hex X E pkh) (\<lambda>pk.
          let actual = ecdsa_pk_commitment E pk in
          if actual \<noteq> pubkey_commitment
          then Inl (''ECDSA public key commitment mismatch: expected '' @ word_into_hex X pubkey_commitment
                    @ '', got '' @ word_into_hex X actual)
          else Inr (key, prepared_signature E (EcdsaSig es) message)))
      | (Ecdsa, _) \<Rightarrow> Inl ''expected ECDSA signature for ecdsa scheme'')"

section \<open>Signatures on the wire\<close>

datatype proposal_signature =
    PSFalcon string
  | PSEcdsa string "string option"

definition from_scheme :: "signature_scheme \<Rightarrow> string \<Rightarrow> string option \<Rightarrow> proposal_signature" where
  "from_scheme sch sg pk = (case sch of Falcon \<Rightarrow> PSFalcon sg | Ecdsa \<Rightarrow> PSEcdsa sg pk)"

fun ps_public_key :: "proposal_signature \<Rightarrow> string option" where
  "ps_public_key (PSEcdsa sg pk) = pk"
| "ps_public_key (PSFalcon sg) = None"

record delta_signature =
  signer_id :: string
  ds_signature :: proposal_signature

record delta_payload =
  dp_tx_summary :: json
  dp_signatures :: "delta_signature list"

definition delta_payload_new :: "json \<Rightarrow> delta_payload" where
  "delta_payload_new t = \<lparr> dp_tx_summary = t, dp_signatures = [] \<rparr>"

definition with_signature :: "delta_payload \<Rightarrow> delta_signature \<Rightarrow> delta_payload" where
  "with_signature p sg = p \<lparr> dp_signatures := dp_signatures p @ [sg] \<rparr>"

text \<open>The derived serialisation (\<open>#[serde(tag = "scheme")]\<close>, \<open>skip_serializing_if\<close>).\<close>

fun proposal_signature_to_json :: "proposal_signature \<Rightarrow> json" where
  "proposal_signature_to_json (PSFalcon sg) =
     JObject [(''scheme'', JString ''falcon''), (''signature'', JString sg)]"
| "proposal_signature_to_json (PSEcdsa sg pk) =
     JObject ([(''scheme'', JString ''ecdsa''), (''signature'', JString sg)]
       @ (case pk of None \<Rightarrow> [] | Some k \<Rightarrow> [(''public_key'', JString k)]))"

definition delta_signature_to_json :: "delta_signature \<Rightarrow> json" where
  "delta_signature_to_json d =
     JObject [(''signer_id'', JString (signer_id d)),
              (''signature'', proposal_signature_to_json (ds_signature d))]"

definition delta_payload_to_json :: "delta_payload \<Rightarrow> json" where
  "delta_payload_to_json p =
     JObject ((''tx_summary'', dp_tx_summary p) #
       (if dp_signatures p = [] then []
        else [(''signatures'', JArray (map delta_signature_to_json (dp_signatures p)))]))"

fun proposal_signature_from_json :: "json \<Rightarrow> proposal_signature option" where
  "proposal_signature_from_json v =
     (case (json_get_str v ''scheme'', json_get_str v ''signature'') of
        (Some sch, Some sg) \<Rightarrow>
          if sch = ''falcon'' then Some (PSFalcon sg)
          else if sch = ''ecdsa'' then
            (case json_get v ''public_key'' of
               None \<Rightarrow> Some (PSEcdsa sg None)
             | Some JNull \<Rightarrow> Some (PSEcdsa sg None)
             | Some (JString k) \<Rightarrow> Some (PSEcdsa sg (Some k))
             | _ \<Rightarrow> None)
          else None
      | _ \<Rightarrow> None)"

definition delta_signature_from_json :: "json \<Rightarrow> delta_signature option" where
  "delta_signature_from_json v =
     (case (json_get_str v ''signer_id'', json_get v ''signature'') of
        (Some i, Some sg) \<Rightarrow>
          map_option (\<lambda>p. \<lparr> signer_id = i, ds_signature = p \<rparr>) (proposal_signature_from_json sg)
      | _ \<Rightarrow> None)"

definition delta_payload_from_json :: "json \<Rightarrow> delta_payload option" where
  "delta_payload_from_json v =
     (case json_get v ''tx_summary'' of
        None \<Rightarrow> None
      | Some t \<Rightarrow>
         (case json_get v ''signatures'' of
            None \<Rightarrow> Some \<lparr> dp_tx_summary = t, dp_signatures = [] \<rparr>
          | Some (JArray xs) \<Rightarrow>
              map_option (\<lambda>ss. \<lparr> dp_tx_summary = t, dp_signatures = ss \<rparr>)
                (those (map delta_signature_from_json xs))
          | _ \<Rightarrow> None))"

lemma proposal_signature_json_roundtrip [simp]:
  "proposal_signature_from_json (proposal_signature_to_json p) = Some p"
  by (cases p) (auto split: option.splits)

lemma delta_signature_json_roundtrip [simp]:
  "delta_signature_from_json (delta_signature_to_json d) = Some d"
  by (simp add: delta_signature_from_json_def delta_signature_to_json_def
      del: proposal_signature_from_json.simps proposal_signature_to_json.simps)

lemma those_map_Some: "(\<And>x. x \<in> set xs \<Longrightarrow> f x = Some (g x)) \<Longrightarrow> those (map f xs) = Some (map g xs)"
  by (induction xs) auto

lemma delta_payload_json_roundtrip:
  "delta_payload_from_json (delta_payload_to_json p) = Some p"
  by (auto simp: delta_payload_from_json_def delta_payload_to_json_def those_map_Some[where g = id] comp_def)

section \<open>Transaction summaries as JSON\<close>

definition tx_summary_from_json :: "('sig, 'pk, 'su, 'n) externals \<Rightarrow> json \<Rightarrow> string + 'su" where
  "tx_summary_from_json X v =
     bind_res (ok_or ''Missing or invalid 'data' field in delta payload'' (json_get_str v ''data'')) (\<lambda>enc.
     bind_res (map_err (\<lambda>e. ''Base64 decode error: '' @ e) (b64_decode X enc)) (\<lambda>bytes.
     map_err (\<lambda>e. ''AccountDelta deserialization error: '' @ e) (summary_from_bytes X bytes)))"

section \<open>Request payload digest (auth-request-payload.rs)\<close>

fun of_le_bytes :: "string \<Rightarrow> nat" where
  "of_le_bytes [] = 0"
| "of_le_bytes (c # cs) = of_char c + 256 * of_le_bytes cs"

fun chunks8 :: "string \<Rightarrow> string list" where
  "chunks8 [] = []"
| "chunks8 (c # cs) = take 8 (c # cs) # chunks8 (drop 8 (c # cs))"

definition chunk_u64 :: "string \<Rightarrow> nat" where
  "chunk_u64 chunk = of_le_bytes (chunk @ replicate (8 - length chunk) (char_of (0 :: nat)))"

definition payload_elements :: "('sig, 'pk, 'su, 'n) externals \<Rightarrow> string \<Rightarrow> felt list" where
  "payload_elements X bytes = map (felt_new X \<circ> chunk_u64) (chunks8 bytes)"

definition payload_from_bytes :: "('sig, 'pk, 'su, 'n) externals \<Rightarrow> string \<Rightarrow> mword" where
  "payload_from_bytes X bytes =
     (if bytes = [] then mword_zero else rpo_hash_elements X (payload_elements X bytes))"

fun canonicalize_json :: "json \<Rightarrow> json" where
  "canonicalize_json (JObject kvs) = JObject (sort_key fst (map (\<lambda>(k, v). (k, canonicalize_json v)) kvs))"
| "canonicalize_json (JArray xs) = JArray (map canonicalize_json xs)"
| "canonicalize_json v = v"

definition payload_from_json_value :: "('sig, 'pk, 'su, 'n) externals \<Rightarrow> json \<Rightarrow> string + mword" where
  "payload_from_json_value X v =
     bind_res (map_err (\<lambda>e. ''Failed to serialize JSON: '' @ e) (json_to_vec X (canonicalize_json v)))
       (\<lambda>bytes. Inr (payload_from_bytes X bytes))"

definition auth_payload_empty :: mword where
  "auth_payload_empty = mword_zero"

section \<open>Signed messages\<close>

record auth_request_message =
  arm_account_id :: account_id
  arm_timestamp :: int
  arm_payload :: mword

definition from_account_id_hex ::
  "('sig, 'pk, 'su, 'n) externals \<Rightarrow> string \<Rightarrow> int \<Rightarrow> mword \<Rightarrow> string + auth_request_message" where
  "from_account_id_hex X h ts payload =
     bind_res (map_err (\<lambda>e. ''Invalid account ID hex: '' @ e) (account_from_hex X h)) (\<lambda>a.
     Inr \<lparr> arm_account_id = a, arm_timestamp = ts, arm_payload = payload \<rparr>)"

text \<open>\<open>timestamp as u64\<close> reinterprets the two's complement.\<close>

definition i64_as_u64 :: "int \<Rightarrow> nat" where
  "i64_as_u64 t = nat (t mod 2 ^ 64)"

definition auth_message_elements :: "('sig, 'pk, 'su, 'n) externals \<Rightarrow> auth_request_message \<Rightarrow> felt list" where
  "auth_message_elements X m =
     (let (f0, f1) = account_to_felts X (arm_account_id m) in
      [f0, f1, felt_new X (i64_as_u64 (arm_timestamp m))] @ as_elements (arm_payload m))"

definition auth_message_to_word :: "('sig, 'pk, 'su, 'n) externals \<Rightarrow> auth_request_message \<Rightarrow> mword" where
  "auth_message_to_word X m = rpo_hash_elements X (auth_message_elements X m)"

definition DOMAIN_TAG_BYTES :: string where
  "DOMAIN_TAG_BYTES = ''guardian.lookup.v1''"

definition domain_tag :: "('sig, 'pk, 'su, 'n) externals \<Rightarrow> mword" where
  "domain_tag X = rpo_hash_elements X (payload_elements X DOMAIN_TAG_BYTES)"

record lookup_auth_message =
  lam_timestamp_ms :: int
  lam_key_commitment :: mword

definition lookup_message_elements :: "('sig, 'pk, 'su, 'n) externals \<Rightarrow> lookup_auth_message \<Rightarrow> felt list" where
  "lookup_message_elements X m =
     as_elements (domain_tag X) @ [felt_new X (i64_as_u64 (lam_timestamp_ms m))]
       @ as_elements (lam_key_commitment m)"

definition lookup_message_to_word :: "('sig, 'pk, 'su, 'n) externals \<Rightarrow> lookup_auth_message \<Rightarrow> mword" where
  "lookup_message_to_word X m = rpo_hash_elements X (lookup_message_elements X m)"

section \<open>Lemmas\<close>

lemma scheme_from_as_str: "scheme_from (scheme_as_str sch) = Inr sch"
  by (cases sch) (auto simp: scheme_from_def eq_ignore_ascii_case_def to_ascii_lowercase_def to_lower_def)

lemma scheme_from_Inr_iff:
  "scheme_from v = Inr sch \<longleftrightarrow> to_ascii_lowercase v = scheme_as_str sch"
proof -
  have "to_ascii_lowercase ''falcon'' = ''falcon''" "to_ascii_lowercase ''ecdsa'' = ''ecdsa''"
    by (simp_all add: to_ascii_lowercase_def to_lower_def)
  then show ?thesis
    by (cases sch) (auto simp: scheme_from_def eq_ignore_ascii_case_def)
qed

lemma strip_0x_once_prefix [simp]: "strip_0x_once (''0x'' @ h) = h"
  by (simp add: strip_0x_once_def)

lemma word_hex_roundtrip:
  assumes "hex_ok X" and "word_codec_ok X"
  shows "word_from_hex X (word_into_hex X w) = Inr w"
  using assms strip_0x_once_prefix[of "hex_encode X (word_to_bytes X w)"]
  by (simp add: word_from_hex_def word_into_hex_def hex_ok_def word_codec_ok_def del: strip_0x_once_prefix)

text \<open>Two JSON values that differ only in the order of the members of their objects.\<close>

inductive json_same :: "json \<Rightarrow> json \<Rightarrow> bool" where
  same_refl: "json_same v v"
| same_array: "list_all2 json_same xs ys \<Longrightarrow> json_same (JArray xs) (JArray ys)"
| same_object: "list_all2 (\<lambda>a b. fst a = fst b \<and> json_same (snd a) (snd b)) xs zs \<Longrightarrow> mset zs = mset ys \<Longrightarrow>
    distinct (map fst xs) \<Longrightarrow> json_same (JObject xs) (JObject ys)"

lemma sort_key_fst_perm:
  assumes "mset xs = mset ys" and "distinct (map fst xs)"
  shows "sort_key fst xs = sort_key fst ys"
proof (rule sort_key_inj_key_eq)
  show "mset xs = mset (sort_key fst ys)"
    using assms by simp
  show "inj_on fst (set xs)"
    using assms distinct_map by blast
qed simp

lemma canonicalize_order_insensitive_aux:
  "json_same a b \<Longrightarrow> canonicalize_json a = canonicalize_json b"
proof (induction rule: json_same.induct)
  case (same_array xs ys)
  then have "map canonicalize_json xs = map canonicalize_json ys"
    by (induction rule: list_all2_induct) auto
  then show ?case by simp
next
  case (same_object xs zs ys)
  let ?g = "\<lambda>(k, v). (k, canonicalize_json v)"
  from same_object(1) have xz: "map ?g xs = map ?g zs"
    by (induction rule: list_all2_induct) auto
  have "mset (map ?g zs) = mset (map ?g ys)"
    using same_object(2) by (metis mset_map)
  moreover have "distinct (map fst (map ?g xs))"
    using same_object(3) by (simp add: comp_def case_prod_beta)
  ultimately have "sort_key fst (map ?g xs) = sort_key fst (map ?g ys)"
    using xz by (intro sort_key_fst_perm) auto
  then show ?case by simp
qed simp

lemma canonicalize_idem: "canonicalize_json (canonicalize_json v) = canonicalize_json v"
proof (induction v rule: canonicalize_json.induct)
  case (1 kvs)
  define g where "g = (\<lambda>(k :: string, v). (k, canonicalize_json v))"
  have idem: "g (g p) = g p" if "p \<in> set kvs" for p
    using 1 that by (cases p) (auto simp: g_def)
  have fixed: "g q = q" if "q \<in> set (sort_key fst (map g kvs))" for q
    using idem that by auto
  have "map g (sort_key fst (map g kvs)) = sort_key fst (map g kvs)"
    by (rule map_idI) (rule fixed)
  moreover have "sort_key fst (sort_key fst (map g kvs)) = sort_key fst (map g kvs)"
    by (rule sort_key_id_if_sorted) simp
  ultimately show ?case
    by (simp only: canonicalize_json.simps g_def[symmetric])
qed simp_all

lemma of_le_bytes_le_bytes: "n < 256 ^ k \<Longrightarrow> of_le_bytes (le_bytes k n) = n"
  by (induction k arbitrary: n) (auto simp: less_mult_imp_div_less mult.commute)

lemma i64_as_u64_inj:
  assumes "- (2 ^ 63) \<le> s" "s < 2 ^ 63" "- (2 ^ 63) \<le> t" "t < (2 ^ 63 :: int)" "i64_as_u64 s = i64_as_u64 t"
  shows "s = t"
proof -
  have "s mod 2 ^ 64 = t mod 2 ^ 64"
    using assms(5) by (simp add: i64_as_u64_def)
  then have "(2 :: int) ^ 64 dvd s - t"
    by (simp add: mod_eq_dvd_iff)
  then obtain k where k: "s - t = 2 ^ 64 * k" ..
  then have "k = 0"
    using assms(1-4) by (cases "k \<le> 0"; cases "k \<ge> 0") (auto simp: not_le)
  with k show ?thesis by simp
qed

lemma auth_lookup_elements_differ:
  "auth_message_elements X m \<noteq> lookup_message_elements X l"
proof
  assume "auth_message_elements X m = lookup_message_elements X l"
  then have "length (auth_message_elements X m) = length (lookup_message_elements X l)"
    by simp
  then show False
    by (simp add: auth_message_elements_def lookup_message_elements_def split: prod.splits)
qed

end
