(* ===== verification/X402_Types.thy ===== *)
theory X402_Types
  imports Fs Shared
begin

text \<open>
  The wire types, the persisted types and the errors of the x402 facilitator
  (\<open>types.rs\<close>, \<open>error.rs\<close>, the structs of \<open>store.rs\<close>).
\<close>

record x402_context =
  merchant_account_id :: string
  asset_faucet_id :: string
  x402_amount :: string
  deadline_unix_secs :: nat
  payment_requirements_digest :: string

record agentic_payload =
  tx_summary :: json
  hot_key_signature :: delta_signature
  x402_ctx :: x402_context
  built_on_state_commitment :: string
  new_state_commitment :: string
  claimed_nullifiers :: "string list"

record agent_mandate =
  per_tx_amount_cap :: string
  merchant_allowlist :: "string list"
  expires_at_unix_secs :: nat

record register_agent_request =
  ra_agent_id :: string
  ra_account_id :: string
  ra_hot_key_commitment :: string
  ra_hot_key_scheme :: signature_scheme
  ra_hot_key_pubkey_hex :: "string option"
  ra_initial_state_commitment :: string
  ra_mandate :: agent_mandate
  ra_account_snapshot_b64 :: "string option"

record register_agent_response =
  rr_agent_id :: string
  rr_facilitator_pubkey_commitment :: string

record ack_response =
  ack_accepted_at :: nat
  ack_new_pending_state_commitment :: string
  ack_reserved_nullifiers :: "string list"
  ack_seq :: nat
  ack_signature :: string

record agent_state_response =
  as_agent_id :: string
  as_committed_state_commitment :: string
  as_pending_state_commitment :: string
  as_last_accepted_seq :: nat
  as_in_flight_count :: nat

datatype payment_status = Accepted | Proving | Submitted | Committed | Failed

record payment_status_response =
  ps_agent_id :: string
  ps_nullifier :: string
  ps_seq :: nat
  ps_status :: payment_status
  ps_accepted_at :: nat
  ps_t_batch_started :: "nat option"
  ps_t_submitted :: "nat option"
  ps_t_committed :: "nat option"
  ps_error :: "string option"

section \<open>Errors\<close>

datatype facilitator_error =
    AgentNotRegistered string
  | AgentAlreadyRegistered string
  | StaleBaseState string string
  | InvalidSignature string
  | MandateViolation string
  | OutputCheckFailed string
  | DoubleSpend
  | Malformed string
  | NotFound string
  | Internal string

fun code_and_status :: "facilitator_error \<Rightarrow> string \<times> nat" where
  "code_and_status (AgentNotRegistered _) = (''AGENT_NOT_REGISTERED'', 404)"
| "code_and_status (AgentAlreadyRegistered _) = (''AGENT_ALREADY_REGISTERED'', 409)"
| "code_and_status (StaleBaseState _ _) = (''STALE_BASE_STATE'', 409)"
| "code_and_status (InvalidSignature _) = (''INVALID_SIGNATURE'', 400)"
| "code_and_status (MandateViolation _) = (''MANDATE_VIOLATION'', 403)"
| "code_and_status (OutputCheckFailed _) = (''OUTPUT_CHECK_FAILED'', 400)"
| "code_and_status DoubleSpend = (''DOUBLE_SPEND'', 409)"
| "code_and_status (Malformed _) = (''MALFORMED_PAYLOAD'', 400)"
| "code_and_status (NotFound _) = (''NOT_FOUND'', 404)"
| "code_and_status (Internal _) = (''INTERNAL'', 500)"

fun show_facilitator_error :: "facilitator_error \<Rightarrow> string" where
  "show_facilitator_error (AgentNotRegistered a) = ''agent not registered: '' @ a"
| "show_facilitator_error (AgentAlreadyRegistered a) = ''agent already registered: '' @ a"
| "show_facilitator_error (StaleBaseState c s) =
     ''stale base state: client built on '' @ c @ '', facilitator pending '' @ s"
| "show_facilitator_error (InvalidSignature m) = ''invalid signature: '' @ m"
| "show_facilitator_error (MandateViolation m) = ''mandate violation: '' @ m"
| "show_facilitator_error (OutputCheckFailed m) = ''output check failed: '' @ m"
| "show_facilitator_error DoubleSpend = ''double spend: nullifier already reserved or spent''"
| "show_facilitator_error (Malformed m) = ''malformed payload: '' @ m"
| "show_facilitator_error (NotFound m) = ''not found: '' @ m"
| "show_facilitator_error (Internal m) = ''internal: '' @ m"

record error_body =
  eb_code :: string
  eb_message :: string

definition into_response :: "facilitator_error \<Rightarrow> nat \<times> error_body" where
  "into_response e =
     (let (code, status) = code_and_status e
      in (status, \<lparr> eb_code = code, eb_message = show_facilitator_error e \<rparr>))"

section \<open>Persisted records\<close>

record agent_record =
  ar_agent_id :: string
  ar_account_id :: string
  ar_hot_key_commitment :: string
  ar_hot_key_scheme :: signature_scheme
  ar_hot_key_pubkey_hex :: "string option"
  ar_registered_at :: nat

record pending_state =
  committed_state_commitment :: string
  pending_state_commitment :: string
  last_accepted_seq :: nat

record queued_tx =
  q_seq :: nat
  q_accepted_at :: nat
  q_nullifiers :: "string list"
  q_status :: payment_status
  q_payload :: agentic_payload
  q_t_batch_started :: "nat option"
  q_t_submitted :: "nat option"
  q_t_committed :: "nat option"
  q_error :: "string option"

record wal_entry =
  w_nullifier :: string
  w_seq :: nat
  w_ts :: nat

text \<open>
  A line of a write-ahead log: a complete entry, or bytes that do not parse. A log file is its
  terminated lines and the unterminated rest (\<open>None\<close> when it ends with a newline).
\<close>

datatype wal_line = WLine wal_entry | WCorrupt string

datatype content =
    CAgent agent_record
  | CMandate agent_mandate
  | CPending pending_state
  | CQueued queued_tx
  | CLookup nat
  | CWal "wal_line list" "wal_line option"

end
