(* ===== verification/X402_Store.thy ===== *)
theory X402_Store
  imports X402_Types
begin

text \<open>
  \<open>FilesystemX402Store\<close> (\<open>store.rs\<close>): one directory per agent under \<open>root/agents\<close>, JSON files
  replaced by write-to-temporary, fsync and rename, and two append-only logs of nullifiers. The
  root is the store's field and a parameter of every operation; the file system is the state.
\<close>

section \<open>Paths\<close>

definition agent_dir :: "path \<Rightarrow> string \<Rightarrow> path" where
  "agent_dir root agent_id = path_join (path_join root ''agents'') agent_id"

definition agent_file :: "path \<Rightarrow> string \<Rightarrow> path" where
  "agent_file root agent_id = path_join (agent_dir root agent_id) ''agent.json''"

definition mandate_file :: "path \<Rightarrow> string \<Rightarrow> path" where
  "mandate_file root agent_id = path_join (agent_dir root agent_id) ''mandate.json''"

definition pending_state_file :: "path \<Rightarrow> string \<Rightarrow> path" where
  "pending_state_file root agent_id = path_join (agent_dir root agent_id) ''pending_state.json''"

definition nullifiers_wal :: "path \<Rightarrow> string \<Rightarrow> path" where
  "nullifiers_wal root agent_id = path_join (agent_dir root agent_id) ''nullifiers.wal''"

definition nullifiers_spent :: "path \<Rightarrow> string \<Rightarrow> path" where
  "nullifiers_spent root agent_id = path_join (agent_dir root agent_id) ''nullifiers.spent''"

definition queue_dir :: "path \<Rightarrow> string \<Rightarrow> path" where
  "queue_dir root agent_id = path_join (agent_dir root agent_id) ''pending_queue''"

definition committed_dir :: "path \<Rightarrow> string \<Rightarrow> path" where
  "committed_dir root agent_id = path_join (agent_dir root agent_id) ''committed''"

definition failed_dir :: "path \<Rightarrow> string \<Rightarrow> path" where
  "failed_dir root agent_id = path_join (agent_dir root agent_id) ''failed''"

definition payments_dir :: "path \<Rightarrow> string \<Rightarrow> path" where
  "payments_dir root agent_id = path_join (agent_dir root agent_id) ''payments''"

definition seq_file :: "path \<Rightarrow> nat \<Rightarrow> path" where
  "seq_file d seq = path_join d (show_nat seq @ ''.json'')"

section \<open>Files\<close>

type_synonym 'a store_op = "(content fsys, facilitator_error, 'a) comp"

definition io_err :: "string \<Rightarrow> facilitator_error" where
  "io_err e = Internal (''io: '' @ e)"

definition io :: "(content fsys, string, 'a) comp \<Rightarrow> 'a store_op" where
  "io m = map_errS io_err m"

definition tmp_path :: "path \<Rightarrow> path \<Rightarrow> path" where
  "tmp_path parent p =
     path_join parent (''.'' @ (case path_file_name p of Some n \<Rightarrow> n | None \<Rightarrow> ''write'') @ ''.tmp'')"

definition atomic_write_json :: "path \<Rightarrow> content \<Rightarrow> unit store_op" where
  "atomic_write_json p v =
     (case path_parent p of
        None \<Rightarrow> errS (Internal (''path has no parent: '' @ path_display p))
      | Some parent \<Rightarrow>
          bindS (io (fs_create_dir_all parent)) (\<lambda>_.
          let tmp = tmp_path parent p in
          bindS (io (fs_create_file tmp)) (\<lambda>_.
          bindS (io (fs_write_all tmp v)) (\<lambda>_.
          bindS (io fs_sync_all) (\<lambda>_.
          io (fs_rename tmp p))))))"

definition read_json :: "(content \<Rightarrow> 'a option) \<Rightarrow> path \<Rightarrow> 'a store_op" where
  "read_json as_type p =
     bindS (io (fs_read p)) (\<lambda>f. liftS
       (case f of
          Torn e \<Rightarrow> Inl (Internal (''read '' @ path_display p @ '': '' @ e))
        | Intact c \<Rightarrow>
            (case as_type c of
               Some v \<Rightarrow> Inr v
             | None \<Rightarrow> Inl (Internal (''read '' @ path_display p @ '': missing field'')))))"

fun as_agent :: "content \<Rightarrow> agent_record option" where
  "as_agent (CAgent r) = Some r" | "as_agent _ = None"

fun as_mandate :: "content \<Rightarrow> agent_mandate option" where
  "as_mandate (CMandate m) = Some m" | "as_mandate _ = None"

fun as_pending :: "content \<Rightarrow> pending_state option" where
  "as_pending (CPending p) = Some p" | "as_pending _ = None"

fun as_queued :: "content \<Rightarrow> queued_tx option" where
  "as_queued (CQueued t) = Some t" | "as_queued _ = None"

fun as_lookup :: "content \<Rightarrow> nat option" where
  "as_lookup (CLookup n) = Some n" | "as_lookup _ = None"

section \<open>The nullifier logs\<close>

text \<open>\<open>OpenOptions::new().append(true).create(true).open(..)\<close>.\<close>

definition open_append :: "path \<Rightarrow> (content fsys, string, unit) comp" where
  "open_append p = io_call (\<lambda>s.
     if \<not> has_dir s (butlast (resolve p)) then (Inl ENOENT, s)
     else if has_dir s p then (Inl EISDIR, s)
     else if fget s p = None then (Inr (), fput p (Intact (CWal [] None)) s)
     else (Inr (), s))"

fun wal_add :: "wal_line \<Rightarrow> content fdata \<Rightarrow> content fdata" where
  "wal_add l (Intact (CWal ls None)) = Intact (CWal ls (Some l))"
| "wal_add l (Intact (CWal ls (Some _))) = Intact (CWal ls (Some (WCorrupt ''trailing characters'')))"
| "wal_add l _ = Torn ''trailing characters''"

fun wal_newline :: "content fdata \<Rightarrow> content fdata" where
  "wal_newline (Intact (CWal ls None)) = Intact (CWal ls None)"
| "wal_newline (Intact (CWal ls (Some l))) = Intact (CWal (ls @ [l]) None)"
| "wal_newline f = f"

definition fmap_at :: "path \<Rightarrow> (content fdata \<Rightarrow> content fdata) \<Rightarrow> content fsys \<Rightarrow> content fsys" where
  "fmap_at p g s = (case fget s p of None \<Rightarrow> s | Some f \<Rightarrow> fput p (g f) s)"

definition append_line :: "path \<Rightarrow> wal_entry \<Rightarrow> (content fsys, string, unit) comp" where
  "append_line p e s =
     (case next_fault s of
        (FNone, s') \<Rightarrow> (Inr (), fmap_at p (wal_add (WLine e)) s')
      | (FErr m, s') \<Rightarrow> (Inl m, s')
      | (FPartial m pe, s') \<Rightarrow> (Inl m, fmap_at p (wal_add (WCorrupt pe)) s'))"

definition append_newline :: "path \<Rightarrow> (content fsys, string, unit) comp" where
  "append_newline p = io_call (\<lambda>s. (Inr (), fmap_at p wal_newline s))"

definition append_entries :: "path \<Rightarrow> wal_entry list \<Rightarrow> unit store_op" where
  "append_entries p entries =
     bindS (io (open_append p)) (\<lambda>_.
     bindS (forS (\<lambda>e. bindS (io (append_line p e)) (\<lambda>_. io (append_newline p))) entries) (\<lambda>_.
     io fs_sync_all))"

definition reserve_nullifiers :: "path \<Rightarrow> string \<Rightarrow> wal_entry list \<Rightarrow> unit store_op" where
  "reserve_nullifiers root agent_id entries = append_entries (nullifiers_wal root agent_id) entries"

definition mark_spent :: "path \<Rightarrow> string \<Rightarrow> wal_entry list \<Rightarrow> unit store_op" where
  "mark_spent root agent_id entries = append_entries (nullifiers_spent root agent_id) entries"

definition wal_lines :: "content fdata \<Rightarrow> wal_line list" where
  "wal_lines f =
     (case f of
        Intact (CWal ls None) \<Rightarrow> ls
      | Intact (CWal ls (Some l)) \<Rightarrow> ls @ [l]
      | Intact _ \<Rightarrow> [WCorrupt ''missing field'']
      | Torn e \<Rightarrow> [WCorrupt e])"

fun scan_wal :: "wal_line list \<Rightarrow> string list \<Rightarrow> string list store_op" where
  "scan_wal [] out = okS out"
| "scan_wal (l # ls) out =
     bindS (io (io_call (okS ()))) (\<lambda>_.
       case l of
         WCorrupt e \<Rightarrow> errS (Internal (''corrupt WAL entry: '' @ e))
       | WLine e \<Rightarrow> scan_wal ls (out @ [w_nullifier e]))"

definition read_wal_set :: "path \<Rightarrow> string list store_op" where
  "read_wal_set p =
     bindS (fs_exists p) (\<lambda>present.
     if \<not> present then okS []
     else bindS (io (fs_read p)) (\<lambda>f. scan_wal (wal_lines f) []))"

record nullifier_view =
  nv_reserved :: "string list"
  nv_spent :: "string list"

definition nullifier_view_of :: "path \<Rightarrow> string \<Rightarrow> nullifier_view store_op" where
  "nullifier_view_of root agent_id =
     bindS (read_wal_set (nullifiers_wal root agent_id)) (\<lambda>reserved.
     bindS (read_wal_set (nullifiers_spent root agent_id)) (\<lambda>spent.
     okS \<lparr> nv_reserved = reserved, nv_spent = spent \<rparr>))"

definition nv_contains :: "nullifier_view \<Rightarrow> string \<Rightarrow> bool" where
  "nv_contains v n \<longleftrightarrow> n \<in> set (nv_reserved v) \<or> n \<in> set (nv_spent v)"

section \<open>Operations of the store\<close>

definition agent_exists :: "path \<Rightarrow> string \<Rightarrow> bool store_op" where
  "agent_exists root agent_id = fs_is_file (agent_file root agent_id)"

definition store_register_agent :: "path \<Rightarrow> agent_record \<Rightarrow> agent_mandate \<Rightarrow> string \<Rightarrow> unit store_op" where
  "store_register_agent root rec mandate initial =
     (let a = ar_agent_id rec; d = agent_dir root a in
      bindS (fs_exists d) (\<lambda>present.
      if present then errS (AgentAlreadyRegistered a) else
      bindS (io (fs_create_dir_all d)) (\<lambda>_.
      bindS (io (fs_create_dir_all (queue_dir root a))) (\<lambda>_.
      bindS (io (fs_create_dir_all (committed_dir root a))) (\<lambda>_.
      bindS (io (fs_create_dir_all (failed_dir root a))) (\<lambda>_.
      bindS (io (fs_create_dir_all (payments_dir root a))) (\<lambda>_.
      bindS (atomic_write_json (agent_file root a) (CAgent rec)) (\<lambda>_.
      bindS (atomic_write_json (mandate_file root a) (CMandate mandate)) (\<lambda>_.
      bindS (atomic_write_json (pending_state_file root a)
        (CPending \<lparr> committed_state_commitment = initial, pending_state_commitment = initial,
                    last_accepted_seq = 0 \<rparr>)) (\<lambda>_.
      bindS (io (open_append (nullifiers_wal root a))) (\<lambda>_.
      io (open_append (nullifiers_spent root a)))))))))))))"

definition load_agent :: "path \<Rightarrow> string \<Rightarrow> agent_record store_op" where
  "load_agent root agent_id =
     map_errS (\<lambda>_. AgentNotRegistered agent_id) (read_json as_agent (agent_file root agent_id))"

definition load_mandate :: "path \<Rightarrow> string \<Rightarrow> agent_mandate store_op" where
  "load_mandate root agent_id =
     map_errS (\<lambda>_. AgentNotRegistered agent_id) (read_json as_mandate (mandate_file root agent_id))"

definition load_pending_state :: "path \<Rightarrow> string \<Rightarrow> pending_state store_op" where
  "load_pending_state root agent_id =
     map_errS (\<lambda>_. AgentNotRegistered agent_id) (read_json as_pending (pending_state_file root agent_id))"

definition advance_pending_state :: "path \<Rightarrow> string \<Rightarrow> pending_state \<Rightarrow> unit store_op" where
  "advance_pending_state root agent_id st =
     atomic_write_json (pending_state_file root agent_id) (CPending st)"

definition enqueue :: "path \<Rightarrow> string \<Rightarrow> queued_tx \<Rightarrow> unit store_op" where
  "enqueue root agent_id tx =
     bindS (atomic_write_json (seq_file (queue_dir root agent_id) (q_seq tx)) (CQueued tx)) (\<lambda>_.
     forS (\<lambda>n. atomic_write_json (path_join (payments_dir root agent_id) n) (CLookup (q_seq tx)))
       (q_nullifiers tx))"

fun upsert_in :: "path list \<Rightarrow> path \<Rightarrow> queued_tx \<Rightarrow> unit store_op" where
  "upsert_in [] fallback tx = atomic_write_json fallback (CQueued tx)"
| "upsert_in (p # ps) fallback tx =
     bindS (fs_is_file p) (\<lambda>found.
     if found then atomic_write_json p (CQueued tx) else upsert_in ps fallback tx)"

definition status_dirs :: "path \<Rightarrow> string \<Rightarrow> path list" where
  "status_dirs root agent_id =
     map (path_join (agent_dir root agent_id)) [''pending_queue'', ''committed'', ''failed'']"

definition upsert_queued :: "path \<Rightarrow> string \<Rightarrow> queued_tx \<Rightarrow> unit store_op" where
  "upsert_queued root agent_id tx =
     upsert_in (map (\<lambda>d. seq_file d (q_seq tx)) (status_dirs root agent_id))
       (seq_file (queue_dir root agent_id) (q_seq tx)) tx"

fun list_queued_loop :: "(path \<times> bool) list \<Rightarrow> queued_tx list \<Rightarrow> queued_tx list store_op" where
  "list_queued_loop [] out = okS out"
| "list_queued_loop ((p, is_file) # es) out =
     bindS (io (io_call (okS ()))) (\<lambda>_.
     bindS (io (io_call (okS ()))) (\<lambda>_.
     if \<not> is_file then list_queued_loop es out
     else bindS (read_json as_queued p) (\<lambda>tx. list_queued_loop es (out @ [tx]))))"

definition list_queued :: "path \<Rightarrow> string \<Rightarrow> queued_tx list store_op" where
  "list_queued root agent_id =
     bindS (fs_is_dir (queue_dir root agent_id)) (\<lambda>present.
     if \<not> present then okS []
     else bindS (io (fs_read_dir (queue_dir root agent_id))) (\<lambda>es.
          bindS (list_queued_loop es []) (\<lambda>out. okS (sort_key q_seq out))))"

fun list_agents_loop :: "(path \<times> bool) list \<Rightarrow> string list \<Rightarrow> string list store_op" where
  "list_agents_loop [] out = okS out"
| "list_agents_loop ((p, is_file) # es) out =
     bindS (io (io_call (okS ()))) (\<lambda>_.
     bindS (io (io_call (okS ()))) (\<lambda>_.
     list_agents_loop es (if is_file then out else out @ [last p])))"

definition list_agents :: "path \<Rightarrow> string list store_op" where
  "list_agents root =
     bindS (fs_is_dir (path_join root ''agents'')) (\<lambda>present.
     if \<not> present then okS []
     else bindS (io (fs_read_dir (path_join root ''agents''))) (\<lambda>es. list_agents_loop es []))"

definition move_to_committed :: "path \<Rightarrow> string \<Rightarrow> nat \<Rightarrow> unit store_op" where
  "move_to_committed root agent_id seq =
     io (fs_rename (seq_file (queue_dir root agent_id) seq) (seq_file (committed_dir root agent_id) seq))"

definition move_to_failed :: "path \<Rightarrow> string \<Rightarrow> nat \<Rightarrow> unit store_op" where
  "move_to_failed root agent_id seq =
     io (fs_rename (seq_file (queue_dir root agent_id) seq) (seq_file (failed_dir root agent_id) seq))"

fun first_record :: "path list \<Rightarrow> string \<Rightarrow> queued_tx store_op" where
  "first_record [] nullifier = errS (NotFound (''payment '' @ nullifier @ '' record missing''))"
| "first_record (p # ps) nullifier =
     bindS (fs_is_file p) (\<lambda>found. if found then read_json as_queued p else first_record ps nullifier)"

definition lookup_payment :: "path \<Rightarrow> string \<Rightarrow> string \<Rightarrow> queued_tx store_op" where
  "lookup_payment root agent_id nullifier =
     bindS (map_errS (\<lambda>_. NotFound (''payment '' @ nullifier))
       (read_json as_lookup (path_join (payments_dir root agent_id) nullifier))) (\<lambda>seq.
     first_record (map (\<lambda>d. seq_file d seq) (status_dirs root agent_id)) nullifier)"

section \<open>Where the files are\<close>

named_theorems store_paths \<open>the paths of an agent with a plain name\<close>

definition tmp_name :: "string \<Rightarrow> string" where
  "tmp_name n = ''.'' @ n @ ''.tmp''"

lemma tmp_name_neq [simp]: "tmp_name n \<noteq> n" "n \<noteq> tmp_name n"
proof -
  have "length (tmp_name n) \<noteq> length n" by (simp add: tmp_name_def)
  then show "tmp_name n \<noteq> n" "n \<noteq> tmp_name n" by metis+
qed

lemma plain_tmp_name [simp]: "plain_name n \<Longrightarrow> plain_name (tmp_name n)"
  by (auto simp: plain_name_def tmp_name_def)

lemma plain_names [simp]:
  "plain_name ''agents''" "plain_name ''agent.json''" "plain_name ''mandate.json''"
  "plain_name ''pending_state.json''" "plain_name ''nullifiers.wal''" "plain_name ''nullifiers.spent''"
  "plain_name ''pending_queue''" "plain_name ''committed''" "plain_name ''failed''" "plain_name ''payments''"
  by (simp_all add: plain_name_def)

lemma agent_dir_eq [store_paths]: "plain_name a \<Longrightarrow> agent_dir r a = r @ [''agents'', a]"
  by (simp add: agent_dir_def)

lemma agent_paths [store_paths]:
  assumes "plain_name a"
  shows "agent_file r a = agent_dir r a @ [''agent.json'']"
    "mandate_file r a = agent_dir r a @ [''mandate.json'']"
    "pending_state_file r a = agent_dir r a @ [''pending_state.json'']"
    "nullifiers_wal r a = agent_dir r a @ [''nullifiers.wal'']"
    "nullifiers_spent r a = agent_dir r a @ [''nullifiers.spent'']"
    "queue_dir r a = agent_dir r a @ [''pending_queue'']"
    "committed_dir r a = agent_dir r a @ [''committed'']"
    "failed_dir r a = agent_dir r a @ [''failed'']"
    "payments_dir r a = agent_dir r a @ [''payments'']"
  using assms by (simp_all add: agent_file_def mandate_file_def pending_state_file_def nullifiers_wal_def
      nullifiers_spent_def queue_dir_def committed_dir_def failed_dir_def payments_dir_def)

lemma seq_file_eq [store_paths]: "seq_file d n = d @ [show_nat n @ ''.json'']"
  by (simp add: seq_file_def)

lemma status_dirs_eq [store_paths]:
  "plain_name a \<Longrightarrow> status_dirs r a = [queue_dir r a, committed_dir r a, failed_dir r a]"
  by (simp add: status_dirs_def store_paths)

section \<open>The atomic write\<close>

lemma io_Inr [simp]: "io m s = (Inr a, s') \<longleftrightarrow> m s = (Inr a, s')"
  by (auto simp: io_def map_errS_def split: prod.splits)

lemma io_snd: "io m s = (r, s') \<Longrightarrow> \<exists>r0. m s = (r0, s') \<and> r = map_err io_err r0"
  by (auto simp: io_def map_errS_def split: prod.splits)

lemma tmp_path_plain: "plain_name n \<Longrightarrow> tmp_path q (q @ [n]) = q @ [tmp_name n]"
  using plain_tmp_name[of n] by (simp add: tmp_path_def path_file_name_def tmp_name_def)

lemma keepsS_io [keeps]: "keepsS P m \<Longrightarrow> keepsS P (io m)"
  by (simp add: io_def keepsS_map_errS)

text \<open>
  What an atomic write does, whatever calls fail: it touches only the file and its temporary; on
  success the file holds the value, on failure it is as before.
\<close>

lemma atomic_write_frame:
  assumes "plain_path q" "plain_name n" "{q @ [n], q @ [tmp_name n]} \<subseteq> A"
  shows "keepsS (same_files A s0) (atomic_write_json (q @ [n]) v)"
  using assms by (auto simp: atomic_write_json_def path_parent_def tmp_path_plain Let_def intro!: keeps)

lemma atomic_write_effect:
  assumes run: "atomic_write_json (q @ [n]) v s = (r, s')"
    and plain: "plain_path q" "plain_name n"
  shows "fget s' (q @ [n]) = (if is_ok r then Some (Intact v) else fget s (q @ [n]))"
proof -
  let ?p = "q @ [n]" and ?t = "q @ [tmp_name n]"
  let ?m = "bindS (io (fs_create_dir_all q)) (\<lambda>_. bindS (io (fs_create_file ?t)) (\<lambda>_.
      bindS (io (fs_write_all ?t v)) (\<lambda>_. io fs_sync_all)))"
  have res: "resolve ?p = ?p" "resolve ?t = ?t"
    using plain by simp_all
  have split: "atomic_write_json ?p v = bindS ?m (\<lambda>_. io (fs_rename ?t ?p))"
    using plain
    by (auto simp: atomic_write_json_def path_parent_def tmp_path_plain Let_def bindS_def fun_eq_iff
        split: prod.splits sum.splits)
  obtain r1 s1 where m: "?m s = (r1, s1)" by fastforce
  have "keepsS (same_files {?t} s) ?m"
    using res by (auto intro!: keeps)
  then have "same_files {?t} s s1"
    using keepsS_run m same_files_refl by metis
  then have before: "fget s1 ?p = fget s ?p"
    using res by (simp add: same_filesD)
  have written: "fget s1 ?t = Some (Intact v)" if "is_ok r1"
    using m that by (auto simp: is_ok_iff bindS_Inr_iff dest!: write_all_frame sync_all_frame)
  show ?thesis
  proof (cases r1)
    case (Inl e)
    with run m split before show ?thesis by (auto simp: bindS_def)
  next
    case (Inr u)
    then have "io (fs_rename ?t ?p) s1 = (r, s')"
      using run m split by (simp add: bindS_def)
    then obtain r0 where "fs_rename ?t ?p s1 = (r0, s')" "r = map_err io_err r0"
      using io_snd by blast
    then show ?thesis
      using rename_frame(2,3)[of ?t ?p s1 r0 s'] written before Inr by (cases r0) auto
  qed
qed


text \<open>
  The relation between the files before and after an atomic write of \<open>v\<close> to \<open>q @ [n]\<close>, whatever
  failed; the temporary may be left behind, torn or complete.
\<close>

definition aw_rel :: "path \<Rightarrow> string \<Rightarrow> content \<Rightarrow> content fsys \<Rightarrow> content fsys \<Rightarrow> bool" where
  "aw_rel q n v s s' \<longleftrightarrow>
     same_files {q @ [n], q @ [tmp_name n]} s s' \<and>
     (fget s' (q @ [n]) = fget s (q @ [n]) \<or> fget s' (q @ [n]) = Some (Intact v)) \<and>
     (\<forall>c. fget s' (q @ [tmp_name n]) = Some (Intact c) \<longrightarrow>
        c = v \<or> fget s (q @ [tmp_name n]) = Some (Intact c))"

lemma atomic_write_tmp:
  assumes run: "atomic_write_json (q @ [n]) v s = (r, s')"
    and plain: "plain_path q" "plain_name n"
    and c: "fget s' (q @ [tmp_name n]) = Some (Intact c)"
  shows "c = v \<or> fget s (q @ [tmp_name n]) = Some (Intact c)"
proof -
  let ?t = "q @ [tmp_name n]" and ?p = "q @ [n]"
  let ?P = "\<lambda>s1. \<forall>c. fget s1 ?t = Some (Intact c) \<longrightarrow> c = v \<or> fget s ?t = Some (Intact c)"
  have res: "resolve ?t = ?t" "resolve ?p = ?p" using plain by simp_all
  have "keepsS ?P (fs_create_dir_all q)" "keepsS ?P fs_sync_all"
    by (auto intro!: keepsSI simp: fs_create_dir_all_def fs_sync_all_def io_call_def Let_def dest!: next_fault_fget
        split: prod.splits fault.splits if_splits)
  moreover have "keepsS ?P (fs_create_file ?t)" "keepsS ?P (fs_write_all ?t v)" "keepsS ?P (fs_rename ?t ?p)"
    using res
    by (auto intro!: keepsSI simp: fs_create_file_def fs_write_all_def fs_rename_def io_call_def dest!: next_fault_fget
        split: prod.splits fault.splits option.splits if_splits)
  ultimately have "keepsS ?P (atomic_write_json ?p v)"
    using plain by (auto simp: atomic_write_json_def path_parent_def tmp_path_plain Let_def intro!: keeps)
  from keepsSD[OF this, of s] show ?thesis
    using run c by simp
qed

lemma atomic_write_aw_rel:
  assumes "atomic_write_json (q @ [n]) v s = (r, s')" "plain_path q" "plain_name n"
  shows "aw_rel q n v s s'"
  using assms atomic_write_effect[OF assms] atomic_write_tmp[OF assms]
    keepsS_run[OF atomic_write_frame[OF assms(2,3) order_refl] same_files_refl assms(1)]
  by (auto simp: aw_rel_def)

section \<open>Frames of the other operations\<close>

lemma same_files_fmap_at: "same_files A s0 s \<Longrightarrow> resolve p \<in> A \<Longrightarrow> same_files A s0 (fmap_at p g s)"
  by (auto simp: fmap_at_def same_files_fput_in split: option.splits)

lemma frame_append_line [keeps]:
  assumes "resolve p \<in> A"
  shows "keepsS (same_files A s0) (append_line p e)"
proof (rule frameI)
  fix s r s' assume "append_line p e s = (r, s')"
  then show "same_files A s s'"
    using assms next_fault_frame[of s _ _ A] same_files_fmap_at
    by (auto simp: append_line_def split: prod.splits fault.splits)
qed

lemma frame_rules2 [keeps]:
  "resolve p \<in> A \<Longrightarrow> keepsS (same_files A s0) (open_append p)"
  "resolve p \<in> A \<Longrightarrow> keepsS (same_files A s0) (append_newline p)"
  "resolve p \<in> A \<Longrightarrow> keepsS (same_files A s0) (append_entries p es)"
  by (auto simp: open_append_def append_newline_def append_entries_def same_files_fput_in same_files_fmap_at
      intro!: keeps)

lemma frame_reads [keeps]: "keepsS (same_files A s0) (read_json as_t p)"
  by (auto simp: read_json_def intro!: keeps)

lemma frame_scan_wal [keeps]: "keepsS (same_files A s0) (scan_wal ls out)"
  by (induction ls out rule: scan_wal.induct) (auto intro!: keeps split: wal_line.splits)

lemma frame_list_loops [keeps]:
  "keepsS (same_files A s0) (list_queued_loop es out)" "keepsS (same_files A s0) (list_agents_loop es out')"
  by (induction es arbitrary: out out') (auto intro!: keeps)

lemma frame_reads2 [keeps]:
  "keepsS (same_files A s0) (read_wal_set p)" "keepsS (same_files A s0) (nullifier_view_of r a)"
  "keepsS (same_files A s0) (load_agent r a)" "keepsS (same_files A s0) (load_mandate r a)"
  "keepsS (same_files A s0) (load_pending_state r a)" "keepsS (same_files A s0) (list_queued r a)"
  "keepsS (same_files A s0) (list_agents r)"
  by (auto simp: read_wal_set_def nullifier_view_of_def load_agent_def load_mandate_def load_pending_state_def
      list_queued_def list_agents_def intro!: keeps)

lemma frame_first_record [keeps]: "keepsS (same_files A s0) (first_record ps n)"
  by (induction ps) (auto intro!: keeps)

lemma frame_lookup_payment [keeps]: "keepsS (same_files A s0) (lookup_payment r a n)"
  by (auto simp: lookup_payment_def intro!: keeps)

text \<open>Files below an agent's directory: \<open>under\<close> lists what a name there may become.\<close>

definition dir_files :: "path \<Rightarrow> path set" where
  "dir_files d = {d @ [n] | n. True}"

lemma in_dir_files [simp]: "d @ [n] \<in> dir_files d" "d @ [n] \<in> dir_files e \<longleftrightarrow> d = e"
  by (auto simp: dir_files_def)

lemma frame_atomic_dir [keeps]:
  assumes "plain_path q" "plain_name n" "dir_files q \<subseteq> A"
  shows "keepsS (same_files A s0) (atomic_write_json (q @ [n]) v)"
  using assms atomic_write_frame[of q n A s0 v] by (auto simp: dir_files_def)


section \<open>The nullifier log is fail-closed\<close>

text \<open>
  The interface the payment handler relies on: a log that only grows. \<open>broken\<close> says that replaying
  the log fails, \<open>known\<close> what a successful replay returns. Once broken it stays broken, and as
  long as it is not, nothing that was known is forgotten: what is \<open>guards\<close>-ed by the log can never
  be taken for new.
\<close>

locale fail_closed_log =
  fixes broken :: "'f \<Rightarrow> bool"
    and known :: "'f \<Rightarrow> 'n set"
    and step :: "'op \<Rightarrow> 'f \<Rightarrow> 'f"
  assumes broken_step: "broken f \<Longrightarrow> broken (step op f)"
    and known_step: "\<not> broken (step op f) \<Longrightarrow> known f \<subseteq> known (step op f)"
begin

definition guards :: "'f \<Rightarrow> 'n set \<Rightarrow> bool" where
  "guards f N \<longleftrightarrow> broken f \<or> N \<subseteq> known f"

lemma guards_step: "guards f N \<Longrightarrow> guards (step op f) N"
  using broken_step known_step unfolding guards_def by blast

lemma guards_steps: "guards f N \<Longrightarrow> guards (fold step ops f) N"
  by (induction ops arbitrary: f) (auto intro: guards_step)

lemma guards_replay: "guards f N \<Longrightarrow> \<not> broken f \<Longrightarrow> n \<in> N \<Longrightarrow> n \<in> known f"
  unfolding guards_def by blast

lemma guards_Un: "guards f M \<Longrightarrow> guards f N \<Longrightarrow> guards f (M \<union> N)"
  unfolding guards_def by blast

lemma guards_mono: "guards f N \<Longrightarrow> M \<subseteq> N \<Longrightarrow> guards f M"
  unfolding guards_def by blast

end

definition wal_broken :: "content fdata \<Rightarrow> bool" where
  "wal_broken f \<longleftrightarrow> (\<exists>e. WCorrupt e \<in> set (wal_lines f))"

definition wal_known :: "content fdata \<Rightarrow> string set" where
  "wal_known f = {w_nullifier e | e. WLine e \<in> set (wal_lines f)}"

datatype wal_op = AddLine wal_line | Newline

fun wal_step :: "wal_op \<Rightarrow> content fdata \<Rightarrow> content fdata" where
  "wal_step (AddLine l) f = wal_add l f"
| "wal_step Newline f = wal_newline f"

lemma wal_lines_newline [simp]: "wal_lines (wal_newline f) = wal_lines f"
  by (cases f rule: wal_newline.cases) (auto simp: wal_lines_def)

lemma wal_broken_add: "wal_broken f \<Longrightarrow> wal_broken (wal_add l f)"
  by (cases "(l, f)" rule: wal_add.cases) (auto simp: wal_broken_def wal_lines_def)

lemma wal_known_add: "\<not> wal_broken (wal_add l f) \<Longrightarrow> wal_known f \<subseteq> wal_known (wal_add l f)"
  by (cases "(l, f)" rule: wal_add.cases) (auto simp: wal_broken_def wal_known_def wal_lines_def)

interpretation wal: fail_closed_log wal_broken wal_known wal_step
proof
  fix f op
  show "wal_broken f \<Longrightarrow> wal_broken (wal_step op f)"
    by (cases op) (simp_all add: wal_broken_add, simp add: wal_broken_def)
  show "\<not> wal_broken (wal_step op f) \<Longrightarrow> wal_known f \<subseteq> wal_known (wal_step op f)"
    by (cases op) (simp_all add: wal_known_add, simp add: wal_known_def)
qed

lemma wal_add_guards_new: "wal.guards (wal_add (WLine e) f) {w_nullifier e}"
  by (cases "(WLine e, f)" rule: wal_add.cases) (auto simp: wal.guards_def wal_broken_def wal_known_def wal_lines_def)

definition wal_guards :: "path \<Rightarrow> string set \<Rightarrow> content fsys \<Rightarrow> bool" where
  "wal_guards p N s \<longleftrightarrow> (\<exists>f. fget s p = Some f \<and> wal.guards f N)"

lemma wal_guards_fmap:
  "wal_guards p N s \<Longrightarrow> wal_guards p N (fmap_at p (wal_add l) s)"
  "wal_guards p N s \<Longrightarrow> wal_guards p N (fmap_at p wal_newline s)"
  using wal.guards_step[of _ N "AddLine l"] wal.guards_step[of _ N Newline]
  by (auto simp: wal_guards_def fmap_at_def)

lemma wal_guards_fault: "next_fault s = (f, s') \<Longrightarrow> wal_guards p N s' = wal_guards p N s"
  using next_fault_frame[of s f s' "{}"] by (simp add: wal_guards_def)

lemma wal_guards_append_line [keeps]: "keepsS (wal_guards p N) (append_line p e)"
  by (auto intro!: keepsSI wal_guards_fmap simp: append_line_def wal_guards_fault split: prod.splits fault.splits)

lemma wal_guards_io_call:
  "(\<And>s. wal_guards p N s \<Longrightarrow> wal_guards p N (snd (m s))) \<Longrightarrow> keepsS (wal_guards p N) (io_call m)"
  by (auto intro!: keepsSI simp: io_call_def wal_guards_fault split: prod.splits fault.splits)

lemma wal_guards_append [keeps]:
  "keepsS (wal_guards p N) (append_newline p)" "keepsS (wal_guards p N) (open_append p)"
  "keepsS (wal_guards p N) fs_sync_all"
proof -
  show "keepsS (wal_guards p N) (append_newline p)" "keepsS (wal_guards p N) fs_sync_all"
    unfolding append_newline_def fs_sync_all_def by (auto intro!: wal_guards_io_call wal_guards_fmap)
  show "keepsS (wal_guards p N) (open_append p)"
    unfolding open_append_def by (rule wal_guards_io_call) (auto simp: wal_guards_def)
qed

lemma wal_guards_append_entries [keeps]: "keepsS (wal_guards p N) (append_entries p es)"
  by (auto simp: append_entries_def intro!: keeps)

lemma append_line_reserves:
  assumes "append_line p e s = (Inr (), s')" and "fget s p \<noteq> None"
  shows "wal_guards p {w_nullifier e} s'"
  using assms next_fault_frame[of s _ _ "{}"]
  by (auto simp: append_line_def fmap_at_def wal_guards_def wal_add_guards_new split: prod.splits fault.splits)

lemma append_loop_reserves:
  assumes "forS (\<lambda>e. bindS (io (append_line p e)) (\<lambda>_. io (append_newline p))) es s = (Inr (), s')"
    and "wal_guards p N s"
  shows "wal_guards p (N \<union> w_nullifier ` set es) s'"
  using assms
proof (induction es arbitrary: s N)
  case (Cons e es)
  from Cons.prems obtain s1 s2 where 1: "append_line p e s = (Inr (), s1)"
    and 2: "append_newline p s1 = (Inr (), s2)"
    and 3: "forS (\<lambda>e. bindS (io (append_line p e)) (\<lambda>_. io (append_newline p))) es s2 = (Inr (), s')"
    by (auto simp: bindS_Inr_iff)
  have "fget s p \<noteq> None"
    using Cons.prems by (auto simp: wal_guards_def)
  then have new: "wal_guards p {w_nullifier e} s1"
    using append_line_reserves 1 by blast
  have "wal_guards p N s1"
    using keepsS_run[OF wal_guards_append_line] 1 Cons.prems by blast
  with new have "wal_guards p (N \<union> {w_nullifier e}) s1"
    using wal.guards_Un by (fastforce simp: wal_guards_def)
  then have "wal_guards p (N \<union> {w_nullifier e}) s2"
    using keepsS_run[OF wal_guards_append(1)] 2 by blast
  from Cons.IH[OF 3 this] show ?case
    by (simp add: insert_commute Un_commute)
qed simp

lemma open_append_exists: "open_append p s = (Inr (), s') \<Longrightarrow> fget s' p \<noteq> None"
  unfolding open_append_def by (erule io_call_cases) (auto split: if_splits)

lemma append_entries_reserves:
  assumes "append_entries p es s = (Inr (), s')"
  shows "wal_guards p (w_nullifier ` set es) s'"
proof -
  obtain s1 s2 where 1: "open_append p s = (Inr (), s1)"
    and 2: "forS (\<lambda>e. bindS (io (append_line p e)) (\<lambda>_. io (append_newline p))) es s1 = (Inr (), s2)"
    and 3: "fs_sync_all s2 = (Inr (), s')"
    using assms by (auto simp: append_entries_def bindS_Inr_iff)
  have "wal_guards p {} s1"
    using open_append_exists[OF 1] by (auto simp: wal_guards_def wal.guards_def)
  from append_loop_reserves[OF 2 this] show ?thesis
    using keepsS_run[OF wal_guards_append(3) _ 3] by simp
qed

lemma scan_wal_Inr:
  "scan_wal ls out s = (Inr res, s') \<Longrightarrow>
     (\<forall>e. WCorrupt e \<notin> set ls) \<and> set res = set out \<union> {w_nullifier e | e. WLine e \<in> set ls}"
proof (induction ls out arbitrary: s rule: scan_wal.induct)
  case (2 l ls out)
  then show ?case
    by (auto simp: bindS_Inr_iff split: wal_line.splits)
qed simp

lemma read_wal_set_Inr:
  assumes "read_wal_set p s = (Inr out, s')" and "fs_stat_faults s = []" and "fget s p = Some f"
  shows "\<not> wal_broken f \<and> set out = wal_known f"
proof -
  obtain g s1 where "fs_read p s = (Inr g, s1)" "scan_wal (wal_lines g) [] s1 = (Inr out, s')"
    using assms by (auto simp: read_wal_set_def bindS_Inr_iff fs_exists_def)
  then show ?thesis
    using scan_wal_Inr[of "wal_lines g"] read_frame(3)[of p s "Inr g" s1 g] assms(3)
    by (auto simp: wal_broken_def wal_known_def)
qed

lemma view_excludes_guarded:
  assumes "nullifier_view_of r a s = (Inr view, s')" and "fs_stat_faults s = []"
    and "wal_guards (nullifiers_wal r a) N s" and "n \<in> N"
  shows "nv_contains view n"
proof -
  obtain s1 where "read_wal_set (nullifiers_wal r a) s = (Inr (nv_reserved view), s1)"
    using assms(1) by (auto simp: nullifier_view_of_def bindS_Inr_iff)
  moreover obtain f where "fget s (nullifiers_wal r a) = Some f" "wal.guards f N"
    using assms(3) by (auto simp: wal_guards_def)
  ultimately have "n \<in> set (nv_reserved view)"
    using read_wal_set_Inr assms(2,4) wal.guards_replay by blast
  then show ?thesis by (simp add: nv_contains_def)
qed

end
