(* ===== verification/X402_Submitter.thy ===== *)
theory X402_Submitter
  imports X402_Store
begin

text \<open>
  The submitter actor (\<open>submitter.rs\<close>): a thread owns the client SDK and answers commands in the
  order they are sent. The actor is its client, or \<open>None\<close> once it has exited; a command sent to
  an exited actor fails at once, and a command during which the actor dies loses its reply.
\<close>

type_synonym 'client actor = "'client option"

datatype command =
    CmdSync
  | CmdAddAccountBytes string
  | CmdRebuildAndSubmit account_id string signature_scheme mword mword string "string option"

datatype reply =
    ReplySync "string + nat"
  | ReplyAdd "string + unit"
  | ReplySubmit "string + string"

definition rebuild_and_submit_inner ::
  "('sig, 'pk, 'su, 'n) externals \<Rightarrow> ('sig, 'esig, 'epk) ecdsa_ops \<Rightarrow> ('client, 'acct, 'req) client_ops
   \<Rightarrow> 'client \<Rightarrow> account_id \<Rightarrow> string \<Rightarrow> signature_scheme \<Rightarrow> mword \<Rightarrow> mword \<Rightarrow> string \<Rightarrow> string option
   \<Rightarrow> ((string + string) \<times> 'client) option" where
  "rebuild_and_submit_inner X E C client account_id request_bytes scheme pubkey_commitment message
       signature_hex pubkey_hex =
     (case map_err (\<lambda>e. ''request decode: '' @ e) (req_from_bytes C request_bytes) of
        Inl e \<Rightarrow> Some (Inl e, client)
      | Inr request \<Rightarrow>
     (case map_err (\<lambda>e. ''parse signature: '' @ e) (parse_signature_hex X E scheme signature_hex) of
        Inl e \<Rightarrow> Some (Inl e, client)
      | Inr parsed \<Rightarrow>
     (case map_err (\<lambda>e. ''build advice: '' @ e)
             (build_signature_advice_entry X E scheme pubkey_commitment message parsed pubkey_hex) of
        Inl e \<Rightarrow> Some (Inl e, client)
      | Inr (advice_key, advice_vals) \<Rightarrow>
     (let request' = req_insert_advice C advice_key advice_vals request in
      case client_sync_state C client of
        None \<Rightarrow> None
      | Some (Inl e, client') \<Rightarrow> Some (Inl (''sync_state: '' @ e), client')
      | Some (Inr _, client') \<Rightarrow>
         (case client_submit C account_id request' client' of
            None \<Rightarrow> None
          | Some (r, client'') \<Rightarrow> Some (map_err (\<lambda>e. ''submit_new_transaction: '' @ e) r, client''))))))"

definition actor_handle ::
  "('sig, 'pk, 'su, 'n) externals \<Rightarrow> ('sig, 'esig, 'epk) ecdsa_ops \<Rightarrow> ('client, 'acct, 'req) client_ops
   \<Rightarrow> command \<Rightarrow> 'client \<Rightarrow> (reply \<times> 'client) option" where
  "actor_handle X E C cmd client =
     (case cmd of
        CmdSync \<Rightarrow>
          map_option (\<lambda>(r, c). (ReplySync (map_err (\<lambda>e. ''sync: '' @ e) r), c)) (client_sync_state C client)
      | CmdAddAccountBytes bytes \<Rightarrow>
         (case acct_from_bytes C bytes of
            Inl e \<Rightarrow> Some (ReplyAdd (Inl (''Account decode: '' @ e)), client)
          | Inr account \<Rightarrow>
              map_option (\<lambda>(r, c). (ReplyAdd (map_err (\<lambda>e. ''add_account: '' @ e) r), c))
                (client_add_account C account client))
      | CmdRebuildAndSubmit account_id request_bytes scheme pkc message sig_hex pk_hex \<Rightarrow>
          map_option (\<lambda>(r, c). (ReplySubmit r, c))
            (rebuild_and_submit_inner X E C client account_id request_bytes scheme pkc message sig_hex pk_hex))"

text \<open>Sending a command and awaiting its reply over the oneshot channel.\<close>

definition actor_call ::
  "('sig, 'pk, 'su, 'n) externals \<Rightarrow> ('sig, 'esig, 'epk) ecdsa_ops \<Rightarrow> ('client, 'acct, 'req) client_ops
   \<Rightarrow> command \<Rightarrow> ('client actor, facilitator_error, reply) comp" where
  "actor_call X E C cmd actor =
     (case actor of
        None \<Rightarrow> (Inl (Internal ''submitter actor stopped''), None)
      | Some client \<Rightarrow>
         (case actor_handle X E C cmd client of
            None \<Rightarrow> (Inl (Internal ''submitter actor dropped reply''), None)
          | Some (r, client') \<Rightarrow> (Inr r, Some client')))"

definition submitter_sync ::
  "('sig, 'pk, 'su, 'n) externals \<Rightarrow> ('sig, 'esig, 'epk) ecdsa_ops \<Rightarrow> ('client, 'acct, 'req) client_ops
   \<Rightarrow> ('client actor, facilitator_error, nat) comp" where
  "submitter_sync X E C =
     bindS (actor_call X E C CmdSync) (\<lambda>r. liftS
       (case r of ReplySync res \<Rightarrow> map_err Internal res | _ \<Rightarrow> Inl (Internal ''submitter actor dropped reply'')))"

definition add_account_bytes ::
  "('sig, 'pk, 'su, 'n) externals \<Rightarrow> ('sig, 'esig, 'epk) ecdsa_ops \<Rightarrow> ('client, 'acct, 'req) client_ops
   \<Rightarrow> string \<Rightarrow> ('client actor, facilitator_error, unit) comp" where
  "add_account_bytes X E C bytes =
     bindS (actor_call X E C (CmdAddAccountBytes bytes)) (\<lambda>r. liftS
       (case r of ReplyAdd res \<Rightarrow> map_err Internal res | _ \<Rightarrow> Inl (Internal ''submitter actor dropped reply'')))"

definition rebuild_and_submit ::
  "('sig, 'pk, 'su, 'n) externals \<Rightarrow> ('sig, 'esig, 'epk) ecdsa_ops \<Rightarrow> ('client, 'acct, 'req) client_ops
   \<Rightarrow> account_id \<Rightarrow> string \<Rightarrow> signature_scheme \<Rightarrow> mword \<Rightarrow> mword \<Rightarrow> string \<Rightarrow> string option
   \<Rightarrow> ('client actor, facilitator_error, string) comp" where
  "rebuild_and_submit X E C account_id request_bytes scheme pkc message sig_hex pk_hex =
     bindS (actor_call X E C (CmdRebuildAndSubmit account_id request_bytes scheme pkc message sig_hex pk_hex))
       (\<lambda>r. liftS (case r of ReplySubmit res \<Rightarrow> map_err Internal res
                   | _ \<Rightarrow> Inl (Internal ''submitter actor dropped reply'')))"

lemma actor_call_stopped: "snd (actor_call X E C cmd None) = None \<and> \<not> is_ok (fst (actor_call X E C cmd None))"
  by (simp add: actor_call_def)

text \<open>The reply an actor gives has the kind of its command, so the fallback branches are never taken.\<close>

lemma actor_handle_reply_kind:
  "actor_handle X E C cmd client = Some (r, c) \<Longrightarrow>
     (case cmd of CmdSync \<Rightarrow> \<exists>x. r = ReplySync x | CmdAddAccountBytes _ \<Rightarrow> \<exists>x. r = ReplyAdd x
      | CmdRebuildAndSubmit _ _ _ _ _ _ _ \<Rightarrow> \<exists>x. r = ReplySubmit x)"
  by (auto simp: actor_handle_def split: command.splits sum.splits)

lemma rebuild_and_submit_Inr:
  assumes "rebuild_and_submit X E C a rb sch pkc msg sh ph actor = (Inr tx_id, actor')"
  shows "\<exists>client client1 client2 req parsed k vs b.
    actor = Some client \<and> req_from_bytes C rb = Inr req \<and> parse_signature_hex X E sch sh = Inr parsed \<and>
    build_signature_advice_entry X E sch pkc msg parsed ph = Inr (k, vs) \<and>
    client_sync_state C client = Some (Inr b, client1) \<and>
    client_submit C a (req_insert_advice C k vs req) client1 = Some (Inr tx_id, client2) \<and>
    actor' = Some client2"
  using assms
  by (auto simp: rebuild_and_submit_def bindS_def actor_call_def actor_handle_def
      rebuild_and_submit_inner_def Let_def result_simps split: option.splits sum.splits prod.splits)

end
