(* ===== verification/X402_Api.thy ===== *)
theory X402_Api
  imports X402_Submitter
begin

text \<open>
  The HTTP handlers of the facilitator (\<open>api.rs\<close>) and its signing key (\<open>key.rs\<close>). A handler is a
  state-and-error computation; the per-agent mutex of \<open>post_payment\<close> makes the whole handler one
  atomic step for its agent.
\<close>

section \<open>The facilitator's key (key.rs)\<close>

record key_ops =
  keystore_sign :: "mword \<Rightarrow> mword \<Rightarrow> string + string"
  keystore_generate :: "string + mword"
  keystore_open :: "string + unit"

definition word_to_hex :: "('sig, 'pk, 'su, 'n) externals \<Rightarrow> mword \<Rightarrow> string" where
  "word_to_hex X w = ''0x'' @ hex_encode X (word_to_bytes X w)"

definition parse_word_hex :: "('sig, 'pk, 'su, 'n) externals \<Rightarrow> string \<Rightarrow> facilitator_error + mword" where
  "parse_word_hex X s =
     bind_res (map_err (\<lambda>e. Malformed (''hex Word: '' @ e)) (hex_decode X (trim_0x s))) (\<lambda>bytes.
     map_err (\<lambda>e. Malformed (''Word from bytes: '' @ e)) (word_from_bytes X bytes))"

text \<open>
  The marker is a text file of the keystore's directory that holds the hex commitment of the key;
  \<open>left_over\<close> is the text that a failed write has left in it.
\<close>

definition load_or_create ::
  "('sig, 'pk, 'su, 'n) externals \<Rightarrow> key_ops \<Rightarrow> (string \<Rightarrow> string) \<Rightarrow> path \<Rightarrow> (string fsys, facilitator_error, mword) comp" where
  "load_or_create X K left_over keystore_dir =
     bindS (map_errS (\<lambda>e. Internal (''keystore mkdir: '' @ e)) (fs_create_dir_all keystore_dir)) (\<lambda>_.
     let marker = path_join keystore_dir ''commitment_marker.txt'' in
     bindS (liftS (map_err (\<lambda>e. Internal (''keystore: '' @ e)) (keystore_open K))) (\<lambda>_.
     bindS (fs_is_file marker) (\<lambda>present.
     if present then
       bindS (map_errS (\<lambda>e. Internal (''read marker: '' @ e)) (fs_read marker)) (\<lambda>f.
       liftS (parse_word_hex X (trim_str (case f of Intact hex \<Rightarrow> hex | Torn e \<Rightarrow> left_over e))))
     else
       bindS (liftS (map_err (\<lambda>e. Internal (''keygen: '' @ e)) (keystore_generate K))) (\<lambda>w.
       bindS (map_errS (\<lambda>e. Internal (''write marker: '' @ e)) (fs_write marker (word_to_hex X w))) (\<lambda>_.
       okS w)))))"

definition commitment_hex :: "('sig, 'pk, 'su, 'n) externals \<Rightarrow> mword \<Rightarrow> string" where
  "commitment_hex X key = word_to_hex X key"

definition sign_word_hex ::
  "('sig, 'pk, 'su, 'n) externals \<Rightarrow> key_ops \<Rightarrow> mword \<Rightarrow> mword \<Rightarrow> facilitator_error + string" where
  "sign_word_hex X K key msg =
     bind_res (map_err (\<lambda>e. Internal (''sign: '' @ e)) (keystore_sign K key msg)) (\<lambda>sg.
     Inr (''0x'' @ hex_encode X sg))"

section \<open>Signature verification\<close>

definition api_decode_hex :: "('sig, 'pk, 'su, 'n) externals \<Rightarrow> string \<Rightarrow> string + string" where
  "api_decode_hex X s = hex_decode X (trim_0x s)"

text \<open>Decoding of a real summary out of its JSON envelope, shared by steps 2 and 3.\<close>

definition decode_summary ::
  "('sig, 'pk, 'su, 'n) externals \<Rightarrow> json \<Rightarrow> facilitator_error + 'su" where
  "decode_summary X v =
     bind_res (ok_or (Malformed ''real summary missing summary_base64'') (json_get_str v ''summary_base64'')) (\<lambda>b64.
     bind_res (map_err (\<lambda>e. Malformed (''summary_base64: '' @ e)) (b64_decode X b64)) (\<lambda>bytes.
     map_err (\<lambda>e. Malformed (''TransactionSummary decode: '' @ e)) (summary_from_bytes X bytes)))"

definition is_real_summary :: "json \<Rightarrow> bool" where
  "is_real_summary v \<longleftrightarrow> json_get_str v ''version'' = Some ''miden-real-v1''"

definition signed_message ::
  "('sig, 'pk, 'su, 'n) externals \<Rightarrow> json \<Rightarrow> facilitator_error + mword" where
  "signed_message X v =
     (if is_real_summary v
      then bind_res (decode_summary X v) (\<lambda>summary. Inr (summary_to_commitment X summary))
      else bind_res (map_err (\<lambda>e. Malformed (''tx_summary serialize: '' @ e)) (json_to_vec X v))
             (\<lambda>bytes. Inr (hasher_hash X bytes)))"

definition check_stored_pubkey ::
  "('sig, 'pk, 'su, 'n) externals \<Rightarrow> string option \<Rightarrow> 'pk \<Rightarrow> facilitator_error + unit" where
  "check_stored_pubkey X stored inline_pk =
     (case stored of
        None \<Rightarrow> Inr ()
      | Some stored_pk_hex \<Rightarrow>
          bind_res (map_err (\<lambda>e. InvalidSignature (''stored pubkey hex: '' @ e)) (api_decode_hex X stored_pk_hex)) (\<lambda>bytes.
          bind_res (map_err (\<lambda>e. InvalidSignature (''stored pubkey decode: '' @ e)) (pk_from_bytes X bytes)) (\<lambda>pk.
          if pk_to_commitment X pk \<noteq> pk_to_commitment X inline_pk
          then Inl (InvalidSignature ''registered pubkey disagrees with signature's inline pubkey'')
          else Inr ())))"

definition verify_hot_key_signature ::
  "('sig, 'pk, 'su, 'n) externals \<Rightarrow> agent_record \<Rightarrow> agentic_payload \<Rightarrow> facilitator_error + unit" where
  "verify_hot_key_signature X rec payload =
     (let sid = signer_id (hot_key_signature payload) in
      if sid \<noteq> ar_hot_key_commitment rec
      then Inl (InvalidSignature (''signer_id '' @ sid @ '' does not match registered hot_key_commitment ''
                  @ ar_hot_key_commitment rec))
      else case ar_hot_key_scheme rec of
        Ecdsa \<Rightarrow> Inl (InvalidSignature ''ECDSA hot-key verification not supported in v1'')
      | Falcon \<Rightarrow>
     (case ds_signature (hot_key_signature payload) of
        PSEcdsa _ _ \<Rightarrow> Inl (InvalidSignature ''expected Falcon signature for falcon scheme'')
      | PSFalcon sig_hex \<Rightarrow>
          bind_res (map_err (\<lambda>e. InvalidSignature (''signature hex: '' @ e)) (api_decode_hex X sig_hex)) (\<lambda>sig_bytes.
          bind_res (map_err (\<lambda>e. InvalidSignature (''Falcon decode: '' @ e)) (sig_from_bytes X sig_bytes)) (\<lambda>sg.
          let inline_pk = sig_public_key X sg;
              expected = word_to_hex X (pk_to_commitment X inline_pk) in
          if expected \<noteq> ar_hot_key_commitment rec
          then Inl (InvalidSignature (''signature pubkey commits to '' @ expected
                      @ '', registered commitment '' @ ar_hot_key_commitment rec))
          else
            bind_res (check_stored_pubkey X (ar_hot_key_pubkey_hex rec) inline_pk) (\<lambda>_.
            bind_res (signed_message X (tx_summary payload)) (\<lambda>message.
            if \<not> sig_verify X sg message inline_pk
            then Inl (InvalidSignature ''Falcon signature failed to verify against tx_summary commitment'')
            else Inr ()))))))"

section \<open>Output checks\<close>

definition try_decode_real_summary ::
  "('sig, 'pk, 'su, 'n) externals \<Rightarrow> json \<Rightarrow> facilitator_error + 'su option" where
  "try_decode_real_summary X v =
     (if \<not> is_real_summary v then Inr None
      else bind_res (decode_summary X v) (\<lambda>summary. Inr (Some summary)))"

definition extract_nullifier_hexes :: "('sig, 'pk, 'su, 'n) externals \<Rightarrow> 'su \<Rightarrow> string list" where
  "extract_nullifier_hexes X summary =
     map (\<lambda>n. ''0x'' @ hex_encode X n) (summary_input_nullifiers X summary) @
     map (\<lambda>note. ''0x'' @ hex_encode X (nullifier_bytes X (note_script_root X note)
            (note_storage_commitment X note) (note_assets_commitment X note) (note_serial_num X note)))
       (List.map_filter id (summary_output_notes X summary))"

definition validate_p2id_output ::
  "('sig, 'pk, 'su, 'n) externals \<Rightarrow> 'su \<Rightarrow> agentic_payload \<Rightarrow> facilitator_error + unit" where
  "validate_p2id_output X summary payload =
     (let ctx = x402_ctx payload; outputs = summary_output_notes X summary in
      if length outputs \<noteq> 1
      then Inl (OutputCheckFailed (''expected exactly 1 output note, found '' @ show_nat (length outputs)))
      else case outputs of
        [] \<Rightarrow> Inl (OutputCheckFailed ''no output note'')
      | None # _ \<Rightarrow> Inl (OutputCheckFailed ''output note must be Full (RawOutputNote::Partial not accepted)'')
      | Some note # _ \<Rightarrow>
      if note_script_root X note \<noteq> p2id_script_root X
      then Inl (OutputCheckFailed (''not a P2ID note: script root '' @ show_word X (note_script_root X note)
             @ '' != P2ID script root '' @ show_word X (p2id_script_root X)))
      else
      bind_res (map_err (\<lambda>e. OutputCheckFailed (''P2idNoteStorage parse: '' @ e))
        (p2id_storage_target X (note_storage_elements X note))) (\<lambda>actual_recipient.
      bind_res (map_err (\<lambda>e. Malformed (''x402_context.merchant_account_id: '' @ e))
        (account_from_hex X (merchant_account_id ctx))) (\<lambda>expected_recipient.
      if actual_recipient \<noteq> expected_recipient
      then Inl (OutputCheckFailed (''recipient '' @ account_to_hex X actual_recipient
             @ '' != merchant '' @ account_to_hex X expected_recipient))
      else
      (let assets = note_fungible_assets X note in
      if length assets \<noteq> 1
      then Inl (OutputCheckFailed (''expected exactly 1 fungible asset, found '' @ show_nat (length assets)))
      else
      (let (faucet, amount) = hd assets in
      bind_res (map_err (\<lambda>e. Malformed (''x402_context.asset_faucet_id: '' @ e))
        (account_from_hex X (asset_faucet_id ctx))) (\<lambda>expected_faucet.
      bind_res (map_err (\<lambda>_. Malformed ''x402_context.amount must be u64'') (parse_u64 (x402_amount ctx))) (\<lambda>expected_amount.
      if faucet \<noteq> expected_faucet
      then Inl (OutputCheckFailed (''asset faucet '' @ account_to_hex X faucet @ '' != expected ''
             @ account_to_hex X expected_faucet))
      else if amount \<noteq> expected_amount
      then Inl (OutputCheckFailed (''asset amount '' @ show_nat amount @ '' != expected '' @ show_nat expected_amount))
      else Inr ())))))))"

section \<open>Mandate\<close>

definition check_mandate :: "agent_mandate \<Rightarrow> x402_context \<Rightarrow> facilitator_error + unit" where
  "check_mandate mandate ctx =
     (if merchant_allowlist mandate \<noteq> [] \<and> merchant_account_id ctx \<notin> set (merchant_allowlist mandate)
      then Inl (MandateViolation (''merchant '' @ merchant_account_id ctx @ '' not in allowlist''))
      else
      bind_res (map_err (\<lambda>_. Internal ''mandate cap not a u128'') (parse_u128 (per_tx_amount_cap mandate))) (\<lambda>cap.
      bind_res (map_err (\<lambda>_. Malformed ''amount not a u128'') (parse_u128 (x402_amount ctx))) (\<lambda>amount.
      if cap < amount
      then Inl (MandateViolation (''amount '' @ show_nat amount @ '' exceeds per-tx cap '' @ show_nat cap))
      else if expires_at_unix_secs mandate \<noteq> 0 \<and> expires_at_unix_secs mandate < deadline_unix_secs ctx
      then Inl (MandateViolation ''x402 deadline beyond mandate expiry'')
      else Inr ())))"

definition ack_message :: "('sig, 'pk, 'su, 'n) externals \<Rightarrow> nat \<Rightarrow> string \<Rightarrow> string list \<Rightarrow> facilitator_error + mword" where
  "ack_message X accepted_at new_state_hex nullifiers =
     Inr (hasher_hash X (to_be_bytes accepted_at @ new_state_hex @ concat nullifiers))"

section \<open>The payment handler\<close>

text \<open>
  Steps 1 to 6, which only read, and steps 7 to 10, which reserve, advance, enqueue and sign.
\<close>

definition admit_payment ::
  "('sig, 'pk, 'su, 'n) externals \<Rightarrow> path \<Rightarrow> string \<Rightarrow> agentic_payload \<Rightarrow> (pending_state \<times> string list) store_op" where
  "admit_payment X root agent_id payload =
     bindS (load_agent root agent_id) (\<lambda>rec.
     bindS (load_mandate root agent_id) (\<lambda>mandate.
     bindS (load_pending_state root agent_id) (\<lambda>pending.
     if built_on_state_commitment payload \<noteq> pending_state_commitment pending
     then errS (StaleBaseState (built_on_state_commitment payload) (pending_state_commitment pending))
     else
     bindS (liftS (verify_hot_key_signature X rec payload)) (\<lambda>_.
     bindS (liftS (try_decode_real_summary X (tx_summary payload))) (\<lambda>extracted.
     bindS (liftS (case extracted of None \<Rightarrow> Inr () | Some su \<Rightarrow> validate_p2id_output X su payload)) (\<lambda>_.
     bindS (liftS (check_mandate mandate (x402_ctx payload))) (\<lambda>_.
     let nullifiers = (case extracted of Some su \<Rightarrow> extract_nullifier_hexes X su
                       | None \<Rightarrow> claimed_nullifiers payload) in
     if nullifiers = [] then errS (Malformed ''no dedup keys derivable from payload'')
     else
     bindS (nullifier_view_of root agent_id) (\<lambda>view.
     if \<exists>n \<in> set nullifiers. nv_contains view n then errS DoubleSpend
     else okS (pending, nullifiers)))))))))"

definition new_pending_state :: "pending_state \<Rightarrow> agentic_payload \<Rightarrow> pending_state" where
  "new_pending_state pending payload =
     \<lparr> committed_state_commitment = committed_state_commitment pending,
       pending_state_commitment = new_state_commitment payload,
       last_accepted_seq = u64_add (last_accepted_seq pending) 1 \<rparr>"

definition new_queued_tx :: "pending_state \<Rightarrow> agentic_payload \<Rightarrow> string list \<Rightarrow> nat \<Rightarrow> queued_tx" where
  "new_queued_tx pending payload nullifiers now_micros =
     \<lparr> q_seq = u64_add (last_accepted_seq pending) 1, q_accepted_at = now_micros, q_nullifiers = nullifiers,
       q_status = Accepted, q_payload = payload, q_t_batch_started = None, q_t_submitted = None,
       q_t_committed = None, q_error = None \<rparr>"

definition commit_payment ::
  "('sig, 'pk, 'su, 'n) externals \<Rightarrow> key_ops \<Rightarrow> mword \<Rightarrow> path \<Rightarrow> string \<Rightarrow> agentic_payload
   \<Rightarrow> pending_state \<times> string list \<Rightarrow> ack_response store_op" where
  "commit_payment X K key root agent_id payload = (\<lambda>(pending, nullifiers).
     bindS fs_now (\<lambda>now_micros.
     let next_seq = u64_add (last_accepted_seq pending) 1;
         new_pending = new_pending_state pending payload in
     bindS (reserve_nullifiers root agent_id
       (map (\<lambda>n. \<lparr> w_nullifier = n, w_seq = next_seq, w_ts = now_micros \<rparr>) nullifiers)) (\<lambda>_.
     bindS (advance_pending_state root agent_id new_pending) (\<lambda>_.
     bindS (enqueue root agent_id (new_queued_tx pending payload nullifiers now_micros)) (\<lambda>_.
     bindS (liftS (ack_message X now_micros (pending_state_commitment new_pending) nullifiers)) (\<lambda>ack_msg.
     bindS (liftS (sign_word_hex X K key ack_msg)) (\<lambda>sg.
     okS \<lparr> ack_accepted_at = now_micros,
           ack_new_pending_state_commitment = pending_state_commitment new_pending,
           ack_reserved_nullifiers = nullifiers, ack_seq = next_seq, ack_signature = sg \<rparr>)))))))"

definition post_payment ::
  "('sig, 'pk, 'su, 'n) externals \<Rightarrow> key_ops \<Rightarrow> mword \<Rightarrow> path \<Rightarrow> string \<Rightarrow> agentic_payload \<Rightarrow> ack_response store_op" where
  "post_payment X K key root agent_id payload =
     bindS (admit_payment X root agent_id payload) (commit_payment X K key root agent_id payload)"

section \<open>Registration and queries\<close>

record 'client app =
  app_fs :: "content fsys"
  app_submitter :: "'client actor option"

definition on_fs :: "'a store_op \<Rightarrow> ('client app, facilitator_error, 'a) comp" where
  "on_fs m s = (case m (app_fs s) of (r, fs) \<Rightarrow> (r, s \<lparr> app_fs := fs \<rparr>))"

text \<open>A failing mirror of the account is only logged.\<close>

definition mirror_account ::
  "('sig, 'pk, 'su, 'n) externals \<Rightarrow> ('sig, 'esig, 'epk) ecdsa_ops \<Rightarrow> ('client, 'acct, 'req) client_ops
   \<Rightarrow> string option \<Rightarrow> ('client app, facilitator_error, unit) comp" where
  "mirror_account X E C snapshot s =
     (case (snapshot, app_submitter s) of
        (Some snap_b64, Some actor) \<Rightarrow>
         (case b64_decode X snap_b64 of
            Inl e \<Rightarrow> (Inl (Malformed (''account_snapshot_b64: '' @ e)), s)
          | Inr bytes \<Rightarrow> (Inr (), s \<lparr> app_submitter := Some (snd (add_account_bytes X E C bytes actor)) \<rparr>))
      | _ \<Rightarrow> (Inr (), s))"

definition register_agent ::
  "('sig, 'pk, 'su, 'n) externals \<Rightarrow> ('sig, 'esig, 'epk) ecdsa_ops \<Rightarrow> ('client, 'acct, 'req) client_ops
   \<Rightarrow> mword \<Rightarrow> path \<Rightarrow> register_agent_request \<Rightarrow> ('client app, facilitator_error, nat \<times> register_agent_response) comp" where
  "register_agent X E C key root req =
     (if trim_str (ra_agent_id req) = [] then errS (Malformed ''agent_id required'')
      else
      bindS (on_fs fs_now) (\<lambda>now.
      bindS (on_fs (store_register_agent root
        \<lparr> ar_agent_id = ra_agent_id req, ar_account_id = ra_account_id req,
          ar_hot_key_commitment = ra_hot_key_commitment req, ar_hot_key_scheme = ra_hot_key_scheme req,
          ar_hot_key_pubkey_hex = ra_hot_key_pubkey_hex req, ar_registered_at = now \<rparr>
        (ra_mandate req) (ra_initial_state_commitment req))) (\<lambda>_.
      bindS (mirror_account X E C (ra_account_snapshot_b64 req)) (\<lambda>_.
      okS (201, \<lparr> rr_agent_id = ra_agent_id req,
                  rr_facilitator_pubkey_commitment = commitment_hex X key \<rparr>)))))"

definition get_agent_state :: "path \<Rightarrow> string \<Rightarrow> agent_state_response store_op" where
  "get_agent_state root agent_id =
     bindS (load_pending_state root agent_id) (\<lambda>pending.
     bindS (list_queued root agent_id) (\<lambda>queued.
     okS \<lparr> as_agent_id = agent_id, as_committed_state_commitment = committed_state_commitment pending,
           as_pending_state_commitment = pending_state_commitment pending,
           as_last_accepted_seq = last_accepted_seq pending, as_in_flight_count = length queued \<rparr>))"

definition get_payment_status :: "path \<Rightarrow> string \<Rightarrow> string \<Rightarrow> payment_status_response store_op" where
  "get_payment_status root agent_id nullifier =
     bindS (lookup_payment root agent_id nullifier) (\<lambda>tx.
     okS \<lparr> ps_agent_id = agent_id, ps_nullifier = nullifier, ps_seq = q_seq tx, ps_status = q_status tx,
           ps_accepted_at = q_accepted_at tx, ps_t_batch_started = q_t_batch_started tx,
           ps_t_submitted = q_t_submitted tx, ps_t_committed = q_t_committed tx, ps_error = q_error tx \<rparr>)"

record merchant_verify_response =
  mv_valid :: bool
  mv_status :: payment_status

definition merchant_verify :: "path \<Rightarrow> string \<Rightarrow> string \<Rightarrow> merchant_verify_response store_op" where
  "merchant_verify root agent_id nullifier =
     bindS (lookup_payment root agent_id nullifier) (\<lambda>tx.
     okS \<lparr> mv_valid = (q_status tx \<noteq> Failed), mv_status = q_status tx \<rparr>)"

record merchant_settle_response =
  ms_queued :: bool
  ms_seq :: nat
  ms_status :: payment_status

definition merchant_settle :: "path \<Rightarrow> string \<Rightarrow> string \<Rightarrow> merchant_settle_response store_op" where
  "merchant_settle root agent_id nullifier =
     bindS (lookup_payment root agent_id nullifier) (\<lambda>tx.
     okS \<lparr> ms_queued = True, ms_seq = q_seq tx, ms_status = q_status tx \<rparr>)"

end
