(* ===== verification/X402_Worker.thy ===== *)
theory X402_Worker
  imports X402_Api
begin

text \<open>
  The batch worker (\<open>jobs.rs\<close>): every tick it lists the queue of each agent, takes the accepted
  payments in order of sequence number up to the batch size, and tries to submit each one. An
  \<open>anyhow\<close> error is its text.
\<close>

record batch_config =
  interval_ms :: nat
  max_size :: nat

definition env_parse :: "(string \<Rightarrow> string option) \<Rightarrow> string \<Rightarrow> nat \<Rightarrow> nat" where
  "env_parse env k dflt =
     (case Option.bind (env k) (res_ok \<circ> parse_u64) of None \<Rightarrow> dflt | Some v \<Rightarrow> v)"

definition batch_config_from_env :: "(string \<Rightarrow> string option) \<Rightarrow> batch_config" where
  "batch_config_from_env env =
     \<lparr> interval_ms = env_parse env ''BATCH_INTERVAL_MS'' 1000,
       max_size = env_parse env ''BATCH_MAX_SIZE'' 50 \<rparr>"

definition jobs_parse_word_hex :: "('sig, 'pk, 'su, 'n) externals \<Rightarrow> string \<Rightarrow> string + mword" where
  "jobs_parse_word_hex X s =
     bind_res (map_err (\<lambda>e. ''hex Word: '' @ e) (hex_decode X (trim_0x s))) (\<lambda>bytes.
     map_err (\<lambda>e. ''Word read: '' @ e) (word_from_bytes X bytes))"

definition decode_real_field ::
  "('sig, 'pk, 'su, 'n) externals \<Rightarrow> json \<Rightarrow> string \<Rightarrow> string + string" where
  "decode_real_field X blob field =
     bind_res (ok_or (''real summary missing '' @ field) (json_get_str blob field)) (\<lambda>b64.
     map_err (\<lambda>e. field @ '' decode: '' @ e) (b64_decode X b64))"

fun signature_parts :: "proposal_signature \<Rightarrow> signature_scheme \<times> string \<times> string option" where
  "signature_parts (PSFalcon sg) = (Falcon, sg, None)"
| "signature_parts (PSEcdsa sg pk) = (Ecdsa, sg, pk)"

definition on_actor ::
  "('client actor, facilitator_error, 'a) comp \<Rightarrow> ('client app, facilitator_error, 'a) comp" where
  "on_actor m s =
     (case app_submitter s of
        None \<Rightarrow> (Inl (Internal ''submitter actor stopped''), s)
      | Some actor \<Rightarrow> (case m actor of (r, actor') \<Rightarrow> (r, s \<lparr> app_submitter := Some actor' \<rparr>)))"

definition attempt_submit ::
  "('sig, 'pk, 'su, 'n) externals \<Rightarrow> ('sig, 'esig, 'epk) ecdsa_ops \<Rightarrow> ('client, 'acct, 'req) client_ops
   \<Rightarrow> path \<Rightarrow> string \<Rightarrow> queued_tx \<Rightarrow> ('client app, string, unit) comp" where
  "attempt_submit X E C root agent_id tx s =
     (if app_submitter s = None
      then (Inl ''no MidenSubmitter configured; tx accepted but not submittable'', s)
      else
      (let blob = tx_summary (q_payload tx) in
      if \<not> is_real_summary blob
      then (Inl ''tx not in real-Miden mode; nothing to prove (placeholder bench mode)'', s)
      else
      bindS (liftS (decode_real_field X blob ''tx_request_base64'')) (\<lambda>request_bytes.
      bindS (liftS (decode_real_field X blob ''summary_base64'')) (\<lambda>summary_bytes.
      bindS (liftS (map_err (\<lambda>e. ''summary decode: '' @ e) (summary_from_bytes X summary_bytes))) (\<lambda>summary.
      let message = summary_to_commitment X summary;
          sid = signer_id (hot_key_signature (q_payload tx)) in
      bindS (liftS (map_err (\<lambda>e. ''pubkey commitment hex: '' @ e) (jobs_parse_word_hex X sid))) (\<lambda>pkc.
      case signature_parts (ds_signature (hot_key_signature (q_payload tx))) of (scheme, sig_hex, pk_hex) \<Rightarrow>
      bindS (map_errS show_facilitator_error (on_fs (load_agent root agent_id))) (\<lambda>rec.
      bindS (liftS (map_err (\<lambda>e. ''AccountId from hex: '' @ e) (account_from_hex X (ar_account_id rec)))) (\<lambda>account_id.
      bindS (map_errS (\<lambda>e. ''submitter: '' @ show_facilitator_error e)
        (on_actor (rebuild_and_submit X E C account_id request_bytes scheme pkc message sig_hex pk_hex))) (\<lambda>tx_id.
      okS ()))))))) s))"

definition process_tx ::
  "('sig, 'pk, 'su, 'n) externals \<Rightarrow> ('sig, 'esig, 'epk) ecdsa_ops \<Rightarrow> ('client, 'acct, 'req) client_ops
   \<Rightarrow> path \<Rightarrow> string \<Rightarrow> queued_tx \<Rightarrow> ('client app, string, unit) comp" where
  "process_tx X E C root agent_id tx0 =
     bindS (map_errS show_facilitator_error (on_fs fs_now)) (\<lambda>started.
     let tx = tx0 \<lparr> q_t_batch_started := Some started, q_status := Proving \<rparr> in
     observeS (on_fs (upsert_queued root agent_id tx)) (\<lambda>_.
     observeS (attempt_submit X E C root agent_id tx) (\<lambda>outcome.
     case outcome of
       Inr _ \<Rightarrow>
         bindS (map_errS show_facilitator_error (on_fs fs_now)) (\<lambda>submitted.
         observeS (on_fs (upsert_queued root agent_id
           (tx \<lparr> q_status := Submitted, q_t_submitted := Some submitted \<rparr>))) (\<lambda>_. okS ()))
     | Inl e \<Rightarrow>
         observeS (on_fs (upsert_queued root agent_id (tx \<lparr> q_status := Failed, q_error := Some e \<rparr>))) (\<lambda>_.
         observeS (on_fs (move_to_failed root agent_id (q_seq tx))) (\<lambda>_. okS ())))))"

definition select_batch :: "batch_config \<Rightarrow> queued_tx list \<Rightarrow> queued_tx list" where
  "select_batch config queued = take (max_size config) (filter (\<lambda>t. q_status t = Accepted) queued)"

definition run_agent ::
  "('sig, 'pk, 'su, 'n) externals \<Rightarrow> ('sig, 'esig, 'epk) ecdsa_ops \<Rightarrow> ('client, 'acct, 'req) client_ops
   \<Rightarrow> path \<Rightarrow> batch_config \<Rightarrow> string \<Rightarrow> ('client app, string, unit) comp" where
  "run_agent X E C root config agent_id =
     bindS (map_errS show_facilitator_error (on_fs (list_queued root agent_id))) (\<lambda>queued.
     forS (process_tx X E C root agent_id) (select_batch config queued))"

definition run_once ::
  "('sig, 'pk, 'su, 'n) externals \<Rightarrow> ('sig, 'esig, 'epk) ecdsa_ops \<Rightarrow> ('client, 'acct, 'req) client_ops
   \<Rightarrow> path \<Rightarrow> batch_config \<Rightarrow> ('client app, string, unit) comp" where
  "run_once X E C root config =
     bindS (map_errS show_facilitator_error (on_fs (list_agents root))) (\<lambda>agents.
     forS (run_agent X E C root config) agents)"

end
