(* ===== verification/Instances.thy ===== *)
theory Instances
  imports X402_Worker
begin

text \<open>
  Concrete instances of the third-party parameters, a small file system and sample requests, on
  which the witnesses evaluate the definitions; and the collection of definitions with which
  \<open>simp\<close> runs a handler.
\<close>

definition demo_ext :: "(string, unit, unit, unit) externals" where
  "demo_ext = \<lparr> hex_encode = (\<lambda>b. b), hex_decode = Inr, b64_encode = (\<lambda>b. b), b64_decode = Inr,
     json_to_vec = (\<lambda>_. Inr []), felt_new = (\<lambda>n. n mod 18446744069414584321), hasher_hash = (\<lambda>b. MWord (length b) 0 0 0),
     hasher_merge = (\<lambda>v w. v), hasher_hash_elements = (\<lambda>fs. MWord (sum_list fs) (length fs) 0 0),
     rpo_hash_elements = (\<lambda>fs. MWord (sum_list fs) (length fs) 0 0),
     word_to_bytes = (\<lambda>w. ''k''), word_from_bytes = (\<lambda>b. Inr mword_zero),
     sig_from_bytes = Inr, sig_to_bytes = (\<lambda>b. b), sig_public_key = (\<lambda>_. ()), sig_verify = (\<lambda>sg m pk. True),
     pk_from_bytes = (\<lambda>b. Inr ()), pk_to_commitment = (\<lambda>_. mword_zero),
     account_from_hex = (\<lambda>h. Inr (AccountId 1 2)), account_to_felts = (\<lambda>a. (account_suffix a, account_prefix a)),
     account_to_hex = (\<lambda>a. ''0x12''), summary_from_bytes = (\<lambda>b. Inr ()), summary_to_commitment = (\<lambda>_. mword_zero),
     summary_input_nullifiers = (\<lambda>_. []), summary_output_notes = (\<lambda>_. []), note_script_root = (\<lambda>_. mword_zero),
     note_storage_elements = (\<lambda>_. []), note_storage_commitment = (\<lambda>_. mword_zero),
     note_assets_commitment = (\<lambda>_. mword_zero), note_fungible_assets = (\<lambda>_. []), note_serial_num = (\<lambda>_. mword_zero),
     nullifier_bytes = (\<lambda>a b c d. ''n''), p2id_script_root = mword_zero,
     p2id_storage_target = (\<lambda>fs. Inr (AccountId 1 2)), show_word = (\<lambda>w. ''w'') \<rparr>"

definition demo_keys :: key_ops where
  "demo_keys = \<lparr> keystore_sign = (\<lambda>k m. Inr ''s''), keystore_generate = Inr mword_zero, keystore_open = Inr () \<rparr>"

definition demo_fs :: "content fsys" where
  "demo_fs = \<lparr> fs_files = [], fs_dirs = [[''d''], [''d'', ''agents'']], fs_faults = [], fs_stat_faults = [], fs_clock = [1,2,3,4,5] \<rparr>"

definition demo_request :: register_agent_request where
  "demo_request = \<lparr> ra_agent_id = ''a'', ra_account_id = ''acc'', ra_hot_key_commitment = ''0xk'', ra_hot_key_scheme = Falcon,
    ra_hot_key_pubkey_hex = None, ra_initial_state_commitment = ''s0'',
    ra_mandate = \<lparr> per_tx_amount_cap = ''10'', merchant_allowlist = [], expires_at_unix_secs = 0 \<rparr>, ra_account_snapshot_b64 = None \<rparr>"

definition demo_payload :: "string \<Rightarrow> string \<Rightarrow> string \<Rightarrow> agentic_payload" where
  "demo_payload old new n = \<lparr> tx_summary = JNull, hot_key_signature = \<lparr> signer_id = ''0xk'', ds_signature = PSFalcon ''sg'' \<rparr>,
     x402_ctx = \<lparr> merchant_account_id = ''m'', asset_faucet_id = ''f'', x402_amount = ''7'', deadline_unix_secs = 9, payment_requirements_digest = [] \<rparr>,
     built_on_state_commitment = old, new_state_commitment = new, claimed_nullifiers = [n] \<rparr>"

definition demo_client :: "(unit, unit, unit) client_ops" where
  "demo_client = \<lparr> client_sync_state = (\<lambda>c. Some (Inr 0, c)), client_add_account = (\<lambda>a c. Some (Inr (), c)),
     client_submit = (\<lambda>a r c. Some (Inr ''tx'', c)), acct_from_bytes = (\<lambda>b. Inr ()), req_from_bytes = (\<lambda>b. Inr ()),
     req_insert_advice = (\<lambda>k v r. r) \<rparr>"

definition demo_ecdsa :: "(string, unit, unit) ecdsa_ops" where
  "demo_ecdsa = \<lparr> ecdsa_sig_from_bytes = (\<lambda>b. Inr ()), ecdsa_pk_from_bytes = (\<lambda>b. Inr ()), ecdsa_pk_commitment = (\<lambda>_. mword_zero),
     prepared_signature = (\<lambda>s m. []) \<rparr>"

section \<open>Running a handler\<close>

lemma show_small: "show_nat 0 = ''0''" "show_nat 1 = ''1''" "show_nat (Suc 0) = ''1''" "show_nat 2 = ''2''" "show_nat (Suc (Suc 0)) = ''2''" "show_nat 3 = ''3''"
  by code_simp+

lemma run_congs:
  "s = s' \<Longrightarrow> bindS m f s = bindS m f s'"
  "s = s' \<Longrightarrow> observeS m' f' s = observeS m' f' s'"
  "s = s' \<Longrightarrow> map_errS g m s = map_errS g m s'"
  "s = s' \<Longrightarrow> io_call h s = io_call h s'"
  by simp_all

lemmas run_fs = bindS_def map_errS_def observeS_def liftS_def io_def io_call_def next_fault_def
  fs_create_dir_all_def fs_create_file_def fs_write_all_def fs_sync_all_def fs_rename_def fs_read_def
  stat_call_def next_stat_def fs_is_file_def fs_is_dir_def fs_exists_def fs_now_def fs_read_dir_def
  dir_entries_def entry_of_def plain_name_def fget_def fput_def has_dir_def dir_get_def dir_put_def dir_del_def
  AList.delete_eq resolve_def path_join_def path_components_def starts_with_def path_parent_def
  path_file_name_def tmp_path_def atomic_write_json_def Let_def u64_bound_def io_err_def
  ENOENT_def EISDIR_def ENOTDIR_def EEXIST_def EOF_PARSE_def

lemmas run_store = agent_dir_def agent_file_def mandate_file_def pending_state_file_def nullifiers_wal_def
  nullifiers_spent_def queue_dir_def committed_dir_def failed_dir_def payments_dir_def seq_file_def
  store_register_agent_def open_append_def load_agent_def load_mandate_def load_pending_state_def read_json_def
  reserve_nullifiers_def append_entries_def append_line_def append_newline_def fmap_at_def
  advance_pending_state_def enqueue_def nullifier_view_of_def read_wal_set_def wal_lines_def nv_contains_def
  list_queued_def list_agents_def upsert_queued_def status_dirs_def move_to_failed_def lookup_payment_def

lemmas run_api = register_agent_def on_fs_def mirror_account_def trim_str_def is_blank_def commitment_hex_def
  word_to_hex_def post_payment_def admit_payment_def commit_payment_def new_pending_state_def new_queued_tx_def
  verify_hot_key_signature_def api_decode_hex_def check_stored_pubkey_def signed_message_def is_real_summary_def
  json_get_str_def try_decode_real_summary_def check_mandate_def parse_u128_def u128_bound_def
  from_str_radix_def to_digit_def ack_message_def sign_word_hex_def u64_add_def show_small

lemmas run_demo = demo_ext_def demo_keys_def demo_fs_def demo_request_def demo_payload_def demo_client_def demo_ecdsa_def

section \<open>A registered agent and two payments\<close>

definition demo_app0 :: "unit app" where
  "demo_app0 = \<lparr> app_fs = demo_fs, app_submitter = None \<rparr>"

definition demo_app1 :: "unit app" where
  "demo_app1 = snd (register_agent demo_ext demo_ecdsa demo_client mword_zero [''d''] demo_request demo_app0)"

definition demo_pay1 :: "(facilitator_error + ack_response) \<times> content fsys" where
  "demo_pay1 = post_payment demo_ext demo_keys mword_zero [''d''] ''a'' (demo_payload ''s0'' ''s1'' ''n1'') (app_fs demo_app1)"

definition demo_pay2 :: "(facilitator_error + ack_response) \<times> content fsys" where
  "demo_pay2 = post_payment demo_ext demo_keys mword_zero [''d''] ''a'' (demo_payload ''s1'' ''s2'' ''n2'') (snd demo_pay1)"

lemma demo_app1_fs: "app_fs demo_app1 = demo_fs \<lparr> 
   fs_files := [([''d'', ''agents'', ''a'', ''agent.json''], Intact (CAgent
      \<lparr> ar_agent_id = ''a'', ar_account_id = ''acc'', ar_hot_key_commitment = ''0xk'', ar_hot_key_scheme = Falcon,
        ar_hot_key_pubkey_hex = None, ar_registered_at = 1 \<rparr>)),
     ([''d'', ''agents'', ''a'', ''mandate.json''], Intact (CMandate (ra_mandate demo_request))),
     ([''d'', ''agents'', ''a'', ''pending_state.json''], Intact (CPending
      \<lparr> committed_state_commitment = ''s0'', pending_state_commitment = ''s0'', last_accepted_seq = 0 \<rparr>)),
     ([''d'', ''agents'', ''a'', ''nullifiers.wal''], Intact (CWal [] None)),
     ([''d'', ''agents'', ''a'', ''nullifiers.spent''], Intact (CWal [] None))],
   fs_dirs := fs_dirs demo_fs @ [[''d'', ''agents'', ''a''], [''d'', ''agents'', ''a'', ''pending_queue''],
     [''d'', ''agents'', ''a'', ''committed''], [''d'', ''agents'', ''a'', ''failed''], [''d'', ''agents'', ''a'', ''payments'']],
   fs_clock := [2, 3, 4, 5] \<rparr>"
  by (simp add: demo_app1_def demo_app0_def run_api run_demo run_fs run_store cong: run_congs)

lemma demo_pay1_ack: "fst demo_pay1 = Inr \<lparr> ack_accepted_at = 2, ack_new_pending_state_commitment = ''s1'',
    ack_reserved_nullifiers = [''n1''], ack_seq = 1, ack_signature = ''0xs'' \<rparr>"
  by (simp add: demo_pay1_def demo_app1_fs run_api run_demo run_fs run_store cong: run_congs)

lemma demo_pay1_fs: "snd demo_pay1 = (app_fs demo_app1) \<lparr>
    fs_files := [([''d'', ''agents'', ''a'', ''agent.json''], Intact (CAgent
        \<lparr> ar_agent_id = ''a'', ar_account_id = ''acc'', ar_hot_key_commitment = ''0xk'', ar_hot_key_scheme = Falcon,
          ar_hot_key_pubkey_hex = None, ar_registered_at = 1 \<rparr>)),
      ([''d'', ''agents'', ''a'', ''mandate.json''], Intact (CMandate (ra_mandate demo_request))),
      ([''d'', ''agents'', ''a'', ''pending_state.json''], Intact (CPending
        \<lparr> committed_state_commitment = ''s0'', pending_state_commitment = ''s1'', last_accepted_seq = 1 \<rparr>)),
      ([''d'', ''agents'', ''a'', ''nullifiers.wal''],
        Intact (CWal [WLine \<lparr> w_nullifier = ''n1'', w_seq = 1, w_ts = 2 \<rparr>] None)),
      ([''d'', ''agents'', ''a'', ''nullifiers.spent''], Intact (CWal [] None)),
      ([''d'', ''agents'', ''a'', ''pending_queue'', ''1.json''], Intact (CQueued
        (new_queued_tx \<lparr> committed_state_commitment = ''s0'', pending_state_commitment = ''s0'', last_accepted_seq = 0 \<rparr>
          (demo_payload ''s0'' ''s1'' ''n1'') [''n1''] 2))),
      ([''d'', ''agents'', ''a'', ''payments'', ''n1''], Intact (CLookup 1))],
    fs_clock := [3, 4, 5] \<rparr>"
  by (simp add: demo_pay1_def demo_app1_fs run_api run_demo run_fs run_store cong: run_congs)

lemma demo_pay2_ack: "fst demo_pay2 = Inr \<lparr> ack_accepted_at = 3, ack_new_pending_state_commitment = ''s2'',
    ack_reserved_nullifiers = [''n2''], ack_seq = 2, ack_signature = ''0xs'' \<rparr>"
  by (simp add: demo_pay2_def demo_pay1_fs demo_app1_fs run_api run_demo run_fs run_store cong: run_congs)

end
