(* ===== verification/X402_System.thy ===== *)
theory X402_System
  imports Instances
begin

text \<open>
  The facilitator as a whole: HTTP requests, the batch worker and the environment interleave
  (\<open>sys_step\<close>); every I/O call of every step may fail (the environment rewrites the script of
  faults), but the calls \<open>exists\<close>/\<open>is_file\<close>/\<open>is_dir\<close> answer truthfully. A step of \<open>sys_reach\<close> is one
  registration, one payment request, one listing, or one transaction handled by the worker, which
  works on the queue it listed earlier. \<open>sys_reach n\<close> counts the steps, so that sequence numbers stay
  below \<open>2 ^ 64\<close>. A payment holds the lock of its agent in the source, so it is one step; a registration is one step too,
  although the source takes no lock for it, so registrations that overlap another operation of the same
  agent are not covered. Agent ids and nullifiers are plain file names here; what happens with others is
  shown in \<open>X402_Properties\<close>.

  The invariant \<open>agent_inv\<close> relates the acknowledgements given so far (\<open>sys_log\<close>, a ghost) to
  the files: the log of nullifiers guards every acknowledged nullifier, every record of a queue
  has the identity its sequence number was given, sequence numbers do not exceed the one in
  \<open>pending_state.json\<close>, and the record and the sentinels of an acknowledged payment exist.
\<close>

section \<open>Steps of the system\<close>

record 'client sys =
  sys_app :: "'client app"
  sys_log :: "(string \<times> ack_response) list"
  sys_agents :: "string list"
  sys_current :: string
  sys_batch :: "queued_tx list"

definition sentinel_name :: "string \<Rightarrow> bool" where
  "sentinel_name n \<longleftrightarrow> plain_name n \<and> hd n \<noteq> CHR ''.''"

definition payment_nullifiers :: "('sig, 'pk, 'su, 'n) externals \<Rightarrow> agentic_payload \<Rightarrow> string list" where
  "payment_nullifiers X payload =
     (case try_decode_real_summary X (tx_summary payload) of
        Inr (Some su) \<Rightarrow> extract_nullifier_hexes X su
      | _ \<Rightarrow> claimed_nullifiers payload)"

definition sys_fs :: "'client sys \<Rightarrow> content fsys" where
  "sys_fs s = app_fs (sys_app s)"

definition set_fs :: "content fsys \<Rightarrow> 'client sys \<Rightarrow> 'client sys" where
  "set_fs fs s = s \<lparr> sys_app := (sys_app s) \<lparr> app_fs := fs \<rparr> \<rparr>"

inductive sys_step ::
  "('sig, 'pk, 'su, 'n) externals \<Rightarrow> ('sig, 'esig, 'epk) ecdsa_ops \<Rightarrow> ('client, 'acct, 'req) client_ops
   \<Rightarrow> key_ops \<Rightarrow> mword \<Rightarrow> path \<Rightarrow> batch_config \<Rightarrow> 'client sys \<Rightarrow> 'client sys \<Rightarrow> bool"
  for X E C K key root config where
  step_register: "plain_name (ra_agent_id req) \<Longrightarrow>
     register_agent X E C key root req (sys_app s) = (r, app') \<Longrightarrow>
     sys_step X E C K key root config s (s \<lparr> sys_app := app' \<rparr>)"
| step_pay: "plain_name a \<Longrightarrow> (\<forall>n \<in> set (payment_nullifiers X payload). sentinel_name n) \<Longrightarrow>
     post_payment X K key root a payload (sys_fs s) = (r, fs') \<Longrightarrow>
     sys_step X E C K key root config s
       (set_fs fs' (s \<lparr> sys_log := sys_log s @ (case r of Inr ack \<Rightarrow> [(a, ack)] | Inl _ \<Rightarrow> []) \<rparr>))"
| step_tick: "sys_agents s = [] \<Longrightarrow> sys_batch s = [] \<Longrightarrow> list_agents root (sys_fs s) = (r, fs') \<Longrightarrow>
     sys_step X E C K key root config s
       (set_fs fs' (s \<lparr> sys_agents := (case r of Inr as \<Rightarrow> as | Inl _ \<Rightarrow> []) \<rparr>))"
| step_list: "sys_agents s = a # as \<Longrightarrow> sys_batch s = [] \<Longrightarrow> list_queued root a (sys_fs s) = (r, fs') \<Longrightarrow>
     sys_step X E C K key root config s
       (set_fs fs' (case r of
          Inr queued \<Rightarrow> s \<lparr> sys_agents := as, sys_current := a, sys_batch := select_batch config queued \<rparr>
        | Inl _ \<Rightarrow> s \<lparr> sys_agents := [] \<rparr>))"
| step_work: "sys_batch s = tx # txs \<Longrightarrow>
     process_tx X E C root (sys_current s) tx (sys_app s) = (r, app') \<Longrightarrow>
     sys_step X E C K key root config s (s \<lparr> sys_app := app', sys_batch := txs \<rparr>)"
| step_environment:
     "sys_step X E C K key root config s
       (set_fs ((sys_fs s) \<lparr> fs_faults := faults, fs_clock := clock \<rparr>) s)"

inductive sys_reach ::
  "('sig, 'pk, 'su, 'n) externals \<Rightarrow> ('sig, 'esig, 'epk) ecdsa_ops \<Rightarrow> ('client, 'acct, 'req) client_ops
   \<Rightarrow> key_ops \<Rightarrow> mword \<Rightarrow> path \<Rightarrow> batch_config \<Rightarrow> nat \<Rightarrow> 'client sys \<Rightarrow> bool"
  for X E C K key root config where
  reach_init: "fs_files (sys_fs s) = [] \<Longrightarrow> fs_stat_faults (sys_fs s) = [] \<Longrightarrow> sys_log s = [] \<Longrightarrow>
     sys_agents s = [] \<Longrightarrow> sys_batch s = [] \<Longrightarrow> sys_reach X E C K key root config 0 s"
| reach_step: "sys_reach X E C K key root config n s \<Longrightarrow> sys_step X E C K key root config s s' \<Longrightarrow>
     sys_reach X E C K key root config (Suc n) s'"

section \<open>The invariant of one agent\<close>

type_synonym ident = "string list \<times> nat \<times> agentic_payload"

definition tx_ident :: "queued_tx \<Rightarrow> ident" where
  "tx_ident t = (q_nullifiers t, q_accepted_at t, q_payload t)"

definition qname :: "nat \<Rightarrow> string" where
  "qname seq = show_nat seq @ ''.json''"

lemma aw_rel_snd: "plain_path q \<Longrightarrow> plain_name n \<Longrightarrow> aw_rel q n v s (snd (atomic_write_json (q @ [n]) v s))"
  by (metis atomic_write_aw_rel prod.collapse)

lemma plain_qname [simp]: "plain_name (qname k)"
  by (simp add: qname_def)

lemma qname_neq_tmp [simp]: "qname k \<noteq> tmp_name m" "tmp_name m \<noteq> qname k"
proof -
  obtain c cs where "show_nat k = c # cs"
    by (metis show_nat_def show_radix_nonempty neq_Nil_conv)
  moreover from this have "c \<noteq> CHR ''.''"
    using show_nat_no_dot[of k] by auto
  ultimately show "qname k \<noteq> tmp_name m" "tmp_name m \<noteq> qname k"
    by (auto simp: qname_def tmp_name_def)
qed

lemma qname_inj [simp]: "qname j = qname k \<longleftrightarrow> j = k"
  by (simp add: qname_def show_nat_inj)


definition last_of :: "path \<Rightarrow> string \<Rightarrow> content fsys \<Rightarrow> nat option" where
  "last_of r a s =
     (case fget s (pending_state_file r a) of
        Some (Intact (CPending st)) \<Rightarrow> Some (last_accepted_seq st) | _ \<Rightarrow> None)"

definition tx_ok :: "nat option \<Rightarrow> (nat \<Rightarrow> ident) \<Rightarrow> queued_tx \<Rightarrow> bool" where
  "tx_ok l I t \<longleftrightarrow> (\<exists>k. l = Some k \<and> q_seq t \<le> k) \<and> tx_ident t = I (q_seq t)"

definition qfile_ok :: "nat option \<Rightarrow> (nat \<Rightarrow> ident) \<Rightarrow> string \<Rightarrow> content \<Rightarrow> bool" where
  "qfile_ok l I m c \<longleftrightarrow> (\<exists>t. c = CQueued t \<and> tx_ok l I t \<and> m \<in> {qname (q_seq t), tmp_name (qname (q_seq t))})"

definition pending_ok :: "path \<Rightarrow> string \<Rightarrow> nat \<Rightarrow> content fsys \<Rightarrow> bool" where
  "pending_ok r a n s \<longleftrightarrow>
     (case fget s (pending_state_file r a) of
        None \<Rightarrow> True
      | Some (Intact (CPending st)) \<Rightarrow> last_accepted_seq st \<le> n \<and> has_dir s (agent_dir r a)
      | _ \<Rightarrow> False)"

definition has_record :: "path \<Rightarrow> string \<Rightarrow> nat \<Rightarrow> content fsys \<Rightarrow> bool" where
  "has_record r a seq s \<longleftrightarrow>
     (\<exists>d \<in> set (status_dirs r a). \<exists>t. fget s (d @ [qname seq]) = Some (Intact (CQueued t)))"

definition ack_ok :: "path \<Rightarrow> string \<Rightarrow> (nat \<Rightarrow> ident) \<Rightarrow> content fsys \<Rightarrow> ack_response \<Rightarrow> bool" where
  "ack_ok r a I s ack \<longleftrightarrow>
     (\<exists>k. last_of r a s = Some k \<and> ack_seq ack \<le> k) \<and>
     wal_guards (nullifiers_wal r a) (set (ack_reserved_nullifiers ack)) s \<and>
     fst (I (ack_seq ack)) = ack_reserved_nullifiers ack \<and>
     fst (snd (I (ack_seq ack))) = ack_accepted_at ack \<and>
     has_record r a (ack_seq ack) s \<and>
     (\<forall>n \<in> set (ack_reserved_nullifiers ack). sentinel_name n \<and>
        fget s (payments_dir r a @ [n]) = Some (Intact (CLookup (ack_seq ack))))"

definition agent_inv ::
  "path \<Rightarrow> nat \<Rightarrow> ack_response list \<Rightarrow> queued_tx list \<Rightarrow> (nat \<Rightarrow> ident) \<Rightarrow> string \<Rightarrow> content fsys \<Rightarrow> bool" where
  "agent_inv r n acks txs I a s \<longleftrightarrow>
     fs_stat_faults s = [] \<and> pending_ok r a n s \<and>
     (\<forall>d \<in> set (status_dirs r a). \<forall>m c. plain_name m \<longrightarrow> fget s (d @ [m]) = Some (Intact c) \<longrightarrow>
        qfile_ok (last_of r a s) I m c) \<and>
     (\<forall>d \<in> set (status_dirs r a). \<forall>k e. fget s (d @ [qname k]) \<noteq> Some (Torn e)) \<and>
     (\<forall>t \<in> set txs. tx_ok (last_of r a s) I t) \<and>
     (\<forall>ack \<in> set acks. ack_ok r a I s ack)"

lemma agent_inv_qfile:
  "agent_inv r n acks txs I a s \<Longrightarrow> d \<in> set (status_dirs r a) \<Longrightarrow> plain_name m \<Longrightarrow>
     fget s (d @ [m]) = Some (Intact c) \<Longrightarrow> qfile_ok (last_of r a s) I m c"
  by (simp add: agent_inv_def)

lemma agent_inv_stat: "agent_inv r n acks txs I a s \<Longrightarrow> fs_stat_faults s = []"
  by (simp add: agent_inv_def)

lemma agent_inv_ack: "agent_inv r n acks txs I a s \<Longrightarrow> ack \<in> set acks \<Longrightarrow> ack_ok r a I s ack"
  by (simp add: agent_inv_def)

lemma agent_inv_step:
  assumes inv: "agent_inv r n acks txs I a s"
    and stat: "fs_stat_faults s' = []"
    and dirs: "has_dir s (agent_dir r a) \<longrightarrow> has_dir s' (agent_dir r a)"
    and pend: "fget s' (pending_state_file r a) = fget s (pending_state_file r a)"
    and files: "\<And>d m c. d \<in> set (status_dirs r a) \<Longrightarrow> plain_name m \<Longrightarrow> fget s' (d @ [m]) = Some (Intact c) \<Longrightarrow>
        fget s (d @ [m]) = Some (Intact c) \<or> qfile_ok (last_of r a s) I m c"
    and torn: "\<And>d k e. d \<in> set (status_dirs r a) \<Longrightarrow> fget s' (d @ [qname k]) = Some (Torn e) \<Longrightarrow>
        fget s (d @ [qname k]) = Some (Torn e)"
    and recs: "\<And>seq. has_record r a seq s \<Longrightarrow> has_record r a seq s'"
    and wal: "\<And>N. wal_guards (nullifiers_wal r a) N s \<Longrightarrow> wal_guards (nullifiers_wal r a) N s'"
    and pay: "\<And>ack m. ack \<in> set acks \<Longrightarrow> m \<in> set (ack_reserved_nullifiers ack) \<Longrightarrow> sentinel_name m \<Longrightarrow>
        fget s' (payments_dir r a @ [m]) = fget s (payments_dir r a @ [m])"
  shows "agent_inv r n acks txs I a s'"
proof -
  have last: "last_of r a s' = last_of r a s"
    using pend by (simp add: last_of_def)
  have "pending_ok r a n s'"
    using inv dirs pend by (auto simp: agent_inv_def pending_ok_def split: option.splits fdata.splits content.splits)
  moreover have "ack_ok r a I s' ack" if "ack \<in> set acks" for ack
    using inv that last recs wal pay[OF that] by (auto simp: agent_inv_def ack_ok_def)
  ultimately show ?thesis
    using inv stat files last torn unfolding agent_inv_def by metis
qed


section \<open>What keeps the invariant\<close>

definition rel_paths :: "path \<Rightarrow> string \<Rightarrow> path set" where
  "rel_paths r a = {pending_state_file r a, nullifiers_wal r a} \<union> dir_files (payments_dir r a) \<union>
     (\<Union>d \<in> set (status_dirs r a). dir_files d)"

lemma dir_filesI: "d @ [m] \<in> dir_files d"
  by simp

lemma store_path_plain:
  assumes "plain_path r" "plain_name a"
  shows "plain_path (agent_dir r a)" "plain_path (pending_state_file r a)" "plain_path (nullifiers_wal r a)"
    "plain_path (payments_dir r a)" "d \<in> set (status_dirs r a) \<Longrightarrow> plain_path d"
    "plain_path (queue_dir r a)" "plain_path (failed_dir r a)"
  using assms by (auto simp: store_paths)

lemma agent_inv_frame:
  assumes inv: "agent_inv r n acks txs I a s" and same: "same_files A s s'"
    and disj: "A \<inter> rel_paths r a = {}" and plain: "plain_path r" "plain_name a"
  shows "agent_inv r n acks txs I a s'"
proof -
  note pl = store_path_plain[OF plain]
  have eq: "fget s' p = fget s p" if "p \<in> rel_paths r a" "plain_path p" for p
    using same_filesD[OF same, of p] that disj by auto
  have q: "fget s' (d @ [m]) = fget s (d @ [m])" if "d \<in> set (status_dirs r a)" "plain_name m" for d m
    using that pl by (intro eq) (auto simp: rel_paths_def)
  have w: "fget s' (nullifiers_wal r a) = fget s (nullifiers_wal r a)"
    using pl by (intro eq) (auto simp: rel_paths_def)
  show ?thesis
  proof (rule agent_inv_step[OF inv])
    show "fs_stat_faults s' = []"
      using inv same_files_stat[OF same] by (simp add: agent_inv_def)
    show "has_dir s (agent_dir r a) \<longrightarrow> has_dir s' (agent_dir r a)"
      using same by (auto simp: same_files_def has_dir_def)
    show "fget s' (pending_state_file r a) = fget s (pending_state_file r a)"
      using pl by (intro eq) (auto simp: rel_paths_def)
    show "has_record r a seq s'" if "has_record r a seq s" for seq
      using that q by (auto simp: has_record_def qname_def)
    show "wal_guards (nullifiers_wal r a) N s'" if "wal_guards (nullifiers_wal r a) N s" for N
      using that w by (simp add: wal_guards_def)
    show "fget s' (payments_dir r a @ [m]) = fget s (payments_dir r a @ [m])" if "sentinel_name m" for m
      using that pl by (intro eq) (auto simp: rel_paths_def sentinel_name_def)
  qed (use q in auto)
qed

lemma agent_inv_keeps_frame:
  assumes "\<And>s0. keepsS (same_files A s0) m" "A \<inter> rel_paths r a = {}" "plain_path r" "plain_name a"
  shows "keepsS (agent_inv r n acks txs I a) m"
proof (rule keepsSI)
  fix s assume "agent_inv r n acks txs I a s"
  moreover have "same_files A s (snd (m s))"
    using keepsSD[OF assms(1) same_files_refl] .
  ultimately show "agent_inv r n acks txs I a (snd (m s))"
    using agent_inv_frame assms by blast
qed

lemma agent_inv_wal_op:
  assumes plain: "plain_path r" "plain_name a"
    and frame: "\<And>s0. keepsS (same_files {nullifiers_wal r a} s0) m"
    and guards: "\<And>N. keepsS (wal_guards (nullifiers_wal r a) N) m"
  shows "keepsS (agent_inv r n acks txs I a) m"
proof (rule keepsSI)
  fix s assume inv: "agent_inv r n acks txs I a s"
  let ?w = "nullifiers_wal r a"
  note pl = store_path_plain[OF plain]
  have same: "same_files {?w} s (snd (m s))"
    using keepsSD[OF frame same_files_refl] .
  have eq: "fget (snd (m s)) p = fget s p" if "p \<noteq> ?w" "plain_path p" for p
    using same_filesD[OF same, of p] that by simp
  show "agent_inv r n acks txs I a (snd (m s))"
  proof (rule agent_inv_step[OF inv])
    show "fs_stat_faults (snd (m s)) = []"
      using inv same_files_stat[OF same] by (simp add: agent_inv_def)
    show "has_dir s (agent_dir r a) \<longrightarrow> has_dir (snd (m s)) (agent_dir r a)"
      using same by (auto simp: same_files_def has_dir_def)
    show "fget (snd (m s)) (pending_state_file r a) = fget s (pending_state_file r a)"
      using plain by (intro eq) (auto simp: store_paths)
    show "has_record r a seq (snd (m s))" if "has_record r a seq s" for seq
    proof -
      have "fget (snd (m s)) (d @ [qname seq]) = fget s (d @ [qname seq])" if "d \<in> set (status_dirs r a)" for d
        using that plain by (intro eq) (auto simp: store_paths qname_def)
      then show ?thesis using that by (auto simp: has_record_def)
    qed
    show "fget s (d @ [qname k]) = Some (Torn e)"
      if "d \<in> set (status_dirs r a)" "fget (snd (m s)) (d @ [qname k]) = Some (Torn e)" for d k e
      using that plain eq[of "d @ [qname k]"] by (auto simp: store_paths qname_def)
    show "wal_guards ?w N (snd (m s))" if "wal_guards ?w N s" for N
      using that keepsSD[OF guards] by blast
    show "fget (snd (m s)) (payments_dir r a @ [x]) = fget s (payments_dir r a @ [x])" if "sentinel_name x" for x
      using that plain by (intro eq) (auto simp: store_paths sentinel_name_def)
    fix d x c
    assume "d \<in> set (status_dirs r a)" "plain_name x" "fget (snd (m s)) (d @ [x]) = Some (Intact c)"
    moreover from this have "fget (snd (m s)) (d @ [x]) = fget s (d @ [x])"
      using plain by (intro eq) (auto simp: store_paths)
    ultimately show "fget s (d @ [x]) = Some (Intact c) \<or> qfile_ok (last_of r a s) I x c"
      by simp
  qed
qed

lemma agent_inv_reserve:
  assumes plain: "plain_path r" "plain_name a"
  shows "keepsS (agent_inv r n acks txs I a) (reserve_nullifiers r a es)"
  unfolding reserve_nullifiers_def using store_path_plain[OF plain]
  by (intro agent_inv_wal_op[OF plain] keeps) auto

lemma agent_inv_open_wal:
  assumes plain: "plain_path r" "plain_name a"
  shows "keepsS (agent_inv r n acks txs I a) (io (open_append (nullifiers_wal r a)))"
  using store_path_plain[OF plain] by (intro agent_inv_wal_op[OF plain] keeps) auto

lemma aw_rel_frame: "aw_rel q n v s s' \<Longrightarrow> plain_path p \<Longrightarrow> p \<notin> {q @ [n], q @ [tmp_name n]} \<Longrightarrow> fget s' p = fget s p"
  by (metis aw_rel_def resolve_plain same_filesD)

lemma agent_inv_write_record:
  assumes inv: "agent_inv r n acks txs I a s" and aw: "aw_rel d (qname (q_seq t)) (CQueued t) s s'"
    and d: "d \<in> set (status_dirs r a)" and t: "tx_ok (last_of r a s) I t"
    and plain: "plain_path r" "plain_name a"
  shows "agent_inv r n acks txs I a s'"
proof -
  note pl = store_path_plain[OF plain]
  let ?T = "{d @ [qname (q_seq t)], d @ [tmp_name (qname (q_seq t))]}"
  have same: "same_files ?T s s'"
    using aw by (simp add: aw_rel_def)
  have eq: "fget s' p = fget s p" if "p \<notin> ?T" "plain_path p" for p
    using aw_rel_frame[OF aw] that by blast
  have rec: "\<exists>t'. fget s' (d @ [qname seq]) = Some (Intact (CQueued t'))"
    if "fget s (d @ [qname seq]) = Some (Intact (CQueued t'))" for seq t'
  proof (cases "seq = q_seq t")
    case True
    then show ?thesis using aw that by (auto simp: aw_rel_def)
  next
    case False
    then show ?thesis using eq[of "d @ [qname seq]"] that pl(5)[OF d] by auto
  qed
  show ?thesis
  proof (rule agent_inv_step[OF inv])
    show "fs_stat_faults s' = []"
      using inv same_files_stat[OF same] by (simp add: agent_inv_def)
    show "has_dir s (agent_dir r a) \<longrightarrow> has_dir s' (agent_dir r a)"
      using same by (auto simp: same_files_def has_dir_def)
    show "fget s' (pending_state_file r a) = fget s (pending_state_file r a)"
      using plain d by (intro eq) (auto simp: store_paths)
    show "wal_guards (nullifiers_wal r a) N s'" if "wal_guards (nullifiers_wal r a) N s" for N
      using that eq[of "nullifiers_wal r a"] plain d by (auto simp: wal_guards_def store_paths)
    show "fget s' (payments_dir r a @ [m]) = fget s (payments_dir r a @ [m])" if "sentinel_name m" for m
      using that plain d by (intro eq) (auto simp: store_paths sentinel_name_def)
    show "fget s (e @ [qname k]) = Some (Torn x)"
      if "e \<in> set (status_dirs r a)" "fget s' (e @ [qname k]) = Some (Torn x)" for e k x
      using that aw eq[of "e @ [qname k]"] pl(5)[OF that(1)]
      by (cases "e = d \<and> k = q_seq t") (auto simp: aw_rel_def)
    show "has_record r a seq s'" if hr: "has_record r a seq s" for seq
    proof -
      obtain e t' where e: "e \<in> set (status_dirs r a)" "fget s (e @ [qname seq]) = Some (Intact (CQueued t'))"
        using hr by (auto simp: has_record_def)
      then have "\<exists>t'. fget s' (e @ [qname seq]) = Some (Intact (CQueued t'))"
        using rec eq[of "e @ [qname seq]"] pl(5)[OF e(1)] by (cases "e = d") auto
      then show ?thesis using e(1) by (auto simp: has_record_def)
    qed
    fix e m c
    assume em: "e \<in> set (status_dirs r a)" "plain_name m" "fget s' (e @ [m]) = Some (Intact c)"
    have ok: "qfile_ok (last_of r a s) I m' (CQueued t)" if "m' \<in> {qname (q_seq t), tmp_name (qname (q_seq t))}" for m'
      using t that by (auto simp: qfile_ok_def)
    show "fget s (e @ [m]) = Some (Intact c) \<or> qfile_ok (last_of r a s) I m c"
    proof (cases "e @ [m] \<in> ?T")
      case True
      then have "e = d" "m \<in> {qname (q_seq t), tmp_name (qname (q_seq t))}" by auto
      then show ?thesis using aw em ok by (auto simp: aw_rel_def)
    next
      case False
      then show ?thesis using eq[OF False] em pl(5)[OF em(1)] by auto
    qed
  qed
qed

lemma agent_inv_write_sentinel:
  assumes inv: "agent_inv r n acks txs I a s" and aw: "aw_rel (payments_dir r a) m (CLookup k) s s'"
    and fresh: "\<And>ack. ack \<in> set acks \<Longrightarrow> m \<notin> set (ack_reserved_nullifiers ack)"
    and plain: "plain_path r" "plain_name a"
  shows "agent_inv r n acks txs I a s'"
proof -
  note pl = store_path_plain[OF plain]
  let ?T = "{payments_dir r a @ [m], payments_dir r a @ [tmp_name m]}"
  have same: "same_files ?T s s'"
    using aw by (simp add: aw_rel_def)
  have eq: "fget s' p = fget s p" if "p \<notin> ?T" "plain_path p" for p
    using aw_rel_frame[OF aw] that by blast
  have q: "fget s' (d @ [x]) = fget s (d @ [x])" if "d \<in> set (status_dirs r a)" "plain_name x" for d x
    using that plain by (intro eq) (auto simp: store_paths)
  show ?thesis
  proof (rule agent_inv_step[OF inv])
    show "fs_stat_faults s' = []"
      using inv same_files_stat[OF same] by (simp add: agent_inv_def)
    show "has_dir s (agent_dir r a) \<longrightarrow> has_dir s' (agent_dir r a)"
      using same by (auto simp: same_files_def has_dir_def)
    show "fget s' (pending_state_file r a) = fget s (pending_state_file r a)"
      using plain by (intro eq) (auto simp: store_paths)
    show "wal_guards (nullifiers_wal r a) N s'" if "wal_guards (nullifiers_wal r a) N s" for N
      using that eq[of "nullifiers_wal r a"] plain by (auto simp: wal_guards_def store_paths)
    show "has_record r a seq s'" if "has_record r a seq s" for seq
      using that q by (auto simp: has_record_def)
    show "fget s' (payments_dir r a @ [x]) = fget s (payments_dir r a @ [x])"
      if "ack \<in> set acks" "x \<in> set (ack_reserved_nullifiers ack)" "sentinel_name x" for ack x
    proof (rule eq)
      have "x \<noteq> m" using fresh that by blast
      moreover have "x \<noteq> tmp_name m" using that(3) by (auto simp: sentinel_name_def tmp_name_def)
      ultimately show "payments_dir r a @ [x] \<notin> ?T" by simp
    qed (use that pl in \<open>auto simp: sentinel_name_def\<close>)
  qed (use q in auto)
qed


lemma agent_inv_move:
  assumes inv: "agent_inv r n acks txs I a s" and mv: "move_to_failed r a k s = (x, s')"
    and plain: "plain_path r" "plain_name a"
  shows "agent_inv r n acks txs I a s'"
proof -
  note pl = store_path_plain[OF plain]
  let ?q = "queue_dir r a @ [qname k]" and ?f = "failed_dir r a @ [qname k]"
  obtain x0 where run: "fs_rename ?q ?f s = (x0, s')"
    using io_snd[OF mv[unfolded move_to_failed_def]] by (auto simp: store_paths qname_def plain)
  have res: "resolve ?q = ?q" "resolve ?f = ?f"
    using pl by auto
  have same: "same_files {?q, ?f} s s'"
    using rename_frame(1)[OF run] res by simp
  have eq: "fget s' p = fget s p" if "p \<notin> {?q, ?f}" "plain_path p" for p
    using same_filesD[OF same, of p] that by simp
  have cases: "fget s' = fget s \<or> (fget s' ?f = fget s ?q \<and> fget s' ?q = None \<and> fget s ?q \<noteq> None)"
  proof (cases "is_ok x0")
    case True
    have "fget s' ?q = None"
      using run[unfolded fs_rename_def] True res plain
      by (cases rule: io_call_cases) (auto split: option.splits if_splits simp: store_paths)
    then show ?thesis using rename_frame(2)[OF run True] by simp
  qed (use rename_frame(3)[OF run] in simp)
  have dirs: "queue_dir r a \<in> set (status_dirs r a)" "failed_dir r a \<in> set (status_dirs r a)"
    "queue_dir r a \<noteq> failed_dir r a"
    using plain by (auto simp: store_paths)
  show ?thesis
  proof (rule agent_inv_step[OF inv])
    show "fs_stat_faults s' = []"
      using inv same_files_stat[OF same] by (simp add: agent_inv_def)
    show "has_dir s (agent_dir r a) \<longrightarrow> has_dir s' (agent_dir r a)"
      using same by (auto simp: same_files_def has_dir_def)
    show "fget s' (pending_state_file r a) = fget s (pending_state_file r a)"
      using plain by (intro eq) (auto simp: store_paths)
    show "wal_guards (nullifiers_wal r a) N s'" if "wal_guards (nullifiers_wal r a) N s" for N
      using that eq[of "nullifiers_wal r a"] plain by (auto simp: wal_guards_def store_paths)
    show "fget s' (payments_dir r a @ [m]) = fget s (payments_dir r a @ [m])" if "sentinel_name m" for m
      using that plain by (intro eq) (auto simp: store_paths sentinel_name_def)
    show "fget s (e @ [qname j]) = Some (Torn x)"
      if "e \<in> set (status_dirs r a)" "fget s' (e @ [qname j]) = Some (Torn x)" for e j x
    proof (cases "e @ [qname j] \<in> {?q, ?f}")
      case False
      then show ?thesis using eq[OF False] that pl(5)[OF that(1)] by auto
    next
      case True
      then have "fget s ?q \<noteq> Some (Torn x)"
        using inv dirs by (auto simp: agent_inv_def)
      then show ?thesis using cases True that by auto
    qed
    show "has_record r a seq s'" if hr: "has_record r a seq s" for seq
    proof -
      obtain e t where e: "e \<in> set (status_dirs r a)" "fget s (e @ [qname seq]) = Some (Intact (CQueued t))"
        using hr by (auto simp: has_record_def)
      show ?thesis
      proof (cases "e @ [qname seq] \<in> {?q, ?f}")
        case False
        then show ?thesis using eq[OF False] e pl(5)[OF e(1)] by (auto simp: has_record_def)
      next
        case True
        then have "seq = k" by auto
        consider "fget s' = fget s" | "fget s' ?f = fget s ?q" "fget s ?q \<noteq> None"
          using cases by blast
        then show ?thesis
        proof cases
          case 1
          then show ?thesis using e by (auto simp: has_record_def)
        next
          case 2
          then obtain c where c: "fget s ?q = Some (Intact c)"
            using inv dirs by (auto simp: agent_inv_def) (metis fdata.exhaust)
          then have "\<exists>t. c = CQueued t"
            using agent_inv_qfile[OF inv dirs(1) plain_qname c] by (auto simp: qfile_ok_def)
          with c show ?thesis using 2 dirs \<open>seq = k\<close> by (auto simp: has_record_def)
        qed
      qed
    qed
    fix e m c
    assume em: "e \<in> set (status_dirs r a)" "plain_name m" "fget s' (e @ [m]) = Some (Intact c)"
    show "fget s (e @ [m]) = Some (Intact c) \<or> qfile_ok (last_of r a s) I m c"
    proof (cases "e @ [m] \<in> {?q, ?f}")
      case False
      then show ?thesis using eq[OF False] em pl(5)[OF em(1)] by auto
    next
      case True
      then have "m = qname k" by auto
      have "qfile_ok (last_of r a s) I (qname k) c" if "fget s ?q = Some (Intact c)"
        using inv that dirs by (auto simp: agent_inv_def)
      then show ?thesis using cases True em by auto
    qed
  qed
qed


text \<open>
  Advancing the pending state: the sequence number grows to one for which nothing was recorded.
\<close>

lemma tx_ok_mono: "tx_ok (Some k) I t \<Longrightarrow> k \<le> k' \<Longrightarrow> tx_ok (Some k') I t"
  by (auto simp: tx_ok_def)

lemma agent_inv_write_pending:
  assumes inv: "agent_inv r n acks txs I a s"
    and aw: "aw_rel (agent_dir r a) ''pending_state.json'' (CPending st) s s'"
    and grow: "\<And>k. last_of r a s = Some k \<Longrightarrow> k \<le> last_accepted_seq st"
    and bound: "last_accepted_seq st \<le> n"
    and dir: "has_dir s' (agent_dir r a) \<or> fget s' (pending_state_file r a) = fget s (pending_state_file r a)"
    and plain: "plain_path r" "plain_name a"
  shows "agent_inv r n acks txs I a s'"
proof -
  note pl = store_path_plain[OF plain]
  let ?p = "agent_dir r a @ [''pending_state.json'']"
  let ?T = "{?p, agent_dir r a @ [tmp_name ''pending_state.json'']}"
  have p: "pending_state_file r a = ?p" using plain by (simp add: store_paths)
  have same: "same_files ?T s s'" using aw by (simp add: aw_rel_def)
  have eq: "fget s' x = fget s x" if "x \<notin> ?T" "plain_path x" for x
    using aw_rel_frame[OF aw] that by blast
  have q: "fget s' (d @ [m]) = fget s (d @ [m])" if "d \<in> set (status_dirs r a)" "plain_name m" for d m
    using that plain by (intro eq) (auto simp: store_paths)
  consider (old) "fget s' ?p = fget s ?p" | (new) "fget s' ?p = Some (Intact (CPending st))"
    using aw by (auto simp: aw_rel_def)
  then have last: "\<exists>k'. last_of r a s' = Some k' \<and> k \<le> k'" if "last_of r a s = Some k" for k
    using that grow by cases (auto simp: last_of_def p)
  have mono: "tx_ok (last_of r a s') I t" if t: "tx_ok (last_of r a s) I t" for t
  proof -
    obtain k where "last_of r a s = Some k" "q_seq t \<le> k" using t by (auto simp: tx_ok_def)
    then show ?thesis using last t by (metis tx_ok_mono)
  qed
  have "pending_ok r a n s'"
  proof (cases "fget s' ?p = fget s ?p")
    case True
    have "has_dir s (agent_dir r a) \<Longrightarrow> has_dir s' (agent_dir r a)"
      using same by (auto simp: same_files_def has_dir_def)
    with True show ?thesis
      using inv by (auto simp: agent_inv_def pending_ok_def p split: option.splits fdata.splits content.splits)
  next
    case False
    then have "fget s' ?p = Some (Intact (CPending st))" using aw by (auto simp: aw_rel_def)
    then show ?thesis using bound dir False by (simp add: pending_ok_def p)
  qed
  moreover have "ack_ok r a I s' ack" if "ack \<in> set acks" for ack
  proof -
    have ok: "ack_ok r a I s ack" using agent_inv_ack[OF inv that] .
    have "fget s' (nullifiers_wal r a) = fget s (nullifiers_wal r a)"
      using plain by (intro eq) (auto simp: store_paths tmp_name_def)
    moreover have "fget s' (payments_dir r a @ [m]) = fget s (payments_dir r a @ [m])" if "sentinel_name m" for m
      using that plain by (intro eq) (auto simp: store_paths sentinel_name_def)
    moreover have "\<exists>k. last_of r a s' = Some k \<and> ack_seq ack \<le> k"
      using ok last by (fastforce simp: ack_ok_def)
    moreover have "has_record r a (ack_seq ack) s'"
      using ok q by (auto simp: ack_ok_def has_record_def)
    ultimately show ?thesis using ok by (simp add: ack_ok_def wal_guards_def)
  qed
  moreover have "qfile_ok (last_of r a s') I m c"
    if "d \<in> set (status_dirs r a)" "plain_name m" "fget s' (d @ [m]) = Some (Intact c)" for d m c
  proof -
    have "fget s (d @ [m]) = Some (Intact c)" using q that by simp
    from agent_inv_qfile[OF inv that(1,2) this] show ?thesis
      using mono by (auto simp: qfile_ok_def)
  qed
  moreover have "fget s' (d @ [qname k]) \<noteq> Some (Torn e)" if "d \<in> set (status_dirs r a)" for d k e
    using inv q[OF that plain_qname] that by (simp add: agent_inv_def)
  ultimately show ?thesis
    using inv mono same_files_stat[OF same] by (simp add: agent_inv_def)
qed


section \<open>What the operations keep\<close>

lemma keeps_read:
  assumes "plain_path r" "plain_name a" "\<And>s0. keepsS (same_files {} s0) m"
  shows "keepsS (agent_inv r n acks txs I a) m"
  using assms by (intro agent_inv_keeps_frame[of "{}"]) auto

lemma keeps_reads:
  assumes "plain_path r" "plain_name a"
  shows "keepsS (agent_inv r n acks txs I a) (load_agent r' b)"
    "keepsS (agent_inv r n acks txs I a) (load_mandate r' b)"
    "keepsS (agent_inv r n acks txs I a) (load_pending_state r' b)"
    "keepsS (agent_inv r n acks txs I a) (nullifier_view_of r' b)"
    "keepsS (agent_inv r n acks txs I a) (list_queued r' b)"
    "keepsS (agent_inv r n acks txs I a) (list_agents r')"
    "keepsS (agent_inv r n acks txs I a) (fs_is_file p)"
    "keepsS (agent_inv r n acks txs I a) (fs_exists p)"
    "keepsS (agent_inv r n acks txs I a) fs_now"
  by (rule keeps_read[OF assms]; rule keeps)+

lemma keeps_write_record:
  assumes plain: "plain_path r" "plain_name a" and d: "d \<in> set (status_dirs r a)"
    and t: "t0 \<in> set txs" "q_seq t0 = q_seq t" "tx_ident t0 = tx_ident t"
  shows "keepsS (agent_inv r n acks txs I a) (atomic_write_json (seq_file d (q_seq t)) (CQueued t))"
proof (rule keepsSI)
  fix s assume inv: "agent_inv r n acks txs I a s"
  have "tx_ok (last_of r a s) I t0"
    using inv t by (simp add: agent_inv_def)
  then have ok: "tx_ok (last_of r a s) I t"
    using t by (simp add: tx_ok_def)
  have f: "seq_file d (q_seq t) = d @ [qname (q_seq t)]"
    by (simp add: store_paths qname_def)
  have "aw_rel d (qname (q_seq t)) (CQueued t) s (snd (atomic_write_json (seq_file d (q_seq t)) (CQueued t) s))"
    using store_path_plain(5)[OF plain d] unfolding f by (intro aw_rel_snd) auto
  then show "agent_inv r n acks txs I a (snd (atomic_write_json (seq_file d (q_seq t)) (CQueued t) s))"
    using agent_inv_write_record[OF inv _ d ok plain] by blast
qed

lemma keeps_upsert_in:
  assumes plain: "plain_path r" "plain_name a"
    and t: "t0 \<in> set txs" "q_seq t0 = q_seq t" "tx_ident t0 = tx_ident t"
    and ds: "set ds \<subseteq> set (status_dirs r a)" and e: "e \<in> set (status_dirs r a)"
  shows "keepsS (agent_inv r n acks txs I a)
    (upsert_in (map (\<lambda>d. seq_file d (q_seq t)) ds) (seq_file e (q_seq t)) t)"
  using ds by (induction ds)
    (auto intro!: keeps keeps_reads[OF plain] keeps_write_record[OF plain _ t] simp: e)

lemma keeps_upsert:
  assumes plain: "plain_path r" "plain_name a"
    and t: "t0 \<in> set txs" "q_seq t0 = q_seq t" "tx_ident t0 = tx_ident t"
  shows "keepsS (agent_inv r n acks txs I a) (upsert_queued r a t)"
  unfolding upsert_queued_def
  by (rule keeps_upsert_in[OF plain t]) (auto simp: store_paths plain)

lemma keeps_move_to_failed:
  assumes plain: "plain_path r" "plain_name a"
  shows "keepsS (agent_inv r n acks txs I a) (move_to_failed r a k)"
  by (rule keepsSI) (metis agent_inv_move plain prod.collapse)

lemma keeps_write_sentinel:
  assumes plain: "plain_path r" "plain_name a" and m: "plain_name m"
    and fresh: "\<And>ack. ack \<in> set acks \<Longrightarrow> m \<notin> set (ack_reserved_nullifiers ack)"
  shows "keepsS (agent_inv r n acks txs I a) (atomic_write_json (path_join (payments_dir r a) m) (CLookup k))"
proof (rule keepsSI)
  fix s assume inv: "agent_inv r n acks txs I a s"
  have "aw_rel (payments_dir r a) m (CLookup k) s (snd (atomic_write_json (payments_dir r a @ [m]) (CLookup k) s))"
    using store_path_plain[OF plain] m by (intro aw_rel_snd) auto
  then show "agent_inv r n acks txs I a (snd (atomic_write_json (path_join (payments_dir r a) m) (CLookup k) s))"
    using agent_inv_write_sentinel[OF inv _ fresh plain] m by simp
qed

lemma keeps_enqueue:
  assumes plain: "plain_path r" "plain_name a" and t: "t \<in> set txs"
    and names: "\<And>m. m \<in> set (q_nullifiers t) \<Longrightarrow> plain_name m"
    and fresh: "\<And>m ack. m \<in> set (q_nullifiers t) \<Longrightarrow> ack \<in> set acks \<Longrightarrow> m \<notin> set (ack_reserved_nullifiers ack)"
  shows "keepsS (agent_inv r n acks txs I a) (enqueue r a t)"
proof -
  have "queue_dir r a \<in> set (status_dirs r a)"
    using plain by (simp add: store_paths)
  moreover have "keepsS (agent_inv r n acks txs I a)
      (forS (\<lambda>m. atomic_write_json (path_join (payments_dir r a) m) (CLookup (q_seq t))) ms)"
    if "set ms \<subseteq> set (q_nullifiers t)" for ms
    using that
  proof (induction ms)
    case (Cons m ms)
    then show ?case
      using keeps_write_sentinel[OF plain names fresh, of m] by (auto intro!: keeps)
  qed (simp add: keeps)
  ultimately show ?thesis
    unfolding enqueue_def by (intro keepsS_bindS keeps_write_record[OF plain _ t]) auto
qed


section \<open>Accepting a payment\<close>

lemma admit_frame [keeps]: "keepsS (same_files A s0) (admit_payment X r a payload)"
  by (auto simp: admit_payment_def Let_def intro!: keeps)

lemma read_json_Inr:
  assumes "read_json as_t p s = (Inr v, s')"
  shows "\<exists>c. fget s p = Some (Intact c) \<and> as_t c = Some v"
proof -
  obtain f where "fs_read p s = (Inr f, s')"
    and "(case f of Torn e \<Rightarrow> Inl (Internal (''read '' @ path_display p @ '': '' @ e))
        | Intact c \<Rightarrow> (case as_t c of Some v \<Rightarrow> Inr v
             | None \<Rightarrow> Inl (Internal (''read '' @ path_display p @ '': missing field'')))) = Inr v"
    using assms by (auto simp: read_json_def bindS_Inr_iff)
  then show ?thesis
    using read_frame(3)[of p s "Inr f" s' f] by (cases f) (auto split: option.splits)
qed

lemma map_errS_Inr [simp]: "map_errS g m s = (Inr v, s') \<longleftrightarrow> m s = (Inr v, s')"
  by (auto simp: map_errS_def split: prod.splits)

lemma load_pending_Inr:
  "load_pending_state r a s = (Inr st, s') \<Longrightarrow> fget s (pending_state_file r a) = Some (Intact (CPending st))"
  by (auto simp: load_pending_state_def dest!: read_json_Inr elim!: as_pending.elims)

lemma same_files_empty_fget: "same_files {} s s' \<Longrightarrow> fget s' = fget s"
  by (auto simp: same_files_def)

lemma keeps_same_empty:
  assumes "\<And>A s0. keepsS (same_files A s0) m" "m s = (x, s')"
  shows "same_files {} s s'"
  using keepsS_run[OF assms(1)[of "{}" s] same_files_refl assms(2)] .

lemma admit_Inr:
  assumes run: "admit_payment X r a payload s = (Inr (pending, ns), s')"
  shows "fget s (pending_state_file r a) = Some (Intact (CPending pending))"
    and "ns = payment_nullifiers X payload"
    and "fs_stat_faults s = [] \<Longrightarrow> wal_guards (nullifiers_wal r a) N s \<Longrightarrow> set ns \<inter> N = {}"
proof -
  obtain rec man s1 s2 s3 ex view where
    1: "load_agent r a s = (Inr rec, s1)" and 2: "load_mandate r a s1 = (Inr man, s2)" and
    3: "load_pending_state r a s2 = (Inr pending, s3)" and
    ex: "try_decode_real_summary X (tx_summary payload) = Inr ex" and
    ns: "ns = (case ex of Some su \<Rightarrow> extract_nullifier_hexes X su | None \<Rightarrow> claimed_nullifiers payload)" and
    4: "nullifier_view_of r a s3 = (Inr view, s')" and no: "\<not> (\<exists>n \<in> set ns. nv_contains view n)"
    using run unfolding admit_payment_def Let_def
    by (auto simp: bindS_Inr_iff simp del: okS_apply split: if_splits) (auto simp: okS_def)
  have f1: "same_files {} s s1" by (rule keeps_same_empty[OF frame_reads2(3) 1])
  have f2: "same_files {} s1 s2" by (rule keeps_same_empty[OF frame_reads2(4) 2])
  have f3: "same_files {} s2 s3" by (rule keeps_same_empty[OF frame_reads2(5) 3])
  have f: "same_files {} s s2" "same_files {} s s3"
    using f1 f2 f3 same_files_trans1 by blast+
  show "fget s (pending_state_file r a) = Some (Intact (CPending pending))"
    using load_pending_Inr[OF 3] same_files_empty_fget[OF f(1)] by simp
  show "ns = payment_nullifiers X payload"
    using ex ns by (simp add: payment_nullifiers_def split: option.splits)
  show "set ns \<inter> N = {}" if "fs_stat_faults s = []" "wal_guards (nullifiers_wal r a) N s"
  proof -
    have "fs_stat_faults s3 = []" "wal_guards (nullifiers_wal r a) N s3"
      using that same_files_stat[OF f(2)] same_files_empty_fget[OF f(2)] by (simp_all add: wal_guards_def)
    then show ?thesis using view_excludes_guarded[OF 4] no by blast
  qed
qed

lemma agent_inv_fresh:
  assumes inv: "agent_inv r n acks txs I a s" and k: "last_of r a s = Some k" "k < j" and n: "n \<le> n'"
  shows "agent_inv r n' acks txs (I(j := x)) a s"
proof -
  have t: "tx_ok (Some k) (I(j := x)) t" if "tx_ok (Some k) I t" for t
    using that k(2) by (auto simp: tx_ok_def)
  have q: "qfile_ok (Some k) (I(j := x)) m c" if "qfile_ok (Some k) I m c" for m c
    using that t by (auto simp: qfile_ok_def)
  have a: "ack_ok r a (I(j := x)) s ack" if "ack_ok r a I s ack" for ack
    using that k by (auto simp: ack_ok_def)
  have "pending_ok r a n' s"
    using inv n by (auto simp: agent_inv_def pending_ok_def split: option.splits fdata.splits content.splits)
  then show ?thesis
    using inv k(1) t q a by (simp add: agent_inv_def)
qed


lemma agent_inv_txs: "agent_inv r n acks txs I a s \<Longrightarrow> set txs' \<subseteq> set txs \<Longrightarrow> agent_inv r n acks txs' I a s"
  by (auto simp: agent_inv_def)

lemma sentinels_written:
  assumes plain: "plain_path r" "plain_name a" and names: "\<And>m. m \<in> set ms \<Longrightarrow> sentinel_name m"
    and run: "forS (\<lambda>m. atomic_write_json (path_join (payments_dir r a) m) (CLookup k)) ms s = (Inr (), s')"
    and m: "sentinel_name m" "m \<in> set ms \<or> fget s (payments_dir r a @ [m]) = Some (Intact (CLookup k))"
  shows "fget s' (payments_dir r a @ [m]) = Some (Intact (CLookup k))"
  using run m(2) names
proof (induction ms arbitrary: s)
  case (Cons x xs)
  have x: "sentinel_name x" using Cons.prems by simp
  obtain s1 where s1: "atomic_write_json (payments_dir r a @ [x]) (CLookup k) s = (Inr (), s1)"
    and rest: "forS (\<lambda>m. atomic_write_json (path_join (payments_dir r a) m) (CLookup k)) xs s1 = (Inr (), s')"
    using Cons.prems x by (auto simp: bindS_Inr_iff sentinel_name_def)
  have pl: "plain_path (payments_dir r a)" "plain_name x" "plain_name m"
    using store_path_plain[OF plain] x m by (auto simp: sentinel_name_def)
  have "fget s1 (payments_dir r a @ [x]) = Some (Intact (CLookup k))"
    using atomic_write_effect[OF s1 pl(1,2)] by simp
  moreover have "fget s1 (payments_dir r a @ [m]) = fget s (payments_dir r a @ [m])" if "m \<noteq> x"
    using that m(1) pl
    by (intro aw_rel_frame[OF atomic_write_aw_rel[OF s1 pl(1,2)]]) (auto simp: sentinel_name_def tmp_name_def)
  ultimately have "m \<in> set xs \<or> fget s1 (payments_dir r a @ [m]) = Some (Intact (CLookup k))"
    using Cons.prems(2) by (cases "m = x") auto
  then show ?case
    using Cons.IH[OF rest] Cons.prems by simp
qed simp

lemma frame_sentinels:
  assumes plain: "plain_path r" "plain_name a" and names: "\<And>m. m \<in> set ms \<Longrightarrow> plain_name m"
    and A: "dir_files (payments_dir r a) \<subseteq> A"
  shows "keepsS (same_files A s0) (forS (\<lambda>m. atomic_write_json (path_join (payments_dir r a) m) (CLookup k)) ms)"
  using names
proof (induction ms)
  case (Cons m ms)
  then show ?case
    using A store_path_plain(4)[OF plain] by (auto intro!: keeps)
qed (simp add: keeps)

lemma frame_enqueue:
  assumes plain: "plain_path r" "plain_name a" and names: "\<And>m. m \<in> set (q_nullifiers t) \<Longrightarrow> plain_name m"
    and A: "dir_files (payments_dir r a) \<subseteq> A" "dir_files (queue_dir r a) \<subseteq> A"
  shows "keepsS (same_files A s0) (enqueue r a t)"
  unfolding enqueue_def seq_file_eq
  using A store_path_plain[OF plain] names
  by (intro keepsS_bindS frame_sentinels[OF plain] frame_atomic_dir) auto

lemma enqueue_effect:
  assumes plain: "plain_path r" "plain_name a" and names: "\<And>m. m \<in> set (q_nullifiers t) \<Longrightarrow> sentinel_name m"
    and run: "enqueue r a t s = (Inr (), s')"
  shows "fget s' (queue_dir r a @ [qname (q_seq t)]) = Some (Intact (CQueued t))"
    and "m \<in> set (q_nullifiers t) \<Longrightarrow> fget s' (payments_dir r a @ [m]) = Some (Intact (CLookup (q_seq t)))"
proof -
  let ?f = "forS (\<lambda>m. atomic_write_json (path_join (payments_dir r a) m) (CLookup (q_seq t))) (q_nullifiers t)"
  obtain s1 where w: "atomic_write_json (queue_dir r a @ [qname (q_seq t)]) (CQueued t) s = (Inr (), s1)"
    and f: "?f s1 = (Inr (), s')"
    using run by (auto simp: enqueue_def bindS_Inr_iff seq_file_eq qname_def)
  note pl = store_path_plain[OF plain]
  have "same_files (dir_files (payments_dir r a)) s1 s'"
    by (rule keepsS_run[OF frame_sentinels[OF plain] same_files_refl f]) (use names in \<open>auto simp: sentinel_name_def\<close>)
  then have "fget s' (queue_dir r a @ [qname (q_seq t)]) = fget s1 (queue_dir r a @ [qname (q_seq t)])"
    using pl plain by (intro same_filesD) (auto simp: store_paths dir_files_def)
  then show "fget s' (queue_dir r a @ [qname (q_seq t)]) = Some (Intact (CQueued t))"
    using atomic_write_effect[OF w pl(6) plain_qname] by simp
  show "fget s' (payments_dir r a @ [m]) = Some (Intact (CLookup (q_seq t)))" if "m \<in> set (q_nullifiers t)"
    using sentinels_written[OF plain names f names[OF that]] that by blast
qed

lemma frame_advance:
  assumes plain: "plain_path r" "plain_name a"
  shows "keepsS (same_files {agent_dir r a @ [''pending_state.json''], agent_dir r a @ [tmp_name ''pending_state.json'']} s0)
    (advance_pending_state r a st)"
  unfolding advance_pending_state_def agent_paths[OF plain(2)]
  by (rule atomic_write_frame) (use store_path_plain[OF plain] in auto)

lemma keeps_advance:
  assumes plain: "plain_path r" "plain_name a"
    and inv: "agent_inv r n acks txs I a s" and last: "last_of r a s = Some k"
    and st: "k \<le> last_accepted_seq st" "last_accepted_seq st \<le> n"
    and run: "advance_pending_state r a st s = (x, s')"
  shows "agent_inv r n acks txs I a s'"
    and "x = Inr () \<Longrightarrow> last_of r a s' = Some (last_accepted_seq st)"
proof -
  have w: "atomic_write_json (agent_dir r a @ [''pending_state.json'']) (CPending st) s = (x, s')"
    using run plain by (simp add: advance_pending_state_def store_paths)
  note pl = store_path_plain[OF plain]
  have aw: "aw_rel (agent_dir r a) ''pending_state.json'' (CPending st) s s'"
    using atomic_write_aw_rel[OF w] pl by simp
  have "has_dir s (agent_dir r a)"
    using inv last by (auto simp: agent_inv_def pending_ok_def last_of_def split: option.splits fdata.splits content.splits)
  then have "has_dir s' (agent_dir r a)"
    using aw by (auto simp: aw_rel_def same_files_def has_dir_def)
  then show "agent_inv r n acks txs I a s'"
    using agent_inv_write_pending[OF inv aw] last st plain by simp
  show "last_of r a s' = Some (last_accepted_seq st)" if "x = Inr ()"
    using atomic_write_effect[OF w pl(1)] that plain by (simp add: last_of_def store_paths)
qed


definition accepted :: "facilitator_error + ack_response \<Rightarrow> ack_response list" where
  "accepted res = (case res of Inr ack \<Rightarrow> [ack] | Inl _ \<Rightarrow> [])"

lemma accepted_simps [simp]: "accepted (Inl e) = []" "accepted (Inr ack) = [ack]"
  by (simp_all add: accepted_def)

lemma agent_inv_cons_tx:
  "agent_inv r n acks txs I a s \<Longrightarrow> tx_ok (last_of r a s) I t \<Longrightarrow> agent_inv r n acks (t # txs) I a s"
  by (simp add: agent_inv_def)

lemma agent_inv_snoc_ack:
  "agent_inv r n acks txs I a s \<Longrightarrow> ack_ok r a I s ack \<Longrightarrow> agent_inv r n (acks @ [ack]) txs I a s"
  by (auto simp: agent_inv_def)

lemma commit_inv:
  assumes plain: "plain_path r" "plain_name a" and inv: "agent_inv r n acks txs I a s"
    and pend: "fget s (pending_state_file r a) = Some (Intact (CPending pending))"
    and names: "\<And>m. m \<in> set ns \<Longrightarrow> sentinel_name m"
    and fresh: "\<And>m ack. m \<in> set ns \<Longrightarrow> ack \<in> set acks \<Longrightarrow> m \<notin> set (ack_reserved_nullifiers ack)"
    and n: "Suc n < u64_bound"
    and run: "commit_payment X K key r a payload (pending, ns) s = (res, s')"
  shows "\<exists>I'. agent_inv r (Suc n) (acks @ accepted res) txs I' a s' \<and>
    (\<forall>ack. res = Inr ack \<longrightarrow> ack_seq ack = Suc (last_accepted_seq pending) \<and> ack_reserved_nullifiers ack = ns)"
proof -
  let ?k = "last_accepted_seq pending" and ?st = "new_pending_state pending payload"
  have last: "last_of r a s = Some ?k" using pend by (simp add: last_of_def)
  have k: "?k \<le> n" using inv pend by (simp add: agent_inv_def pending_ok_def)
  then have seq: "u64_add ?k 1 = Suc ?k" using n by (simp add: u64_add_small)
  obtain now s1 where now: "fs_now s = (Inr now :: facilitator_error + nat, s1)"
    using fs_now_frame[of s] by (metis prod.exhaust)
  let ?t = "new_queued_tx pending payload ns now"
  let ?es = "map (\<lambda>n. \<lparr> w_nullifier = n, w_seq = Suc ?k, w_ts = now \<rparr>) ns"
  define J where "J = I(Suc ?k := tx_ident ?t)"
  define P where "P = agent_inv r (Suc n) acks txs J a"
  have "agent_inv r (Suc n) acks txs J a s"
    unfolding J_def by (rule agent_inv_fresh[OF inv last]) auto
  then have P1: "P s1" and l1: "last_of r a s1 = Some ?k"
    using keepsS_run[OF keeps_reads(9)[OF plain] _ now] fs_now_frame[OF now] last
    by (auto simp: P_def last_of_def)
  obtain x2 s2 where x2: "reserve_nullifiers r a ?es s1 = (x2, s2)" by fastforce
  have P2: "P s2"
    using keepsS_run[OF agent_inv_reserve[OF plain] P1[unfolded P_def] x2] by (simp add: P_def)
  have l2: "last_of r a s2 = Some ?k"
  proof -
    have "same_files {nullifiers_wal r a} s1 s2"
      using keepsS_run[OF frame_rules2(3) same_files_refl x2[unfolded reserve_nullifiers_def]]
        store_path_plain[OF plain] by simp
    then have "fget s2 (pending_state_file r a) = fget s1 (pending_state_file r a)"
      using plain store_path_plain[OF plain] by (intro same_filesD) (auto simp: store_paths)
    then show ?thesis using l1 by (simp add: last_of_def)
  qed
  obtain x3 s3 where x3: "advance_pending_state r a ?st s2 = (x3, s3)" by fastforce
  have st: "?k \<le> last_accepted_seq ?st" "last_accepted_seq ?st \<le> Suc n"
    using k seq by (simp_all add: new_pending_state_def)
  note adv = keeps_advance[OF plain P2[unfolded P_def] l2 st x3]
  have P3: "P s3" using adv(1) by (simp add: P_def)
  obtain x4 s4 where x4: "enqueue r a ?t s3 = (x4, s4)" by fastforce
  have tq: "q_seq ?t = Suc ?k" "q_nullifiers ?t = ns" "q_accepted_at ?t = now"
    using seq by (simp_all add: new_queued_tx_def)
  have P4: "agent_inv r (Suc n) acks (?t # txs) J a s4" if "x3 = Inr ()"
  proof (rule keepsS_run[OF keeps_enqueue[OF plain, of ?t] _ x4])
    have "tx_ok (last_of r a s3) J ?t"
      using adv(2)[OF that] seq tq by (simp add: tx_ok_def J_def new_pending_state_def)
    then show "agent_inv r (Suc n) acks (?t # txs) J a s3"
      using P3 agent_inv_cons_tx by (simp add: P_def)
  qed (use names fresh tq in \<open>auto simp: sentinel_name_def\<close>)
  define B where "B = bind_res (ack_message X now (pending_state_commitment ?st) ns) (\<lambda>m.
      bind_res (sign_word_hex X K key m) (\<lambda>sg.
      Inr \<lparr> ack_accepted_at = now, ack_new_pending_state_commitment = pending_state_commitment ?st,
            ack_reserved_nullifiers = ns, ack_seq = Suc ?k, ack_signature = sg \<rparr>))"
  have B: "ack_seq ack = Suc ?k \<and> ack_reserved_nullifiers ack = ns \<and> ack_accepted_at ack = now" if "B = Inr ack" for ack
    using that by (auto simp: B_def bind_res_Inr_iff)
  have body: "commit_payment X K key r a payload (pending, ns) s =
    (case x2 of Inl e \<Rightarrow> (Inl e, s2) | Inr _ \<Rightarrow>
     (case x3 of Inl e \<Rightarrow> (Inl e, s3) | Inr _ \<Rightarrow>
     (case x4 of Inl e \<Rightarrow> (Inl e, s4) | Inr _ \<Rightarrow> (B, s4))))"
    using now x2 x3 x4 seq
    by (cases x2; cases x3; cases x4)
      (simp_all add: B_def commit_payment_def Let_def bindS_def ack_message_def split: sum.splits)
  show ?thesis
  proof (cases res)
    case (Inl e)
    have "P s'"
      using body run P2 P3 P4 agent_inv_txs[of r "Suc n" acks "?t # txs" J a s4 txs]
      by (auto simp: Inl P_def split: sum.splits)
    then show ?thesis using Inl by (auto simp: P_def)
  next
    case (Inr ack)
    then have ok: "x2 = Inr ()" "x3 = Inr ()" "x4 = Inr ()" "s' = s4"
      and ack: "ack_seq ack = Suc ?k" "ack_reserved_nullifiers ack = ns" "ack_accepted_at ack = now"
      using body run B by (auto split: sum.splits)
    have P': "P s'" using P4[OF ok(2)] agent_inv_txs ok(4) by (fastforce simp: P_def)
    note eff = enqueue_effect[OF plain, of ?t, unfolded tq, OF names x4[unfolded ok]]
    have "ack_ok r a J s' ack"
    proof -
      have "wal_guards (nullifiers_wal r a) (set ns) s2"
        using append_entries_reserves[of _ ?es s1 s2] x2 ok
        by (simp add: reserve_nullifiers_def image_image)
      moreover have "fget s3 (nullifiers_wal r a) = fget s2 (nullifiers_wal r a)"
        using same_filesD[OF keepsS_run[OF frame_advance[OF plain] same_files_refl x3], of "nullifiers_wal r a"]
          store_path_plain[OF plain] plain by (simp add: store_paths tmp_name_def)
      moreover have "fget s4 (nullifiers_wal r a) = fget s3 (nullifiers_wal r a)"
      proof (rule same_filesD[OF keepsS_run[OF frame_enqueue[OF plain] same_files_refl x4]])
        show "resolve (nullifiers_wal r a) \<notin> dir_files (payments_dir r a) \<union> dir_files (queue_dir r a)"
          using store_path_plain[OF plain] plain by (auto simp: store_paths dir_files_def)
      qed (use names tq in \<open>auto simp: sentinel_name_def\<close>)
      ultimately have "wal_guards (nullifiers_wal r a) (set ns) s'"
        by (simp add: wal_guards_def ok)
      moreover have "\<exists>k. last_of r a s' = Some k \<and> Suc ?k \<le> k"
        using P4[OF ok(2)] ok(4) tq by (simp add: agent_inv_def tx_ok_def)
      moreover have "has_record r a (Suc ?k) s'"
        using eff(1) ok(4) plain by (auto simp: has_record_def status_dirs_eq)
      ultimately show ?thesis
        using ack eff(2) names ok(4) tq by (auto simp: ack_ok_def J_def tx_ident_def)
    qed
    then have "agent_inv r (Suc n) (acks @ [ack]) txs J a s'"
      using P' agent_inv_snoc_ack by (simp add: P_def)
    then show ?thesis using Inr ack by auto
  qed
qed


section \<open>Operations of other agents\<close>

definition region :: "path \<Rightarrow> string \<Rightarrow> path set" where
  "region r a = {agent_dir r a @ q | q. True}"

lemma region_disjoint:
  assumes "plain_name a" "plain_name b" "a \<noteq> b"
  shows "region r b \<inter> rel_paths r a = {}"
  using assms by (auto simp: region_def rel_paths_def dir_files_def store_paths)

lemma region_dirs:
  assumes "plain_name a"
  shows "dir_files (agent_dir r a) \<subseteq> region r a" "dir_files (queue_dir r a) \<subseteq> region r a"
    "dir_files (payments_dir r a) \<subseteq> region r a" "d \<in> set (status_dirs r a) \<Longrightarrow> dir_files d \<subseteq> region r a"
    "nullifiers_wal r a \<in> region r a" "nullifiers_spent r a \<in> region r a"
  using assms by (auto simp: region_def dir_files_def store_paths)

lemma frame_commit:
  assumes plain: "plain_path r" "plain_name a" and names: "\<And>m. m \<in> set ns \<Longrightarrow> plain_name m"
  shows "keepsS (same_files (region r a) s0) (commit_payment X K key r a payload (pending, ns))"
proof -
  note pl = store_path_plain[OF plain] and rd = region_dirs[OF plain(2), of r]
  have "keepsS (same_files (region r a) s0) (advance_pending_state r a st)" for st
    unfolding advance_pending_state_def agent_paths[OF plain(2)]
    using pl rd by (intro frame_atomic_dir) auto
  moreover have "keepsS (same_files (region r a) s0) (reserve_nullifiers r a es)" for es
    unfolding reserve_nullifiers_def using pl rd by (intro keeps) auto
  moreover have "keepsS (same_files (region r a) s0) (enqueue r a (new_queued_tx pending payload ns now))" for now
    using rd names by (intro frame_enqueue[OF plain]) (auto simp: new_queued_tx_def)
  ultimately show ?thesis
    by (auto simp: commit_payment_def Let_def intro!: keeps)
qed

lemma frame_post_payment:
  assumes plain: "plain_path r" "plain_name a"
    and names: "\<And>m. m \<in> set (payment_nullifiers X payload) \<Longrightarrow> plain_name m"
    and run: "post_payment X K key r a payload s = (res, s')"
  shows "same_files (region r a) s s'"
proof -
  obtain x s1 where ad: "admit_payment X r a payload s = (x, s1)" by fastforce
  have f1: "same_files {} s s1"
    by (rule keeps_same_empty[OF admit_frame ad])
  show ?thesis
  proof (cases x)
    case (Inl e)
    then show ?thesis
      using run ad f1 by (auto simp: post_payment_def bindS_def intro: same_files_mono)
  next
    case (Inr p)
    obtain pending ns where p: "p = (pending, ns)" by fastforce
    then have c: "commit_payment X K key r a payload (pending, ns) s1 = (res, s')"
      using run ad Inr by (simp add: post_payment_def bindS_def)
    have "ns = payment_nullifiers X payload"
      using admit_Inr(2) ad Inr p by blast
    then have "same_files (region r a) s1 s'"
      using keepsS_run[OF frame_commit[OF plain] same_files_refl c] names by blast
    then show ?thesis
      using f1 same_files_mono same_files_trans1 by blast
  qed
qed

lemma frame_upsert_in:
  assumes plain: "plain_path r" "plain_name a"
    and ds: "set ds \<subseteq> set (status_dirs r a)" and e: "e \<in> set (status_dirs r a)"
  shows "keepsS (same_files (region r a) s0) (upsert_in (map (\<lambda>d. seq_file d k) ds) (seq_file e k) t)"
proof -
  have w: "keepsS (same_files (region r a) s0) (atomic_write_json (seq_file d k) v)" if "d \<in> set (status_dirs r a)" for d v
    unfolding seq_file_eq using store_path_plain[OF plain] region_dirs[OF plain(2)] that
    by (intro frame_atomic_dir) auto
  show ?thesis
    using ds by (induction ds) (auto intro!: keeps w simp: e)
qed

lemma frame_worker_ops:
  assumes plain: "plain_path r" "plain_name a"
  shows "keepsS (same_files (region r a) s0) (upsert_queued r a t)"
    "keepsS (same_files (region r a) s0) (move_to_failed r a k)"
proof -
  show "keepsS (same_files (region r a) s0) (upsert_queued r a t)"
    unfolding upsert_queued_def by (rule frame_upsert_in[OF plain]) (auto simp: store_paths plain)
  show "keepsS (same_files (region r a) s0) (move_to_failed r a k)"
    unfolding move_to_failed_def using store_path_plain[OF plain] plain
    by (intro keeps) (auto simp: store_paths region_def)
qed


section \<open>Registration and the worker\<close>

lemma create_dir_all_has: "fs_create_dir_all q s = (Inr (), s') \<Longrightarrow> plain_path q \<Longrightarrow> q \<noteq> [] \<Longrightarrow> has_dir s' q"
  unfolding fs_create_dir_all_def Let_def
  by (erule io_call_cases) (force simp: has_dir_def image_iff split: if_splits intro!: bexI[of _ "length q - 1"])+

lemma atomic_write_has_dir:
  assumes run: "atomic_write_json (q @ [n]) v s = (Inr (), s')" and plain: "plain_path q" "q \<noteq> []" "plain_name n"
  shows "has_dir s' q"
proof -
  let ?t = "q @ [tmp_name n]"
  let ?rest = "bindS (io (fs_create_file ?t)) (\<lambda>_. bindS (io (fs_write_all ?t v)) (\<lambda>_.
      bindS (io fs_sync_all) (\<lambda>_. io (fs_rename ?t (q @ [n])))))"
  obtain s1 where 1: "fs_create_dir_all q s = (Inr (), s1)" and 2: "?rest s1 = (Inr (), s')"
    using run plain by (auto simp: atomic_write_json_def path_parent_def tmp_path_plain Let_def bindS_Inr_iff)
  have k: "keepsS (same_files UNIV s1) ?rest" by (auto intro!: keeps)
  have "same_files UNIV s1 s'" using keepsS_run[OF k same_files_refl 2] .
  then show ?thesis
    using create_dir_all_has[OF 1 plain(1,2)] by (auto simp: same_files_def has_dir_def)
qed

lemma bindS_snd: "bindS m f s = (r, s') \<Longrightarrow> m s = (x, s1) \<Longrightarrow> s' = s1 \<or> (\<exists>u. f u s1 = (r, s'))"
  by (cases x) (auto simp: bindS_def)

lemma frame_register:
  assumes plain: "plain_path r" "plain_name (ar_agent_id rec)"
  shows "keepsS (same_files (region r (ar_agent_id rec)) s0) (store_register_agent r rec mandate init)"
proof -
  let ?a = "ar_agent_id rec"
  have w: "keepsS (same_files (region r ?a) s0) (atomic_write_json (agent_dir r ?a @ [n]) v)" if "plain_name n" for n v
    using store_path_plain[OF plain] region_dirs[OF plain(2)] that by (intro frame_atomic_dir) auto
  have o: "keepsS (same_files (region r ?a) s0) (io (open_append (nullifiers_wal r ?a)))"
    "keepsS (same_files (region r ?a) s0) (io (open_append (nullifiers_spent r ?a)))"
    using store_path_plain[OF plain] region_dirs[OF plain(2), of r] plain
    by (auto intro!: keeps simp: store_paths)
  show ?thesis
    unfolding store_register_agent_def Let_def agent_paths(1-3)[OF plain(2)]
    by (intro keeps w o; simp)
qed

lemma rel_paths_other:
  assumes "plain_name a" "x \<noteq> ''pending_state.json''" "x \<noteq> ''nullifiers.wal''"
  shows "agent_dir r a @ [x] \<notin> rel_paths r a"
  using assms by (auto simp: rel_paths_def dir_files_def store_paths)

lemma agent_inv_register:
  assumes plain: "plain_path r" "plain_name (ar_agent_id rec)"
    and inv: "agent_inv r n acks txs I (ar_agent_id rec) s"
    and run: "store_register_agent r rec mandate init s = (x, s')"
  shows "agent_inv r n acks txs I (ar_agent_id rec) s'"
proof -
  let ?a = "ar_agent_id rec"
  let ?P = "\<lambda>s. agent_inv r n acks txs I ?a s \<and> fget s (pending_state_file r ?a) = None"
  let ?st = "CPending \<lparr> committed_state_commitment = init, pending_state_commitment = init, last_accepted_seq = 0 \<rparr>"
  note pl = store_path_plain[OF plain]
  have stat: "fs_stat_faults s = []" using inv by (rule agent_inv_stat)
  have frame: "keepsS ?P m" if "\<And>s0. keepsS (same_files A s0) m" "A \<inter> rel_paths r ?a = {}" for A and m :: "'x store_op"
  proof (rule keepsSI, rule conjI)
    fix s assume P: "?P s"
    show "agent_inv r n acks txs I ?a (snd (m s))"
      using keepsSD[OF agent_inv_keeps_frame[OF that plain]] P by blast
    have "same_files A s (snd (m s))" using keepsSD[OF that(1) same_files_refl] .
    then show "fget (snd (m s)) (pending_state_file r ?a) = None"
      using P that(2) pl by (auto simp: rel_paths_def dest: same_filesD[where p = "pending_state_file r ?a"])
  qed
  have dir: "keepsS ?P (io (fs_create_dir_all p))" for p
    by (rule frame[of "{}"]) (auto intro!: keeps)
  have wr: "keepsS ?P (atomic_write_json (agent_dir r ?a @ [m]) v)" if "m \<in> {''agent.json'', ''mandate.json''}" for m v
  proof (rule frame)
    show "keepsS (same_files {agent_dir r ?a @ [m], agent_dir r ?a @ [tmp_name m]} s0)
        (atomic_write_json (agent_dir r ?a @ [m]) v)" for s0
      by (rule atomic_write_frame) (use that pl in auto)
    have "m \<noteq> ''pending_state.json''" "m \<noteq> ''nullifiers.wal''" "tmp_name m \<noteq> ''pending_state.json''"
      "tmp_name m \<noteq> ''nullifiers.wal''"
      using that by (auto simp: tmp_name_def)
    then show "{agent_dir r ?a @ [m], agent_dir r ?a @ [tmp_name m]} \<inter> rel_paths r ?a = {}"
      using rel_paths_other[OF plain(2)] by auto
  qed
  let ?pre = "bindS (io (fs_create_dir_all (agent_dir r ?a))) (\<lambda>_.
      bindS (io (fs_create_dir_all (queue_dir r ?a))) (\<lambda>_.
      bindS (io (fs_create_dir_all (committed_dir r ?a))) (\<lambda>_.
      bindS (io (fs_create_dir_all (failed_dir r ?a))) (\<lambda>_.
      bindS (io (fs_create_dir_all (payments_dir r ?a))) (\<lambda>_.
      bindS (atomic_write_json (agent_file r ?a) (CAgent rec)) (\<lambda>_.
      atomic_write_json (mandate_file r ?a) (CMandate mandate)))))))"
  let ?post = "bindS (io (open_append (nullifiers_wal r ?a))) (\<lambda>_. io (open_append (nullifiers_spent r ?a)))"
  have pre: "keepsS ?P ?pre"
    unfolding agent_paths(1,2)[OF plain(2)] by (intro keepsS_bindS dir wr) auto
  have post: "keepsS (agent_inv r n acks txs I ?a) ?post"
  proof (intro keepsS_bindS agent_inv_open_wal[OF plain])
    show "keepsS (agent_inv r n acks txs I ?a) (io (open_append (nullifiers_spent r ?a)))"
      by (rule agent_inv_keeps_frame[of "{nullifiers_spent r ?a}"])
        (use plain in \<open>auto intro!: keeps simp: rel_paths_def dir_files_def store_paths\<close>)
  qed
  show ?thesis
  proof (cases "has_dir s (agent_dir r ?a) \<or> fget s (agent_dir r ?a) \<noteq> None")
    case True
    then have "s' = s"
      using run stat by (auto simp: store_register_agent_def Let_def bindS_def fs_exists_def)
    then show ?thesis using inv by simp
  next
    case False
    then have none: "fget s (pending_state_file r ?a) = None"
      using inv by (auto simp: agent_inv_def pending_ok_def split: option.splits fdata.splits content.splits)
    have split: "store_register_agent r rec mandate init s =
        bindS ?pre (\<lambda>_. bindS (atomic_write_json (pending_state_file r ?a) ?st) (\<lambda>_. ?post)) s"
      using False stat
      by (simp add: store_register_agent_def Let_def bindS_def fs_exists_def split: prod.splits sum.splits)
    obtain x1 s1 where x1: "?pre s = (x1, s1)" by fastforce
    then have P1: "?P s1" using keepsS_run[OF pre _ x1] inv none by blast
    obtain x2 s2 where x2: "atomic_write_json (agent_dir r ?a @ [''pending_state.json'']) ?st s1 = (x2, s2)" by fastforce
    have P2: "agent_inv r n acks txs I ?a s2"
    proof (rule agent_inv_write_pending)
      show "aw_rel (agent_dir r ?a) ''pending_state.json'' ?st s1 s2"
        using atomic_write_aw_rel[OF x2] pl by simp
      show "has_dir s2 (agent_dir r ?a) \<or> fget s2 (pending_state_file r ?a) = fget s1 (pending_state_file r ?a)"
      proof (cases x2)
        case (Inl e)
        then show ?thesis using atomic_write_effect[OF x2 pl(1)] plain by (simp add: store_paths)
      next
        case (Inr u)
        then show ?thesis using atomic_write_has_dir[of "agent_dir r ?a"] x2 pl plain by (simp add: store_paths)
      qed
    qed (use P1 plain in \<open>auto simp: last_of_def\<close>)
    obtain x3 s3 where x3: "?post s2 = (x3, s3)" by fastforce
    have P3: "agent_inv r n acks txs I ?a s3" using keepsS_run[OF post P2 x3] .
    have all: "bindS ?pre (\<lambda>_. bindS (atomic_write_json (agent_dir r ?a @ [''pending_state.json'']) ?st) (\<lambda>_. ?post)) s = (x, s')"
      using run split plain by (simp add: agent_paths(3))
    have "s' = s1 \<or> bindS (atomic_write_json (agent_dir r ?a @ [''pending_state.json'']) ?st) (\<lambda>_. ?post) s1 = (x, s')"
      using bindS_snd[OF all, of x1 s1] x1 by blast
    moreover have "s' = s2 \<or> s' = s3"
      if w: "bindS (atomic_write_json (agent_dir r ?a @ [''pending_state.json'']) ?st) (\<lambda>_. ?post) s1 = (x, s')"
      using bindS_snd[OF w, of x2 s2] x2 x3 by auto
    ultimately have "s' \<in> {s1, s2, s3}" by blast
    then show ?thesis using P1 P2 P3 by auto
  qed
qed


lemma on_fs_keeps: "keepsS P m \<Longrightarrow> keepsS (\<lambda>app. P (app_fs app)) (on_fs m)"
  by (auto simp: keepsS_def on_fs_def split: prod.splits)

lemma on_actor_keeps: "keepsS (\<lambda>app. P (app_fs app)) (on_actor m)"
  by (auto simp: keepsS_def on_actor_def split: option.splits prod.splits)

lemma attempt_submit_keeps:
  fixes C :: "('client, 'acct, 'req) client_ops"
  assumes "keepsS P (load_agent r a)"
  shows "keepsS (\<lambda>app. P (app_fs app)) (attempt_submit X E C r a t)"
proof (rule keepsSI)
  fix s :: "'client app" assume "P (app_fs s)"
  then show "P (app_fs (snd (attempt_submit X E C r a t s)))"
    unfolding attempt_submit_def Let_def
    by (auto split: prod.splits intro!: keepsSD[where P = "\<lambda>app. P (app_fs app)"] keeps on_fs_keeps on_actor_keeps assms)
qed

lemma process_tx_keeps:
  assumes "keepsS P (load_agent r a)" "keepsS P (fs_now :: nat store_op)" "\<And>k. keepsS P (move_to_failed r a k)"
    and "\<And>t'. q_seq t' = q_seq t \<Longrightarrow> tx_ident t' = tx_ident t \<Longrightarrow> keepsS P (upsert_queued r a t')"
  shows "keepsS (\<lambda>app. P (app_fs app)) (process_tx X E C r a t)"
  unfolding process_tx_def Let_def
  by (intro keepsS_bindS keepsS_map_errS on_fs_keeps keepsS_observeS attempt_submit_keeps assms)
    (auto simp: tx_ident_def split: sum.splits intro!: keeps on_fs_keeps assms)

section \<open>The invariant of the system\<close>

definition acks_of :: "string \<Rightarrow> (string \<times> ack_response) list \<Rightarrow> ack_response list" where
  "acks_of a log = map snd (filter (\<lambda>x. fst x = a) log)"

definition later_ack :: "string \<times> ack_response \<Rightarrow> string \<times> ack_response \<Rightarrow> bool" where
  "later_ack x y \<longleftrightarrow> (fst x = fst y \<longrightarrow> ack_seq (snd x) < ack_seq (snd y) \<and>
     set (ack_reserved_nullifiers (snd x)) \<inter> set (ack_reserved_nullifiers (snd y)) = {})"

definition batch_of :: "string \<Rightarrow> 'client sys \<Rightarrow> queued_tx list" where
  "batch_of a s = (if sys_current s = a then sys_batch s else [])"

definition sys_inv :: "path \<Rightarrow> nat \<Rightarrow> 'client sys \<Rightarrow> bool" where
  "sys_inv r n s \<longleftrightarrow>
     (\<forall>a. plain_name a \<longrightarrow> (\<exists>I. agent_inv r n (acks_of a (sys_log s)) (batch_of a s) I a (sys_fs s))) \<and>
     (\<forall>a \<in> set (sys_agents s). plain_name a) \<and> (sys_batch s \<noteq> [] \<longrightarrow> plain_name (sys_current s)) \<and>
     (\<forall>x \<in> set (sys_log s). plain_name (fst x)) \<and> sorted_wrt later_ack (sys_log s)"

lemma agent_inv_Suc: "agent_inv r n acks txs I a s \<Longrightarrow> agent_inv r (Suc n) acks txs I a s"
  by (auto simp: agent_inv_def pending_ok_def split: option.splits fdata.splits content.splits)

lemma sys_fs_simps [simp]:
  "sys_fs (set_fs fs s) = fs" "sys_log (set_fs fs s) = sys_log s" "sys_agents (set_fs fs s) = sys_agents s"
  "sys_current (set_fs fs s) = sys_current s" "sys_batch (set_fs fs s) = sys_batch s"
  by (simp_all add: sys_fs_def set_fs_def)

lemma sys_invI_frame:
  assumes inv: "sys_inv r n s"
    and same: "\<And>a I. plain_name a \<Longrightarrow> agent_inv r n (acks_of a (sys_log s)) (batch_of a s) I a (sys_fs s) \<Longrightarrow>
      agent_inv r (Suc n) (acks_of a (sys_log s)) (batch_of a s') I a (sys_fs s')"
    and log: "sys_log s' = sys_log s"
    and "\<forall>a \<in> set (sys_agents s'). plain_name a" "sys_batch s' \<noteq> [] \<longrightarrow> plain_name (sys_current s')"
  shows "sys_inv r (Suc n) s'"
  using assms unfolding sys_inv_def by metis

lemma step_register_inv:
  assumes r: "plain_path r" and inv: "sys_inv r n s" and id: "plain_name (ra_agent_id req)"
    and run: "register_agent X E C key r req (sys_app s) = (x, app')"
  shows "sys_inv r (Suc n) (s \<lparr> sys_app := app' \<rparr>)"
proof (rule sys_invI_frame[OF inv])
  fix a I
  assume a: "plain_name a" and ai: "agent_inv r n (acks_of a (sys_log s)) (batch_of a s) I a (sys_fs s)"
  let ?P = "agent_inv r n (acks_of a (sys_log s)) (batch_of a s) I a"
  have reg: "keepsS ?P (store_register_agent r rec m i)" if rec: "ar_agent_id rec = ra_agent_id req" for rec m i
  proof (cases "a = ra_agent_id req")
    case True
    then show ?thesis
      using agent_inv_register[OF r, of rec] rec id by (metis keepsSI prod.collapse)
  next
    case False
    then show ?thesis
      using frame_register[OF r, of rec] rec id region_disjoint[OF a id] r a
      by (intro agent_inv_keeps_frame[of "region r (ra_agent_id req)"]) auto
  qed
  have mir: "keepsS (\<lambda>app. ?P (app_fs app)) (mirror_account X E C snap)" for snap
    by (rule keepsSI) (auto simp: mirror_account_def split: option.splits sum.splits)
  have k: "keepsS (\<lambda>app. ?P (app_fs app)) (register_agent X E C key r req)"
    unfolding register_agent_def
    by (auto intro!: keeps on_fs_keeps keeps_reads(9)[OF r a] reg mir)
  have "?P (app_fs app')"
    using keepsSD[OF k, of "sys_app s"] ai run unfolding sys_fs_def by simp
  then show "agent_inv r (Suc n) (acks_of a (sys_log s)) (batch_of a (s \<lparr> sys_app := app' \<rparr>)) I a
      (sys_fs (s \<lparr> sys_app := app' \<rparr>))"
    using agent_inv_Suc by (fastforce simp: batch_of_def sys_fs_def)
qed (use inv in \<open>auto simp: sys_inv_def\<close>)


lemma frame_entry: "keepsS (same_files A s0) (io (io_call (okS ())))"
  by (auto intro!: keeps)

lemma list_queued_Inr:
  assumes run: "list_queued_loop es out s = (Inr res, s')" and t: "t \<in> set res" "t \<notin> set out"
  shows "\<exists>p. (p, True) \<in> set es \<and> fget s p = Some (Intact (CQueued t))"
  using run t(2)
proof (induction es out arbitrary: s rule: list_queued_loop.induct)
  case (2 p f es out)
  have io0: "same_files {} u v" if "io (io_call (okS ())) u = (w, v)" for u v and w :: "facilitator_error + unit"
    by (rule keeps_same_empty[OF frame_entry that])
  obtain s1 s2 where s: "io (io_call (okS ())) s = (Inr () :: facilitator_error + unit, s1)"
    "io (io_call (okS ())) s1 = (Inr () :: facilitator_error + unit, s2)"
    and rest: "(if \<not> f then list_queued_loop es out
        else bindS (read_json as_queued p) (\<lambda>tx. list_queued_loop es (out @ [tx]))) s2 = (Inr res, s')"
    using "2.prems" by (auto simp: bindS_Inr_iff simp del: io_Inr split: if_splits) 
  have eq: "fget s2 = fget s"
    using io0[OF s(1)] io0[OF s(2)] same_files_empty_fget by metis
  show ?case
  proof (cases f)
    case False
    then show ?thesis using "2.IH"(1)[of s2] rest "2.prems" eq by auto
  next
    case True
    obtain tx s3 where tx: "read_json as_queued p s2 = (Inr tx, s3)"
      and l: "list_queued_loop es (out @ [tx]) s3 = (Inr res, s')"
      using rest True by (auto simp: bindS_Inr_iff)
    have e3: "fget s3 = fget s2"
      using keeps_same_empty[OF frame_reads tx] same_files_empty_fget by blast
    show ?thesis
    proof (cases "t = tx")
      case True
      then show ?thesis using read_json_Inr[OF tx] eq \<open>f\<close> by (auto elim!: as_queued.elims)
    next
      case False
      then show ?thesis using "2.IH"(2)[of tx s3] l "2.prems" eq e3 \<open>f\<close> by auto
    qed
  qed
qed (use t in auto)

lemma listed_tx_ok:
  assumes plain: "plain_path r" "plain_name a" and inv: "agent_inv r n acks txs I a s"
    and run: "list_queued r a s = (Inr q, s')" and t: "t \<in> set q"
  shows "tx_ok (last_of r a s) I t"
proof -
  have stat: "fs_stat_faults s = []" using inv by (rule agent_inv_stat)
  note pl = store_path_plain[OF plain]
  have "has_dir s (queue_dir r a)"
    using run t stat by (auto simp: list_queued_def bindS_def fs_is_dir_def split: if_splits)
  then obtain es s1 out where es: "io (fs_read_dir (queue_dir r a)) s = (Inr es, s1)"
    and out: "list_queued_loop es [] s1 = (Inr out, s')" and q: "q = sort_key q_seq out"
    using run stat by (auto simp: list_queued_def bindS_Inr_iff fs_is_dir_def split: if_splits)
  have e1: "fget s1 = fget s"
    using keeps_same_empty[OF keepsS_io[OF frame_stats(6)] es] same_files_empty_fget by blast
  have "\<exists>s2 :: content fsys. es = dir_entries s2 (queue_dir r a)"
    using es[unfolded io_Inr fs_read_dir_def] by (cases rule: io_call_cases) (auto split: if_splits)
  then obtain s2 where es2: "es = dir_entries (s2 :: content fsys) (queue_dir r a)" ..
  obtain p where p: "(p, True) \<in> set es" "fget s1 p = Some (Intact (CQueued t))"
    using list_queued_Inr[OF out, of t] t q by auto
  then have "entry_of (queue_dir r a) p"
    using es2 pl by (auto simp: dir_entries_def)
  then obtain m where "p = queue_dir r a @ [m]" "plain_name m"
    by (auto simp: entry_of_def) (metis append_butlast_last_id)
  then show ?thesis
    using agent_inv_qfile[OF inv, of "queue_dir r a" m "CQueued t"] p e1 plain
    by (auto simp: qfile_ok_def status_dirs_eq)
qed


lemma acks_of_snoc [simp]:
  "acks_of a (log @ [(b, ack)]) = acks_of a log @ (if a = b then [ack] else [])"
  by (simp add: acks_of_def)

lemma in_acks_of: "(a, ack) \<in> set log \<Longrightarrow> ack \<in> set (acks_of a log)"
  by (force simp: acks_of_def)

lemma post_payment_inv:
  assumes plain: "plain_path r" "plain_name a" and inv: "agent_inv r n acks txs I a s"
    and names: "\<And>m. m \<in> set (payment_nullifiers X payload) \<Longrightarrow> sentinel_name m" and n: "Suc n < u64_bound"
    and run: "post_payment X K key r a payload s = (res, s')"
  shows "\<exists>I'. agent_inv r (Suc n) (acks @ accepted res) txs I' a s' \<and>
    (\<forall>ack old. res = Inr ack \<longrightarrow> old \<in> set acks \<longrightarrow> ack_seq old < ack_seq ack \<and>
       set (ack_reserved_nullifiers old) \<inter> set (ack_reserved_nullifiers ack) = {})"
proof -
  obtain x s1 where ad: "admit_payment X r a payload s = (x, s1)" by fastforce
  have f1: "same_files {} s s1"
    by (rule keeps_same_empty[OF admit_frame ad])
  have inv1: "agent_inv r n acks txs I a s1"
    using agent_inv_frame[OF inv f1] plain by simp
  show ?thesis
  proof (cases x)
    case (Inl e)
    then have "res = Inl e" "s' = s1" using run ad by (auto simp: post_payment_def bindS_def)
    then show ?thesis using agent_inv_Suc[OF inv1] by auto
  next
    case (Inr p)
    obtain pending ns where p: "p = (pending, ns)" by fastforce
    note adm = admit_Inr[OF ad[unfolded Inr p]]
    have c: "commit_payment X K key r a payload (pending, ns) s1 = (res, s')"
      using run ad Inr p by (simp add: post_payment_def bindS_def)
    have pend: "fget s1 (pending_state_file r a) = Some (Intact (CPending pending))"
      using adm(1) same_files_empty_fget[OF f1] by simp
    have dis: "set (ack_reserved_nullifiers old) \<inter> set ns = {}" if "old \<in> set acks" for old
      using adm(3)[of "set (ack_reserved_nullifiers old)"] agent_inv_ack[OF inv that] agent_inv_stat[OF inv]
      by (auto simp: ack_ok_def)
    have seq: "ack_seq old \<le> last_accepted_seq pending" if "old \<in> set acks" for old
      using agent_inv_ack[OF inv1 that] pend by (auto simp: ack_ok_def last_of_def)
    obtain I' where I': "agent_inv r (Suc n) (acks @ accepted res) txs I' a s'"
      and ack: "\<And>ack. res = Inr ack \<Longrightarrow> ack_seq ack = Suc (last_accepted_seq pending) \<and> ack_reserved_nullifiers ack = ns"
    proof -
      have "\<And>m. m \<in> set ns \<Longrightarrow> sentinel_name m" using names adm(2) by simp
      moreover have "\<And>m ack. m \<in> set ns \<Longrightarrow> ack \<in> set acks \<Longrightarrow> m \<notin> set (ack_reserved_nullifiers ack)"
        using dis by blast
      ultimately show ?thesis using commit_inv[OF plain inv1 pend _ _ n c] that by blast
    qed
    then show ?thesis using dis seq by (metis le_imp_less_Suc)
  qed
qed

lemma step_pay_inv:
  assumes r: "plain_path r" and inv: "sys_inv r n s" and b: "plain_name b" and n: "Suc n < u64_bound"
    and names: "\<And>m. m \<in> set (payment_nullifiers X payload) \<Longrightarrow> sentinel_name m"
    and run: "post_payment X K key r b payload (sys_fs s) = (res, fs')"
  shows "sys_inv r (Suc n) (set_fs fs' (s \<lparr> sys_log := sys_log s @ map (Pair b) (accepted res) \<rparr>))"
    (is "sys_inv r (Suc n) ?s'")
proof -
  obtain I where "agent_inv r n (acks_of b (sys_log s)) (batch_of b s) I b (sys_fs s)"
    using inv b unfolding sys_inv_def by blast
  from post_payment_inv[OF r b this names n run] obtain J where
    J: "agent_inv r (Suc n) (acks_of b (sys_log s) @ accepted res) (batch_of b s) J b fs'"
    and new: "\<And>ack old. res = Inr ack \<Longrightarrow> old \<in> set (acks_of b (sys_log s)) \<Longrightarrow> ack_seq old < ack_seq ack \<and>
       set (ack_reserved_nullifiers old) \<inter> set (ack_reserved_nullifiers ack) = {}"
    by blast
  have log: "acks_of a (sys_log ?s') = acks_of a (sys_log s) @ (if a = b then accepted res else [])" for a
    by (cases res) auto
  have "\<exists>I. agent_inv r (Suc n) (acks_of a (sys_log ?s')) (batch_of a ?s') I a (sys_fs ?s')" if a: "plain_name a" for a
  proof (cases "a = b")
    case True
    then show ?thesis using J log by (auto simp: batch_of_def)
  next
    case False
    obtain I where I: "agent_inv r n (acks_of a (sys_log s)) (batch_of a s) I a (sys_fs s)"
      using inv a unfolding sys_inv_def by blast
    have "same_files (region r b) (sys_fs s) fs'"
      by (rule frame_post_payment[OF r b _ run]) (use names in \<open>auto simp: sentinel_name_def\<close>)
    then have "agent_inv r n (acks_of a (sys_log s)) (batch_of a s) I a fs'"
      using agent_inv_frame[OF I _ region_disjoint[OF a b False] r a] by blast
    from agent_inv_Suc[OF this] show ?thesis using log[of a] False by (auto simp: batch_of_def)
  qed
  moreover have "sorted_wrt later_ack (sys_log ?s')"
  proof (cases res)
    case (Inr ack)
    have "later_ack x (b, ack)" if "x \<in> set (sys_log s)" for x
      using new[OF Inr, of "snd x"] that in_acks_of[of "fst x" "snd x"] by (auto simp: later_ack_def)
    then show ?thesis using inv Inr by (simp add: sys_inv_def sorted_wrt_append)
  qed (use inv in \<open>simp add: sys_inv_def\<close>)
  moreover have "\<forall>x \<in> set (sys_log ?s'). plain_name (fst x)"
    using inv b by (auto simp: sys_inv_def)
  ultimately show ?thesis using inv by (simp add: sys_inv_def)
qed

lemma list_agents_plain:
  assumes "list_agents r s = (Inr as, s')" and "a \<in> set as"
  shows "plain_name a"
proof -
  have loop: "\<forall>a \<in> set out. plain_name a"
    if "list_agents_loop es out0 u = (Inr out, v)" "\<forall>a \<in> set out0. plain_name a" "\<forall>e \<in> set es. plain_name (last (fst e))"
    for es out0 out u v
    using that
  proof (induction es out0 arbitrary: u rule: list_agents_loop.induct)
    case (2 p f es out0)
    then show ?case by (auto simp: bindS_Inr_iff split: if_splits)
  qed simp
  have "\<forall>e \<in> set (dir_entries u p). plain_name (last (fst e))" for u :: "content fsys" and p
    by (auto simp: dir_entries_def entry_of_def)
  then have es: "\<forall>e \<in> set es. plain_name (last (fst e))" if "fs_read_dir p u = (Inr es, v)" for p es and u v :: "content fsys"
    using that unfolding fs_read_dir_def by (elim io_call_cases) (auto split: if_splits)
  show ?thesis
    using assms by (auto simp: list_agents_def bindS_Inr_iff split: if_splits) (metis es loop empty_iff empty_set)
qed


lemma step_work_inv:
  assumes r: "plain_path r" and inv: "sys_inv r n s" and batch: "sys_batch s = t # txs"
    and run: "process_tx X E C r (sys_current s) t (sys_app s) = (x, app')"
  shows "sys_inv r (Suc n) (s \<lparr> sys_app := app', sys_batch := txs \<rparr>)"
proof (rule sys_invI_frame[OF inv])
  let ?b = "sys_current s"
  have b: "plain_name ?b" using inv batch by (auto simp: sys_inv_def)
  fix a I
  assume a: "plain_name a" and ai: "agent_inv r n (acks_of a (sys_log s)) (batch_of a s) I a (sys_fs s)"
  let ?P = "agent_inv r n (acks_of a (sys_log s)) (batch_of a s) I a"
  have k: "keepsS (\<lambda>app. ?P (app_fs app)) (process_tx X E C r ?b t)"
  proof (rule process_tx_keeps[OF keeps_reads(1)[OF r a] keeps_reads(9)[OF r a]])
    show "keepsS ?P (move_to_failed r ?b k)" for k
    proof (cases "a = ?b")
      case True
      then show ?thesis using keeps_move_to_failed[OF r a] by simp
    next
      case False
      then show ?thesis
        using agent_inv_keeps_frame[OF frame_worker_ops(2)[OF r b] region_disjoint[OF a b False] r a] by blast
    qed
    show "keepsS ?P (upsert_queued r ?b t')" if t': "q_seq t' = q_seq t" "tx_ident t' = tx_ident t" for t'
    proof (cases "a = ?b")
      case True
      then show ?thesis
        using keeps_upsert[OF r a, of t "batch_of a s" t'] t' batch by (simp add: batch_of_def)
    next
      case False
      then show ?thesis
        using agent_inv_keeps_frame[OF frame_worker_ops(1)[OF r b] region_disjoint[OF a b False] r a] by blast
    qed
  qed
  have "?P (app_fs app')"
    using keepsSD[OF k, of "sys_app s"] ai run unfolding sys_fs_def by simp
  then have "agent_inv r n (acks_of a (sys_log s)) (if ?b = a then txs else []) I a (app_fs app')"
    by (rule agent_inv_txs) (auto simp: batch_of_def batch)
  then show "agent_inv r (Suc n) (acks_of a (sys_log s)) (batch_of a (s \<lparr> sys_app := app', sys_batch := txs \<rparr>)) I a
      (sys_fs (s \<lparr> sys_app := app', sys_batch := txs \<rparr>))"
    using agent_inv_Suc by (fastforce simp: batch_of_def sys_fs_def)
qed (use inv batch in \<open>auto simp: sys_inv_def\<close>)

lemma step_list_inv:
  assumes r: "plain_path r" and inv: "sys_inv r n s" and agents: "sys_agents s = b # bs" and batch: "sys_batch s = []"
    and run: "list_queued r b (sys_fs s) = (x, fs')"
  shows "sys_inv r (Suc n) (set_fs fs' (case x of
          Inr queued \<Rightarrow> s \<lparr> sys_agents := bs, sys_current := b, sys_batch := select_batch config queued \<rparr>
        | Inl _ \<Rightarrow> s \<lparr> sys_agents := [] \<rparr>))" (is "sys_inv r (Suc n) ?s'")
proof (rule sys_invI_frame[OF inv])
  fix a I
  assume a: "plain_name a" and ai: "agent_inv r n (acks_of a (sys_log s)) (batch_of a s) I a (sys_fs s)"
  have none: "batch_of a s = []" by (simp add: batch_of_def batch)
  have same: "same_files {} (sys_fs s) fs'"
    by (rule keeps_same_empty[OF frame_reads2(6) run])
  have ai': "agent_inv r n (acks_of a (sys_log s)) [] I a fs'"
    using agent_inv_frame[OF ai same _ r a] none by simp
  have last: "last_of r a fs' = last_of r a (sys_fs s)"
    using same_files_empty_fget[OF same] by (simp add: last_of_def)
  have "\<forall>t \<in> set (batch_of a ?s'). tx_ok (last_of r a fs') I t"
  proof (cases x)
    case (Inr q)
    have "tx_ok (last_of r a fs') I t" if "a = b" "t \<in> set (select_batch config q)" for t
      using listed_tx_ok[OF r a ai, of q fs' t] that run Inr last
      by (auto simp: select_batch_def dest: in_set_takeD)
    then show ?thesis using Inr by (auto simp: batch_of_def)
  qed (simp add: batch_of_def batch)
  then have "agent_inv r n (acks_of a (sys_log s)) (batch_of a ?s') I a fs'"
    using ai' by (simp add: agent_inv_def)
  then show "agent_inv r (Suc n) (acks_of a (sys_log s)) (batch_of a ?s') I a (sys_fs ?s')"
    using agent_inv_Suc by (cases x) auto
qed (use inv agents batch in \<open>auto simp: sys_inv_def split: sum.splits\<close>)

lemma step_read_inv:
  assumes r: "plain_path r" and inv: "sys_inv r n s" and same: "same_files {} (sys_fs s) fs'"
    and "\<forall>a \<in> set as. plain_name a"
  shows "sys_inv r (Suc n) (set_fs fs' (s \<lparr> sys_agents := as \<rparr>))"
proof (rule sys_invI_frame[OF inv])
  fix a I
  assume a: "plain_name a" and ai: "agent_inv r n (acks_of a (sys_log s)) (batch_of a s) I a (sys_fs s)"
  have "agent_inv r n (acks_of a (sys_log s)) (batch_of a s) I a fs'"
    using agent_inv_frame[OF ai same _ r a] by simp
  then show "agent_inv r (Suc n) (acks_of a (sys_log s)) (batch_of a (set_fs fs' (s \<lparr> sys_agents := as \<rparr>))) I a
      (sys_fs (set_fs fs' (s \<lparr> sys_agents := as \<rparr>)))"
    using agent_inv_Suc by (fastforce simp: batch_of_def)
qed (use inv assms(4) in \<open>auto simp: sys_inv_def\<close>)

theorem sys_reach_inv:
  assumes "plain_path r" and "sys_reach X E C K key r config n s" and "n < u64_bound"
  shows "sys_inv r n s"
  using assms(2,3)
proof (induction rule: sys_reach.induct)
  case (reach_init s)
  then have f: "fget (sys_fs s) p = None" for p by (simp add: fget_def)
  have "agent_inv r 0 [] [] (\<lambda>_. undefined) a (sys_fs s)" for a
    using reach_init f by (simp add: agent_inv_def pending_ok_def)
  then show ?case
    using reach_init by (auto simp: sys_inv_def batch_of_def acks_of_def)
next
  case (reach_step n s s')
  then have inv: "sys_inv r n s" and n: "Suc n < u64_bound" by simp_all
  from reach_step.hyps(2) show ?case
  proof (cases rule: sys_step.cases)
    case (step_register req x app')
    then show ?thesis using step_register_inv[OF assms(1) inv] by blast
  next
    case (step_pay a payload x fs')
    have "(case x of Inr ack \<Rightarrow> [(a, ack)] | Inl _ \<Rightarrow> []) = map (Pair a) (accepted x)"
      by (cases x) auto
    then show ?thesis
      using step_pay_inv[OF assms(1) inv step_pay(2) n _ step_pay(4)] step_pay(1,3) by simp
  next
    case (step_tick x fs')
    have "\<forall>a \<in> set (case x of Inr as \<Rightarrow> as | Inl _ \<Rightarrow> []). plain_name a"
      using list_agents_plain step_tick(4) by (cases x) auto
    then show ?thesis
      using step_tick step_read_inv[OF assms(1) inv keeps_same_empty[OF frame_reads2(7) step_tick(4)]] by simp
  next
    case (step_list a as x fs')
    then show ?thesis using step_list_inv[OF assms(1) inv] by blast
  next
    case (step_work tx txs x app')
    then show ?thesis using step_work_inv[OF assms(1) inv] by blast
  next
    case (step_environment clock faults)
    have "same_files {} (sys_fs s) ((sys_fs s) \<lparr> fs_faults := faults, fs_clock := clock \<rparr>)"
      by (simp add: same_files_def fget_def)
    from step_read_inv[OF assms(1) inv this, of "sys_agents s"] show ?thesis
      using step_environment inv by (simp add: sys_inv_def)
  qed
qed

end
