(* ===== verification/X402_Runs.thy ===== *)
theory X402_Runs
  imports X402_System
begin

text \<open>
  Runs of the store and of the payment handler in a state where nothing is in the way: what they
  write, file by file, and that they touch nothing else. The last section is about scripts of
  faults that let a run go on for a while before a call fails.
\<close>

named_theorems scripted \<open>computations that run alike under every script of faults that spares them\<close>

section \<open>A quiet change of the files\<close>

definition quiet :: "path set \<Rightarrow> 'c fsys \<Rightarrow> 'c fsys \<Rightarrow> bool" where
  "quiet A s s' \<longleftrightarrow> fs_faults s' = fs_faults s \<and> fs_stat_faults s' = fs_stat_faults s \<and> fs_clock s' = fs_clock s \<and>
     fs_dirs s' = fs_dirs s \<and> (\<forall>p. resolve p \<notin> A \<longrightarrow> fget s' p = fget s p)"

lemma quiet_refl [simp]: "quiet A s s"
  by (simp add: quiet_def)

lemma quiet_trans: "quiet A s t \<Longrightarrow> quiet B t u \<Longrightarrow> quiet (A \<union> B) s u"
  by (auto simp: quiet_def)

lemma quiet_mono: "quiet A s t \<Longrightarrow> A \<subseteq> B \<Longrightarrow> quiet B s t"
  by (auto simp: quiet_def)

lemma quietD: "quiet A s t \<Longrightarrow> resolve p \<notin> A \<Longrightarrow> fget t p = fget s p"
  by (simp add: quiet_def)

lemma quiet_fput: "quiet {resolve p} s (fput p f s)"
  by (simp add: quiet_def)

lemma quiet_has_dir: "quiet A s t \<Longrightarrow> has_dir t p = has_dir s p"
  by (simp add: quiet_def has_dir_def)

section \<open>The atomic write\<close>

text \<open>The atomic write up to its last call: the temporary file is complete and synced.\<close>

definition stage_tmp :: "path \<Rightarrow> string \<Rightarrow> content \<Rightarrow> unit store_op" where
  "stage_tmp d n v =
     bindS (io (fs_create_dir_all d)) (\<lambda>_. bindS (io (fs_create_file (d @ [tmp_name n]))) (\<lambda>_.
     bindS (io (fs_write_all (d @ [tmp_name n]) v)) (\<lambda>_. io fs_sync_all)))"

lemma atomic_write_stage:
  assumes "plain_name n"
  shows "atomic_write_json (d @ [n]) v = bindS (stage_tmp d n v) (\<lambda>_. io (fs_rename (d @ [tmp_name n]) (d @ [n])))"
  using assms by (simp add: atomic_write_json_def stage_tmp_def path_parent_def tmp_path_plain Let_def bindS_assoc)

lemma resolve_name: "plain_name n \<Longrightarrow> resolve (d @ [n]) = resolve d @ [n]"
  by (simp add: resolve_snoc)

lemma plain_resolve: "plain_path (resolve d)"
  by (induction d rule: rev_induct)
    (auto simp: resolve_snoc resolve_def[of "[]"] plain_path_def dest: in_set_butlastD)

lemma resolve_idem [simp]: "resolve (resolve d) = resolve d"
  by (simp add: plain_resolve)

lemma stage_run:
  assumes "fs_faults s = []" "plain_name n" "has_dir s d" "\<not> has_dir s (d @ [tmp_name n])"
  shows "\<exists>s'. stage_tmp d n v s = (Inr (), s') \<and> quiet {resolve d @ [tmp_name n]} s s' \<and>
    fget s' (d @ [tmp_name n]) = Some (Intact v)"
  using assms has_dir_def[of s d]
  by (simp add: stage_tmp_def bindS_def io_def map_errS_def fs_create_dir_all_def fs_create_file_def fs_write_all_def
      fs_sync_all_def resolve_name Let_def quiet_def has_dir_def)

lemma atomic_write_run:
  assumes s: "fs_faults s = []" "plain_name n" "has_dir s d" "\<not> has_dir s (d @ [n])" "\<not> has_dir s (d @ [tmp_name n])"
  shows "\<exists>s'. atomic_write_json (d @ [n]) v s = (Inr (), s') \<and>
    quiet {resolve d @ [n], resolve d @ [tmp_name n]} s s' \<and>
    fget s' (d @ [n]) = Some (Intact v) \<and> fget s' (d @ [tmp_name n]) = None"
proof -
  obtain s1 where s1: "stage_tmp d n v s = (Inr (), s1)" "quiet {resolve d @ [tmp_name n]} s s1"
    "fget s1 (d @ [tmp_name n]) = Some (Intact v)"
    using stage_run[OF s(1,2,3,5)] by blast
  have "fs_faults s1 = []" "has_dir s1 d" "\<not> has_dir s1 (d @ [n])"
    using s s1(2) quiet_has_dir[OF s1(2)] by (auto simp: quiet_def)
  then show ?thesis
    using s(2) s1
    by (simp add: atomic_write_stage bindS_def io_def map_errS_def fs_rename_def resolve_name quiet_def has_dir_def)
qed

section \<open>An agent whose files are in place\<close>

definition agent_subdirs :: "path set" where
  "agent_subdirs = {[], [''pending_queue''], [''committed''], [''failed''], [''payments'']}"

text \<open>No call fails, and the directories at and below the agent's directory are those of the layout.\<close>

definition healthy :: "path \<Rightarrow> string \<Rightarrow> content fsys \<Rightarrow> bool" where
  "healthy r a s \<longleftrightarrow> fs_faults s = [] \<and> fs_stat_faults s = [] \<and>
     (\<forall>x. agent_dir r a @ x \<in> set (fs_dirs s) \<longleftrightarrow> x \<in> agent_subdirs)"

lemma healthy_quiet: "healthy r a s \<Longrightarrow> quiet A s s' \<Longrightarrow> healthy r a s'"
  by (simp add: healthy_def quiet_def)

lemma healthy_faults: "healthy r a s \<Longrightarrow> fs_faults s = []" "healthy r a s \<Longrightarrow> fs_stat_faults s = []"
  by (simp_all add: healthy_def)

lemma healthy_dir:
  assumes "healthy r a s" "plain_path r" "plain_name a" "y \<in> agent_subdirs"
  shows "has_dir s (agent_dir r a @ y)" "plain_path (agent_dir r a @ y)"
proof -
  show p: "plain_path (agent_dir r a @ y)"
    using assms(4) store_path_plain(1)[OF assms(2,3)] by (auto simp: agent_subdirs_def)
  show "has_dir s (agent_dir r a @ y)" using assms p by (simp add: has_dir_def healthy_def)
qed

lemma healthy_write:
  assumes ok: "healthy r a s" and plain: "plain_path r" "plain_name a"
    and y: "y \<in> agent_subdirs" and n: "plain_name n" and new: "y @ [n] \<notin> agent_subdirs" "y @ [tmp_name n] \<notin> agent_subdirs"
  shows "\<exists>s'. atomic_write_json ((agent_dir r a @ y) @ [n]) v s = (Inr (), s') \<and> healthy r a s' \<and>
    quiet {(agent_dir r a @ y) @ [n], (agent_dir r a @ y) @ [tmp_name n]} s s' \<and>
    fget s' ((agent_dir r a @ y) @ [n]) = Some (Intact v) \<and> fget s' ((agent_dir r a @ y) @ [tmp_name n]) = None"
proof -
  let ?d = "agent_dir r a @ y"
  note d = healthy_dir[OF ok plain y]
  have nd: "\<not> has_dir s (?d @ [x])" if "plain_name x" "y @ [x] \<notin> agent_subdirs" for x
    using that d(2) ok by (simp add: has_dir_def healthy_def)
  show ?thesis
    using atomic_write_run[OF healthy_faults(1)[OF ok] n d(1) nd[OF n new(1)] nd[OF _ new(2)], of v] n d(2)
      healthy_quiet[OF ok] by auto
qed

lemma healthy_write_in:
  assumes ok: "healthy r a s" and plain: "plain_path r" "plain_name a"
    and d: "d \<in> {queue_dir r a, failed_dir r a, payments_dir r a}" and n: "plain_name n"
  shows "\<exists>s'. atomic_write_json (d @ [n]) v s = (Inr (), s') \<and> healthy r a s' \<and> quiet {d @ [n], d @ [tmp_name n]} s s' \<and>
    fget s' (d @ [n]) = Some (Intact v) \<and> fget s' (d @ [tmp_name n]) = None"
proof -
  obtain y where y: "y \<in> agent_subdirs" "d = agent_dir r a @ y" "y \<noteq> []"
    using d plain(2) by (auto simp: store_paths agent_subdirs_def)
  have "y @ [m] \<notin> agent_subdirs" for m
    using y by (auto simp: agent_subdirs_def)
  then show ?thesis using healthy_write[OF ok plain y(1) n] y(2) by blast
qed

lemma healthy_advance:
  assumes ok: "healthy r a s" and plain: "plain_path r" "plain_name a"
  shows "\<exists>s'. advance_pending_state r a st s = (Inr (), s') \<and> healthy r a s' \<and>
    quiet {pending_state_file r a, agent_dir r a @ [tmp_name ''pending_state.json'']} s s' \<and>
    fget s' (pending_state_file r a) = Some (Intact (CPending st)) \<and>
    fget s' (agent_dir r a @ [tmp_name ''pending_state.json'']) = None"
proof -
  have "[] @ [''pending_state.json''] \<notin> agent_subdirs" "[] @ [tmp_name ''pending_state.json''] \<notin> agent_subdirs" "[] \<in> agent_subdirs"
    by (auto simp: agent_subdirs_def tmp_name_def)
  from healthy_write[OF ok plain this(3) plain_names(4) this(1,2), of "CPending st"] show ?thesis
    by (simp add: advance_pending_state_def agent_paths[OF plain(2)])
qed

lemma forS_append: "forS f (xs @ ys) = bindS (forS f xs) (\<lambda>_. forS f ys)"
  by (induction xs) (simp_all add: bindS_assoc del: okS_apply)

lemma healthy_sentinels:
  assumes plain: "plain_path r" "plain_name a" and names: "\<And>m. m \<in> set ms \<Longrightarrow> sentinel_name m"
  shows "healthy r a s \<Longrightarrow> \<exists>s'. forS (\<lambda>m. atomic_write_json (path_join (payments_dir r a) m) (CLookup k)) ms s = (Inr (), s') \<and>
    healthy r a s' \<and> quiet ((\<lambda>m. payments_dir r a @ [m]) ` (set ms \<union> tmp_name ` set ms)) s s' \<and>
    (\<forall>m \<in> set ms. fget s' (payments_dir r a @ [tmp_name m]) = None)"
  using names
proof (induction ms arbitrary: s)
  case (Cons m ms)
  let ?d = "payments_dir r a"
  have m: "sentinel_name m" "plain_name m" using Cons.prems by (auto simp: sentinel_name_def)
  obtain s1 where s1: "atomic_write_json (?d @ [m]) (CLookup k) s = (Inr (), s1)" "healthy r a s1"
    "quiet {?d @ [m], ?d @ [tmp_name m]} s s1" "fget s1 (?d @ [tmp_name m]) = None"
    using healthy_write_in[OF Cons.prems(1) plain, of ?d m "CLookup k"] m(2) by auto
  obtain s' where s': "forS (\<lambda>m. atomic_write_json (path_join ?d m) (CLookup k)) ms s1 = (Inr (), s')" "healthy r a s'"
    "quiet ((\<lambda>m. ?d @ [m]) ` (set ms \<union> tmp_name ` set ms)) s1 s'" "\<forall>m \<in> set ms. fget s' (?d @ [tmp_name m]) = None"
    using Cons.IH[OF s1(2)] Cons.prems by auto
  have "fget s' (?d @ [tmp_name m]) = None"
  proof (cases "m \<in> set ms")
    case False
    have "tmp_name m \<notin> set ms \<union> tmp_name ` set ms"
      using False Cons.prems(2)[of "tmp_name m"] by (auto simp: tmp_name_def sentinel_name_def)
    then have "resolve (?d @ [tmp_name m]) \<notin> (\<lambda>m. ?d @ [m]) ` (set ms \<union> tmp_name ` set ms)"
      using store_path_plain(4)[OF plain] m by auto
    then show ?thesis using quietD[OF s'(3)] s1(4) by simp
  qed (use s'(4) in blast)
  moreover have "quiet ((\<lambda>m. ?d @ [m]) ` (set (m # ms) \<union> tmp_name ` set (m # ms))) s s'"
    by (rule quiet_mono[OF quiet_trans[OF s1(3) s'(3)]]) auto
  ultimately show ?case using s1(1) s' m by (auto simp: bindS_def)
qed simp

lemma healthy_append:
  assumes h: "healthy r a s" and plain: "plain_path r" "plain_name a"
    and f: "fget s (nullifiers_wal r a) = Some (Intact (CWal ls None))"
  shows "\<exists>s'. reserve_nullifiers r a es s = (Inr (), s') \<and> healthy r a s' \<and> quiet {nullifiers_wal r a} s s' \<and>
    fget s' (nullifiers_wal r a) = Some (Intact (CWal (ls @ map WLine es) None))"
proof -
  let ?w = "nullifiers_wal r a"
  have w: "resolve ?w = ?w" "butlast ?w = agent_dir r a" "?w = agent_dir r a @ [''nullifiers.wal'']"
    using store_path_plain[OF plain] plain by (simp_all add: agent_paths)
  have loop: "\<exists>s'. forS (\<lambda>e. bindS (io (append_line ?w e)) (\<lambda>_. io (append_newline ?w))) es u = (Inr (), s') \<and>
      quiet {?w} u s' \<and> fget s' ?w = Some (Intact (CWal (ls @ map WLine es) None))"
    if "fs_faults u = []" "fget u ?w = Some (Intact (CWal ls None))" for u ls
    using that
  proof (induction es arbitrary: u ls)
    case (Cons e es)
    let ?v = "fput ?w (Intact (CWal (ls @ [WLine e]) None)) (fput ?w (Intact (CWal ls (Some (WLine e)))) u)"
    have v: "fs_faults ?v = []" "fget ?v ?w = Some (Intact (CWal (ls @ [WLine e]) None))" "quiet {?w} u ?v"
      using Cons.prems w(1) by (auto simp: quiet_def)
    have "bindS (io (append_line ?w e)) (\<lambda>_. io (append_newline ?w)) u = (Inr (), ?v)"
      using Cons.prems by (simp add: bindS_def io_def map_errS_def append_line_def append_newline_def fmap_at_def)
    then show ?case using Cons.IH[OF v(1,2)] quiet_trans[OF v(3)] by (fastforce simp: bindS_def)
  qed simp
  have "open_append ?w s = (Inr (), s)"
    using h f w healthy_dir(1)[OF h plain, of "[]"]
    by (auto simp: open_append_def healthy_def has_dir_def agent_subdirs_def)
  moreover have "fs_sync_all u = (Inr (), u)" if "quiet {?w} s u" for u
    using that healthy_faults[OF h] by (simp add: fs_sync_all_def quiet_def)
  ultimately show ?thesis
    using loop[OF healthy_faults(1)[OF h] f] healthy_quiet[OF h]
    by (auto simp: reserve_nullifiers_def append_entries_def bindS_def io_def map_errS_def)
qed

lemma healthy_now:
  assumes "healthy r a s"
  shows "\<exists>now s1. fs_now s = (Inr now :: 'e + nat, s1) \<and> healthy r a s1 \<and> fget s1 = fget s \<and> fs_dirs s1 = fs_dirs s"
  using assms by (cases "fs_clock s") (simp_all add: fs_now_def healthy_def fun_eq_iff)

section \<open>The payment handler\<close>

text \<open>
  The files of one agent that the handler reads, and the checks on a payload that depend only on
  what they hold.
\<close>

definition mandate_allows :: "agent_mandate \<Rightarrow> x402_context \<Rightarrow> bool" where
  "mandate_allows mandate ctx \<longleftrightarrow>
     (merchant_allowlist mandate = [] \<or> merchant_account_id ctx \<in> set (merchant_allowlist mandate)) \<and>
     (\<exists>cap amount. parse_u128 (per_tx_amount_cap mandate) = Inr cap \<and> parse_u128 (x402_amount ctx) = Inr amount \<and>
        amount \<le> cap) \<and>
     (expires_at_unix_secs mandate = 0 \<or> deadline_unix_secs ctx \<le> expires_at_unix_secs mandate)"

lemma check_mandate_iff: "check_mandate mandate ctx = Inr () \<longleftrightarrow> mandate_allows mandate ctx"
  by (auto simp: check_mandate_def mandate_allows_def bind_res_Inr_iff not_less split: if_splits)

definition pays_exactly :: "('sig, 'pk, 'su, 'n) externals \<Rightarrow> 'su \<Rightarrow> x402_context \<Rightarrow> bool" where
  "pays_exactly X summary ctx \<longleftrightarrow>
     (\<exists>note merchant faucet amount.
        summary_output_notes X summary = [Some note] \<and> note_script_root X note = p2id_script_root X \<and>
        account_from_hex X (merchant_account_id ctx) = Inr merchant \<and>
        p2id_storage_target X (note_storage_elements X note) = Inr merchant \<and>
        account_from_hex X (asset_faucet_id ctx) = Inr faucet \<and> parse_u64 (x402_amount ctx) = Inr amount \<and>
        note_fungible_assets X note = [(faucet, amount)])"

lemma validate_p2id_iff: "validate_p2id_output X summary payload = Inr () \<longleftrightarrow> pays_exactly X summary (x402_ctx payload)"
proof -
  have one: "length xs = Suc 0 \<longleftrightarrow> (\<exists>x. xs = [x])" for xs :: "'z list"
    by (cases xs) auto
  show ?thesis
    unfolding validate_p2id_output_def pays_exactly_def Let_def
    by (auto simp: bind_res_Inr_iff one split: if_splits list.splits option.splits prod.splits)
qed

definition registered ::
  "path \<Rightarrow> string \<Rightarrow> agent_record \<Rightarrow> agent_mandate \<Rightarrow> pending_state \<Rightarrow> wal_entry list \<Rightarrow> wal_entry list \<Rightarrow> content fsys \<Rightarrow> bool" where
  "registered root a rec mandate pending reserved spent s \<longleftrightarrow>
     fget s (agent_file root a) = Some (Intact (CAgent rec)) \<and>
     fget s (mandate_file root a) = Some (Intact (CMandate mandate)) \<and>
     fget s (pending_state_file root a) = Some (Intact (CPending pending)) \<and>
     fget s (nullifiers_wal root a) = Some (Intact (CWal (map WLine reserved) None)) \<and>
     fget s (nullifiers_spent root a) = Some (Intact (CWal (map WLine spent) None))"

definition payload_valid ::
  "('sig, 'pk, 'su, 'n) externals \<Rightarrow> agent_record \<Rightarrow> agent_mandate \<Rightarrow> pending_state \<Rightarrow> agentic_payload \<Rightarrow> bool" where
  "payload_valid X rec mandate pending payload \<longleftrightarrow>
     built_on_state_commitment payload = pending_state_commitment pending \<and>
     verify_hot_key_signature X rec payload = Inr () \<and>
     (\<exists>ex. try_decode_real_summary X (tx_summary payload) = Inr ex \<and>
        (\<forall>su. ex = Some su \<longrightarrow> pays_exactly X su (x402_ctx payload))) \<and>
     mandate_allows mandate (x402_ctx payload)"

lemma read_wal_run:
  assumes "fs_faults s = []" "fs_stat_faults s = []" "fget s p = Some (Intact (CWal (map WLine es) None))"
  shows "read_wal_set p s = (Inr (map w_nullifier es), s)"
proof -
  have "scan_wal (map WLine es) out s = (Inr (out @ map w_nullifier es), s)" for out
    using assms(1) by (induction es arbitrary: out) (simp_all add: bindS_def io_def map_errS_def)
  then show ?thesis
    using assms by (simp add: read_wal_set_def bindS_def fs_exists_def io_def map_errS_def fs_read_def wal_lines_def)
qed

text \<open>Admission, as a function of what the handler sees of the two logs.\<close>

lemma admit_run:
  assumes reg: "registered root a rec mandate pending es es' s" and val: "payload_valid X rec mandate pending payload"
    and f: "fs_faults s = []" and ns: "payment_nullifiers X payload = ns" "ns \<noteq> []"
    and view: "nullifier_view_of root a s = (Inr view, s1)"
  shows "admit_payment X root a payload s =
    ((if \<exists>n \<in> set ns. nv_contains view n then Inl DoubleSpend else Inr (pending, ns)), s1)"
proof -
  obtain ex where ex: "try_decode_real_summary X (tx_summary payload) = Inr ex"
    "\<And>su. ex = Some su \<Longrightarrow> pays_exactly X su (x402_ctx payload)"
    using val by (auto simp: payload_valid_def)
  have "load_agent root a s = (Inr rec, s)" "load_mandate root a s = (Inr mandate, s)" "load_pending_state root a s = (Inr pending, s)"
    using f reg by (simp_all add: registered_def load_agent_def load_mandate_def load_pending_state_def map_errS_def
        read_json_def bindS_def io_def fs_read_def)
  moreover have "(case ex of Some su \<Rightarrow> extract_nullifier_hexes X su | None \<Rightarrow> claimed_nullifiers payload) = ns"
    using ns(1) ex(1) by (simp add: payment_nullifiers_def split: option.splits)
  moreover have "(case ex of None \<Rightarrow> Inr () | Some su \<Rightarrow> validate_p2id_output X su payload) = Inr ()"
    using ex(2) by (simp add: validate_p2id_iff split: option.splits)
  ultimately show ?thesis
    using val[unfolded payload_valid_def, folded check_mandate_iff] ns(2) view ex(1)
    by (simp add: admit_payment_def bindS_def Let_def)
qed

lemma view_run:
  assumes "registered root a rec mandate pending es es' s" "fs_faults s = []" "fs_stat_faults s = []"
  shows "nullifier_view_of root a s = (Inr \<lparr> nv_reserved = map w_nullifier es, nv_spent = map w_nullifier es' \<rparr>, s)"
  using assms read_wal_run[of s] by (simp add: registered_def nullifier_view_of_def bindS_def)

lemma admit_fresh:
  assumes "registered root a rec mandate pending es es' s" "payload_valid X rec mandate pending payload" "healthy root a s"
    and "payment_nullifiers X payload = ns" "ns \<noteq> []" "set ns \<inter> w_nullifier ` (set es \<union> set es') = {}"
  shows "admit_payment X root a payload s = (Inr (pending, ns), s)"
  using admit_run[OF assms(1,2) healthy_faults(1)[OF assms(3)] assms(4,5)
      view_run[OF assms(1) healthy_faults[OF assms(3)]]] assms(6)
  by (auto simp: nv_contains_def)

text \<open>The steps that reserve the nullifiers and advance the pending state.\<close>

definition reservation :: "pending_state \<Rightarrow> string list \<Rightarrow> nat \<Rightarrow> wal_entry list" where
  "reservation pending ns now = map (\<lambda>n. \<lparr> w_nullifier = n, w_seq = u64_add (last_accepted_seq pending) 1, w_ts = now \<rparr>) ns"

definition reserve_files :: "path \<Rightarrow> string \<Rightarrow> path set" where
  "reserve_files r a = {nullifiers_wal r a, pending_state_file r a, agent_dir r a @ [tmp_name ''pending_state.json'']}"

lemma reserve_run:
  assumes h: "healthy r a s" and plain: "plain_path r" "plain_name a"
    and w: "fget s (nullifiers_wal r a) = Some (Intact (CWal ls None))"
  shows "\<exists>now s1 s2 s3. fs_now s = (Inr now :: facilitator_error + nat, s1) \<and> fget s1 = fget s \<and> fs_dirs s1 = fs_dirs s \<and>
    reserve_nullifiers r a (reservation pending ns now) s1 = (Inr (), s2) \<and>
    advance_pending_state r a (new_pending_state pending payload) s2 = (Inr (), s3) \<and>
    healthy r a s1 \<and> healthy r a s2 \<and> healthy r a s3 \<and> quiet (reserve_files r a) s1 s3 \<and>
    fget s3 (nullifiers_wal r a) = Some (Intact (CWal (ls @ map WLine (reservation pending ns now)) None)) \<and>
    fget s3 (pending_state_file r a) = Some (Intact (CPending (new_pending_state pending payload))) \<and>
    fget s3 (agent_dir r a @ [tmp_name ''pending_state.json'']) = None"
proof -
  obtain now s1 where s1: "fs_now s = (Inr now :: facilitator_error + nat, s1)" "healthy r a s1" "fget s1 = fget s"
    "fs_dirs s1 = fs_dirs s" using healthy_now[OF h] by blast
  obtain s2 where s2: "reserve_nullifiers r a (reservation pending ns now) s1 = (Inr (), s2)" "healthy r a s2"
    "quiet {nullifiers_wal r a} s1 s2"
    "fget s2 (nullifiers_wal r a) = Some (Intact (CWal (ls @ map WLine (reservation pending ns now)) None))"
    using healthy_append[OF s1(2) plain, of ls] w s1(3) by auto
  obtain s3 where s3: "advance_pending_state r a (new_pending_state pending payload) s2 = (Inr (), s3)" "healthy r a s3"
    "quiet {pending_state_file r a, agent_dir r a @ [tmp_name ''pending_state.json'']} s2 s3"
    "fget s3 (pending_state_file r a) = Some (Intact (CPending (new_pending_state pending payload)))"
    "fget s3 (agent_dir r a @ [tmp_name ''pending_state.json'']) = None"
    using healthy_advance[OF s2(2) plain] by blast
  have "fget s3 (nullifiers_wal r a) = fget s2 (nullifiers_wal r a)"
    using store_path_plain(1)[OF plain] plain by (intro quietD[OF s3(3)]) (auto simp: agent_paths tmp_name_def)
  moreover have "quiet (reserve_files r a) s1 s3"
    by (rule quiet_mono[OF quiet_trans[OF s2(3) s3(3)]]) (auto simp: reserve_files_def)
  ultimately show ?thesis using s1 s2 s3 by (intro exI[of _ now] exI[of _ s1] exI[of _ s2] exI[of _ s3]) simp
qed

text \<open>The rest of the handler, once the payment is in the queue.\<close>

lemma commit_finish:
  assumes "fs_now s = (Inr now :: facilitator_error + nat, s1)"
    and "reserve_nullifiers r a (reservation pending ns now) s1 = (Inr (), s2)"
    and "advance_pending_state r a (new_pending_state pending payload) s2 = (Inr (), s3)"
    and "enqueue r a (new_queued_tx pending payload ns now) s3 = (Inr (), s4)"
    and sign: "\<And>m. is_ok (keystore_sign K key m)"
  shows "\<exists>ack. commit_payment X K key r a payload (pending, ns) s = (Inr ack, s4) \<and> ack_accepted_at ack = now \<and>
    ack_seq ack = u64_add (last_accepted_seq pending) 1 \<and> ack_reserved_nullifiers ack = ns \<and>
    ack_new_pending_state_commitment ack = new_state_commitment payload \<and>
    sign_word_hex X K key (hasher_hash X (to_be_bytes (ack_accepted_at ack) @ ack_new_pending_state_commitment ack @ concat ns))
      = Inr (ack_signature ack)"
proof -
  obtain sg where sg: "sign_word_hex X K key (hasher_hash X (to_be_bytes now @
      pending_state_commitment (new_pending_state pending payload) @ concat ns)) = Inr sg"
    using sign by (auto simp: sign_word_hex_def is_ok_iff) (metis bind_res.simps(2) map_err.simps(2))
  show ?thesis
    using assms(1-4)[unfolded reservation_def] sg
    by (simp add: commit_payment_def Let_def bindS_def ack_message_def) (simp add: new_pending_state_def)
qed

definition payment_files :: "path \<Rightarrow> string \<Rightarrow> nat \<Rightarrow> string list \<Rightarrow> path set" where
  "payment_files r a k ns = {nullifiers_wal r a, pending_state_file r a, seq_file (queue_dir r a) k} \<union>
     (\<lambda>m. payments_dir r a @ [m]) ` set ns"

definition payment_temporaries :: "path \<Rightarrow> string \<Rightarrow> nat \<Rightarrow> string list \<Rightarrow> path set" where
  "payment_temporaries r a k ns = {agent_dir r a @ [tmp_name ''pending_state.json''], queue_dir r a @ [tmp_name (qname k)]} \<union>
     (\<lambda>m. payments_dir r a @ [tmp_name m]) ` set ns"

lemma commit_run:
  assumes h: "healthy r a s" and plain: "plain_path r" "plain_name a"
    and w: "fget s (nullifiers_wal r a) = Some (Intact (CWal ls None))"
    and ns: "\<And>m. m \<in> set ns \<Longrightarrow> sentinel_name m" and sign: "\<And>m. is_ok (keystore_sign K key m)"
  shows "\<exists>ack s'. commit_payment X K key r a payload (pending, ns) s = (Inr ack, s') \<and>
    ack_seq ack = u64_add (last_accepted_seq pending) 1 \<and> ack_reserved_nullifiers ack = ns \<and>
    ack_new_pending_state_commitment ack = new_state_commitment payload \<and>
    sign_word_hex X K key (hasher_hash X (to_be_bytes (ack_accepted_at ack) @ ack_new_pending_state_commitment ack @ concat ns))
      = Inr (ack_signature ack) \<and>
    fget s' (nullifiers_wal r a) = Some (Intact (CWal (ls @ map WLine (reservation pending ns (ack_accepted_at ack))) None)) \<and>
    fget s' (pending_state_file r a) = Some (Intact (CPending (new_pending_state pending payload))) \<and>
    fget s' (seq_file (queue_dir r a) (ack_seq ack)) = Some (Intact (CQueued (new_queued_tx pending payload ns (ack_accepted_at ack)))) \<and>
    (\<forall>m \<in> set ns. fget s' (payments_dir r a @ [m]) = Some (Intact (CLookup (ack_seq ack)))) \<and>
    (\<forall>p \<in> payment_temporaries r a (ack_seq ack) ns. fget s' p = None) \<and>
    (\<forall>p. resolve p \<notin> payment_files r a (ack_seq ack) ns \<union> payment_temporaries r a (ack_seq ack) ns \<longrightarrow> fget s' p = fget s p) \<and>
    fs_dirs s' = fs_dirs s"
proof -
  let ?k = "u64_add (last_accepted_seq pending) 1" and ?d = "payments_dir r a" and ?q = "queue_dir r a"
  obtain now s1 s2 s3 where st: "fs_now s = (Inr now :: facilitator_error + nat, s1)" "fget s1 = fget s" "fs_dirs s1 = fs_dirs s"
    "reserve_nullifiers r a (reservation pending ns now) s1 = (Inr (), s2)"
    "advance_pending_state r a (new_pending_state pending payload) s2 = (Inr (), s3)"
    and h3: "healthy r a s3" and q3: "quiet (reserve_files r a) s1 s3"
    and e3: "fget s3 (nullifiers_wal r a) = Some (Intact (CWal (ls @ map WLine (reservation pending ns now)) None))"
    "fget s3 (pending_state_file r a) = Some (Intact (CPending (new_pending_state pending payload)))"
    "fget s3 (agent_dir r a @ [tmp_name ''pending_state.json'']) = None"
    using reserve_run[OF h plain w, of pending ns payload] by blast
  let ?t = "new_queued_tx pending payload ns now"
  have t: "q_seq ?t = ?k" "q_nullifiers ?t = ns" by (simp_all add: new_queued_tx_def)
  obtain s4 where s4: "atomic_write_json (?q @ [qname ?k]) (CQueued ?t) s3 = (Inr (), s4)" "healthy r a s4"
    "quiet {?q @ [qname ?k], ?q @ [tmp_name (qname ?k)]} s3 s4" "fget s4 (?q @ [tmp_name (qname ?k)]) = None"
    using healthy_write_in[OF h3 plain, of ?q "qname ?k" "CQueued ?t"] by auto
  obtain s5 where s5: "forS (\<lambda>m. atomic_write_json (path_join ?d m) (CLookup ?k)) ns s4 = (Inr (), s5)"
    "quiet ((\<lambda>m. ?d @ [m]) ` (set ns \<union> tmp_name ` set ns)) s4 s5" "\<forall>m \<in> set ns. fget s5 (?d @ [tmp_name m]) = None"
    using healthy_sentinels[OF plain ns s4(2)] by blast
  have enq: "enqueue r a ?t s3 = (Inr (), s5)"
    using s4(1) s5(1) t by (simp add: enqueue_def bindS_def seq_file_eq qname_def)
  note eff = enqueue_effect[OF plain _ enq, unfolded t, OF ns]
  note pl = store_path_plain[OF plain]
  note q45 = quiet_trans[OF s4(3) s5(2)]
  have keep: "fget s5 (agent_dir r a @ [x]) = fget s3 (agent_dir r a @ [x])" if "plain_name x" for x
    using that pl(1) by (intro quietD[OF q45]) (auto simp: agent_paths[OF plain(2)])
  have "?q @ [x] \<notin> (\<lambda>m. ?d @ [m]) ` M" for x M
    by (auto simp: agent_paths[OF plain(2)])
  then have "fget s5 (?q @ [tmp_name (qname ?k)]) = fget s4 (?q @ [tmp_name (qname ?k)])"
    using pl(6) by (intro quietD[OF s5(2)]) simp
  then have temps: "\<forall>p \<in> payment_temporaries r a ?k ns. fget s5 p = None"
    using s4(4) s5(3) keep[of "tmp_name ''pending_state.json''"] e3(3) by (auto simp: payment_temporaries_def)
  have frame: "fget s5 p = fget s p" if "resolve p \<notin> payment_files r a ?k ns \<union> payment_temporaries r a ?k ns" for p
    using that quietD[OF quiet_trans[OF q3 q45], of p] st(2)
    by (auto simp: payment_files_def payment_temporaries_def reserve_files_def seq_file_eq qname_def image_iff)
  have dirs: "fs_dirs s5 = fs_dirs s"
    using quiet_trans[OF q3 q45] st(3) by (simp add: quiet_def)
  obtain ack where ack: "commit_payment X K key r a payload (pending, ns) s = (Inr ack, s5)" "ack_accepted_at ack = now"
    "ack_seq ack = ?k" "ack_reserved_nullifiers ack = ns" "ack_new_pending_state_commitment ack = new_state_commitment payload"
    "sign_word_hex X K key (hasher_hash X (to_be_bytes (ack_accepted_at ack) @ ack_new_pending_state_commitment ack @ concat ns))
      = Inr (ack_signature ack)"
    using commit_finish[OF st(1,4,5) enq sign, of X] by blast
  have "fget s5 (nullifiers_wal r a) = fget s3 (nullifiers_wal r a)" "fget s5 (pending_state_file r a) = fget s3 (pending_state_file r a)"
    using keep by (simp_all add: agent_paths[OF plain(2)])
  then show ?thesis
    by (intro exI[of _ ack] exI[of _ s5] conjI)
      (use ack e3 eff temps frame dirs in \<open>simp_all add: seq_file_eq qname_def\<close>)
qed

section \<open>Listing a queue\<close>

lemma list_loop_run:
  assumes "fs_faults s = []" "\<And>p. (p, True) \<in> set es \<Longrightarrow> \<exists>t. fget s p = Some (Intact (CQueued t))"
  shows "\<exists>res. list_queued_loop es out s = (Inr res, s) \<and>
    set res = set out \<union> {t. \<exists>p. (p, True) \<in> set es \<and> fget s p = Some (Intact (CQueued t))}"
  using assms(2)
proof (induction es arbitrary: out)
  case (Cons e es)
  obtain p f where e: "e = (p, f)" by fastforce
  show ?case
  proof (cases f)
    case True
    then obtain t where t: "fget s p = Some (Intact (CQueued t))" using Cons.prems e by auto
    then have "read_json as_queued p s = (Inr t, s)"
      using assms(1) by (simp add: read_json_def bindS_def io_def map_errS_def fs_read_def)
    then show ?thesis using Cons.IH[of "out @ [t]"] Cons.prems e True t assms(1)
      by (auto simp: bindS_def io_def map_errS_def)
  next
    case False
    then show ?thesis using Cons.IH[of out] Cons.prems e assms(1) by (auto simp: bindS_def io_def map_errS_def)
  qed
qed simp

lemma list_loop_records:
  assumes "list_queued_loop es out s = (Inr res, s')" "fs_faults s = []" "(p, True) \<in> set es"
  shows "\<exists>t. fget s p = Some (Intact (CQueued t))"
  using assms(1,3)
proof (induction es arbitrary: out)
  case (Cons e es)
  obtain p' f where e: "e = (p', f)" by fastforce
  have c: "(if \<not> f then list_queued_loop es out
      else bindS (read_json as_queued p') (\<lambda>tx. list_queued_loop es (out @ [tx]))) s = (Inr res, s')"
    using Cons.prems(1) assms(2) by (auto simp: e bindS_def io_def map_errS_def)
  show ?case
  proof (cases f)
    case True
    obtain tx s3 where tx: "read_json as_queued p' s = (Inr tx, s3)" "list_queued_loop es (out @ [tx]) s3 = (Inr res, s')"
      using c True by (auto simp: bindS_Inr_iff)
    have "s3 = s" using tx(1) assms(2) by (auto simp: read_json_def bindS_Inr_iff fs_read_def)
    then show ?thesis
      using tx Cons.IH Cons.prems(2) read_json_Inr[OF tx(1)] e by (auto elim!: as_queued.elims)
  next
    case False
    then show ?thesis using c Cons.IH Cons.prems(2) e by auto
  qed
qed simp

lemma list_queued_unfold:
  assumes "fs_faults s = []" "fs_stat_faults s = []" "has_dir s (queue_dir r a)"
  shows "list_queued r a s = bindS (list_queued_loop (dir_entries s (queue_dir r a)) []) (\<lambda>out. okS (sort_key q_seq out)) s"
  using assms by (simp add: list_queued_def bindS_def fs_is_dir_def io_def map_errS_def fs_read_dir_def)

lemma dir_file_entry:
  "(p, True) \<in> set (dir_entries s d) \<longleftrightarrow> entry_of (resolve d) p \<and> dir_get (fs_files s) p \<noteq> None"
  by (auto simp: dir_entries_def dir_get_def map_of_eq_None_iff image_iff)

text \<open>
  A complete temporary file in the queue's directory is listed: if the listing succeeds in one
  state, it succeeds in the state with the temporary added, and contains its record.
\<close>

lemma list_queued_temporary:
  assumes h: "healthy r a s" and plain: "plain_path r" "plain_name a" and n: "plain_name n"
    and before: "list_queued r a s0 = (Inr q, s0')" "fs_faults s0 = []" "fs_stat_faults s0 = []" "has_dir s0 (queue_dir r a)"
    and same: "\<And>m. plain_name m \<Longrightarrow> m \<noteq> n \<Longrightarrow> fget s (queue_dir r a @ [m]) = fget s0 (queue_dir r a @ [m])"
    and new: "fget s (queue_dir r a @ [n]) = Some (Intact (CQueued t))"
  shows "\<exists>q'. list_queued r a s = (Inr q', s) \<and> t \<in> set q'"
proof -
  let ?d = "queue_dir r a"
  have d: "resolve ?d = ?d" "has_dir s ?d"
    using store_path_plain[OF plain] healthy_dir(1)[OF h plain, of "[''pending_queue'']"] plain
    by (auto simp: agent_paths agent_subdirs_def)
  have res: "dir_get (fs_files u) (?d @ [m]) = fget u (?d @ [m])" if "plain_name m" for m and u :: "content fsys"
    using that d(1) by (simp add: fget_def resolve_name)
  obtain out where out: "list_queued_loop (dir_entries s0 ?d) [] s0 = (Inr out, s0')"
    using before list_queued_unfold[OF before(2-4)] by (auto simp: bindS_Inr_iff)
  have ok: "\<exists>t. fget s p = Some (Intact (CQueued t))" if p: "(p, True) \<in> set (dir_entries s ?d)" for p
  proof -
    have e: "p \<noteq> []" "butlast p = ?d" "plain_name (last p)" "dir_get (fs_files s) p \<noteq> None"
      using p d(1) by (auto simp: dir_file_entry entry_of_def)
    then have pm: "p = ?d @ [last p]" by (metis append_butlast_last_id)
    obtain m where m: "p = ?d @ [m]" "plain_name m" "fget s p \<noteq> None"
      using pm e(3,4) res[OF e(3), of s] by metis
    show ?thesis
    proof (cases "m = n")
      case False
      then have "(p, True) \<in> set (dir_entries s0 ?d)"
        using m same res d(1) by (auto simp: dir_file_entry entry_of_def)
      then show ?thesis using list_loop_records[OF out before(2)] same[OF m(2) False] m(1) by simp
    qed (use m new in auto)
  qed
  have "(?d @ [n], True) \<in> set (dir_entries s ?d)"
    using n d(1) new res by (simp add: dir_file_entry entry_of_def)
  then have "\<exists>out. list_queued_loop (dir_entries s ?d) [] s = (Inr out, s) \<and> t \<in> set out"
    using list_loop_run[OF healthy_faults(1)[OF h] ok, of "dir_entries s ?d" "[]"] new by auto
  then show ?thesis
    using list_queued_unfold[OF healthy_faults[OF h] d(2)] by (auto simp: bindS_def)
qed

section \<open>Failures at a chosen call\<close>

text \<open>
  A computation that only reads the script of faults through its I/O calls: from each state its
  run without faults makes some number \<open>k\<close> of calls, and every script that begins with \<open>k\<close> successes
  gives the same run and leaves the rest of the script.
\<close>

definition scripted :: "('c fsys, 'e, 'a) comp \<Rightarrow> bool" where
  "scripted m \<longleftrightarrow> (\<forall>s. \<exists>k r s'. m (s \<lparr> fs_faults := [] \<rparr>) = (r, s' \<lparr> fs_faults := [] \<rparr>) \<and>
     (\<forall>rest. m (s \<lparr> fs_faults := replicate k FNone @ rest \<rparr>) = (r, s' \<lparr> fs_faults := rest \<rparr>)))"

lemma scriptedI:
  "(\<And>s. \<exists>k r s'. m (s \<lparr> fs_faults := [] \<rparr>) = (r, s' \<lparr> fs_faults := [] \<rparr>) \<and>
     (\<forall>rest. m (s \<lparr> fs_faults := replicate k FNone @ rest \<rparr>) = (r, s' \<lparr> fs_faults := rest \<rparr>))) \<Longrightarrow> scripted m"
  by (simp add: scripted_def)

lemma scriptedD:
  assumes "scripted m" "m s = (r, s')" "fs_faults s = []"
  shows "\<exists>k. \<forall>rest. m (s \<lparr> fs_faults := replicate k FNone @ rest \<rparr>) = (r, s' \<lparr> fs_faults := rest \<rparr>)"
proof -
  obtain k x t where k: "m (s \<lparr> fs_faults := [] \<rparr>) = (x, t \<lparr> fs_faults := [] \<rparr>)"
    "\<forall>rest. m (s \<lparr> fs_faults := replicate k FNone @ rest \<rparr>) = (x, t \<lparr> fs_faults := rest \<rparr>)"
    using assms(1) unfolding scripted_def by blast
  have "s \<lparr> fs_faults := [] \<rparr> = s" using assms(3) by simp
  then have "x = r" "s' = t \<lparr> fs_faults := [] \<rparr>" using k(1) assms(2) by auto
  then show ?thesis using k(2) by (intro exI[of _ k]) auto
qed

text \<open>A computation that does not look at the script at all.\<close>

definition blind :: "('c fsys, 'e, 'a) comp \<Rightarrow> bool" where
  "blind g \<longleftrightarrow> (\<forall>s F. g (s \<lparr> fs_faults := F \<rparr>) = (fst (g s), (snd (g s)) \<lparr> fs_faults := F \<rparr>))"

lemma blindI: "(\<And>s F. g (s \<lparr> fs_faults := F \<rparr>) = (fst (g s), (snd (g s)) \<lparr> fs_faults := F \<rparr>)) \<Longrightarrow> blind g"
  by (simp add: blind_def)

lemma blind_run: "blind g \<Longrightarrow> g (s \<lparr> fs_faults := F \<rparr>) = (fst (g s), (snd (g s)) \<lparr> fs_faults := F \<rparr>)"
  unfolding blind_def by blast

lemma scripted_blind: "blind g \<Longrightarrow> scripted g"
  by (rule scriptedI, rule exI[of _ 0]) (auto simp: blind_run)

lemma scripted_okS [scripted]: "scripted (okS a)" "scripted (errS e)" "scripted (liftS r)" "scripted (Pair r)"
  by (rule scripted_blind, simp add: blind_def)+

lemma scripted_bindS [scripted]:
  assumes m: "scripted m" and f: "\<And>a. scripted (f a)"
  shows "scripted (bindS m f)"
proof (rule scriptedI)
  fix s
  obtain k r s1 where 1: "m (s \<lparr> fs_faults := [] \<rparr>) = (r, s1 \<lparr> fs_faults := [] \<rparr>)"
    "\<And>rest. m (s \<lparr> fs_faults := replicate k FNone @ rest \<rparr>) = (r, s1 \<lparr> fs_faults := rest \<rparr>)"
    using m unfolding scripted_def by blast
  show "\<exists>k r s'. bindS m f (s \<lparr> fs_faults := [] \<rparr>) = (r, s' \<lparr> fs_faults := [] \<rparr>) \<and>
      (\<forall>rest. bindS m f (s \<lparr> fs_faults := replicate k FNone @ rest \<rparr>) = (r, s' \<lparr> fs_faults := rest \<rparr>))"
  proof (cases r)
    case (Inl e)
    then show ?thesis using 1 by (intro exI[of _ k] exI[of _ "Inl e"] exI[of _ s1]) (simp add: bindS_def)
  next
    case (Inr a)
    obtain l r2 s2 where 2: "f a (s1 \<lparr> fs_faults := [] \<rparr>) = (r2, s2 \<lparr> fs_faults := [] \<rparr>)"
      "\<And>rest. f a (s1 \<lparr> fs_faults := replicate l FNone @ rest \<rparr>) = (r2, s2 \<lparr> fs_faults := rest \<rparr>)"
      using f[of a] unfolding scripted_def by blast
    show ?thesis
      using 1 2 Inr by (intro exI[of _ "k + l"] exI[of _ r2] exI[of _ s2]) (simp add: bindS_def replicate_add)
  qed
qed

lemma scripted_map_errS [scripted]:
  assumes "scripted m"
  shows "scripted (map_errS g m)"
proof (rule scriptedI)
  fix s
  obtain k r s1 where 1: "m (s \<lparr> fs_faults := [] \<rparr>) = (r, s1 \<lparr> fs_faults := [] \<rparr>)"
    "\<And>rest. m (s \<lparr> fs_faults := replicate k FNone @ rest \<rparr>) = (r, s1 \<lparr> fs_faults := rest \<rparr>)"
    using assms unfolding scripted_def by blast
  then show "\<exists>k r s'. map_errS g m (s \<lparr> fs_faults := [] \<rparr>) = (r, s' \<lparr> fs_faults := [] \<rparr>) \<and>
      (\<forall>rest. map_errS g m (s \<lparr> fs_faults := replicate k FNone @ rest \<rparr>) = (r, s' \<lparr> fs_faults := rest \<rparr>))"
    by (intro exI[of _ k] exI[of _ "map_err g r"] exI[of _ s1]) (simp add: map_errS_def)
qed

lemma scripted_io [scripted]: "scripted m \<Longrightarrow> scripted (io m)"
  by (simp add: io_def scripted_map_errS)

lemma scripted_forS [scripted]: "(\<And>x. scripted (f x)) \<Longrightarrow> scripted (forS f xs)"
  by (induction xs) (simp_all add: scripted)

lemma scripted_io_call:
  assumes "blind g"
  shows "scripted (io_call g)"
proof (rule scriptedI)
  fix s
  show "\<exists>k r s'. io_call g (s \<lparr> fs_faults := [] \<rparr>) = (r, s' \<lparr> fs_faults := [] \<rparr>) \<and>
      (\<forall>rest. io_call g (s \<lparr> fs_faults := replicate k FNone @ rest \<rparr>) = (r, s' \<lparr> fs_faults := rest \<rparr>))"
    using blind_run[OF assms, where s = s]
    by (intro exI[of _ 1] exI[of _ "fst (g s)"] exI[of _ "snd (g s)"]) (simp add: io_call_def next_fault_def)
qed

lemma has_dir_update [simp]: "has_dir (s \<lparr> fs_faults := x \<rparr>) p = has_dir s p"
  by (simp add: has_dir_def)

lemma fput_faults: "fput p f (s \<lparr> fs_faults := x \<rparr>) = (fput p f s) \<lparr> fs_faults := x \<rparr>"
  by (simp add: fput_def)

lemma fmap_at_faults: "fmap_at p g (s \<lparr> fs_faults := x \<rparr>) = (fmap_at p g s) \<lparr> fs_faults := x \<rparr>"
  by (simp add: fmap_at_def fput_faults split: option.splits)

lemma scripted_calls [scripted]:
  "scripted (fs_create_dir_all p)" "scripted (fs_create_file p)" "scripted fs_sync_all" "scripted (fs_read p)"
  "scripted (open_append p)" "scripted (append_newline p)" "scripted (io_call (okS ()))"
  unfolding fs_create_dir_all_def fs_create_file_def fs_sync_all_def fs_read_def open_append_def append_newline_def Let_def
  by (rule scripted_io_call, rule blindI, simp add: fput_faults fmap_at_faults)+

lemma scripted_rename [scripted]: "scripted (fs_rename p q)"
  unfolding fs_rename_def by (rule scripted_io_call, rule blindI) (simp add: fput_def split: option.split)

lemma scripted_writes [scripted]: "scripted (fs_write_all p v)" "scripted (append_line p e)"
proof -
  show "scripted (fs_write_all p v)"
    by (rule scriptedI, rule exI[of _ 1]) (auto simp: fs_write_all_def next_fault_def fput_faults)
  show "scripted (append_line p e)"
    by (rule scriptedI, rule exI[of _ 1]) (auto simp: append_line_def next_fault_def fmap_at_faults)
qed

lemma scripted_stat [scripted]: "scripted (fs_exists p)" "scripted fs_now"
  by (rule scripted_blind, rule blindI,
      simp add: fs_exists_def stat_call_def next_stat_def fs_now_def split: list.split)+

lemma scripted_scan [scripted]: "scripted (scan_wal ls out)"
  by (induction ls out rule: scan_wal.induct) (auto intro!: scripted split: wal_line.split)

lemma scripted_handler [scripted]:
  "scripted (read_json as_t p)" "scripted (read_wal_set p)" "scripted (nullifier_view_of r a)"
  "scripted (load_agent r a)" "scripted (load_mandate r a)" "scripted (load_pending_state r a)"
  "scripted (admit_payment X r a payload)" "scripted (append_entries p es)" "scripted (atomic_write_json p v)"
  "scripted (stage_tmp d n v)" "scripted (reserve_nullifiers r a es)" "scripted (advance_pending_state r a st)"
proof -
  show rd: "scripted (read_json as_t p)" for as_t :: "content \<Rightarrow> 'x option" and p
    by (auto simp: read_json_def intro!: scripted)
  show w: "scripted (read_wal_set p)" for p by (auto simp: read_wal_set_def intro!: scripted)
  show v: "scripted (nullifier_view_of r a)" by (auto simp: nullifier_view_of_def intro!: scripted w)
  show l: "scripted (load_agent r a)" "scripted (load_mandate r a)" "scripted (load_pending_state r a)"
    by (auto simp: load_agent_def load_mandate_def load_pending_state_def read_json_def intro!: scripted)
  show "scripted (admit_payment X r a payload)"
    by (auto simp: admit_payment_def Let_def intro!: scripted l v)
  show ap: "scripted (append_entries p es)" for p es by (auto simp: append_entries_def intro!: scripted)
  show at: "scripted (atomic_write_json p v)" for p v
    by (auto simp: atomic_write_json_def Let_def intro!: scripted split: option.split)
  show "scripted (stage_tmp d n v)" by (auto simp: stage_tmp_def intro!: scripted)
  show "scripted (reserve_nullifiers r a es)" "scripted (advance_pending_state r a st)"
    by (simp_all add: reserve_nullifiers_def advance_pending_state_def ap at)
qed

section \<open>A path that leaves its directory\<close>

lemma traversal_write:
  assumes h: "healthy r a s" and plain: "plain_path r" "plain_name a"
  shows "\<exists>s'. atomic_write_json (path_join (payments_dir r a) ''../pending_state.json'') v s = (Inr (), s') \<and>
    fget s' (pending_state_file r a) = Some (Intact v)"
proof -
  let ?d = "payments_dir r a @ [''..'']" and ?n = "''pending_state.json''"
  have path: "path_join (payments_dir r a) ''../pending_state.json'' = ?d @ [?n]"
    by (simp add: path_join_def path_components_def starts_with_def)
  have res: "resolve ?d = agent_dir r a"
    using store_path_plain(1,4)[OF plain] unfolding resolve_snoc by (simp add: agent_paths(9)[OF plain(2)])
  have nd: "\<not> has_dir s (?d @ [x])" if "plain_name x" "[x] \<notin> agent_subdirs" for x
    using that h resolve_name[OF that(1), of ?d] res by (simp add: has_dir_def healthy_def)
  have d: "has_dir s ?d"
    using h res by (simp add: has_dir_def healthy_def) (metis agent_subdirs_def append_Nil2 insertI1)
  have "\<not> has_dir s (?d @ [?n])" "\<not> has_dir s (?d @ [tmp_name ?n])"
    by (rule nd; simp add: agent_subdirs_def tmp_name_def plain_name_def)+
  then obtain s' where s': "atomic_write_json (?d @ [?n]) v s = (Inr (), s')" "fget s' (?d @ [?n]) = Some (Intact v)"
    using atomic_write_run[OF healthy_faults(1)[OF h] plain_names(4) d, of v] by blast
  have "resolve (?d @ [?n]) = resolve (pending_state_file r a)"
    using resolve_name[OF plain_names(4), of ?d] res store_path_plain(1)[OF plain] by (simp add: agent_paths(3)[OF plain(2)])
  then have "fget s' (pending_state_file r a) = fget s' (?d @ [?n])"
    unfolding fget_def by simp
  then show ?thesis using s' path by simp
qed

section \<open>A payment whose last queue call fails\<close>

lemma queue_stage:
  assumes h: "healthy r a s" and plain: "plain_path r" "plain_name a"
  shows "\<exists>s'. stage_tmp (queue_dir r a) (qname k) v s = (Inr (), s') \<and>
    quiet {queue_dir r a @ [tmp_name (qname k)]} s s' \<and> fget s' (queue_dir r a @ [tmp_name (qname k)]) = Some (Intact v)"
proof -
  have d: "resolve (queue_dir r a) = queue_dir r a" "queue_dir r a = agent_dir r a @ [''pending_queue'']"
    using store_path_plain(6)[OF plain] plain by (simp_all add: agent_paths)
  have "has_dir s (queue_dir r a)"
    using healthy_dir(1)[OF h plain, of "[''pending_queue'']"] d(2) by (simp add: agent_subdirs_def)
  moreover have "\<not> has_dir s (queue_dir r a @ [tmp_name (qname k)])"
    using h resolve_name[of "tmp_name (qname k)" "queue_dir r a"] d by (simp add: has_dir_def healthy_def agent_subdirs_def)
  ultimately show ?thesis using stage_run[OF healthy_faults(1)[OF h] plain_qname] d(1) by metis
qed

lemma failing_rename:
  assumes ad: "admit_payment X r a payload s = (Inr (pending, ns), s)" and s: "fs_faults s = []"
    and now: "fs_now s = (Inr now :: facilitator_error + nat, s1)"
    and res: "reserve_nullifiers r a (reservation pending ns now) s1 = (Inr (), s2)"
    and adv: "advance_pending_state r a (new_pending_state pending payload) s2 = (Inr (), s3)"
    and stg: "stage_tmp (queue_dir r a) (qname (u64_add (last_accepted_seq pending) 1))
      (CQueued (new_queued_tx pending payload ns now)) s3 = (Inr (), s4)"
    and h: "healthy r a s1" "healthy r a s2" "healthy r a s3"
  shows "\<exists>k. \<forall>rest. post_payment X K key r a payload (s \<lparr> fs_faults := replicate k FNone @ FErr e # rest \<rparr>) =
    (Inl (Internal (''io: '' @ e)), s4 \<lparr> fs_faults := rest \<rparr>)"
proof -
  note h = h[THEN healthy_faults(1)]
  let ?z = "\<lambda>n F. replicate n FNone @ F"
  obtain k1 where 1: "\<And>F. admit_payment X r a payload (s \<lparr> fs_faults := ?z k1 F \<rparr>) = (Inr (pending, ns), s \<lparr> fs_faults := F \<rparr>)"
    using scriptedD[OF scripted_handler(7) ad s] by blast
  obtain k2 where 2: "\<And>F. fs_now (s \<lparr> fs_faults := ?z k2 F \<rparr>) = (Inr now :: facilitator_error + nat, s1 \<lparr> fs_faults := F \<rparr>)"
    using scriptedD[OF scripted_stat(2) now s] by blast
  obtain k3 where 3: "\<And>F. reserve_nullifiers r a (reservation pending ns now) (s1 \<lparr> fs_faults := ?z k3 F \<rparr>) = (Inr (), s2 \<lparr> fs_faults := F \<rparr>)"
    using scriptedD[OF scripted_handler(11) res h(1)] by blast
  obtain k4 where 4: "\<And>F. advance_pending_state r a (new_pending_state pending payload) (s2 \<lparr> fs_faults := ?z k4 F \<rparr>) = (Inr (), s3 \<lparr> fs_faults := F \<rparr>)"
    using scriptedD[OF scripted_handler(12) adv h(2)] by blast
  let ?t = "new_queued_tx pending payload ns now"
  obtain k5 where 5: "\<And>F. stage_tmp (queue_dir r a) (qname (u64_add (last_accepted_seq pending) 1)) (CQueued ?t)
      (s3 \<lparr> fs_faults := ?z k5 F \<rparr>) = (Inr (), s4 \<lparr> fs_faults := F \<rparr>)"
    using scriptedD[OF scripted_handler(10) stg h(3)] by blast
  have t: "q_seq ?t = u64_add (last_accepted_seq pending) 1" by (simp add: new_queued_tx_def)
  have ren: "io (fs_rename p q) (s4 \<lparr> fs_faults := FErr e # rest \<rparr>) = (Inl (Internal (''io: '' @ e)), s4 \<lparr> fs_faults := rest \<rparr>)" for p q rest
    by (simp add: io_def map_errS_def fs_rename_def io_call_def next_fault_def io_err_def)
  have enq: "enqueue r a ?t (s3 \<lparr> fs_faults := ?z k5 (FErr e # rest) \<rparr>) = (Inl (Internal (''io: '' @ e)), s4 \<lparr> fs_faults := rest \<rparr>)" for rest
    using 5 ren t unfolding enqueue_def seq_file_eq qname_def[symmetric] atomic_write_stage[OF plain_qname] by (simp add: bindS_def)
  have "post_payment X K key r a payload (s \<lparr> fs_faults := ?z k1 (?z k2 (?z k3 (?z k4 (?z k5 (FErr e # rest))))) \<rparr>) =
      (Inl (Internal (''io: '' @ e)), s4 \<lparr> fs_faults := rest \<rparr>)" for rest
    using 1 2 3[unfolded reservation_def] 4 enq by (simp add: post_payment_def commit_payment_def Let_def bindS_def)
  then show ?thesis
    by (intro exI[of _ "k1 + (k2 + (k3 + (k4 + k5)))"]) (simp add: replicate_add)
qed

end
