(* ===== verification/X402_Properties.thy ===== *)
theory X402_Properties
  imports X402_Runs
begin

text \<open>
  The correctness properties of the x402 facilitator: what is acknowledged, what a refusal leaves
  behind, that valid payments are accepted and what they write, what the batch worker records, and three failures the model exposes.
\<close>

section \<open>Acknowledgements\<close>

text \<open>
  C1 (safety). In every reachable state, however requests, the worker and I/O failures interleave:
  of two acknowledgements given to one agent, the later one has the larger sequence number and
  shares no nullifier with the earlier one. No nullifier is acknowledged twice. The states are those of
  \<open>sys_reach\<close>: agent ids and nullifiers are plain file names (a nullifier does not start with a dot),
  and \<open>exists\<close>, \<open>is_file\<close> and \<open>is_dir\<close> answer truthfully; C7 and C8 are about the other cases.
\<close>

theorem acknowledged_once:
  assumes "plain_path root" and "sys_reach X E C K key root config n s" and "n < u64_bound"
    and "i < j" and "j < length (sys_log s)" and "fst (sys_log s ! i) = fst (sys_log s ! j)"
  shows "ack_seq (snd (sys_log s ! i)) < ack_seq (snd (sys_log s ! j)) \<and>
    set (ack_reserved_nullifiers (snd (sys_log s ! i))) \<inter> set (ack_reserved_nullifiers (snd (sys_log s ! j))) = {}"
proof -
  have "sorted_wrt later_ack (sys_log s)"
    using sys_reach_inv[OF assms(1-3)] by (simp add: sys_inv_def)
  then show ?thesis
    using assms(4-6) by (auto simp: sorted_wrt_iff_nth_less later_ack_def)
qed

definition demo_sys :: "unit app \<Rightarrow> (string \<times> ack_response) list \<Rightarrow> unit sys" where
  "demo_sys app log = \<lparr> sys_app = app, sys_log = log, sys_agents = [], sys_current = [], sys_batch = [] \<rparr>"

definition demo_ack :: "nat \<Rightarrow> nat \<Rightarrow> string \<Rightarrow> string \<Rightarrow> ack_response" where
  "demo_ack t k new n = \<lparr> ack_accepted_at = t, ack_new_pending_state_commitment = new,
     ack_reserved_nullifiers = [n], ack_seq = k, ack_signature = ''0xs'' \<rparr>"

abbreviation demo_config :: batch_config where
  "demo_config \<equiv> \<lparr> interval_ms = 1000, max_size = 50 \<rparr>"

abbreviation demo_reach :: "nat \<Rightarrow> unit sys \<Rightarrow> bool" where
  "demo_reach \<equiv> sys_reach demo_ext demo_ecdsa demo_client demo_keys mword_zero [''d''] demo_config"

lemma demo_names: "\<forall>n \<in> set (payment_nullifiers demo_ext (demo_payload a b (CHR ''n'' # [c]))). c \<noteq> CHR ''/'' \<longrightarrow> sentinel_name n"
  by (auto simp: payment_nullifiers_def try_decode_real_summary_def is_real_summary_def json_get_str_def
      demo_payload_def sentinel_name_def plain_name_def)

lemma demo_reach1: "demo_reach 1 (demo_sys demo_app1 [])"
proof -
  have "demo_reach 0 (demo_sys demo_app0 [])"
    by (rule reach_init) (simp_all add: demo_sys_def sys_fs_def demo_app0_def demo_fs_def)
  moreover have "sys_step demo_ext demo_ecdsa demo_client demo_keys mword_zero [''d''] demo_config
      (demo_sys demo_app0 []) ((demo_sys demo_app0 []) \<lparr> sys_app := demo_app1 \<rparr>)"
    by (rule step_register[where req = demo_request and r = "fst (register_agent demo_ext demo_ecdsa demo_client
        mword_zero [''d''] demo_request demo_app0)"])
      (simp_all add: demo_request_def plain_name_def demo_sys_def demo_app1_def)
  ultimately show ?thesis
    using reach_step by (fastforce simp: demo_sys_def)
qed

lemma demo_reach2: "demo_reach 2 (demo_sys (demo_app1 \<lparr> app_fs := snd demo_pay1 \<rparr>) [(''a'', demo_ack 2 1 ''s1'' ''n1'')])"
proof -
  have "sys_step demo_ext demo_ecdsa demo_client demo_keys mword_zero [''d''] demo_config (demo_sys demo_app1 [])
      (set_fs (snd demo_pay1) ((demo_sys demo_app1 []) \<lparr> sys_log := [] @
        (case fst demo_pay1 of Inr ack \<Rightarrow> [(''a'', ack)] | Inl _ \<Rightarrow> []) \<rparr>))"
    using step_pay[of "''a''" demo_ext "demo_payload ''s0'' ''s1'' ''n1''" demo_keys mword_zero "[''d'']"
        "demo_sys demo_app1 []" "fst demo_pay1" "snd demo_pay1"] demo_names
    by (simp add: plain_name_def demo_sys_def sys_fs_def demo_pay1_def)
  from reach_step[OF demo_reach1 this] show ?thesis
    by (simp add: demo_pay1_ack demo_sys_def set_fs_def demo_ack_def numeral_2_eq_2)
qed

lemma demo_reach3: "demo_reach 3 (demo_sys (demo_app1 \<lparr> app_fs := snd demo_pay2 \<rparr>)
    [(''a'', demo_ack 2 1 ''s1'' ''n1''), (''a'', demo_ack 3 2 ''s2'' ''n2'')])"
proof -
  let ?s = "demo_sys (demo_app1 \<lparr> app_fs := snd demo_pay1 \<rparr>) [(''a'', demo_ack 2 1 ''s1'' ''n1'')]"
  have "sys_step demo_ext demo_ecdsa demo_client demo_keys mword_zero [''d''] demo_config ?s
      (set_fs (snd demo_pay2) (?s \<lparr> sys_log := sys_log ?s @
        (case fst demo_pay2 of Inr ack \<Rightarrow> [(''a'', ack)] | Inl _ \<Rightarrow> []) \<rparr>))"
    using step_pay[of "''a''" demo_ext "demo_payload ''s1'' ''s2'' ''n2''" demo_keys mword_zero "[''d'']"
        ?s "fst demo_pay2" "snd demo_pay2"] demo_names
    by (simp add: plain_name_def demo_sys_def sys_fs_def demo_pay2_def)
  from reach_step[OF demo_reach2 this] show ?thesis
    by (simp add: demo_pay2_ack demo_sys_def set_fs_def demo_ack_def numeral_2_eq_2 numeral_3_eq_3)
qed

theorem acknowledged_once_witness:
  "ack_seq (demo_ack 2 1 ''s1'' ''n1'') < ack_seq (demo_ack 3 2 ''s2'' ''n2'') \<and>
   set (ack_reserved_nullifiers (demo_ack 2 1 ''s1'' ''n1'')) \<inter> set (ack_reserved_nullifiers (demo_ack 3 2 ''s2'' ''n2'')) = {}"
  using acknowledged_once[OF _ demo_reach3, of 0 1] by (simp add: u64_bound_def demo_sys_def)


lemma log_ack_ok:
  assumes "plain_path root" and "sys_reach X E C K key root config n s" and "n < u64_bound"
    and "(a, ack) \<in> set (sys_log s)"
  shows "\<exists>txs I. agent_inv root n (acks_of a (sys_log s)) txs I a (sys_fs s) \<and> ack_ok root a I (sys_fs s) ack \<and> plain_name a"
proof -
  have inv: "sys_inv root n s" using sys_reach_inv assms by blast
  then have a: "plain_name a" using assms(4) by (auto simp: sys_inv_def)
  then obtain I where "agent_inv root n (acks_of a (sys_log s)) (batch_of a s) I a (sys_fs s)"
    using inv unfolding sys_inv_def by blast
  then show ?thesis using a agent_inv_ack in_acks_of[OF assms(4)] by blast
qed

lemma first_record_run:
  assumes "fs_faults s = []" "fs_stat_faults s = []" "\<exists>p \<in> set ps. fget s p \<noteq> None"
    and "\<And>p f. p \<in> set ps \<Longrightarrow> fget s p = Some f \<Longrightarrow> \<exists>t. f = Intact (CQueued t) \<and> Q t"
  shows "\<exists>t. first_record ps m s = (Inr t, s) \<and> Q t"
  using assms(3,4)
proof (induction ps)
  case (Cons p ps)
  show ?case
  proof (cases "fget s p")
    case None
    then have "\<exists>t. first_record ps m s = (Inr t, s) \<and> Q t"
      using Cons.prems by (intro Cons.IH) auto
    then show ?thesis using None assms(1,2) by (simp add: bindS_def fs_is_file_def)
  next
    case (Some f)
    then obtain t where "f = Intact (CQueued t)" "Q t" using Cons.prems by auto
    then show ?thesis using Some assms(1,2)
      by (simp add: bindS_def fs_is_file_def read_json_def io_def map_errS_def fs_read_def)
  qed
qed simp

lemma acknowledged_record:
  assumes r: "plain_path r" and inv: "agent_inv r n acks txs I a s" and ok: "ack_ok r a I s ack" and a: "plain_name a"
    and faults: "fs_faults s = []" and m: "m \<in> set (ack_reserved_nullifiers ack)"
  shows "\<exists>t. lookup_payment r a m s = (Inr t, s) \<and> q_seq t = ack_seq ack \<and>
    q_nullifiers t = ack_reserved_nullifiers ack \<and> q_accepted_at t = ack_accepted_at ack"
proof -
  let ?k = "ack_seq ack" and ?ps = "map (\<lambda>d. seq_file d (ack_seq ack)) (status_dirs r a)"
  have sent: "fget s (payments_dir r a @ [m]) = Some (Intact (CLookup ?k))" "plain_name m"
    using ok m by (auto simp: ack_ok_def sentinel_name_def)
  have "\<exists>p \<in> set ?ps. fget s p \<noteq> None"
    using ok by (auto simp: ack_ok_def has_record_def seq_file_eq qname_def)
  moreover have "\<exists>t. f = Intact (CQueued t) \<and> q_seq t = ?k \<and> q_nullifiers t = ack_reserved_nullifiers ack \<and>
      q_accepted_at t = ack_accepted_at ack" if pf: "p \<in> set ?ps" "fget s p = Some f" for p f
  proof -
    obtain d where d: "d \<in> set (status_dirs r a)" "p = d @ [qname ?k]"
      using pf by (auto simp: seq_file_eq qname_def)
    then obtain c where c: "f = Intact c"
      using inv pf by (cases f) (auto simp: agent_inv_def)
    then have "qfile_ok (last_of r a s) I (qname ?k) c"
      using agent_inv_qfile[OF inv d(1) plain_qname] pf d by simp
    then obtain t where t: "c = CQueued t" "q_seq t = ?k" "tx_ident t = I ?k"
      by (auto simp: qfile_ok_def tx_ok_def)
    have "q_nullifiers t = fst (I ?k)" "q_accepted_at t = fst (snd (I ?k))"
      by (simp_all add: t(3)[symmetric] tx_ident_def)
    then show ?thesis
      using ok c t by (auto simp: ack_ok_def)
  qed
  ultimately obtain t where t: "first_record ?ps m s = (Inr t, s)" "q_seq t = ?k"
    "q_nullifiers t = ack_reserved_nullifiers ack" "q_accepted_at t = ack_accepted_at ack"
    using first_record_run[OF faults agent_inv_stat[OF inv], of ?ps
        "\<lambda>t. q_seq t = ?k \<and> q_nullifiers t = ack_reserved_nullifiers ack \<and> q_accepted_at t = ack_accepted_at ack" m]
    by blast
  then show ?thesis
    using sent faults by (simp add: lookup_payment_def bindS_def map_errS_def read_json_def io_def fs_read_def)
qed

text \<open>
  C2 (liveness). An acknowledged payment is never lost, as long as every agent id and every nullifier
  sent to the facilitator is a plain file name (a nullifier does not start with a dot) and \<open>exists\<close>,
  \<open>is_file\<close> and \<open>is_dir\<close> answer truthfully: in every state of \<open>sys_reach\<close> the status endpoint, once its
  reads succeed, answers for each nullifier of the acknowledgement with the sequence number and the
  acceptance time that were acknowledged. Without the condition on names it fails: a nullifier is a
  path below \<open>payments\<close>, so one with \<open>..\<close> can overwrite a record of the queue as it does the pending state in C8.
\<close>

theorem acknowledged_status_found:
  assumes "plain_path root" and "sys_reach X E C K key root config n s" and "n < u64_bound"
    and "(a, ack) \<in> set (sys_log s)" and "m \<in> set (ack_reserved_nullifiers ack)"
  shows "\<exists>resp fs'. get_payment_status root a m ((sys_fs s) \<lparr> fs_faults := [] \<rparr>) = (Inr resp, fs') \<and>
    ps_agent_id resp = a \<and> ps_nullifier resp = m \<and> ps_seq resp = ack_seq ack \<and>
    ps_accepted_at resp = ack_accepted_at ack"
proof -
  let ?fs = "(sys_fs s) \<lparr> fs_faults := [] \<rparr>"
  obtain txs I where inv: "agent_inv root n (acks_of a (sys_log s)) txs I a (sys_fs s)"
    and ok: "ack_ok root a I (sys_fs s) ack" and a: "plain_name a"
    using log_ack_ok[OF assms(1-4)] by blast
  have same: "same_files {} (sys_fs s) ?fs" by (simp add: same_files_def)
  have inv': "agent_inv root n (acks_of a (sys_log s)) txs I a ?fs"
    using agent_inv_frame[OF inv same _ assms(1) a] by simp
  then have "ack_ok root a I ?fs ack" using agent_inv_ack in_acks_of[OF assms(4)] by blast
  then show ?thesis
    using acknowledged_record[OF assms(1) inv' _ a _ assms(5)]
    by (fastforce simp: get_payment_status_def bindS_def)
qed

theorem acknowledged_status_found_witness:
  "\<exists>resp fs'. get_payment_status [''d''] ''a'' ''n1''
      ((sys_fs (demo_sys (demo_app1 \<lparr> app_fs := snd demo_pay2 \<rparr>)
        [(''a'', demo_ack 2 1 ''s1'' ''n1''), (''a'', demo_ack 3 2 ''s2'' ''n2'')])) \<lparr> fs_faults := [] \<rparr>) = (Inr resp, fs') \<and>
    ps_agent_id resp = ''a'' \<and> ps_nullifier resp = ''n1'' \<and> ps_seq resp = 1 \<and> ps_accepted_at resp = 2"
  using acknowledged_status_found[OF _ demo_reach3, of "''a''" "demo_ack 2 1 ''s1'' ''n1''" "''n1''"]
  by (simp add: u64_bound_def demo_sys_def demo_ack_def)

text \<open>
  C3 (safety). As long as every agent id and every nullifier acknowledged so far is a plain file name
  and \<open>exists\<close>, \<open>is_file\<close> and \<open>is_dir\<close> answer truthfully (the states of \<open>sys_reach\<close>), a payment whose
  nullifiers overlap those of an acknowledged payment of the same agent is refused, whatever the
  other fields of the request are and whatever I/O calls that report errors fail while it is
  handled. Without truthful answers it fails, see C7.
\<close>

theorem replay_refused:
  assumes "plain_path root" and "sys_reach X E C K key root config n s" and "n < u64_bound"
    and "(a, ack) \<in> set (sys_log s)" and "m \<in> set (ack_reserved_nullifiers ack)"
    and "m \<in> set (payment_nullifiers X payload)"
  shows "\<not> is_ok (fst (post_payment X K key root a payload ((sys_fs s) \<lparr> fs_faults := faults \<rparr>)))"
proof
  let ?fs = "(sys_fs s) \<lparr> fs_faults := faults \<rparr>"
  assume "is_ok (fst (post_payment X K key root a payload ?fs))"
  then obtain p fs1 where ad: "admit_payment X root a payload ?fs = (Inr p, fs1)"
    by (auto simp: post_payment_def bindS_def split: prod.splits sum.splits)
  obtain pending ns where p: "p = (pending, ns)" by fastforce
  obtain txs I where inv: "agent_inv root n (acks_of a (sys_log s)) txs I a (sys_fs s)"
    and ok: "ack_ok root a I (sys_fs s) ack"
    using log_ack_ok[OF assms(1-4)] by blast
  have "wal_guards (nullifiers_wal root a) (set (ack_reserved_nullifiers ack)) ?fs" "fs_stat_faults ?fs = []"
    using ok agent_inv_stat[OF inv] by (auto simp: ack_ok_def wal_guards_def)
  then show False
    using admit_Inr(2,3)[OF ad[unfolded p]] assms(5,6) by blast
qed

theorem replay_refused_witness:
  "\<not> is_ok (fst (post_payment demo_ext demo_keys mword_zero [''d''] ''a'' (demo_payload ''s2'' ''s3'' ''n1'')
      ((sys_fs (demo_sys (demo_app1 \<lparr> app_fs := snd demo_pay2 \<rparr>)
        [(''a'', demo_ack 2 1 ''s1'' ''n1''), (''a'', demo_ack 3 2 ''s2'' ''n2'')])) \<lparr> fs_faults := [] \<rparr>)))"
  by (rule replay_refused[OF _ demo_reach3, of "''a''" "demo_ack 2 1 ''s1'' ''n1''" "''n1''"])
    (simp_all add: u64_bound_def demo_sys_def demo_ack_def payment_nullifiers_def try_decode_real_summary_def
      is_real_summary_def json_get_str_def demo_payload_def)

section \<open>Refusals\<close>

definition errs_internal :: "'a store_op \<Rightarrow> bool" where
  "errs_internal m \<longleftrightarrow> (\<forall>s e s'. m s = (Inl e, s') \<longrightarrow> (\<exists>msg. e = Internal msg))"

lemma errs_internal_bindS: "errs_internal m \<Longrightarrow> (\<And>x. errs_internal (f x)) \<Longrightarrow> errs_internal (bindS m f)"
  by (auto simp: errs_internal_def bindS_Inl_iff) blast+

lemma errs_internal_io: "errs_internal (io m)"
  by (auto simp: errs_internal_def io_def map_errS_def io_err_def result_simps split: prod.splits)

lemma errs_internal_forS: "(\<And>x. errs_internal (f x)) \<Longrightarrow> errs_internal (forS f xs)"
  by (induction xs) (auto simp: errs_internal_bindS, simp add: errs_internal_def)

lemma errs_internal_atomic: "errs_internal (atomic_write_json p v)"
  unfolding atomic_write_json_def Let_def
  by (cases "path_parent p") (auto intro!: errs_internal_bindS errs_internal_io, simp add: errs_internal_def)

lemma errs_internal_commit: "errs_internal (commit_payment X K key r a payload p)"
proof -
  have "errs_internal fs_now" by (auto simp: errs_internal_def fs_now_def split: list.splits)
  moreover have "errs_internal (liftS (ack_message X t c ns))" for t c ns
    by (simp add: errs_internal_def ack_message_def)
  moreover have "errs_internal (liftS (sign_word_hex X K key m))" for m
    by (auto simp: errs_internal_def sign_word_hex_def result_simps)
  moreover have "errs_internal (okS x)" for x :: "'x"
    by (simp add: errs_internal_def)
  ultimately show ?thesis
    unfolding commit_payment_def Let_def reserve_nullifiers_def append_entries_def advance_pending_state_def enqueue_def
    by (cases p) (auto intro!: errs_internal_bindS errs_internal_io errs_internal_forS errs_internal_atomic)
qed

text \<open>
  C4 (safety). A payment that is refused with any error other than \<open>Internal\<close> (an unregistered
  agent, a stale base, a bad signature, a failed output check, a mandate violation, a double
  spend, a malformed payload) leaves every file as it was.
\<close>

theorem refusal_without_effect:
  assumes "post_payment X K key root a payload s = (Inl e, s')" and "\<And>msg. e \<noteq> Internal msg"
  shows "fget s' = fget s"
proof -
  obtain x s1 where ad: "admit_payment X root a payload s = (x, s1)" by fastforce
  have f: "fget s1 = fget s"
    using keeps_same_empty[OF admit_frame ad] same_files_empty_fget by blast
  show ?thesis
  proof (cases x)
    case (Inl e1)
    then show ?thesis using assms(1) ad f by (simp add: post_payment_def bindS_def)
  next
    case (Inr p)
    then have "commit_payment X K key root a payload p s1 = (Inl e, s')"
      using assms(1) ad by (simp add: post_payment_def bindS_def)
    then show ?thesis using errs_internal_commit assms(2) unfolding errs_internal_def by metis
  qed
qed

theorem refusal_without_effect_witness:
  "fget (snd (post_payment demo_ext demo_keys mword_zero [''d''] ''a'' (demo_payload ''s9'' ''s1'' ''n1'') (app_fs demo_app1)))
     = fget (app_fs demo_app1)"
  by (rule refusal_without_effect[of demo_ext demo_keys mword_zero "[''d'']" "''a''" "demo_payload ''s9'' ''s1'' ''n1''"
        "app_fs demo_app1" "StaleBaseState ''s9'' ''s0''"])
    (simp_all add: demo_app1_fs run_api run_demo run_fs run_store cong: run_congs)

section \<open>Authorisation\<close>

definition signed_by_hot_key :: "('sig, 'pk, 'su, 'n) externals \<Rightarrow> agent_record \<Rightarrow> agentic_payload \<Rightarrow> bool" where
  "signed_by_hot_key X rec payload \<longleftrightarrow>
     signer_id (hot_key_signature payload) = ar_hot_key_commitment rec \<and> ar_hot_key_scheme rec = Falcon \<and>
     (\<exists>sig_hex bytes sg message.
        ds_signature (hot_key_signature payload) = PSFalcon sig_hex \<and>
        hex_decode X (trim_0x sig_hex) = Inr bytes \<and> sig_from_bytes X bytes = Inr sg \<and>
        word_to_hex X (pk_to_commitment X (sig_public_key X sg)) = ar_hot_key_commitment rec \<and>
        signed_message X (tx_summary payload) = Inr message \<and>
        sig_verify X sg message (sig_public_key X sg))"

lemma verify_hot_key_sound: "verify_hot_key_signature X rec payload = Inr () \<Longrightarrow> signed_by_hot_key X rec payload"
  unfolding verify_hot_key_signature_def signed_by_hot_key_def Let_def api_decode_hex_def
  by (auto simp: bind_res_Inr_iff split: if_splits signature_scheme.splits proposal_signature.splits)

lemma admit_checks:
  assumes run: "admit_payment X r a payload s = (Inr p, s')"
  shows "\<exists>rec mandate ex. fget s (agent_file r a) = Some (Intact (CAgent rec)) \<and>
    fget s (mandate_file r a) = Some (Intact (CMandate mandate)) \<and>
    verify_hot_key_signature X rec payload = Inr () \<and> try_decode_real_summary X (tx_summary payload) = Inr ex \<and>
    (\<forall>su. ex = Some su \<longrightarrow> validate_p2id_output X su payload = Inr ()) \<and>
    check_mandate mandate (x402_ctx payload) = Inr () \<and>
    built_on_state_commitment payload = pending_state_commitment (fst p)"
proof -
  obtain rec man s1 s2 s3 ex where
    1: "load_agent r a s = (Inr rec, s1)" and 2: "load_mandate r a s1 = (Inr man, s2)" and
    rest: "load_pending_state r a s2 = (Inr (fst p), s3)" "verify_hot_key_signature X rec payload = Inr ()"
      "try_decode_real_summary X (tx_summary payload) = Inr ex"
      "(case ex of None \<Rightarrow> Inr () | Some su \<Rightarrow> validate_p2id_output X su payload) = Inr ()"
      "check_mandate man (x402_ctx payload) = Inr ()" 
      "built_on_state_commitment payload = pending_state_commitment (fst p)"
    using run unfolding admit_payment_def Let_def
    by (auto simp: bindS_Inr_iff simp del: okS_apply split: if_splits) (auto simp: okS_def)
  have "fget s1 = fget s"
    using keeps_same_empty[OF frame_reads2(3) 1] same_files_empty_fget by blast
  then have "fget s (agent_file r a) = Some (Intact (CAgent rec))" "fget s (mandate_file r a) = Some (Intact (CMandate man))"
    using 1 2 by (auto simp: load_agent_def load_mandate_def dest!: read_json_Inr elim!: as_agent.elims as_mandate.elims)
  then show ?thesis using rest by (auto split: option.splits)
qed

text \<open>
  C5 (safety). An acknowledged payment was authorised: it was signed by the registered hot key
  over its transaction summary, its context is within the registered mandate, it was built on the
  current pending state, and a real summary has exactly one output note, a P2ID note paying
  exactly the agreed amount of the agreed asset to the merchant.
\<close>

theorem acknowledged_authorized:
  assumes "post_payment X K key root a payload s = (Inr ack, s')"
  shows "\<exists>rec mandate pending. fget s (agent_file root a) = Some (Intact (CAgent rec)) \<and>
    fget s (mandate_file root a) = Some (Intact (CMandate mandate)) \<and>
    fget s (pending_state_file root a) = Some (Intact (CPending pending)) \<and>
    signed_by_hot_key X rec payload \<and> mandate_allows mandate (x402_ctx payload) \<and>
    built_on_state_commitment payload = pending_state_commitment pending \<and>
    (\<forall>su. try_decode_real_summary X (tx_summary payload) = Inr (Some su) \<longrightarrow> pays_exactly X su (x402_ctx payload)) \<and>
    ack_reserved_nullifiers ack = payment_nullifiers X payload \<and>
    ack_new_pending_state_commitment ack = new_state_commitment payload"
proof -
  obtain p s1 where ad: "admit_payment X root a payload s = (Inr p, s1)"
    and c: "commit_payment X K key root a payload p s1 = (Inr ack, s')"
    using assms by (auto simp: post_payment_def bindS_Inr_iff)
  obtain pending ns where p: "p = (pending, ns)" by fastforce
  have "ack_reserved_nullifiers ack = ns" "ack_new_pending_state_commitment ack = new_state_commitment payload"
    using c p by (auto simp: commit_payment_def Let_def bindS_Inr_iff new_pending_state_def)
  then show ?thesis
    using admit_checks[OF ad] admit_Inr(1,2)[OF ad[unfolded p]] p verify_hot_key_sound
    by (auto simp: check_mandate_iff validate_p2id_iff)
qed

theorem acknowledged_authorized_witness:
  "\<exists>rec mandate pending. fget (app_fs demo_app1) (agent_file [''d''] ''a'') = Some (Intact (CAgent rec)) \<and>
    fget (app_fs demo_app1) (mandate_file [''d''] ''a'') = Some (Intact (CMandate mandate)) \<and>
    fget (app_fs demo_app1) (pending_state_file [''d''] ''a'') = Some (Intact (CPending pending)) \<and>
    signed_by_hot_key demo_ext rec (demo_payload ''s0'' ''s1'' ''n1'') \<and>
    mandate_allows mandate (x402_ctx (demo_payload ''s0'' ''s1'' ''n1''))"
  using acknowledged_authorized[of demo_ext demo_keys mword_zero "[''d'']" "''a''" "demo_payload ''s0'' ''s1'' ''n1''"
      "app_fs demo_app1" "demo_ack 2 1 ''s1'' ''n1''" "snd demo_pay1"] demo_pay1_ack
  unfolding demo_pay1_def demo_ack_def by (metis prod.collapse)

section \<open>Valid payments\<close>

text \<open>
  C6 (functional). A valid payment is accepted when no I/O call fails. If the agent is registered, the
  payload is built on the pending state, the signature, output and mandate checks pass, and
  the nullifiers are file names that neither log has, then the handler acknowledges the next sequence
  number and the nullifiers, signed over the time, the new commitment and the nullifiers. Afterwards
  the write-ahead log is the old one followed by one line for each nullifier, the pending
  state has the new commitment and the sequence number, the queue has the record of the payment
  as \<open>Accepted\<close>, every nullifier leads to it, the temporary files are gone, and every other file
  and the directories are as they were.
\<close>

theorem valid_payment_accepted:
  assumes "plain_path root" and "plain_name a" and "healthy root a s"
    and "registered root a rec mandate pending reserved spent s" and "payload_valid X rec mandate pending payload"
    and "payment_nullifiers X payload = ns" and "ns \<noteq> []" and "\<And>m. m \<in> set ns \<Longrightarrow> sentinel_name m"
    and "set ns \<inter> w_nullifier ` (set reserved \<union> set spent) = {}"
    and "\<And>m. is_ok (keystore_sign K key m)"
  shows "\<exists>ack s'. post_payment X K key root a payload s = (Inr ack, s') \<and>
    ack_seq ack = u64_add (last_accepted_seq pending) 1 \<and> ack_reserved_nullifiers ack = ns \<and>
    ack_new_pending_state_commitment ack = new_state_commitment payload \<and>
    sign_word_hex X K key (hasher_hash X (to_be_bytes (ack_accepted_at ack) @ ack_new_pending_state_commitment ack @ concat ns))
      = Inr (ack_signature ack) \<and>
    fget s' (nullifiers_wal root a) = Some (Intact (CWal (map WLine (reserved @
      map (\<lambda>m. \<lparr> w_nullifier = m, w_seq = ack_seq ack, w_ts = ack_accepted_at ack \<rparr>) ns)) None)) \<and>
    fget s' (pending_state_file root a) = Some (Intact (CPending
      \<lparr> committed_state_commitment = committed_state_commitment pending,
        pending_state_commitment = new_state_commitment payload, last_accepted_seq = ack_seq ack \<rparr>)) \<and>
    fget s' (seq_file (queue_dir root a) (ack_seq ack)) = Some (Intact (CQueued
      \<lparr> q_seq = ack_seq ack, q_accepted_at = ack_accepted_at ack, q_nullifiers = ns, q_status = Accepted,
        q_payload = payload, q_t_batch_started = None, q_t_submitted = None, q_t_committed = None, q_error = None \<rparr>)) \<and>
    (\<forall>m \<in> set ns. fget s' (payments_dir root a @ [m]) = Some (Intact (CLookup (ack_seq ack)))) \<and>
    (\<forall>p \<in> payment_temporaries root a (ack_seq ack) ns. fget s' p = None) \<and>
    (\<forall>p. resolve p \<notin> payment_files root a (ack_seq ack) ns \<union> payment_temporaries root a (ack_seq ack) ns \<longrightarrow> fget s' p = fget s p) \<and>
    fs_dirs s' = fs_dirs s"
proof -
  have "post_payment X K key root a payload s = commit_payment X K key root a payload (pending, ns) s"
    using admit_fresh[OF assms(4,5,3,6,7,9)] by (simp add: post_payment_def bindS_def)
  moreover have "fget s (nullifiers_wal root a) = Some (Intact (CWal (map WLine reserved) None))"
    using assms(4) by (simp add: registered_def)
  note commit_run[where ns = ns, OF assms(3,1,2) this _ assms(10), of X payload pending, OF assms(8)]
  ultimately show ?thesis
    by (simp add: reservation_def new_pending_state_def new_queued_tx_def cong: conj_cong)
qed

definition demo_rec :: agent_record where
  "demo_rec = \<lparr> ar_agent_id = ''a'', ar_account_id = ''acc'', ar_hot_key_commitment = ''0xk'', ar_hot_key_scheme = Falcon,
     ar_hot_key_pubkey_hex = None, ar_registered_at = 1 \<rparr>"

definition demo_pending :: "string \<Rightarrow> nat \<Rightarrow> pending_state" where
  "demo_pending c k = \<lparr> committed_state_commitment = ''s0'', pending_state_commitment = c, last_accepted_seq = k \<rparr>"

lemma demo_healthy: "healthy [''d''] ''a'' (app_fs demo_app1)" "healthy [''d''] ''a'' (snd demo_pay1)"
  by (auto simp: healthy_def agent_subdirs_def demo_pay1_fs demo_app1_fs demo_fs_def agent_dir_eq plain_name_def)

lemma demo_registered:
  "registered [''d''] ''a'' demo_rec (ra_mandate demo_request) (demo_pending ''s0'' 0) [] [] (app_fs demo_app1)"
  "registered [''d''] ''a'' demo_rec (ra_mandate demo_request) (demo_pending ''s1'' 1)
     [\<lparr> w_nullifier = ''n1'', w_seq = 1, w_ts = 2 \<rparr>] [] (snd demo_pay1)"
  unfolding registered_def demo_rec_def demo_pending_def
  by (simp_all add: demo_pay1_fs demo_app1_fs run_demo run_fs run_store)

lemma demo_valid: "payload_valid demo_ext demo_rec (ra_mandate demo_request) (demo_pending c k) (demo_payload c new n)"
  unfolding payload_valid_def demo_rec_def demo_pending_def
  by (simp add: run_api run_demo mandate_allows_def)

lemma demo_nullifiers: "payment_nullifiers demo_ext (demo_payload c new n) = [n]"
  by (simp add: payment_nullifiers_def run_api demo_payload_def)

lemma demo_sign: "is_ok (keystore_sign demo_keys key m)"
  by (simp add: demo_keys_def)

lemma demo_plain: "plain_path [''d'']" "plain_name ''a''" "sentinel_name ''n1''"
  by (simp_all add: plain_name_def sentinel_name_def)

theorem valid_payment_accepted_witness:
  "\<exists>ack s'. post_payment demo_ext demo_keys mword_zero [''d''] ''a'' (demo_payload ''s0'' ''s1'' ''n1'') (app_fs demo_app1) = (Inr ack, s') \<and>
    ack_seq ack = 1 \<and> ack_reserved_nullifiers ack = [''n1''] \<and>
    fget s' (nullifiers_wal [''d''] ''a'') =
      Some (Intact (CWal [WLine \<lparr> w_nullifier = ''n1'', w_seq = 1, w_ts = ack_accepted_at ack \<rparr>] None))"
proof -
  have "u64_add (last_accepted_seq (demo_pending ''s0'' 0)) 1 = 1"
    by (simp add: demo_pending_def u64_add_def u64_bound_def)
  moreover obtain ack s' where
    "post_payment demo_ext demo_keys mword_zero [''d''] ''a'' (demo_payload ''s0'' ''s1'' ''n1'') (app_fs demo_app1) = (Inr ack, s')"
    "ack_seq ack = u64_add (last_accepted_seq (demo_pending ''s0'' 0)) 1" "ack_reserved_nullifiers ack = [''n1'']"
    "fget s' (nullifiers_wal [''d''] ''a'') = Some (Intact (CWal (map WLine ([] @
      map (\<lambda>m. \<lparr> w_nullifier = m, w_seq = ack_seq ack, w_ts = ack_accepted_at ack \<rparr>) [''n1''])) None))"
    using valid_payment_accepted[OF demo_plain(1,2) demo_healthy(1) demo_registered(1) demo_valid demo_nullifiers,
        of "''n1''" demo_keys mword_zero "''s1''"] demo_plain(3) demo_sign
    by auto
  ultimately show ?thesis by simp
qed

section \<open>What can go wrong\<close>

text \<open>
  C7 (error). The check for double spends fails open: \<open>read_wal_set\<close> takes a log that \<open>exists\<close>
  cannot stat for a log that is not there. For every registered agent and every otherwise valid payment
  with a nullifier that the log has: the payment is refused as a double spend, but when the first
  \<open>exists\<close> call fails, the log is read as empty and the payment is acknowledged with all its
  nullifiers, whatever the log holds.
\<close>

theorem stat_failure_acknowledges_double_spend:
  assumes "plain_path root" and "plain_name a" and "healthy root a s"
    and "registered root a rec mandate pending reserved spent s" and "payload_valid X rec mandate pending payload"
    and "payment_nullifiers X payload = ns" and "\<And>m. m \<in> set ns \<Longrightarrow> sentinel_name m"
    and "m \<in> set ns" and "m \<in> w_nullifier ` set reserved" and "set ns \<inter> w_nullifier ` set spent = {}"
    and "\<And>m. is_ok (keystore_sign K key m)"
  shows "fst (post_payment X K key root a payload s) = Inl DoubleSpend \<and>
    read_wal_set (nullifiers_wal root a) (s \<lparr> fs_stat_faults := [True] \<rparr>) = (Inr [], s) \<and>
    (\<exists>ack s'. post_payment X K key root a payload (s \<lparr> fs_stat_faults := [True] \<rparr>) = (Inr ack, s') \<and>
       ack_reserved_nullifiers ack = ns)"
proof -
  let ?s = "s \<lparr> fs_stat_faults := [True] \<rparr>"
  note f = healthy_faults[OF assms(3)]
  have ns: "ns \<noteq> []" using assms(8) by auto
  have reg: "registered root a rec mandate pending reserved spent ?s" using assms(4) by (simp add: registered_def)
  have "admit_payment X root a payload s = (Inl DoubleSpend, s)"
    using admit_run[OF assms(4,5) f(1) assms(6) ns view_run[OF assms(4) f]] assms(8,9) by (auto simp: nv_contains_def)
  then have refused: "fst (post_payment X K key root a payload s) = Inl DoubleSpend"
    by (simp add: post_payment_def bindS_def)
  have s: "s \<lparr> fs_stat_faults := [] \<rparr> = s" using f(2) by simp
  have empty: "read_wal_set (nullifiers_wal root a) ?s = (Inr [], s)"
    using s by (simp add: read_wal_set_def bindS_def fs_exists_def stat_call_def next_stat_def)
  have "nullifier_view_of root a ?s = (Inr \<lparr> nv_reserved = [], nv_spent = map w_nullifier spent \<rparr>, s)"
    using empty read_wal_run[OF f] assms(4) by (simp add: nullifier_view_of_def bindS_def registered_def)
  then have "admit_payment X root a payload ?s = (Inr (pending, ns), s)"
    using admit_run[OF reg assms(5) _ assms(6) ns] f(1) assms(10) by (auto simp: nv_contains_def)
  then have "post_payment X K key root a payload ?s = commit_payment X K key root a payload (pending, ns) s"
    by (simp add: post_payment_def bindS_def)
  moreover have "fget s (nullifiers_wal root a) = Some (Intact (CWal (map WLine reserved) None))"
    using assms(4) by (simp add: registered_def)
  from commit_run[where ns = ns, OF assms(3,1,2) this _ assms(11), of X payload pending, OF assms(7)]
  have "\<exists>ack s'. commit_payment X K key root a payload (pending, ns) s = (Inr ack, s') \<and> ack_reserved_nullifiers ack = ns"
    by fast
  ultimately show ?thesis using refused empty by simp
qed

theorem stat_failure_acknowledges_double_spend_witness:
  "fst (post_payment demo_ext demo_keys mword_zero [''d''] ''a'' (demo_payload ''s1'' ''s2'' ''n1'') (snd demo_pay1)) = Inl DoubleSpend \<and>
   (\<exists>ack s'. post_payment demo_ext demo_keys mword_zero [''d''] ''a'' (demo_payload ''s1'' ''s2'' ''n1'')
      ((snd demo_pay1) \<lparr> fs_stat_faults := [True] \<rparr>) = (Inr ack, s') \<and> ack_reserved_nullifiers ack = [''n1''])"
  using stat_failure_acknowledges_double_spend[OF demo_plain(1,2) demo_healthy(2) demo_registered(2) demo_valid demo_nullifiers,
      of "''n1''" "''n1''" demo_keys mword_zero "''s2''"] demo_plain(3) demo_sign
  by auto

text \<open>An agent whose \<open>pending_state.json\<close> is not a pending state cannot pay.\<close>

lemma no_pending_no_payment:
  assumes "fget s (pending_state_file root a) = Some (Intact (CLookup k))"
  shows "\<not> is_ok (fst (post_payment X K key root a payload s)) \<and> fget (snd (post_payment X K key root a payload s)) = fget s"
proof -
  obtain x s1 where ad: "admit_payment X root a payload s = (x, s1)" by fastforce
  have f: "fget s1 = fget s" using keeps_same_empty[OF admit_frame ad] same_files_empty_fget by blast
  have "\<not> is_ok x"
  proof
    assume "is_ok x"
    then obtain pending ns where "admit_payment X root a payload s = (Inr (pending, ns), s1)"
      using ad by (auto simp: is_ok_iff)
    from admit_Inr(1)[OF this] show False using assms by simp
  qed
  then show ?thesis using ad f by (cases x) (simp_all add: post_payment_def bindS_def)
qed

text \<open>
  C8 (error). Nullifiers that the client claims are used as path components: a payment that is valid and
  whose nullifiers are file names followed by \<open>../pending_state.json\<close> is acknowledged, and the
  sentinel of the last one replaces the agent's pending state. From then on every payment of the
  agent is refused and changes no file, whatever its payload is, whatever calls fail and whatever the clock
  says. (With \<open>../../b/..\<close> it is another agent's state.)
\<close>

theorem traversal_destroys_pending_state:
  assumes "plain_path root" and "plain_name a" and "healthy root a s"
    and "registered root a rec mandate pending reserved spent s" and "payload_valid X rec mandate pending payload"
    and "payment_nullifiers X payload = ns @ [''../pending_state.json'']" and "\<And>m. m \<in> set ns \<Longrightarrow> sentinel_name m"
    and "set (ns @ [''../pending_state.json'']) \<inter> w_nullifier ` (set reserved \<union> set spent) = {}"
    and "\<And>m. is_ok (keystore_sign K key m)"
  shows "\<exists>ack s'. post_payment X K key root a payload s = (Inr ack, s') \<and>
    fget s' (pending_state_file root a) = Some (Intact (CLookup (ack_seq ack))) \<and>
    (\<forall>K' key' payload' s''. fget s'' (pending_state_file root a) = fget s' (pending_state_file root a) \<longrightarrow>
       \<not> is_ok (fst (post_payment X K' key' root a payload' s'')) \<and>
       fget (snd (post_payment X K' key' root a payload' s'')) = fget s'')"
proof -
  let ?bad = "''../pending_state.json''" and ?k = "u64_add (last_accepted_seq pending) 1"
  let ?w = "\<lambda>m. atomic_write_json (path_join (payments_dir root a) m) (CLookup ?k)"
  note plain = assms(1,2)
  have wal: "fget s (nullifiers_wal root a) = Some (Intact (CWal (map WLine reserved) None))"
    using assms(4) by (simp add: registered_def)
  obtain now s1 s2 s3 where st: "fs_now s = (Inr now :: facilitator_error + nat, s1)"
    "reserve_nullifiers root a (reservation pending (ns @ [?bad]) now) s1 = (Inr (), s2)"
    "advance_pending_state root a (new_pending_state pending payload) s2 = (Inr (), s3)" "healthy root a s3"
    using reserve_run[OF assms(3) plain wal, of pending "ns @ [?bad]" payload] by blast
  let ?t = "new_queued_tx pending payload (ns @ [?bad]) now"
  obtain s4 where s4: "atomic_write_json (queue_dir root a @ [qname ?k]) (CQueued ?t) s3 = (Inr (), s4)" "healthy root a s4"
    using healthy_write_in[OF st(4) plain, of "queue_dir root a" "qname ?k" "CQueued ?t"] by auto
  obtain s5 where s5: "forS ?w ns s4 = (Inr (), s5)" "healthy root a s5"
    using healthy_sentinels[OF plain assms(7) s4(2)] by blast
  obtain s6 where s6: "?w ?bad s5 = (Inr (), s6)" "fget s6 (pending_state_file root a) = Some (Intact (CLookup ?k))"
    using traversal_write[OF s5(2) plain] by blast
  have "forS ?w (ns @ [?bad]) s4 = (Inr (), s6)"
    using forS_append[of ?w ns "[?bad]"] s5(1) s6(1) by (simp add: bindS_def)
  then have "enqueue root a ?t s3 = (Inr (), s6)"
    using s4(1) by (simp add: enqueue_def bindS_def seq_file_eq qname_def new_queued_tx_def)
  then obtain ack where "commit_payment X K key root a payload (pending, ns @ [?bad]) s = (Inr ack, s6)" "ack_seq ack = ?k"
    using commit_finish[OF st(1-3) _ assms(9)] by blast
  then have "post_payment X K key root a payload s = (Inr ack, s6)" "ack_seq ack = ?k"
    using admit_fresh[OF assms(4,5,3,6) _ assms(8)] by (simp_all add: post_payment_def bindS_def)
  then show ?thesis using s6(2) no_pending_no_payment by fastforce
qed

theorem traversal_destroys_pending_state_witness:
  "\<exists>ack s'. post_payment demo_ext demo_keys mword_zero [''d''] ''a''
       (demo_payload ''s0'' ''s1'' ''../pending_state.json'') (app_fs demo_app1) = (Inr ack, s') \<and>
     \<not> is_ok (fst (post_payment demo_ext demo_keys mword_zero [''d''] ''a'' (demo_payload ''s1'' ''s2'' ''n2'') s'))"
  using traversal_destroys_pending_state[OF demo_plain(1,2) demo_healthy(1) demo_registered(1) demo_valid,
      where ns = "[]" and K = demo_keys and key = mword_zero] demo_nullifiers demo_sign
  by fastforce



section \<open>The batch worker\<close>

lemma healthy_upsert:
  assumes h: "healthy r a s" and plain: "plain_path r" "plain_name a"
    and f: "fget s (queue_dir r a @ [qname (q_seq t)]) \<noteq> None"
  shows "\<exists>s'. upsert_queued r a t s = (Inr (), s') \<and> healthy r a s' \<and>
    fget s' (queue_dir r a @ [qname (q_seq t)]) = Some (Intact (CQueued t)) \<and>
    quiet {queue_dir r a @ [qname (q_seq t)], queue_dir r a @ [tmp_name (qname (q_seq t))]} s s'"
proof -
  obtain s' where s': "atomic_write_json (queue_dir r a @ [qname (q_seq t)]) (CQueued t) s = (Inr (), s')" "healthy r a s'"
    "fget s' (queue_dir r a @ [qname (q_seq t)]) = Some (Intact (CQueued t))"
    "quiet {queue_dir r a @ [qname (q_seq t)], queue_dir r a @ [tmp_name (qname (q_seq t))]} s s'"
    using healthy_write_in[OF h plain, of "queue_dir r a" "qname (q_seq t)" "CQueued t"] by auto
  have "upsert_queued r a t s = (Inr (), s')"
    using s'(1) healthy_faults(2)[OF h] f plain
    by (simp add: upsert_queued_def status_dirs_eq bindS_def fs_is_file_def seq_file_eq qname_def)
  then show ?thesis using s' by blast
qed

lemma healthy_move:
  assumes h: "healthy r a s" and plain: "plain_path r" "plain_name a"
    and f: "fget s (queue_dir r a @ [qname k]) = Some c"
  shows "\<exists>s'. move_to_failed r a k s = (Inr (), s') \<and> fget s' (failed_dir r a @ [qname k]) = Some c \<and>
    fget s' (queue_dir r a @ [qname k]) = None \<and> quiet {queue_dir r a @ [qname k], failed_dir r a @ [qname k]} s s'"
proof -
  note pl = store_path_plain[OF plain]
  have res: "resolve (failed_dir r a @ [qname k]) = failed_dir r a @ [qname k]"
    "resolve (queue_dir r a @ [qname k]) = queue_dir r a @ [qname k]" "resolve (failed_dir r a) = failed_dir r a"
    using pl by simp_all
  have fd: "failed_dir r a = agent_dir r a @ [''failed'']" "failed_dir r a \<noteq> queue_dir r a"
    using plain by (simp_all add: agent_paths)
  have "\<not> has_dir s (failed_dir r a @ [qname k])" "has_dir s (failed_dir r a)"
    using h res(1,3) fd(1) by (simp_all add: has_dir_def healthy_def agent_subdirs_def)
  then show ?thesis
    using healthy_faults(1)[OF h] f res fd(2)
    by (simp add: move_to_failed_def seq_file_eq qname_def[symmetric] io_def map_errS_def fs_rename_def quiet_def)
qed

text \<open>An attempt to submit depends on the payload, the agent's record and the actor, and changes only the actor.\<close>

lemma attempt_submit_alike:
  assumes "load_agent r a (app_fs app) = (x, app_fs app)" "load_agent r a (app_fs app2) = (x, app_fs app2)"
    and "app_submitter app2 = app_submitter app" "q_payload t2 = q_payload t"
  shows "\<exists>out sub. attempt_submit X E C r a t app = (out, app \<lparr> app_submitter := sub \<rparr>) \<and>
    attempt_submit X E C r a t2 app2 = (out, app2 \<lparr> app_submitter := sub \<rparr>)"
proof -
  obtain sch h pk where sp: "signature_parts (ds_signature (hot_key_signature (q_payload t))) = (sch, h, pk)"
    by (metis prod_cases3)
  have same: "\<exists>sub. app = app \<lparr> app_submitter := sub \<rparr> \<and> app2 = app2 \<lparr> app_submitter := sub \<rparr>"
    using assms(3) by (intro exI[of _ "app_submitter app"]) simp
  show ?thesis
    using assms
    by (auto intro: same simp: attempt_submit_def Let_def sp bindS_def on_fs_def map_errS_def on_actor_def
        split: sum.split prod.split option.split)
qed

lemma load_agent_alike:
  assumes "fs_faults s = []"
  shows "load_agent r a s = (case fget s (agent_file r a) of Some (Intact (CAgent rec)) \<Rightarrow> Inr rec | _ \<Rightarrow> Inl (AgentNotRegistered a), s)"
  using assms by (auto simp: load_agent_def map_errS_def read_json_def bindS_def io_def fs_read_def
      split: option.split fdata.split content.split)

text \<open>
  What a successful attempt means: the client SDK accepted, for the account of the agent's record, the
  request that the payload carries, extended by the advice that is built from the hot key's signature.
\<close>

definition submission_of ::
  "('sig, 'pk, 'su, 'n) externals \<Rightarrow> ('sig, 'esig, 'epk) ecdsa_ops \<Rightarrow> ('client, 'acct, 'req) client_ops
   \<Rightarrow> agent_record \<Rightarrow> agentic_payload \<Rightarrow> 'client \<Rightarrow> string \<Rightarrow> 'client \<Rightarrow> bool" where
  "submission_of X E C rec payload client tx_id client' \<longleftrightarrow>
     (\<exists>account request_bytes request summary_bytes summary pkc scheme sig_hex pk_hex parsed k vs height client1.
        account_from_hex X (ar_account_id rec) = Inr account \<and>
        decode_real_field X (tx_summary payload) ''tx_request_base64'' = Inr request_bytes \<and>
        req_from_bytes C request_bytes = Inr request \<and>
        decode_real_field X (tx_summary payload) ''summary_base64'' = Inr summary_bytes \<and>
        summary_from_bytes X summary_bytes = Inr summary \<and>
        jobs_parse_word_hex X (signer_id (hot_key_signature payload)) = Inr pkc \<and>
        signature_parts (ds_signature (hot_key_signature payload)) = (scheme, sig_hex, pk_hex) \<and>
        parse_signature_hex X E scheme sig_hex = Inr parsed \<and>
        build_signature_advice_entry X E scheme pkc (summary_to_commitment X summary) parsed pk_hex = Inr (k, vs) \<and>
        client_sync_state C client = Some (Inr height, client1) \<and>
        client_submit C account (req_insert_advice C k vs request) client1 = Some (Inr tx_id, client'))"

lemma attempt_submit_Inr:
  assumes "attempt_submit X E C r a t app = (Inr (), app')" "fs_faults (app_fs app) = []"
  shows "\<exists>rec client tx_id client'. fget (app_fs app) (agent_file r a) = Some (Intact (CAgent rec)) \<and>
    app_submitter app = Some (Some client) \<and> submission_of X E C rec (q_payload t) client tx_id client' \<and>
    app_submitter app' = Some (Some client')"
proof -
  obtain sch h pk where sp: "signature_parts (ds_signature (hot_key_signature (q_payload t))) = (sch, h, pk)"
    by (metis prod_cases3)
  from assms(1) obtain rb sb su pkc rec acc tx_id where parts:
    "decode_real_field X (tx_summary (q_payload t)) ''tx_request_base64'' = Inr rb"
    "decode_real_field X (tx_summary (q_payload t)) ''summary_base64'' = Inr sb" "summary_from_bytes X sb = Inr su"
    "jobs_parse_word_hex X (signer_id (hot_key_signature (q_payload t))) = Inr pkc"
    "load_agent r a (app_fs app) = (Inr rec, app_fs app)" "account_from_hex X (ar_account_id rec) = Inr acc"
    and act: "on_actor (rebuild_and_submit X E C acc rb sch pkc (summary_to_commitment X su) h pk) app = (Inr tx_id, app')"
    using load_agent_alike[OF assms(2), of r a]
    unfolding attempt_submit_def Let_def sp
    by (auto simp: bindS_Inr_iff on_fs_def split: if_splits prod.splits)
  from act obtain actor actor' where actor: "app_submitter app = Some actor" "app' = app \<lparr> app_submitter := Some actor' \<rparr>"
    and run: "rebuild_and_submit X E C acc rb sch pkc (summary_to_commitment X su) h pk actor = (Inr tx_id, actor')"
    by (auto simp: on_actor_def split: option.splits prod.splits)
  have "fget (app_fs app) (agent_file r a) = Some (Intact (CAgent rec))"
    using parts(5) load_agent_alike[OF assms(2), of r a] by (auto split: option.splits fdata.splits content.splits)
  moreover obtain client client1 client2 req parsed k vs b where
    "actor = Some client" "actor' = Some client2" "req_from_bytes C rb = Inr req" "parse_signature_hex X E sch h = Inr parsed"
    "build_signature_advice_entry X E sch pkc (summary_to_commitment X su) parsed pk = Inr (k, vs)"
    "client_sync_state C client = Some (Inr b, client1)"
    "client_submit C acc (req_insert_advice C k vs req) client1 = Some (Inr tx_id, client2)"
    using rebuild_and_submit_Inr[OF run] by blast
  moreover from this have "submission_of X E C rec (q_payload t) client tx_id client2"
    unfolding submission_of_def using parts sp by blast
  ultimately show ?thesis using actor by auto
qed

text \<open>
  C10 (functional). The worker records what became of a payment, when no file-system call fails. If the
  attempt to submit succeeds, the record stays in the queue as \<open>Submitted\<close> with the two times and is
  otherwise unchanged, and the client SDK did accept the transaction of this payment for the account of
  this agent; if the attempt fails, the record moves from the queue to \<open>failed\<close> with status \<open>Failed\<close>
  and the error of the attempt. The actor is the one the attempt left, and every file other than
  those two and the temporary is as it was.
\<close>

theorem worker_outcome:
  assumes "plain_path root" and "plain_name a" and "healthy root a (app_fs app)"
    and "fget (app_fs app) (queue_dir root a @ [qname (q_seq t)]) \<noteq> None"
    and "process_tx X E C root a t app = (x, app')" and "attempt_submit X E C root a t app = (outcome, app1)"
  shows "(case outcome of
      Inr _ \<Rightarrow>
        (\<exists>started submitted. fget (app_fs app') (queue_dir root a @ [qname (q_seq t)]) = Some (Intact (CQueued
           (t \<lparr> q_t_batch_started := Some started, q_status := Submitted, q_t_submitted := Some submitted \<rparr>)))) \<and>
        (\<exists>rec client tx_id client'. fget (app_fs app) (agent_file root a) = Some (Intact (CAgent rec)) \<and>
           app_submitter app = Some (Some client) \<and> submission_of X E C rec (q_payload t) client tx_id client' \<and>
           app_submitter app' = Some (Some client'))
    | Inl e \<Rightarrow>
        fget (app_fs app') (queue_dir root a @ [qname (q_seq t)]) = None \<and>
        (\<exists>started. fget (app_fs app') (failed_dir root a @ [qname (q_seq t)]) = Some (Intact (CQueued
           (t \<lparr> q_t_batch_started := Some started, q_status := Failed, q_error := Some e \<rparr>))))) \<and>
    app_submitter app' = app_submitter app1 \<and>
    (\<forall>p. resolve p \<notin> {queue_dir root a @ [qname (q_seq t)], queue_dir root a @ [tmp_name (qname (q_seq t))],
       failed_dir root a @ [qname (q_seq t)]} \<longrightarrow> fget (app_fs app') p = fget (app_fs app) p)"
proof -
  let ?q = "queue_dir root a @ [qname (q_seq t)]" and ?f = "failed_dir root a @ [qname (q_seq t)]"
    and ?tmp = "queue_dir root a @ [tmp_name (qname (q_seq t))]"
  note plain = assms(1,2)
  obtain now fs1 where now: "fs_now (app_fs app) = (Inr now :: facilitator_error + nat, fs1)" "healthy root a fs1"
    "fget fs1 = fget (app_fs app)" using healthy_now[OF assms(3)] by blast
  let ?t1 = "t \<lparr> q_t_batch_started := Some now, q_status := Proving \<rparr>"
  obtain fs2 where fs2: "upsert_queued root a ?t1 fs1 = (Inr (), fs2)" "healthy root a fs2"
    "fget fs2 ?q = Some (Intact (CQueued ?t1))" "quiet {?q, ?tmp} fs1 fs2"
    using healthy_upsert[OF now(2) plain, of ?t1] assms(4) now(3) by auto
  let ?app2 = "app \<lparr> app_fs := fs2 \<rparr>"
  have "fget fs2 (agent_file root a) = fget (app_fs app) (agent_file root a)"
    using quietD[OF fs2(4), of "agent_file root a"] store_path_plain(1)[OF plain] now(3)
    by (auto simp: agent_paths[OF plain(2)])
  then have ld: "load_agent root a (app_fs app) = (fst (load_agent root a fs2), app_fs app)"
    "load_agent root a fs2 = (fst (load_agent root a fs2), fs2)"
    using load_agent_alike[of "app_fs app" root a] load_agent_alike[of fs2 root a]
      healthy_faults(1)[OF assms(3)] healthy_faults(1)[OF fs2(2)] by simp_all
  obtain sub where sub: "attempt_submit X E C root a t app = (outcome, app \<lparr> app_submitter := sub \<rparr>)"
    "attempt_submit X E C root a ?t1 ?app2 = (outcome, ?app2 \<lparr> app_submitter := sub \<rparr>)"
    using attempt_submit_alike[of root a app _ ?app2 ?t1 t X E C] ld assms(6) by auto
  have frame2: "fget fs2 p = fget (app_fs app) p" if "resolve p \<notin> {?q, ?tmp}" for p
    using quietD[OF fs2(4) that] now(3) by simp
  show ?thesis
  proof (cases outcome)
    case (Inr u)
    obtain subm fs4 where sm: "fs_now fs2 = (Inr subm :: facilitator_error + nat, fs4)" "healthy root a fs4" "fget fs4 = fget fs2"
      using healthy_now[OF fs2(2)] by blast
    let ?t2 = "?t1 \<lparr> q_status := Submitted, q_t_submitted := Some subm \<rparr>"
    obtain fs5 where fs5: "upsert_queued root a ?t2 fs4 = (Inr (), fs5)" "fget fs5 ?q = Some (Intact (CQueued ?t2))"
      "quiet {?q, ?tmp} fs4 fs5"
      using healthy_upsert[OF sm(2) plain, of ?t2] fs2(3) sm(3) by auto
    have app': "app' = app \<lparr> app_fs := fs5, app_submitter := sub \<rparr>"
      using assms(5) now(1) fs2(1) sub(2) Inr sm(1) fs5(1)
      by (auto simp: process_tx_def bindS_def map_errS_def on_fs_def observeS_def Let_def)
    have "fget fs5 p = fget (app_fs app) p" if "resolve p \<notin> {?q, ?tmp}" for p
      using quietD[OF fs5(3) that] frame2[OF that] sm(3) by simp
    moreover have "attempt_submit X E C root a t app = (Inr (), app \<lparr> app_submitter := sub \<rparr>)" using sub(1) Inr by simp
    note attempt_submit_Inr[OF this healthy_faults(1)[OF assms(3)]]
    ultimately show ?thesis using app' fs5(2) Inr sub(1) assms(6) by auto
  next
    case (Inl e)
    let ?t2 = "?t1 \<lparr> q_status := Failed, q_error := Some e \<rparr>"
    obtain fs4 where fs4: "upsert_queued root a ?t2 fs2 = (Inr (), fs4)" "healthy root a fs4"
      "fget fs4 ?q = Some (Intact (CQueued ?t2))" "quiet {?q, ?tmp} fs2 fs4"
      using healthy_upsert[OF fs2(2) plain, of ?t2] fs2(3) by auto
    obtain fs5 where fs5: "move_to_failed root a (q_seq t) fs4 = (Inr (), fs5)" "fget fs5 ?f = Some (Intact (CQueued ?t2))"
      "fget fs5 ?q = None" "quiet {?q, ?f} fs4 fs5"
      using healthy_move[OF fs4(2) plain fs4(3)] by auto
    have app': "app' = app \<lparr> app_fs := fs5, app_submitter := sub \<rparr>"
      using assms(5) now(1) fs2(1) sub(2) Inl fs4(1) fs5(1)
      by (auto simp: process_tx_def bindS_def map_errS_def on_fs_def observeS_def Let_def)
    have "fget fs5 p = fget (app_fs app) p" if "resolve p \<notin> {?q, ?tmp, ?f}" for p
      using quietD[OF fs5(4), of p] quietD[OF fs4(4), of p] frame2[of p] that by simp
    then show ?thesis using app' fs5(2,3) Inl sub(1) assms(6) by auto
  qed
qed

definition demo_tx :: queued_tx where
  "demo_tx = new_queued_tx \<lparr> committed_state_commitment = ''s0'', pending_state_commitment = ''s0'', last_accepted_seq = 0 \<rparr>
     (demo_payload ''s0'' ''s1'' ''n1'') [''n1''] 2"

text \<open>The same payment with a real transaction summary, and a facilitator that has a submitter.\<close>

definition demo_real_tx :: queued_tx where
  "demo_real_tx = demo_tx \<lparr> q_payload := (demo_payload ''s0'' ''s1'' ''n1'')
     \<lparr> tx_summary := JObject [(''version'', JString ''miden-real-v1''), (''tx_request_base64'', JString ''r''),
         (''summary_base64'', JString ''u'')],
       hot_key_signature := \<lparr> signer_id = ''0xk'', ds_signature = PSFalcon (''0x'' @ replicate EXPECTED_SIG_LEN (CHR ''0'')) \<rparr> \<rparr> \<rparr>"

definition demo_worker :: "unit actor option \<Rightarrow> unit app" where
  "demo_worker actor = \<lparr> app_fs = snd demo_pay1, app_submitter = actor \<rparr>"

lemma demo_attempts:
  "attempt_submit demo_ext demo_ecdsa demo_client [''d''] ''a'' demo_tx (demo_worker None) =
     (Inl ''no MidenSubmitter configured; tx accepted but not submittable'', demo_worker None)"
  "attempt_submit demo_ext demo_ecdsa demo_client [''d''] ''a'' demo_real_tx (demo_worker (Some (Some ()))) =
     (Inr (), demo_worker (Some (Some ())))"
proof -
  show "attempt_submit demo_ext demo_ecdsa demo_client [''d''] ''a'' demo_tx (demo_worker None) =
     (Inl ''no MidenSubmitter configured; tx accepted but not submittable'', demo_worker None)"
    by (simp add: attempt_submit_def demo_worker_def)
  have ld: "load_agent [''d''] ''a'' (snd demo_pay1) = (Inr demo_rec, snd demo_pay1)"
    using load_agent_alike[OF healthy_faults(1)[OF demo_healthy(2)], of "[''d'']" "''a''"] demo_registered(2)
    by (simp add: registered_def)
  show "attempt_submit demo_ext demo_ecdsa demo_client [''d''] ''a'' demo_real_tx (demo_worker (Some (Some ()))) =
     (Inr (), demo_worker (Some (Some ())))"
    by (simp add: attempt_submit_def demo_worker_def demo_real_tx_def demo_tx_def new_queued_tx_def run_demo run_api
        decode_real_field_def jobs_parse_word_hex_def bindS_def map_errS_def ld[unfolded run_demo] on_actor_def
        rebuild_and_submit_def actor_call_def actor_handle_def rebuild_and_submit_inner_def parse_signature_hex_def
        signature_from_hex_def ensure_hex_prefix_def starts_with_def strip_0x_once_def build_signature_advice_entry_def Let_def)
qed

theorem worker_outcome_witness:
  "(let app' = snd (process_tx demo_ext demo_ecdsa demo_client [''d''] ''a'' demo_tx (demo_worker None)) in
    fget (app_fs app') (queue_dir [''d''] ''a'' @ [qname (q_seq demo_tx)]) = None \<and>
    (\<exists>started. fget (app_fs app') (failed_dir [''d''] ''a'' @ [qname (q_seq demo_tx)]) = Some (Intact (CQueued
       (demo_tx \<lparr> q_t_batch_started := Some started, q_status := Failed,
          q_error := Some ''no MidenSubmitter configured; tx accepted but not submittable'' \<rparr>))))) \<and>
   (let app' = snd (process_tx demo_ext demo_ecdsa demo_client [''d''] ''a'' demo_real_tx (demo_worker (Some (Some ())))) in
    \<exists>started submitted. fget (app_fs app') (queue_dir [''d''] ''a'' @ [qname (q_seq demo_real_tx)]) = Some (Intact (CQueued
       (demo_real_tx \<lparr> q_t_batch_started := Some started, q_status := Submitted, q_t_submitted := Some submitted \<rparr>))))"
proof -
  have h: "healthy [''d''] ''a'' (app_fs (demo_worker actor))" for actor
    using demo_healthy(2) by (simp add: demo_worker_def)
  have f: "fget (app_fs (demo_worker actor)) (queue_dir [''d''] ''a'' @ [qname (q_seq tx)]) \<noteq> None" if "q_seq tx = 1" for actor tx
    using that by (simp add: demo_worker_def demo_pay1_fs demo_app1_fs run_demo run_fs run_store qname_def show_small)
  have one: "q_seq demo_tx = 1" "q_seq demo_real_tx = 1"
    by (simp_all add: demo_real_tx_def demo_tx_def new_queued_tx_def u64_add_def u64_bound_def)
  show ?thesis
    using worker_outcome[OF demo_plain(1,2) h f[OF one(1)] prod.collapse[symmetric] demo_attempts(1)]
      worker_outcome[OF demo_plain(1,2) h f[OF one(2)] prod.collapse[symmetric] demo_attempts(2)]
    by (auto simp: Let_def)
qed

end
