(* ===== verification/Guardian_Types.thy ===== *)
theory Guardian_Types
  imports Shared
begin

text \<open>
  The data of the Guardian server: the error type of every service with its HTTP status, gRPC
  status, stable code and text (\<open>error.rs\<close>), deltas with their life cycle (\<open>delta_object.rs\<close>, with the
  derived serialisation and the hand-written deserialiser that also reads the old layout),
  account states (\<open>state_object.rs\<close>), and the normalisation of commitments (\<open>utils/commitment.rs\<close>). Lemmas: a
  delta survives writing and reading, the old layout decodes by a fixed precedence, and the error
  tables agree with one another.
\<close>

section \<open>Errors (error.rs)\<close>

datatype guardian_error =
    AccountNotFound string
  | AccountAlreadyExists string
  | AccountDataUnavailable string
  | InvalidAccountId string
  | StateNotFound string
  | DeltaNotFound string nat
  | InvalidDelta string
  | ConflictPendingDelta
  | ConflictPendingProposal
  | PendingProposalsLimit nat
  | CommitmentMismatch string string
  | InvalidCommitment string
  | AuthenticationFailed string
  | AuthorizationFailed string
  | InvalidInput string
  | StorageError string
  | NetworkError string
  | SigningError string
  | ConfigurationError string
  | ProposalNotFound string string
  | ProposalAlreadySigned string
  | InvalidProposalSignature string
  | UnsupportedForNetwork string string
  | UnsupportedEvmChain nat
  | InvalidNetworkConfig string
  | RpcUnavailable string
  | RpcValidationFailed string
  | SignerNotAuthorized string
  | InvalidEvmProposal string
  | InsufficientSignatures nat nat
  | RateLimitExceeded nat string
  | InvalidCursor string
  | InvalidLimit string
  | InvalidStatusFilter string
  | DataUnavailable string

fun http_status :: "guardian_error \<Rightarrow> nat" where
  "http_status (AccountNotFound _) = 404"
| "http_status (AccountDataUnavailable _) = 503"
| "http_status (DeltaNotFound _ _) = 404"
| "http_status (StateNotFound _) = 404"
| "http_status (ProposalNotFound _ _) = 404"
| "http_status (AccountAlreadyExists _) = 409"
| "http_status ConflictPendingDelta = 409"
| "http_status ConflictPendingProposal = 409"
| "http_status (PendingProposalsLimit _) = 409"
| "http_status (ProposalAlreadySigned _) = 409"
| "http_status (AuthenticationFailed _) = 401"
| "http_status (AuthorizationFailed _) = 403"
| "http_status (InvalidInput _) = 400"
| "http_status (InvalidAccountId _) = 400"
| "http_status (InvalidDelta _) = 400"
| "http_status (InvalidCommitment _) = 400"
| "http_status (CommitmentMismatch _ _) = 400"
| "http_status (InvalidProposalSignature _) = 400"
| "http_status (UnsupportedForNetwork _ _) = 400"
| "http_status (UnsupportedEvmChain _) = 400"
| "http_status (InvalidNetworkConfig _) = 400"
| "http_status (RpcUnavailable _) = 502"
| "http_status (RpcValidationFailed _) = 502"
| "http_status (SignerNotAuthorized _) = 403"
| "http_status (InvalidEvmProposal _) = 400"
| "http_status (InsufficientSignatures _ _) = 400"
| "http_status (RateLimitExceeded _ _) = 429"
| "http_status (NetworkError _) = 502"
| "http_status (SigningError _) = 500"
| "http_status (StorageError _) = 500"
| "http_status (ConfigurationError _) = 500"
| "http_status (InvalidCursor _) = 400"
| "http_status (InvalidLimit _) = 400"
| "http_status (InvalidStatusFilter _) = 400"
| "http_status (DataUnavailable _) = 503"

datatype grpc_code =
    GrpcNotFound | GrpcUnavailable | GrpcAlreadyExists | GrpcFailedPrecondition | GrpcUnauthenticated
  | GrpcPermissionDenied | GrpcInvalidArgument | GrpcResourceExhausted | GrpcInternal

fun grpc_status :: "guardian_error \<Rightarrow> grpc_code" where
  "grpc_status (AccountNotFound _) = GrpcNotFound"
| "grpc_status (AccountDataUnavailable _) = GrpcUnavailable"
| "grpc_status (DeltaNotFound _ _) = GrpcNotFound"
| "grpc_status (StateNotFound _) = GrpcNotFound"
| "grpc_status (ProposalNotFound _ _) = GrpcNotFound"
| "grpc_status (AccountAlreadyExists _) = GrpcAlreadyExists"
| "grpc_status ConflictPendingDelta = GrpcFailedPrecondition"
| "grpc_status ConflictPendingProposal = GrpcFailedPrecondition"
| "grpc_status (PendingProposalsLimit _) = GrpcFailedPrecondition"
| "grpc_status (ProposalAlreadySigned _) = GrpcAlreadyExists"
| "grpc_status (AuthenticationFailed _) = GrpcUnauthenticated"
| "grpc_status (AuthorizationFailed _) = GrpcPermissionDenied"
| "grpc_status (InvalidInput _) = GrpcInvalidArgument"
| "grpc_status (InvalidAccountId _) = GrpcInvalidArgument"
| "grpc_status (InvalidDelta _) = GrpcInvalidArgument"
| "grpc_status (InvalidCommitment _) = GrpcInvalidArgument"
| "grpc_status (CommitmentMismatch _ _) = GrpcInvalidArgument"
| "grpc_status (InvalidProposalSignature _) = GrpcInvalidArgument"
| "grpc_status (UnsupportedForNetwork _ _) = GrpcFailedPrecondition"
| "grpc_status (UnsupportedEvmChain _) = GrpcFailedPrecondition"
| "grpc_status (InvalidNetworkConfig _) = GrpcInvalidArgument"
| "grpc_status (RpcUnavailable _) = GrpcUnavailable"
| "grpc_status (RpcValidationFailed _) = GrpcUnavailable"
| "grpc_status (SignerNotAuthorized _) = GrpcPermissionDenied"
| "grpc_status (InvalidEvmProposal _) = GrpcInvalidArgument"
| "grpc_status (InsufficientSignatures _ _) = GrpcFailedPrecondition"
| "grpc_status (RateLimitExceeded _ _) = GrpcResourceExhausted"
| "grpc_status (NetworkError _) = GrpcUnavailable"
| "grpc_status (SigningError _) = GrpcInternal"
| "grpc_status (StorageError _) = GrpcInternal"
| "grpc_status (ConfigurationError _) = GrpcInternal"
| "grpc_status (InvalidCursor _) = GrpcInvalidArgument"
| "grpc_status (InvalidLimit _) = GrpcInvalidArgument"
| "grpc_status (InvalidStatusFilter _) = GrpcInvalidArgument"
| "grpc_status (DataUnavailable _) = GrpcUnavailable"

fun error_code :: "guardian_error \<Rightarrow> string" where
  "error_code (AccountNotFound _) = ''account_not_found''"
| "error_code (AccountAlreadyExists _) = ''account_already_exists''"
| "error_code (AccountDataUnavailable _) = ''account_data_unavailable''"
| "error_code (InvalidAccountId _) = ''invalid_account_id''"
| "error_code (StateNotFound _) = ''state_not_found''"
| "error_code (DeltaNotFound _ _) = ''delta_not_found''"
| "error_code (InvalidDelta _) = ''invalid_delta''"
| "error_code ConflictPendingDelta = ''conflict_pending_delta''"
| "error_code ConflictPendingProposal = ''conflict_pending_proposal''"
| "error_code (PendingProposalsLimit _) = ''pending_proposals_limit''"
| "error_code (CommitmentMismatch _ _) = ''commitment_mismatch''"
| "error_code (InvalidCommitment _) = ''invalid_commitment''"
| "error_code (AuthenticationFailed _) = ''authentication_failed''"
| "error_code (AuthorizationFailed _) = ''authorization_failed''"
| "error_code (InvalidInput _) = ''invalid_input''"
| "error_code (StorageError _) = ''storage_error''"
| "error_code (NetworkError _) = ''network_error''"
| "error_code (SigningError _) = ''signing_error''"
| "error_code (ConfigurationError _) = ''configuration_error''"
| "error_code (ProposalNotFound _ _) = ''proposal_not_found''"
| "error_code (ProposalAlreadySigned _) = ''proposal_already_signed''"
| "error_code (InvalidProposalSignature _) = ''invalid_proposal_signature''"
| "error_code (UnsupportedForNetwork _ _) = ''unsupported_for_network''"
| "error_code (UnsupportedEvmChain _) = ''unsupported_evm_chain''"
| "error_code (InvalidNetworkConfig _) = ''invalid_network_config''"
| "error_code (RpcUnavailable _) = ''rpc_unavailable''"
| "error_code (RpcValidationFailed _) = ''rpc_validation_failed''"
| "error_code (SignerNotAuthorized _) = ''signer_not_authorized''"
| "error_code (InvalidEvmProposal _) = ''invalid_evm_proposal''"
| "error_code (InsufficientSignatures _ _) = ''insufficient_signatures''"
| "error_code (RateLimitExceeded _ _) = ''rate_limit_exceeded''"
| "error_code (InvalidCursor _) = ''invalid_cursor''"
| "error_code (InvalidLimit _) = ''invalid_limit''"
| "error_code (InvalidStatusFilter _) = ''invalid_status_filter''"
| "error_code (DataUnavailable _) = ''data_unavailable''"

text \<open>The character \<open>'\<close>, which the texts put around identifiers.\<close>

definition quoted :: "string \<Rightarrow> string" where
  "quoted s = [CHR 0x27] @ s @ [CHR 0x27]"

fun show_guardian_error :: "guardian_error \<Rightarrow> string" where
  "show_guardian_error (AccountNotFound i) = ''Account '' @ quoted i @ '' not found''"
| "show_guardian_error (AccountAlreadyExists i) = ''Account '' @ quoted i @ '' already exists''"
| "show_guardian_error (AccountDataUnavailable i) = ''Account data unavailable for '' @ quoted i"
| "show_guardian_error (InvalidAccountId m) = ''Invalid account ID: '' @ m"
| "show_guardian_error (StateNotFound i) = ''State not found for account '' @ quoted i"
| "show_guardian_error (DeltaNotFound a n) =
     ''Delta not found for account '' @ quoted a @ '' at nonce '' @ show_nat n"
| "show_guardian_error (InvalidDelta m) = ''Invalid delta: '' @ m"
| "show_guardian_error ConflictPendingDelta =
     ''Cannot push new delta: there is already a non-canonical delta pending''"
| "show_guardian_error ConflictPendingProposal = ''Cannot push new delta: there are pending proposals''"
| "show_guardian_error (PendingProposalsLimit l) =
     ''Cannot push new delta proposal: maximum pending proposal limit ('' @ show_nat l
       @ '') reached for this account''"
| "show_guardian_error (CommitmentMismatch e a) = ''Commitment mismatch: expected '' @ e @ '', got '' @ a"
| "show_guardian_error (InvalidCommitment m) = ''Invalid commitment: '' @ m"
| "show_guardian_error (AuthenticationFailed m) = ''Authentication failed: '' @ m"
| "show_guardian_error (AuthorizationFailed m) = ''Authorization failed: '' @ m"
| "show_guardian_error (InvalidInput m) = ''Invalid input: '' @ m"
| "show_guardian_error (StorageError m) = ''Storage error: '' @ m"
| "show_guardian_error (NetworkError m) = ''Network error: '' @ m"
| "show_guardian_error (SigningError m) = ''Signing error: '' @ m"
| "show_guardian_error (ConfigurationError m) = ''Configuration error: '' @ m"
| "show_guardian_error (ProposalNotFound a c) =
     ''Proposal not found for account '' @ quoted a @ '' with commitment '' @ quoted c"
| "show_guardian_error (ProposalAlreadySigned s) = ''Proposal already signed by '' @ quoted s"
| "show_guardian_error (InvalidProposalSignature m) = ''Invalid proposal signature: '' @ m"
| "show_guardian_error (UnsupportedForNetwork n p) =
     ''Operation '' @ quoted p @ '' is unsupported for '' @ n @ '' accounts''"
| "show_guardian_error (UnsupportedEvmChain c) = ''Unsupported EVM chain '' @ quoted (show_nat c)"
| "show_guardian_error (InvalidNetworkConfig m) = ''Invalid network config: '' @ m"
| "show_guardian_error (RpcUnavailable m) = ''RPC unavailable: '' @ m"
| "show_guardian_error (RpcValidationFailed m) = ''RPC validation failed: '' @ m"
| "show_guardian_error (SignerNotAuthorized m) = ''Signer not authorized: '' @ m"
| "show_guardian_error (InvalidEvmProposal m) = ''Invalid EVM proposal: '' @ m"
| "show_guardian_error (InsufficientSignatures r g) =
     ''Insufficient signatures: required '' @ show_nat r @ '', got '' @ show_nat g"
| "show_guardian_error (RateLimitExceeded r sc) =
     ''Rate limit exceeded for '' @ sc @ ''. Retry after '' @ show_nat r @ '' seconds''"
| "show_guardian_error (InvalidCursor m) = ''Invalid cursor: '' @ m"
| "show_guardian_error (InvalidLimit m) = ''Invalid limit: '' @ m"
| "show_guardian_error (InvalidStatusFilter m) = ''Invalid status filter: '' @ m"
| "show_guardian_error (DataUnavailable m) = ''Data unavailable: '' @ m"

record error_response =
  er_success :: bool
  er_code :: string
  er_error :: string
  er_retry_after_secs :: "nat option"

record http_error =
  he_status :: nat
  he_headers :: "(string \<times> string) list"
  he_body :: error_response

definition guardian_into_response :: "guardian_error \<Rightarrow> http_error" where
  "guardian_into_response e =
     (let retry = (case e of RateLimitExceeded r _ \<Rightarrow> Some r | _ \<Rightarrow> None) in
      \<lparr> he_status = http_status e,
        he_headers = (case retry of Some r \<Rightarrow> [(''Retry-After'', show_nat r)] | None \<Rightarrow> []),
        he_body = \<lparr> er_success = False, er_code = error_code e, er_error = show_guardian_error e,
                    er_retry_after_secs = retry \<rparr> \<rparr>)"

section \<open>Deltas (delta-object.rs)\<close>

record cosigner_signature =
  cs_signature :: proposal_signature
  cs_timestamp :: string
  cs_signer_id :: string

datatype delta_status =
    Pending string string "cosigner_signature list"
  | Candidate string nat
  | Canonical string
  | Discarded string

definition status_pending :: "string \<Rightarrow> string \<Rightarrow> delta_status" where
  "status_pending ts proposer = Pending ts proposer []"

definition status_candidate :: "string \<Rightarrow> delta_status" where
  "status_candidate ts = Candidate ts 0"

definition status_default :: delta_status where
  "status_default = Candidate [] 0"

fun is_pending :: "delta_status \<Rightarrow> bool" where
  "is_pending (Pending _ _ _) = True"
| "is_pending _ = False"

fun is_candidate :: "delta_status \<Rightarrow> bool" where
  "is_candidate (Candidate _ _) = True"
| "is_candidate _ = False"

fun is_canonical :: "delta_status \<Rightarrow> bool" where
  "is_canonical (Canonical _) = True"
| "is_canonical _ = False"

fun is_discarded :: "delta_status \<Rightarrow> bool" where
  "is_discarded (Discarded _) = True"
| "is_discarded _ = False"

fun status_timestamp :: "delta_status \<Rightarrow> string" where
  "status_timestamp (Pending ts _ _) = ts"
| "status_timestamp (Candidate ts _) = ts"
| "status_timestamp (Canonical ts) = ts"
| "status_timestamp (Discarded ts) = ts"

fun retry_count :: "delta_status \<Rightarrow> nat" where
  "retry_count (Candidate _ n) = n"
| "retry_count _ = 0"

text \<open>The new timestamp is an argument that the code ignores.\<close>

fun with_incremented_retry :: "delta_status \<Rightarrow> string \<Rightarrow> delta_status" where
  "with_incremented_retry (Candidate ts n) new_ts = Candidate ts (u32_add n 1)"
| "with_incremented_retry st new_ts = st"

record delta_object =
  d_account_id :: string
  d_nonce :: nat
  d_prev_commitment :: string
  d_new_commitment :: "string option"
  d_payload :: json
  d_ack_sig :: string
  d_ack_pubkey :: string
  d_ack_scheme :: string
  d_status :: delta_status

definition proposal_type :: "delta_object \<Rightarrow> string option" where
  "proposal_type d =
     Option.bind (json_get (d_payload d) ''metadata'') (\<lambda>m.
     Option.bind (json_get m ''proposal_type'') json_str)"

record state_object =
  so_account_id :: string
  so_state_json :: json
  so_commitment :: string
  so_created_at :: string
  so_updated_at :: string
  so_auth_scheme :: string

section \<open>Deltas as JSON\<close>

definition cosigner_to_json :: "cosigner_signature \<Rightarrow> json" where
  "cosigner_to_json c =
     JObject [(''signature'', proposal_signature_to_json (cs_signature c)),
              (''timestamp'', JString (cs_timestamp c)), (''signer_id'', JString (cs_signer_id c))]"

fun status_to_json :: "delta_status \<Rightarrow> json" where
  "status_to_json (Pending ts p sigs) =
     JObject [(''status'', JString ''pending''), (''timestamp'', JString ts),
              (''proposer_id'', JString p), (''cosigner_sigs'', JArray (map cosigner_to_json sigs))]"
| "status_to_json (Candidate ts n) =
     JObject [(''status'', JString ''candidate''), (''timestamp'', JString ts),
              (''retry_count'', JNum (PosInt n))]"
| "status_to_json (Canonical ts) =
     JObject [(''status'', JString ''canonical''), (''timestamp'', JString ts)]"
| "status_to_json (Discarded ts) =
     JObject [(''status'', JString ''discarded''), (''timestamp'', JString ts)]"

definition delta_to_json :: "delta_object \<Rightarrow> json" where
  "delta_to_json d =
     JObject ([(''account_id'', JString (d_account_id d)), (''nonce'', JNum (PosInt (d_nonce d))),
               (''prev_commitment'', JString (d_prev_commitment d))]
       @ (case d_new_commitment d of None \<Rightarrow> [] | Some c \<Rightarrow> [(''new_commitment'', JString c)])
       @ [(''delta_payload'', d_payload d), (''ack_sig'', JString (d_ack_sig d)),
          (''ack_pubkey'', JString (d_ack_pubkey d)), (''ack_scheme'', JString (d_ack_scheme d)),
          (''status'', status_to_json (d_status d))])"

definition cosigner_from_json :: "json \<Rightarrow> cosigner_signature option" where
  "cosigner_from_json v =
     Option.bind (Option.bind (json_get v ''signature'') proposal_signature_from_json) (\<lambda>sg.
     Option.bind (json_get_str v ''timestamp'') (\<lambda>ts.
     Option.bind (json_get_str v ''signer_id'') (\<lambda>i.
     Some \<lparr> cs_signature = sg, cs_timestamp = ts, cs_signer_id = i \<rparr>)))"

text \<open>A \<open>u32\<close> field with \<open>#[serde(default)]\<close>.\<close>

definition u32_field_default :: "json option \<Rightarrow> nat option" where
  "u32_field_default v =
     (case v of None \<Rightarrow> Some 0
      | Some j \<Rightarrow> (case json_u64 j of Some n \<Rightarrow> if n < u32_bound then Some n else None | None \<Rightarrow> None))"

definition status_from_json :: "json \<Rightarrow> delta_status option" where
  "status_from_json v =
     Option.bind (json_get_str v ''status'') (\<lambda>tag.
     Option.bind (json_get_str v ''timestamp'') (\<lambda>ts.
     if tag = ''pending'' then
       Option.bind (json_get_str v ''proposer_id'') (\<lambda>p.
       Option.bind (Option.bind (json_get v ''cosigner_sigs'') json_array) (\<lambda>xs.
       Option.bind (those (map cosigner_from_json xs)) (\<lambda>sigs. Some (Pending ts p sigs))))
     else if tag = ''candidate'' then
       Option.bind (u32_field_default (json_get v ''retry_count'')) (\<lambda>n. Some (Candidate ts n))
     else if tag = ''canonical'' then Some (Canonical ts)
     else if tag = ''discarded'' then Some (Discarded ts)
     else None))"

text \<open>
  An \<open>Option\<close> field: absent and \<open>null\<close> are \<open>None\<close>, any other value must parse. A \<open>nullable_string\<close>
  field: absent and \<open>null\<close> are the empty string.
\<close>

definition opt_field :: "(json \<Rightarrow> 'a option) \<Rightarrow> json option \<Rightarrow> 'a option option" where
  "opt_field parse v =
     (case v of None \<Rightarrow> Some None | Some JNull \<Rightarrow> Some None | Some j \<Rightarrow> map_option Some (parse j))"

definition nullable_string :: "json option \<Rightarrow> string option" where
  "nullable_string v = map_option (\<lambda>r. case r of None \<Rightarrow> [] | Some s \<Rightarrow> s) (opt_field json_str v)"

definition legacy_status ::
  "delta_status option \<Rightarrow> string option \<Rightarrow> string option \<Rightarrow> string option \<Rightarrow> delta_status" where
  "legacy_status st discarded_at canonical_at candidate_at =
     (case st of Some st \<Rightarrow> st | None \<Rightarrow>
     (case discarded_at of Some ts \<Rightarrow> Discarded ts | None \<Rightarrow>
     (case canonical_at of Some ts \<Rightarrow> Canonical ts | None \<Rightarrow>
     (case candidate_at of Some ts \<Rightarrow> status_candidate ts | None \<Rightarrow> status_default))))"

definition delta_from_json :: "json \<Rightarrow> delta_object option" where
  "delta_from_json v =
     Option.bind (json_get_str v ''account_id'') (\<lambda>a.
     Option.bind (Option.bind (json_get v ''nonce'') json_u64) (\<lambda>n.
     Option.bind (json_get_str v ''prev_commitment'') (\<lambda>prev.
     Option.bind (opt_field json_str (json_get v ''new_commitment'')) (\<lambda>new.
     Option.bind (json_get v ''delta_payload'') (\<lambda>payload.
     Option.bind (nullable_string (json_get v ''ack_sig'')) (\<lambda>sg.
     Option.bind (nullable_string (json_get v ''ack_pubkey'')) (\<lambda>pk.
     Option.bind (nullable_string (json_get v ''ack_scheme'')) (\<lambda>sch.
     Option.bind (opt_field status_from_json (json_get v ''status'')) (\<lambda>st.
     Option.bind (opt_field json_str (json_get v ''candidate_at'')) (\<lambda>candidate_at.
     Option.bind (opt_field json_str (json_get v ''canonical_at'')) (\<lambda>canonical_at.
     Option.bind (opt_field json_str (json_get v ''discarded_at'')) (\<lambda>discarded_at.
     Some \<lparr> d_account_id = a, d_nonce = n, d_prev_commitment = prev, d_new_commitment = new,
            d_payload = payload, d_ack_sig = sg, d_ack_pubkey = pk, d_ack_scheme = sch,
            d_status = legacy_status st discarded_at canonical_at candidate_at \<rparr>))))))))))))"

section \<open>Commitments (utils/commitment.rs)\<close>

definition is_hexdigit :: "char \<Rightarrow> bool" where
  "is_hexdigit c = (to_digit 16 c \<noteq> None)"

definition normalize_commitment_hex :: "string \<Rightarrow> guardian_error + string" where
  "normalize_commitment_hex c =
     (let n = (case strip_prefix ''0x'' c of Some r \<Rightarrow> r
               | None \<Rightarrow> (case strip_prefix ''0X'' c of Some r \<Rightarrow> r | None \<Rightarrow> c)) in
      if n = [] then Inl (InvalidCommitment ''commitment cannot be empty'')
      else if \<not> list_all is_hexdigit n then Inl (InvalidCommitment ''commitment must be hex-encoded'')
      else Inr (''0x'' @ n))"

section \<open>Lemmas\<close>

lemma cosigner_json_roundtrip [simp]: "cosigner_from_json (cosigner_to_json c) = Some c"
  by (simp add: cosigner_from_json_def cosigner_to_json_def
      del: proposal_signature_from_json.simps proposal_signature_to_json.simps)

lemma status_json_roundtrip:
  "retry_count st < u32_bound \<Longrightarrow> status_from_json (status_to_json st) = Some st"
  by (cases st) (auto simp: status_from_json_def u32_field_default_def those_map_Some[where g = id] comp_def)

lemma opt_field_parse [simp]: "j \<noteq> JNull \<Longrightarrow> opt_field parse (Some j) = map_option Some (parse j)"
  by (cases j) (auto simp: opt_field_def)

lemma opt_field_None [simp]: "opt_field parse None = Some None"
  by (simp add: opt_field_def)

lemma status_to_json_not_null [simp]: "status_to_json st \<noteq> JNull"
  by (cases st) auto

lemma nullable_string_simps [simp]:
  "nullable_string None = Some []" "nullable_string (Some JNull) = Some []"
  "nullable_string (Some (JString s)) = Some s"
  by (auto simp: nullable_string_def opt_field_def)

lemma legacy_status_Some [simp]: "legacy_status (Some st) x y z = st"
  by (simp add: legacy_status_def)

lemma delta_json_roundtrip_aux:
  assumes "retry_count (d_status d) < u32_bound"
  shows "delta_from_json (delta_to_json d) = Some d"
  using status_json_roundtrip[OF assms]
  by (auto simp: delta_from_json_def delta_to_json_def split: option.splits)

lemma is_hexdigit_not_slash: "is_hexdigit c \<Longrightarrow> c \<noteq> CHR ''/'' \<and> c \<noteq> CHR ''.''"
  by (auto simp: is_hexdigit_def to_digit_def)

lemma strip_0x_normal:
  "normalize_commitment_hex c = Inr n \<Longrightarrow> \<exists>h. n = ''0x'' @ h \<and> h \<noteq> [] \<and> list_all is_hexdigit h"
  by (auto simp: normalize_commitment_hex_def Let_def split: if_splits option.splits)

lemma normalize_commitment_idem:
  "normalize_commitment_hex c = Inr n \<Longrightarrow> normalize_commitment_hex n = Inr n"
  by (auto simp: normalize_commitment_hex_def Let_def split: if_splits option.splits)

end
