(* ===== verification/Guardian_Storage.thy ===== *)
theory Guardian_Storage
  imports Guardian_Types Fs
begin

text \<open>
  Storage of account states, deltas and proposals. \<open>storage_backend\<close> is the trait object
  \<open>dyn StorageBackend\<close> (\<open>storage/mod.rs\<close>) as a record of operations on a backend state; the services are
  written against it. \<open>filesystem_service\<close> is the implementation of \<open>storage/filesystem.rs\<close> on
  the file system of \<open>Fs\<close>, one JSON file per object, written to a temporary file and renamed.

  Timestamps in records are strings; \<open>chrono_ops\<close> is the part of the crate \<open>chrono\<close> that is
  called: printing and parsing RFC 3339, with an instant as its number of nanoseconds.
\<close>

section \<open>The interface (storage/mod.rs)\<close>

datatype delta_status_kind = KPending | KCandidate | KCanonical | KDiscarded

fun kind_as_str :: "delta_status_kind \<Rightarrow> string" where
  "kind_as_str KPending = ''pending''"
| "kind_as_str KCandidate = ''candidate''"
| "kind_as_str KCanonical = ''canonical''"
| "kind_as_str KDiscarded = ''discarded''"

record account_proposal_cursor =
  apc_last_nonce :: int
  apc_last_commitment :: string

record global_delta_cursor =
  gdc_last_status_timestamp :: int
  gdc_last_account_id :: string
  gdc_last_nonce :: int

record global_proposal_cursor =
  gpc_last_originating_timestamp :: int
  gpc_last_account_id :: string
  gpc_last_nonce :: int
  gpc_last_commitment :: string

record delta_status_counts =
  n_candidate :: nat
  n_canonical :: nat
  n_discarded :: nat

record global_delta_row =
  gdr_account_id :: string
  gdr_delta :: delta_object

record proposal_record =
  pr_account_id :: string
  pr_commitment :: string
  pr_proposal :: delta_object

record 'st storage_backend =
  submit_state :: "state_object \<Rightarrow> ('st, string, unit) comp"
  submit_delta :: "delta_object \<Rightarrow> ('st, string, unit) comp"
  pull_state :: "string \<Rightarrow> ('st, string, state_object) comp"
  pull_delta :: "string \<Rightarrow> nat \<Rightarrow> ('st, string, delta_object) comp"
  pull_deltas_after :: "string \<Rightarrow> nat \<Rightarrow> ('st, string, delta_object list) comp"
  has_pending_candidate :: "string \<Rightarrow> ('st, string, bool) comp"
  pull_canonical_deltas_after :: "string \<Rightarrow> nat \<Rightarrow> ('st, string, delta_object list) comp"
  submit_delta_proposal :: "string \<Rightarrow> delta_object \<Rightarrow> ('st, string, unit) comp"
  pull_delta_proposal :: "string \<Rightarrow> string \<Rightarrow> ('st, string, delta_object) comp"
  pull_all_delta_proposals :: "string \<Rightarrow> ('st, string, delta_object list) comp"
  pull_pending_proposals :: "string \<Rightarrow> ('st, string, delta_object list) comp"
  update_delta_proposal :: "string \<Rightarrow> delta_object \<Rightarrow> ('st, string, unit) comp"
  delete_delta_proposal :: "string \<Rightarrow> string \<Rightarrow> ('st, string, unit) comp"
  delete_delta :: "string \<Rightarrow> nat \<Rightarrow> ('st, string, unit) comp"
  update_delta_status :: "string \<Rightarrow> nat \<Rightarrow> delta_status \<Rightarrow> ('st, string, unit) comp"

text \<open>The methods with a default body, as written over the other methods of the trait.\<close>

definition default_has_pending_candidate ::
  "(string \<Rightarrow> nat \<Rightarrow> ('st, string, delta_object list) comp) \<Rightarrow> string \<Rightarrow> ('st, string, bool) comp" where
  "default_has_pending_candidate pull account_id =
     bindS (pull account_id 0) (\<lambda>deltas. okS (list_ex (\<lambda>d. is_candidate (d_status d)) deltas))"

definition default_pull_canonical_deltas_after ::
  "(string \<Rightarrow> nat \<Rightarrow> ('st, string, delta_object list) comp) \<Rightarrow> string \<Rightarrow> nat \<Rightarrow> ('st, string, delta_object list) comp" where
  "default_pull_canonical_deltas_after pull account_id from_nonce =
     bindS (pull account_id from_nonce) (\<lambda>deltas. okS (filter (\<lambda>d. is_canonical (d_status d)) deltas))"

definition default_pull_pending_proposals ::
  "(string \<Rightarrow> ('st, string, delta_object list) comp) \<Rightarrow> string \<Rightarrow> ('st, string, delta_object list) comp" where
  "default_pull_pending_proposals pull_all account_id =
     bindS (pull_all account_id) (\<lambda>proposals.
     okS (sort_key d_nonce (filter (\<lambda>p. is_pending (d_status p)) proposals)))"

definition default_pull_states_batch ::
  "(string \<Rightarrow> ('st, string, state_object) comp) \<Rightarrow> string list \<Rightarrow> ('st, string, (string, state_object) dir) comp" where
  "default_pull_states_batch pull ids s =
     foldl (\<lambda>(acc, s) i. case pull i s of (Inr st, s') \<Rightarrow> (map_sum id (dir_put i st) acc, s') | (Inl _, s') \<Rightarrow> (acc, s'))
       (Inr [], s) ids"

section \<open>Files of the filesystem backend\<close>

datatype gcontent =
    GState state_object
  | GDelta delta_object
  | GOther string

fun as_state :: "gcontent \<Rightarrow> state_object option" where
  "as_state (GState s) = Some s"
| "as_state _ = None"

fun as_delta :: "gcontent \<Rightarrow> delta_object option" where
  "as_delta (GDelta d) = Some d"
| "as_delta _ = None"

type_synonym 'a fs_op = "(gcontent fsys, string, 'a) comp"

definition service_new :: "path \<Rightarrow> unit fs_op" where
  "service_new app_path = err_prefix ''Failed to create app directory: '' (fs_create_dir_all app_path)"

definition service_write :: "path \<Rightarrow> gcontent \<Rightarrow> unit fs_op" where
  "service_write p content =
     bindS (case path_parent p of
              None \<Rightarrow> okS ()
            | Some parent \<Rightarrow> err_prefix ''Failed to create parent directory: '' (fs_create_dir_all parent)) (\<lambda>_.
     let temp = path_with_extension ''tmp'' p in
     bindS (err_prefix ''Failed to create temp file: '' (fs_create_file temp)) (\<lambda>_.
     bindS (err_prefix ''Failed to write to temp file: '' (fs_write_all temp content)) (\<lambda>_.
     bindS (err_prefix ''Failed to sync temp file: '' fs_sync_all) (\<lambda>_.
     err_prefix ''Failed to rename temp file: '' (fs_rename temp p)))))"

definition get_state_path :: "path \<Rightarrow> string \<Rightarrow> path" where
  "get_state_path app account_id = path_join (path_join app account_id) ''state.json''"

definition deltas_dir :: "path \<Rightarrow> string \<Rightarrow> path" where
  "deltas_dir app account_id = path_join (path_join app account_id) ''deltas''"

definition get_delta_path :: "path \<Rightarrow> string \<Rightarrow> nat \<Rightarrow> path" where
  "get_delta_path app account_id nonce = path_join (deltas_dir app account_id) (show_nat nonce @ ''.json'')"

definition proposals_dir :: "path \<Rightarrow> string \<Rightarrow> path" where
  "proposals_dir app account_id = path_join (path_join app account_id) ''proposals''"

definition get_delta_proposal_path :: "path \<Rightarrow> string \<Rightarrow> string \<Rightarrow> string + path" where
  "get_delta_proposal_path app account_id commitment =
     bind_res (map_err show_guardian_error (normalize_commitment_hex commitment)) (\<lambda>normalized.
     let clean = (case strip_prefix ''0x'' normalized of Some r \<Rightarrow> r | None \<Rightarrow> normalized);
         p = path_join (proposals_dir app account_id) (clean @ ''.json'') in
     if path_parent p \<noteq> Some (proposals_dir app account_id)
     then Inl ''Invalid commitment: resolved proposal path escapes proposals directory''
     else Inr p)"

text \<open>\<open>next_entry\<close> is one call per entry and one more that reports the end.\<close>

fun next_entries :: "(path \<times> bool) list \<Rightarrow> (path \<times> bool) list fs_op" where
  "next_entries [] = err_prefix ''Failed to read directory entry: '' (io_call (okS []))"
| "next_entries (e # es) =
     bindS (err_prefix ''Failed to read directory entry: '' (io_call (okS ()))) (\<lambda>_.
     bindS (next_entries es) (\<lambda>rest. okS (e # rest)))"

definition list_json_filenames :: "string \<Rightarrow> path \<Rightarrow> string list fs_op" where
  "list_json_filenames what dir =
     bindS (fs_exists dir) (\<lambda>ex.
     if \<not> ex then okS []
     else
     bindS (err_prefix (''Failed to read '' @ what @ '' directory: '') (fs_read_dir dir)) (\<lambda>entries.
     bindS (next_entries entries) (\<lambda>es.
     okS (filter (ends_with ''.json'') (map (last \<circ> fst) es)))))"

definition filename_nonce :: "string \<Rightarrow> nat" where
  "filename_nonce name =
     (case res_ok (parse_u64 (trim_end_matches ''.json'' name)) of Some n \<Rightarrow> n | None \<Rightarrow> 0)"

definition list_delta_filenames :: "path \<Rightarrow> string \<Rightarrow> string list fs_op" where
  "list_delta_filenames app account_id =
     bindS (list_json_filenames ''deltas'' (deltas_dir app account_id)) (\<lambda>names.
     okS (sort_key filename_nonce names))"

definition list_proposal_filenames :: "path \<Rightarrow> string \<Rightarrow> string list fs_op" where
  "list_proposal_filenames app account_id =
     bindS (list_json_filenames ''proposals'' (proposals_dir app account_id)) (\<lambda>names. okS (sort names))"

text \<open>Reading a file and parsing its JSON.\<close>

definition read_parse :: "string \<Rightarrow> string \<Rightarrow> (gcontent \<Rightarrow> 'a option) \<Rightarrow> path \<Rightarrow> 'a fs_op" where
  "read_parse read_msg parse_msg parse p =
     bindS (err_prefix read_msg (fs_read p)) (\<lambda>f.
     err_prefix parse_msg (liftS
       (case f of Torn e \<Rightarrow> Inl e | Intact c \<Rightarrow> ok_or ''invalid type'' (parse c))))"

section \<open>The operations (storage/filesystem.rs)\<close>

definition fs_submit_state :: "path \<Rightarrow> state_object \<Rightarrow> unit fs_op" where
  "fs_submit_state app st = service_write (get_state_path app (so_account_id st)) (GState st)"

definition fs_submit_delta :: "path \<Rightarrow> delta_object \<Rightarrow> unit fs_op" where
  "fs_submit_delta app d = service_write (get_delta_path app (d_account_id d) (d_nonce d)) (GDelta d)"

definition fs_pull_state :: "path \<Rightarrow> string \<Rightarrow> state_object fs_op" where
  "fs_pull_state app account_id =
     read_parse ''Failed to read state file: '' ''Failed to deserialize state: '' as_state
       (get_state_path app account_id)"

definition fs_pull_delta :: "path \<Rightarrow> string \<Rightarrow> nat \<Rightarrow> delta_object fs_op" where
  "fs_pull_delta app account_id nonce =
     read_parse ''Failed to read delta file: '' ''Failed to deserialize delta: '' as_delta
       (get_delta_path app account_id nonce)"

definition filename_parse :: "string \<Rightarrow> nat option" where
  "filename_parse name = Option.bind (strip_suffix ''.json'' name) (res_ok \<circ> parse_u64)"

text \<open>The loop of \<open>pull_deltas_after\<close> and of \<open>pull_canonical_deltas_after\<close>, with the test on each delta.\<close>

fun pull_deltas_loop ::
  "path \<Rightarrow> string \<Rightarrow> nat \<Rightarrow> (delta_object \<Rightarrow> bool) \<Rightarrow> string list \<Rightarrow> delta_object list fs_op" where
  "pull_deltas_loop app account_id from_nonce keep [] = okS []"
| "pull_deltas_loop app account_id from_nonce keep (name # names) =
     (case filename_parse name of
        Some nonce \<Rightarrow>
          if from_nonce \<le> nonce then
            bindS (fs_pull_delta app account_id nonce) (\<lambda>delta.
            bindS (pull_deltas_loop app account_id from_nonce keep names) (\<lambda>rest.
            okS (if keep delta then delta # rest else rest)))
          else pull_deltas_loop app account_id from_nonce keep names
      | None \<Rightarrow> pull_deltas_loop app account_id from_nonce keep names)"

definition fs_pull_deltas_after :: "path \<Rightarrow> string \<Rightarrow> nat \<Rightarrow> delta_object list fs_op" where
  "fs_pull_deltas_after app account_id from_nonce =
     bindS (list_delta_filenames app account_id) (\<lambda>names.
     bindS (pull_deltas_loop app account_id from_nonce (\<lambda>_. True) names) (\<lambda>deltas.
     okS (sort_key d_nonce deltas)))"

fun has_pending_loop :: "path \<Rightarrow> string \<Rightarrow> string list \<Rightarrow> bool fs_op" where
  "has_pending_loop app account_id [] = okS False"
| "has_pending_loop app account_id (name # names) =
     (case filename_parse name of
        Some nonce \<Rightarrow>
          bindS (fs_pull_delta app account_id nonce) (\<lambda>delta.
          if is_candidate (d_status delta) then okS True else has_pending_loop app account_id names)
      | None \<Rightarrow> has_pending_loop app account_id names)"

definition fs_has_pending_candidate :: "path \<Rightarrow> string \<Rightarrow> bool fs_op" where
  "fs_has_pending_candidate app account_id =
     bindS (list_delta_filenames app account_id) (has_pending_loop app account_id)"

definition fs_pull_canonical_deltas_after :: "path \<Rightarrow> string \<Rightarrow> nat \<Rightarrow> delta_object list fs_op" where
  "fs_pull_canonical_deltas_after app account_id from_nonce =
     bindS (list_delta_filenames app account_id) (\<lambda>names.
     bindS (pull_deltas_loop app account_id from_nonce (\<lambda>d. is_canonical (d_status d)) names) (\<lambda>deltas.
     okS (sort_key d_nonce deltas)))"

definition fs_submit_delta_proposal :: "path \<Rightarrow> string \<Rightarrow> delta_object \<Rightarrow> unit fs_op" where
  "fs_submit_delta_proposal app commitment proposal =
     bindS (liftS (get_delta_proposal_path app (d_account_id proposal) commitment)) (\<lambda>p.
     bindS (case path_parent p of
              None \<Rightarrow> okS ()
            | Some parent \<Rightarrow> err_prefix ''Failed to create proposals directory: '' (fs_create_dir_all parent)) (\<lambda>_.
     let temp = path_with_extension ''tmp'' p in
     bindS (err_prefix ''Failed to write proposal file: '' (fs_write temp (GDelta proposal))) (\<lambda>_.
     err_prefix ''Failed to finalize proposal file: '' (fs_rename temp p))))"

definition fs_pull_delta_proposal :: "path \<Rightarrow> string \<Rightarrow> string \<Rightarrow> delta_object fs_op" where
  "fs_pull_delta_proposal app account_id commitment =
     bindS (liftS (get_delta_proposal_path app account_id commitment)) (\<lambda>p.
     read_parse ''Failed to read proposal file: '' ''Failed to parse proposal: '' as_delta p)"

text \<open>The loops over proposal files skip what they cannot load; each entry keeps its commitment.\<close>

fun pull_proposals_loop ::
  "path \<Rightarrow> string \<Rightarrow> (delta_object \<Rightarrow> bool) \<Rightarrow> string list \<Rightarrow> (string \<times> delta_object) list fs_op" where
  "pull_proposals_loop app account_id keep [] = okS []"
| "pull_proposals_loop app account_id keep (name # names) =
     (case strip_suffix ''.json'' name of
        Some commitment \<Rightarrow>
          observeS (fs_pull_delta_proposal app account_id commitment) (\<lambda>r.
          bindS (pull_proposals_loop app account_id keep names) (\<lambda>rest.
          okS (case r of Inr p \<Rightarrow> if keep p then (commitment, p) # rest else rest | Inl _ \<Rightarrow> rest)))
      | None \<Rightarrow> pull_proposals_loop app account_id keep names)"

definition fs_pull_all_delta_proposals :: "path \<Rightarrow> string \<Rightarrow> delta_object list fs_op" where
  "fs_pull_all_delta_proposals app account_id =
     bindS (list_proposal_filenames app account_id) (\<lambda>names.
     bindS (pull_proposals_loop app account_id (\<lambda>_. True) names) (\<lambda>ps. okS (map snd ps)))"

definition pending_proposals_with_commitment :: "path \<Rightarrow> string \<Rightarrow> (string \<times> delta_object) list fs_op" where
  "pending_proposals_with_commitment app account_id =
     bindS (list_proposal_filenames app account_id)
       (pull_proposals_loop app account_id (\<lambda>p. is_pending (d_status p)))"

definition fs_pull_pending_proposals :: "path \<Rightarrow> string \<Rightarrow> delta_object list fs_op" where
  "fs_pull_pending_proposals app account_id =
     bindS (list_proposal_filenames app account_id) (\<lambda>names.
     bindS (pull_proposals_loop app account_id (\<lambda>p. is_pending (d_status p)) names) (\<lambda>ps.
     okS (sort_key d_nonce (map snd ps))))"

definition fs_update_delta_proposal :: "path \<Rightarrow> string \<Rightarrow> delta_object \<Rightarrow> unit fs_op" where
  "fs_update_delta_proposal app commitment proposal = fs_submit_delta_proposal app commitment proposal"

definition fs_delete_delta_proposal :: "path \<Rightarrow> string \<Rightarrow> string \<Rightarrow> unit fs_op" where
  "fs_delete_delta_proposal app account_id commitment =
     bindS (liftS (get_delta_proposal_path app account_id commitment)) (\<lambda>p.
     bindS (fs_exists p) (\<lambda>ex.
     if \<not> ex then okS () else err_prefix ''Failed to delete proposal file: '' (fs_remove_file p)))"

definition fs_delete_delta :: "path \<Rightarrow> string \<Rightarrow> nat \<Rightarrow> unit fs_op" where
  "fs_delete_delta app account_id nonce =
     bindS (fs_exists (get_delta_path app account_id nonce)) (\<lambda>ex.
     if \<not> ex then okS ()
     else err_prefix ''Failed to delete delta file: '' (fs_remove_file (get_delta_path app account_id nonce)))"

definition fs_update_delta_status :: "path \<Rightarrow> string \<Rightarrow> nat \<Rightarrow> delta_status \<Rightarrow> unit fs_op" where
  "fs_update_delta_status app account_id nonce status =
     bindS (fs_pull_delta app account_id nonce) (\<lambda>delta.
     service_write (get_delta_path app account_id nonce) (GDelta (delta \<lparr> d_status := status \<rparr>)))"

definition filesystem_service :: "path \<Rightarrow> gcontent fsys storage_backend" where
  "filesystem_service app =
     \<lparr> submit_state = fs_submit_state app, submit_delta = fs_submit_delta app,
       pull_state = fs_pull_state app, pull_delta = fs_pull_delta app,
       pull_deltas_after = fs_pull_deltas_after app, has_pending_candidate = fs_has_pending_candidate app,
       pull_canonical_deltas_after = fs_pull_canonical_deltas_after app,
       submit_delta_proposal = fs_submit_delta_proposal app, pull_delta_proposal = fs_pull_delta_proposal app,
       pull_all_delta_proposals = fs_pull_all_delta_proposals app,
       pull_pending_proposals = fs_pull_pending_proposals app,
       update_delta_proposal = fs_update_delta_proposal app,
       delete_delta_proposal = fs_delete_delta_proposal app, delete_delta = fs_delete_delta app,
       update_delta_status = fs_update_delta_status app \<rparr>"

end
