(* ===== verification/Guardian_Contract.thy ===== *)
theory Guardian_Contract
  imports Guardian_Storage
begin

text \<open>
  What the services may rely on from a storage backend. The abstract view \<open>gview\<close> of a backend is
  three finite maps: the state of each account, its deltas by nonce, its proposals by
  commitment. The locale \<open>storage_contract\<close> states what each operation of the trait does to the view,
  success or failure; the interpretation \<open>fs_store\<close> discharges it for \<open>filesystem_service\<close>, for every
  script of I/O failures: a write that fails, at whatever call, leaves the object as it was.
\<close>

section \<open>The abstract view\<close>

record gview =
  gv_states :: "string \<Rightarrow> state_object option"
  gv_deltas :: "string \<Rightarrow> nat \<Rightarrow> delta_object option"
  gv_props :: "string \<Rightarrow> string \<Rightarrow> delta_object option"

definition put_state :: "state_object \<Rightarrow> gview \<Rightarrow> gview" where
  "put_state x v = v \<lparr> gv_states := (gv_states v) (so_account_id x := Some x) \<rparr>"

definition put_delta :: "string \<Rightarrow> nat \<Rightarrow> delta_object option \<Rightarrow> gview \<Rightarrow> gview" where
  "put_delta a n d v = v \<lparr> gv_deltas := (gv_deltas v) (a := (gv_deltas v a) (n := d)) \<rparr>"

definition put_prop :: "string \<Rightarrow> string \<Rightarrow> delta_object option \<Rightarrow> gview \<Rightarrow> gview" where
  "put_prop a h d v = v \<lparr> gv_props := (gv_props v) (a := (gv_props v a) (h := d)) \<rparr>"

lemma put_sel [simp]:
  "gv_states (put_state x v) = (gv_states v) (so_account_id x := Some x)"
  "gv_deltas (put_state x v) = gv_deltas v" "gv_props (put_state x v) = gv_props v"
  "gv_deltas (put_delta a n d v) = (gv_deltas v) (a := (gv_deltas v a) (n := d))"
  "gv_states (put_delta a n d v) = gv_states v" "gv_props (put_delta a n d v) = gv_props v"
  "gv_props (put_prop a h d v) = (gv_props v) (a := (gv_props v a) (h := d))"
  "gv_states (put_prop a h d v) = gv_states v" "gv_deltas (put_prop a h d v) = gv_deltas v"
  by (simp_all add: put_state_def put_delta_def put_prop_def)

text \<open>The hexadecimal part of a commitment, the key of a proposal.\<close>

definition commitment_key :: "string \<Rightarrow> string option" where
  "commitment_key c = map_option (drop 2) (res_ok (normalize_commitment_hex c))"

section \<open>The contract\<close>

locale storage_contract =
  fixes B :: "'st storage_backend"
    and sinv :: "'st \<Rightarrow> bool"
    and ok_id :: "string \<Rightarrow> bool"
    and abs :: "'st \<Rightarrow> gview"
  assumes submit_state_law: "submit_state B x s = (r, s') \<Longrightarrow> sinv s \<Longrightarrow> ok_id (so_account_id x) \<Longrightarrow>
      sinv s' \<and> abs s' = (if is_ok r then put_state x (abs s) else abs s)"
    and submit_delta_law: "submit_delta B d s = (r, s') \<Longrightarrow> sinv s \<Longrightarrow> ok_id (d_account_id d) \<Longrightarrow> d_nonce d < u64_bound \<Longrightarrow>
      sinv s' \<and> abs s' = (if is_ok r then put_delta (d_account_id d) (d_nonce d) (Some d) (abs s) else abs s)"
    and submit_proposal_law: "submit_delta_proposal B c d s = (r, s') \<Longrightarrow> sinv s \<Longrightarrow> ok_id (d_account_id d) \<Longrightarrow>
      sinv s' \<and> (if is_ok r then \<exists>h. commitment_key c = Some h \<and> abs s' = put_prop (d_account_id d) h (Some d) (abs s)
        else abs s' = abs s)"
    and update_proposal_law: "update_delta_proposal B c d s = (r, s') \<Longrightarrow> sinv s \<Longrightarrow> ok_id (d_account_id d) \<Longrightarrow>
      sinv s' \<and> (if is_ok r then \<exists>h. commitment_key c = Some h \<and> abs s' = put_prop (d_account_id d) h (Some d) (abs s)
        else abs s' = abs s)"
    and delete_delta_law: "delete_delta B a n s = (r, s') \<Longrightarrow> sinv s \<Longrightarrow> ok_id a \<Longrightarrow> n < u64_bound \<Longrightarrow>
      sinv s' \<and> abs s' = (if is_ok r then put_delta a n None (abs s) else abs s)"
    and delete_proposal_law: "delete_delta_proposal B a c s = (r, s') \<Longrightarrow> sinv s \<Longrightarrow> ok_id a \<Longrightarrow>
      sinv s' \<and> (if is_ok r then \<exists>h. commitment_key c = Some h \<and> abs s' = put_prop a h None (abs s) else abs s' = abs s)"
    and update_status_law: "update_delta_status B a n status s = (r, s') \<Longrightarrow> sinv s \<Longrightarrow> ok_id a \<Longrightarrow> n < u64_bound \<Longrightarrow>
      sinv s' \<and> (if is_ok r then \<exists>d. gv_deltas (abs s) a n = Some d \<and>
          abs s' = put_delta a n (Some (d \<lparr> d_status := status \<rparr>)) (abs s) else abs s' = abs s)"
    and pull_state_law: "pull_state B a s = (rs, s') \<Longrightarrow> sinv s \<Longrightarrow> ok_id a \<Longrightarrow>
      sinv s' \<and> abs s' = abs s \<and> (\<forall>x. rs = Inr x \<longrightarrow> gv_states (abs s) a = Some x)"
    and pull_delta_law: "pull_delta B a n s = (rd, s') \<Longrightarrow> sinv s \<Longrightarrow> ok_id a \<Longrightarrow> n < u64_bound \<Longrightarrow>
      sinv s' \<and> abs s' = abs s \<and> (\<forall>d. rd = Inr d \<longrightarrow> gv_deltas (abs s) a n = Some d)"
    and pull_deltas_law: "pull_deltas_after B a n s = (rds, s') \<Longrightarrow> sinv s \<Longrightarrow> ok_id a \<Longrightarrow>
      sinv s' \<and> abs s' = abs s \<and> (\<forall>ds. rds = Inr ds \<longrightarrow> sorted (map d_nonce ds) \<and>
        set ds = {d. \<exists>m. n \<le> m \<and> gv_deltas (abs s) a m = Some d})"
    and has_pending_law: "has_pending_candidate B a s = (rb, s') \<Longrightarrow> sinv s \<Longrightarrow> ok_id a \<Longrightarrow>
      sinv s' \<and> abs s' = abs s \<and> (\<forall>b. rb = Inr b \<longrightarrow> b = (\<exists>m d. gv_deltas (abs s) a m = Some d \<and> is_candidate (d_status d)))"
    and pull_proposal_law: "pull_delta_proposal B a c s = (rd, s') \<Longrightarrow> sinv s \<Longrightarrow> ok_id a \<Longrightarrow>
      sinv s' \<and> abs s' = abs s \<and> (\<forall>d. rd = Inr d \<longrightarrow> (\<exists>h. commitment_key c = Some h \<and> gv_props (abs s) a h = Some d))"
    and pull_all_proposals_law: "pull_all_delta_proposals B a s = (rds, s') \<Longrightarrow> sinv s \<Longrightarrow> ok_id a \<Longrightarrow>
      sinv s' \<and> abs s' = abs s \<and> (\<forall>ds. rds = Inr ds \<longrightarrow> set ds \<subseteq> {d. \<exists>h. gv_props (abs s) a h = Some d})"
    and pull_pending_law: "pull_pending_proposals B a s = (rds, s') \<Longrightarrow> sinv s \<Longrightarrow> ok_id a \<Longrightarrow>
      sinv s' \<and> abs s' = abs s \<and> (\<forall>ds. rds = Inr ds \<longrightarrow> set ds \<subseteq> {d. \<exists>h. gv_props (abs s) a h = Some d \<and> is_pending (d_status d)})"

section \<open>Files whose directory exists\<close>

definition parents :: "'c fsys \<Rightarrow> bool" where
  "parents s \<longleftrightarrow> (\<forall>p. fget s p \<noteq> None \<longrightarrow> has_dir s (butlast (resolve p)))"

lemma has_dir_faults [simp]: "has_dir (s \<lparr> fs_faults := f \<rparr>) p = has_dir s p"
  by (simp add: has_dir_def)

lemma parents_same: "parents s \<Longrightarrow> fget s' = fget s \<Longrightarrow> set (fs_dirs s) \<subseteq> set (fs_dirs s') \<Longrightarrow> parents s'"
  by (auto simp: parents_def has_dir_def)

lemma resolve_butlast: "q = resolve p \<Longrightarrow> ''..'' \<notin> set q"
proof -
  have "''..'' \<notin> set (resolve p)" for p
    by (induction p rule: rev_induct) (auto simp: resolve_snoc resolve_def[of "[]"] dest: in_set_butlastD)
  then show "q = resolve p \<Longrightarrow> ''..'' \<notin> set q" by simp
qed

lemma parents_fput: "parents s \<Longrightarrow> has_dir s (butlast (resolve p)) \<Longrightarrow> parents (fput p f s)"
  by (auto simp: parents_def)

lemma parents_del: "parents s \<Longrightarrow> parents (s \<lparr> fs_files := dir_del x (fs_files s) \<rparr>)"
  by (auto simp: parents_def has_dir_def split: if_splits)

lemma parents_fault: "next_fault s = (f, s') \<Longrightarrow> parents s \<Longrightarrow> parents s'"
  by (auto simp: next_fault_def parents_def split: list.splits)

lemma parents_io_call:
  assumes "\<And>s. parents s \<Longrightarrow> parents (snd (m s))"
  shows "keepsS parents (io_call m)"
proof (rule keepsSI)
  fix s :: "'a fsys" assume s: "parents s"
  obtain f s1 where f: "next_fault s = (f, s1)" by fastforce
  then have "parents s1" using parents_fault s by blast
  then show "parents (snd (io_call m s))"
    using assms[of s1] f by (cases f) (simp_all add: io_call_def)
qed

lemma has_dir_del [simp]: "has_dir (s \<lparr> fs_files := x \<rparr>) p = has_dir s p"
  by (simp add: has_dir_def)

lemma parents_dirs: "parents s \<Longrightarrow> parents (s \<lparr> fs_dirs := fs_dirs s @ ds \<rparr>)"
  by (auto simp: parents_def has_dir_def)

lemma parents_calls [keeps]:
  "keepsS parents (fs_create_dir_all p)" "keepsS parents (fs_create_file p)" "keepsS parents fs_sync_all"
  "keepsS parents (fs_rename p q)" "keepsS parents (fs_remove_file p)" "keepsS parents (fs_read p)"
  "keepsS parents (fs_read_dir p)" "keepsS parents (io_call (okS a))"
  unfolding fs_create_dir_all_def fs_create_file_def fs_sync_all_def fs_rename_def fs_remove_file_def fs_read_def
    fs_read_dir_def
  by (rule parents_io_call, simp add: Let_def parents_fput parents_del parents_dirs split: option.splits)+

lemma parents_stat [keeps]: "keepsS parents (fs_exists p)"
  by (rule keepsSI)
    (auto simp: fs_exists_def stat_call_def next_stat_def parents_def has_dir_def split: list.splits)

text \<open>\<open>write_all\<close> writes to the file that was created, so its directory is there.\<close>

lemma parents_write_all:
  assumes "fget s p \<noteq> None" and "parents s"
  shows "parents (snd (fs_write_all p v s))"
proof -
  have "has_dir s (butlast (resolve p))" using assms by (simp add: parents_def)
  then show ?thesis
    using assms(2) next_fault_frame[of s _ _ "{}"] parents_fault
    by (fastforce simp: fs_write_all_def has_dir_def intro!: parents_fput split: prod.splits fault.splits)
qed

lemma create_file_exists: "fs_create_file p s = (Inr u, s') \<Longrightarrow> fget s' p \<noteq> None"
  by (auto simp: fs_create_file_def io_call_def split: prod.splits fault.splits if_splits)

lemma parents_create_write [keeps]:
  "keepsS parents (bindS (err_prefix f (fs_create_file p)) (\<lambda>_. err_prefix g (fs_write_all p v)))"
  "keepsS parents (fs_write p v)"
proof -
  have *: "parents (snd (fs_write_all p v s1))" if "parents s" "fs_create_file p s = (Inr u, s1)" for s s1 u
  proof (rule parents_write_all)
    show "fget s1 p \<noteq> None" using create_file_exists that(2) by blast
    show "parents s1" using keepsSD[OF parents_calls(2) that(1), of p] that(2) by simp
  qed
  have c: "parents s1" if "parents s" "fs_create_file p s = (r, s1)" for s s1 r
    using keepsSD[OF parents_calls(2) that(1), of p] that(2) by simp
  show "keepsS parents (fs_write p v)"
    using * c by (auto intro!: keepsSI simp: fs_write_def bindS_def split: prod.splits sum.splits)
  show "keepsS parents (bindS (err_prefix f (fs_create_file p)) (\<lambda>_. err_prefix g (fs_write_all p v)))"
    using * c by (fastforce intro!: keepsSI simp: bindS_def err_prefix_def map_errS_def split: prod.splits sum.splits)
qed

end
