(* ===== verification/Guardian_Auth.thy ===== *)
theory Guardian_Auth
  imports Guardian_Types
begin

text \<open>
  Who may call the Guardian: network configuration and account identifiers (\<open>metadata/network.rs\<close>),
  credentials and the headers they come from (\<open>metadata/auth/credentials.rs\<close>), the authorisation of an
  account (\<open>metadata/auth/mod.rs\<close>) and the verification of request signatures in both schemes
  (\<open>miden_falcon_rpo.rs\<close>, \<open>miden_ecdsa.rs\<close>) and of lookup signatures (\<open>lookup.rs\<close>). Lemmas: a request
  passes only with a signature, over the account, the timestamp and the payload, of a key whose
  commitment the account lists.
\<close>

section \<open>Network configuration (metadata/network.rs)\<close>

datatype miden_network_type = Local | Devnet | Testnet

datatype network_config =
    NetMiden miden_network_type
  | NetEvm nat string string

fun is_evm :: "network_config \<Rightarrow> bool" where
  "is_evm (NetEvm _ _ _) = True"
| "is_evm (NetMiden _) = False"

definition evm_account_id :: "nat \<Rightarrow> string \<Rightarrow> string" where
  "evm_account_id chain_id account_address = ''evm:'' @ show_nat chain_id @ '':'' @ account_address"

definition is_evm_account_id :: "string \<Rightarrow> bool" where
  "is_evm_account_id account_id = starts_with ''evm:'' account_id"

definition normalize_evm_address :: "string \<Rightarrow> string + string" where
  "normalize_evm_address address =
     bind_res (ok_or ''address must start with 0x'' (strip_prefix ''0x'' (trim_str address))) (\<lambda>clean.
     if length clean \<noteq> 40 then Inl ''address must be 20 bytes''
     else if \<not> list_all is_hexdigit clean then Inl ''address must be hex encoded''
     else Inr (''0x'' @ to_ascii_lowercase clean))"

definition validate_for_account :: "network_config \<Rightarrow> string \<Rightarrow> string + network_config" where
  "validate_for_account cfg account_id =
     (case cfg of
        NetMiden t \<Rightarrow> Inr (NetMiden t)
      | NetEvm chain_id account_address validator \<Rightarrow>
          if chain_id = 0 then Inl ''chain_id must be greater than zero''
          else
          bind_res (normalize_evm_address account_address) (\<lambda>account_address.
          bind_res (normalize_evm_address validator) (\<lambda>validator.
          let expected = evm_account_id chain_id account_address in
          if account_id \<noteq> expected
          then Inl (''account_id must be '' @ quoted expected @ '', got '' @ quoted account_id)
          else Inr (NetEvm chain_id account_address validator))))"

section \<open>Credentials (metadata/auth/credentials.rs)\<close>

definition MAX_TIMESTAMP_SKEW_MS :: int where
  "MAX_TIMESTAMP_SKEW_MS = 300000"

record credentials =
  cr_pubkey :: string
  cr_signature :: string
  cr_timestamp :: int
  cr_request_payload :: mword
  cr_request_payload_bytes :: string

definition credentials_signature :: "string \<Rightarrow> string \<Rightarrow> int \<Rightarrow> credentials" where
  "credentials_signature pubkey signature ts =
     \<lparr> cr_pubkey = pubkey, cr_signature = signature, cr_timestamp = ts,
       cr_request_payload = auth_payload_empty, cr_request_payload_bytes = [] \<rparr>"

definition with_request_payload :: "mword \<Rightarrow> credentials \<Rightarrow> credentials" where
  "with_request_payload p c = c \<lparr> cr_request_payload := p \<rparr>"

definition with_request_payload_bytes :: "string \<Rightarrow> credentials \<Rightarrow> credentials" where
  "with_request_payload_bytes b c = c \<lparr> cr_request_payload_bytes := b \<rparr>"

text \<open>\<open>str::parse::<i64>\<close>: an optional sign, then digits, within the range of \<open>i64\<close>.\<close>

definition parse_i64 :: "string \<Rightarrow> int option" where
  "parse_i64 s =
     (case s of
        [] \<Rightarrow> None
      | c # cs \<Rightarrow>
          if c = CHR ''-'' then
            (if cs = [] \<or> hd cs = CHR ''+'' \<or> hd cs = CHR ''-'' then None
             else (case res_ok (from_str_radix (2 ^ 63 + 1) 10 cs) of
                     Some n \<Rightarrow> Some (- int n) | None \<Rightarrow> None))
          else (case res_ok (from_str_radix (2 ^ 63) 10 s) of Some n \<Rightarrow> Some (int n) | None \<Rightarrow> None))"

text \<open>
  A header is looked up by its name; \<open>Some None\<close> is a header whose value is not visible ASCII
  (\<open>to_str\<close> fails).
\<close>

type_synonym headers = "string \<Rightarrow> string option option"

definition http_header :: "headers \<Rightarrow> string \<Rightarrow> string + string" where
  "http_header hs name =
     bind_res (ok_or (''Missing '' @ name @ '' header'') (hs name))
       (ok_or (''Invalid '' @ name @ '' header''))"

definition extract_credentials_http :: "headers \<Rightarrow> string + credentials" where
  "extract_credentials_http hs =
     bind_res (http_header hs ''x-pubkey'') (\<lambda>pubkey.
     bind_res (http_header hs ''x-signature'') (\<lambda>signature.
     bind_res (http_header hs ''x-timestamp'') (\<lambda>text.
     bind_res (ok_or ''Invalid x-timestamp value: must be Unix timestamp'' (parse_i64 text)) (\<lambda>ts.
     Inr (credentials_signature pubkey signature ts)))))"

definition extract_credentials_grpc :: "headers \<Rightarrow> (grpc_code \<times> string) + credentials" where
  "extract_credentials_grpc hs =
     (let get = (\<lambda>name. ok_or (GrpcInvalidArgument, ''Missing or invalid '' @ name @ '' metadata'')
                   (Option.bind (hs name) id)) in
      bind_res (get ''x-pubkey'') (\<lambda>pubkey.
      bind_res (get ''x-signature'') (\<lambda>signature.
      bind_res (get ''x-timestamp'') (\<lambda>text.
      bind_res (ok_or (GrpcInvalidArgument, ''Invalid x-timestamp value: must be Unix timestamp'')
        (parse_i64 text)) (\<lambda>ts.
      Inr (credentials_signature pubkey signature ts))))))"

section \<open>Request signatures\<close>

text \<open>The ECDSA operations that request authentication adds: recovery of the key, and verification.\<close>

record ('sig, 'esig, 'epk) ecdsa_auth = "('sig, 'esig, 'epk) ecdsa_ops" +
  ecdsa_recover :: "mword \<Rightarrow> 'esig \<Rightarrow> string + 'epk"
  ecdsa_verify :: "'epk \<Rightarrow> mword \<Rightarrow> 'esig \<Rightarrow> bool"

definition account_id_timestamp_to_digest ::
  "('sig, 'pk, 'su, 'n) externals \<Rightarrow> string \<Rightarrow> int \<Rightarrow> mword \<Rightarrow> string + mword" where
  "account_id_timestamp_to_digest X account_id_hex ts payload =
     bind_res (from_account_id_hex X account_id_hex ts payload) (\<lambda>request. Inr (auth_message_to_word X request))"

definition falcon_parse_signature :: "('sig, 'pk, 'su, 'n) externals \<Rightarrow> string \<Rightarrow> string + 'sig" where
  "falcon_parse_signature X h =
     bind_res (map_err (\<lambda>e. ''Invalid signature hex: '' @ e) (hex_decode X (trim_0x h))) (\<lambda>bytes.
     map_err (\<lambda>e. ''Failed to deserialize signature: '' @ e) (sig_from_bytes X bytes))"

definition not_authorized :: "string \<Rightarrow> string" where
  "not_authorized commitment =
     ''Signature verification failed: public key commitment '' @ quoted (take 18 commitment @ ''...'')
       @ '' not authorized''"

definition falcon_verify_request_signature ::
  "('sig, 'pk, 'su, 'n) externals \<Rightarrow> string \<Rightarrow> int \<Rightarrow> string list \<Rightarrow> string \<Rightarrow> mword \<Rightarrow> string + unit" where
  "falcon_verify_request_signature X account_id ts authorized signature payload =
     bind_res (account_id_timestamp_to_digest X account_id ts payload) (\<lambda>message.
     bind_res (falcon_parse_signature X signature) (\<lambda>sg.
     let public_key = sig_public_key X sg;
         sig_commitment_hex = word_into_hex X (pk_to_commitment X public_key) in
     if sig_commitment_hex \<notin> set authorized then Inl (not_authorized sig_commitment_hex)
     else if sig_verify X sg message public_key then Inr ()
     else Inl ''Signature verification failed: invalid signature''))"

definition ecdsa_parse_signature ::
  "('sig, 'pk, 'su, 'n) externals \<Rightarrow> ('sig, 'esig, 'epk) ecdsa_auth \<Rightarrow> string \<Rightarrow> string + 'esig" where
  "ecdsa_parse_signature X E h =
     bind_res (map_err (\<lambda>e. ''Invalid ECDSA signature hex: '' @ e) (hex_decode X (trim_0x h))) (\<lambda>bytes.
     map_err (\<lambda>e. ''Failed to deserialize ECDSA signature: '' @ e) (ecdsa_sig_from_bytes E bytes))"

definition ecdsa_parse_public_key ::
  "('sig, 'pk, 'su, 'n) externals \<Rightarrow> ('sig, 'esig, 'epk) ecdsa_auth \<Rightarrow> string \<Rightarrow> string + 'epk" where
  "ecdsa_parse_public_key X E h =
     bind_res (map_err (\<lambda>e. ''Invalid ECDSA public key hex: '' @ e) (hex_decode X (trim_0x h))) (\<lambda>bytes.
     map_err (\<lambda>e. ''Failed to deserialize ECDSA public key: '' @ e) (ecdsa_pk_from_bytes E bytes))"

definition ecdsa_commitment_hex ::
  "('sig, 'pk, 'su, 'n) externals \<Rightarrow> ('sig, 'esig, 'epk) ecdsa_auth \<Rightarrow> 'epk \<Rightarrow> string" where
  "ecdsa_commitment_hex X E pk = word_into_hex X (ecdsa_pk_commitment E pk)"

definition recover_authorized_public_key ::
  "('sig, 'pk, 'su, 'n) externals \<Rightarrow> ('sig, 'esig, 'epk) ecdsa_auth \<Rightarrow> string list \<Rightarrow> mword \<Rightarrow> 'esig \<Rightarrow> 'epk option" where
  "recover_authorized_public_key X E authorized message sg =
     (case ecdsa_recover E message sg of
        Inr recovered \<Rightarrow> if ecdsa_commitment_hex X E recovered \<in> set authorized then Some recovered else None
      | Inl _ \<Rightarrow> None)"

definition authorized_public_key_from_header ::
  "('sig, 'pk, 'su, 'n) externals \<Rightarrow> ('sig, 'esig, 'epk) ecdsa_auth \<Rightarrow> string list \<Rightarrow> string \<Rightarrow> string + 'epk \<times> string" where
  "authorized_public_key_from_header X E authorized provided =
     bind_res (ecdsa_parse_public_key X E provided) (\<lambda>key.
     let commitment = ecdsa_commitment_hex X E key in
     if commitment \<notin> set authorized then Inl (not_authorized commitment)
     else Inr (key, commitment))"

definition resolve_authorized_public_key ::
  "('sig, 'pk, 'su, 'n) externals \<Rightarrow> ('sig, 'esig, 'epk) ecdsa_auth \<Rightarrow> string list \<Rightarrow> mword \<Rightarrow> 'esig \<Rightarrow> string
   \<Rightarrow> string + 'epk \<times> string" where
  "resolve_authorized_public_key X E authorized message sg provided =
     (case recover_authorized_public_key X E authorized message sg of
        Some recovered \<Rightarrow> Inr (recovered, ecdsa_commitment_hex X E recovered)
      | None \<Rightarrow> authorized_public_key_from_header X E authorized provided)"

definition ecdsa_verify_request_signature ::
  "('sig, 'pk, 'su, 'n) externals \<Rightarrow> ('sig, 'esig, 'epk) ecdsa_auth \<Rightarrow> string \<Rightarrow> int \<Rightarrow> string list \<Rightarrow> string
   \<Rightarrow> string \<Rightarrow> mword \<Rightarrow> string + unit" where
  "ecdsa_verify_request_signature X E account_id ts authorized signature pubkey_hex payload =
     bind_res (account_id_timestamp_to_digest X account_id ts payload) (\<lambda>message.
     bind_res (ecdsa_parse_signature X E signature) (\<lambda>sg.
     bind_res (resolve_authorized_public_key X E authorized message sg pubkey_hex) (\<lambda>(public_key, commitment).
     if ecdsa_verify E public_key message sg then Inr ()
     else Inl ''Signature verification failed: invalid signature'')))"

section \<open>Authorisation of an account (metadata/auth/mod.rs)\<close>

datatype auth =
    MidenFalconRpo "string list"
  | MidenEcdsa "string list"
  | EvmEcdsa "string list"

fun auth_scheme :: "auth \<Rightarrow> signature_scheme" where
  "auth_scheme (MidenFalconRpo _) = Falcon"
| "auth_scheme (MidenEcdsa _) = Ecdsa"
| "auth_scheme (EvmEcdsa _) = Ecdsa"

fun method_label :: "auth \<Rightarrow> string" where
  "method_label (MidenFalconRpo _) = ''miden_falcon''"
| "method_label (MidenEcdsa _) = ''miden_ecdsa''"
| "method_label (EvmEcdsa _) = ''evm''"

definition bare_commitment :: "('sig, 'pk, 'su, 'n) externals \<Rightarrow> string \<Rightarrow> bool" where
  "bare_commitment X clean \<longleftrightarrow> length clean = 64 \<and> is_ok (hex_decode X clean)"

definition compute_signer_commitment ::
  "('sig, 'pk, 'su, 'n) externals \<Rightarrow> ('sig, 'esig, 'epk) ecdsa_auth \<Rightarrow> auth \<Rightarrow> string \<Rightarrow> string + string" where
  "compute_signer_commitment X E a pubkey_hex =
     (let clean = trim_0x pubkey_hex in
      case a of
        MidenFalconRpo _ \<Rightarrow>
          if bare_commitment X clean then Inr (''0x'' @ clean)
          else
          bind_res (map_err (\<lambda>e. ''invalid Falcon public key: '' @ e) (public_key_from_hex X pubkey_hex)) (\<lambda>pk.
          Inr (word_into_hex X (pk_to_commitment X pk)))
      | MidenEcdsa _ \<Rightarrow>
          if bare_commitment X clean then Inr (''0x'' @ clean)
          else
          bind_res (map_err (\<lambda>e. ''invalid ECDSA public key hex: '' @ e) (hex_decode X clean)) (\<lambda>bytes.
          bind_res (map_err (\<lambda>e. ''invalid ECDSA public key: '' @ e) (ecdsa_pk_from_bytes E bytes)) (\<lambda>pk.
          Inr (ecdsa_commitment_hex X E pk)))
      | EvmEcdsa _ \<Rightarrow> normalize_evm_address pubkey_hex)"

fun with_updated_commitments :: "auth \<Rightarrow> string list \<Rightarrow> auth" where
  "with_updated_commitments (MidenFalconRpo _) cs = MidenFalconRpo cs"
| "with_updated_commitments (MidenEcdsa _) cs = MidenEcdsa cs"
| "with_updated_commitments (EvmEcdsa _) cs = EvmEcdsa cs"

definition auth_verify ::
  "('sig, 'pk, 'su, 'n) externals \<Rightarrow> ('sig, 'esig, 'epk) ecdsa_auth \<Rightarrow> auth \<Rightarrow> string \<Rightarrow> credentials \<Rightarrow> string + unit" where
  "auth_verify X E a account_id c =
     (case a of
        MidenFalconRpo commitments \<Rightarrow>
          falcon_verify_request_signature X account_id (cr_timestamp c) commitments (cr_signature c)
            (cr_request_payload c)
      | MidenEcdsa commitments \<Rightarrow>
          ecdsa_verify_request_signature X E account_id (cr_timestamp c) commitments (cr_signature c)
            (cr_pubkey c) (cr_request_payload c)
      | EvmEcdsa _ \<Rightarrow> Inl ''EVM request auth requires network-aware verification'')"

text \<open>The gRPC form of the configuration: an optional variant.\<close>

definition auth_try_from :: "auth option \<Rightarrow> string + auth" where
  "auth_try_from cfg =
     (case cfg of
        Some (MidenFalconRpo cs) \<Rightarrow> Inr (MidenFalconRpo cs)
      | Some (MidenEcdsa cs) \<Rightarrow> Inr (MidenEcdsa cs)
      | Some (EvmEcdsa signers) \<Rightarrow> bind_res (collect_res normalize_evm_address signers) (\<lambda>ss. Inr (EvmEcdsa ss))
      | None \<Rightarrow> Inl ''Auth type not specified'')"

section \<open>Lookup signatures (metadata/auth/lookup.rs)\<close>

datatype ('pk, 'epk) lookup_public_key = LookupFalcon 'pk | LookupEcdsa 'epk

definition commitment_of ::
  "('sig, 'pk, 'su, 'n) externals \<Rightarrow> ('sig, 'esig, 'epk) ecdsa_auth \<Rightarrow> ('pk, 'epk) lookup_public_key \<Rightarrow> string" where
  "commitment_of X E pk =
     word_into_hex X (case pk of LookupFalcon k \<Rightarrow> pk_to_commitment X k | LookupEcdsa k \<Rightarrow> ecdsa_pk_commitment E k)"

definition derive_pubkey_from_lookup_signature ::
  "('sig, 'pk, 'su, 'n) externals \<Rightarrow> ('sig, 'esig, 'epk) ecdsa_auth \<Rightarrow> string \<Rightarrow> int \<Rightarrow> mword
   \<Rightarrow> string + ('pk, 'epk) lookup_public_key" where
  "derive_pubkey_from_lookup_signature X E signature_hex ts key_commitment =
     (let digest = lookup_message_to_word X \<lparr> lam_timestamp_ms = ts, lam_key_commitment = key_commitment \<rparr> in
      case signature_from_hex X signature_hex of
        Inr sg \<Rightarrow>
          let public_key = sig_public_key X sg in
          if sig_verify X sg digest public_key then Inr (LookupFalcon public_key)
          else Inl ''Falcon signature verification failed''
      | Inl _ \<Rightarrow>
          bind_res (map_err (\<lambda>e. ''invalid signature hex: '' @ e) (hex_decode X (trim_0x signature_hex))) (\<lambda>bytes.
          case ecdsa_sig_from_bytes E bytes of
            Inr sg \<Rightarrow>
              bind_res (map_err (\<lambda>_. ''ECDSA signature recovery failed'') (ecdsa_recover E digest sg)) (\<lambda>recovered.
              if ecdsa_verify E recovered digest sg then Inr (LookupEcdsa recovered)
              else Inl ''ECDSA signature verification failed after recovery'')
          | Inl _ \<Rightarrow> Inl ''signature did not parse as Falcon or ECDSA''))"

section \<open>What a verified request means\<close>

text \<open>
  \<open>request_signed_by\<close> says that the signature of the credentials verifies, over the digest of account,
  timestamp and request payload, under a key with the given commitment.
\<close>

definition request_signed_by ::
  "('sig, 'pk, 'su, 'n) externals \<Rightarrow> ('sig, 'esig, 'epk) ecdsa_auth \<Rightarrow> signature_scheme \<Rightarrow> string \<Rightarrow> credentials
   \<Rightarrow> string \<Rightarrow> bool" where
  "request_signed_by X E scheme account_id c commitment \<longleftrightarrow>
     (\<exists>message. account_id_timestamp_to_digest X account_id (cr_timestamp c) (cr_request_payload c) = Inr message \<and>
       (case scheme of
          Falcon \<Rightarrow> \<exists>sg. falcon_parse_signature X (cr_signature c) = Inr sg \<and>
            sig_verify X sg message (sig_public_key X sg) \<and>
            commitment = word_into_hex X (pk_to_commitment X (sig_public_key X sg))
        | Ecdsa \<Rightarrow> \<exists>sg pk. ecdsa_parse_signature X E (cr_signature c) = Inr sg \<and>
            ecdsa_verify E pk message sg \<and> commitment = ecdsa_commitment_hex X E pk))"

fun auth_commitments :: "auth \<Rightarrow> string list" where
  "auth_commitments (MidenFalconRpo cs) = cs"
| "auth_commitments (MidenEcdsa cs) = cs"
| "auth_commitments (EvmEcdsa cs) = cs"

lemma resolve_authorized_public_key_Inr:
  "resolve_authorized_public_key X E authorized message sg provided = Inr (pk, c) \<Longrightarrow>
     c = ecdsa_commitment_hex X E pk \<and> c \<in> set authorized"
  by (auto simp: resolve_authorized_public_key_def recover_authorized_public_key_def
      authorized_public_key_from_header_def Let_def result_simps split: option.splits sum.splits if_splits)

lemma ecdsa_verify_sound:
  assumes "ecdsa_verify_request_signature X E account_id ts cs signature pubkey payload = Inr ()"
  shows "\<exists>message sg pk. account_id_timestamp_to_digest X account_id ts payload = Inr message \<and>
    ecdsa_parse_signature X E signature = Inr sg \<and> ecdsa_verify E pk message sg \<and>
    ecdsa_commitment_hex X E pk \<in> set cs"
proof -
  from assms obtain message sg r where *:
    "account_id_timestamp_to_digest X account_id ts payload = Inr message"
    "ecdsa_parse_signature X E signature = Inr sg"
    "resolve_authorized_public_key X E cs message sg pubkey = Inr r"
    "(case r of (pk, c) \<Rightarrow> if ecdsa_verify E pk message sg then Inr ()
       else Inl ''Signature verification failed: invalid signature'') = Inr ()"
    unfolding ecdsa_verify_request_signature_def by (elim bind_res_InrE)
  then show ?thesis
    using resolve_authorized_public_key_Inr[of X E cs message sg pubkey "fst r" "snd r"]
    by (cases r) (auto split: if_splits)
qed
lemma auth_verify_sound:
  assumes "auth_verify X E a account_id c = Inr ()"
  shows "\<exists>commitment \<in> set (auth_commitments a). request_signed_by X E (auth_scheme a) account_id c commitment"
proof (cases a)
  case (MidenFalconRpo cs)
  then show ?thesis
    using assms by (auto simp: auth_verify_def falcon_verify_request_signature_def request_signed_by_def Let_def
        result_simps split: if_splits)
next
  case (MidenEcdsa cs)
  with assms have "ecdsa_verify_request_signature X E account_id (cr_timestamp c) cs (cr_signature c)
      (cr_pubkey c) (cr_request_payload c) = Inr ()"
    by (simp add: auth_verify_def)
  from ecdsa_verify_sound[OF this] show ?thesis
    using MidenEcdsa by (auto simp: request_signed_by_def)
qed (use assms in \<open>simp add: auth_verify_def\<close>)

lemma auth_scheme_updated [simp]: "auth_scheme (with_updated_commitments a cs) = auth_scheme a"
  by (cases a) auto

lemma is_hexdigit_iff:
  "is_hexdigit c \<longleftrightarrow> (let n = of_char c :: nat in 48 \<le> n \<and> n \<le> 57 \<or> 97 \<le> n \<and> n \<le> 102 \<or> 65 \<le> n \<and> n \<le> 70)"
  by (auto simp: is_hexdigit_def to_digit_def Let_def)

lemma hexdigit_lower: "is_hexdigit c \<Longrightarrow> is_hexdigit (to_lower c) \<and> \<not> is_blank (to_lower c)"
  unfolding is_hexdigit_iff to_lower_def is_blank_def Let_def
  by (cases "65 \<le> (of_char c :: nat) \<and> (of_char c :: nat) \<le> 90") auto

lemma trim_str_id:
  assumes "s \<noteq> []" and "\<not> is_blank (hd s)" and "\<not> is_blank (last s)"
  shows "trim_str s = s"
proof -
  have "dropWhile is_blank s = s" "dropWhile is_blank (rev s) = rev s"
    using assms by (simp_all add: dropWhile_eq_self_iff hd_rev)
  then show ?thesis by (simp add: trim_str_def)
qed

lemma normalize_evm_address_idem:
  assumes "normalize_evm_address a = Inr n"
  shows "normalize_evm_address n = Inr n"
proof -
  from assms obtain clean where c: "length clean = 40" "list_all is_hexdigit clean"
    and n: "n = ''0x'' @ to_ascii_lowercase clean"
    by (auto simp: normalize_evm_address_def result_simps split: if_splits)
  let ?l = "to_ascii_lowercase clean"
  have hex: "list_all is_hexdigit ?l" and len: "length ?l = 40"
    using c hexdigit_lower by (auto simp: to_ascii_lowercase_def list_all_iff)
  have ne: "?l \<noteq> []" using len by auto
  then have "last ?l \<in> set ?l" by simp
  then have "\<not> is_blank (last ?l)"
    using c(2) hexdigit_lower by (auto simp: to_ascii_lowercase_def list_all_iff)
  then have "trim_str n = n"
    using ne by (intro trim_str_id) (auto simp: n is_blank_def)
  moreover have "to_ascii_lowercase ?l = ?l" by simp
  ultimately show ?thesis
    using hex len by (simp add: normalize_evm_address_def n)
qed

end
