(* ===== verification/Guardian_Metadata.thy ===== *)
theory Guardian_Metadata
  imports Guardian_Auth Fs
begin

text \<open>
  Metadata of the accounts. \<open>metadata_store\<close> is the trait object \<open>dyn MetadataStore\<close> (\<open>metadata/mod.rs\<close>)
  as a record of operations; \<open>update_auth\<close> and \<open>set_has_pending_candidate\<close> are its default methods, a \<open>get\<close>
  followed by a \<open>set\<close>. \<open>filesystem_metadata_store\<close> is \<open>metadata/filesystem.rs\<close>: a cache in
  memory (a \<open>HashMap\<close>, here an association list whose order stands for the iteration order) that is
  written as a whole to one file after each change.

  The locale \<open>metadata_contract\<close> states what the services rely on; its heart is the compare-and-swap
  on the last authentication timestamp.
\<close>

section \<open>The interface (metadata/mod.rs)\<close>

record account_metadata =
  m_account_id :: string
  m_auth :: auth
  m_network_config :: network_config
  m_created_at :: string
  m_updated_at :: string
  m_has_pending_candidate :: bool
  m_last_auth_timestamp :: "int option"

record account_list_cursor =
  alc_last_updated_at :: int
  alc_last_account_id :: string

record 'ms metadata_store =
  ms_get :: "string \<Rightarrow> ('ms, string, account_metadata option) comp"
  ms_set :: "account_metadata \<Rightarrow> ('ms, string, unit) comp"
  ms_list :: "('ms, string, string list) comp"
  ms_list_with_pending_candidates :: "('ms, string, string list) comp"
  ms_update_last_auth_timestamp_cas :: "string \<Rightarrow> int \<Rightarrow> string \<Rightarrow> ('ms, string, bool) comp"
  ms_find_by_cosigner_commitment :: "string \<Rightarrow> ('ms, string, string list) comp"

definition ms_update_auth :: "'ms metadata_store \<Rightarrow> string \<Rightarrow> auth \<Rightarrow> string \<Rightarrow> ('ms, string, unit) comp" where
  "ms_update_auth M account_id new_auth now =
     bindS (ms_get M account_id) (\<lambda>r.
     bindS (liftS (ok_or (''Account not found: '' @ account_id) r)) (\<lambda>metadata.
     if m_auth metadata = new_auth then okS ()
     else ms_set M (metadata \<lparr> m_auth := new_auth, m_updated_at := now \<rparr>)))"

definition ms_set_has_pending_candidate ::
  "'ms metadata_store \<Rightarrow> string \<Rightarrow> bool \<Rightarrow> string \<Rightarrow> ('ms, string, unit) comp" where
  "ms_set_has_pending_candidate M account_id has_candidate now =
     bindS (ms_get M account_id) (\<lambda>r.
     bindS (liftS (ok_or (''Account not found: '' @ account_id) r)) (\<lambda>metadata.
     if m_has_pending_candidate metadata = has_candidate then okS ()
     else ms_set M (metadata \<lparr> m_has_pending_candidate := has_candidate, m_updated_at := now \<rparr>)))"

text \<open>\<open>update_credentials\<close> of \<open>metadata/auth/mod.rs\<close>.\<close>

definition update_credentials ::
  "'ms metadata_store \<Rightarrow> string \<Rightarrow> auth \<Rightarrow> string \<Rightarrow> ('ms, guardian_error, unit) comp" where
  "update_credentials M account_id new_auth now =
     bindS (map_errS (\<lambda>e. StorageError (''Failed to get metadata: '' @ e)) (ms_get M account_id)) (\<lambda>r.
     bindS (liftS (ok_or (AccountNotFound account_id) r)) (\<lambda>metadata.
     if m_auth metadata = new_auth then okS ()
     else map_errS (\<lambda>e. StorageError (''Failed to update metadata: '' @ e))
       (ms_set M (metadata \<lparr> m_auth := new_auth, m_updated_at := now \<rparr>))))"

section \<open>The filesystem store (metadata/filesystem.rs)\<close>

type_synonym meta_cache = "(string, account_metadata) dir"

record meta_fs =
  mf_file_path :: path
  mf_cache :: meta_cache
  mf_fs :: "meta_cache fsys"
  mf_pid :: nat
  mf_counter :: nat

type_synonym 'a meta_op = "(meta_fs, string, 'a) comp"

definition on_meta_fs :: "(meta_cache fsys, string, 'a) comp \<Rightarrow> 'a meta_op" where
  "on_meta_fs m s = (case m (mf_fs s) of (r, fs) \<Rightarrow> (r, s \<lparr> mf_fs := fs \<rparr>))"

definition meta_new :: "path \<Rightarrow> (meta_cache fsys, string, path \<times> meta_cache) comp" where
  "meta_new base_path =
     (let metadata_dir = path_join base_path ''.metadata'';
          file_path = path_join metadata_dir ''accounts.json'' in
      bindS (err_prefix ''Failed to create metadata directory: '' (fs_create_dir_all metadata_dir)) (\<lambda>_.
      bindS (fs_exists file_path) (\<lambda>ex.
      if \<not> ex then okS (file_path, [])
      else
      bindS (err_prefix ''Failed to read metadata file: '' (fs_read file_path)) (\<lambda>f.
      case f of
        Torn e \<Rightarrow> errS (''Failed to parse metadata file: '' @ e)
      | Intact accounts \<Rightarrow> okS (file_path, accounts)))))"

definition meta_write_temp :: "path \<Rightarrow> path \<Rightarrow> meta_cache \<Rightarrow> unit meta_op" where
  "meta_write_temp temp file_path cache =
     bindS (err_prefix ''Failed to create temp file: '' (on_meta_fs (fs_create_file temp))) (\<lambda>_.
     bindS (err_prefix ''Failed to write to temp file: '' (on_meta_fs (fs_write_all temp cache))) (\<lambda>_.
     bindS (err_prefix ''Failed to sync temp file: '' (on_meta_fs fs_sync_all)) (\<lambda>_.
     err_prefix ''Failed to rename temp file: '' (on_meta_fs (fs_rename temp file_path)))))"

definition temp_name :: "nat \<Rightarrow> meta_fs \<Rightarrow> path" where
  "temp_name nanos s =
     path_with_extension (''tmp.'' @ show_nat (mf_pid s) @ ''.'' @ show_nat nanos @ ''.'' @ show_nat (mf_counter s))
       (mf_file_path s)"

definition meta_persist :: "meta_cache \<Rightarrow> unit meta_op" where
  "meta_persist cache s =
     bindS (case path_parent (mf_file_path s) of
              None \<Rightarrow> okS ()
            | Some parent \<Rightarrow> err_prefix ''Failed to create metadata directory: '' (on_meta_fs (fs_create_dir_all parent))) (\<lambda>_.
     bindS (on_meta_fs fs_now) (\<lambda>nanos s1.
       meta_write_temp (temp_name nanos s1) (mf_file_path s1) cache (s1 \<lparr> mf_counter := u64_add (mf_counter s1) 1 \<rparr>))) s"

definition meta_get :: "string \<Rightarrow> account_metadata option meta_op" where
  "meta_get account_id s = (Inr (dir_get (mf_cache s) account_id), s)"

definition meta_set :: "account_metadata \<Rightarrow> unit meta_op" where
  "meta_set metadata s =
     (let s' = s \<lparr> mf_cache := dir_put (m_account_id metadata) metadata (mf_cache s) \<rparr> in
      meta_persist (mf_cache s') s')"

definition meta_list :: "string list meta_op" where
  "meta_list s = (Inr (map fst (mf_cache s)), s)"

definition meta_list_with_pending_candidates :: "string list meta_op" where
  "meta_list_with_pending_candidates s =
     (Inr (map fst (filter (\<lambda>(_, m). m_has_pending_candidate m) (mf_cache s))), s)"

definition meta_update_last_auth_timestamp_cas :: "string \<Rightarrow> int \<Rightarrow> string \<Rightarrow> bool meta_op" where
  "meta_update_last_auth_timestamp_cas account_id new_timestamp now s =
     (case dir_get (mf_cache s) account_id of
        None \<Rightarrow> (Inl (''Account not found: '' @ account_id), s)
      | Some metadata \<Rightarrow>
         (case m_last_auth_timestamp metadata of
            Some current \<Rightarrow> if new_timestamp \<le> current then (Inr False, s) else
              (let s' = s \<lparr> mf_cache := dir_put account_id
                     (metadata \<lparr> m_last_auth_timestamp := Some new_timestamp, m_updated_at := now \<rparr>) (mf_cache s) \<rparr> in
               bindS (meta_persist (mf_cache s')) (\<lambda>_. okS True) s')
          | None \<Rightarrow>
              (let s' = s \<lparr> mf_cache := dir_put account_id
                     (metadata \<lparr> m_last_auth_timestamp := Some new_timestamp, m_updated_at := now \<rparr>) (mf_cache s) \<rparr> in
               bindS (meta_persist (mf_cache s')) (\<lambda>_. okS True) s')))"

fun lookup_commitments :: "auth \<Rightarrow> string list" where
  "lookup_commitments (MidenFalconRpo cs) = cs"
| "lookup_commitments (MidenEcdsa cs) = cs"
| "lookup_commitments (EvmEcdsa _) = []"

definition meta_find_by_cosigner_commitment :: "string \<Rightarrow> string list meta_op" where
  "meta_find_by_cosigner_commitment commitment s =
     (Inr (map fst (filter (\<lambda>(_, m). commitment \<in> set (lookup_commitments (m_auth m))) (mf_cache s))), s)"

definition filesystem_metadata_store :: "meta_fs metadata_store" where
  "filesystem_metadata_store =
     \<lparr> ms_get = meta_get, ms_set = meta_set, ms_list = meta_list,
       ms_list_with_pending_candidates = meta_list_with_pending_candidates,
       ms_update_last_auth_timestamp_cas = meta_update_last_auth_timestamp_cas,
       ms_find_by_cosigner_commitment = meta_find_by_cosigner_commitment \<rparr>"

section \<open>The contract\<close>

text \<open>
  \<open>mabs\<close> is the map the store keeps. A failing write may or may not have taken effect (the filesystem
  store changes its cache before it writes the file), so the laws say only that nothing else
  happens then.
\<close>

locale metadata_contract =
  fixes M :: "'ms metadata_store"
    and minv :: "'ms \<Rightarrow> bool"
    and mabs :: "'ms \<Rightarrow> string \<Rightarrow> account_metadata option"
  assumes key_law: "minv s \<Longrightarrow> mabs s a = Some m \<Longrightarrow> m_account_id m = a"
    and get_law: "ms_get M a s = (rg, s') \<Longrightarrow> minv s \<Longrightarrow>
      minv s' \<and> mabs s' = mabs s \<and> (\<forall>m. rg = Inr m \<longrightarrow> m = mabs s a)"
    and set_law: "ms_set M m s = (ru, s') \<Longrightarrow> minv s \<Longrightarrow>
      minv s' \<and> (mabs s' = (mabs s) (m_account_id m := Some m) \<or> \<not> is_ok ru \<and> mabs s' = mabs s)"
    and list_pending_law: "ms_list_with_pending_candidates M s = (rl, s') \<Longrightarrow> minv s \<Longrightarrow> minv s' \<and> mabs s' = mabs s \<and>
      (\<forall>as. rl = Inr as \<longrightarrow> set as = {a. \<exists>m. mabs s a = Some m \<and> m_has_pending_candidate m})"
    and cas_law: "ms_update_last_auth_timestamp_cas M a ts now s = (rb, s') \<Longrightarrow> minv s \<Longrightarrow> minv s' \<and>
      (case rb of
         Inr False \<Rightarrow> mabs s' = mabs s \<and> (\<exists>m t. mabs s a = Some m \<and> m_last_auth_timestamp m = Some t \<and> ts \<le> t)
       | Inr True \<Rightarrow> (\<exists>m. mabs s a = Some m \<and> (\<forall>t. m_last_auth_timestamp m = Some t \<longrightarrow> t < ts) \<and>
           mabs s' = (mabs s) (a := Some (m \<lparr> m_last_auth_timestamp := Some ts, m_updated_at := now \<rparr>)))
       | Inl _ \<Rightarrow> mabs s' = mabs s \<or> (\<exists>m. mabs s a = Some m \<and> (\<forall>t. m_last_auth_timestamp m = Some t \<longrightarrow> t < ts) \<and>
           mabs s' = (mabs s) (a := Some (m \<lparr> m_last_auth_timestamp := Some ts, m_updated_at := now \<rparr>))))"
    and find_law: "ms_find_by_cosigner_commitment M c s = (rl, s') \<Longrightarrow> minv s \<Longrightarrow> minv s' \<and> mabs s' = mabs s \<and>
      (\<forall>as. rl = Inr as \<longrightarrow> set as = {a. \<exists>m. mabs s a = Some m \<and> c \<in> set (lookup_commitments (m_auth m))})"
begin

text \<open>The timestamp of the last authenticated request of an account is at least \<open>ts\<close>.\<close>

definition seen :: "string \<Rightarrow> int \<Rightarrow> 'ms \<Rightarrow> bool" where
  "seen a ts s \<longleftrightarrow> minv s \<and> (\<exists>m t. mabs s a = Some m \<and> m_last_auth_timestamp m = Some t \<and> ts \<le> t)"

lemma cas_refuses_seen:
  "seen a ts s \<Longrightarrow> ts' \<le> ts \<Longrightarrow> ms_update_last_auth_timestamp_cas M a ts' now s = (rb, s') \<Longrightarrow> rb \<noteq> Inr True"
  using cas_law[of a ts' now s rb s'] by (auto simp: seen_def split: sum.splits bool.splits)

lemma cas_marks_seen:
  "minv s \<Longrightarrow> ms_update_last_auth_timestamp_cas M a ts now s = (Inr True, s') \<Longrightarrow> seen a ts s'"
  using cas_law[of a ts now s "Inr True" s'] by (auto simp: seen_def)

lemma seen_cas: "keepsS (seen a ts) (ms_update_last_auth_timestamp_cas M b ts' now)"
proof (rule keepsSI)
  fix s assume s: "seen a ts s"
  obtain r s' where run: "ms_update_last_auth_timestamp_cas M b ts' now s = (r, s')" by fastforce
  have "minv s' \<and> (mabs s' = mabs s \<or> (\<exists>m. mabs s b = Some m \<and>
      (\<forall>t. m_last_auth_timestamp m = Some t \<longrightarrow> t < ts') \<and>
      mabs s' = (mabs s) (b := Some (m \<lparr> m_last_auth_timestamp := Some ts', m_updated_at := now \<rparr>))))"
    using cas_law[OF run] s by (auto simp: seen_def split: sum.splits bool.splits)
  with s have "seen a ts s'" by (fastforce simp: seen_def)
  then show "seen a ts (snd (ms_update_last_auth_timestamp_cas M b ts' now s))" by (simp add: run)
qed

lemma quietI:
  assumes "\<And>s r s'. m s = (r, s') \<Longrightarrow> minv s \<Longrightarrow> minv s' \<and> mabs s' = mabs s"
  shows "keepsS (seen a ts) m"
proof (rule keepsSI)
  fix s assume s: "seen a ts s"
  then show "seen a ts (snd (m s))" using assms[of s "fst (m s)" "snd (m s)"] by (simp add: seen_def)
qed

lemma seen_get: "keepsS (seen a ts) (ms_get M b)"
  by (rule quietI) (use get_law in blast)

lemma seen_list_pending: "keepsS (seen a ts) (ms_list_with_pending_candidates M)"
  by (rule quietI) (use list_pending_law in blast)

lemma seen_find: "keepsS (seen a ts) (ms_find_by_cosigner_commitment M c)"
  by (rule quietI) (use find_law in blast)

text \<open>Writing back what was read, with the timestamp kept, keeps what was seen.\<close>

lemma seen_set:
  assumes "seen a ts s" and "ms_set M m s = (r, s')"
    and "\<And>m0. mabs s (m_account_id m) = Some m0 \<Longrightarrow> m_last_auth_timestamp m = m_last_auth_timestamp m0"
  shows "seen a ts s'"
  using set_law[OF assms(2)] assms(1,3) by (auto simp: seen_def)

lemma get_modify_set:
  assumes "seen a ts s" and "\<And>m. m_account_id (f m) = m_account_id m" "\<And>m. m_last_auth_timestamp (f m) = m_last_auth_timestamp m"
  shows "seen a ts (snd (bindS (ms_get M b) (\<lambda>r. bindS (liftS (ok_or e r)) (\<lambda>m. if p m then okS () else ms_set M (f m))) s))"
proof -
  obtain r s1 where g: "ms_get M b s = (r, s1)" by fastforce
  have s1: "seen a ts s1" using keepsSD[OF seen_get assms(1), of b] g by simp
  show ?thesis
  proof (cases "\<exists>m. r = Inr (Some m) \<and> \<not> p m")
    case True
    then obtain m where m: "r = Inr (Some m)" "\<not> p m" by blast
    obtain r2 s2 where w: "ms_set M (f m) s1 = (r2, s2)" by fastforce
    have "mabs s1 b = Some m" "minv s1"
      using get_law[OF g] m assms(1) by (auto simp: seen_def)
    then have "mabs s1 (m_account_id (f m)) = Some m" using key_law assms(2) by metis
    then have "seen a ts s2" using seen_set[OF s1 w] assms(3) by auto
    then show ?thesis using g m w by (simp add: bindS_def)
  next
    case False
    then show ?thesis
      using g s1 by (auto simp: bindS_def split: sum.splits option.splits elim!: ok_or.elims)
  qed
qed

lemma seen_update_auth: "keepsS (seen a ts) (ms_update_auth M b na now)"
  unfolding ms_update_auth_def by (rule keepsSI, rule get_modify_set) simp_all

lemma seen_set_pending: "keepsS (seen a ts) (ms_set_has_pending_candidate M b h now)"
  unfolding ms_set_has_pending_candidate_def by (rule keepsSI, rule get_modify_set) simp_all

end

section \<open>The filesystem store fulfils it\<close>

definition meta_inv :: "meta_fs \<Rightarrow> bool" where
  "meta_inv s \<longleftrightarrow> dir_wf (mf_cache s) \<and> (\<forall>a m. dir_get (mf_cache s) a = Some m \<longrightarrow> m_account_id m = a)"

definition meta_view :: "meta_fs \<Rightarrow> string \<Rightarrow> account_metadata option" where
  "meta_view s = dir_get (mf_cache s)"

lemma keepsS_on_meta_fs: "(\<And>s fs. P s \<Longrightarrow> P (s \<lparr> mf_fs := fs \<rparr>)) \<Longrightarrow> keepsS P (on_meta_fs m)"
  by (auto intro!: keepsSI simp: on_meta_fs_def split: prod.splits)

lemma meta_persist_cache: "mf_cache (snd (meta_persist c s)) = mf_cache s"
proof -
  let ?P = "\<lambda>t. mf_cache t = mf_cache s"
  have on: "keepsS ?P (on_meta_fs m)" for m :: "(meta_cache fsys, string, 'a) comp"
    by (rule keepsS_on_meta_fs) simp
  have w: "keepsS ?P (meta_write_temp temp p c)" for temp p
    by (auto simp: meta_write_temp_def intro!: keeps on)
  have "keepsS ?P (\<lambda>s1. meta_write_temp (temp_name nanos s1) (mf_file_path s1) c (s1 \<lparr> mf_counter := u64_add (mf_counter s1) 1 \<rparr>))" for nanos
    using w by (auto simp: keepsS_def)
  then have "keepsS ?P (bindS (case path_parent (mf_file_path s) of
              None \<Rightarrow> okS ()
            | Some parent \<Rightarrow> err_prefix ''Failed to create metadata directory: '' (on_meta_fs (fs_create_dir_all parent))) (\<lambda>_.
     bindS (on_meta_fs fs_now) (\<lambda>nanos s1.
       meta_write_temp (temp_name nanos s1) (mf_file_path s1) c (s1 \<lparr> mf_counter := u64_add (mf_counter s1) 1 \<rparr>))))"
    by (intro keepsS_bindS on) (auto intro!: keeps on split: option.splits)
  then show ?thesis unfolding meta_persist_def by (rule keepsSD) simp
qed

lemma meta_set_cache: "mf_cache (snd (meta_set m s)) = dir_put (m_account_id m) m (mf_cache s)"
  by (simp add: meta_set_def Let_def meta_persist_cache)

lemma meta_cas_cases:
  assumes "meta_update_last_auth_timestamp_cas a ts now s = (r, s')"
  obtains (missing) e where "r = Inl e" "s' = s" "dir_get (mf_cache s) a = None"
  | (stale) m t where "r = Inr False" "s' = s" "dir_get (mf_cache s) a = Some m" "m_last_auth_timestamp m = Some t" "ts \<le> t"
  | (updated) m where "r \<noteq> Inr False" "dir_get (mf_cache s) a = Some m" "\<And>t. m_last_auth_timestamp m = Some t \<Longrightarrow> t < ts"
      "mf_cache s' = dir_put a (m \<lparr> m_last_auth_timestamp := Some ts, m_updated_at := now \<rparr>) (mf_cache s)"
proof (cases "dir_get (mf_cache s) a")
  case None
  then show ?thesis using assms missing by (auto simp: meta_update_last_auth_timestamp_cas_def)
next
  case (Some m)
  let ?m = "m \<lparr> m_last_auth_timestamp := Some ts, m_updated_at := now \<rparr>"
  let ?s = "s \<lparr> mf_cache := dir_put a ?m (mf_cache s) \<rparr>"
  show ?thesis
  proof (cases "\<exists>t. m_last_auth_timestamp m = Some t \<and> ts \<le> t")
    case True
    then show ?thesis using assms Some stale by (auto simp: meta_update_last_auth_timestamp_cas_def)
  next
    case False
    have "bindS (meta_persist (mf_cache ?s)) (\<lambda>_. okS True) ?s = (r, s')"
      using assms Some False by (cases "m_last_auth_timestamp m") (auto simp: meta_update_last_auth_timestamp_cas_def Let_def)
    then have "snd (meta_persist (mf_cache ?s) ?s) = s'" "r \<noteq> Inr False"
      by (auto simp: bindS_def split: prod.splits sum.splits)
    then show ?thesis
      using updated[OF _ Some] False meta_persist_cache[of "mf_cache ?s" ?s] by (auto simp: not_le)
  qed
qed

lemma meta_inv_put:
  "meta_inv s \<Longrightarrow> m_account_id m = a \<Longrightarrow> mf_cache s' = dir_put a m (mf_cache s) \<Longrightarrow>
     meta_inv s' \<and> meta_view s' = (meta_view s) (a := Some m)"
  by (auto simp: meta_inv_def meta_view_def fun_eq_iff)

lemma keys_of_filter:
  "dir_wf d \<Longrightarrow> fst ` {x \<in> set d. p (snd x)} = {a. \<exists>m. dir_get d a = Some m \<and> p m}"
  by (force dest: dir_get_in_set in_set_dir_get)

interpretation meta_store: metadata_contract filesystem_metadata_store meta_inv meta_view
proof
  fix s a m assume "meta_inv s" "meta_view s a = Some m"
  then show "m_account_id m = a" by (simp add: meta_inv_def meta_view_def)
next
  fix a s rg s' assume "ms_get filesystem_metadata_store a s = (rg, s')" "meta_inv s"
  then show "meta_inv s' \<and> meta_view s' = meta_view s \<and> (\<forall>m. rg = Inr m \<longrightarrow> m = meta_view s a)"
    by (auto simp: filesystem_metadata_store_def meta_get_def meta_view_def)
next
  fix m s ru s' assume "ms_set filesystem_metadata_store m s = (ru, s')" "meta_inv s"
  then show "meta_inv s' \<and> (meta_view s' = (meta_view s) (m_account_id m := Some m) \<or> \<not> is_ok ru \<and> meta_view s' = meta_view s)"
    using meta_set_cache[of m s] meta_inv_put[of s m "m_account_id m" s'] by (auto simp: filesystem_metadata_store_def)
next
  fix s rl s' assume "ms_list_with_pending_candidates filesystem_metadata_store s = (rl, s')" "meta_inv s"
  then show "meta_inv s' \<and> meta_view s' = meta_view s \<and>
      (\<forall>as. rl = Inr as \<longrightarrow> set as = {a. \<exists>m. meta_view s a = Some m \<and> m_has_pending_candidate m})"
    using keys_of_filter[of "mf_cache s" m_has_pending_candidate]
    by (auto simp: filesystem_metadata_store_def meta_list_with_pending_candidates_def meta_view_def meta_inv_def case_prod_beta)
next
  fix a ts now s rb s'
  assume "ms_update_last_auth_timestamp_cas filesystem_metadata_store a ts now s = (rb, s')" and inv: "meta_inv s"
  then have "meta_update_last_auth_timestamp_cas a ts now s = (rb, s')" by (simp add: filesystem_metadata_store_def)
  then show "meta_inv s' \<and> (case rb of
         Inr False \<Rightarrow> meta_view s' = meta_view s \<and> (\<exists>m t. meta_view s a = Some m \<and> m_last_auth_timestamp m = Some t \<and> ts \<le> t)
       | Inr True \<Rightarrow> (\<exists>m. meta_view s a = Some m \<and> (\<forall>t. m_last_auth_timestamp m = Some t \<longrightarrow> t < ts) \<and>
           meta_view s' = (meta_view s) (a := Some (m \<lparr> m_last_auth_timestamp := Some ts, m_updated_at := now \<rparr>)))
       | Inl _ \<Rightarrow> meta_view s' = meta_view s \<or> (\<exists>m. meta_view s a = Some m \<and> (\<forall>t. m_last_auth_timestamp m = Some t \<longrightarrow> t < ts) \<and>
           meta_view s' = (meta_view s) (a := Some (m \<lparr> m_last_auth_timestamp := Some ts, m_updated_at := now \<rparr>))))"
  proof (cases rule: meta_cas_cases)
    case (updated m)
    let ?m = "m \<lparr> m_last_auth_timestamp := Some ts, m_updated_at := now \<rparr>"
    have "m_account_id ?m = a" using updated(2) inv by (simp add: meta_inv_def)
    from meta_inv_put[OF inv this updated(4)] show ?thesis
      using updated(1-3) by (auto simp: meta_view_def split: sum.splits bool.splits)
  qed (use inv in \<open>auto simp: meta_view_def\<close>)
next
  fix c s rl s' assume "ms_find_by_cosigner_commitment filesystem_metadata_store c s = (rl, s')" "meta_inv s"
  then show "meta_inv s' \<and> meta_view s' = meta_view s \<and>
      (\<forall>as. rl = Inr as \<longrightarrow> set as = {a. \<exists>m. meta_view s a = Some m \<and> c \<in> set (lookup_commitments (m_auth m))})"
    using keys_of_filter[of "mf_cache s" "\<lambda>m. c \<in> set (lookup_commitments (m_auth m))"]
    by (auto simp: filesystem_metadata_store_def meta_find_by_cosigner_commitment_def meta_view_def meta_inv_def case_prod_beta)
qed

end
