(* ===== verification/Guardian_Spec.thy ===== *)
theory Guardian_Spec
  imports Guardian_Contract Guardian_Metadata
begin

text \<open>
  What the Guardian promises, without files, signatures or network. An abstract state is the view of
  the storage and the map of account metadata; \<open>gspec\<close> has one rule for each change a service or the
  canonicalization job may make, with the condition under which it may make it. Two
  invariants follow by rule induction: an account never has two candidates, and a timestamp once
  seen stays seen.
\<close>

type_synonym gabs = "gview \<times> (string \<Rightarrow> account_metadata option)"

definition candidates :: "gview \<Rightarrow> string \<Rightarrow> nat set" where
  "candidates v a = {n. \<exists>d. gv_deltas v a n = Some d \<and> is_candidate (d_status d)}"

inductive gspec :: "(string \<Rightarrow> bool) \<Rightarrow> gabs \<Rightarrow> gabs \<Rightarrow> bool" for ok :: "string \<Rightarrow> bool" where
  authenticated: "B a = Some m \<Longrightarrow> (\<And>t. m_last_auth_timestamp m = Some t \<Longrightarrow> t < ts) \<Longrightarrow>
    gspec ok (A, B) (A, B (a \<mapsto> m \<lparr> m_last_auth_timestamp := Some ts, m_updated_at := now \<rparr>))"
| new_account: "B (m_account_id m) = None \<Longrightarrow> ok (m_account_id m) \<Longrightarrow> m_last_auth_timestamp m = None \<Longrightarrow>
    \<not> m_has_pending_candidate m \<Longrightarrow> gspec ok (A, B) (A, B (m_account_id m \<mapsto> m))"
| metadata: "B (m_account_id m') = Some m \<Longrightarrow> m_last_auth_timestamp m' = m_last_auth_timestamp m \<Longrightarrow>
    gspec ok (A, B) (A, B (m_account_id m' \<mapsto> m'))"
| state: "ok (so_account_id x) \<Longrightarrow> gspec ok (A, B) (put_state x A, B)"
| candidate: "B a = Some m \<Longrightarrow> d_account_id d = a \<Longrightarrow> is_candidate (d_status d) \<Longrightarrow> d_nonce d < u64_bound \<Longrightarrow>
    candidates A a = {} \<Longrightarrow> gv_states A a = Some x \<Longrightarrow> d_prev_commitment d = so_commitment x \<Longrightarrow>
    gspec ok (A, B) (put_delta a (d_nonce d) (Some d) A, B)"
| canonical: "B a = Some m \<Longrightarrow> d_account_id d = a \<Longrightarrow> is_canonical (d_status d) \<Longrightarrow> d_nonce d < u64_bound \<Longrightarrow>
    gspec ok (A, B) (put_delta a (d_nonce d) (Some d) A, B)"
| retried: "gv_deltas A a n = Some d \<Longrightarrow> candidates A a \<subseteq> {n} \<Longrightarrow>
    gspec ok (A, B) (put_delta a n (Some (d \<lparr> d_status := st \<rparr>)) A, B)"
| dropped: "gspec ok (A, B) (put_delta a n None A, B)"
| proposed: "d_account_id d = a \<Longrightarrow> is_pending (d_status d) \<Longrightarrow> gspec ok (A, B) (put_prop a h (Some d) A, B)"
| unproposed: "gspec ok (A, B) (put_prop a h None A, B)"

section \<open>Invariants of the specification\<close>

text \<open>Every account of the metadata has a valid name, the objects lie under their own keys, one candidate per account.\<close>

definition gabs_ok :: "(string \<Rightarrow> bool) \<Rightarrow> gabs \<Rightarrow> bool" where
  "gabs_ok ok x \<longleftrightarrow>
     (\<forall>a m. snd x a = Some m \<longrightarrow> ok a) \<and>
     (\<forall>a n d. gv_deltas (fst x) a n = Some d \<longrightarrow> d_account_id d = a \<and> d_nonce d = n \<and> n < u64_bound) \<and>
     (\<forall>a h d. gv_props (fst x) a h = Some d \<longrightarrow> d_account_id d = a) \<and>
     (\<forall>a n n'. n \<in> candidates (fst x) a \<longrightarrow> n' \<in> candidates (fst x) a \<longrightarrow> n = n')"

lemma gabs_okD:
  assumes "gabs_ok ok x"
  shows "snd x a = Some m \<Longrightarrow> ok a"
    and "gv_deltas (fst x) a n = Some d \<Longrightarrow> d_account_id d = a \<and> d_nonce d = n \<and> n < u64_bound"
    and "gv_props (fst x) a h = Some d \<Longrightarrow> d_account_id d = a"
    and "n \<in> candidates (fst x) a \<Longrightarrow> candidates (fst x) a = {n}"
  using assms unfolding gabs_ok_def by blast+

lemma candidates_put [simp]:
  "candidates (put_state x v) a = candidates v a" "candidates (put_prop b h p v) a = candidates v a"
  "candidates (put_delta b n d v) a =
     (if a = b then candidates v a - {n} \<union> (if \<exists>e. d = Some e \<and> is_candidate (d_status e) then {n} else {})
      else candidates v a)"
  by (auto simp: candidates_def)

lemma canonical_not_candidate [simp]: "is_canonical st \<Longrightarrow> \<not> is_candidate st"
  by (cases st) auto

lemma gspec_ok: "gspec ok x y \<Longrightarrow> gabs_ok ok x \<Longrightarrow> gabs_ok ok y"
proof (induction rule: gspec.induct)
  case (candidate B a m d A x)
  then show ?case by (auto simp: gabs_ok_def)
next
  case (canonical B a m d A)
  then show ?case by (auto simp: gabs_ok_def)
next
  case (retried A a n d B st)
  then show ?case by (auto simp: gabs_ok_def subset_singleton_iff)
qed (auto simp: gabs_ok_def)

lemma gspec_star_ok: "(gspec ok)\<^sup>*\<^sup>* x y \<Longrightarrow> gabs_ok ok x \<Longrightarrow> gabs_ok ok y"
  by (induction rule: rtranclp_induct) (auto intro: gspec_ok)

text \<open>The last authentication of the account carried a timestamp of at least \<open>ts\<close>.\<close>

definition ts_seen :: "string \<Rightarrow> int \<Rightarrow> gabs \<Rightarrow> bool" where
  "ts_seen a ts x \<longleftrightarrow> (\<exists>m t. snd x a = Some m \<and> m_last_auth_timestamp m = Some t \<and> ts \<le> t)"

lemma gspec_seen: "gspec ok x y \<Longrightarrow> ts_seen a ts x \<Longrightarrow> ts_seen a ts y"
  by (induction rule: gspec.induct) (fastforce simp: ts_seen_def)+

lemma gspec_star_seen: "(gspec ok)\<^sup>*\<^sup>* x y \<Longrightarrow> ts_seen a ts x \<Longrightarrow> ts_seen a ts y"
  by (induction rule: rtranclp_induct) (auto intro: gspec_seen)

end
