(* ===== verification/Guardian_Services.thy ===== *)
theory Guardian_Services
  imports Guardian_Metadata Guardian_Contract
begin

text \<open>
  The services of the Guardian (\<open>server/src/services/\<close>): authentication of a request with replay
  protection (\<open>resolve_account\<close>), configuration of an account, pushing and committing deltas,
  proposals with their signatures, and the reads. A service is a computation on the application
  state: storage, metadata, network client, clock. \<open>genv\<close> holds what never changes, the trait
  objects among it (\<open>builder/state.rs\<close>); \<open>network_client\<close> is the trait of \<open>network/mod.rs\<close> and \<open>ack_registry\<close>
  the keys of \<open>ack/mod.rs\<close>.
\<close>

section \<open>The application\<close>

record chrono_ops =
  to_rfc3339 :: "int \<Rightarrow> string"
  parse_from_rfc3339 :: "string \<Rightarrow> int option"
  rfc3339_error :: "string \<Rightarrow> string"

record 'nc network_client =
  nc_get_state_commitment :: "'nc \<Rightarrow> string \<Rightarrow> json \<Rightarrow> string + string"
  nc_verify_state :: "string \<Rightarrow> json \<Rightarrow> ('nc, string, unit) comp"
  nc_verify_delta :: "'nc \<Rightarrow> string \<Rightarrow> json \<Rightarrow> json \<Rightarrow> string + unit"
  nc_apply_delta :: "'nc \<Rightarrow> json \<Rightarrow> json \<Rightarrow> string + json \<times> string"
  nc_merge_deltas :: "'nc \<Rightarrow> json list \<Rightarrow> string + json"
  nc_delta_proposal_id :: "'nc \<Rightarrow> string \<Rightarrow> nat \<Rightarrow> json \<Rightarrow> string + string"
  nc_validate_credential :: "'nc \<Rightarrow> json \<Rightarrow> credentials \<Rightarrow> auth \<Rightarrow> string + unit"
  nc_validate_guardian_commitment :: "'nc \<Rightarrow> json \<Rightarrow> string \<Rightarrow> string + unit"
  nc_should_update_auth :: "json \<Rightarrow> auth \<Rightarrow> ('nc, string, auth option) comp"

text \<open>A signer holds its key in the keystore; \<open>as_sign\<close> is the keystore's signature as bytes.\<close>

record ack_signer =
  as_pubkey_hex :: string
  as_commitment_hex :: string
  as_sign :: "mword \<Rightarrow> string + string"

record ack_registry =
  ack_falcon :: ack_signer
  ack_ecdsa :: ack_signer

record canonicalization_config =
  check_interval_seconds :: nat
  max_retries :: nat
  submission_grace_period_seconds :: nat

definition canonicalization_default :: canonicalization_config where
  "canonicalization_default =
     \<lparr> check_interval_seconds = 10, max_retries = 18, submission_grace_period_seconds = 600 \<rparr>"

definition canonicalization_new :: "nat \<Rightarrow> nat \<Rightarrow> canonicalization_config" where
  "canonicalization_new interval retries =
     \<lparr> check_interval_seconds = interval, max_retries = retries,
       submission_grace_period_seconds = submission_grace_period_seconds canonicalization_default \<rparr>"

record ('st, 'ms, 'nc) genv =
  ge_storage :: "'st storage_backend"
  ge_meta :: "'ms metadata_store"
  ge_net :: "'nc network_client"
  ge_ack :: ack_registry
  ge_chrono :: chrono_ops
  ge_canonicalization :: "canonicalization_config option"
  ge_env :: "string \<Rightarrow> string option"

record ('st, 'ms, 'nc) gapp =
  ga_storage :: 'st
  ga_meta :: 'ms
  ga_net :: 'nc
  ga_clock :: "int list"

type_synonym ('st, 'ms, 'nc, 'a) service = "(('st, 'ms, 'nc) gapp, guardian_error, 'a) comp"

definition on_storage :: "('st, 'e, 'a) comp \<Rightarrow> (('st, 'ms, 'nc) gapp, 'e, 'a) comp" where
  "on_storage m s = (case m (ga_storage s) of (r, st) \<Rightarrow> (r, s \<lparr> ga_storage := st \<rparr>))"

definition on_meta :: "('ms, 'e, 'a) comp \<Rightarrow> (('st, 'ms, 'nc) gapp, 'e, 'a) comp" where
  "on_meta m s = (case m (ga_meta s) of (r, ms) \<Rightarrow> (r, s \<lparr> ga_meta := ms \<rparr>))"

definition on_net :: "('nc, 'e, 'a) comp \<Rightarrow> (('st, 'ms, 'nc) gapp, 'e, 'a) comp" where
  "on_net m s = (case m (ga_net s) of (r, nc) \<Rightarrow> (r, s \<lparr> ga_net := nc \<rparr>))"

definition ask_net :: "('nc \<Rightarrow> 'e + 'a) \<Rightarrow> (('st, 'ms, 'nc) gapp, 'e, 'a) comp" where
  "ask_net f s = (f (ga_net s), s)"

text \<open>The clock returns the next instant (nanoseconds); a script that ran out keeps returning zero.\<close>

definition clock_now :: "(('st, 'ms, 'nc) gapp, 'e, int) comp" where
  "clock_now s = (case ga_clock s of [] \<Rightarrow> (Inr 0, s) | t # ts \<Rightarrow> (Inr t, s \<lparr> ga_clock := ts \<rparr>))"

definition now_rfc3339 :: "('st, 'ms, 'nc) genv \<Rightarrow> (('st, 'ms, 'nc) gapp, 'e, string) comp" where
  "now_rfc3339 G = bindS clock_now (\<lambda>t. okS (to_rfc3339 (ge_chrono G) t))"

abbreviation storage_err :: "string \<Rightarrow> ('s, string, 'a) comp \<Rightarrow> ('s, guardian_error, 'a) comp" where
  "storage_err msg \<equiv> map_errS (\<lambda>e. StorageError (msg @ e))"

section \<open>Acknowledgement keys (ack/)\<close>

definition ack_signer_of :: "ack_registry \<Rightarrow> signature_scheme \<Rightarrow> ack_signer" where
  "ack_signer_of A scheme = (case scheme of Falcon \<Rightarrow> ack_falcon A | Ecdsa \<Rightarrow> ack_ecdsa A)"

definition ack_pubkey :: "ack_registry \<Rightarrow> signature_scheme \<Rightarrow> string" where
  "ack_pubkey A scheme = as_pubkey_hex (ack_signer_of A scheme)"

definition ack_commitment :: "ack_registry \<Rightarrow> signature_scheme \<Rightarrow> string" where
  "ack_commitment A scheme = as_commitment_hex (ack_signer_of A scheme)"

definition signer_ack_delta ::
  "('sig, 'pk, 'su, 'n) externals \<Rightarrow> ack_signer \<Rightarrow> delta_object \<Rightarrow> guardian_error + delta_object" where
  "signer_ack_delta X k d =
     bind_res (map_err (\<lambda>e. InvalidDelta (''Failed to deserialize TransactionSummary: '' @ e))
       (tx_summary_from_json X (d_payload d))) (\<lambda>summary.
     bind_res (map_err SigningError (as_sign k (summary_to_commitment X summary))) (\<lambda>sg.
     Inr (d \<lparr> d_ack_sig := hex_encode X sg \<rparr>)))"

definition ack_delta ::
  "('sig, 'pk, 'su, 'n) externals \<Rightarrow> ack_registry \<Rightarrow> delta_object \<Rightarrow> signature_scheme \<Rightarrow> guardian_error + delta_object" where
  "ack_delta X A d scheme = signer_ack_delta X (ack_signer_of A scheme) d"

section \<open>Authentication of a request (services/mod.rs)\<close>

text \<open>Arithmetic of \<open>i64\<close> in the release profile: results wrap.\<close>

definition i64_wrap :: "int \<Rightarrow> int" where
  "i64_wrap x = (x + 2 ^ 63) mod 2 ^ 64 - 2 ^ 63"

definition i64_abs :: "int \<Rightarrow> int" where
  "i64_abs x = i64_wrap (abs x)"

definition timestamp_millis :: "int \<Rightarrow> int" where
  "timestamp_millis t = t div 1000000"

definition time_diff_ms :: "int \<Rightarrow> int \<Rightarrow> int" where
  "time_diff_ms now ts = i64_abs (i64_wrap (timestamp_millis now - ts))"

definition show_int :: "int \<Rightarrow> string" where
  "show_int i = (if i < 0 then ''-'' @ show_nat (nat (- i)) else show_nat (nat i))"

definition resolve_account ::
  "('sig, 'pk, 'su, 'n) externals \<Rightarrow> ('sig, 'esig, 'epk) ecdsa_auth \<Rightarrow> ('st, 'ms, 'nc) genv \<Rightarrow> string \<Rightarrow> credentials
   \<Rightarrow> ('st, 'ms, 'nc, account_metadata) service" where
  "resolve_account X E G account_id creds =
     bindS (storage_err ''Failed to check account: '' (on_meta (ms_get (ge_meta G) account_id))) (\<lambda>found.
     bindS (liftS (ok_or (AccountNotFound account_id) found)) (\<lambda>metadata.
     bindS clock_now (\<lambda>now.
     let diff = time_diff_ms now (cr_timestamp creds) in
     if MAX_TIMESTAMP_SKEW_MS < diff
     then errS (AuthenticationFailed (''Request timestamp outside allowed window: '' @ show_int diff @
            ''ms drift (max '' @ show_int MAX_TIMESTAMP_SKEW_MS @ ''ms)''))
     else if is_evm (m_network_config metadata) then errS (UnsupportedForNetwork ''evm'' ''delta_api'')
     else
     bindS (case m_auth metadata of
              EvmEcdsa _ \<Rightarrow> errS (UnsupportedForNetwork ''evm'' ''delta_api'')
            | _ \<Rightarrow> liftS (map_err AuthenticationFailed (auth_verify X E (m_auth metadata) account_id creds))) (\<lambda>_.
     bindS (now_rfc3339 G) (\<lambda>now_str.
     bindS (storage_err ''Failed to update last auth timestamp: ''
       (on_meta (ms_update_last_auth_timestamp_cas (ge_meta G) account_id (cr_timestamp creds) now_str))) (\<lambda>updated.
     if \<not> updated
     then errS (AuthenticationFailed ''Replay attack detected: timestamp must be greater than previous request'')
     else okS metadata))))))"

section \<open>Normalisation of proposal payloads (services/mod.rs)\<close>

definition VALID_PROPOSAL_TYPES :: "string list" where
  "VALID_PROPOSAL_TYPES =
     [''add_signer'', ''remove_signer'', ''change_threshold'', ''update_procedure_threshold'', ''switch_guardian'',
      ''consume_notes'', ''p2id'']"

fun join_with :: "string \<Rightarrow> string list \<Rightarrow> string" where
  "join_with sep [] = []"
| "join_with sep [x] = x"
| "join_with sep (x # y # xs) = x @ sep @ join_with sep (y # xs)"

definition validate_tx_summary :: "('sig, 'pk, 'su, 'n) externals \<Rightarrow> json \<Rightarrow> guardian_error + unit" where
  "validate_tx_summary X v =
     bind_res (ok_or (InvalidDelta ''tx_summary must be an object with 'data' field'') (json_object v)) (\<lambda>_.
     bind_res (ok_or (InvalidDelta ''tx_summary.data must be a string'') (json_get_str v ''data'')) (\<lambda>data.
     bind_res (map_err (\<lambda>e. InvalidDelta (''tx_summary.data is not valid base64: '' @ e)) (b64_decode X data)) (\<lambda>_. Inr ())))"

definition normalize_amount :: "(string \<times> json) list \<Rightarrow> (string \<times> json) list" where
  "normalize_amount obj =
     (case map_of obj ''amount'' of
        None \<Rightarrow> obj
      | Some amount \<Rightarrow>
         (case json_u64 amount of
            Some n \<Rightarrow> json_insert ''amount'' (JString (show_nat n)) obj
          | None \<Rightarrow> (case json_i64 amount of
              Some i \<Rightarrow> json_insert ''amount'' (JString (show_int i)) obj | None \<Rightarrow> obj)))"

definition normalize_required_signatures :: "(string \<times> json) list \<Rightarrow> guardian_error + (string \<times> json) list" where
  "normalize_required_signatures obj =
     (case map_of obj ''required_signatures'' of
        None \<Rightarrow> Inr obj
      | Some v \<Rightarrow>
          bind_res (case json_u64 v of
              Some n \<Rightarrow> Inr n
            | None \<Rightarrow>
               (case json_str v of
                  Some text \<Rightarrow> map_err (\<lambda>_. InvalidDelta ''metadata.required_signatures must be a positive integer'') (parse_u64 text)
                | None \<Rightarrow> Inl (InvalidDelta ''metadata.required_signatures must be a positive integer''))) (\<lambda>n.
          if n = 0 then Inl (InvalidDelta ''metadata.required_signatures must be greater than zero'')
          else Inr (json_insert ''required_signatures'' (JNum (PosInt n)) obj)))"

definition normalize_metadata :: "json \<Rightarrow> guardian_error + json" where
  "normalize_metadata v =
     bind_res (ok_or (InvalidDelta ''metadata must be a JSON object'') (json_object v)) (\<lambda>obj.
     bind_res (ok_or (InvalidDelta ''metadata.proposal_type is required'') (json_get_str v ''proposal_type'')) (\<lambda>pt.
     if pt \<notin> set VALID_PROPOSAL_TYPES
     then Inl (InvalidDelta (''Unknown proposal_type '' @ quoted pt @ ''. Must be one of: '' @ join_with '', '' VALID_PROPOSAL_TYPES))
     else
     (let obj1 = json_insert ''proposal_type'' (JString pt) obj;
          obj2 = (if map_of obj1 ''description'' = None then json_insert ''description'' (JString []) obj1 else obj1) in
      bind_res (normalize_required_signatures (normalize_amount obj2)) (\<lambda>obj3. Inr (JObject obj3)))))"

definition normalize_payload :: "('sig, 'pk, 'su, 'n) externals \<Rightarrow> json \<Rightarrow> guardian_error + json" where
  "normalize_payload X payload =
     bind_res (ok_or (InvalidDelta ''delta_payload must be an object'') (json_object payload)) (\<lambda>obj.
     bind_res (ok_or (InvalidDelta ''Missing 'tx_summary' field'') (map_of obj ''tx_summary'')) (\<lambda>tx_summary.
     bind_res (validate_tx_summary X tx_summary) (\<lambda>_.
     bind_res (ok_or (InvalidDelta ''Missing 'metadata' field'') (map_of obj ''metadata'')) (\<lambda>metadata.
     bind_res (normalize_metadata metadata) (\<lambda>normalized.
     Inr (JObject (json_insert ''metadata'' normalized (AList.delete ''metadata'' obj))))))))"

section \<open>Configuration of an account (configure-account.rs)\<close>

record configure_account_params =
  ca_account_id :: string
  ca_auth :: auth
  ca_network_config :: network_config
  ca_initial_state :: json
  ca_credential :: credentials

definition configure_account ::
  "('sig, 'pk, 'su, 'n) externals \<Rightarrow> ('sig, 'esig, 'epk) ecdsa_auth \<Rightarrow> ('st, 'ms, 'nc) genv \<Rightarrow> configure_account_params
   \<Rightarrow> ('st, 'ms, 'nc, string \<times> string \<times> string) service" where
  "configure_account X E G p =
     bindS (liftS (map_err InvalidNetworkConfig (validate_for_account (ca_network_config p) (ca_account_id p)))) (\<lambda>network_config.
     if is_evm network_config \<or> (case ca_auth p of EvmEcdsa _ \<Rightarrow> True | _ \<Rightarrow> False)
     then errS (UnsupportedForNetwork ''evm'' ''configure'')
     else
     bindS (storage_err ''Failed to check existing account: '' (on_meta (ms_get (ge_meta G) (ca_account_id p)))) (\<lambda>existing.
     let scheme = auth_scheme (ca_auth p) in
     bindS (map_errS (\<lambda>e. NetworkError (''Failed to validate credential: '' @ e))
       (ask_net (\<lambda>nc. nc_validate_credential (ge_net G) nc (ca_initial_state p) (ca_credential p) (ca_auth p)))) (\<lambda>_.
     bindS (map_errS (\<lambda>e. AuthorizationFailed (''Unauthorized account configuration: '' @ e))
       (ask_net (\<lambda>nc. nc_validate_guardian_commitment (ge_net G) nc (ca_initial_state p) (ack_commitment (ge_ack G) scheme)))) (\<lambda>_.
     bindS (liftS (map_err (\<lambda>e. AuthenticationFailed (''Signature verification failed: '' @ e))
       (auth_verify X E (ca_auth p) (ca_account_id p) (ca_credential p)))) (\<lambda>_.
     bindS (map_errS NetworkError
       (ask_net (\<lambda>nc. nc_get_state_commitment (ge_net G) nc (ca_account_id p) (ca_initial_state p)))) (\<lambda>commitment.
     bindS (now_rfc3339 G) (\<lambda>now.
     let created_at = (case existing of Some m \<Rightarrow> m_created_at m | None \<Rightarrow> now) in
     bindS (storage_err ''Failed to submit initial state: '' (on_storage (submit_state (ge_storage G)
       \<lparr> so_account_id = ca_account_id p, so_state_json = ca_initial_state p, so_commitment = commitment,
         so_created_at = created_at, so_updated_at = now, so_auth_scheme = scheme_as_str scheme \<rparr>))) (\<lambda>_.
     bindS (storage_err ''Failed to store metadata: '' (on_meta (ms_set (ge_meta G)
       \<lparr> m_account_id = ca_account_id p, m_auth = ca_auth p, m_network_config = network_config,
         m_created_at = created_at, m_updated_at = now,
         m_has_pending_candidate = (case existing of Some m \<Rightarrow> m_has_pending_candidate m | None \<Rightarrow> False),
         m_last_auth_timestamp = Option.bind existing m_last_auth_timestamp \<rparr>))) (\<lambda>_.
     okS (ca_account_id p, ack_pubkey (ge_ack G) scheme, ack_commitment (ge_ack G) scheme))))))))))"

section \<open>Deltas (delta-commit.rs, push-delta.rs)\<close>

text \<open>The proposal a delta came from is deleted once the delta is canonical; a failing deletion is logged.\<close>

definition delete_matching_proposal ::
  "('st, 'ms, 'nc) genv \<Rightarrow> delta_object \<Rightarrow> ('st, 'ms, 'nc, unit) service" where
  "delete_matching_proposal G d =
     observeS (ask_net (\<lambda>nc. nc_delta_proposal_id (ge_net G) nc (d_account_id d) (d_nonce d) (d_payload d))) (\<lambda>rid.
     case rid of
       Inl e \<Rightarrow> (okS () :: ('st, 'ms, 'nc, unit) service)
     | Inr i \<Rightarrow>
         observeS (on_storage (pull_delta_proposal (ge_storage G) (d_account_id d) i)) (\<lambda>found.
         case found of
           Inl _ \<Rightarrow> okS ()
         | Inr _ \<Rightarrow> observeS (on_storage (delete_delta_proposal (ge_storage G) (d_account_id d) i)) (\<lambda>_. okS ())))"

datatype delta_commit_strategy = CandidateStrategy | OptimisticStrategy

definition strategy_from_app_state :: "('st, 'ms, 'nc) genv \<Rightarrow> delta_commit_strategy" where
  "strategy_from_app_state G = (if ge_canonicalization G \<noteq> None then CandidateStrategy else OptimisticStrategy)"

definition commit_delta ::
  "('st, 'ms, 'nc) genv \<Rightarrow> delta_commit_strategy \<Rightarrow> state_object \<Rightarrow> string \<Rightarrow> delta_object \<Rightarrow> json \<Rightarrow> string
   \<Rightarrow> ('st, 'ms, 'nc, delta_object) service" where
  "commit_delta G strategy current_state now delta new_state_json new_commitment =
     (case strategy of
        CandidateStrategy \<Rightarrow>
          (let d = delta \<lparr> d_status := status_candidate now \<rparr> in
           bindS (storage_err ''Failed to submit delta: '' (on_storage (submit_delta (ge_storage G) d))) (\<lambda>_.
           bindS (storage_err ''Failed to update metadata: ''
             (on_meta (ms_set_has_pending_candidate (ge_meta G) (d_account_id d) True now))) (\<lambda>_. okS d)))
      | OptimisticStrategy \<Rightarrow>
          (let d = delta \<lparr> d_status := Canonical now \<rparr> in
           bindS (storage_err ''Failed to update state: '' (on_storage (submit_state (ge_storage G)
             \<lparr> so_account_id = d_account_id d, so_state_json = new_state_json, so_commitment = new_commitment,
               so_created_at = so_created_at current_state, so_updated_at = now, so_auth_scheme = [] \<rparr>))) (\<lambda>_.
           bindS (storage_err ''Failed to submit delta: '' (on_storage (submit_delta (ge_storage G) d))) (\<lambda>_.
           bindS (delete_matching_proposal G d) (\<lambda>_. okS d)))))"

definition require_miden :: "account_metadata \<Rightarrow> string \<Rightarrow> ('st, 'ms, 'nc, unit) service" where
  "require_miden metadata operation =
     (if is_evm (m_network_config metadata) then errS (UnsupportedForNetwork ''evm'' operation) else okS ())"

definition push_delta ::
  "('sig, 'pk, 'su, 'n) externals \<Rightarrow> ('sig, 'esig, 'epk) ecdsa_auth \<Rightarrow> ('st, 'ms, 'nc) genv \<Rightarrow> delta_object \<Rightarrow> credentials
   \<Rightarrow> ('st, 'ms, 'nc, delta_object) service" where
  "push_delta X E G delta creds =
     bindS (resolve_account X E G (d_account_id delta) creds) (\<lambda>metadata.
     bindS (require_miden metadata ''push_delta'') (\<lambda>_.
     bindS (storage_err ''Failed to fetch account state: ''
       (on_storage (pull_state (ge_storage G) (d_account_id delta)))) (\<lambda>current_state.
     bindS (storage_err ''Failed to check deltas: ''
       (on_storage (has_pending_candidate (ge_storage G) (d_account_id delta)))) (\<lambda>has_pending.
     if has_pending then errS ConflictPendingDelta
     else if d_prev_commitment delta \<noteq> so_commitment current_state
     then errS (CommitmentMismatch (so_commitment current_state) (d_prev_commitment delta))
     else
     bindS (map_errS InvalidDelta (ask_net (\<lambda>nc.
       nc_verify_delta (ge_net G) nc (so_commitment current_state) (so_state_json current_state) (d_payload delta)))) (\<lambda>_.
     bindS (map_errS InvalidDelta (ask_net (\<lambda>nc.
       nc_apply_delta (ge_net G) nc (so_state_json current_state) (d_payload delta)))) (\<lambda>(new_state_json, new_commitment).
     let scheme = auth_scheme (m_auth metadata) in
     bindS (liftS (ack_delta X (ge_ack G) (delta \<lparr> d_new_commitment := Some new_commitment \<rparr>) scheme)) (\<lambda>acked.
     let result_delta = acked \<lparr> d_ack_pubkey := ack_pubkey (ge_ack G) scheme, d_ack_scheme := scheme_as_str scheme \<rparr> in
     bindS (now_rfc3339 G) (\<lambda>now.
     commit_delta G (strategy_from_app_state G) current_state now result_delta new_state_json new_commitment))))))))"

section \<open>Proposals (push-delta-proposal.rs, sign-delta-proposal.rs)\<close>

definition max_pending_proposals_per_account :: "(string \<Rightarrow> string option) \<Rightarrow> nat" where
  "max_pending_proposals_per_account env =
     (case Option.bind (env ''GUARDIAN_MAX_PENDING_PROPOSALS_PER_ACCOUNT'') (res_ok \<circ> parse_u64) of
        Some n \<Rightarrow> n | None \<Rightarrow> 20)"

definition parse_cosigner_sigs :: "string \<Rightarrow> json list \<Rightarrow> guardian_error + cosigner_signature list" where
  "parse_cosigner_sigs ts sigs =
     collect_res (\<lambda>v. bind_res (ok_or (InvalidDelta ''Invalid signature entry in payload: '') (delta_signature_from_json v))
       (\<lambda>p. Inr \<lparr> cs_signature = ds_signature p, cs_timestamp = ts, cs_signer_id = signer_id p \<rparr>)) sigs"

definition push_delta_proposal ::
  "('sig, 'pk, 'su, 'n) externals \<Rightarrow> ('sig, 'esig, 'epk) ecdsa_auth \<Rightarrow> ('st, 'ms, 'nc) genv \<Rightarrow> string \<Rightarrow> nat \<Rightarrow> json
   \<Rightarrow> credentials \<Rightarrow> ('st, 'ms, 'nc, delta_object \<times> string) service" where
  "push_delta_proposal X E G account_id nonce payload0 creds =
     (if is_evm_account_id account_id \<or> json_get_str payload0 ''kind'' = Some ''evm''
      then errS (UnsupportedForNetwork ''evm'' ''delta_proposal'')
      else
      bindS (liftS (normalize_payload X payload0)) (\<lambda>payload.
      bindS (resolve_account X E G account_id creds) (\<lambda>metadata.
      bindS (require_miden metadata ''delta_proposal'') (\<lambda>_.
      bindS (map_errS (\<lambda>_. StateNotFound account_id) (on_storage (pull_state (ge_storage G) account_id))) (\<lambda>current_state.
      bindS (storage_err ''Failed to check pending candidate: ''
        (on_storage (has_pending_candidate (ge_storage G) account_id))) (\<lambda>has_pending.
      if has_pending then errS ConflictPendingDelta
      else
      bindS (storage_err ''Failed to load pending proposals: ''
        (on_storage (pull_pending_proposals (ge_storage G) account_id))) (\<lambda>pending.
      let limit = max_pending_proposals_per_account (ge_env G) in
      if limit \<le> length pending then errS (PendingProposalsLimit limit)
      else
      bindS (liftS (ok_or (InvalidDelta ''Missing 'tx_summary' field'') (json_get payload ''tx_summary''))) (\<lambda>tx_summary.
      let signatures = (case Option.bind (json_get payload ''signatures'') json_array of Some xs \<Rightarrow> xs | None \<Rightarrow> []) in
      bindS (map_errS InvalidDelta (ask_net (\<lambda>nc.
        nc_verify_delta (ge_net G) nc (so_commitment current_state) (so_state_json current_state) tx_summary))) (\<lambda>_.
      bindS (map_errS InvalidDelta (ask_net (\<lambda>nc. nc_delta_proposal_id (ge_net G) nc account_id nonce tx_summary))) (\<lambda>commitment.
      bindS (liftS (map_err (\<lambda>e. AuthenticationFailed (''invalid proposer public key for '' @ account_id @ '': '' @ e))
        (compute_signer_commitment X E (m_auth metadata) (cr_pubkey creds)))) (\<lambda>proposer_id.
      bindS (now_rfc3339 G) (\<lambda>signature_timestamp.
      bindS (liftS (parse_cosigner_sigs signature_timestamp signatures)) (\<lambda>cosigner_sigs.
      bindS (now_rfc3339 G) (\<lambda>timestamp.
      let proposal = \<lparr> d_account_id = account_id, d_nonce = nonce, d_prev_commitment = so_commitment current_state,
            d_new_commitment = None, d_payload = payload, d_ack_sig = [], d_ack_pubkey = [], d_ack_scheme = [],
            d_status = Pending timestamp proposer_id cosigner_sigs \<rparr> in
      bindS (map_errS StorageError (on_storage (submit_delta_proposal (ge_storage G) commitment proposal))) (\<lambda>_.
      okS (proposal, commitment))))))))))))))))"

text \<open>The signature is appended to the payload's \<open>signatures\<close> when that is an array, and becomes the array otherwise.\<close>

definition append_payload_signature :: "json \<Rightarrow> delta_signature \<Rightarrow> guardian_error + json" where
  "append_payload_signature payload sg =
     (case json_object payload of
        None \<Rightarrow> Inl (InvalidDelta ''delta_payload must be an object'')
      | Some obj \<Rightarrow>
         (case Option.bind (map_of obj ''signatures'') json_array of
            Some xs \<Rightarrow> Inr (JObject (json_insert ''signatures'' (JArray (xs @ [delta_signature_to_json sg])) obj))
          | None \<Rightarrow> Inr (JObject (json_insert ''signatures'' (JArray [delta_signature_to_json sg]) obj))))"

definition sign_delta_proposal ::
  "('sig, 'pk, 'su, 'n) externals \<Rightarrow> ('sig, 'esig, 'epk) ecdsa_auth \<Rightarrow> ('st, 'ms, 'nc) genv \<Rightarrow> string \<Rightarrow> string
   \<Rightarrow> proposal_signature \<Rightarrow> credentials \<Rightarrow> ('st, 'ms, 'nc, delta_object) service" where
  "sign_delta_proposal X E G account_id commitment signature creds =
     bindS (liftS (normalize_commitment_hex commitment)) (\<lambda>normalized.
     bindS (resolve_account X E G account_id creds) (\<lambda>metadata.
     bindS (require_miden metadata ''delta_proposal'') (\<lambda>_.
     bindS (map_errS (\<lambda>_. ProposalNotFound account_id normalized)
       (on_storage (pull_delta_proposal (ge_storage G) account_id normalized))) (\<lambda>proposal.
     if \<not> eq_ignore_ascii_case (d_account_id proposal) account_id then errS (ProposalNotFound account_id normalized)
     else
     case d_status proposal of
       Pending timestamp proposer_id cosigner_sigs \<Rightarrow>
         bindS (liftS (map_err (\<lambda>e. AuthenticationFailed (''invalid signer public key for '' @ account_id @ '': '' @ e))
           (compute_signer_commitment X E (m_auth metadata) (cr_pubkey creds)))) (\<lambda>signer.
         if list_ex (\<lambda>c. eq_ignore_ascii_case (cs_signer_id c) signer) cosigner_sigs then errS (ProposalAlreadySigned signer)
         else
         bindS (now_rfc3339 G) (\<lambda>now.
         bindS (liftS (append_payload_signature (d_payload proposal) \<lparr> signer_id = signer, ds_signature = signature \<rparr>)) (\<lambda>payload.
         let updated = proposal \<lparr> d_payload := payload, d_status := Pending timestamp proposer_id
               (cosigner_sigs @ [\<lparr> cs_signature = signature, cs_timestamp = now, cs_signer_id = signer \<rparr>]) \<rparr> in
         bindS (map_errS StorageError (on_storage (update_delta_proposal (ge_storage G) normalized updated))) (\<lambda>_.
         okS updated))))
     | _ \<Rightarrow> errS (ProposalNotFound account_id normalized)))))"

section \<open>Reads\<close>

definition get_state ::
  "('sig, 'pk, 'su, 'n) externals \<Rightarrow> ('sig, 'esig, 'epk) ecdsa_auth \<Rightarrow> ('st, 'ms, 'nc) genv \<Rightarrow> string \<Rightarrow> credentials
   \<Rightarrow> ('st, 'ms, 'nc, state_object) service" where
  "get_state X E G account_id creds =
     bindS (resolve_account X E G account_id creds) (\<lambda>metadata.
     bindS (require_miden metadata ''get_state'') (\<lambda>_.
     bindS (map_errS (\<lambda>_. StateNotFound account_id) (on_storage (pull_state (ge_storage G) account_id))) (\<lambda>st.
     okS (st \<lparr> so_auth_scheme := scheme_as_str (auth_scheme (m_auth metadata)) \<rparr>))))"

definition get_delta ::
  "('sig, 'pk, 'su, 'n) externals \<Rightarrow> ('sig, 'esig, 'epk) ecdsa_auth \<Rightarrow> ('st, 'ms, 'nc) genv \<Rightarrow> string \<Rightarrow> nat \<Rightarrow> credentials
   \<Rightarrow> ('st, 'ms, 'nc, delta_object) service" where
  "get_delta X E G account_id nonce creds =
     bindS (resolve_account X E G account_id creds) (\<lambda>metadata.
     bindS (require_miden metadata ''get_delta'') (\<lambda>_.
     map_errS (\<lambda>_. DeltaNotFound account_id nonce) (on_storage (pull_delta (ge_storage G) account_id nonce))))"

definition get_delta_since ::
  "('sig, 'pk, 'su, 'n) externals \<Rightarrow> ('sig, 'esig, 'epk) ecdsa_auth \<Rightarrow> ('st, 'ms, 'nc) genv \<Rightarrow> string \<Rightarrow> nat \<Rightarrow> credentials
   \<Rightarrow> ('st, 'ms, 'nc, delta_object) service" where
  "get_delta_since X E G account_id from_nonce creds =
     bindS (resolve_account X E G account_id creds) (\<lambda>metadata.
     bindS (require_miden metadata ''get_delta_since'') (\<lambda>_.
     bindS (storage_err ''Failed to fetch deltas: ''
       (on_storage (pull_deltas_after (ge_storage G) account_id from_nonce))) (\<lambda>all_deltas.
     let deltas = filter (\<lambda>d. is_canonical (d_status d)) all_deltas in
     if deltas = [] then errS (DeltaNotFound account_id from_nonce)
     else
     bindS (map_errS InvalidDelta (ask_net (\<lambda>nc. nc_merge_deltas (ge_net G) nc (map d_payload deltas)))) (\<lambda>merged.
     let last_delta = last deltas in
     okS \<lparr> d_account_id = account_id, d_nonce = d_nonce last_delta, d_prev_commitment = d_prev_commitment (hd deltas),
           d_new_commitment = d_new_commitment last_delta, d_payload = merged, d_ack_sig = d_ack_sig last_delta,
           d_ack_pubkey = d_ack_pubkey last_delta, d_ack_scheme = d_ack_scheme last_delta,
           d_status = d_status last_delta \<rparr>))))"

definition get_delta_proposal ::
  "('sig, 'pk, 'su, 'n) externals \<Rightarrow> ('sig, 'esig, 'epk) ecdsa_auth \<Rightarrow> ('st, 'ms, 'nc) genv \<Rightarrow> string \<Rightarrow> string \<Rightarrow> credentials
   \<Rightarrow> ('st, 'ms, 'nc, delta_object) service" where
  "get_delta_proposal X E G account_id commitment creds =
     bindS (resolve_account X E G account_id creds) (\<lambda>metadata.
     bindS (map_errS (\<lambda>_. ProposalNotFound account_id commitment)
       (on_storage (pull_delta_proposal (ge_storage G) account_id commitment))) (\<lambda>proposal.
     if \<not> is_pending (d_status proposal) then errS (ProposalNotFound account_id commitment) else okS proposal))"

definition get_delta_proposals ::
  "('sig, 'pk, 'su, 'n) externals \<Rightarrow> ('sig, 'esig, 'epk) ecdsa_auth \<Rightarrow> ('st, 'ms, 'nc) genv \<Rightarrow> string \<Rightarrow> credentials
   \<Rightarrow> ('st, 'ms, 'nc, delta_object list) service" where
  "get_delta_proposals X E G account_id creds =
     bindS (resolve_account X E G account_id creds) (\<lambda>metadata.
     observeS (on_storage (pull_all_delta_proposals (ge_storage G) account_id)) (\<lambda>r.
     okS (sort_key d_nonce (filter (\<lambda>p. is_pending (d_status p)) (case r of Inr ps \<Rightarrow> ps | Inl _ \<Rightarrow> [])))))"

section \<open>Lookup by key (lookup-account.rs)\<close>

fun trim_0X :: "string \<Rightarrow> string" where
  "trim_0X (a # b # s) = (if a = CHR ''0'' \<and> b = CHR ''X'' then trim_0X s else a # b # s)"
| "trim_0X s = s"

definition lookup_normalize_commitment :: "('sig, 'pk, 'su, 'n) externals \<Rightarrow> string \<Rightarrow> guardian_error + string" where
  "lookup_normalize_commitment X h =
     (let trimmed = trim_0X (trim_0x h) in
      if length trimmed \<noteq> 64
      then Inl (InvalidInput (''key_commitment must be 32 bytes (64 hex chars), got '' @ show_nat (length trimmed) @ '' chars''))
      else
      (let lower = to_ascii_lowercase trimmed in
       bind_res (map_err (\<lambda>e. InvalidInput (''invalid key_commitment hex: '' @ e)) (hex_decode X lower)) (\<lambda>_.
       Inr (''0x'' @ lower))))"

definition lookup_account ::
  "('sig, 'pk, 'su, 'n) externals \<Rightarrow> ('sig, 'esig, 'epk) ecdsa_auth \<Rightarrow> ('st, 'ms, 'nc) genv \<Rightarrow> string \<Rightarrow> credentials
   \<Rightarrow> ('st, 'ms, 'nc, string list) service" where
  "lookup_account X E G key_commitment creds =
     bindS (liftS (lookup_normalize_commitment X key_commitment)) (\<lambda>normalized.
     bindS (liftS (map_err (\<lambda>e. InvalidInput (''invalid key_commitment: '' @ e)) (word_from_hex X normalized))) (\<lambda>w.
     bindS clock_now (\<lambda>now.
     let diff = time_diff_ms now (cr_timestamp creds) in
     if MAX_TIMESTAMP_SKEW_MS < diff
     then errS (AuthenticationFailed (''Request timestamp outside allowed window: '' @ show_int diff @
            ''ms drift (max '' @ show_int MAX_TIMESTAMP_SKEW_MS @ ''ms)''))
     else
     bindS (liftS (map_err AuthenticationFailed
       (derive_pubkey_from_lookup_signature X E (cr_signature creds) (cr_timestamp creds) w))) (\<lambda>pk.
     if commitment_of X E pk \<noteq> normalized
     then errS (AuthenticationFailed ''signature key does not derive to the queried key_commitment'')
     else storage_err ''Failed to look up accounts by cosigner commitment: ''
       (on_meta (ms_find_by_cosigner_commitment (ge_meta G) normalized))))))"

text \<open>A printed \<open>i64\<close> parses back.\<close>

lemma parse_i64_show_int:
  assumes "- (2 ^ 63) \<le> i" and "i < 2 ^ 63"
  shows "parse_i64 (show_int i) = Some i"
proof -
  obtain c cs where c: "show_nat (nat (abs i)) = c # cs" "c \<noteq> CHR ''+''" "c \<noteq> CHR ''-''"
    using hd_show_radix_not_sign[of 10 "nat (abs i)"] by (auto simp: show_nat_def)
  have r: "from_str_radix b 10 (c # cs) = Inr (nat (abs i))" if "nat (abs i) < b" for b
    using from_str_radix_show[of 10 "nat (abs i)" b] that c(1) by (simp add: show_nat_def)
  show ?thesis
  proof (cases "i < 0")
    case True
    then show ?thesis using assms c r[of "2 ^ 63 + 1"] by (simp add: parse_i64_def show_int_def)
  next
    case False
    then show ?thesis using assms c r[of "2 ^ 63"] by (simp add: parse_i64_def show_int_def)
  qed
qed

end
