(* ===== verification/Guardian_Canon.thy ===== *)
theory Guardian_Canon
  imports Guardian_Services
begin

text \<open>
  The canonicalization job (\<open>jobs/canonicalization/processor.rs\<close>): at each tick of the worker every account
  with the pending flag is visited and each of its candidate deltas is applied to the
  stored state and compared with the chain. A candidate that verifies becomes canonical and its
  state becomes the account's state; one that does not is retried, first for free during the
  grace period, then against a retry budget, and is deleted when the budget is spent.
  \<open>worker.rs\<close> calls \<open>process_all_accounts\<close> at every tick and logs an error.
\<close>

section \<open>The processor\<close>

record deltas_processor =
  dp_max_retries :: nat
  dp_grace_seconds :: nat

definition deltas_processor_new :: "canonicalization_config \<Rightarrow> deltas_processor" where
  "deltas_processor_new c =
     \<lparr> dp_max_retries = max_retries c, dp_grace_seconds = submission_grace_period_seconds c \<rparr>"

text \<open>The processor behind \<open>process_all_accounts_now\<close>.\<close>

definition test_deltas_processor :: deltas_processor where
  "test_deltas_processor = \<lparr> dp_max_retries = u32_bound - 1, dp_grace_seconds = 0 \<rparr>"

definition get_candidates :: "delta_object list \<Rightarrow> delta_object list" where
  "get_candidates deltas = sort_key d_nonce (filter (\<lambda>d. is_candidate (d_status d)) deltas)"

text \<open>Whole seconds, truncated, never negative; \<open>None\<close> when the timestamp does not parse.\<close>

definition candidate_age_seconds :: "chrono_ops \<Rightarrow> delta_object \<Rightarrow> int \<Rightarrow> nat option" where
  "candidate_age_seconds C delta now =
     (case d_status delta of
        Candidate timestamp _ \<Rightarrow>
          (case parse_from_rfc3339 C timestamp of
             None \<Rightarrow> None
           | Some at \<Rightarrow> Some (nat (max 0 (now - at)) div 1000000000))
      | _ \<Rightarrow> None)"

definition ignoreS :: "('s, 'e, 'a) comp \<Rightarrow> ('s, 'f, unit) comp" where
  "ignoreS m = observeS m (\<lambda>_. okS ())"

definition metadata_of :: "('st, 'ms, 'nc) genv \<Rightarrow> string \<Rightarrow> ('st, 'ms, 'nc, account_metadata) service" where
  "metadata_of G account_id =
     bindS (storage_err ''Failed to get metadata: '' (on_meta (ms_get (ge_meta G) account_id))) (\<lambda>r.
     liftS (ok_or (AccountNotFound account_id) r))"

definition canonicalize_verified_delta ::
  "('st, 'ms, 'nc) genv \<Rightarrow> delta_object \<Rightarrow> json \<Rightarrow> string \<Rightarrow> ('st, 'ms, 'nc, unit) service" where
  "canonicalize_verified_delta G delta new_state_json new_commitment =
     bindS (metadata_of G (d_account_id delta)) (\<lambda>metadata.
     bindS (storage_err ''Failed to get current state: ''
       (on_storage (pull_state (ge_storage G) (d_account_id delta)))) (\<lambda>current_state.
     bindS (now_rfc3339 G) (\<lambda>now.
     bindS (storage_err ''Failed to update account state: '' (on_storage (submit_state (ge_storage G)
       \<lparr> so_account_id = d_account_id delta, so_state_json = new_state_json, so_commitment = new_commitment,
         so_created_at = so_created_at current_state, so_updated_at = now, so_auth_scheme = [] \<rparr>))) (\<lambda>_.
     bindS (storage_err ''Failed to check auth update: ''
       (on_net (nc_should_update_auth (ge_net G) new_state_json (m_auth metadata)))) (\<lambda>new_auth.
     bindS (case new_auth of
         None \<Rightarrow> okS ()
       | Some a \<Rightarrow> storage_err ''Failed to update auth: '' (on_meta (ms_update_auth (ge_meta G) (d_account_id delta) a now))) (\<lambda>_.
     bindS (storage_err ''Failed to update delta as canonical: ''
       (on_storage (submit_delta (ge_storage G) (delta \<lparr> d_status := Canonical now \<rparr>)))) (\<lambda>_.
     bindS (storage_err ''Failed to update metadata: ''
       (on_meta (ms_set_has_pending_candidate (ge_meta G) (d_account_id delta) False now))) (\<lambda>_.
     delete_matching_proposal G delta))))))))"

text \<open>What happens to a candidate that the chain does not confirm.\<close>

definition candidate_failed ::
  "('st, 'ms, 'nc) genv \<Rightarrow> deltas_processor \<Rightarrow> delta_object \<Rightarrow> ('st, 'ms, 'nc, unit) service" where
  "candidate_failed G P delta =
     bindS clock_now (\<lambda>now.
     if (case candidate_age_seconds (ge_chrono G) delta now of Some age \<Rightarrow> age < dp_grace_seconds P | None \<Rightarrow> False)
     then okS ()
     else
     let new_retry = u32_add (retry_count (d_status delta)) 1;
         now_str = to_rfc3339 (ge_chrono G) now in
     if dp_max_retries P \<le> new_retry
     then
       bindS (storage_err ''Failed to delete delta: ''
         (on_storage (delete_delta (ge_storage G) (d_account_id delta) (d_nonce delta)))) (\<lambda>_.
       ignoreS (on_meta (ms_set_has_pending_candidate (ge_meta G) (d_account_id delta) False now_str)))
     else
       storage_err ''Failed to update delta status: ''
         (on_storage (update_delta_status (ge_storage G) (d_account_id delta) (d_nonce delta)
           (with_incremented_retry (d_status delta) now_str))))"

definition process_candidate ::
  "('st, 'ms, 'nc) genv \<Rightarrow> deltas_processor \<Rightarrow> delta_object \<Rightarrow> ('st, 'ms, 'nc, unit) service" where
  "process_candidate G P delta =
     bindS (metadata_of G (d_account_id delta)) (\<lambda>_.
     bindS (storage_err ''Failed to get current state: ''
       (on_storage (pull_state (ge_storage G) (d_account_id delta)))) (\<lambda>current_state.
     bindS (map_errS InvalidDelta (ask_net (\<lambda>nc.
       nc_apply_delta (ge_net G) nc (so_state_json current_state) (d_payload delta)))) (\<lambda>(new_state_json, _).
     observeS (on_net (nc_verify_state (ge_net G) (d_account_id delta) new_state_json)) (\<lambda>verified.
     case verified of
       Inr _ \<Rightarrow>
         (case d_new_commitment delta of
            Some new_commitment \<Rightarrow> canonicalize_verified_delta G delta new_state_json new_commitment
          | None \<Rightarrow> okS ())
     | Inl _ \<Rightarrow> candidate_failed G P delta))))"

definition process_account ::
  "('st, 'ms, 'nc) genv \<Rightarrow> deltas_processor \<Rightarrow> string \<Rightarrow> ('st, 'ms, 'nc, unit) service" where
  "process_account G P account_id =
     bindS (storage_err ''Failed to get metadata: '' (on_meta (ms_get (ge_meta G) account_id))) (\<lambda>r.
     bindS (liftS (ok_or (InvalidInput ''Account metadata not found'') r)) (\<lambda>_.
     bindS (storage_err ''Failed to pull deltas: ''
       (on_storage (pull_deltas_after (ge_storage G) account_id 0))) (\<lambda>all_deltas.
     forS (\<lambda>delta. ignoreS (process_candidate G P delta)) (get_candidates all_deltas))))"

definition process_all_accounts ::
  "('st, 'ms, 'nc) genv \<Rightarrow> deltas_processor \<Rightarrow> ('st, 'ms, 'nc, unit) service" where
  "process_all_accounts G P =
     bindS (storage_err ''Failed to list accounts: '' (on_meta (ms_list_with_pending_candidates (ge_meta G)))) (\<lambda>account_ids.
     forS (\<lambda>account_id. ignoreS (process_account G P account_id)) account_ids)"

lemma keepsS_ignoreS [keeps]: "keepsS P m \<Longrightarrow> keepsS P (ignoreS m)"
  by (simp add: ignoreS_def keepsS_observeS keepsS_okS)

end
