(* ===== verification/Guardian_System.thy ===== *)
theory Guardian_System
  imports Guardian_Spec Guardian_Canon
begin

text \<open>
  The server as a whole: one step is a request or a tick of the canonicalization job, on any storage
  and any metadata store that keep their contracts. The locale \<open>guardian_backends\<close> joins the two
  contracts; in it every service and the job are shown to follow the specification \<open>gspec\<close>, with triples
  over the abstract view, and the properties of the specification become properties of the
  server, replay protection among them.
\<close>

section \<open>Steps of the server\<close>

text \<open>
  A step is one request or one tick of the canonicalization job, run to its end, whatever it
  returns and wherever it failed. Account names of new accounts satisfy \<open>ok\<close>, nonces are \<open>u64\<close>.
\<close>

inductive gstep ::
  "(string \<Rightarrow> bool) \<Rightarrow> ('sig, 'pk, 'su, 'n) externals \<Rightarrow> ('sig, 'esig, 'epk) ecdsa_auth \<Rightarrow> ('st, 'ms, 'nc) genv
   \<Rightarrow> ('st, 'ms, 'nc) gapp \<Rightarrow> ('st, 'ms, 'nc) gapp \<Rightarrow> bool"
  for ok X E G where
  configure: "configure_account X E G p s = (r, s') \<Longrightarrow> ok (ca_account_id p) \<Longrightarrow> gstep ok X E G s s'"
| push: "push_delta X E G d c s = (r, s') \<Longrightarrow> d_nonce d < u64_bound \<Longrightarrow> gstep ok X E G s s'"
| propose: "push_delta_proposal X E G a n payload c s = (r, s') \<Longrightarrow> gstep ok X E G s s'"
| sign: "sign_delta_proposal X E G a h sg c s = (r, s') \<Longrightarrow> gstep ok X E G s s'"
| read_state: "get_state X E G a c s = (r, s') \<Longrightarrow> gstep ok X E G s s'"
| read_delta: "get_delta X E G a n c s = (r, s') \<Longrightarrow> n < u64_bound \<Longrightarrow> gstep ok X E G s s'"
| read_since: "get_delta_since X E G a n c s = (r, s') \<Longrightarrow> gstep ok X E G s s'"
| read_proposal: "get_delta_proposal X E G a h c s = (r, s') \<Longrightarrow> gstep ok X E G s s'"
| read_proposals: "get_delta_proposals X E G a c s = (r, s') \<Longrightarrow> gstep ok X E G s s'"
| lookup: "lookup_account X E G k c s = (r, s') \<Longrightarrow> gstep ok X E G s s'"
| tick: "process_all_accounts G P s = (r, s') \<Longrightarrow> gstep ok X E G s s'"

section \<open>Rules for the parts of the application\<close>

lemma tripleS_on_storage:
  assumes "\<And>s r st. P s \<Longrightarrow> op (ga_storage s) = (r, st) \<Longrightarrow> (case r of Inl _ \<Rightarrow> E | Inr a \<Rightarrow> Q a) (s \<lparr> ga_storage := st \<rparr>)"
  shows "tripleS E P (on_storage op) Q"
  using assms by (auto intro!: tripleSI simp: on_storage_def split: prod.splits)

lemma tripleS_on_meta:
  assumes "\<And>s r ms. P s \<Longrightarrow> op (ga_meta s) = (r, ms) \<Longrightarrow> (case r of Inl _ \<Rightarrow> E | Inr a \<Rightarrow> Q a) (s \<lparr> ga_meta := ms \<rparr>)"
  shows "tripleS E P (on_meta op) Q"
  using assms by (auto intro!: tripleSI simp: on_meta_def split: prod.splits)

lemma ack_delta_Inr: "ack_delta X A d scheme = Inr e \<Longrightarrow> \<exists>sg. e = d \<lparr> d_ack_sig := sg \<rparr>"
  by (auto simp: ack_delta_def signer_ack_delta_def result_simps)

lemma gspec_configure:
  assumes "m_account_id m = a" and "ok a" and "m_last_auth_timestamp m = Option.bind (w a) m_last_auth_timestamp"
    and "w a = None \<Longrightarrow> \<not> m_has_pending_candidate m"
  shows "gspec ok (v, w) (v, w (a \<mapsto> m))"
  using assms gspec.new_account[of w m ok v] gspec.metadata[of w m _ ok v] by (cases "w a") auto

lemma gspec_dom: "gspec ok x y \<Longrightarrow> dom (snd x) \<subseteq> dom (snd y)"
  by (induction rule: gspec.induct) auto

locale guardian_backends =
  storage_contract B sinv ok_id abs + metadata_contract M minv mabs
  for B :: "'st storage_backend" and sinv ok_id abs
    and M :: "'ms metadata_store" and minv mabs
begin

definition view :: "('st, 'ms, 'nc) gapp \<Rightarrow> gabs" where
  "view s = (abs (ga_storage s), mabs (ga_meta s))"

definition good :: "('st, 'ms, 'nc) gapp \<Rightarrow> bool" where
  "good s \<longleftrightarrow> sinv (ga_storage s) \<and> minv (ga_meta s) \<and> gabs_ok ok_id (view s)"

definition uses :: "('st, 'ms, 'nc) genv \<Rightarrow> bool" where
  "uses G \<longleftrightarrow> ge_storage G = B \<and> ge_meta G = M"

text \<open>A condition on the view that states and proposals do not touch.\<close>

definition kept :: "(gview \<Rightarrow> bool) \<Rightarrow> bool" where
  "kept K \<longleftrightarrow> (\<forall>v z. K v \<longrightarrow> K (put_state z v)) \<and> (\<forall>v a h p. K v \<longrightarrow> K (put_prop a h p v))"

lemma keptI [simp]: "kept (\<lambda>_. True)" "kept (\<lambda>v. candidates v a \<subseteq> N)"
  by (auto simp: kept_def)

lemma keptD: "kept K \<Longrightarrow> K v \<Longrightarrow> K (put_state z v)" "kept K \<Longrightarrow> K v \<Longrightarrow> K (put_prop a h p v)"
  by (auto simp: kept_def)

text \<open>The state is well formed, satisfies \<open>K\<close>, shows \<open>y\<close>, and \<open>y\<close> was reached from \<open>x\<close> by steps of the specification.\<close>

definition at :: "(gview \<Rightarrow> bool) \<Rightarrow> gabs \<Rightarrow> gabs \<Rightarrow> ('st, 'ms, 'nc) gapp \<Rightarrow> bool" where
  "at K x y s \<longleftrightarrow> good s \<and> view s = y \<and> (gspec ok_id)\<^sup>*\<^sup>* x y \<and> K (fst y)"

definition after :: "(gview \<Rightarrow> bool) \<Rightarrow> gabs \<Rightarrow> ('st, 'ms, 'nc) gapp \<Rightarrow> bool" where
  "after K x s \<longleftrightarrow> at K x (view s) s"

lemma after_ex: "after K x s \<longleftrightarrow> (\<exists>y. at K x y s)"
  by (auto simp: after_def at_def)

lemma at_after: "at K x y s \<Longrightarrow> after K x s"
  unfolding after_ex by (rule exI)

lemma after_cases: "(\<And>y. tripleS E (at K x y) m Q) \<Longrightarrow> tripleS E (after K x) m Q"
  unfolding after_ex[abs_def] by (rule tripleS_ex)

text \<open>A triple whose end says nothing more than that the specification was followed.\<close>

abbreviation follows :: "(gview \<Rightarrow> bool) \<Rightarrow> gabs \<Rightarrow> (('st, 'ms, 'nc) gapp \<Rightarrow> bool) \<Rightarrow> (('st, 'ms, 'nc) gapp, 'e, 'a) comp \<Rightarrow> bool" where
  "follows K x P m \<equiv> tripleS (after K x) P m (\<lambda>_. after K x)"

lemma at_storage:
  assumes "at K x y s" and "sinv st" and "gspec ok_id y (abs st, snd y)" and "K (abs st)"
  shows "at K x (abs st, snd y) (s \<lparr> ga_storage := st \<rparr>)"
  using assms by (auto simp: at_def good_def view_def intro: gspec_ok rtranclp.rtrancl_into_rtrancl)

lemma at_storage_same:
  assumes "at K x y s" and "sinv st" and "abs st = abs (ga_storage s)"
  shows "at K x y (s \<lparr> ga_storage := st \<rparr>)"
  using assms by (auto simp: at_def good_def view_def)

lemma at_meta:
  assumes "at K x y s" and "minv ms" and "gspec ok_id y (fst y, mabs ms)"
  shows "at K x (fst y, mabs ms) (s \<lparr> ga_meta := ms \<rparr>)"
  using assms by (auto simp: at_def good_def view_def intro: gspec_ok rtranclp.rtrancl_into_rtrancl)

lemma at_meta_same:
  assumes "at K x y s" and "minv ms" and "mabs ms = mabs (ga_meta s)"
  shows "at K x y (s \<lparr> ga_meta := ms \<rparr>)"
  using assms by (auto simp: at_def good_def view_def)

lemma atD:
  assumes "at K x y s"
  shows "sinv (ga_storage s)" "minv (ga_meta s)" "gabs_ok ok_id y" "abs (ga_storage s) = fst y" "mabs (ga_meta s) = snd y" "K (fst y)"
  using assms by (auto simp: at_def good_def view_def)

section \<open>Reads\<close>

lemma ask_net_triple: "tripleS (after K x) (at K x y) (ask_net f) (\<lambda>_. at K x y)"
  by (auto intro!: tripleSI simp: ask_net_def at_after split: sum.splits)

lemma on_net_triple: "tripleS (at K x y) (at K x y) (on_net f) (\<lambda>_. at K x y)"
  by (auto intro!: tripleSI simp: on_net_def at_def good_def view_def split: sum.splits prod.splits)

lemma clock_triple: "tripleS (after K x) (at K x y) clock_now (\<lambda>_. at K x y)"
  by (auto intro!: tripleSI simp: clock_now_def at_def good_def view_def split: list.splits)

lemma rfc3339_triple: "tripleS (after K x) (at K x y) (now_rfc3339 G) (\<lambda>_. at K x y)"
  unfolding now_rfc3339_def by (rule tripleS_bindS[OF clock_triple]) (simp add: tripleS_okS)

lemma get_triple: "tripleS (after K x) (at K x y) (on_meta (ms_get M a)) (\<lambda>m s. at K x y s \<and> m = snd y a)"
proof (rule tripleS_on_meta)
  fix s :: "('st, 'ms, 'd) gapp" and r ms assume s: "at K x y s" and run: "ms_get M a (ga_meta s) = (r, ms)"
  have *: "at K x y (s \<lparr> ga_meta := ms \<rparr>)" using get_law[OF run] atD[OF s] at_meta_same[OF s] by blast
  show "(case r of Inl _ \<Rightarrow> after K x | Inr m \<Rightarrow> \<lambda>s. at K x y s \<and> m = snd y a) (s \<lparr> ga_meta := ms \<rparr>)"
    using * at_after[OF *] get_law[OF run] atD[OF s] by (cases r) auto
qed

lemma storage_read:
  assumes "\<And>st r st'. op st = (r, st') \<Longrightarrow> sinv st \<Longrightarrow> sinv st' \<and> abs st' = abs st \<and> (\<forall>z. r = Inr z \<longrightarrow> F z (abs st))"
  shows "tripleS (after K x) (at K x y) (on_storage op) (\<lambda>z s. at K x y s \<and> F z (fst y))"
proof (rule tripleS_on_storage)
  fix s :: "('st, 'ms, 'd) gapp" and r st assume s: "at K x y s" and run: "op (ga_storage s) = (r, st)"
  have *: "at K x y (s \<lparr> ga_storage := st \<rparr>)" using assms[OF run] atD[OF s] at_storage_same[OF s] by blast
  show "(case r of Inl _ \<Rightarrow> after K x | Inr z \<Rightarrow> \<lambda>s. at K x y s \<and> F z (fst y)) (s \<lparr> ga_storage := st \<rparr>)"
    using * at_after[OF *] assms[OF run] atD[OF s] by (cases r) auto
qed

lemma pull_state_triple:
  "ok_id a \<Longrightarrow> tripleS (after K x) (at K x y) (on_storage (pull_state B a)) (\<lambda>z s. at K x y s \<and> gv_states (fst y) a = Some z)"
  by (rule storage_read) (use pull_state_law in blast)

lemma has_pending_triple:
  "ok_id a \<Longrightarrow> tripleS (after K x) (at K x y) (on_storage (has_pending_candidate B a)) (\<lambda>b s. at K x y s \<and> b = (candidates (fst y) a \<noteq> {}))"
proof (rule storage_read)
  fix st r st' assume a: "ok_id a" and run: "has_pending_candidate B a st = (r, st')" "sinv st"
  have "candidates (abs st) a \<noteq> {} \<longleftrightarrow> (\<exists>m d. gv_deltas (abs st) a m = Some d \<and> is_candidate (d_status d))"
    by (auto simp: candidates_def)
  with has_pending_law[OF run a]
  show "sinv st' \<and> abs st' = abs st \<and> (\<forall>b. r = Inr b \<longrightarrow> b = (candidates (abs st) a \<noteq> {}))" by simp
qed

lemma pull_deltas_triple:
  "ok_id a \<Longrightarrow> tripleS (after K x) (at K x y) (on_storage (pull_deltas_after B a n))
     (\<lambda>ds s. at K x y s \<and> (\<forall>d \<in> set ds. \<exists>m. gv_deltas (fst y) a m = Some d))"
  by (rule storage_read) (use pull_deltas_law in fastforce)

lemma pull_delta_triple:
  "ok_id a \<Longrightarrow> n < u64_bound \<Longrightarrow> tripleS (after K x) (at K x y) (on_storage (pull_delta B a n))
     (\<lambda>d s. at K x y s \<and> gv_deltas (fst y) a n = Some d)"
  by (rule storage_read) (use pull_delta_law in blast)

lemma pull_proposal_triple:
  "ok_id a \<Longrightarrow> tripleS (after K x) (at K x y) (on_storage (pull_delta_proposal B a c))
     (\<lambda>d s. at K x y s \<and> (\<exists>h. commitment_key c = Some h \<and> gv_props (fst y) a h = Some d))"
  by (rule storage_read) (use pull_proposal_law in blast)

lemma pull_pending_triple:
  "ok_id a \<Longrightarrow> tripleS (after K x) (at K x y) (on_storage (pull_pending_proposals B a)) (\<lambda>ds s. at K x y s \<and> True)"
  by (rule storage_read) (use pull_pending_law in blast)

lemma pull_all_triple:
  "ok_id a \<Longrightarrow> tripleS (after K x) (at K x y) (on_storage (pull_all_delta_proposals B a)) (\<lambda>ds s. at K x y s \<and> True)"
  by (rule storage_read) (use pull_all_proposals_law in blast)

section \<open>Writes\<close>

lemma storage_write:
  assumes "\<And>st r st'. op st = (r, st') \<Longrightarrow> sinv st \<Longrightarrow> abs st = fst y \<Longrightarrow> K (fst y) \<Longrightarrow>
      sinv st' \<and> (if is_ok r then gspec ok_id y (abs st', snd y) \<and> K (abs st') \<and> F (abs st') else abs st' = abs st)"
  shows "tripleS (after K x) (at K x y) (on_storage op) (\<lambda>_ s. \<exists>v. at K x (v, snd y) s \<and> F v)"
proof (rule tripleS_on_storage)
  fix s :: "('st, 'ms, 'd) gapp" and r st assume s: "at K x y s" and run: "op (ga_storage s) = (r, st)"
  note law = assms[OF run atD(1,4,6)[OF s]]
  show "(case r of Inl _ \<Rightarrow> after K x | Inr _ \<Rightarrow> \<lambda>s. \<exists>v. at K x (v, snd y) s \<and> F v) (s \<lparr> ga_storage := st \<rparr>)"
  proof (cases r)
    case (Inl e)
    then show ?thesis using law at_after[OF at_storage_same[OF s]] by simp
  next
    case (Inr z)
    then show ?thesis using law at_storage[OF s] by (simp, blast)
  qed
qed

lemma submit_state_triple:
  assumes "ok_id (so_account_id z)" and "kept K"
  shows "tripleS (after K x) (at K x y) (on_storage (submit_state B z)) (\<lambda>_ s. \<exists>v. at K x (v, snd y) s \<and> v = put_state z (fst y))"
  by (rule storage_write)
    (use submit_state_law assms(1) keptD(1)[OF assms(2)] gspec.state[of ok_id z "fst y" "snd y"] in \<open>fastforce split: if_splits\<close>)

lemma submit_delta_triple:
  assumes "ok_id (d_account_id d)" and "d_nonce d < u64_bound"
    and "gspec ok_id y (put_delta (d_account_id d) (d_nonce d) (Some d) (fst y), snd y)"
    and "K (fst y) \<Longrightarrow> K (put_delta (d_account_id d) (d_nonce d) (Some d) (fst y))"
  shows "tripleS (after K x) (at K x y) (on_storage (submit_delta B d))
    (\<lambda>_ s. \<exists>v. at K x (v, snd y) s \<and> v = put_delta (d_account_id d) (d_nonce d) (Some d) (fst y))"
  by (rule storage_write) (use submit_delta_law assms in \<open>fastforce split: if_splits\<close>)

lemma proposal_write:
  assumes "\<And>st r st'. op st = (r, st') \<Longrightarrow> sinv st \<Longrightarrow> sinv st' \<and>
      (if is_ok r then \<exists>h. commitment_key c = Some h \<and> abs st' = put_prop a h p (abs st) else abs st' = abs st)"
    and "\<And>h. gspec ok_id y (put_prop a h p (fst y), snd y)" and "kept K"
  shows "tripleS (after K x) (at K x y) (on_storage op) (\<lambda>_ s. \<exists>v. at K x (v, snd y) s \<and> True)"
proof (rule storage_write)
  fix st r st' assume run: "op st = (r, st')" "sinv st" and v: "abs st = fst y" and k: "K (fst y)"
  show "sinv st' \<and> (if is_ok r then gspec ok_id y (abs st', snd y) \<and> K (abs st') \<and> True else abs st' = abs st)"
    using assms(1)[OF run] assms(2) keptD(2)[OF assms(3) k] v by (cases "is_ok r") auto
qed

lemma gspec_proposed: "is_pending (d_status d) \<Longrightarrow> gspec ok_id y (put_prop (d_account_id d) h (Some d) (fst y), snd y)"
  using gspec.proposed[of d "d_account_id d" ok_id "fst y" "snd y"] by simp

lemma submit_proposal_triple:
  assumes "ok_id (d_account_id d)" and "is_pending (d_status d)" and "kept K"
  shows "tripleS (after K x) (at K x y) (on_storage (submit_delta_proposal B c d)) (\<lambda>_ s. \<exists>v. at K x (v, snd y) s \<and> True)"
  by (rule proposal_write[OF submit_proposal_law gspec_proposed]) (use assms in simp_all)

lemma update_proposal_triple:
  assumes "ok_id (d_account_id d)" and "is_pending (d_status d)" and "kept K"
  shows "tripleS (after K x) (at K x y) (on_storage (update_delta_proposal B c d)) (\<lambda>_ s. \<exists>v. at K x (v, snd y) s \<and> True)"
  by (rule proposal_write[OF update_proposal_law gspec_proposed]) (use assms in simp_all)

lemma delete_proposal_triple:
  assumes "ok_id a" and "kept K"
  shows "tripleS (after K x) (at K x y) (on_storage (delete_delta_proposal B a c)) (\<lambda>_ s. \<exists>v. at K x (v, snd y) s \<and> True)"
  by (rule proposal_write[OF delete_proposal_law])
    (use assms gspec.unproposed[of ok_id "fst y" "snd y"] in simp_all)

lemma delete_delta_triple:
  assumes "ok_id a" and "n < u64_bound" and "K (fst y) \<Longrightarrow> K (put_delta a n None (fst y))"
  shows "tripleS (after K x) (at K x y) (on_storage (delete_delta B a n)) (\<lambda>_ s. \<exists>v. at K x (v, snd y) s \<and> v = put_delta a n None (fst y))"
  by (rule storage_write)
    (use delete_delta_law assms gspec.dropped[of ok_id "fst y" "snd y"] in \<open>fastforce split: if_splits\<close>)

lemma update_status_triple:
  assumes "ok_id a" and "n < u64_bound" and "candidates (fst y) a \<subseteq> {n}"
    and "\<And>d. K (fst y) \<Longrightarrow> K (put_delta a n (Some (d \<lparr> d_status := status \<rparr>)) (fst y))"
  shows "tripleS (after K x) (at K x y) (on_storage (update_delta_status B a n status))
    (\<lambda>_ s. \<exists>v. at K x (v, snd y) s \<and> candidates v a \<subseteq> {n})"
proof (rule storage_write)
  fix st r st' assume run: "update_delta_status B a n status st = (r, st')" "sinv st" and v: "abs st = fst y" and k: "K (fst y)"
  note law = update_status_law[OF run assms(1,2)]
  have "gspec ok_id y (put_delta a n (Some (d \<lparr> d_status := status \<rparr>)) (fst y), snd y)" if "gv_deltas (fst y) a n = Some d" for d
    using gspec.retried[OF that assms(3), of ok_id "snd y" status] by simp
  then show "sinv st' \<and> (if is_ok r then gspec ok_id y (abs st', snd y) \<and> K (abs st') \<and> candidates (abs st') a \<subseteq> {n} else abs st' = abs st)"
    using law v assms(3) assms(4)[OF k] by (cases "is_ok r") (auto split: if_splits)
qed

lemma meta_write:
  assumes "\<And>ms r ms'. op ms = (r, ms') \<Longrightarrow> minv ms \<Longrightarrow> mabs ms = snd y \<Longrightarrow>
      minv ms' \<and> (gspec ok_id y (fst y, mabs ms') \<or> mabs ms' = mabs ms)"
  shows "tripleS (after K x) (at K x y) (on_meta op) (\<lambda>_ s. \<exists>w. at K x (fst y, w) s \<and> dom (snd y) \<subseteq> dom w)"
proof (rule tripleS_on_meta)
  fix s :: "('st, 'ms, 'd) gapp" and r ms assume s: "at K x y s" and run: "op (ga_meta s) = (r, ms)"
  have "at K x (fst y, mabs ms) (s \<lparr> ga_meta := ms \<rparr>)"
    using assms[OF run atD(2,5)[OF s]] at_meta[OF s] at_meta_same[OF s] atD(5)[OF s] by (metis prod.collapse)
  moreover have "dom (snd y) \<subseteq> dom (mabs ms)"
    using assms[OF run atD(2,5)[OF s]] atD(5)[OF s] gspec_dom[of ok_id y "(fst y, mabs ms)"] by auto
  ultimately show "(case r of Inl _ \<Rightarrow> after K x | Inr _ \<Rightarrow> \<lambda>s. \<exists>w. at K x (fst y, w) s \<and> dom (snd y) \<subseteq> dom w) (s \<lparr> ga_meta := ms \<rparr>)"
    by (auto dest: at_after split: sum.splits)
qed

lemma set_triple:
  assumes "gspec ok_id y (fst y, (snd y) (m_account_id m \<mapsto> m))"
  shows "tripleS (after K x) (at K x y) (on_meta (ms_set M m)) (\<lambda>_ s. \<exists>w. at K x (fst y, w) s \<and> dom (snd y) \<subseteq> dom w)"
proof (rule meta_write)
  fix ms r ms' assume "ms_set M m ms = (r, ms')" "minv ms" "mabs ms = snd y"
  then show "minv ms' \<and> (gspec ok_id y (fst y, mabs ms') \<or> mabs ms' = mabs ms)"
    using set_law[of m ms r ms'] assms by auto
qed

lemma rewrite_triple:
  assumes "\<And>m. m_account_id (f m) = m_account_id m" and "\<And>m. m_last_auth_timestamp (f m) = m_last_auth_timestamp m"
  shows "tripleS (after K x) (at K x y)
    (on_meta (bindS (ms_get M a) (\<lambda>r. bindS (liftS (ok_or e r)) (\<lambda>m. if p m then okS () else ms_set M (f m)))))
    (\<lambda>_ s. \<exists>w. at K x (fst y, w) s \<and> dom (snd y) \<subseteq> dom w)"
proof (rule meta_write)
  fix ms r ms' assume run: "bindS (ms_get M a) (\<lambda>r. bindS (liftS (ok_or e r)) (\<lambda>m. if p m then okS () else ms_set M (f m))) ms = (r, ms')"
    and inv: "minv ms" and v: "mabs ms = snd y"
  obtain g ms1 where g: "ms_get M a ms = (g, ms1)" by fastforce
  note get = get_law[OF g inv]
  show "minv ms' \<and> (gspec ok_id y (fst y, mabs ms') \<or> mabs ms' = mabs ms)"
  proof (cases "\<exists>m. g = Inr (Some m) \<and> \<not> p m")
    case True
    then obtain m where m: "g = Inr (Some m)" "\<not> p m" by blast
    then have w: "ms_set M (f m) ms1 = (r, ms')" using run g by (simp add: bindS_def)
    have "mabs ms a = Some m" "m_account_id m = a" using get m key_law[OF inv] by auto
    then have "gspec ok_id y (fst y, (snd y) (m_account_id (f m) \<mapsto> f m))"
      using gspec.metadata[of "snd y" "f m" m ok_id "fst y"] assms v by simp
    then show ?thesis using set_law[OF w] get v by auto
  next
    case False
    then have "ms' = ms1"
      using run g by (cases g) (auto simp: bindS_def split: sum.splits option.splits if_splits elim!: ok_or.elims)
    then show ?thesis using get by simp
  qed
qed

lemma update_auth_triple:
  "tripleS (after K x) (at K x y) (on_meta (ms_update_auth M a na now)) (\<lambda>_ s. \<exists>w. at K x (fst y, w) s \<and> dom (snd y) \<subseteq> dom w)"
  unfolding ms_update_auth_def by (rule rewrite_triple) simp_all

lemma set_pending_triple:
  "tripleS (after K x) (at K x y) (on_meta (ms_set_has_pending_candidate M a b now)) (\<lambda>_ s. \<exists>w. at K x (fst y, w) s \<and> dom (snd y) \<subseteq> dom w)"
  unfolding ms_set_has_pending_candidate_def by (rule rewrite_triple) simp_all

lemma cas_triple:
  "tripleS (after K x) (at K x y) (on_meta (ms_update_last_auth_timestamp_cas M a ts now))
     (\<lambda>b s. \<exists>w. at K x (fst y, w) s \<and> (b \<longrightarrow> w a \<noteq> None \<and> map_option m_auth (w a) = map_option m_auth (snd y a) \<and> ts_seen a ts (fst y, w)) \<and> (\<not> b \<longrightarrow> ts_seen a ts y) \<and> (b \<longrightarrow> \<not> ts_seen a ts y))"
proof (rule tripleS_on_meta)
  fix s :: "('st, 'ms, 'd) gapp" and r ms assume s: "at K x y s"
    and run: "ms_update_last_auth_timestamp_cas M a ts now (ga_meta s) = (r, ms)"
  note law = cas_law[OF run atD(2)[OF s]]
  have step: "gspec ok_id y (fst y, mabs ms)" if "snd y a = Some m" "\<forall>t. m_last_auth_timestamp m = Some t \<longrightarrow> t < ts"
    "mabs ms = (snd y) (a \<mapsto> m \<lparr> m_last_auth_timestamp := Some ts, m_updated_at := now \<rparr>)" for m
    using gspec.authenticated[of "snd y" a m ts ok_id "fst y" now] that by simp
  have "mabs ms = mabs (ga_meta s) \<or> gspec ok_id y (fst y, mabs ms)"
    using law step atD(5)[OF s] by (auto split: sum.splits bool.splits)
  then have at: "at K x (fst y, mabs ms) (s \<lparr> ga_meta := ms \<rparr>)"
    using law at_meta[OF s] at_meta_same[OF s] atD(5)[OF s] by (metis prod.collapse)
  show "(case r of Inl _ \<Rightarrow> after K x | Inr b \<Rightarrow> \<lambda>s. \<exists>w. at K x (fst y, w) s \<and>
      (b \<longrightarrow> w a \<noteq> None \<and> map_option m_auth (w a) = map_option m_auth (snd y a) \<and> ts_seen a ts (fst y, w)) \<and> (\<not> b \<longrightarrow> ts_seen a ts y) \<and> (b \<longrightarrow> \<not> ts_seen a ts y)) (s \<lparr> ga_meta := ms \<rparr>)"
  proof (cases r)
    case (Inl e)
    then show ?thesis using at_after[OF at] by simp
  next
    case (Inr b)
    have "(b \<longrightarrow> mabs ms a \<noteq> None \<and> map_option m_auth (mabs ms a) = map_option m_auth (snd y a) \<and> ts_seen a ts (fst y, mabs ms)) \<and> (\<not> b \<longrightarrow> ts_seen a ts y) \<and> (b \<longrightarrow> \<not> ts_seen a ts y)"
      using law Inr atD(5)[OF s] by (cases b) (fastforce simp: ts_seen_def)+
    then show ?thesis using at Inr by auto
  qed
qed

section \<open>The services\<close>

lemma step_read:
  assumes "tripleS (after K x) (at K x y) m (\<lambda>z s. at K x y s \<and> F z)"
    and "\<And>z. F z \<Longrightarrow> tripleS (after K x) (at K x y) (f z) Q"
  shows "tripleS (after K x) (at K x y) (bindS (map_errS g m) f) Q"
  by (rule tripleS_bindS[OF tripleS_map_errS[OF assms(1)]]) (rule tripleS_fact, rule assms(2))

lemma step_write:
  assumes "tripleS (after K x) (at K x y) m (\<lambda>_ s. \<exists>v. at K x (v, snd y) s \<and> F v)"
    and "\<And>z v. F v \<Longrightarrow> tripleS (after K x) (at K x (v, snd y)) (f z) Q"
  shows "tripleS (after K x) (at K x y) (bindS (map_errS g m) f) Q"
  by (rule tripleS_bindS[OF tripleS_map_errS[OF assms(1)]]) (rule tripleS_ex, rule tripleS_fact, rule assms(2))

lemma step_meta:
  assumes "tripleS (after K x) (at K x y) m (\<lambda>_ s. \<exists>w. at K x (fst y, w) s \<and> dom (snd y) \<subseteq> dom w)"
    and "\<And>z w. dom (snd y) \<subseteq> dom w \<Longrightarrow> tripleS (after K x) (at K x (fst y, w)) (f z) Q"
  shows "tripleS (after K x) (at K x y) (bindS (map_errS g m) f) Q"
  by (rule tripleS_bindS[OF tripleS_map_errS[OF assms(1)]]) (rule tripleS_ex, rule tripleS_fact, rule assms(2))

lemma step_quiet:
  "(\<And>z. tripleS (after K x) (at K x y) (h z) Q) \<Longrightarrow> tripleS (after K x) (at K x y) (bindS clock_now h) Q"
  "(\<And>z. tripleS (after K x) (at K x y) (k z) Q) \<Longrightarrow> tripleS (after K x) (at K x y) (bindS (now_rfc3339 G) k) Q"
  "(\<And>z. tripleS (after K x) (at K x y) (l z) Q) \<Longrightarrow> tripleS (after K x) (at K x y) (bindS (map_errS g (ask_net fn)) l) Q"
  by (rule tripleS_bindS[OF clock_triple] tripleS_bindS[OF rfc3339_triple]
      tripleS_bindS[OF tripleS_map_errS[OF ask_net_triple]], assumption)+

lemma step_net:
  "(\<And>z. tripleS (after K x) (at K x y) (f z) Q) \<Longrightarrow> tripleS (after K x) (at K x y) (bindS (map_errS g (on_net m)) f) Q"
  by (rule tripleS_bindS[OF tripleS_map_errS[OF tripleS_conseq[OF on_net_triple, where Q = "\<lambda>_. at K x y"]]]) (auto intro: at_after)

lemma step_lift:
  "(\<And>z. r = Inr z \<Longrightarrow> tripleS (after K x) (at K x y) (f z) Q) \<Longrightarrow> tripleS (after K x) (at K x y) (bindS (liftS r) f) Q"
  by (cases r) (auto simp: tripleS_def bindS_def dest: at_after)

lemma step_err: "tripleS (after K x) (at K x y) (errS e) Q"
  by (rule tripleS_errS) (rule at_after)

lemma step_ok: "follows K x (at K x y) (okS z)"
  by (rule tripleS_okS) (rule at_after)

lemma step_last_read: "tripleS (after K x) (at K x y) m (\<lambda>z s. at K x y s \<and> F z) \<Longrightarrow> follows K x (at K x y) (map_errS g m)"
  by (rule tripleS_map_errS, erule tripleS_conseq) (auto dest: at_after)

lemmas reads = step_read[OF get_triple] step_read[OF pull_state_triple] step_read[OF has_pending_triple]
  step_read[OF pull_deltas_triple] step_read[OF pull_proposal_triple] step_read[OF pull_pending_triple]
lemmas steps = tripleS_if step_quiet step_net step_lift step_err step_ok reads

lemma step_cas:
  assumes "\<And>b w. (b \<Longrightarrow> w a \<noteq> None \<and> map_option m_auth (w a) = map_option m_auth (snd y a) \<and> ts_seen a ts (fst y, w) \<and> \<not> ts_seen a ts y) \<Longrightarrow> tripleS (after K x) (at K x (fst y, w)) (f b) Q"
  shows "tripleS (after K x) (at K x y) (bindS (map_errS g (on_meta (ms_update_last_auth_timestamp_cas M a ts now))) f) Q"
  by (rule tripleS_bindS[OF tripleS_map_errS[OF cas_triple]], rule tripleS_ex, rule tripleS_fact, rule assms) blast

text \<open>What a resolved account tells: its metadata, a verified signature, and a timestamp that was new and is now seen.\<close>

definition resolved ::
  "('sig, 'pk, 'su, 'n) externals \<Rightarrow> ('sig, 'esig, 'epk) ecdsa_auth \<Rightarrow> gabs \<Rightarrow> string \<Rightarrow> credentials
   \<Rightarrow> account_metadata \<Rightarrow> (string \<Rightarrow> account_metadata option) \<Rightarrow> bool" where
  "resolved X E y a c m w \<longleftrightarrow>
     snd y a = Some m \<and> ok_id a \<and> auth_verify X E (m_auth m) a c = Inr () \<and> w a \<noteq> None \<and>
     map_option m_auth (w a) = map_option m_auth (snd y a) \<and>
     \<not> ts_seen a (cr_timestamp c) y \<and> ts_seen a (cr_timestamp c) (fst y, w)"

lemma at_ok_id:
  assumes "snd y a = Some m" and "ok_id a \<Longrightarrow> tripleS E (at K x y) f Q"
  shows "tripleS E (at K x y) f Q"
proof (rule tripleSI)
  fix s r s' assume s: "at K x y s" and run: "f s = (r, s')"
  have "ok_id a" using gabs_okD(1)[OF atD(3)[OF s] assms(1)] .
  from tripleSD[OF assms(2)[OF this] s run] show "(case r of Inl _ \<Rightarrow> E | Inr a \<Rightarrow> Q a) s'" .
qed

lemma at_gabs_ok:
  assumes "gabs_ok ok_id y \<Longrightarrow> tripleS E (at K x y) f Q"
  shows "tripleS E (at K x y) f Q"
proof (rule tripleSI)
  fix s r s' assume s: "at K x y s" and run: "f s = (r, s')"
  from tripleSD[OF assms[OF atD(3)[OF s]] s run] show "(case r of Inl _ \<Rightarrow> E | Inr a \<Rightarrow> Q a) s'" .
qed

lemma verify_triple:
  "tripleS (after K x) (at K x y)
     (case a of EvmEcdsa _ \<Rightarrow> errS e | _ \<Rightarrow> liftS (map_err g (auth_verify X E a i c)))
     (\<lambda>_ s. at K x y s \<and> auth_verify X E a i c = Inr ())"
  by (cases a) (auto intro!: tripleS_liftS tripleS_errS at_after)

lemma resolve_triple:
  assumes "uses G"
  shows "tripleS (after K x) (at K x y) (resolve_account X E G a c)
    (\<lambda>m s. \<exists>w. at K x (fst y, w) s \<and> resolved X E y a c m w)"
proof -
  have G: "ge_storage G = B" "ge_meta G = M" using assms by (simp_all add: uses_def)
  show ?thesis unfolding resolve_account_def Let_def G
    apply (intro steps)
    apply (rule at_ok_id, simp)
    apply (rule tripleS_bindS[OF verify_triple], rule tripleS_fact)
    apply (intro steps step_cas)
    apply (rule tripleS_okS)
    apply (auto simp: resolved_def)
    done
qed

lemma step_resolve:
  assumes "uses G" and "\<And>m w. resolved X E y a c m w \<Longrightarrow> tripleS (after K x) (at K x (fst y, w)) (f m) Q"
  shows "tripleS (after K x) (at K x y) (bindS (resolve_account X E G a c) f) Q"
  by (rule tripleS_bindS[OF resolve_triple[OF assms(1)]], rule tripleS_ex, rule tripleS_fact, rule assms)

lemma step_require: "(\<And>z. tripleS (after K x) (at K x y) (f z) Q) \<Longrightarrow> tripleS (after K x) (at K x y) (bindS (require_miden m op) f) Q"
  by (simp add: require_miden_def step_err)

lemma delete_matching_follows:
  assumes "uses G" and "ok_id (d_account_id d)" and "kept K"
  shows "follows K x (at K x y) (delete_matching_proposal G d)"
proof -
  have G: "ge_storage G = B" using assms by (simp add: uses_def)
  show ?thesis unfolding delete_matching_proposal_def G
    apply (rule tripleS_observeS[OF ask_net_triple])
     apply (simp add: tripleS_okS)
    apply simp
    apply (rule tripleS_observeS[OF pull_proposal_triple[OF assms(2)]])
     apply (simp add: tripleS_okS)
    apply simp
    apply (rule tripleS_fact)
    apply (rule tripleS_observeS[OF delete_proposal_triple[OF assms(2,3)]])
     apply (auto intro!: tripleS_okS dest: at_after)
    done
qed

lemma commit_follows:
  assumes "uses G" and "ok_id (d_account_id d)" and "d_nonce d < u64_bound" and "snd y (d_account_id d) \<noteq> None"
    and "candidates (fst y) (d_account_id d) = {}" and "gv_states (fst y) (d_account_id d) = Some z"
    and "d_prev_commitment d = so_commitment z"
  shows "follows (\<lambda>_. True) x (at (\<lambda>_. True) x y) (commit_delta G strategy z now d nsj nc)"
proof (cases strategy)
  case CandidateStrategy
  have G: "ge_storage G = B" "ge_meta G = M" using assms by (simp_all add: uses_def)
  let ?d = "d \<lparr> d_status := status_candidate now \<rparr>"
  have "gspec ok_id y (put_delta (d_account_id ?d) (d_nonce ?d) (Some ?d) (fst y), snd y)"
    using gspec.candidate[of "snd y" "d_account_id d" _ ?d "fst y" z ok_id] assms by (auto simp: status_candidate_def)
  note sub = step_write[OF submit_delta_triple[OF _ _ this]]
  show ?thesis unfolding commit_delta_def CandidateStrategy Let_def G delta_commit_strategy.case
    by (rule sub) (use assms in \<open>auto intro!: step_meta[OF set_pending_triple] step_ok\<close>)
next
  case OptimisticStrategy
  have G: "ge_storage G = B" "ge_meta G = M" using assms by (simp_all add: uses_def)
  let ?d = "d \<lparr> d_status := Canonical now \<rparr>"
  have "gspec ok_id (v, snd y) (put_delta (d_account_id ?d) (d_nonce ?d) (Some ?d) (fst (v, snd y)), snd (v, snd y))" for v
    using gspec.canonical[of "snd y" "d_account_id d" _ ?d ok_id v] assms by auto
  note sub = step_write[OF submit_delta_triple[OF _ _ this]]
  show ?thesis unfolding commit_delta_def OptimisticStrategy Let_def G delta_commit_strategy.case
    by (rule step_write[OF submit_state_triple])
      (use assms in \<open>auto intro!: sub tripleS_bindS[OF delete_matching_follows] tripleS_okS\<close>)
qed

lemma resolved_ok: "resolved X E y a c m w \<Longrightarrow> ok_id a"
  by (simp add: resolved_def)

lemma push_delta_follows:
  assumes "uses G" and "d_nonce d < u64_bound"
  shows "follows (\<lambda>_. True) x (at (\<lambda>_. True) x y) (push_delta X E G d c)"
proof -
  have G: "ge_storage G = B" "ge_meta G = M" using assms by (simp_all add: uses_def)
  show ?thesis unfolding push_delta_def Let_def G
    apply (rule step_resolve[OF assms(1)], rule step_require)
    apply (intro steps)
      apply (erule resolved_ok)+
    apply (simp split: prod.split, intro allI impI steps)
    apply (drule ack_delta_Inr)
    apply (rule commit_follows[OF assms(1)])
         apply (use assms(2) in \<open>auto simp: resolved_def\<close>)
    done
qed

lemma push_proposal_follows:
  assumes "uses G"
  shows "follows (\<lambda>_. True) x (at (\<lambda>_. True) x y) (push_delta_proposal X E G a n payload c)"
proof -
  have G: "ge_storage G = B" "ge_meta G = M" using assms by (simp_all add: uses_def)
  show ?thesis unfolding push_delta_proposal_def Let_def G
    apply (intro steps step_resolve[OF assms(1)] step_require step_write[OF submit_proposal_triple])
    apply (simp_all add: resolved_ok)
    done
qed

lemma sign_proposal_follows:
  assumes "uses G"
  shows "follows (\<lambda>_. True) x (at (\<lambda>_. True) x y) (sign_delta_proposal X E G a h sg c)"
proof -
  have G: "ge_storage G = B" "ge_meta G = M" using assms by (simp_all add: uses_def)
  show ?thesis unfolding sign_delta_proposal_def Let_def G
    apply (intro steps step_resolve[OF assms(1)] step_require)
    apply (simp_all add: resolved_ok)
    apply (rule at_gabs_ok)
    apply (simp split: delta_status.split, intro conjI allI impI steps step_write[OF update_proposal_triple])
    apply (auto simp: resolved_def dest: gabs_okD(3) intro!: step_err)
    done
qed

lemma get_state_follows:
  assumes "uses G"
  shows "follows (\<lambda>_. True) x (at (\<lambda>_. True) x y) (get_state X E G a c)"
proof -
  have G: "ge_storage G = B" "ge_meta G = M" using assms by (simp_all add: uses_def)
  show ?thesis unfolding get_state_def G
    by (intro steps step_resolve[OF assms(1)] step_require) (simp_all add: resolved_ok)
qed

lemma get_delta_follows:
  assumes "uses G" and "n < u64_bound"
  shows "follows (\<lambda>_. True) x (at (\<lambda>_. True) x y) (get_delta X E G a n c)"
proof -
  have G: "ge_storage G = B" "ge_meta G = M" using assms by (simp_all add: uses_def)
  show ?thesis unfolding get_delta_def G
    by (intro step_resolve[OF assms(1)] step_require step_last_read[OF pull_delta_triple]) (simp_all add: resolved_ok assms)
qed

lemma get_delta_since_follows:
  assumes "uses G"
  shows "follows (\<lambda>_. True) x (at (\<lambda>_. True) x y) (get_delta_since X E G a n c)"
proof -
  have G: "ge_storage G = B" "ge_meta G = M" using assms by (simp_all add: uses_def)
  show ?thesis unfolding get_delta_since_def Let_def G
    by (intro steps step_resolve[OF assms(1)] step_require) (simp_all add: resolved_ok)
qed

lemma get_proposal_follows:
  assumes "uses G"
  shows "follows (\<lambda>_. True) x (at (\<lambda>_. True) x y) (get_delta_proposal X E G a h c)"
proof -
  have G: "ge_storage G = B" "ge_meta G = M" using assms by (simp_all add: uses_def)
  show ?thesis unfolding get_delta_proposal_def G
    by (intro steps step_resolve[OF assms(1)]) (simp_all add: resolved_ok)
qed

lemma get_proposals_follows:
  assumes "uses G"
  shows "follows (\<lambda>_. True) x (at (\<lambda>_. True) x y) (get_delta_proposals X E G a c)"
proof -
  have G: "ge_storage G = B" "ge_meta G = M" using assms by (simp_all add: uses_def)
  show ?thesis unfolding get_delta_proposals_def G
    by (intro step_resolve[OF assms(1)] tripleS_observeS[OF pull_all_triple])
      (auto simp: resolved_ok intro!: tripleS_okS dest: at_after)
qed

lemma find_triple: "tripleS (after K x) (at K x y) (on_meta (ms_find_by_cosigner_commitment M k)) (\<lambda>_ s. at K x y s \<and> True)"
proof (rule tripleS_on_meta)
  fix s :: "('st, 'ms, 'd) gapp" and r ms assume s: "at K x y s"
    and run: "ms_find_by_cosigner_commitment M k (ga_meta s) = (r, ms)"
  have "at K x y (s \<lparr> ga_meta := ms \<rparr>)" using find_law[OF run atD(2)[OF s]] at_meta_same[OF s] by blast
  then show "(case r of Inl _ \<Rightarrow> after K x | Inr _ \<Rightarrow> \<lambda>s. at K x y s \<and> True) (s \<lparr> ga_meta := ms \<rparr>)"
    using at_after[of K x y] by (cases r) simp_all
qed

lemma lookup_follows:
  assumes "uses G"
  shows "follows (\<lambda>_. True) x (at (\<lambda>_. True) x y) (lookup_account X E G k c)"
proof -
  have G: "ge_storage G = B" "ge_meta G = M" using assms by (simp_all add: uses_def)
  show ?thesis unfolding lookup_account_def Let_def G
    by (intro steps step_last_read[OF find_triple])
qed

lemma configure_follows:
  assumes "uses G" and "ok_id (ca_account_id p)"
  shows "follows (\<lambda>_. True) x (at (\<lambda>_. True) x y) (configure_account X E G p)"
proof -
  have G: "ge_storage G = B" "ge_meta G = M" using assms by (simp_all add: uses_def)
  show ?thesis unfolding configure_account_def Let_def G
    apply (intro steps step_write[OF submit_state_triple])
      apply (simp_all add: assms)
    apply (rule step_meta[OF set_triple])
     apply (auto simp: assms intro!: step_ok gspec_configure split: option.splits)
    done
qed

section \<open>The canonicalization job\<close>

lemma metadata_of_triple:
  assumes "uses G"
  shows "tripleS (after K x) (at K x y) (metadata_of G a) (\<lambda>m s. at K x y s \<and> snd y a = Some m)"
proof -
  have G: "ge_meta G = M" using assms by (simp add: uses_def)
  show ?thesis unfolding metadata_of_def G
    by (intro steps) (auto intro!: tripleS_liftS at_after)
qed

lemma step_metadata:
  assumes "uses G" and "\<And>m. snd y a = Some m \<Longrightarrow> tripleS (after K x) (at K x y) (f m) Q"
  shows "tripleS (after K x) (at K x y) (bindS (metadata_of G a) f) Q"
  by (rule tripleS_bindS[OF metadata_of_triple[OF assms(1)]], rule tripleS_fact, rule assms(2))

text \<open>The candidates of the account of a delta lie at its nonce.\<close>

abbreviation lone :: "delta_object \<Rightarrow> gview \<Rightarrow> bool" where
  "lone d \<equiv> \<lambda>v. candidates v (d_account_id d) \<subseteq> {d_nonce d}"

lemma step_canonical:
  assumes "ok_id (d_account_id d)" and "d_nonce d < u64_bound" and "snd y (d_account_id d) \<noteq> None"
    and "\<And>z v. tripleS (after (lone d) x) (at (lone d) x (v, snd y)) (f z) Q"
  shows "tripleS (after (lone d) x) (at (lone d) x y)
    (bindS (map_errS g (on_storage (submit_delta B (d \<lparr> d_status := Canonical now \<rparr>)))) f) Q"
proof (rule step_write[OF submit_delta_triple])
  let ?d = "d \<lparr> d_status := Canonical now \<rparr>"
  show "gspec ok_id y (put_delta (d_account_id ?d) (d_nonce ?d) (Some ?d) (fst y), snd y)"
    using gspec.canonical[of "snd y" "d_account_id d" _ ?d ok_id "fst y"] assms by auto
qed (use assms in auto)

lemma canonicalize_follows:
  assumes "uses G" and "ok_id (d_account_id d)" and "d_nonce d < u64_bound"
  shows "follows (lone d) x (at (lone d) x y) (canonicalize_verified_delta G d nsj nc)"
proof -
  have G: "ge_storage G = B" "ge_meta G = M" using assms by (simp_all add: uses_def)
  have upd: "tripleS (after (lone d) x) (at (lone d) x y) (case na of None \<Rightarrow> okS () | Some a \<Rightarrow> map_errS g (on_meta (ms_update_auth M b a now)))
      (\<lambda>_ s. \<exists>w. at (lone d) x (fst y, w) s \<and> dom (snd y) \<subseteq> dom w)" for y na b now g
    by (cases na) (auto intro!: tripleS_okS exI[of _ "snd y"] tripleS_map_errS[OF update_auth_triple])
  have rest: "follows (lone d) x (at (lone d) x y) (bindS (map_errS g (on_storage (submit_delta B (d \<lparr> d_status := Canonical now \<rparr>)))) (\<lambda>_.
      bindS (map_errS h (on_meta (ms_set_has_pending_candidate M (d_account_id d) False now))) (\<lambda>_. delete_matching_proposal G d)))"
    if "snd y (d_account_id d) \<noteq> None" for y g h now
    using that assms by (auto intro!: step_canonical step_meta[OF set_pending_triple] delete_matching_follows)
  show ?thesis unfolding canonicalize_verified_delta_def G
    apply (rule step_metadata[OF assms(1)])
    apply (intro steps step_write[OF submit_state_triple])
      apply (use assms in simp_all)
    apply (rule tripleS_bindS[OF upd], rule tripleS_ex, rule tripleS_fact)
    apply (rule rest)
    apply auto
    done
qed

lemma failed_follows:
  assumes "uses G" and "ok_id (d_account_id d)" and "d_nonce d < u64_bound"
  shows "follows (lone d) x (at (lone d) x y) (candidate_failed G P d)"
proof -
  have G: "ge_storage G = B" "ge_meta G = M" using assms by (simp_all add: uses_def)
  have ign: "follows (lone d) x (at (lone d) x y) (ignoreS (on_meta (ms_set_has_pending_candidate M a b now)))" for y a b now
    unfolding ignoreS_def
    by (rule tripleS_observeS[OF set_pending_triple]) (auto intro!: tripleS_okS dest: at_after)
  have upd: "follows (lone d) x (at (lone d) x y) (map_errS g (on_storage (update_delta_status B (d_account_id d) (d_nonce d) st)))" for g st
  proof (rule tripleS_map_errS, rule tripleSI)
    fix s :: "('st, 'ms, 'd) gapp" and r s' assume s: "at (lone d) x y s" and run: "on_storage (update_delta_status B (d_account_id d) (d_nonce d) st) s = (r, s')"
    have "tripleS (after (lone d) x) (at (lone d) x y) (on_storage (update_delta_status B (d_account_id d) (d_nonce d) st))
        (\<lambda>_ s. \<exists>v. at (lone d) x (v, snd y) s \<and> candidates v (d_account_id d) \<subseteq> {d_nonce d})"
      by (rule update_status_triple) (use assms atD(6)[OF s] in \<open>auto split: if_splits\<close>)
    from tripleSD[OF this s run] show "(case r of Inl _ \<Rightarrow> after (lone d) x | Inr _ \<Rightarrow> after (lone d) x) s'"
      by (auto dest: at_after split: sum.splits)
  qed
  show ?thesis unfolding candidate_failed_def Let_def G
    apply (intro steps step_write[OF delete_delta_triple] ign upd)
    using assms apply auto
    done
qed

lemma process_candidate_follows:
  assumes "uses G" and "ok_id (d_account_id d)" and "d_nonce d < u64_bound"
  shows "follows (lone d) x (at (lone d) x y) (process_candidate G P d)"
proof -
  have G: "ge_storage G = B" "ge_meta G = M" using assms by (simp_all add: uses_def)
  show ?thesis unfolding process_candidate_def G
    apply (rule step_metadata[OF assms(1)])
    apply (intro steps)
     apply (use assms in simp)
    apply (simp split: prod.split, intro allI impI)
    apply (rule tripleS_observeS[OF on_net_triple])
     apply (simp add: failed_follows assms)
    apply (auto simp: assms intro!: step_ok canonicalize_follows split: option.split)
    done
qed

lemma at_weaken: "at K x y s \<Longrightarrow> L (fst y) \<Longrightarrow> at L x y s"
  by (simp add: at_def)

lemma after_weaken: "after K x s \<Longrightarrow> after (\<lambda>_. True) x s"
  by (simp add: after_def at_def)

lemma process_account_follows:
  assumes "uses G"
  shows "follows (\<lambda>_. True) x (at (\<lambda>_. True) x y) (process_account G P a)"
proof -
  have G: "ge_storage G = B" "ge_meta G = M" using assms by (simp_all add: uses_def)
  have loop: "follows (\<lambda>_. True) x (at (\<lambda>_. True) x y) (forS (\<lambda>d. ignoreS (process_candidate G P d)) (get_candidates ds))"
    if ds: "\<forall>d \<in> set ds. \<exists>m. gv_deltas (fst y) a m = Some d" and a: "ok_id a" and ok: "gabs_ok ok_id y" for ds
  proof (cases "get_candidates ds")
    case Nil
    then show ?thesis by (simp add: step_ok)
  next
    case (Cons d0 rest)
    have c: "d_account_id d = a \<and> d_nonce d < u64_bound \<and> candidates (fst y) a = {d_nonce d}" if "d \<in> set (get_candidates ds)" for d
    proof -
      have "d \<in> set ds" "is_candidate (d_status d)" using that by (auto simp: get_candidates_def)
      then obtain m where m: "gv_deltas (fst y) a m = Some d" using ds by blast
      then have "m \<in> candidates (fst y) a" using \<open>is_candidate (d_status d)\<close> by (auto simp: candidates_def)
      then show ?thesis using gabs_okD(2)[OF ok m] gabs_okD(4)[OF ok] by auto
    qed
    have d0: "candidates (fst y) a = {d_nonce d0}" "d_account_id d0 = a" using c[of d0] Cons by auto
    have "follows (lone d0) x (after (lone d0) x) (forS (\<lambda>d. ignoreS (process_candidate G P d)) (get_candidates ds))"
    proof (rule tripleS_forS)
      fix d assume "d \<in> set (get_candidates ds)"
      from c[OF this] d0 have d: "ok_id (d_account_id d)" "d_nonce d < u64_bound" "lone d = lone d0" using a by auto
      show "follows (lone d0) x (after (lone d0) x) (ignoreS (process_candidate G P d))"
        unfolding ignoreS_def
        by (rule after_cases, rule tripleS_observeS[OF process_candidate_follows[OF assms d(1,2), unfolded d(3)]])
          (simp_all add: tripleS_okS)
    qed
    then show ?thesis
      by (rule tripleS_conseq) (rule at_after, erule at_weaken, simp add: d0, (erule after_weaken)+)
  qed
  show ?thesis unfolding process_account_def G
    by (rule at_gabs_ok, intro steps) (auto intro!: loop dest: gabs_okD(1))
qed

lemma list_pending_triple:
  "tripleS (after K x) (at K x y) (on_meta (ms_list_with_pending_candidates M)) (\<lambda>_ s. at K x y s \<and> True)"
proof (rule tripleS_on_meta)
  fix s :: "('st, 'ms, 'd) gapp" and r ms assume s: "at K x y s"
    and run: "ms_list_with_pending_candidates M (ga_meta s) = (r, ms)"
  have "at K x y (s \<lparr> ga_meta := ms \<rparr>)" using list_pending_law[OF run atD(2)[OF s]] at_meta_same[OF s] by blast
  then show "(case r of Inl _ \<Rightarrow> after K x | Inr _ \<Rightarrow> \<lambda>s. at K x y s \<and> True) (s \<lparr> ga_meta := ms \<rparr>)"
    using at_after[of K x y] by (cases r) simp_all
qed

lemma process_all_follows:
  assumes "uses G"
  shows "follows (\<lambda>_. True) x (at (\<lambda>_. True) x y) (process_all_accounts G P)"
proof -
  have G: "ge_meta G = M" using assms by (simp add: uses_def)
  have loop: "follows (\<lambda>_. True) x (after (\<lambda>_. True) x) (forS (\<lambda>a. ignoreS (process_account G P a)) as)" for as
    unfolding ignoreS_def
    by (rule tripleS_forS, rule after_cases, rule tripleS_observeS[OF process_account_follows[OF assms]])
      (simp_all add: tripleS_okS)
  show ?thesis unfolding process_all_accounts_def G
    by (intro step_read[OF list_pending_triple]) (rule tripleS_conseq[OF loop at_after])
qed

section \<open>Simulation\<close>

lemma follows_run:
  assumes "\<And>x y. follows (\<lambda>_. True) x (at (\<lambda>_. True) x y) m" and "good s" and "m s = (r, s')"
  shows "good s' \<and> (gspec ok_id)\<^sup>*\<^sup>* (view s) (view s')"
proof -
  have "at (\<lambda>_. True) (view s) (view s) s" using assms(2) by (simp add: at_def)
  from tripleSD[OF assms(1) this assms(3)] show ?thesis by (auto simp: after_def at_def split: sum.splits)
qed

lemma gstep_simulated:
  assumes "gstep ok_id X E G s s'" and "uses G" and "good s"
  shows "good s' \<and> (gspec ok_id)\<^sup>*\<^sup>* (view s) (view s')"
  using assms
proof (cases rule: gstep.cases)
  case configure then show ?thesis using follows_run[OF configure_follows] assms by blast
next
  case push then show ?thesis using follows_run[OF push_delta_follows] assms by blast
next
  case propose then show ?thesis using follows_run[OF push_proposal_follows] assms by blast
next
  case sign then show ?thesis using follows_run[OF sign_proposal_follows] assms by blast
next
  case read_state then show ?thesis using follows_run[OF get_state_follows] assms by blast
next
  case read_delta then show ?thesis using follows_run[OF get_delta_follows] assms by blast
next
  case read_since then show ?thesis using follows_run[OF get_delta_since_follows] assms by blast
next
  case read_proposal then show ?thesis using follows_run[OF get_proposal_follows] assms by blast
next
  case read_proposals then show ?thesis using follows_run[OF get_proposals_follows] assms by blast
next
  case lookup then show ?thesis using follows_run[OF lookup_follows] assms by blast
next
  case tick then show ?thesis using follows_run[OF process_all_follows] assms by blast
qed

lemma gsteps_simulated:
  assumes "(gstep ok_id X E G)\<^sup>*\<^sup>* s s'" and "uses G" and "good s"
  shows "good s' \<and> (gspec ok_id)\<^sup>*\<^sup>* (view s) (view s')"
  using assms
proof (induction rule: rtranclp_induct)
  case (step y z)
  then show ?case using gstep_simulated[of X E G y z] rtranclp_trans[of "gspec ok_id"] by blast
qed simp

text \<open>A request that authenticates leaves its timestamp behind.\<close>

lemma resolve_run:
  assumes "resolve_account X E G a c s = (Inr m, s')" and "uses G" and "good s"
  shows "good s' \<and> resolved X E (view s) a c m (snd (view s')) \<and> fst (view s') = fst (view s)"
proof -
  have "at (\<lambda>_. True) (view s) (view s) s" using assms(3) by (simp add: at_def)
  from tripleSD[OF resolve_triple[OF assms(2)] this assms(1)] show ?thesis by (auto simp: at_def)
qed

lemma no_replay:
  assumes "resolve_account X E G a c s = (Inr m, s1)" and "uses G" and "good s"
    and "(gstep ok_id X E G)\<^sup>*\<^sup>* s1 s2" and "cr_timestamp c' \<le> cr_timestamp c"
    and "resolve_account X E G a c' s2 = (r, s3)"
  shows "\<not> is_ok r"
proof
  assume "is_ok r"
  then obtain m' where r: "r = Inr m'" by (auto simp: is_ok_iff)
  note first = resolve_run[OF assms(1-3)]
  have seen: "ts_seen a (cr_timestamp c) (view s1)"
    using first by (metis resolved_def prod.collapse)
  have s2: "good s2" "(gspec ok_id)\<^sup>*\<^sup>* (view s1) (view s2)"
    using gsteps_simulated[OF assms(4,2)] first by blast+
  then have "ts_seen a (cr_timestamp c) (view s2)" using gspec_star_seen seen by blast
  then have "ts_seen a (cr_timestamp c') (view s2)" using assms(5) by (auto simp: ts_seen_def)
  moreover have "\<not> ts_seen a (cr_timestamp c') (view s2)"
    using resolve_run[OF assms(6)[unfolded r] assms(2) s2(1)] by (simp add: resolved_def)
  ultimately show False by blast
qed

end

section \<open>What a successful call did\<close>

lemma on_storage_run: "on_storage op s = (r, s') \<longleftrightarrow> (\<exists>st. op (ga_storage s) = (r, st) \<and> s' = s \<lparr> ga_storage := st \<rparr>)"
  by (auto simp: on_storage_def split: prod.splits)

lemma on_meta_run: "on_meta op s = (r, s') \<longleftrightarrow> (\<exists>ms. op (ga_meta s) = (r, ms) \<and> s' = s \<lparr> ga_meta := ms \<rparr>)"
  by (auto simp: on_meta_def split: prod.splits)

lemma ask_net_run: "ask_net f s = (r, s') \<longleftrightarrow> f (ga_net s) = r \<and> s' = s"
  by (auto simp: ask_net_def)

lemma map_errS_run: "map_errS g m s = (Inr a, s') \<longleftrightarrow> m s = (Inr a, s')"
  by (auto simp: map_errS_def split: prod.splits)

lemma now_rfc3339_run: "now_rfc3339 G s = (r, s') \<Longrightarrow>
    ga_storage s' = ga_storage s \<and> ga_meta s' = ga_meta s \<and> ga_net s' = ga_net s \<and> is_ok r"
  by (auto simp: now_rfc3339_def clock_now_def bindS_def split: list.splits)

lemma pending_case_run:
  "(case st of Pending ts p sigs \<Rightarrow> f ts p sigs | Candidate _ _ \<Rightarrow> errS e | Canonical _ \<Rightarrow> errS e | Discarded _ \<Rightarrow> errS e) s = (Inr x, s')
     \<longleftrightarrow> (\<exists>ts p sigs. st = Pending ts p sigs \<and> f ts p sigs s = (Inr x, s'))"
  by (cases st) auto

lemma if_err_run: "(if b then errS e else m) s = (Inr x, s') \<longleftrightarrow> \<not> b \<and> m s = (Inr x, s')"
  by simp

lemmas run_iffs = bindS_Inr_iff map_errS_run on_storage_run on_meta_run ask_net_run

lemma net_untouched [keeps]:
  "keepsS (\<lambda>s. ga_net s = n) (on_storage op)" "keepsS (\<lambda>s. ga_net s = n) (on_meta op')"
  "keepsS (\<lambda>s. ga_net s = n) (ask_net f)" "keepsS (\<lambda>s. ga_net s = n) clock_now" "keepsS (\<lambda>s. ga_net s = n) (now_rfc3339 G)"
proof -
  show c: "keepsS (\<lambda>s. ga_net s = n) clock_now" by (auto simp: keepsS_def clock_now_def split: list.splits)
  show "keepsS (\<lambda>s. ga_net s = n) (now_rfc3339 G)" unfolding now_rfc3339_def by (intro keeps c)
qed (auto simp: keepsS_def on_storage_def on_meta_def ask_net_def split: prod.splits)

lemma resolve_keeps_net: "keepsS (\<lambda>s. ga_net s = n) (resolve_account X E G a c)"
  unfolding resolve_account_def Let_def
  by (intro keeps) (auto split: auth.splits intro!: keeps)

text \<open>The instant the clock shows.\<close>

definition now_of :: "('st, 'ms, 'nc) gapp \<Rightarrow> int" where
  "now_of s = (case ga_clock s of [] \<Rightarrow> 0 | t # _ \<Rightarrow> t)"

definition past_grace :: "('st, 'ms, 'nc) genv \<Rightarrow> deltas_processor \<Rightarrow> delta_object \<Rightarrow> int \<Rightarrow> bool" where
  "past_grace G P d now \<longleftrightarrow>
     (case candidate_age_seconds (ge_chrono G) d now of Some age \<Rightarrow> dp_grace_seconds P \<le> age | None \<Rightarrow> True)"

lemma clock_now_eq: "clock_now s = (Inr (now_of s), s \<lparr> ga_clock := tl (ga_clock s) \<rparr>)"
  by (cases s) (auto simp: clock_now_def now_of_def split: list.splits)

lemma ignoreS_run: "ignoreS m s = (r, s') \<longleftrightarrow> r = Inr () \<and> s' = snd (m s)"
  by (auto simp: ignoreS_def observeS_def split: prod.splits)

lemma on_meta_snd: "snd (on_meta op s) = s \<lparr> ga_meta := snd (op (ga_meta s)) \<rparr>"
  by (simp add: on_meta_def split: prod.splits)

definition unconfirmed :: "('st, 'ms, 'nc) genv \<Rightarrow> bool" where
  "unconfirmed G \<longleftrightarrow> (\<forall>a j nc. \<not> is_ok (fst (nc_verify_state (ge_net G) a j nc)))"

context guardian_backends
begin

lemma push_outcome:
  assumes run: "push_delta X E G d c s = (Inr d', s')" and G: "uses G" and s: "good s" and n: "d_nonce d < u64_bound"
    and strat: "ge_canonicalization G \<noteq> None"
  shows "\<exists>m z nsj ncm e now. mabs (ga_meta s) (d_account_id d) = Some m \<and>
    gv_states (abs (ga_storage s)) (d_account_id d) = Some z \<and> d_prev_commitment d = so_commitment z \<and>
    candidates (abs (ga_storage s)) (d_account_id d) = {} \<and>
    nc_verify_delta (ge_net G) (ga_net s) (so_commitment z) (so_state_json z) (d_payload d) = Inr () \<and>
    nc_apply_delta (ge_net G) (ga_net s) (so_state_json z) (d_payload d) = Inr (nsj, ncm) \<and>
    ack_delta X (ge_ack G) (d \<lparr> d_new_commitment := Some ncm \<rparr>) (auth_scheme (m_auth m)) = Inr e \<and>
    d' = e \<lparr> d_ack_pubkey := ack_pubkey (ge_ack G) (auth_scheme (m_auth m)), d_ack_scheme := scheme_as_str (auth_scheme (m_auth m)),
      d_status := Candidate now 0 \<rparr> \<and>
    abs (ga_storage s') = put_delta (d_account_id d) (d_nonce d) (Some d') (abs (ga_storage s))"
proof -
  have B: "ge_storage G = B" "ge_meta G = M" using G by (simp_all add: uses_def)
  from run obtain m s1 z st2 p st3 nsj ncm e now s4 where r: "resolve_account X E G (d_account_id d) c s = (Inr m, s1)"
    and z: "pull_state B (d_account_id d) (ga_storage s1) = (Inr z, st2)"
    and p: "has_pending_candidate B (d_account_id d) st2 = (Inr p, st3)" and np: "\<not> p" "d_prev_commitment d = so_commitment z"
    and vf: "nc_verify_delta (ge_net G) (ga_net s1) (so_commitment z) (so_state_json z) (d_payload d) = Inr ()"
    and ap: "nc_apply_delta (ge_net G) (ga_net s1) (so_state_json z) (d_payload d) = Inr (nsj, ncm)"
    and ak: "ack_delta X (ge_ack G) (d \<lparr> d_new_commitment := Some ncm \<rparr>) (auth_scheme (m_auth m)) = Inr e"
    and t: "now_rfc3339 G (s1 \<lparr> ga_storage := st3 \<rparr>) = (Inr now :: guardian_error + string, s4)"
    and cm: "commit_delta G (strategy_from_app_state G) z now (e \<lparr> d_ack_pubkey := ack_pubkey (ge_ack G) (auth_scheme (m_auth m)),
       d_ack_scheme := scheme_as_str (auth_scheme (m_auth m)) \<rparr>) nsj ncm s4 = (Inr d', s')"
    unfolding push_delta_def Let_def B by (auto simp: run_iffs require_miden_def split: if_splits)
  note res = resolve_run[OF r G s]
  have a: "ok_id (d_account_id d)" and m: "mabs (ga_meta s) (d_account_id d) = Some m"
    and v1: "abs (ga_storage s1) = abs (ga_storage s)" and i1: "sinv (ga_storage s1)"
    using res by (auto simp: resolved_def view_def good_def)
  have net: "ga_net s1 = ga_net s" using keepsSD[OF resolve_keeps_net[of "ga_net s" X E G "d_account_id d" c], of s] r by simp
  let ?e = "e \<lparr> d_ack_pubkey := ack_pubkey (ge_ack G) (auth_scheme (m_auth m)),
       d_ack_scheme := scheme_as_str (auth_scheme (m_auth m)), d_status := Candidate now 0 \<rparr>"
  obtain sg where e: "e = d \<lparr> d_new_commitment := Some ncm, d_ack_sig := sg \<rparr>" using ack_delta_Inr[OF ak] by auto
  have st4: "ga_storage s4 = st3" using now_rfc3339_run[OF t] by simp
  from cm strat obtain st5 where sub: "submit_delta B ?e st3 = (Inr (), st5)" and d': "d' = ?e" and s': "ga_storage s' = st5"
    by (auto simp: commit_delta_def strategy_from_app_state_def run_iffs status_candidate_def B st4 Let_def)
  note l2 = pull_state_law[OF z i1 a]
  have l3: "sinv st3 \<and> abs st3 = abs st2 \<and> p = (\<exists>m d'. gv_deltas (abs st2) (d_account_id d) m = Some d' \<and> is_candidate (d_status d'))"
    using has_pending_law[OF p _ a] l2 by simp
  have "sinv st3" using l3 by blast
  from submit_delta_law[OF sub this] have "abs st5 = put_delta (d_account_id d) (d_nonce d) (Some ?e) (abs st3)"
    using a n by (simp add: e)
  moreover have "candidates (abs (ga_storage s)) (d_account_id d) = {}" using l3 l2 np v1 by (auto simp: candidates_def)
  ultimately show ?thesis
    using m l2 l3 v1 np vf ap ak d' s' net by (intro exI[of _ m] exI[of _ z] exI[of _ nsj] exI[of _ ncm] exI[of _ e] exI[of _ now]) simp
qed

lemma sign_outcome:
  assumes run: "sign_delta_proposal X E G a c sg cr s = (Inr p', s')" and G: "uses G" and s: "good s"
  shows "\<exists>m h p ts proposer sigs signer now payload. mabs (ga_meta s) a = Some m \<and> commitment_key c = Some h \<and>
    gv_props (abs (ga_storage s)) a h = Some p \<and> d_status p = Pending ts proposer sigs \<and>
    compute_signer_commitment X E (m_auth m) (cr_pubkey cr) = Inr signer \<and>
    \<not> list_ex (\<lambda>x. eq_ignore_ascii_case (cs_signer_id x) signer) sigs \<and>
    append_payload_signature (d_payload p) \<lparr> signer_id = signer, ds_signature = sg \<rparr> = Inr payload \<and>
    p' = p \<lparr> d_payload := payload, d_status := Pending ts proposer
      (sigs @ [\<lparr> cs_signature = sg, cs_timestamp = now, cs_signer_id = signer \<rparr>]) \<rparr> \<and>
    abs (ga_storage s') = put_prop a h (Some p') (abs (ga_storage s)) \<and> good s' \<and>
    map_option m_auth (mabs (ga_meta s') a) = Some (m_auth m)"
proof -
  have B: "ge_storage G = B" "ge_meta G = M" using G by (simp_all add: uses_def)
  from run obtain hn m s1 p st2 ts proposer sigs signer now s3 payload st4 where h: "normalize_commitment_hex c = Inr hn"
    and r: "resolve_account X E G a cr s = (Inr m, s1)"
    and p: "pull_delta_proposal B a hn (ga_storage s1) = (Inr p, st2)"
    and st: "d_status p = Pending ts proposer sigs"
    and sn: "compute_signer_commitment X E (m_auth m) (cr_pubkey cr) = Inr signer"
    and fresh: "\<not> list_ex (\<lambda>x. eq_ignore_ascii_case (cs_signer_id x) signer) sigs"
    and t: "now_rfc3339 G (s1 \<lparr> ga_storage := st2 \<rparr>) = (Inr now :: guardian_error + string, s3)"
    and ap: "append_payload_signature (d_payload p) \<lparr> signer_id = signer, ds_signature = sg \<rparr> = Inr payload"
    and p': "p' = p \<lparr> d_payload := payload, d_status := Pending ts proposer
      (sigs @ [\<lparr> cs_signature = sg, cs_timestamp = now, cs_signer_id = signer \<rparr>]) \<rparr>"
    and up: "update_delta_proposal B hn p' (ga_storage s3) = (Inr (), st4)" and s': "s' = s3 \<lparr> ga_storage := st4 \<rparr>"
    unfolding sign_delta_proposal_def Let_def B by (auto simp: run_iffs require_miden_def pending_case_run if_err_run)
  note res = resolve_run[OF r G s]
  have a: "ok_id a" and m: "mabs (ga_meta s) a = Some m" and v1: "abs (ga_storage s1) = abs (ga_storage s)" and g1: "good s1"
    and i1: "sinv (ga_storage s1)"
    using res by (auto simp: resolved_def view_def good_def)
  note l2 = pull_proposal_law[OF p i1 a]
  obtain k where k: "commitment_key hn = Some k" "gv_props (abs (ga_storage s)) a k = Some p" using l2 v1 by auto
  have st3: "ga_storage s3 = st2" "ga_meta s3 = ga_meta s1" using now_rfc3339_run[OF t] by simp_all
  have pa: "d_account_id p = a" using gabs_okD(3)[of ok_id "view s" a k p] s k by (simp add: good_def view_def)
  have hk: "commitment_key hn = commitment_key c" using h normalize_commitment_idem[OF h] by (simp add: commitment_key_def)
  have "sinv st4 \<and> abs st4 = put_prop a k (Some p') (abs (ga_storage s))"
    using update_proposal_law[OF up] l2 v1 st3 a pa k by (auto simp: p')
  moreover have "good s'" using follows_run[OF sign_proposal_follows[OF G] s run] by blast
  moreover have "map_option m_auth (mabs (ga_meta s') a) = Some (m_auth m)"
    using res m s' st3(2) by (simp add: resolved_def view_def)
  ultimately show ?thesis
    using m hk k st sn fresh ap p' s'
    by (intro exI[of _ m] exI[of _ k] exI[of _ p] exI[of _ ts] exI[of _ proposer] exI[of _ sigs] exI[of _ signer] exI[of _ now]
        exI[of _ payload]) simp
qed

lemma no_second_signature:
  assumes run: "sign_delta_proposal X E G a c sg cr s = (Inr p', s')" and G: "uses G" and s: "good s"
    and same: "cr_pubkey cr' = cr_pubkey cr"
  shows "\<not> is_ok (fst (sign_delta_proposal X E G a c sg' cr' s'))"
proof
  assume "is_ok (fst (sign_delta_proposal X E G a c sg' cr' s'))"
  then obtain p2 s2 where run2: "sign_delta_proposal X E G a c sg' cr' s' = (Inr p2, s2)"
    by (cases "sign_delta_proposal X E G a c sg' cr' s'") (auto simp: is_ok_iff)
  from sign_outcome[OF run G s] obtain m h signer ts proposer sigs now p where 1: "mabs (ga_meta s) a = Some m" "commitment_key c = Some h"
    "compute_signer_commitment X E (m_auth m) (cr_pubkey cr) = Inr signer"
    "d_status p' = Pending ts proposer (sigs @ [\<lparr> cs_signature = sg, cs_timestamp = now, cs_signer_id = signer \<rparr>])"
    "abs (ga_storage s') = put_prop a h (Some p') (abs (ga_storage s))" "good s'"
    "map_option m_auth (mabs (ga_meta s') a) = Some (m_auth m)" by auto
  from sign_outcome[OF run2 G 1(6)] obtain m2 ts2 proposer2 sigs2 signer2 where 2: "mabs (ga_meta s') a = Some m2"
    "d_status p' = Pending ts2 proposer2 sigs2" "compute_signer_commitment X E (m_auth m2) (cr_pubkey cr') = Inr signer2"
    "\<not> list_ex (\<lambda>x. eq_ignore_ascii_case (cs_signer_id x) signer2) sigs2"
    using 1(2,5) by auto
  have "m_auth m2 = m_auth m" using 1(7) 2(1) by simp
  then have "signer2 = signer" using 1(3) 2(3) same by simp
  then show False using 1(4) 2(2,4) by (auto simp: eq_ignore_ascii_case_def)
qed

lemma candidate_failed_outcome:
  assumes run: "candidate_failed G P d s = (Inr u, s')" and G: "ge_storage G = B" and i: "sinv (ga_storage s)"
    and d: "gv_deltas (abs (ga_storage s)) (d_account_id d) (d_nonce d) = Some d" and a: "ok_id (d_account_id d)" "d_nonce d < u64_bound"
    and pg: "past_grace G P d (now_of s)"
  shows "abs (ga_storage s') = put_delta (d_account_id d) (d_nonce d)
    (if dp_max_retries P \<le> u32_add (retry_count (d_status d)) 1 then None else Some (d \<lparr> d_status := with_incremented_retry (d_status d) [] \<rparr>))
    (abs (ga_storage s))"
proof -
  let ?s1 = "s \<lparr> ga_clock := tl (ga_clock s) \<rparr>"
  have grace: "\<not> (case candidate_age_seconds (ge_chrono G) d (now_of s) of None \<Rightarrow> False | Some age \<Rightarrow> age < dp_grace_seconds P)"
    using pg by (auto simp: past_grace_def split: option.splits)
  have inc: "with_incremented_retry st x = with_incremented_retry st []" for st x by (cases st) auto
  show ?thesis
  proof (cases "dp_max_retries P \<le> u32_add (retry_count (d_status d)) 1")
    case True
    with run obtain st ms where del: "delete_delta B (d_account_id d) (d_nonce d) (ga_storage s) = (Inr (), st)"
      and s': "s' = ?s1 \<lparr> ga_storage := st, ga_meta := ms \<rparr>"
      by (auto simp: candidate_failed_def bindS_step[OF clock_now_eq] grace G run_iffs Let_def ignoreS_run on_meta_snd)
    show ?thesis using delete_delta_law[OF del i a] True s' by simp
  next
    case False
    with run obtain st x where up: "update_delta_status B (d_account_id d) (d_nonce d) (with_incremented_retry (d_status d) x) (ga_storage s) = (Inr (), st)"
      and s': "s' = ?s1 \<lparr> ga_storage := st \<rparr>"
      by (auto simp: candidate_failed_def bindS_step[OF clock_now_eq] grace G run_iffs Let_def)
    show ?thesis using update_status_law[OF up i a] False s' d inc[of "d_status d" x] by auto
  qed
qed

lemma retry_outcome:
  assumes run: "process_candidate G P d s = (Inr u, s')" and G: "uses G" and s: "good s"
    and d: "gv_deltas (abs (ga_storage s)) a n = Some d" and a: "ok_id a" and no: "unconfirmed G" and pg: "past_grace G P d (now_of s)"
  shows "abs (ga_storage s') = put_delta a n
    (if dp_max_retries P \<le> u32_add (retry_count (d_status d)) 1 then None else Some (d \<lparr> d_status := with_incremented_retry (d_status d) [] \<rparr>))
    (abs (ga_storage s))"
proof -
  have B: "ge_storage G = B" "ge_meta G = M" using G by (simp_all add: uses_def)
  have k: "d_account_id d = a" "d_nonce d = n" "n < u64_bound"
    using gabs_okD(2)[of ok_id "view s" a n d] s d by (auto simp: good_def view_def)
  from run obtain ms z st nsj ncm where z: "pull_state B a (ga_storage s) = (Inr z, st)"
    and rest: "observeS (on_net (nc_verify_state (ge_net G) a nsj)) (\<lambda>v. case v of
       Inr _ \<Rightarrow> (case d_new_commitment d of Some c \<Rightarrow> canonicalize_verified_delta G d nsj c | None \<Rightarrow> okS ())
     | Inl _ \<Rightarrow> candidate_failed G P d) (s \<lparr> ga_meta := ms, ga_storage := st \<rparr>) = (Inr u, s')"
    unfolding process_candidate_def metadata_of_def B by (auto simp: run_iffs k)
  obtain e nc where v: "nc_verify_state (ge_net G) a nsj (ga_net s) = (Inl e, nc)"
    using no[unfolded unconfirmed_def, rule_format, of a nsj "ga_net s"]
    by (cases "nc_verify_state (ge_net G) a nsj (ga_net s)"; cases "fst (nc_verify_state (ge_net G) a nsj (ga_net s))") auto
  have f: "candidate_failed G P d (s \<lparr> ga_meta := ms, ga_storage := st, ga_net := nc \<rparr>) = (Inr u, s')"
    using rest v by (simp add: observeS_def on_net_def)
  have law: "sinv st \<and> abs st = abs (ga_storage s)" using pull_state_law[OF z _ a] s by (simp add: good_def)
  show ?thesis
    using candidate_failed_outcome[OF f B(1)] law d k a pg by (simp add: now_of_def)
qed

lemma process_candidate_good:
  assumes "process_candidate G P d s = (r, s')" and "uses G" and s: "good s" and d: "gv_deltas (abs (ga_storage s)) a n = Some d"
    and c: "is_candidate (d_status d)" and "ok_id a"
  shows "good s'"
proof -
  have ok: "gabs_ok ok_id (view s)" using s by (simp add: good_def)
  have k: "d_account_id d = a" "d_nonce d = n" "n < u64_bound" using gabs_okD(2)[OF ok, of a n d] d by (auto simp: view_def)
  have "n \<in> candidates (fst (view s)) a" using d c by (auto simp: candidates_def view_def)
  then have "at (lone d) (view s) (view s) s" using gabs_okD(4)[OF ok] s k by (auto simp: at_def)
  from tripleSD[OF process_candidate_follows[OF assms(2)] this assms(1)] show ?thesis
    using k assms(6) by (auto simp: after_def at_def split: sum.splits)
qed

text \<open>A round of the job on a stored candidate that is past its grace period, without an I/O error.\<close>

definition retry_round ::
  "('st, 'ms, 'nc) genv \<Rightarrow> deltas_processor \<Rightarrow> string \<Rightarrow> nat \<Rightarrow> ('st, 'ms, 'nc) gapp \<Rightarrow> ('st, 'ms, 'nc) gapp \<Rightarrow> bool" where
  "retry_round G P a n s s' \<longleftrightarrow> (\<exists>d u. gv_deltas (abs (ga_storage s)) a n = Some d \<and> is_candidate (d_status d) \<and>
     past_grace G P d (now_of s) \<and> process_candidate G P d s = (Inr u, s'))"

lemma retry_rounds_bound:
  assumes "(retry_round G P a n ^^ k) s s'" and "uses G" and "good s" and "ok_id a" and "unconfirmed G"
    and "dp_max_retries P < u32_bound" and "gv_deltas (abs (ga_storage s)) a n = Some d" and "retry_count (d_status d) + 1 < u32_bound"
  shows "k \<le> max 1 (dp_max_retries P - retry_count (d_status d))"
  using assms(1,3,7,8)
proof (induction k arbitrary: s d)
  case (Suc k)
  from Suc.prems(1) obtain s1 where 1: "retry_round G P a n s s1" and rest: "(retry_round G P a n ^^ k) s1 s'"
    by (rule relpowp_Suc_E2)
  from 1 Suc.prems(3) have c: "is_candidate (d_status d)" and pg: "past_grace G P d (now_of s)"
    and "\<exists>u. process_candidate G P d s = (Inr u, s1)" by (auto simp: retry_round_def)
  then obtain u where run: "process_candidate G P d s = (Inr u, s1)" by blast
  have g1: "good s1" using process_candidate_good[OF run assms(2) Suc.prems(2,3) c assms(4)] .
  note out = retry_outcome[OF run assms(2) Suc.prems(2,3) assms(4,5) pg]
  obtain ts r where st: "d_status d = Candidate ts r" using c by (cases "d_status d") auto
  show ?case
  proof (cases "dp_max_retries P \<le> u32_add r 1")
    case True
    then have "gv_deltas (abs (ga_storage s1)) a n = None" using out st by simp
    then have "k = 0" using rest by (cases k) (auto simp: retry_round_def simp del: relpowp.simps(2) elim!: relpowp_Suc_E2)
    then show ?thesis by simp
  next
    case False
    then have "gv_deltas (abs (ga_storage s1)) a n = Some (d \<lparr> d_status := Candidate ts (u32_add r 1) \<rparr>)" using out st by simp
    moreover have r: "u32_add r 1 = r + 1" using Suc.prems(4) st by (simp add: u32_add_def)
    ultimately have "k \<le> max 1 (dp_max_retries P - (r + 1))"
      using Suc.IH[OF rest g1, of "d \<lparr> d_status := Candidate ts (r + 1) \<rparr>"] False assms(6) by simp
    then show ?thesis using False r st by auto
  qed
qed simp

end

end
