(* ===== verification/Guardian_Fs_Store.thy ===== *)
theory Guardian_Fs_Store
  imports Guardian_Contract
begin

text \<open>
  The filesystem backend fulfils the storage contract: the view of its files, what a write through
  a temporary file and a rename does under every script of I/O failures, what the directory scans
  return, and the interpretation \<open>fs_store\<close>. The invariant \<open>fs_inv\<close> says that no \<open>stat\<close> fails silently
  and that every file lies in an existing directory.
\<close>


section \<open>The view of the filesystem backend\<close>

definition fs_state_view :: "path \<Rightarrow> gcontent fsys \<Rightarrow> string \<Rightarrow> state_object option" where
  "fs_state_view app s a =
     (case fget s (app @ [a, ''state.json'']) of Some (Intact c) \<Rightarrow> if plain_name a then as_state c else None | _ \<Rightarrow> None)"

definition fs_delta_view :: "path \<Rightarrow> gcontent fsys \<Rightarrow> string \<Rightarrow> nat \<Rightarrow> delta_object option" where
  "fs_delta_view app s a n =
     (case fget s (app @ [a, ''deltas'', show_nat n @ ''.json'']) of
        Some (Intact c) \<Rightarrow> if plain_name a \<and> n < u64_bound then as_delta c else None | _ \<Rightarrow> None)"

definition hex_name :: "string \<Rightarrow> bool" where
  "hex_name h \<longleftrightarrow> h \<noteq> [] \<and> list_all is_hexdigit h"

definition fs_prop_view :: "path \<Rightarrow> gcontent fsys \<Rightarrow> string \<Rightarrow> string \<Rightarrow> delta_object option" where
  "fs_prop_view app s a h =
     (case fget s (app @ [a, ''proposals'', h @ ''.json'']) of
        Some (Intact c) \<Rightarrow> if plain_name a \<and> hex_name h then as_delta c else None | _ \<Rightarrow> None)"

definition fs_view :: "path \<Rightarrow> gcontent fsys \<Rightarrow> gview" where
  "fs_view app s =
     \<lparr> gv_states = fs_state_view app s, gv_deltas = fs_delta_view app s, gv_props = fs_prop_view app s \<rparr>"

definition fs_inv :: "path \<Rightarrow> gcontent fsys \<Rightarrow> bool" where
  "fs_inv app s \<longleftrightarrow> plain_path app \<and> fs_stat_faults s = [] \<and> parents s"

lemma fs_view_sel [simp]:
  "gv_states (fs_view app s) = fs_state_view app s" "gv_deltas (fs_view app s) = fs_delta_view app s"
  "gv_props (fs_view app s) = fs_prop_view app s"
  by (simp_all add: fs_view_def)

lemma plain_storage_names [simp]:
  "plain_name ''state.json''" "plain_name ''deltas''" "plain_name ''proposals''"
  by (simp_all add: plain_name_def)

lemma hex_name_plain [simp]: "hex_name h \<Longrightarrow> plain_name (h @ ''.json'')"
  using is_hexdigit_not_slash
  by (cases h) (auto simp: hex_name_def plain_name_def list_all_iff)

lemma storage_paths:
  assumes "plain_name a"
  shows "get_state_path app a = app @ [a, ''state.json'']"
    and "deltas_dir app a = app @ [a, ''deltas'']"
    and "get_delta_path app a n = app @ [a, ''deltas'', show_nat n @ ''.json'']"
    and "proposals_dir app a = app @ [a, ''proposals'']"
  using assms by (simp_all add: get_state_path_def deltas_dir_def get_delta_path_def proposals_dir_def)

lemma proposal_path:
  assumes "plain_name a"
  shows "get_delta_proposal_path app a c = Inr p \<longleftrightarrow>
    (\<exists>h. commitment_key c = Some h \<and> hex_name h \<and> p = app @ [a, ''proposals'', h @ ''.json''])"
proof (cases "normalize_commitment_hex c")
  case (Inl e)
  then show ?thesis by (simp add: get_delta_proposal_path_def commitment_key_def)
next
  case (Inr n)
  then obtain h where n: "n = ''0x'' @ h" and h: "hex_name h"
    using strip_0x_normal by (auto simp: hex_name_def)
  with Inr show ?thesis
    using assms by (auto simp: get_delta_proposal_path_def commitment_key_def storage_paths path_parent_def
        strip_prefix_Some_iff Let_def butlast_append)
qed

lemma json_tmp_neq [simp]: "a @ ''.json'' \<noteq> b @ ''.tmp''" "b @ ''.tmp'' \<noteq> a @ ''.json''"
proof -
  have "last (a @ ''.json'') \<noteq> last (b @ ''.tmp'')" by simp
  then show "a @ ''.json'' \<noteq> b @ ''.tmp''" "b @ ''.tmp'' \<noteq> a @ ''.json''" by metis+
qed

lemma with_extension_json:
  assumes "n \<noteq> []" and "plain_name (n @ ''.json'')"
  shows "path_with_extension ''tmp'' (q @ [n @ ''.json'']) = q @ [n @ ''.tmp'']"
  using assms by (simp add: path_with_extension_def path_file_name_def)

section \<open>Writing a file by a temporary and a rename\<close>

lemma tmp_rename_effect:
  assumes run: "bindS pre (\<lambda>_. err_prefix g (fs_rename t p)) s = (r, s')"
    and frame: "keepsS (same_files {t} s) pre"
    and written: "\<And>u s1. pre s = (Inr u, s1) \<Longrightarrow> fget s1 t = Some (Intact c)"
    and res: "resolve t = t" "resolve p = p" "t \<noteq> p"
  shows "same_files {t, p} s s' \<and> fget s' p = (if is_ok r then Some (Intact c) else fget s p)"
proof -
  obtain r1 s1 where m: "pre s = (r1, s1)" by fastforce
  have same: "same_files {t} s s1"
    using keepsS_run[OF frame _ m] by simp
  then have before: "fget s1 p = fget s p"
    using res by (simp add: same_filesD)
  show ?thesis
  proof (cases r1)
    case (Inl e)
    then show ?thesis
      using run m same before same_files_mono[of "{t}" s s1 "{t, p}"] by (auto simp: bindS_def)
  next
    case (Inr u)
    then obtain r0 where mv: "fs_rename t p s1 = (r0, s')" and r: "is_ok r = is_ok r0"
      using run m by (auto simp: bindS_def dest!: err_prefix_cases)
    have "same_files ({t} \<union> {resolve t, resolve p}) s s'"
      using same_files_trans[OF same rename_frame(1)[OF mv]] .
    then have "same_files {t, p} s s'" unfolding res by (rule same_files_mono) auto
    moreover have "fget s1 t = Some (Intact c)" using written m Inr by simp
    ultimately show ?thesis
      using rename_frame(2,3)[OF mv] r before by (cases r0) auto
  qed
qed

lemma service_write_effect:
  assumes run: "service_write (q @ [n @ ''.json'']) c s = (r, s')"
    and plain: "plain_path q" "n \<noteq> []" "plain_name (n @ ''.json'')" "plain_name (n @ ''.tmp'')"
  shows "same_files {q @ [n @ ''.tmp''], q @ [n @ ''.json'']} s s' \<and>
    fget s' (q @ [n @ ''.json'']) = (if is_ok r then Some (Intact c) else fget s (q @ [n @ ''.json'']))"
proof -
  let ?p = "q @ [n @ ''.json'']" and ?t = "q @ [n @ ''.tmp'']"
  let ?pre = "bindS (err_prefix ''Failed to create parent directory: '' (fs_create_dir_all q)) (\<lambda>_.
     bindS (err_prefix ''Failed to create temp file: '' (fs_create_file ?t)) (\<lambda>_.
     bindS (err_prefix ''Failed to write to temp file: '' (fs_write_all ?t c)) (\<lambda>_.
     err_prefix ''Failed to sync temp file: '' fs_sync_all)))"
  have res: "resolve ?t = ?t" "resolve ?p = ?p" using plain by simp_all
  have eq: "service_write ?p c = bindS ?pre (\<lambda>_. err_prefix ''Failed to rename temp file: '' (fs_rename ?t ?p))"
    using plain by (simp add: service_write_def path_parent_def with_extension_json Let_def bindS_assoc)
  show ?thesis
  proof (rule tmp_rename_effect[OF run[unfolded eq]])
    show "keepsS (same_files {?t} s) ?pre"
      using res by (auto intro!: keeps)
    show "fget s1 ?t = Some (Intact c)" if "?pre s = (Inr u, s1)" for u s1
      using that by (auto simp: bindS_Inr_iff dest!: write_all_frame sync_all_frame)
  qed (use res in auto)
qed


lemma proposal_write_effect:
  assumes run: "fs_submit_delta_proposal app c d s = (r, s')"
    and plain: "plain_path app" "plain_name (d_account_id d)"
    and p: "commitment_key c = Some h" "hex_name h"
  shows "same_files {app @ [d_account_id d, ''proposals'', h @ ''.tmp''], app @ [d_account_id d, ''proposals'', h @ ''.json'']} s s' \<and>
    fget s' (app @ [d_account_id d, ''proposals'', h @ ''.json'']) =
      (if is_ok r then Some (Intact (GDelta d)) else fget s (app @ [d_account_id d, ''proposals'', h @ ''.json'']))"
proof -
  let ?q = "app @ [d_account_id d, ''proposals'']"
  let ?p = "?q @ [h @ ''.json'']" and ?t = "?q @ [h @ ''.tmp'']"
  let ?pre = "bindS (err_prefix ''Failed to create proposals directory: '' (fs_create_dir_all ?q)) (\<lambda>_.
     err_prefix ''Failed to write proposal file: '' (fs_write ?t (GDelta d)))"
  have path: "get_delta_proposal_path app (d_account_id d) c = Inr ?p"
    using proposal_path[OF plain(2)] p by simp
  have h: "h \<noteq> []" "plain_name (h @ ''.json'')" using p by (auto simp: hex_name_def)
  have "h @ ''.tmp'' \<noteq> ''..''" using h(1) by (cases h) auto
  then have res: "resolve ?t = ?t" "resolve ?p = ?p" using plain h by simp_all
  have split: "fs_submit_delta_proposal app c d =
      bindS ?pre (\<lambda>_. err_prefix ''Failed to finalize proposal file: '' (fs_rename ?t ?p))"
  proof
    fix s
    have eq: "bindS (liftS (Inr ?p)) f = f ?p" for f :: "path \<Rightarrow> unit fs_op" by (simp add: bindS_def fun_eq_iff)
    show "fs_submit_delta_proposal app c d s =
      bindS ?pre (\<lambda>_. err_prefix ''Failed to finalize proposal file: '' (fs_rename ?t ?p)) s"
      unfolding fs_submit_delta_proposal_def path eq bindS_assoc
      using with_extension_json[OF h, of ?q] by (simp add: path_parent_def butlast_append Let_def)
  qed
  have "same_files {?t, ?p} s s' \<and> fget s' ?p = (if is_ok r then Some (Intact (GDelta d)) else fget s ?p)"
  proof (rule tmp_rename_effect[OF run[unfolded split]])
    show "keepsS (same_files {?t} s) ?pre"
      using res by (auto intro!: keeps simp: fs_write_def)
    show "fget s1 ?t = Some (Intact (GDelta d))" if "?pre s = (Inr u, s1)" for u s1
      using that by (auto simp: bindS_Inr_iff fs_write_def dest!: write_all_frame)
  qed (use res in auto)
  then show ?thesis by simp
qed

lemma parents_create_write_then:
  assumes "\<And>u. keepsS parents (h u)"
  shows "keepsS parents (bindS (err_prefix f (fs_create_file p)) (\<lambda>_. bindS (err_prefix g (fs_write_all p v)) h))"
  using keepsS_bindS[OF parents_create_write(1), of h f p g v] assms by (simp add: bindS_assoc)

lemma parents_service_write [keeps]: "keepsS parents (service_write p c)"
  unfolding service_write_def Let_def
  by (intro keepsS_bindS parents_create_write_then) (auto intro!: keeps split: option.splits)

lemma parents_proposal_write [keeps]: "keepsS parents (fs_submit_delta_proposal app c d)"
  unfolding fs_submit_delta_proposal_def Let_def by (auto intro!: keeps split: option.splits)

lemma parents_reads [keeps]:
  "keepsS parents (read_parse m1 m2 f p)" "keepsS parents (next_entries es)"
  "keepsS parents (list_json_filenames w d)" "keepsS parents (list_delta_filenames app a)"
  "keepsS parents (list_proposal_filenames app a)" "keepsS parents (fs_pull_delta app a n)"
  "keepsS parents (fs_pull_delta_proposal app a c)"
proof -
  show r: "keepsS parents (read_parse m1 m2 f p)" for m1 m2 p and f :: "gcontent \<Rightarrow> 'a option"
    by (auto simp: read_parse_def intro!: keeps)
  show n: "keepsS parents (next_entries es)" for es
    by (induction es) (auto intro!: keeps)
  show j: "keepsS parents (list_json_filenames w d)" for w d
    by (auto simp: list_json_filenames_def intro!: keeps n)
  show "keepsS parents (list_delta_filenames app a)" "keepsS parents (list_proposal_filenames app a)"
    by (auto simp: list_delta_filenames_def list_proposal_filenames_def intro!: keeps j)
  show "keepsS parents (fs_pull_delta_proposal app a c)"
    by (auto simp: fs_pull_delta_proposal_def read_parse_def intro!: keeps)
  show "keepsS parents (fs_pull_delta app a n)"
    by (auto simp: fs_pull_delta_def read_parse_def intro!: keeps)
qed

lemma parents_loops [keeps]:
  "keepsS parents (pull_deltas_loop app a n k names)" "keepsS parents (has_pending_loop app a names)"
  "keepsS parents (pull_proposals_loop app a k names)"
  by (induction names) (auto intro!: keeps split: option.splits)


section \<open>Reads leave the view alone\<close>

lemma fs_view_cong: "fget s' = fget s \<Longrightarrow> fs_view app s' = fs_view app s"
  by (simp add: fs_view_def fs_state_view_def fs_delta_view_def fs_prop_view_def fun_eq_iff)

lemma same_files_empty: "same_files {} s s' \<Longrightarrow> fget s' = fget s"
  by (auto simp: same_files_def)

lemma frame_storage_reads [keeps]:
  "keepsS (same_files A s0) (read_parse m1 m2 f p)" "keepsS (same_files A s0) (next_entries es)"
  "keepsS (same_files A s0) (list_json_filenames w d)" "keepsS (same_files A s0) (list_delta_filenames app a)"
  "keepsS (same_files A s0) (list_proposal_filenames app a)" "keepsS (same_files A s0) (fs_pull_delta app a n)"
  "keepsS (same_files A s0) (fs_pull_delta_proposal app a c)"
proof -
  show "keepsS (same_files A s0) (read_parse m1 m2 f p)"
    by (auto simp: read_parse_def intro!: keeps)
  show n: "keepsS (same_files A s0) (next_entries es)" for es
    by (induction es) (auto intro!: keeps)
  show j: "keepsS (same_files A s0) (list_json_filenames w d)" for w d
    by (auto simp: list_json_filenames_def intro!: keeps n)
  show "keepsS (same_files A s0) (list_delta_filenames app a)" "keepsS (same_files A s0) (list_proposal_filenames app a)"
    by (auto simp: list_delta_filenames_def list_proposal_filenames_def intro!: keeps j)
  show "keepsS (same_files A s0) (fs_pull_delta_proposal app a c)" "keepsS (same_files A s0) (fs_pull_delta app a n)"
    by (auto simp: fs_pull_delta_proposal_def fs_pull_delta_def read_parse_def intro!: keeps)
qed

lemma frame_storage_loops [keeps]:
  "keepsS (same_files A s0) (pull_deltas_loop app a n k names)" "keepsS (same_files A s0) (has_pending_loop app a names)"
  "keepsS (same_files A s0) (pull_proposals_loop app a k' names)"
  by (induction names) (auto intro!: keeps split: option.splits)

lemma quiet:
  assumes "keepsS parents m" and "keepsS (same_files {} s) m" and "fs_inv app s" and "m s = (r, s')"
  shows "fs_inv app s' \<and> fget s' = fget s \<and> fs_view app s' = fs_view app s"
proof -
  have same: "same_files {} s s'" using keepsSD[OF assms(2), of s] assms(4) by simp
  then have "fget s' = fget s" using same_files_empty by blast
  moreover have "fs_stat_faults s' = []"
    using assms(3) same_files_stat[OF same] by (simp add: fs_inv_def)
  moreover have "parents s'" using keepsSD[OF assms(1), of s] assms(3,4) by (simp add: fs_inv_def)
  ultimately show ?thesis
    using assms(3) by (simp add: fs_inv_def fs_view_cong[of s' s])
qed

lemma frame_pulls [keeps]:
  "keepsS (same_files A s0) (fs_pull_state app a)" "keepsS (same_files A s0) (fs_pull_deltas_after app a n)"
  "keepsS (same_files A s0) (fs_has_pending_candidate app a)"
  "keepsS (same_files A s0) (fs_pull_all_delta_proposals app a)" "keepsS (same_files A s0) (fs_pull_pending_proposals app a)"
  by (auto simp: fs_pull_state_def fs_pull_deltas_after_def fs_has_pending_candidate_def
      fs_pull_all_delta_proposals_def fs_pull_pending_proposals_def intro!: keeps)

lemma parents_pulls [keeps]:
  "keepsS parents (fs_pull_state app a)" "keepsS parents (fs_pull_deltas_after app a n)"
  "keepsS parents (fs_has_pending_candidate app a)"
  "keepsS parents (fs_pull_all_delta_proposals app a)" "keepsS parents (fs_pull_pending_proposals app a)"
  by (auto simp: fs_pull_state_def fs_pull_deltas_after_def fs_has_pending_candidate_def
      fs_pull_all_delta_proposals_def fs_pull_pending_proposals_def intro!: keeps)

section \<open>What the reads return\<close>

lemma read_parse_Inr:
  assumes "read_parse m1 m2 f p s = (Inr x, s')"
  shows "\<exists>c. fget s p = Some (Intact c) \<and> f c = Some x"
proof -
  obtain fd where fd: "fs_read p s = (Inr fd, s')" and c: "(case fd of Torn e \<Rightarrow> Inl e | Intact c \<Rightarrow> ok_or ''invalid type'' (f c)) = Inr x"
    using assms by (auto simp: read_parse_def bindS_Inr_iff)
  from read_frame(3)[OF fd refl] c show ?thesis by (cases fd) auto
qed

lemma pull_state_Inr:
  "fs_pull_state app a s = (Inr x, s') \<Longrightarrow> plain_name a \<Longrightarrow> fs_state_view app s a = Some x"
  by (auto simp: fs_pull_state_def fs_state_view_def storage_paths dest!: read_parse_Inr)

lemma pull_delta_Inr:
  "fs_pull_delta app a n s = (Inr d, s') \<Longrightarrow> plain_name a \<Longrightarrow> n < u64_bound \<Longrightarrow> fs_delta_view app s a n = Some d"
  by (auto simp: fs_pull_delta_def fs_delta_view_def storage_paths dest!: read_parse_Inr)

lemma pull_proposal_Inr:
  assumes "fs_pull_delta_proposal app a c s = (Inr d, s')" and "plain_name a"
  shows "\<exists>h. commitment_key c = Some h \<and> fs_prop_view app s a h = Some d"
proof -
  obtain p where p: "get_delta_proposal_path app a c = Inr p"
    and r: "read_parse ''Failed to read proposal file: '' ''Failed to parse proposal: '' as_delta p s = (Inr d, s')"
    using assms(1) by (auto simp: fs_pull_delta_proposal_def bindS_Inr_iff)
  then obtain h where "commitment_key c = Some h" "hex_name h" "p = app @ [a, ''proposals'', h @ ''.json'']"
    using proposal_path[OF assms(2)] by blast
  with read_parse_Inr[OF r] show ?thesis
    using assms(2) by (auto simp: fs_prop_view_def)
qed

lemma next_entries_Inr: "next_entries es s = (Inr r, s') \<Longrightarrow> r = es"
  by (induction es arbitrary: r s) (auto simp: bindS_Inr_iff io_call_def split: prod.splits fault.splits)

lemma parse_u64_bound: "parse_u64 x = Inr n \<Longrightarrow> n < u64_bound"
  using from_str_radix_bound[of u64_bound 10 x n] by (simp add: parse_u64_def u64_bound_def)

lemma filename_parse_show [simp]: "n < u64_bound \<Longrightarrow> filename_parse (show_nat n @ ''.json'') = Some n"
  by (simp add: filename_parse_def strip_suffix_Some_iff parse_u64_show_nat)

lemma filename_parse_bound: "filename_parse x = Some n \<Longrightarrow> n < u64_bound"
  by (auto simp: filename_parse_def parse_u64_bound bind_eq_Some_conv elim!: res_ok.elims)

lemma list_json_lists:
  assumes "list_json_filenames w d s = (Inr names, s')" and "fs_inv app s" and "plain_path d"
    and "fget s (d @ [x]) \<noteq> None" and "plain_name x" and "ends_with ''.json'' x"
  shows "x \<in> set names"
proof -
  have res: "resolve (d @ [x]) = d @ [x]" using assms(3,5) by simp
  have "has_dir s (butlast (resolve (d @ [x])))"
    using assms(2,4) unfolding fs_inv_def parents_def by blast
  then have dir: "has_dir s d" unfolding res by simp
  have "dir_get (fs_files s) (d @ [x]) \<noteq> None" using assms(4) unfolding fget_def res .
  then have entry: "d @ [x] \<in> fst ` set (fs_files s)" unfolding dir_keys_iff .
  have "resolve d = d" using assms(3) by simp
  moreover have "entry_of d (d @ [x])" using assms(5) by (simp add: entry_of_def)
  ultimately have "(d @ [x], True) \<in> set (dir_entries s d)"
    using entry unfolding dir_entries_def set_append set_map set_filter by simp
  moreover obtain es s2 where es: "fs_read_dir d s = (Inr es, s2)"
      and n: "names = filter (ends_with ''.json'') (map (last \<circ> fst) es)"
    using assms(1,2) dir
    by (auto simp: list_json_filenames_def fs_exists_def bindS_Inr_iff fs_inv_def dest!: next_entries_Inr)
  have "es = dir_entries s d"
    using es by (auto simp: fs_read_dir_def io_call_def next_fault_def dir_entries_def
        split: prod.splits fault.splits if_splits list.splits)
  ultimately have "x \<in> (last \<circ> fst) ` set es" by (metis comp_apply fst_conv image_eqI last_snoc)
  then show ?thesis using assms(6) n by simp
qed

lemma pull_deltas_loop_Inr:
  assumes "pull_deltas_loop app a n keep names s = (Inr ds, s')" and "fs_inv app s" and "plain_name a"
  shows "set ds = {d. \<exists>name \<in> set names. \<exists>m. filename_parse name = Some m \<and> n \<le> m \<and>
    fs_delta_view app s a m = Some d \<and> keep d}"
  using assms
proof (induction names arbitrary: ds s)
  case (Cons name names)
  show ?case
  proof (cases "\<exists>m. filename_parse name = Some m \<and> n \<le> m")
    case True
    then obtain m where m: "filename_parse name = Some m" "n \<le> m" by blast
    with Cons.prems(1) obtain d s1 rest where d: "fs_pull_delta app a m s = (Inr d, s1)"
      and rest: "pull_deltas_loop app a n keep names s1 = (Inr rest, s')"
      and ds: "ds = (if keep d then d # rest else rest)"
      by (auto simp: bindS_Inr_iff)
    have q: "fs_inv app s1" "fs_view app s1 = fs_view app s"
      using quiet[OF parents_reads(6) frame_storage_reads(6) Cons.prems(2) d] by blast+
    have "fs_delta_view app s1 = fs_delta_view app s" using arg_cong[OF q(2), of gv_deltas] by simp
    moreover have "fs_delta_view app s a m = Some d"
      using pull_delta_Inr[OF d Cons.prems(3) filename_parse_bound[OF m(1)]] .
    ultimately show ?thesis
      using Cons.IH[OF rest q(1) Cons.prems(3)] m ds by auto
  next
    case False
    then have "pull_deltas_loop app a n keep names s = (Inr ds, s')"
      using Cons.prems(1) by (auto split: option.splits if_splits)
    from Cons.IH[OF this Cons.prems(2,3)] False show ?thesis by auto
  qed
qed simp

lemma has_pending_loop_Inr:
  assumes "has_pending_loop app a names s = (Inr b, s')" and "fs_inv app s" and "plain_name a"
  shows "b = (\<exists>name \<in> set names. \<exists>m d. filename_parse name = Some m \<and>
    fs_delta_view app s a m = Some d \<and> is_candidate (d_status d))"
  using assms
proof (induction names arbitrary: s)
  case (Cons name names)
  show ?case
  proof (cases "filename_parse name")
    case None
    then have "has_pending_loop app a names s = (Inr b, s')" using Cons.prems(1) by simp
    from Cons.IH[OF this Cons.prems(2,3)] None show ?thesis by auto
  next
    case (Some m)
    with Cons.prems(1) obtain d s1 where d: "fs_pull_delta app a m s = (Inr d, s1)"
      and rest: "(if is_candidate (d_status d) then okS True else has_pending_loop app a names) s1 = (Inr b, s')"
      by (auto simp: bindS_Inr_iff)
    have q: "fs_inv app s1" "fs_view app s1 = fs_view app s"
      using quiet[OF parents_reads(6) frame_storage_reads(6) Cons.prems(2) d] by blast+
    have "fs_delta_view app s1 = fs_delta_view app s" using arg_cong[OF q(2), of gv_deltas] by simp
    moreover have "fs_delta_view app s a m = Some d"
      using pull_delta_Inr[OF d Cons.prems(3) filename_parse_bound[OF Some]] .
    ultimately show ?thesis
      using Cons.IH[OF _ q(1) Cons.prems(3)] rest Some by (cases "is_candidate (d_status d)") auto
  qed
qed simp

lemma pull_proposals_loop_Inr:
  assumes "pull_proposals_loop app a keep names s = (Inr ps, s')" and "fs_inv app s" and "plain_name a"
  shows "snd ` set ps \<subseteq> {d. keep d \<and> (\<exists>h. fs_prop_view app s a h = Some d)}"
  using assms
proof (induction names arbitrary: ps s)
  case (Cons name names)
  show ?case
  proof (cases "strip_suffix ''.json'' name")
    case None
    then have "pull_proposals_loop app a keep names s = (Inr ps, s')" using Cons.prems(1) by simp
    from Cons.IH[OF this Cons.prems(2,3)] show ?thesis .
  next
    case (Some c)
    obtain r s1 where r: "fs_pull_delta_proposal app a c s = (r, s1)" by fastforce
    with Cons.prems(1) Some obtain rest where rest: "pull_proposals_loop app a keep names s1 = (Inr rest, s')"
      and ps: "ps = (case r of Inr p \<Rightarrow> if keep p then (c, p) # rest else rest | Inl _ \<Rightarrow> rest)"
      by (auto simp: observeS_def bindS_Inr_iff)
    have q: "fs_inv app s1" "fs_view app s1 = fs_view app s"
      using quiet[OF parents_reads(7) frame_storage_reads(7) Cons.prems(2) r] by blast+
    have v: "fs_prop_view app s1 = fs_prop_view app s" using arg_cong[OF q(2), of gv_props] by simp
    have "\<exists>h. fs_prop_view app s a h = Some p" if "r = Inr p" for p
      using pull_proposal_Inr[OF _ Cons.prems(3)] r that by blast
    with Cons.IH[OF rest q(1) Cons.prems(3)] ps v show ?thesis
      by (auto split: sum.splits if_splits)
  qed
qed simp


section \<open>What the writes do to the view\<close>

lemma views_frame:
  assumes same: "same_files A s s'" and app: "plain_path app"
  shows "app @ [a, ''state.json''] \<notin> A \<Longrightarrow> fs_state_view app s' a = fs_state_view app s a"
    and "app @ [a, ''deltas'', show_nat n @ ''.json''] \<notin> A \<Longrightarrow> fs_delta_view app s' a n = fs_delta_view app s a n"
    and "app @ [a, ''proposals'', h @ ''.json''] \<notin> A \<Longrightarrow> fs_prop_view app s' a h = fs_prop_view app s a h"
proof -
  have eq: "fget s' p = fget s p" if "p \<notin> A" "plain_path p" for p
    using same_filesD[OF same, of p] that by simp
  show "app @ [a, ''state.json''] \<notin> A \<Longrightarrow> fs_state_view app s' a = fs_state_view app s a"
    using eq[of "app @ [a, ''state.json'']"] app
    by (cases "plain_name a") (auto simp: fs_state_view_def split: option.splits fdata.splits)
  show "app @ [a, ''deltas'', show_nat n @ ''.json''] \<notin> A \<Longrightarrow> fs_delta_view app s' a n = fs_delta_view app s a n"
    using eq[of "app @ [a, ''deltas'', show_nat n @ ''.json'']"] app plain_name_not_dots[OF plain_seq_name, of n]
    by (cases "plain_name a") (auto simp: fs_delta_view_def split: option.splits fdata.splits)
  show "app @ [a, ''proposals'', h @ ''.json''] \<notin> A \<Longrightarrow> fs_prop_view app s' a h = fs_prop_view app s a h"
    using eq[of "app @ [a, ''proposals'', h @ ''.json'']"] app plain_name_not_dots[OF hex_name_plain, of h]
    by (cases "plain_name a \<and> hex_name h") (auto simp: fs_prop_view_def split: option.splits fdata.splits)
qed

lemma gview_eqI: "gv_states v = gv_states w \<Longrightarrow> gv_deltas v = gv_deltas w \<Longrightarrow> gv_props v = gv_props w \<Longrightarrow> v = (w :: gview)"
  by (cases v; cases w) simp

lemma fs_inv_step:
  assumes "fs_inv app s" and "same_files A s s'" and "parents s'"
  shows "fs_inv app s'"
  using assms same_files_stat by (auto simp: fs_inv_def)

lemma fs_submit_state_law:
  assumes run: "fs_submit_state app x s = (r, s')" and inv: "fs_inv app s" and a: "plain_name (so_account_id x)"
  shows "fs_inv app s' \<and> fs_view app s' = (if is_ok r then put_state x (fs_view app s) else fs_view app s)"
proof -
  let ?a = "so_account_id x"
  have app: "plain_path app" using inv by (simp add: fs_inv_def)
  have "service_write ((app @ [?a]) @ [''state'' @ ''.json'']) (GState x) s = (r, s')"
    using run a by (simp add: fs_submit_state_def storage_paths)
  from service_write_effect[OF this] app a have
    same: "same_files {app @ [?a, ''state.tmp''], app @ [?a, ''state.json'']} s s'"
    and val: "fget s' (app @ [?a, ''state.json'']) = (if is_ok r then Some (Intact (GState x)) else fget s (app @ [?a, ''state.json'']))"
    by (auto simp: plain_name_def)
  have "parents s'"
    using keepsSD[OF parents_service_write, of s "get_state_path app ?a" "GState x"] inv run
    by (simp add: fs_inv_def fs_submit_state_def)
  moreover have "fs_view app s' = (if is_ok r then put_state x (fs_view app s) else fs_view app s)"
  proof (rule gview_eqI)
    have other: "fs_state_view app s' b = fs_state_view app s b" if "b \<noteq> ?a" for b
      using that by (intro views_frame(1)[OF same app]) auto
    have here: "fs_state_view app s' ?a = (if is_ok r then Some x else fs_state_view app s ?a)"
      using val a by (simp add: fs_state_view_def)
    show "gv_states (fs_view app s') = gv_states (if is_ok r then put_state x (fs_view app s) else fs_view app s)"
    proof (rule ext)
      fix b
      show "gv_states (fs_view app s') b = gv_states (if is_ok r then put_state x (fs_view app s) else fs_view app s) b"
        using here other[of b] by (cases "b = ?a") auto
    qed
    have "fs_delta_view app s' b n = fs_delta_view app s b n" for b n
      by (rule views_frame(2)[OF same app]) auto
    then show "gv_deltas (fs_view app s') = gv_deltas (if is_ok r then put_state x (fs_view app s) else fs_view app s)"
      by (auto simp: fun_eq_iff)
    have "fs_prop_view app s' b h = fs_prop_view app s b h" for b h
      by (rule views_frame(3)[OF same app]) auto
    then show "gv_props (fs_view app s') = gv_props (if is_ok r then put_state x (fs_view app s) else fs_view app s)"
      by (auto simp: fun_eq_iff)
  qed
  ultimately show ?thesis using fs_inv_step[OF inv same] by blast
qed

text \<open>A change confined to the files of one delta, and one confined to the files of one proposal.\<close>

lemma delta_files_view:
  assumes same: "same_files {app @ [a, ''deltas'', show_nat n @ ''.tmp''], app @ [a, ''deltas'', show_nat n @ ''.json'']} s s'"
    and app: "plain_path app"
  shows "fs_view app s' = put_delta a n (fs_delta_view app s' a n) (fs_view app s)"
proof (rule gview_eqI)
  show "gv_states (fs_view app s') = gv_states (put_delta a n (fs_delta_view app s' a n) (fs_view app s))"
    using views_frame(1)[OF same app] by (auto simp: fun_eq_iff)
  have "fs_delta_view app s' b m = fs_delta_view app s b m" if "b \<noteq> a \<or> m \<noteq> n" for b m
    using that by (intro views_frame(2)[OF same app]) (auto simp: show_nat_inj)
  then show "gv_deltas (fs_view app s') = gv_deltas (put_delta a n (fs_delta_view app s' a n) (fs_view app s))"
    by (auto simp: fun_eq_iff)
  show "gv_props (fs_view app s') = gv_props (put_delta a n (fs_delta_view app s' a n) (fs_view app s))"
    using views_frame(3)[OF same app] by (auto simp: fun_eq_iff)
qed

lemma prop_files_view:
  assumes same: "same_files {app @ [a, ''proposals'', h @ ''.tmp''], app @ [a, ''proposals'', h @ ''.json'']} s s'"
    and app: "plain_path app"
  shows "fs_view app s' = put_prop a h (fs_prop_view app s' a h) (fs_view app s)"
proof (rule gview_eqI)
  show "gv_states (fs_view app s') = gv_states (put_prop a h (fs_prop_view app s' a h) (fs_view app s))"
    using views_frame(1)[OF same app] by (auto simp: fun_eq_iff)
  show "gv_deltas (fs_view app s') = gv_deltas (put_prop a h (fs_prop_view app s' a h) (fs_view app s))"
    using views_frame(2)[OF same app] by (auto simp: fun_eq_iff)
  have "fs_prop_view app s' b k = fs_prop_view app s b k" if "b \<noteq> a \<or> k \<noteq> h" for b k
    using that by (intro views_frame(3)[OF same app]) auto
  then show "gv_props (fs_view app s') = gv_props (put_prop a h (fs_prop_view app s' a h) (fs_view app s))"
    by (auto simp: fun_eq_iff)
qed

lemma put_delta_same [simp]: "gv_deltas v a n = d \<Longrightarrow> put_delta a n d v = v"
  by (rule gview_eqI) auto

lemma put_prop_same [simp]: "gv_props v a h = d \<Longrightarrow> put_prop a h d v = v"
  by (rule gview_eqI) auto

lemma fs_write_delta_law:
  assumes run: "service_write (get_delta_path app a n) (GDelta d) s = (r, s')" and inv: "fs_inv app s"
    and a: "plain_name a" and n: "n < u64_bound"
  shows "fs_inv app s' \<and> fs_view app s' = (if is_ok r then put_delta a n (Some d) (fs_view app s) else fs_view app s)"
proof -
  have app: "plain_path app" using inv by (simp add: fs_inv_def)
  have nn: "show_nat n \<noteq> []" by (simp add: show_nat_def)
  then have t: "plain_name (show_nat n @ ''.tmp'')"
    using show_nat_no_slash[of n] by (cases "show_nat n") (auto simp: plain_name_def)
  have "service_write ((app @ [a, ''deltas'']) @ [show_nat n @ ''.json'']) (GDelta d) s = (r, s')"
    using run a by (simp add: storage_paths)
  from service_write_effect[OF this] app a nn t have
    same: "same_files {app @ [a, ''deltas'', show_nat n @ ''.tmp''], app @ [a, ''deltas'', show_nat n @ ''.json'']} s s'"
    and val: "fget s' (app @ [a, ''deltas'', show_nat n @ ''.json'']) =
      (if is_ok r then Some (Intact (GDelta d)) else fget s (app @ [a, ''deltas'', show_nat n @ ''.json'']))"
    by auto
  have "parents s'"
    using keepsSD[OF parents_service_write, of s "get_delta_path app a n" "GDelta d"] inv run
    by (simp add: fs_inv_def)
  moreover have "fs_delta_view app s' a n = (if is_ok r then Some d else fs_delta_view app s a n)"
    using val a n by (simp add: fs_delta_view_def)
  ultimately show ?thesis
    using fs_inv_step[OF inv same] delta_files_view[OF same app] by (cases "is_ok r") simp_all
qed


lemma remove_file_effect:
  assumes "err_prefix m (fs_remove_file p) s = (r, s')" and "resolve p = p"
  shows "same_files {p} s s' \<and> fget s' p = (if is_ok r then None else fget s p)"
proof -
  obtain r0 where run: "fs_remove_file p s = (r0, s')" and r: "is_ok r = is_ok r0"
    using err_prefix_cases[OF assms(1)] by auto
  show ?thesis
    using run[unfolded fs_remove_file_def] assms(2) r
    by (cases rule: io_call_cases) (auto simp: same_files_def split: if_splits)
qed

lemma frame_remove_file [keeps]: "resolve p \<in> A \<Longrightarrow> keepsS (same_files A s0) (fs_remove_file p)"
  by (auto simp: fs_remove_file_def same_files_def intro!: keepsS_io_call)

lemma delete_if_exists:
  assumes run: "bindS (fs_exists p) (\<lambda>ex. if \<not> ex then okS () else err_prefix m (fs_remove_file p)) s = (r, s')"
    and inv: "fs_inv app s" and res: "resolve p = p"
  shows "same_files {p} s s' \<and> parents s' \<and> fget s' p = (if is_ok r then None else fget s p)"
proof (cases "fget s p = None \<and> \<not> has_dir s p")
  case True
  then show ?thesis
    using run inv by (auto simp: fs_exists_def bindS_def fs_inv_def)
next
  case False
  then have "err_prefix m (fs_remove_file p) s = (r, s')"
    using run inv by (auto simp: fs_exists_def bindS_def fs_inv_def)
  then show ?thesis
    using remove_file_effect[OF _ res] keepsSD[OF keepsS_err_prefix[OF parents_calls(5)], of s m p] inv
    by (auto simp: fs_inv_def)
qed

lemma fs_delete_delta_law:
  assumes run: "fs_delete_delta app a n s = (r, s')" and inv: "fs_inv app s" and a: "plain_name a" and n: "n < u64_bound"
  shows "fs_inv app s' \<and> fs_view app s' = (if is_ok r then put_delta a n None (fs_view app s) else fs_view app s)"
proof -
  let ?p = "app @ [a, ''deltas'', show_nat n @ ''.json'']"
  have app: "plain_path app" using inv by (simp add: fs_inv_def)
  have res: "resolve ?p = ?p" using app a plain_name_not_dots[OF plain_seq_name, of n] by simp
  have d: "same_files {?p} s s'" "parents s'" "fget s' ?p = (if is_ok r then None else fget s ?p)"
    using delete_if_exists[OF run[unfolded fs_delete_delta_def storage_paths(3)[OF a]] inv res] by auto
  have same: "same_files {app @ [a, ''deltas'', show_nat n @ ''.tmp''], ?p} s s'"
    using d(1) by (rule same_files_mono) simp
  have "fs_delta_view app s' a n = (if is_ok r then None else fs_delta_view app s a n)"
    using d(3) by (simp add: fs_delta_view_def)
  then show ?thesis
    using fs_inv_step[OF inv same d(2)] delta_files_view[OF same app] by (cases "is_ok r") simp_all
qed

lemma fs_submit_proposal_law:
  assumes run: "fs_submit_delta_proposal app c d s = (r, s')" and inv: "fs_inv app s" and a: "plain_name (d_account_id d)"
  shows "fs_inv app s' \<and> (if is_ok r then \<exists>h. commitment_key c = Some h \<and>
      fs_view app s' = put_prop (d_account_id d) h (Some d) (fs_view app s) else fs_view app s' = fs_view app s)"
proof (cases "get_delta_proposal_path app (d_account_id d) c")
  case (Inl e)
  then show ?thesis using run inv by (auto simp: fs_submit_delta_proposal_def bindS_def)
next
  case (Inr p)
  then obtain h where h: "commitment_key c = Some h" "hex_name h"
    using proposal_path[OF a] by blast
  have app: "plain_path app" using inv by (simp add: fs_inv_def)
  note eff = proposal_write_effect[OF run app a h]
  then have same: "same_files {app @ [d_account_id d, ''proposals'', h @ ''.tmp''], app @ [d_account_id d, ''proposals'', h @ ''.json'']} s s'"
    by blast
  have par: "parents s'"
    using keepsSD[OF parents_proposal_write, of s app c d] inv run by (simp add: fs_inv_def)
  have "fs_prop_view app s' (d_account_id d) h = (if is_ok r then Some d else fs_prop_view app s (d_account_id d) h)"
    using eff a h by (simp add: fs_prop_view_def)
  then show ?thesis
    using fs_inv_step[OF inv same par] prop_files_view[OF same app] h(1) by (cases "is_ok r") simp_all
qed

lemma fs_delete_proposal_law:
  assumes run: "fs_delete_delta_proposal app a c s = (r, s')" and inv: "fs_inv app s" and a: "plain_name a"
  shows "fs_inv app s' \<and> (if is_ok r then \<exists>h. commitment_key c = Some h \<and>
      fs_view app s' = put_prop a h None (fs_view app s) else fs_view app s' = fs_view app s)"
proof (cases "get_delta_proposal_path app a c")
  case (Inl e)
  then show ?thesis using run inv by (auto simp: fs_delete_delta_proposal_def bindS_def)
next
  case (Inr p)
  then obtain h where h: "commitment_key c = Some h" "hex_name h" and p: "p = app @ [a, ''proposals'', h @ ''.json'']"
    using proposal_path[OF a] by blast
  have app: "plain_path app" using inv by (simp add: fs_inv_def)
  have res: "resolve p = p" using app a plain_name_not_dots[OF hex_name_plain[OF h(2)]] by (simp add: p)
  have run': "bindS (fs_exists p) (\<lambda>ex. if \<not> ex then okS () else err_prefix ''Failed to delete proposal file: '' (fs_remove_file p)) s = (r, s')"
    using run unfolding fs_delete_delta_proposal_def Inr by (simp add: bindS_def)
  have d: "same_files {p} s s'" "parents s'" "fget s' p = (if is_ok r then None else fget s p)"
    using delete_if_exists[OF run' inv res] by auto
  have same: "same_files {app @ [a, ''proposals'', h @ ''.tmp''], app @ [a, ''proposals'', h @ ''.json'']} s s'"
    using d(1) by (rule same_files_mono) (simp add: p)
  have "fs_prop_view app s' a h = (if is_ok r then None else fs_prop_view app s a h)"
    using d(3) by (simp add: fs_prop_view_def p)
  then show ?thesis
    using fs_inv_step[OF inv same d(2)] prop_files_view[OF same app] h(1) by (cases "is_ok r") simp_all
qed

lemma fs_update_status_law:
  assumes run: "fs_update_delta_status app a n status s = (r, s')" and inv: "fs_inv app s"
    and a: "plain_name a" and n: "n < u64_bound"
  shows "fs_inv app s' \<and> (if is_ok r then \<exists>d. gv_deltas (fs_view app s) a n = Some d \<and>
      fs_view app s' = put_delta a n (Some (d \<lparr> d_status := status \<rparr>)) (fs_view app s) else fs_view app s' = fs_view app s)"
proof -
  obtain r1 s1 where p: "fs_pull_delta app a n s = (r1, s1)" by fastforce
  have q: "fs_inv app s1" "fs_view app s1 = fs_view app s"
    using quiet[OF parents_reads(6) frame_storage_reads(6) inv p] by blast+
  show ?thesis
  proof (cases r1)
    case (Inl e)
    then show ?thesis using run p q by (auto simp: fs_update_delta_status_def bindS_def)
  next
    case (Inr d)
    then have w: "service_write (get_delta_path app a n) (GDelta (d \<lparr> d_status := status \<rparr>)) s1 = (r, s')"
      using run p by (simp add: fs_update_delta_status_def bindS_def)
    have "fs_delta_view app s a n = Some d" using pull_delta_Inr[OF _ a n] p Inr by blast
    then show ?thesis using fs_write_delta_law[OF w q(1) a n] q(2) by simp
  qed
qed

lemma list_delta_names:
  assumes run: "list_delta_filenames app a s = (Inr names, s')" and inv: "fs_inv app s" and a: "plain_name a"
    and v: "fs_delta_view app s a m = Some d"
  shows "show_nat m @ ''.json'' \<in> set names \<and> m < u64_bound"
proof -
  have app: "plain_path (app @ [a, ''deltas''])" using inv a by (simp add: fs_inv_def)
  from run obtain ns where ns: "list_json_filenames ''deltas'' (app @ [a, ''deltas'']) s = (Inr ns, s')"
    and names: "names = sort_key filename_nonce ns"
    unfolding list_delta_filenames_def storage_paths(2)[OF a] by (auto simp: bindS_Inr_iff)
  have f: "fget s ((app @ [a, ''deltas'']) @ [show_nat m @ ''.json'']) \<noteq> None" and m: "m < u64_bound"
    using v by (auto simp: fs_delta_view_def split: option.splits fdata.splits if_splits)
  have "show_nat m @ ''.json'' \<in> set ns"
    using list_json_lists[OF ns inv app f] by (auto simp: ends_with_iff)
  then show ?thesis using names m by simp
qed

lemma fs_pull_deltas_law:
  assumes run: "fs_pull_deltas_after app a n s = (r, s')" and inv: "fs_inv app s" and a: "plain_name a"
  shows "fs_inv app s' \<and> fs_view app s' = fs_view app s \<and> (\<forall>ds. r = Inr ds \<longrightarrow> sorted (map d_nonce ds) \<and>
    set ds = {d. \<exists>m. n \<le> m \<and> gv_deltas (fs_view app s) a m = Some d})"
proof (intro conjI allI impI)
  show "fs_inv app s'" "fs_view app s' = fs_view app s"
    using quiet[OF parents_pulls(2) frame_pulls(2) inv run] by blast+
  fix ds assume "r = Inr ds"
  with run obtain names s1 ds0 where l: "list_delta_filenames app a s = (Inr names, s1)"
    and p: "pull_deltas_loop app a n (\<lambda>_. True) names s1 = (Inr ds0, s')" and ds: "ds = sort_key d_nonce ds0"
    by (auto simp: fs_pull_deltas_after_def bindS_Inr_iff)
  have q: "fs_inv app s1" "fs_view app s1 = fs_view app s"
    using quiet[OF parents_reads(4) frame_storage_reads(4) inv l] by blast+
  have v: "fs_delta_view app s1 = fs_delta_view app s" using arg_cong[OF q(2), of gv_deltas] by simp
  show "sorted (map d_nonce ds)" by (simp add: ds)
  show "set ds = {d. \<exists>m. n \<le> m \<and> gv_deltas (fs_view app s) a m = Some d}"
    using pull_deltas_loop_Inr[OF p q(1) a] list_delta_names[OF l inv a] v by (fastforce simp: ds)
qed

lemma fs_has_pending_law:
  assumes run: "fs_has_pending_candidate app a s = (r, s')" and inv: "fs_inv app s" and a: "plain_name a"
  shows "fs_inv app s' \<and> fs_view app s' = fs_view app s \<and> (\<forall>b. r = Inr b \<longrightarrow>
    b = (\<exists>m d. gv_deltas (fs_view app s) a m = Some d \<and> is_candidate (d_status d)))"
proof (intro conjI allI impI)
  show "fs_inv app s'" "fs_view app s' = fs_view app s"
    using quiet[OF parents_pulls(3) frame_pulls(3) inv run] by blast+
  fix b assume "r = Inr b"
  with run obtain names s1 where l: "list_delta_filenames app a s = (Inr names, s1)"
    and p: "has_pending_loop app a names s1 = (Inr b, s')"
    by (auto simp: fs_has_pending_candidate_def bindS_Inr_iff)
  have q: "fs_inv app s1" "fs_view app s1 = fs_view app s"
    using quiet[OF parents_reads(4) frame_storage_reads(4) inv l] by blast+
  have v: "fs_delta_view app s1 = fs_delta_view app s" using arg_cong[OF q(2), of gv_deltas] by simp
  show "b = (\<exists>m d. gv_deltas (fs_view app s) a m = Some d \<and> is_candidate (d_status d))"
    using has_pending_loop_Inr[OF p q(1) a] list_delta_names[OF l inv a] v by fastforce
qed

lemma fs_proposals_law:
  assumes run: "bindS (list_proposal_filenames app a) (\<lambda>names. bindS (pull_proposals_loop app a keep names) f) s = (Inr x, s')"
    and inv: "fs_inv app s" and a: "plain_name a"
  shows "\<exists>ps s1. f ps s1 = (Inr x, s') \<and> snd ` set ps \<subseteq> {d. keep d \<and> (\<exists>h. fs_prop_view app s a h = Some d)}"
proof -
  from run obtain names s1 ps s2 where l: "list_proposal_filenames app a s = (Inr names, s1)"
    and p: "pull_proposals_loop app a keep names s1 = (Inr ps, s2)" and f: "f ps s2 = (Inr x, s')"
    by (auto simp: bindS_Inr_iff)
  have q: "fs_inv app s1" "fs_view app s1 = fs_view app s"
    using quiet[OF parents_reads(5) frame_storage_reads(5) inv l] by blast+
  have "fs_prop_view app s1 = fs_prop_view app s" using arg_cong[OF q(2), of gv_props] by simp
  then show ?thesis using pull_proposals_loop_Inr[OF p q(1) a] f by auto
qed

interpretation fs_store: storage_contract "filesystem_service app" "fs_inv app" plain_name "fs_view app"
proof
  fix s s' r x assume "submit_state (filesystem_service app) x s = (r, s')" "fs_inv app s" "plain_name (so_account_id x)"
  then show "fs_inv app s' \<and> fs_view app s' = (if is_ok r then put_state x (fs_view app s) else fs_view app s)"
    by (intro fs_submit_state_law) (simp_all add: filesystem_service_def)
next
  fix s s' r d assume "submit_delta (filesystem_service app) d s = (r, s')" "fs_inv app s" "plain_name (d_account_id d)"
    "d_nonce d < u64_bound"
  then show "fs_inv app s' \<and> fs_view app s' =
      (if is_ok r then put_delta (d_account_id d) (d_nonce d) (Some d) (fs_view app s) else fs_view app s)"
    by (intro fs_write_delta_law) (simp_all add: filesystem_service_def fs_submit_delta_def)
next
  fix s s' r c d assume "submit_delta_proposal (filesystem_service app) c d s = (r, s')" "fs_inv app s" "plain_name (d_account_id d)"
  then show "fs_inv app s' \<and> (if is_ok r then \<exists>h. commitment_key c = Some h \<and>
      fs_view app s' = put_prop (d_account_id d) h (Some d) (fs_view app s) else fs_view app s' = fs_view app s)"
    by (intro fs_submit_proposal_law) (simp_all add: filesystem_service_def)
next
  fix s s' r c d assume "update_delta_proposal (filesystem_service app) c d s = (r, s')" "fs_inv app s" "plain_name (d_account_id d)"
  then show "fs_inv app s' \<and> (if is_ok r then \<exists>h. commitment_key c = Some h \<and>
      fs_view app s' = put_prop (d_account_id d) h (Some d) (fs_view app s) else fs_view app s' = fs_view app s)"
    by (intro fs_submit_proposal_law) (simp_all add: filesystem_service_def fs_update_delta_proposal_def)
next
  fix s s' r a n assume "delete_delta (filesystem_service app) a n s = (r, s')" "fs_inv app s" "plain_name a" "n < u64_bound"
  then show "fs_inv app s' \<and> fs_view app s' = (if is_ok r then put_delta a n None (fs_view app s) else fs_view app s)"
    by (intro fs_delete_delta_law) (simp_all add: filesystem_service_def)
next
  fix s s' r a c assume "delete_delta_proposal (filesystem_service app) a c s = (r, s')" "fs_inv app s" "plain_name a"
  then show "fs_inv app s' \<and> (if is_ok r then \<exists>h. commitment_key c = Some h \<and>
      fs_view app s' = put_prop a h None (fs_view app s) else fs_view app s' = fs_view app s)"
    by (intro fs_delete_proposal_law) (simp_all add: filesystem_service_def)
next
  fix s s' r a n st assume "update_delta_status (filesystem_service app) a n st s = (r, s')" "fs_inv app s" "plain_name a" "n < u64_bound"
  then show "fs_inv app s' \<and> (if is_ok r then \<exists>d. gv_deltas (fs_view app s) a n = Some d \<and>
      fs_view app s' = put_delta a n (Some (d \<lparr> d_status := st \<rparr>)) (fs_view app s) else fs_view app s' = fs_view app s)"
    by (intro fs_update_status_law) (simp_all add: filesystem_service_def)
next
  fix s s' rs a assume "pull_state (filesystem_service app) a s = (rs, s')" and i: "fs_inv app s" and a: "plain_name a"
  then have run: "fs_pull_state app a s = (rs, s')" by (simp add: filesystem_service_def)
  show "fs_inv app s' \<and> fs_view app s' = fs_view app s \<and> (\<forall>x. rs = Inr x \<longrightarrow> gv_states (fs_view app s) a = Some x)"
    using quiet[OF parents_pulls(1) frame_pulls(1) i run] pull_state_Inr[OF _ a] run by auto
next
  fix s s' rd a n assume "pull_delta (filesystem_service app) a n s = (rd, s')" and i: "fs_inv app s" and a: "plain_name a" and n: "n < u64_bound"
  then have run: "fs_pull_delta app a n s = (rd, s')" by (simp add: filesystem_service_def)
  show "fs_inv app s' \<and> fs_view app s' = fs_view app s \<and> (\<forall>d. rd = Inr d \<longrightarrow> gv_deltas (fs_view app s) a n = Some d)"
    using quiet[OF parents_reads(6) frame_storage_reads(6) i run] pull_delta_Inr[OF _ a n] run by auto
next
  fix s s' rds a n assume "pull_deltas_after (filesystem_service app) a n s = (rds, s')" "fs_inv app s" "plain_name a"
  then show "fs_inv app s' \<and> fs_view app s' = fs_view app s \<and> (\<forall>ds. rds = Inr ds \<longrightarrow> sorted (map d_nonce ds) \<and>
      set ds = {d. \<exists>m. n \<le> m \<and> gv_deltas (fs_view app s) a m = Some d})"
    by (intro fs_pull_deltas_law) (simp_all add: filesystem_service_def)
next
  fix s s' rb a assume "has_pending_candidate (filesystem_service app) a s = (rb, s')" "fs_inv app s" "plain_name a"
  then show "fs_inv app s' \<and> fs_view app s' = fs_view app s \<and> (\<forall>b. rb = Inr b \<longrightarrow>
      b = (\<exists>m d. gv_deltas (fs_view app s) a m = Some d \<and> is_candidate (d_status d)))"
    by (intro fs_has_pending_law) (simp_all add: filesystem_service_def)
next
  fix s s' rd a c assume "pull_delta_proposal (filesystem_service app) a c s = (rd, s')" and i: "fs_inv app s" and a: "plain_name a"
  then have run: "fs_pull_delta_proposal app a c s = (rd, s')" by (simp add: filesystem_service_def)
  show "fs_inv app s' \<and> fs_view app s' = fs_view app s \<and>
      (\<forall>d. rd = Inr d \<longrightarrow> (\<exists>h. commitment_key c = Some h \<and> gv_props (fs_view app s) a h = Some d))"
    using quiet[OF parents_reads(7) frame_storage_reads(7) i run] pull_proposal_Inr[OF _ a] run by auto
next
  fix s s' rds a assume "pull_all_delta_proposals (filesystem_service app) a s = (rds, s')" and i: "fs_inv app s" and a: "plain_name a"
  then have run: "fs_pull_all_delta_proposals app a s = (rds, s')" by (simp add: filesystem_service_def)
  have "set ds \<subseteq> {d. \<exists>h. fs_prop_view app s a h = Some d}" if "rds = Inr ds" for ds
    using fs_proposals_law[OF run[unfolded fs_pull_all_delta_proposals_def that] i a] by fastforce
  then show "fs_inv app s' \<and> fs_view app s' = fs_view app s \<and>
      (\<forall>ds. rds = Inr ds \<longrightarrow> set ds \<subseteq> {d. \<exists>h. gv_props (fs_view app s) a h = Some d})"
    using quiet[OF parents_pulls(4) frame_pulls(4) i run] by simp
next
  fix s s' rds a assume "pull_pending_proposals (filesystem_service app) a s = (rds, s')" and i: "fs_inv app s" and a: "plain_name a"
  then have run: "fs_pull_pending_proposals app a s = (rds, s')" by (simp add: filesystem_service_def)
  have "set ds \<subseteq> {d. \<exists>h. fs_prop_view app s a h = Some d \<and> is_pending (d_status d)}" if "rds = Inr ds" for ds
    using fs_proposals_law[OF run[unfolded fs_pull_pending_proposals_def that] i a] by fastforce
  then show "fs_inv app s' \<and> fs_view app s' = fs_view app s \<and>
      (\<forall>ds. rds = Inr ds \<longrightarrow> set ds \<subseteq> {d. \<exists>h. gv_props (fs_view app s) a h = Some d \<and> is_pending (d_status d)})"
    using quiet[OF parents_pulls(5) frame_pulls(5) i run] by simp
qed

end
