(* ===== verification/Guardian_Instances.thy ===== *)
theory Guardian_Instances
  imports Guardian_System Guardian_Fs_Store Instances
begin

text \<open>
  The specification on the file-backed server: the contracts of the two file stores give the locale
  \<open>guardian_backends\<close>. And a small server on which the witnesses evaluate the definitions: two keys \<open>a\<close> and \<open>b\<close>
  whose signatures are their names, one account that both may use, a chain that
  confirms nothing, a healthy disk.
\<close>

section \<open>The file-backed server\<close>

interpretation guardian: guardian_backends "filesystem_service app" "fs_inv app" plain_name "fs_view app"
  filesystem_metadata_store meta_inv meta_view
  by intro_locales

definition guardian_view :: "path \<Rightarrow> (gcontent fsys, meta_fs, 'nc) gapp \<Rightarrow> gabs" where
  "guardian_view app s = (fs_view app (ga_storage s), meta_view (ga_meta s))"

definition guardian_ok :: "path \<Rightarrow> (gcontent fsys, meta_fs, 'nc) gapp \<Rightarrow> bool" where
  "guardian_ok app s \<longleftrightarrow>
     fs_inv app (ga_storage s) \<and> meta_inv (ga_meta s) \<and> gabs_ok plain_name (guardian_view app s)"

definition file_backed :: "path \<Rightarrow> (gcontent fsys, meta_fs, 'nc) genv \<Rightarrow> bool" where
  "file_backed app G \<longleftrightarrow> ge_storage G = filesystem_service app \<and> ge_meta G = filesystem_metadata_store"

lemma guardian_simps:
  "guardian.view app s = guardian_view app s"
  "guardian.good app s = guardian_ok app s"
  "guardian.uses app G = file_backed app G"
  by (simp_all add: guardian.view_def guardian.good_def guardian.uses_def guardian_view_def guardian_ok_def file_backed_def)

text \<open>What the view shows lies in a file of that name.\<close>

lemma view_files:
  assumes "plain_path app"
  shows "fs_delta_view app s a n = Some d \<Longrightarrow> (app @ [a, ''deltas'', show_nat n @ ''.json''], Intact (GDelta d)) \<in> set (fs_files s)"
    and "fs_prop_view app s a h = Some d \<Longrightarrow> (app @ [a, ''proposals'', h @ ''.json''], Intact (GDelta d)) \<in> set (fs_files s)"
  using assms plain_name_not_dots[OF plain_seq_name, of n] plain_name_not_dots[of "h @ ''.json''"] plain_name_not_dots[of a]
  by (auto simp: fs_delta_view_def fs_prop_view_def fget_def split: option.splits fdata.splits if_splits
      dest!: dir_get_in_set elim!: as_delta.elims)

lemma fs_view_bound: "fs_delta_view app s a n = Some d \<Longrightarrow> n < u64_bound"
  by (auto simp: fs_delta_view_def split: option.splits fdata.splits if_splits)

section \<open>A small server\<close>

definition two_keys :: "(string, string, unit, unit) externals" where
  "two_keys = \<lparr> hex_encode = (\<lambda>b. b), hex_decode = Inr, b64_encode = (\<lambda>b. b), b64_decode = Inr,
     json_to_vec = (\<lambda>_. Inr []), felt_new = (\<lambda>n. n mod 18446744069414584321), hasher_hash = (\<lambda>b. MWord (length b) 0 0 0),
     hasher_merge = (\<lambda>v w. v), hasher_hash_elements = (\<lambda>fs. MWord (sum_list fs) (length fs) 0 0),
     rpo_hash_elements = (\<lambda>fs. MWord (sum_list fs) (length fs) 0 0),
     word_to_bytes = (\<lambda>w. replicate 64 (if w = mword_zero then CHR ''a'' else CHR ''b'')), word_from_bytes = (\<lambda>b. Inr mword_zero),
     sig_from_bytes = Inr, sig_to_bytes = (\<lambda>b. b), sig_public_key = (\<lambda>sg. sg), sig_verify = (\<lambda>sg m pk. sg = pk),
     pk_from_bytes = Inr, pk_to_commitment = (\<lambda>pk. if pk = ''a'' then mword_zero else MWord 1 0 0 0),
     account_from_hex = (\<lambda>h. Inr (AccountId 1 2)), account_to_felts = (\<lambda>a. (account_suffix a, account_prefix a)),
     account_to_hex = (\<lambda>a. ''0x12''), summary_from_bytes = (\<lambda>b. Inr ()), summary_to_commitment = (\<lambda>_. mword_zero),
     summary_input_nullifiers = (\<lambda>_. []), summary_output_notes = (\<lambda>_. []), note_script_root = (\<lambda>_. mword_zero),
     note_storage_elements = (\<lambda>_. []), note_storage_commitment = (\<lambda>_. mword_zero),
     note_assets_commitment = (\<lambda>_. mword_zero), note_fungible_assets = (\<lambda>_. []), note_serial_num = (\<lambda>_. mword_zero),
     nullifier_bytes = (\<lambda>a b c d. ''n''), p2id_script_root = mword_zero,
     p2id_storage_target = (\<lambda>fs. Inr (AccountId 1 2)), show_word = (\<lambda>w. ''w'') \<rparr>"

definition no_ecdsa :: "(string, unit, unit) ecdsa_auth" where
  "no_ecdsa = \<lparr> ecdsa_sig_from_bytes = (\<lambda>b. Inl ''no ecdsa''), ecdsa_pk_from_bytes = (\<lambda>b. Inl ''no ecdsa''),
     ecdsa_pk_commitment = (\<lambda>_. mword_zero), prepared_signature = (\<lambda>s m. []),
     ecdsa_recover = (\<lambda>m s. Inl ''no ecdsa''), ecdsa_verify = (\<lambda>pk m s. False) \<rparr>"

definition still_chain :: "unit network_client" where
  "still_chain = \<lparr> nc_get_state_commitment = (\<lambda>nc a j. Inr ''c0''), nc_verify_state = (\<lambda>a j. errS ''not on chain''),
     nc_verify_delta = (\<lambda>nc c j p. Inr ()), nc_apply_delta = (\<lambda>nc j p. Inr (JNull, ''c1'')),
     nc_merge_deltas = (\<lambda>nc ps. Inr JNull), nc_delta_proposal_id = (\<lambda>nc a n p. Inr ''0xab''),
     nc_validate_credential = (\<lambda>nc j c a. Inr ()), nc_validate_guardian_commitment = (\<lambda>nc j c. Inr ()),
     nc_should_update_auth = (\<lambda>j a. okS None) \<rparr>"

definition demo_signer :: ack_signer where
  "demo_signer = \<lparr> as_pubkey_hex = ''0xg'', as_commitment_hex = ''0xgc'', as_sign = (\<lambda>w. Inr ''s'') \<rparr>"

definition demo_genv :: "(gcontent fsys, meta_fs, unit) genv" where
  "demo_genv = \<lparr> ge_storage = filesystem_service [''g''], ge_meta = filesystem_metadata_store, ge_net = still_chain,
     ge_ack = \<lparr> ack_falcon = demo_signer, ack_ecdsa = demo_signer \<rparr>,
     ge_chrono = \<lparr> to_rfc3339 = (\<lambda>t. ''t''), parse_from_rfc3339 = (\<lambda>_. Some 0), rfc3339_error = (\<lambda>_. []) \<rparr>,
     ge_canonicalization = Some \<lparr> check_interval_seconds = 10, max_retries = 2, submission_grace_period_seconds = 0 \<rparr>,
     ge_env = (\<lambda>_. None) \<rparr>"

definition key_a :: string where
  "key_a = ''0x'' @ replicate 64 (CHR ''a'')"

definition key_b :: string where
  "key_b = ''0x'' @ replicate 64 (CHR ''b'')"

definition demo_metadata :: account_metadata where
  "demo_metadata = \<lparr> m_account_id = ''acc'', m_auth = MidenFalconRpo [key_a, key_b], m_network_config = NetMiden Local,
     m_created_at = ''t'', m_updated_at = ''t'', m_has_pending_candidate = False, m_last_auth_timestamp = None \<rparr>"

definition demo_meta :: meta_fs where
  "demo_meta = \<lparr> mf_file_path = [''g'', ''.metadata'', ''accounts.json''], mf_cache = [(''acc'', demo_metadata)],
     mf_fs = \<lparr> fs_files = [], fs_dirs = [[''g''], [''g'', ''.metadata'']], fs_faults = [], fs_stat_faults = [], fs_clock = [] \<rparr>,
     mf_pid = 1, mf_counter = 0 \<rparr>"

definition demo_state :: state_object where
  "demo_state = \<lparr> so_account_id = ''acc'', so_state_json = JNull, so_commitment = ''c0'', so_created_at = ''t'',
     so_updated_at = ''t'', so_auth_scheme = [] \<rparr>"

definition demo_proposal :: delta_object where
  "demo_proposal = \<lparr> d_account_id = ''acc'', d_nonce = 1, d_prev_commitment = ''c0'', d_new_commitment = None,
     d_payload = JObject [], d_ack_sig = [], d_ack_pubkey = [], d_ack_scheme = [], d_status = Pending ''t'' key_a [] \<rparr>"

definition demo_gapp :: "(gcontent fsys, meta_fs, unit) gapp" where
  "demo_gapp = \<lparr> ga_storage = \<lparr> fs_files = [([''g'', ''acc'', ''state.json''], Intact (GState demo_state)),
       ([''g'', ''acc'', ''proposals'', ''ab.json''], Intact (GDelta demo_proposal))],
     fs_dirs = [[''g''], [''g'', ''acc''], [''g'', ''acc'', ''proposals'']], fs_faults = [], fs_stat_faults = [], fs_clock = [] \<rparr>,
     ga_meta = demo_meta, ga_net = (), ga_clock = [5000000, 6000000, 7000000, 8000000] \<rparr>"

definition creds_of :: "string \<Rightarrow> string \<Rightarrow> int \<Rightarrow> credentials" where
  "creds_of pubkey sg ts = credentials_signature pubkey sg ts"

definition demo_delta :: delta_object where
  "demo_delta = \<lparr> d_account_id = ''acc'', d_nonce = 1, d_prev_commitment = ''c0'', d_new_commitment = None,
     d_payload = JObject [(''data'', JString ''x'')], d_ack_sig = [], d_ack_pubkey = [], d_ack_scheme = [], d_status = status_default \<rparr>"

definition demo_candidate :: delta_object where
  "demo_candidate = demo_delta \<lparr> d_new_commitment := Some ''c1'', d_ack_sig := ''s'', d_ack_pubkey := ''0xg'',
     d_ack_scheme := ''falcon'', d_status := Candidate ''t'' 0 \<rparr>"

text \<open>The account once a request with timestamp 1 was authenticated, and the storage once the candidate was submitted.\<close>

definition demo_seen :: account_metadata where
  "demo_seen = demo_metadata \<lparr> m_last_auth_timestamp := Some 1 \<rparr>"

definition demo_gapp1 :: "(gcontent fsys, meta_fs, unit) gapp" where
  "demo_gapp1 = demo_gapp \<lparr> ga_meta := demo_meta \<lparr> mf_cache := [(''acc'', demo_seen)],
       mf_fs := (mf_fs demo_meta) \<lparr> fs_files := [([''g'', ''.metadata'', ''accounts.json''], Intact [(''acc'', demo_seen)])] \<rparr>,
       mf_counter := 1 \<rparr>,
     ga_clock := [7000000, 8000000] \<rparr>"

definition demo_storage :: "gcontent fsys" where
  "demo_storage = (ga_storage demo_gapp) \<lparr>
     fs_files := fs_files (ga_storage demo_gapp) @ [([''g'', ''acc'', ''deltas'', ''1.json''], Intact (GDelta demo_candidate))],
     fs_dirs := fs_dirs (ga_storage demo_gapp) @ [[''g'', ''acc'', ''deltas'']] \<rparr>"

definition demo_flagged :: meta_fs where
  "demo_flagged = (let m = demo_seen \<lparr> m_has_pending_candidate := True \<rparr> in
     demo_meta \<lparr> mf_cache := [(''acc'', m)],
       mf_fs := (mf_fs demo_meta) \<lparr> fs_files := [([''g'', ''.metadata'', ''accounts.json''], Intact [(''acc'', m)])] \<rparr>,
       mf_counter := 2 \<rparr>)"

lemma demo_file_backed: "file_backed [''g''] demo_genv"
  by (simp add: file_backed_def demo_genv_def)

lemma demo_meta_view: "meta_view (ga_meta demo_gapp) = [''acc'' \<mapsto> demo_metadata]"
  by (auto simp: fun_eq_iff demo_gapp_def meta_view_def demo_meta_def dir_get_def)

lemma demo_delta_view: "fs_delta_view [''g''] (ga_storage demo_gapp) a n = None"
  using view_files(1)[of "[''g'']" "ga_storage demo_gapp" a n] by (cases "fs_delta_view [''g''] (ga_storage demo_gapp) a n")
    (auto simp: demo_gapp_def)

lemma demo_prop_view: "fs_prop_view [''g''] (ga_storage demo_gapp) a h = Some d \<Longrightarrow> a = ''acc'' \<and> d = demo_proposal"
  using view_files(2)[of "[''g'']" "ga_storage demo_gapp" a h d] by (auto simp: demo_gapp_def)

lemma demo_ok: "guardian_ok [''g''] demo_gapp"
proof -
  have "parents (ga_storage demo_gapp)"
    by (auto simp: parents_def fget_def dir_get_def has_dir_def demo_gapp_def split: if_splits)
  then have "fs_inv [''g''] (ga_storage demo_gapp)" by (simp add: fs_inv_def demo_gapp_def)
  moreover have "meta_inv (ga_meta demo_gapp)"
    by (auto simp: meta_inv_def demo_gapp_def demo_meta_def demo_metadata_def dir_wf_def dir_get_def)
  moreover have "gabs_ok plain_name (guardian_view [''g''] demo_gapp)"
    by (auto simp: gabs_ok_def guardian_view_def demo_meta_view demo_delta_view candidates_def demo_proposal_def
        plain_name_def split: if_splits dest!: demo_prop_view)
  ultimately show ?thesis by (simp add: guardian_ok_def)
qed

end
