(* ===== verification/Guardian_Properties.thy ===== *)
theory Guardian_Properties
  imports Guardian_Instances
begin

text \<open>
  The properties of the Guardian, on the file-backed server: what the specification promises, carried
  over by the simulation, then the behaviour of single services and the cases where the code does not
  do what it is meant to.
\<close>

section \<open>Evaluating the small server\<close>

lemmas run_paths = path_with_extension_def file_stem_def err_prefix_def strip_suffix_def

lemmas run_meta = filesystem_metadata_store_def meta_get_def meta_set_def meta_update_last_auth_timestamp_cas_def
  meta_persist_def meta_write_temp_def temp_name_def on_meta_fs_def ms_set_has_pending_candidate_def
  run_paths

lemmas run_guardian = resolve_account_def on_meta_def on_storage_def ask_net_def on_net_def clock_now_def now_rfc3339_def
  time_diff_ms_def i64_abs_def i64_wrap_def timestamp_millis_def MAX_TIMESTAMP_SKEW_MS_def auth_verify_def
  falcon_verify_request_signature_def account_id_timestamp_to_digest_def from_account_id_hex_def
  falcon_parse_signature_def word_into_hex_def creds_of_def credentials_signature_def require_miden_def

lemmas run_storage = filesystem_service_def fs_pull_state_def read_parse_def get_state_path_def fs_submit_delta_def
  get_delta_path_def deltas_dir_def proposals_dir_def service_write_def fs_has_pending_candidate_def
  list_delta_filenames_def list_json_filenames_def get_delta_proposal_path_def fs_pull_delta_proposal_def
  fs_update_delta_proposal_def fs_submit_delta_proposal_def fs_write_def
  run_paths

lemmas run_nat = show_small u64_add_def u64_bound_def

lemmas run_small = two_keys_def no_ecdsa_def still_chain_def demo_signer_def demo_genv_def demo_metadata_def
  demo_meta_def demo_state_def demo_proposal_def demo_gapp_def demo_delta_def key_a_def key_b_def

text \<open>The account of the small server resolves, with a signature of key \<open>a\<close>; a delta for it becomes a candidate.\<close>

lemma demo_resolve_run:
  "resolve_account two_keys no_ecdsa demo_genv ''acc'' (creds_of h ''0xa'' 1) demo_gapp = (Inr demo_metadata, demo_gapp1)"
  by (simp add: demo_gapp1_def demo_seen_def run_guardian run_meta run_small run_fs run_nat cong: run_congs)

lemma demo_resolve: "fst (resolve_account two_keys no_ecdsa demo_genv ''acc'' (creds_of h ''0xa'' 1) demo_gapp) = Inr demo_metadata"
  by (simp add: demo_resolve_run)

lemma demo_pull_state: "pull_state (filesystem_service [''g'']) ''acc'' (ga_storage demo_gapp) = (Inr demo_state, ga_storage demo_gapp)"
  by (simp add: run_storage run_small run_fs cong: run_congs)

lemma demo_has_pending: "has_pending_candidate (filesystem_service [''g'']) ''acc'' (ga_storage demo_gapp) = (Inr False, ga_storage demo_gapp)"
  by (simp add: run_storage run_small run_fs cong: run_congs)

lemma demo_submit: "submit_delta (filesystem_service [''g'']) demo_candidate (ga_storage demo_gapp) = (Inr (), demo_storage)"
  by (simp add: demo_storage_def demo_candidate_def run_storage run_small run_fs run_nat cong: run_congs)

lemma demo_env:
  "ge_storage demo_genv = filesystem_service [''g'']" "ge_meta demo_genv = filesystem_metadata_store"
  "ge_net demo_genv = still_chain" "ack_falcon (ge_ack demo_genv) = demo_signer" "to_rfc3339 (ge_chrono demo_genv) t = ''t''"
  "ge_canonicalization demo_genv \<noteq> None" "b64_decode two_keys = Inr" "summary_from_bytes two_keys b = Inr ()" "hex_encode two_keys b = b"
  by (simp_all add: demo_genv_def two_keys_def)

lemma demo_flag:
  "ms_set_has_pending_candidate filesystem_metadata_store ''acc'' True ''t'' (ga_meta demo_gapp1) = (Inr (), demo_flagged)"
  by (simp add: demo_flagged_def demo_gapp1_def demo_seen_def run_meta run_small run_fs run_nat cong: run_congs)

lemma demo_push_run:
  "push_delta two_keys no_ecdsa demo_genv demo_delta (creds_of key_a ''0xa'' 1) demo_gapp =
     (Inr demo_candidate, demo_gapp1 \<lparr> ga_storage := demo_storage, ga_meta := demo_flagged, ga_clock := [8000000] \<rparr>)"
proof -
  have st: "ga_storage demo_gapp1 = ga_storage demo_gapp" "ga_clock demo_gapp1 = [7000000, 8000000]"
    by (simp_all add: demo_gapp1_def)
  have c: "demo_delta \<lparr> d_new_commitment := Some ''c1'', d_ack_sig := ''s'', d_ack_pubkey := ''0xg'', d_ack_scheme := ''falcon'',
      d_status := Candidate ''t'' 0 \<rparr> = demo_candidate" by (simp add: demo_candidate_def)
  have d: "d_account_id demo_delta = ''acc''" "d_prev_commitment demo_delta = ''c0''"
    "d_payload demo_delta = JObject [(''data'', JString ''x'')]" "d_account_id demo_candidate = ''acc''"
    by (simp_all add: demo_delta_def demo_candidate_def)
  show ?thesis
    by (simp add: push_delta_def d demo_resolve_run c commit_delta_def strategy_from_app_state_def ack_delta_def
        signer_ack_delta_def ack_signer_of_def ack_pubkey_def tx_summary_from_json_def status_candidate_def
        json_get_str_def bindS_def map_errS_def on_storage_def on_meta_def ask_net_def clock_now_def now_rfc3339_def
        require_miden_def demo_env still_chain_def demo_metadata_def demo_state_def demo_signer_def
        demo_pull_state demo_has_pending demo_submit demo_flag st cong: run_congs)
qed

text \<open>A signature on the proposal, under the header \<open>h\<close> that names a key.\<close>

lemma demo_ab: "normalize_commitment_hex ''0xab'' = Inr ''0xab''"
  by (simp add: normalize_commitment_hex_def is_hexdigit_def to_digit_def)

lemma demo_pull_proposal:
  "pull_delta_proposal (filesystem_service [''g'']) ''acc'' ''0xab'' (ga_storage demo_gapp) = (Inr demo_proposal, ga_storage demo_gapp)"
  by (simp add: run_storage run_small run_fs normalize_commitment_hex_def is_hexdigit_def to_digit_def cong: run_congs)

lemma demo_update_proposal:
  "d_account_id p = ''acc'' \<Longrightarrow> update_delta_proposal (filesystem_service [''g'']) ''0xab'' p (ga_storage demo_gapp) =
     (Inr (), (ga_storage demo_gapp) \<lparr> fs_files := [([''g'', ''acc'', ''state.json''], Intact (GState demo_state)),
       ([''g'', ''acc'', ''proposals'', ''ab.json''], Intact (GDelta p))] \<rparr>)"
  by (simp add: run_storage demo_gapp_def run_fs normalize_commitment_hex_def is_hexdigit_def to_digit_def cong: run_congs)

definition demo_signed :: "string \<Rightarrow> delta_object" where
  "demo_signed h = demo_proposal \<lparr>
     d_payload := JObject [(''signatures'', JArray [delta_signature_to_json \<lparr> signer_id = h, ds_signature = PSFalcon ''sg'' \<rparr>])],
     d_status := Pending ''t'' key_a [\<lparr> cs_signature = PSFalcon ''sg'', cs_timestamp = ''t'', cs_signer_id = h \<rparr>] \<rparr>"

lemma demo_signed_sel:
  "d_account_id (demo_signed h) = ''acc''"
  "d_status (demo_signed h) = Pending ''t'' key_a [\<lparr> cs_signature = PSFalcon ''sg'', cs_timestamp = ''t'', cs_signer_id = h \<rparr>]"
  by (simp_all add: demo_signed_def demo_proposal_def)

lemma demo_sign_run:
  assumes "compute_signer_commitment two_keys no_ecdsa (m_auth demo_metadata) h = Inr h"
  shows "sign_delta_proposal two_keys no_ecdsa demo_genv ''acc'' ''0xab'' (PSFalcon ''sg'') (creds_of h ''0xa'' 1) demo_gapp =
    (Inr (demo_signed h), demo_gapp1 \<lparr> ga_storage := (ga_storage demo_gapp) \<lparr>
       fs_files := [([''g'', ''acc'', ''state.json''], Intact (GState demo_state)),
         ([''g'', ''acc'', ''proposals'', ''ab.json''], Intact (GDelta (demo_signed h)))] \<rparr>, ga_clock := [8000000] \<rparr>)"
proof -
  have st: "ga_storage demo_gapp1 = ga_storage demo_gapp" "ga_clock demo_gapp1 = [7000000, 8000000]"
    by (simp_all add: demo_gapp1_def)
  have p: "d_account_id demo_proposal = ''acc''" "d_status demo_proposal = Pending ''t'' key_a []" "d_payload demo_proposal = JObject []"
    by (simp_all add: demo_proposal_def)
  have c: "cr_pubkey (creds_of h ''0xa'' 1) = h" by (simp add: creds_of_def credentials_signature_def)
  have m: "is_evm (m_network_config demo_metadata) = False" by (simp add: demo_metadata_def)
  have e: "eq_ignore_ascii_case x x" for x by (simp add: eq_ignore_ascii_case_def)
  have a: "append_payload_signature (JObject []) x = Inr (JObject [(''signatures'', JArray [delta_signature_to_json x])])" for x
    by (simp add: append_payload_signature_def json_insert_def)
  show ?thesis
    by (simp add: sign_delta_proposal_def demo_ab demo_resolve_run require_miden_def m demo_env p c e a assms st demo_pull_proposal demo_update_proposal
        demo_signed_def Let_def bindS_def map_errS_def on_storage_def clock_now_def now_rfc3339_def cong: run_congs)
qed

lemma demo_signers:
  assumes "h \<in> {key_a, key_b}"
  shows "compute_signer_commitment two_keys no_ecdsa (m_auth demo_metadata) h = Inr h"
proof -
  have "replicate 64 x = x # x # replicate 62 x" for x :: char
    using replicate_Suc[of 63 x] replicate_Suc[of 62 x] by simp
  then have t: "x \<noteq> CHR ''0'' \<Longrightarrow> trim_0x (replicate 64 x) = replicate 64 x" for x by simp
  have d: "hex_decode two_keys y = Inr y" for y by (simp add: two_keys_def)
  have "compute_signer_commitment two_keys no_ecdsa (m_auth demo_metadata) (''0x'' @ replicate 64 x) = Inr (''0x'' @ replicate 64 x)"
    if "x \<noteq> CHR ''0''" for x
    using t[OF that] by (simp add: compute_signer_commitment_def demo_metadata_def bare_commitment_def d Let_def)
  from this[of "CHR ''a''"] this[of "CHR ''b''"] assms show ?thesis by (elim insertE emptyE) (simp_all add: key_a_def key_b_def)
qed

section \<open>The specification is followed\<close>

text \<open>
  C11: Replay protection. Once a request of an account has been authenticated with a timestamp, then after
  any sequence of requests and canonicalization ticks (each run to its end, succeeding or failing,
  with any I/O failures of reads and writes) no request of that account with that timestamp or an earlier one is
  authenticated again.
\<close>

theorem replay_protected:
  assumes "resolve_account X E G a c s = (Inr m, s1)" and "file_backed app G" and "guardian_ok app s"
    and "(gstep plain_name X E G)\<^sup>*\<^sup>* s1 s2" and "cr_timestamp c' \<le> cr_timestamp c"
  shows "\<not> is_ok (fst (resolve_account X E G a c' s2))"
  using guardian.no_replay[of X E G a c s m s1 app s2 c' "fst (resolve_account X E G a c' s2)" "snd (resolve_account X E G a c' s2)"]
    assms
  by (simp add: guardian_simps)

theorem replay_protected_witness:
  "let s1 = snd (resolve_account two_keys no_ecdsa demo_genv ''acc'' (creds_of key_a ''0xa'' 1) demo_gapp);
       s2 = snd (process_all_accounts demo_genv test_deltas_processor s1) in
   \<not> is_ok (fst (resolve_account two_keys no_ecdsa demo_genv ''acc'' (creds_of key_b ''0xb'' 1) s2))"
proof -
  let ?r = "resolve_account two_keys no_ecdsa demo_genv ''acc'' (creds_of key_a ''0xa'' 1) demo_gapp"
  let ?t = "process_all_accounts demo_genv test_deltas_processor (snd ?r)"
  have r: "?r = (Inr demo_metadata, snd ?r)" using demo_resolve by (simp add: prod_eq_iff)
  have "gstep plain_name two_keys no_ecdsa demo_genv (snd ?r) (snd ?t)"
    by (rule gstep.tick[of _ test_deltas_processor _ "fst ?t"]) simp
  from replay_protected[OF r demo_file_backed demo_ok r_into_rtranclp[where r = "gstep plain_name two_keys no_ecdsa demo_genv", OF this],
      of "creds_of key_b ''0xb'' 1"]
  show ?thesis by (simp add: Let_def creds_of_def credentials_signature_def)
qed

text \<open>
  C12: The file-backed server refines the specification: every sequence of requests and ticks, with any
  failures of reads and writes, changes the view of storage and metadata by steps of \<open>gspec\<close> only, and keeps the server well formed.
\<close>

theorem guardian_refines:
  assumes "(gstep plain_name X E G)\<^sup>*\<^sup>* s s'" and "file_backed app G" and "guardian_ok app s"
  shows "guardian_ok app s' \<and> (gspec plain_name)\<^sup>*\<^sup>* (guardian_view app s) (guardian_view app s')"
  using guardian.gsteps_simulated[of X E G s s' app] assms by (simp add: guardian_simps)

theorem guardian_refines_witness:
  "let s' = snd (push_delta two_keys no_ecdsa demo_genv demo_delta (creds_of key_a ''0xa'' 1) demo_gapp) in
   guardian_ok [''g''] s' \<and> (gspec plain_name)\<^sup>*\<^sup>* (guardian_view [''g''] demo_gapp) (guardian_view [''g''] s')"
proof -
  let ?r = "push_delta two_keys no_ecdsa demo_genv demo_delta (creds_of key_a ''0xa'' 1) demo_gapp"
  have "gstep plain_name two_keys no_ecdsa demo_genv demo_gapp (snd ?r)"
    by (rule gstep.push[of _ _ _ demo_delta "creds_of key_a ''0xa'' 1" _ "fst ?r"]) (simp_all add: demo_delta_def u64_bound_def)
  then show ?thesis
    unfolding Let_def by (intro guardian_refines[OF r_into_rtranclp demo_file_backed demo_ok])
qed

text \<open>
  C13: At most one candidate, as long as requests and ticks of the job do not overlap: in every state that a
  sequence of requests and ticks, each run to its end before the next one starts, leads to, whatever fails, an account
  has at most one candidate delta, and the deltas lie under their own account and nonce. (Two pushes that overlap
  can leave two candidates, see C40.)
\<close>

theorem one_candidate:
  assumes "(gstep plain_name X E G)\<^sup>*\<^sup>* s s'" and "file_backed app G" and "guardian_ok app s"
    and "fs_delta_view app (ga_storage s') a n = Some d" and "is_candidate (d_status d)"
    and "fs_delta_view app (ga_storage s') a n' = Some d'" and "is_candidate (d_status d')"
  shows "n = n' \<and> d = d' \<and> d_account_id d = a \<and> d_nonce d = n"
proof -
  have ok: "gabs_ok plain_name (guardian_view app s')"
    using guardian.gsteps_simulated[of X E G s s' app] assms(1-3) by (simp add: guardian_simps guardian_ok_def)
  have v: "gv_deltas (fst (guardian_view app s')) = fs_delta_view app (ga_storage s')"
    by (simp add: guardian_view_def)
  then have "n \<in> candidates (fst (guardian_view app s')) a" "n' \<in> candidates (fst (guardian_view app s')) a"
    using assms(4-7) by (auto simp: candidates_def)
  then have "n = n'" using gabs_okD(4)[OF ok] by blast
  then show ?thesis using gabs_okD(2)[OF ok, of a n d] assms v by simp
qed

lemma demo_candidate_view:
  "fs_delta_view [''g''] demo_storage ''acc'' 1 = Some demo_candidate" "is_candidate (d_status demo_candidate)"
  by (simp_all add: fs_delta_view_def demo_storage_def demo_gapp_def fget_def dir_get_def plain_name_def demo_candidate_def
      u64_bound_def show_small)

lemma demo_push_step:
  "gstep plain_name two_keys no_ecdsa demo_genv demo_gapp
     (demo_gapp1 \<lparr> ga_storage := demo_storage, ga_meta := demo_flagged, ga_clock := [8000000] \<rparr>)"
  by (rule gstep.push[OF demo_push_run]) (simp add: demo_delta_def u64_bound_def)

theorem one_candidate_witness:
  "\<exists>s. (gstep plain_name two_keys no_ecdsa demo_genv)\<^sup>*\<^sup>* demo_gapp s \<and> fs_delta_view [''g''] (ga_storage s) ''acc'' 1 = Some demo_candidate \<and>
     d_account_id demo_candidate = ''acc'' \<and> d_nonce demo_candidate = 1"
proof -
  let ?s = "demo_gapp1 \<lparr> ga_storage := demo_storage, ga_meta := demo_flagged, ga_clock := [8000000] \<rparr>"
  have r: "(gstep plain_name two_keys no_ecdsa demo_genv)\<^sup>*\<^sup>* demo_gapp ?s" using demo_push_step by blast
  have v: "fs_delta_view [''g''] (ga_storage ?s) ''acc'' 1 = Some demo_candidate" using demo_candidate_view by simp
  from one_candidate[OF r demo_file_backed demo_ok v demo_candidate_view(2) v demo_candidate_view(2)] r v show ?thesis by blast
qed

text \<open>
  C14: A request is only resolved for a key of the account: the signature of the request verifies, over the
  digest of account, timestamp and payload, under a key whose commitment the stored
  metadata lists; the timestamp is newer than the last one recorded, and is recorded.
\<close>

theorem resolved_by_listed_key:
  assumes "resolve_account X E G a c s = (Inr m, s')" and "file_backed app G" and "guardian_ok app s"
  shows "meta_view (ga_meta s) a = Some m \<and>
    (\<exists>k \<in> set (auth_commitments (m_auth m)). request_signed_by X E (auth_scheme (m_auth m)) a c k) \<and>
    (\<forall>t. m_last_auth_timestamp m = Some t \<longrightarrow> t < cr_timestamp c) \<and>
    (\<exists>m' t. meta_view (ga_meta s') a = Some m' \<and> m_last_auth_timestamp m' = Some t \<and> cr_timestamp c \<le> t)"
proof -
  have r: "guardian.resolved X E (guardian_view app s) a c m (meta_view (ga_meta s'))"
    using guardian.resolve_run[of X E G a c s m s' app] assms by (simp add: guardian_simps guardian_view_def)
  then have "auth_verify X E (m_auth m) a c = Inr ()" by (simp add: guardian.resolved_def)
  from auth_verify_sound[OF this] r show ?thesis
    by (auto simp: guardian.resolved_def ts_seen_def guardian_view_def not_le)
qed

theorem resolved_by_listed_key_witness:
  "\<exists>m. resolve_account two_keys no_ecdsa demo_genv ''acc'' (creds_of key_a ''0xa'' 1) demo_gapp =
     (Inr m, snd (resolve_account two_keys no_ecdsa demo_genv ''acc'' (creds_of key_a ''0xa'' 1) demo_gapp)) \<and>
   (\<exists>k \<in> set (auth_commitments (m_auth m)). request_signed_by two_keys no_ecdsa (auth_scheme (m_auth m)) ''acc'' (creds_of key_a ''0xa'' 1) k)"
proof -
  let ?r = "resolve_account two_keys no_ecdsa demo_genv ''acc'' (creds_of key_a ''0xa'' 1) demo_gapp"
  have r: "?r = (Inr demo_metadata, snd ?r)" using demo_resolve by (simp add: prod_eq_iff)
  from resolved_by_listed_key[OF r demo_file_backed demo_ok] r show ?thesis by blast
qed

section \<open>Deltas and proposals\<close>

text \<open>
  C15: What accepting a delta means, when canonicalization is on: the delta builds on the commitment of the stored
  state, the account had no candidate, the network client verified the delta against that state
  and applied it, the answer is the delta with the resulting commitment, the Guardian's
  acknowledgement and the status candidate with no retries, and this answer is what is stored, and nothing else changes.
\<close>

theorem push_delta_accepted:
  assumes "push_delta X E G d c s = (Inr d', s')" and "file_backed app G" and "guardian_ok app s"
    and "d_nonce d < u64_bound" and "ge_canonicalization G \<noteq> None"
  shows "\<exists>m z new_state commitment e now. meta_view (ga_meta s) (d_account_id d) = Some m \<and>
    fs_state_view app (ga_storage s) (d_account_id d) = Some z \<and> d_prev_commitment d = so_commitment z \<and>
    candidates (fs_view app (ga_storage s)) (d_account_id d) = {} \<and>
    nc_verify_delta (ge_net G) (ga_net s) (so_commitment z) (so_state_json z) (d_payload d) = Inr () \<and>
    nc_apply_delta (ge_net G) (ga_net s) (so_state_json z) (d_payload d) = Inr (new_state, commitment) \<and>
    ack_delta X (ge_ack G) (d \<lparr> d_new_commitment := Some commitment \<rparr>) (auth_scheme (m_auth m)) = Inr e \<and>
    d' = e \<lparr> d_ack_pubkey := ack_pubkey (ge_ack G) (auth_scheme (m_auth m)), d_ack_scheme := scheme_as_str (auth_scheme (m_auth m)),
      d_status := Candidate now 0 \<rparr> \<and>
    fs_view app (ga_storage s') = put_delta (d_account_id d) (d_nonce d) (Some d') (fs_view app (ga_storage s))"
  using guardian.push_outcome[of X E G d c s d' s' app] assms by (simp add: guardian_simps)

theorem push_delta_accepted_witness:
  "\<exists>s'. push_delta two_keys no_ecdsa demo_genv demo_delta (creds_of key_a ''0xa'' 1) demo_gapp = (Inr demo_candidate, s') \<and>
    fs_view [''g''] (ga_storage s') = put_delta ''acc'' 1 (Some demo_candidate) (fs_view [''g''] (ga_storage demo_gapp))"
  using push_delta_accepted[OF demo_push_run demo_file_backed demo_ok] demo_push_run
  by (auto simp: demo_delta_def u64_bound_def demo_env)

text \<open>
  C16: What signing a proposal means: the proposal was pending and had no signature under the signer's
  commitment, the answer is the proposal with exactly that signature appended, to the status and to the payload, and this
  answer replaces the stored proposal, nothing else.
\<close>

theorem sign_appends:
  assumes "sign_delta_proposal X E G a c sg cr s = (Inr p', s')" and "file_backed app G" and "guardian_ok app s"
  shows "\<exists>m h p ts proposer sigs signer now payload. meta_view (ga_meta s) a = Some m \<and> commitment_key c = Some h \<and>
    fs_prop_view app (ga_storage s) a h = Some p \<and> d_status p = Pending ts proposer sigs \<and>
    compute_signer_commitment X E (m_auth m) (cr_pubkey cr) = Inr signer \<and>
    \<not> list_ex (\<lambda>x. eq_ignore_ascii_case (cs_signer_id x) signer) sigs \<and>
    append_payload_signature (d_payload p) \<lparr> signer_id = signer, ds_signature = sg \<rparr> = Inr payload \<and>
    p' = p \<lparr> d_payload := payload, d_status := Pending ts proposer
      (sigs @ [\<lparr> cs_signature = sg, cs_timestamp = now, cs_signer_id = signer \<rparr>]) \<rparr> \<and>
    fs_view app (ga_storage s') = put_prop a h (Some p') (fs_view app (ga_storage s))"
  using guardian.sign_outcome[of X E G a c sg cr s p' s' app] assms by (simp add: guardian_simps) blast

theorem sign_appends_witness:
  "\<exists>s'. sign_delta_proposal two_keys no_ecdsa demo_genv ''acc'' ''0xab'' (PSFalcon ''sg'') (creds_of key_a ''0xa'' 1) demo_gapp =
     (Inr (demo_signed key_a), s') \<and> (\<exists>h. commitment_key ''0xab'' = Some h \<and>
     fs_view [''g''] (ga_storage s') = put_prop ''acc'' h (Some (demo_signed key_a)) (fs_view [''g''] (ga_storage demo_gapp)))"
  using sign_appends[OF demo_sign_run[OF demo_signers] demo_file_backed demo_ok, of key_a] demo_sign_run[OF demo_signers, of key_a]
  by auto

text \<open>
  C17: Nobody signs twice: after a signature was added, a second one under the same public key header is
  refused, whatever the signature.
\<close>

theorem signed_once:
  assumes "sign_delta_proposal X E G a c sg cr s = (Inr p', s')" and "file_backed app G" and "guardian_ok app s"
    and "cr_pubkey cr' = cr_pubkey cr"
  shows "\<not> is_ok (fst (sign_delta_proposal X E G a c sg' cr' s'))"
  using guardian.no_second_signature[of X E G a c sg cr s p' s' app cr' sg'] assms by (simp add: guardian_simps)

theorem signed_once_witness:
  "let s' = snd (sign_delta_proposal two_keys no_ecdsa demo_genv ''acc'' ''0xab'' (PSFalcon ''sg'') (creds_of key_a ''0xa'' 1) demo_gapp) in
   \<not> is_ok (fst (sign_delta_proposal two_keys no_ecdsa demo_genv ''acc'' ''0xab'' (PSFalcon ''other'') (creds_of key_a ''0xa'' 2) s'))"
  using signed_once[OF demo_sign_run[OF demo_signers] demo_file_backed demo_ok, of key_a "creds_of key_a ''0xa'' 2" "PSFalcon ''other''"]
    demo_sign_run[OF demo_signers, of key_a]
  by (simp add: Let_def creds_of_def credentials_signature_def)

text \<open>
  C18: The recorded signer is the one named in the public key header, not the key that signed the request. A
  request that is authenticated by a signature of key \<open>a\<close> but names key \<open>b\<close> in the header is accepted for a Falcon account and
  records a signature of \<open>b\<close> on the proposal; when \<open>b\<close> then signs, the Guardian answers that \<open>b\<close> has already signed.
\<close>

theorem signer_taken_from_header:
  "\<exists>s'. sign_delta_proposal two_keys no_ecdsa demo_genv ''acc'' ''0xab'' (PSFalcon ''sg'') (creds_of key_b ''0xa'' 1) demo_gapp =
     (Inr (demo_signed key_b), s') \<and>
   \<not> request_signed_by two_keys no_ecdsa Falcon ''acc'' (creds_of key_b ''0xa'' 1) key_b \<and>
   fst (sign_delta_proposal two_keys no_ecdsa demo_genv ''acc'' ''0xab'' (PSFalcon ''mine'') (creds_of key_b ''0xb'' 2) s') =
     Inl (ProposalAlreadySigned key_b)"
proof -
  define S where "S = demo_gapp1 \<lparr> ga_storage := (ga_storage demo_gapp) \<lparr>
       fs_files := [([''g'', ''acc'', ''state.json''], Intact (GState demo_state)),
         ([''g'', ''acc'', ''proposals'', ''ab.json''], Intact (GDelta (demo_signed key_b)))] \<rparr>, ga_clock := [8000000] \<rparr>"
  have first: "sign_delta_proposal two_keys no_ecdsa demo_genv ''acc'' ''0xab'' (PSFalcon ''sg'') (creds_of key_b ''0xa'' 1) demo_gapp =
     (Inr (demo_signed key_b), S)" unfolding S_def by (rule demo_sign_run[OF demo_signers]) simp
  have not_b: "\<not> request_signed_by two_keys no_ecdsa Falcon ''acc'' (creds_of key_b ''0xa'' 1) key_b"
    by (simp add: request_signed_by_def two_keys_def falcon_parse_signature_def creds_of_def credentials_signature_def word_into_hex_def key_b_def)
  obtain s2 where r: "resolve_account two_keys no_ecdsa demo_genv ''acc'' (creds_of key_b ''0xb'' 2) S = (Inr demo_seen, s2)"
    and st2: "ga_storage s2 = ga_storage S"
    by atomize_elim (simp add: S_def demo_gapp1_def demo_seen_def run_guardian run_meta run_small run_fs run_nat cong: run_congs)
  have p: "pull_delta_proposal (filesystem_service [''g'']) ''acc'' ''0xab'' (ga_storage S) = (Inr (demo_signed key_b), ga_storage S)"
    by (simp add: S_def run_storage demo_gapp_def run_fs normalize_commitment_hex_def is_hexdigit_def to_digit_def cong: run_congs)
  have c: "cr_pubkey (creds_of key_b ''0xb'' 2) = key_b" by (simp add: creds_of_def credentials_signature_def)
  have m: "m_auth demo_seen = m_auth demo_metadata" "\<not> is_evm (m_network_config demo_seen)"
    by (simp_all add: demo_seen_def demo_metadata_def)
  have "fst (sign_delta_proposal two_keys no_ecdsa demo_genv ''acc'' ''0xab'' (PSFalcon ''mine'') (creds_of key_b ''0xb'' 2) S) =
     Inl (ProposalAlreadySigned key_b)"
    using p st2 demo_signers[of key_b]
    by (simp add: sign_delta_proposal_def demo_ab r require_miden_def m demo_env c demo_signed_sel
        eq_ignore_ascii_case_def bindS_def map_errS_def on_storage_def)
  with first not_b show ?thesis by blast
qed

end
