(* ===== verification/Guardian_Race.thy ===== *)
theory Guardian_Race
  imports Guardian_Properties
begin

text \<open>
  Interleavings inside a request. The other theories run each request to its end; the server holds no lock
  on an account while it handles one, so two requests may interleave between the calls of the
  backends. Here two operations are cut at such a place, and are shown to be the composition of their halves:
  \<open>push_delta\<close> after its checks (\<open>push_check\<close>, \<open>push_finish\<close>), and the default method that sets the pending flag
  after its read (\<open>flag_write\<close>). Each half is again a sequence of atomic calls.
\<close>

section \<open>The halves\<close>

definition push_check ::
  "('sig, 'pk, 'su, 'n) externals \<Rightarrow> ('sig, 'esig, 'epk) ecdsa_auth \<Rightarrow> ('st, 'ms, 'nc) genv \<Rightarrow> delta_object \<Rightarrow> credentials
   \<Rightarrow> ('st, 'ms, 'nc, account_metadata \<times> state_object) service" where
  "push_check X E G delta creds =
     bindS (resolve_account X E G (d_account_id delta) creds) (\<lambda>metadata.
     bindS (require_miden metadata ''push_delta'') (\<lambda>_.
     bindS (storage_err ''Failed to fetch account state: ''
       (on_storage (pull_state (ge_storage G) (d_account_id delta)))) (\<lambda>current_state.
     bindS (storage_err ''Failed to check deltas: ''
       (on_storage (has_pending_candidate (ge_storage G) (d_account_id delta)))) (\<lambda>has_pending.
     if has_pending then errS ConflictPendingDelta
     else if d_prev_commitment delta \<noteq> so_commitment current_state
     then errS (CommitmentMismatch (so_commitment current_state) (d_prev_commitment delta))
     else okS (metadata, current_state)))))"

definition push_finish ::
  "('sig, 'pk, 'su, 'n) externals \<Rightarrow> ('st, 'ms, 'nc) genv \<Rightarrow> delta_object \<Rightarrow> account_metadata \<times> state_object
   \<Rightarrow> ('st, 'ms, 'nc, delta_object) service" where
  "push_finish X G delta = (\<lambda>(metadata, current_state).
     bindS (map_errS InvalidDelta (ask_net (\<lambda>nc.
       nc_verify_delta (ge_net G) nc (so_commitment current_state) (so_state_json current_state) (d_payload delta)))) (\<lambda>_.
     bindS (map_errS InvalidDelta (ask_net (\<lambda>nc.
       nc_apply_delta (ge_net G) nc (so_state_json current_state) (d_payload delta)))) (\<lambda>(new_state_json, new_commitment).
     let scheme = auth_scheme (m_auth metadata) in
     bindS (liftS (ack_delta X (ge_ack G) (delta \<lparr> d_new_commitment := Some new_commitment \<rparr>) scheme)) (\<lambda>acked.
     let result_delta = acked \<lparr> d_ack_pubkey := ack_pubkey (ge_ack G) scheme, d_ack_scheme := scheme_as_str scheme \<rparr> in
     bindS (now_rfc3339 G) (\<lambda>now.
     commit_delta G (strategy_from_app_state G) current_state now result_delta new_state_json new_commitment)))))"

definition flag_write ::
  "'ms metadata_store \<Rightarrow> string \<Rightarrow> bool \<Rightarrow> string \<Rightarrow> account_metadata option \<Rightarrow> ('ms, string, unit) comp" where
  "flag_write M account_id has_candidate now r =
     bindS (liftS (ok_or (''Account not found: '' @ account_id) r)) (\<lambda>metadata.
     if m_has_pending_candidate metadata = has_candidate then okS ()
     else ms_set M (metadata \<lparr> m_has_pending_candidate := has_candidate, m_updated_at := now \<rparr>))"

lemma push_delta_split: "push_delta X E G d c = bindS (push_check X E G d c) (push_finish X G d)"
proof -
  have if_bind: "bindS (if b then m else n) f = (if b then bindS m f else bindS n f)" for b :: bool and m n f
    by simp
  show ?thesis
    unfolding push_delta_def push_check_def push_finish_def bindS_assoc if_bind bindS_errS bindS_okS prod.case ..
qed

lemma set_flag_split:
  "ms_set_has_pending_candidate M a flag now = bindS (ms_get M a) (flag_write M a flag now)"
  unfolding ms_set_has_pending_candidate_def flag_write_def ..

section \<open>What the halves do\<close>

context guardian_backends
begin

lemma push_check_run:
  assumes run: "push_check X E G d c s = (Inr x, s')" and G: "uses G" and s: "good s"
  shows "good s' \<and> abs (ga_storage s') = abs (ga_storage s) \<and> ok_id (d_account_id d) \<and>
    candidates (abs (ga_storage s)) (d_account_id d) = {}"
proof -
  have B: "ge_storage G = B" using G by (simp add: uses_def)
  from run obtain m s1 z st2 p st3 where r: "resolve_account X E G (d_account_id d) c s = (Inr m, s1)"
    and z: "pull_state B (d_account_id d) (ga_storage s1) = (Inr z, st2)"
    and p: "has_pending_candidate B (d_account_id d) st2 = (Inr p, st3)" "\<not> p" and s': "s' = s1 \<lparr> ga_storage := st3 \<rparr>"
    unfolding push_check_def B by (auto simp: run_iffs require_miden_def split: if_splits)
  note res = resolve_run[OF r G s]
  have a: "ok_id (d_account_id d)" and v1: "abs (ga_storage s1) = abs (ga_storage s)" and i1: "sinv (ga_storage s1)"
    using res by (auto simp: resolved_def view_def good_def)
  note l2 = pull_state_law[OF z i1 a]
  have l3: "sinv st3 \<and> abs st3 = abs st2 \<and> p = (\<exists>m d'. gv_deltas (abs st2) (d_account_id d) m = Some d' \<and> is_candidate (d_status d'))"
    using has_pending_law[OF p(1) _ a] l2 by simp
  then have "good s'" using res l2 by (auto simp: s' good_def view_def)
  then show ?thesis using a v1 l2 l3 p(2) by (auto simp: s' candidates_def)
qed

lemma push_finish_run:
  assumes run: "push_finish X G d (m, z) s = (Inr e, s')" and G: "uses G" and s: "sinv (ga_storage s)" "ok_id (d_account_id d)"
    and n: "d_nonce d < u64_bound" and strat: "ge_canonicalization G \<noteq> None"
  shows "sinv (ga_storage s') \<and> is_candidate (d_status e) \<and>
    abs (ga_storage s') = put_delta (d_account_id d) (d_nonce d) (Some e) (abs (ga_storage s))"
proof -
  have B: "ge_storage G = B" "ge_meta G = M" using G by (simp_all add: uses_def)
  from run obtain nsj ncm k now s4 where ak: "ack_delta X (ge_ack G) (d \<lparr> d_new_commitment := Some ncm \<rparr>) (auth_scheme (m_auth m)) = Inr k"
    and t: "now_rfc3339 G s = (Inr now :: guardian_error + string, s4)"
    and cm: "commit_delta G (strategy_from_app_state G) z now (k \<lparr> d_ack_pubkey := ack_pubkey (ge_ack G) (auth_scheme (m_auth m)),
       d_ack_scheme := scheme_as_str (auth_scheme (m_auth m)) \<rparr>) nsj ncm s4 = (Inr e, s')"
    unfolding push_finish_def Let_def by (auto simp: run_iffs)
  let ?e = "k \<lparr> d_ack_pubkey := ack_pubkey (ge_ack G) (auth_scheme (m_auth m)),
       d_ack_scheme := scheme_as_str (auth_scheme (m_auth m)), d_status := Candidate now 0 \<rparr>"
  obtain sg where k: "k = d \<lparr> d_new_commitment := Some ncm, d_ack_sig := sg \<rparr>" using ack_delta_Inr[OF ak] by auto
  have st4: "ga_storage s4 = ga_storage s" using now_rfc3339_run[OF t] by simp
  from cm strat obtain st5 where sub: "submit_delta B ?e (ga_storage s) = (Inr (), st5)" and e: "e = ?e" and s': "ga_storage s' = st5"
    by (auto simp: commit_delta_def strategy_from_app_state_def run_iffs status_candidate_def B st4 Let_def)
  have "d_account_id ?e = d_account_id d" "d_nonce ?e = d_nonce d" by (simp_all add: k)
  then show ?thesis using submit_delta_law[OF sub s(1)] s(2) n e s' by simp
qed

end

section \<open>The pending flag and the timestamp\<close>

text \<open>
  C19 (error). The default method that sets the pending flag is a read and a later write of the whole metadata, with no
  lock in between. When a request of the account is authenticated between the two, its timestamp is recorded and a
  replay of it would be refused; but the write puts the old timestamp back, and the compare-and-swap that guards against
  replays takes the same timestamp as new: unless writing the file fails, it accepts.
  This holds for every account, every state of the file store, every flag that changes and every timestamp.
\<close>

theorem flag_write_reopens_replay:
  assumes "meta_inv s" and "ms_get filesystem_metadata_store a s = (Inr (Some m), s0)" and "m_has_pending_candidate m \<noteq> flag"
    and "meta_update_last_auth_timestamp_cas a ts now s0 = (Inr True, s1)"
    and "flag_write filesystem_metadata_store a flag now' (Some m) s1 = (Inr (), s2)"
  shows "ms_set_has_pending_candidate filesystem_metadata_store a flag now' =
      bindS (ms_get filesystem_metadata_store a) (flag_write filesystem_metadata_store a flag now') \<and>
    fst (meta_update_last_auth_timestamp_cas a ts now s1) = Inr False \<and>
    meta_view s2 a = Some (m \<lparr> m_has_pending_candidate := flag, m_updated_at := now' \<rparr>) \<and>
    (is_ok (fst (meta_update_last_auth_timestamp_cas a ts now s2)) \<longrightarrow> fst (meta_update_last_auth_timestamp_cas a ts now s2) = Inr True)"
proof -
  let ?f = "m \<lparr> m_has_pending_candidate := flag, m_updated_at := now' \<rparr>"
  have m: "s0 = s" "dir_get (mf_cache s) a = Some m" "m_account_id m = a"
    using assms(1,2) by (auto simp: filesystem_metadata_store_def meta_get_def meta_inv_def)
  have older: "t < ts" if "m_last_auth_timestamp m = Some t" for t
    using assms(4) m that by (auto elim!: meta_cas_cases)
  have c1: "mf_cache s1 = dir_put a (m \<lparr> m_last_auth_timestamp := Some ts, m_updated_at := now \<rparr>) (mf_cache s)"
    using assms(4) m(1,2) by (auto elim!: meta_cas_cases)
  have "meta_set ?f s1 = (Inr (), s2)"
    using assms(3,5) by (simp add: flag_write_def bindS_def filesystem_metadata_store_def)
  then have c2: "dir_get (mf_cache s2) a = Some ?f" using meta_set_cache[of ?f s1] m(3) by simp
  have refused: "fst (meta_update_last_auth_timestamp_cas a ts now s1) = Inr False"
    using c1 by (simp add: meta_update_last_auth_timestamp_cas_def)
  obtain r s3 where r: "meta_update_last_auth_timestamp_cas a ts now s2 = (r, s3)" by fastforce
  have "r \<noteq> Inr False" by (rule meta_cas_cases[OF r]) (use c2 older in auto)
  then show ?thesis
    using refused c2 r set_flag_split by (auto simp: meta_view_def is_ok_iff)
qed

lemma demo_cas: "meta_update_last_auth_timestamp_cas ''acc'' 1 ''t'' demo_meta = (Inr True, ga_meta demo_gapp1)"
  by (simp add: demo_gapp1_def demo_seen_def run_meta run_small run_fs run_nat cong: run_congs)

definition demo_reopened :: meta_fs where
  "demo_reopened = snd (flag_write filesystem_metadata_store ''acc'' True ''t'' (Some demo_metadata) (ga_meta demo_gapp1))"

theorem flag_write_reopens_replay_witness:
  "fst (meta_update_last_auth_timestamp_cas ''acc'' 1 ''t'' (ga_meta demo_gapp1)) = Inr False \<and>
   fst (meta_update_last_auth_timestamp_cas ''acc'' 1 ''t'' demo_reopened) = Inr True"
proof -
  have inv: "meta_inv demo_meta"
    by (auto simp: meta_inv_def demo_meta_def demo_metadata_def dir_wf_def dir_get_def)
  have g: "ms_get filesystem_metadata_store ''acc'' demo_meta = (Inr (Some demo_metadata), demo_meta)"
    by (simp add: filesystem_metadata_store_def meta_get_def demo_meta_def dir_get_def)
  have p: "m_has_pending_candidate demo_metadata \<noteq> True" by (simp add: demo_metadata_def)
  have w: "flag_write filesystem_metadata_store ''acc'' True ''t'' (Some demo_metadata) (ga_meta demo_gapp1) = (Inr (), demo_reopened)"
    unfolding demo_reopened_def
    by (simp add: flag_write_def demo_gapp1_def demo_seen_def run_meta run_small run_fs run_nat cong: run_congs)
  have "is_ok (fst (meta_update_last_auth_timestamp_cas ''acc'' 1 ''t'' demo_reopened))"
    unfolding demo_reopened_def
    by (simp add: flag_write_def demo_gapp1_def demo_seen_def run_meta run_small run_fs run_nat cong: run_congs)
  with flag_write_reopens_replay[OF inv g p demo_cas w] show ?thesis by blast
qed

section \<open>Two pushes at once\<close>

text \<open>
  C40 (error). Nothing keeps two pushes for one account apart: when both pass their checks before either
  commits, both become candidates, although run one after the other the second is refused. For any two
  deltas of one account with different nonces, from any well-formed state of the file-backed server with
  canonicalization on: if the two requests interleave like this and each is answered with success, the account has
  two candidate deltas, and the state is not one that requests run one after another can reach.
\<close>

theorem push_race_two_candidates:
  assumes "file_backed app G" and "guardian_ok app s" and "ge_canonicalization G \<noteq> None"
    and "d_account_id d1 = a" and "d_account_id d2 = a" and "d_nonce d1 \<noteq> d_nonce d2"
    and "d_nonce d1 < u64_bound" and "d_nonce d2 < u64_bound"
    and "push_check X E G d1 c1 s = (Inr x1, s1)" and "push_check X E G d2 c2 s1 = (Inr x2, s2)"
    and "push_finish X G d1 x1 s2 = (Inr e1, s3)" and "push_finish X G d2 x2 s3 = (Inr e2, s4)"
  shows "push_delta X E G d1 c1 = bindS (push_check X E G d1 c1) (push_finish X G d1) \<and>
    push_delta X E G d2 c2 = bindS (push_check X E G d2 c2) (push_finish X G d2) \<and>
    fs_delta_view app (ga_storage s4) a (d_nonce d1) = Some e1 \<and> is_candidate (d_status e1) \<and>
    fs_delta_view app (ga_storage s4) a (d_nonce d2) = Some e2 \<and> is_candidate (d_status e2) \<and>
    \<not> guardian_ok app s4 \<and>
    (\<forall>e s'. push_delta X E G d1 c1 s = (Inr e, s') \<longrightarrow> \<not> is_ok (fst (push_delta X E G d2 c2 s')))"
proof -
  note checked = guardian.push_check_run[where app = app, unfolded guardian_simps, OF _ assms(1)]
  note finished = guardian.push_finish_run[where app = app, unfolded guardian_simps, OF _ assms(1)]
  note 1 = checked[OF assms(9,2)]
  note 2 = checked[OF assms(10)]
  have ok2: "guardian_ok app s2" "plain_name a" using 1 2 assms(4) by auto
  have 3: "fs_inv app (ga_storage s3)" "is_candidate (d_status e1)"
    "fs_view app (ga_storage s3) = put_delta a (d_nonce d1) (Some e1) (fs_view app (ga_storage s2))"
    using finished[of X d1 "fst x1" "snd x1" s2 e1 s3] assms(3,4,7,11) ok2 by (auto simp: guardian_ok_def)
  have 4: "is_candidate (d_status e2)"
    "fs_view app (ga_storage s4) = put_delta a (d_nonce d2) (Some e2) (fs_view app (ga_storage s3))"
    using finished[of X d2 "fst x2" "snd x2" s3 e2 s4] assms(3,5,8,12) ok2 3(1) by auto
  have v: "gv_deltas (fs_view app st) = fs_delta_view app st" for st by (simp add: fs_view_def)
  have two: "fs_delta_view app (ga_storage s4) a (d_nonce d1) = Some e1" "fs_delta_view app (ga_storage s4) a (d_nonce d2) = Some e2"
    using 3(3) 4(2) assms(6) unfolding v[symmetric] by (simp_all add: put_delta_def)
  then have "{d_nonce d1, d_nonce d2} \<subseteq> candidates (fst (guardian_view app s4)) a"
    using 3(2) 4(1) by (auto simp: candidates_def guardian_view_def v)
  then have bad: "\<not> guardian_ok app s4"
    using gabs_okD(4)[of plain_name "guardian_view app s4"] assms(6) unfolding guardian_ok_def by blast
  have "\<not> is_ok (fst (push_delta X E G d2 c2 s'))" if run: "push_delta X E G d1 c1 s = (Inr e, s')" for e s'
  proof
    assume "is_ok (fst (push_delta X E G d2 c2 s'))"
    then obtain e' s'' where second: "push_delta X E G d2 c2 s' = (Inr e', s'')" by (metis is_ok_iff prod.collapse)
    have step: "gstep plain_name X E G s s'" by (rule gstep.push[OF run assms(7)])
    have "guardian_ok app s'"
      using guardian.gstep_simulated[of X E G s s' app] step assms(1,2) by (simp add: guardian_simps)
    then have "candidates (fs_view app (ga_storage s')) a = {}"
      using guardian.push_outcome[of X E G d2 c2 s' e' s'' app] second assms(1,3,5,8) by (auto simp: guardian_simps)
    moreover have "is_candidate (d_status e)"
        "fs_view app (ga_storage s') = put_delta a (d_nonce d1) (Some e) (fs_view app (ga_storage s))"
      using guardian.push_outcome[of X E G d1 c1 s e s' app] run assms(1-4,7) by (auto simp: guardian_simps)
    then have "d_nonce d1 \<in> candidates (fs_view app (ga_storage s')) a" by (simp add: candidates_def put_delta_def)
    ultimately show False by simp
  qed
  then show ?thesis
    using two 3(2) 4(1) bad push_delta_split by blast
qed


text \<open>The race on the small server: the two deltas have nonces 1 and 2, the requests timestamps 1 and 2.\<close>

definition race_delta :: delta_object where
  "race_delta = demo_delta \<lparr> d_nonce := 2 \<rparr>"

definition race_candidate :: delta_object where
  "race_candidate = demo_candidate \<lparr> d_nonce := 2 \<rparr>"

definition race_seen :: "bool \<Rightarrow> account_metadata" where
  "race_seen flag = demo_metadata \<lparr> m_last_auth_timestamp := Some 2, m_has_pending_candidate := flag \<rparr>"

definition race_meta :: "bool \<Rightarrow> nat \<Rightarrow> meta_fs" where
  "race_meta flag k = demo_meta \<lparr> mf_cache := [(''acc'', race_seen flag)],
     mf_fs := (mf_fs demo_meta) \<lparr> fs_files := [([''g'', ''.metadata'', ''accounts.json''], Intact [(''acc'', race_seen flag)])] \<rparr>,
     mf_counter := k \<rparr>"

definition race_state :: "gcontent fsys \<Rightarrow> meta_fs \<Rightarrow> (gcontent fsys, meta_fs, unit) gapp" where
  "race_state st ms = \<lparr> ga_storage = st, ga_meta = ms, ga_net = (), ga_clock = [] \<rparr>"

lemma race_resolve:
  "resolve_account two_keys no_ecdsa demo_genv ''acc'' (creds_of h ''0xa'' 2) demo_gapp1 =
     (Inr demo_seen, race_state (ga_storage demo_gapp) (race_meta False 2))"
  by (simp add: demo_gapp1_def demo_seen_def race_state_def race_meta_def race_seen_def run_guardian run_meta run_small run_fs run_nat cong: run_congs)

lemma race_deltas:
  "d_account_id demo_delta = ''acc''" "d_prev_commitment demo_delta = ''c0''" "d_payload demo_delta = JObject [(''data'', JString ''x'')]"
  "d_account_id race_delta = ''acc''" "d_prev_commitment race_delta = ''c0''" "d_payload race_delta = JObject [(''data'', JString ''x'')]"
  "d_account_id demo_candidate = ''acc''" "d_account_id race_candidate = ''acc''" "d_nonce demo_delta = 1" "d_nonce race_delta = 2"
  by (simp_all add: demo_delta_def race_delta_def demo_candidate_def race_candidate_def)

lemma race_checks:
  "push_check two_keys no_ecdsa demo_genv demo_delta (creds_of key_a ''0xa'' 1) demo_gapp = (Inr (demo_metadata, demo_state), demo_gapp1)"
  "push_check two_keys no_ecdsa demo_genv race_delta (creds_of key_a ''0xa'' 2) demo_gapp1 =
     (Inr (demo_seen, demo_state), race_state (ga_storage demo_gapp) (race_meta False 2))"
proof -
  have st: "ga_storage demo_gapp1 = ga_storage demo_gapp" by (simp add: demo_gapp1_def)
  have m: "is_evm (m_network_config demo_metadata) = False" "is_evm (m_network_config demo_seen) = False" "so_commitment demo_state = ''c0''"
    by (simp_all add: demo_seen_def demo_metadata_def demo_state_def)
  have "demo_gapp1 \<lparr> ga_storage := ga_storage demo_gapp \<rparr> = demo_gapp1" by (simp add: demo_gapp1_def)
  then show "push_check two_keys no_ecdsa demo_genv demo_delta (creds_of key_a ''0xa'' 1) demo_gapp =
      (Inr (demo_metadata, demo_state), demo_gapp1)"
    by (simp add: push_check_def race_deltas demo_resolve_run require_miden_def m bindS_def map_errS_def on_storage_def demo_env
        demo_pull_state demo_has_pending st)
  show "push_check two_keys no_ecdsa demo_genv race_delta (creds_of key_a ''0xa'' 2) demo_gapp1 =
     (Inr (demo_seen, demo_state), race_state (ga_storage demo_gapp) (race_meta False 2))"
    by (simp add: push_check_def race_deltas race_resolve race_state_def require_miden_def m bindS_def map_errS_def on_storage_def demo_env
        demo_pull_state demo_has_pending)
qed

lemma race_flag:
  "ms_set_has_pending_candidate filesystem_metadata_store ''acc'' True ''t'' (race_meta False 2) = (Inr (), race_meta True 3)"
  "ms_set_has_pending_candidate filesystem_metadata_store ''acc'' True ''t'' (race_meta True 3) = (Inr (), race_meta True 3)"
  by (simp_all add: race_meta_def race_seen_def run_meta run_small run_fs run_nat cong: run_congs)

lemma race_submit:
  "\<exists>st. submit_delta (filesystem_service [''g'']) race_candidate demo_storage = (Inr (), st)"
  by (simp add: demo_storage_def race_candidate_def demo_candidate_def run_storage run_small run_fs run_nat cong: run_congs)

lemma race_commits:
  "push_finish two_keys demo_genv demo_delta (demo_metadata, demo_state) (race_state (ga_storage demo_gapp) (race_meta False 2)) =
     (Inr demo_candidate, race_state demo_storage (race_meta True 3))"
  "\<exists>s4. push_finish two_keys demo_genv race_delta (demo_seen, demo_state) (race_state demo_storage (race_meta True 3)) = (Inr race_candidate, s4)"
proof -
  have c: "demo_delta \<lparr> d_new_commitment := Some ''c1'', d_ack_sig := ''s'', d_ack_pubkey := ''0xg'', d_ack_scheme := ''falcon'',
      d_status := Candidate ''t'' 0 \<rparr> = demo_candidate"
    "race_delta \<lparr> d_new_commitment := Some ''c1'', d_ack_sig := ''s'', d_ack_pubkey := ''0xg'', d_ack_scheme := ''falcon'',
      d_status := Candidate ''t'' 0 \<rparr> = race_candidate" by (simp_all add: demo_candidate_def race_candidate_def race_delta_def)
  have m: "m_auth demo_metadata = MidenFalconRpo [key_a, key_b]" "m_auth demo_seen = MidenFalconRpo [key_a, key_b]"
    by (simp_all add: demo_seen_def demo_metadata_def)
  note unfolds = push_finish_def race_deltas c m commit_delta_def strategy_from_app_state_def ack_delta_def signer_ack_delta_def
    ack_signer_of_def ack_pubkey_def tx_summary_from_json_def status_candidate_def json_get_str_def bindS_def map_errS_def
    on_storage_def on_meta_def ask_net_def clock_now_def now_rfc3339_def demo_env still_chain_def demo_signer_def race_state_def Let_def
  show "push_finish two_keys demo_genv demo_delta (demo_metadata, demo_state) (race_state (ga_storage demo_gapp) (race_meta False 2)) =
     (Inr demo_candidate, race_state demo_storage (race_meta True 3))"
    by (simp add: unfolds demo_submit race_flag)
  obtain st where "submit_delta (filesystem_service [''g'']) race_candidate demo_storage = (Inr (), st)" using race_submit by blast
  then show "\<exists>s4. push_finish two_keys demo_genv race_delta (demo_seen, demo_state) (race_state demo_storage (race_meta True 3)) = (Inr race_candidate, s4)"
    by (simp add: unfolds race_flag)
qed

theorem push_race_two_candidates_witness:
  "\<exists>s4. fs_delta_view [''g''] (ga_storage (s4 :: (gcontent fsys, meta_fs, unit) gapp)) ''acc'' 1 = Some demo_candidate \<and>
     is_candidate (d_status demo_candidate) \<and>
     fs_delta_view [''g''] (ga_storage s4) ''acc'' 2 = Some race_candidate \<and> is_candidate (d_status race_candidate)"
proof -
  obtain s4 where s4: "push_finish two_keys demo_genv race_delta (demo_seen, demo_state) (race_state demo_storage (race_meta True 3)) =
      (Inr race_candidate, s4)" using race_commits(2) by blast
  show ?thesis
    using push_race_two_candidates[OF demo_file_backed demo_ok demo_env(6) race_deltas(1,4) _ _ _ race_checks race_commits(1) s4]
    by (auto simp: race_deltas u64_bound_def)
qed

end
