(* ===== verification/Guardian_Job_Properties.thy ===== *)
theory Guardian_Job_Properties
  imports Guardian_Properties
begin

text \<open>
  Properties of the clock and of the canonicalization job: the window of request timestamps, what the job does with a candidate that the chain does not confirm, and that it gives up.
\<close>

section \<open>Timestamps\<close>

text \<open>
  C20: The window of the request timestamps, in the wrapping \<open>i64\<close> arithmetic of the release profile: a timestamp passes
  exactly when it is at most five minutes away from the clock, or when it is exactly \<open>2 ^ 63\<close> milliseconds before it
  (the difference is then the smallest \<open>i64\<close>, whose \<open>abs\<close> is itself, a negative number).
\<close>

theorem skew_window:
  assumes "0 \<le> timestamp_millis now" and "timestamp_millis now < 2 ^ 62" and "- (2 ^ 63) \<le> ts" and "ts < 2 ^ 63"
  shows "time_diff_ms now ts \<le> MAX_TIMESTAMP_SKEW_MS \<longleftrightarrow>
    \<bar>timestamp_millis now - ts\<bar> \<le> MAX_TIMESTAMP_SKEW_MS \<or> timestamp_millis now - ts = 2 ^ 63"
proof -
  define d where "d = timestamp_millis now - ts"
  have d: "- (2 ^ 63) < d" "d \<le> 2 ^ 62 + 2 ^ 63" using assms by (simp_all add: d_def)
  have small: "i64_wrap x = x" if "- (2 ^ 63) \<le> x" "x < 2 ^ 63" for x
    using that by (simp add: i64_wrap_def mod_pos_pos_trivial)
  have big: "i64_wrap x = x - 2 ^ 64" if "2 ^ 63 \<le> x" "x < 2 ^ 64" for x
  proof -
    have "(x + 2 ^ 63) mod 2 ^ 64 = (x + 2 ^ 63 - 2 ^ 64) mod 2 ^ 64" by (rule minus_mod_self2[symmetric])
    also have "\<dots> = x + 2 ^ 63 - 2 ^ 64" using that by (intro mod_pos_pos_trivial) auto
    finally show ?thesis by (simp add: i64_wrap_def)
  qed
  have abs_min: "i64_abs (- (2 ^ 63)) = - (2 ^ 63)" using big[of "2 ^ 63"] by (simp add: i64_abs_def)
  show ?thesis
  proof (cases "d < 2 ^ 63")
    case True
    then have "time_diff_ms now ts = \<bar>d\<bar>" using d small[of d] small[of "\<bar>d\<bar>"] by (simp add: time_diff_ms_def i64_abs_def d_def[symmetric])
    then show ?thesis using True by (simp add: d_def)
  next
    case False
    then have w: "i64_wrap d = d - 2 ^ 64" using big[of d] d by simp
    show ?thesis
    proof (cases "d = 2 ^ 63")
      case True
      then show ?thesis using w abs_min by (simp add: time_diff_ms_def d_def[symmetric] MAX_TIMESTAMP_SKEW_MS_def)
    next
      case n: False
      then have "time_diff_ms now ts = 2 ^ 64 - d" using False d w small[of "2 ^ 64 - d"]
        by (simp add: time_diff_ms_def i64_abs_def d_def[symmetric])
      then show ?thesis using n False d by (simp add: MAX_TIMESTAMP_SKEW_MS_def d_def[symmetric])
    qed
  qed
qed

theorem skew_window_witness:
  "time_diff_ms 5000000 (5 - 2 ^ 63) \<le> MAX_TIMESTAMP_SKEW_MS \<and> \<not> time_diff_ms 5000000 (4 - 300001) \<le> MAX_TIMESTAMP_SKEW_MS"
  using skew_window[of 5000000 "5 - 2 ^ 63"] skew_window[of 5000000 "4 - 300001"] by (simp add: timestamp_millis_def MAX_TIMESTAMP_SKEW_MS_def)

section \<open>The canonicalization job\<close>



lemma fs_view_plain: "fs_delta_view app s a n = Some d \<Longrightarrow> plain_name a"
  by (auto simp: fs_delta_view_def split: option.splits fdata.splits if_splits)

text \<open>The small server with its candidate, and one round of the job on it.\<close>

definition demo_pushed :: "(gcontent fsys, meta_fs, unit) gapp" where
  "demo_pushed = demo_gapp1 \<lparr> ga_storage := demo_storage, ga_meta := demo_flagged, ga_clock := [8000000] \<rparr>"

lemma demo_pushed_ok: "guardian_ok [''g''] demo_pushed"
  using guardian.gstep_simulated[of two_keys no_ecdsa demo_genv demo_gapp demo_pushed "[''g'']"] demo_push_step
  by (simp add: demo_pushed_def guardian_simps demo_file_backed demo_ok)

lemma demo_unconfirmed: "unconfirmed demo_genv"
  by (simp add: unconfirmed_def demo_genv_def still_chain_def)

lemma demo_pushed_view: "fs_delta_view [''g''] (ga_storage demo_pushed) ''acc'' 1 = Some demo_candidate"
  using demo_candidate_view(1) by (simp add: demo_pushed_def)

lemma demo_past_grace: "past_grace demo_genv \<lparr> dp_max_retries = k, dp_grace_seconds = 0 \<rparr> d now"
  by (simp add: past_grace_def split: option.splits)

lemma demo_pushed_pull: "pull_state (filesystem_service [''g'']) ''acc'' demo_storage = (Inr demo_state, demo_storage)"
  by (simp add: demo_storage_def run_storage run_small run_fs cong: run_congs)

lemma demo_pushed_status:
  "is_ok (fst (update_delta_status (filesystem_service [''g'']) ''acc'' 1 st demo_storage))"
  by (simp add: fs_update_delta_status_def fs_pull_delta_def demo_storage_def demo_candidate_def run_storage run_small run_fs run_nat cong: run_congs)

lemma demo_round: "fst (process_candidate demo_genv \<lparr> dp_max_retries = 2, dp_grace_seconds = 0 \<rparr> demo_candidate demo_pushed) = Inr ()"
proof -
  have d: "d_account_id demo_candidate = ''acc''" "d_nonce demo_candidate = 1" "d_status demo_candidate = Candidate ''t'' 0"
    by (simp_all add: demo_candidate_def demo_delta_def)
  have p: "ga_storage demo_pushed = demo_storage" "ga_clock demo_pushed = [8000000]" by (simp_all add: demo_pushed_def)
  have m: "ms_get filesystem_metadata_store ''acc'' (ga_meta demo_pushed) =
      (Inr (Some (demo_seen \<lparr> m_has_pending_candidate := True \<rparr>)), ga_meta demo_pushed)"
    by (simp add: demo_pushed_def demo_flagged_def run_meta Let_def dir_get_def)
  obtain st where u: "update_delta_status (filesystem_service [''g'']) ''acc'' 1 (Candidate ''t'' 1) demo_storage = (Inr (), st)"
    using demo_pushed_status[of "Candidate ''t'' 1"]
    by (cases "update_delta_status (filesystem_service [''g'']) ''acc'' 1 (Candidate ''t'' 1) demo_storage") (auto simp: is_ok_iff)
  show ?thesis
    by (simp add: process_candidate_def metadata_of_def candidate_failed_def d p m u[unfolded One_nat_def] demo_env still_chain_def demo_pushed_pull
        bindS_def observeS_def map_errS_def on_meta_def on_storage_def on_net_def ask_net_def clock_now_def u32_add_def u32_bound_def
        Let_def split: option.splits)
qed

text \<open>
  C21: What the job does with a candidate the chain does not confirm, past its grace period: the delta is deleted
  when this was its last retry, and otherwise its retry count grows by one and nothing else of it changes, the
  timestamp included, so that the grace period is not granted again.
\<close>

theorem unconfirmed_candidate_retried:
  assumes "process_candidate G P d s = (Inr (), s')" and "file_backed app G" and "guardian_ok app s" and "unconfirmed G"
    and "fs_delta_view app (ga_storage s) a n = Some d" and "d_status d = Candidate ts r" and "past_grace G P d (now_of s)"
  shows "fs_view app (ga_storage s') = put_delta a n
    (if dp_max_retries P \<le> u32_add r 1 then None else Some (d \<lparr> d_status := Candidate ts (u32_add r 1) \<rparr>)) (fs_view app (ga_storage s))"
proof -
  have "guardian.uses app G" "guardian.good app s" using assms(2,3) by (simp_all only: guardian_simps)
  moreover have "gv_deltas (fs_view app (ga_storage s)) a n = Some d" using assms(5) by simp
  ultimately show ?thesis
    using guardian.retry_outcome[OF assms(1) _ _ _ fs_view_plain[OF assms(5)] assms(4,7)] by (simp only: assms(6) retry_count.simps with_incremented_retry.simps)
qed

theorem unconfirmed_candidate_retried_witness:
  "let P = \<lparr> dp_max_retries = 2, dp_grace_seconds = 0 \<rparr>; s' = snd (process_candidate demo_genv P demo_candidate demo_pushed) in
   fs_delta_view [''g''] (ga_storage s') ''acc'' 1 = Some (demo_candidate \<lparr> d_status := Candidate ''t'' 1 \<rparr>)"
proof -
  let ?P = "\<lparr> dp_max_retries = 2, dp_grace_seconds = 0 \<rparr>"
  let ?r = "process_candidate demo_genv ?P demo_candidate demo_pushed"
  have run: "?r = (Inr (), snd ?r)" using demo_round by (simp add: prod_eq_iff)
  have st: "d_status demo_candidate = Candidate ''t'' 0" by (simp add: demo_candidate_def)
  have "fs_view [''g''] (ga_storage (snd ?r)) = put_delta ''acc'' 1 (Some (demo_candidate \<lparr> d_status := Candidate ''t'' 1 \<rparr>))
      (fs_view [''g''] (ga_storage demo_pushed))"
    using unconfirmed_candidate_retried[OF run demo_file_backed demo_pushed_ok demo_unconfirmed demo_pushed_view st demo_past_grace]
    by (simp add: u32_add_def u32_bound_def)
  from arg_cong[OF this, of gv_deltas] show ?thesis by (simp add: Let_def)
qed



end
