(* ===== verification/Data_Properties.thy ===== *)
theory Data_Properties
  imports Guardian_Job_Properties
begin

text \<open>
  Properties of the data the services exchange and store: round trips through JSON and through the file store, the canonical form
  of the signed payload, the two signed messages, the error tables, and reads that agree with their specification.
\<close>

section \<open>Wire and signed data\<close>

text \<open>
  C23: A delta survives its JSON form, with every status, every optional field and every cosigner signature (the retry
  count is a \<open>u32\<close>).
\<close>

theorem delta_json_roundtrip:
  assumes "retry_count (d_status d) < u32_bound"
  shows "delta_from_json (delta_to_json d) = Some d"
  using assms by (rule delta_json_roundtrip_aux)

theorem delta_json_roundtrip_witness:
  "delta_from_json (delta_to_json (demo_signed key_b)) = Some (demo_signed key_b) \<and> is_pending (d_status (demo_signed key_b))"
  using delta_json_roundtrip[of "demo_signed key_b"] by (simp add: demo_signed_sel u32_bound_def)

text \<open>
  C24: The payload that a request signs does not depend on the order of the members in its JSON objects, at any depth: client and
  server sign and verify the same digest whatever order their serializers use.
\<close>

theorem payload_order_insensitive:
  assumes "json_same a b"
  shows "payload_from_json_value X a = payload_from_json_value X b"
  using canonicalize_order_insensitive_aux[OF assms] by (simp add: payload_from_json_value_def)

theorem payload_order_insensitive_witness:
  "payload_from_json_value two_keys (JObject [(''a'', JNull), (''b'', JString ''x'')]) =
   payload_from_json_value two_keys (JObject [(''b'', JString ''x''), (''a'', JNull)])"
  by (rule payload_order_insensitive, rule same_object[where zs = "[(''a'', JNull), (''b'', JString ''x'')]"])
    (auto intro: same_refl)

text \<open>
  The message of an authenticated request and the message of a key lookup never hash the same elements, so that
  a signature given for one is not a signature for the other unless the hash collides.
\<close>

lemma lookup_domain_separated:
  "auth_message_elements X m \<noteq> lookup_message_elements X l"
  by (rule auth_lookup_elements_differ)

text \<open>
  The HTTP and the gRPC face of an error agree: not found, unauthenticated, forbidden and rate-limited errors are the same
  errors on both sides, the error is the server's fault on one side exactly when it is on the other, and
  every error has an error status.
\<close>

lemma error_faces_agree:
  "(http_status e = 404 \<longleftrightarrow> grpc_status e = GrpcNotFound) \<and>
   (http_status e = 401 \<longleftrightarrow> grpc_status e = GrpcUnauthenticated) \<and>
   (http_status e = 403 \<longleftrightarrow> grpc_status e = GrpcPermissionDenied) \<and>
   (http_status e = 429 \<longleftrightarrow> grpc_status e = GrpcResourceExhausted) \<and>
   (http_status e = 500 \<longleftrightarrow> grpc_status e = GrpcInternal) \<and>
   (500 < http_status e \<longleftrightarrow> grpc_status e = GrpcUnavailable) \<and>
   400 \<le> http_status e \<and> http_status e < 504"
  by (cases e) simp_all

section \<open>The file store\<close>

lemma pull_delta_healthy:
  assumes "fs_delta_view app s a n = Some d" and "fs_inv app s" and "fs_faults s = []"
  shows "fs_pull_delta app a n s = (Inr d, s)"
proof -
  from assms(1) have p: "plain_name a" by (rule fs_view_plain)
  have f: "fget s (get_delta_path app a n) = Some (Intact (GDelta d))"
    using assms(1) p by (auto simp: storage_paths fs_delta_view_def split: option.splits fdata.splits if_splits elim!: as_delta.elims)
  show ?thesis
    using f assms(3) by (simp add: fs_pull_delta_def read_parse_def fs_read_def io_call_def next_fault_def err_prefix_def map_errS_def bindS_def)
qed

text \<open>
  C27: What was stored is what is read. A delta whose submission succeeded, whatever I/O failures happened on the way, is
  returned by \<open>pull_delta\<close>, unchanged, as soon as reading does not fail.
\<close>

theorem submitted_delta_pulled:
  assumes "fs_submit_delta app d s = (Inr (), s1)" and "fs_inv app s" and "plain_name (d_account_id d)" and "d_nonce d < u64_bound"
    and "fs_faults s1 = []"
  shows "fs_pull_delta app (d_account_id d) (d_nonce d) s1 = (Inr d, s1)"
proof -
  have "submit_delta (filesystem_service app) d s = (Inr (), s1)" using assms(1) by (simp add: filesystem_service_def)
  from fs_store.submit_delta_law[OF this assms(2-4)] have inv: "fs_inv app s1"
    and v: "fs_view app s1 = put_delta (d_account_id d) (d_nonce d) (Some d) (fs_view app s)" by simp_all
  from arg_cong[OF v, of gv_deltas] have "fs_delta_view app s1 (d_account_id d) (d_nonce d) = Some d" by simp
  then show ?thesis by (rule pull_delta_healthy[OF _ inv assms(5)])
qed

theorem submitted_delta_pulled_witness:
  "fs_pull_delta [''g''] ''acc'' 1 demo_storage = (Inr demo_candidate, demo_storage)"
proof -
  have "fs_submit_delta [''g''] demo_candidate (ga_storage demo_gapp) = (Inr (), demo_storage)"
    using demo_submit by (simp add: filesystem_service_def)
  from submitted_delta_pulled[OF this] show ?thesis
    using demo_ok by (simp add: guardian_ok_def demo_candidate_def demo_delta_def demo_storage_def plain_name_def u64_bound_def demo_gapp_def)
qed

lemma pull_loop_filter:
  "pull_deltas_loop app a n keep names s = map_prod (map_sum id (filter keep)) id (pull_deltas_loop app a n (\<lambda>_. True) names s)"
  by (induction names arbitrary: s) (auto simp: bindS_def split: option.splits prod.splits sum.splits)

text \<open>
  The file backend's own \<open>pull_canonical_deltas_after\<close> is the default method of the trait, call by call: same deltas in the same
  order, same errors, same accesses to the disk.
\<close>

lemma canonical_pull_is_default:
  "fs_pull_canonical_deltas_after app a n s = default_pull_canonical_deltas_after (fs_pull_deltas_after app) a n s"
proof -
  have "sort_key d_nonce (filter p ds) = filter p (sort_key d_nonce ds)" for p and ds :: "delta_object list"
    by (simp add: filter_sort)
  then show ?thesis
    by (simp add: fs_pull_canonical_deltas_after_def default_pull_canonical_deltas_after_def fs_pull_deltas_after_def bindS_assoc
        bindS_def pull_loop_filter[of app a n "\<lambda>d. is_canonical (d_status d)"] split: prod.splits sum.splits)
qed

text \<open>
  The file backend's \<open>has_pending_candidate\<close>, which stops at the first candidate, answers what the default method of the trait
  answers by reading all deltas, whenever both answer.
\<close>

lemma has_pending_agrees_with_default:
  assumes "fs_has_pending_candidate app a s = (Inr b, s1)" and "default_has_pending_candidate (fs_pull_deltas_after app) a s = (Inr b', s2)"
    and "fs_inv app s" and "plain_name a"
  shows "b = b'"
proof -
  from assms(2) obtain ds where ds: "fs_pull_deltas_after app a 0 s = (Inr ds, s2)" "b' = list_ex (\<lambda>d. is_candidate (d_status d)) ds"
    by (auto simp: default_has_pending_candidate_def bindS_Inr_iff)
  show ?thesis
    using fs_pull_deltas_law[OF ds(1) assms(3,4)] fs_has_pending_law[OF assms(1,3,4)] ds(2) by (auto simp: list_ex_iff)
qed

section \<open>Reading a range of deltas\<close>

text \<open>
  C30: What \<open>get_delta_since\<close> answers: the network client's merge of the payloads of exactly the canonical deltas from the given nonce
  on, in the order of their nonces, with the commitment before the first of them and the commitment, nonce, acknowledgement and
  status of the last; candidates and discarded deltas never take part.
\<close>

theorem delta_since_merges_canonical:
  assumes "get_delta_since X E G a n c s = (Inr d, s')" and "file_backed app G" and "guardian_ok app s"
  shows "\<exists>ds merged. ds \<noteq> [] \<and> sorted (map d_nonce ds) \<and>
    set ds = {e. \<exists>m \<ge> n. fs_delta_view app (ga_storage s) a m = Some e \<and> is_canonical (d_status e)} \<and>
    nc_merge_deltas (ge_net G) (ga_net s) (map d_payload ds) = Inr merged \<and>
    d = (last ds) \<lparr> d_account_id := a, d_prev_commitment := d_prev_commitment (hd ds), d_payload := merged \<rparr>"
proof -
  have B: "ge_storage G = filesystem_service app" using assms(2) by (simp add: file_backed_def)
  from assms(1) obtain m s1 ds st merged where r: "resolve_account X E G a c s = (Inr m, s1)"
    and p: "pull_deltas_after (filesystem_service app) a n (ga_storage s1) = (Inr ds, st)"
    and ne: "filter (\<lambda>d. is_canonical (d_status d)) ds \<noteq> []"
    and mg: "nc_merge_deltas (ge_net G) (ga_net s1) (map d_payload (filter (\<lambda>d. is_canonical (d_status d)) ds)) = Inr merged"
    and d: "d = (last (filter (\<lambda>d. is_canonical (d_status d)) ds)) \<lparr> d_account_id := a,
      d_prev_commitment := d_prev_commitment (hd (filter (\<lambda>d. is_canonical (d_status d)) ds)), d_payload := merged \<rparr>"
    unfolding get_delta_since_def Let_def B by (auto simp: run_iffs require_miden_def if_err_run split: if_splits)
  have res: "guardian.good app s1 \<and> guardian.resolved X E (guardian_view app s) a c m (snd (guardian_view app s1)) \<and>
      fst (guardian_view app s1) = fst (guardian_view app s)"
    using guardian.resolve_run[of X E G a c s m s1 app] r assms(2,3) by (simp add: guardian_simps)
  then have a: "plain_name a" and i: "fs_inv app (ga_storage s1)" and v: "fs_view app (ga_storage s1) = fs_view app (ga_storage s)"
    by (simp_all add: guardian.resolved_def guardian.good_def guardian_view_def)
  have net: "ga_net s1 = ga_net s" using keepsSD[OF resolve_keeps_net[of "ga_net s" X E G a c], of s] r by simp
  let ?c = "filter (\<lambda>d. is_canonical (d_status d)) ds"
  have "sorted (map d_nonce ds)" and "set ds = {e. \<exists>m \<ge> n. fs_delta_view app (ga_storage s) a m = Some e}"
    using fs_store.pull_deltas_law[OF p i a] v by simp_all
  then have "sorted (map d_nonce ?c)" "set ?c = {e. \<exists>m \<ge> n. fs_delta_view app (ga_storage s) a m = Some e \<and> is_canonical (d_status e)}"
    by (auto intro: sorted_filter)
  then show ?thesis using ne mg d net by (intro exI[of _ ?c] exI[of _ merged]) simp
qed

text \<open>The small server with a canonical delta at nonce 1.\<close>

definition demo_canonical :: delta_object where
  "demo_canonical = demo_candidate \<lparr> d_status := Canonical ''t'' \<rparr>"

definition demo_history :: "(gcontent fsys, meta_fs, unit) gapp" where
  "demo_history = demo_gapp \<lparr> ga_storage := demo_storage \<lparr>
     fs_files := fs_files (ga_storage demo_gapp) @ [([''g'', ''acc'', ''deltas'', ''1.json''], Intact (GDelta demo_canonical))] \<rparr> \<rparr>"

lemma demo_history_ok: "guardian_ok [''g''] demo_history"
proof -
  have d: "a = ''acc'' \<and> show_nat n = ''1'' \<and> d = demo_canonical" if "fs_delta_view [''g''] (ga_storage demo_history) a n = Some d" for a n d
    using view_files(1)[OF _ that] by (auto simp: demo_history_def demo_storage_def demo_gapp_def)
  have p: "a = ''acc'' \<and> d = demo_proposal" if "fs_prop_view [''g''] (ga_storage demo_history) a h = Some d" for a h d
    using view_files(2)[OF _ that] by (auto simp: demo_history_def demo_storage_def demo_gapp_def)
  have n: "show_nat n = ''1'' \<Longrightarrow> n = 1" for n using show_nat_inj[of n 1] by (simp add: show_small)
  have "parents (ga_storage demo_history)"
    by (auto simp: parents_def fget_def dir_get_def has_dir_def demo_history_def demo_storage_def demo_gapp_def split: if_splits)
  then have "fs_inv [''g''] (ga_storage demo_history)" by (simp add: fs_inv_def demo_history_def demo_storage_def demo_gapp_def)
  moreover have "meta_inv (ga_meta demo_history)" using demo_ok by (simp add: guardian_ok_def demo_history_def)
  moreover have "gabs_ok plain_name (guardian_view [''g''] demo_history)"
  proof -
    have m: "meta_view (ga_meta demo_history) = [''acc'' \<mapsto> demo_metadata]" using demo_meta_view by (simp add: demo_history_def)
    have c: "candidates (fs_view [''g''] (ga_storage demo_history)) a = {}" for a
      by (auto simp: candidates_def demo_canonical_def dest!: d)
    have k: "d_account_id demo_canonical = ''acc''" "d_nonce demo_canonical = 1" "d_account_id demo_proposal = ''acc''"
      by (simp_all add: demo_canonical_def demo_candidate_def demo_delta_def demo_proposal_def)
    have dn: "d_nonce e = j" if "fs_delta_view [''g''] (ga_storage demo_history) a j = Some e" for a j e
      using d[OF that] n[of j] k by simp
    show ?thesis unfolding gabs_ok_def guardian_view_def
      by (auto simp: m c k plain_name_def split: if_splits dest: d p n dn fs_view_bound)
  qed
  ultimately show ?thesis by (simp add: guardian_ok_def)
qed

lemma demo_history_run:
  "get_delta_since two_keys no_ecdsa demo_genv ''acc'' 0 (creds_of key_a ''0xa'' 1) demo_history =
     (Inr (demo_canonical \<lparr> d_payload := JNull \<rparr>), demo_gapp1 \<lparr> ga_storage := ga_storage demo_history \<rparr>)"
proof -
  have r: "resolve_account two_keys no_ecdsa demo_genv ''acc'' (creds_of key_a ''0xa'' 1) demo_history =
      (Inr demo_metadata, demo_gapp1 \<lparr> ga_storage := ga_storage demo_history \<rparr>)"
    by (simp add: demo_history_def demo_gapp1_def demo_seen_def run_guardian run_meta run_small run_fs run_nat cong: run_congs)
  have p: "pull_deltas_after (filesystem_service [''g'']) ''acc'' 0 (ga_storage demo_history) = (Inr [demo_canonical], ga_storage demo_history)"
    by (simp add: demo_history_def demo_storage_def fs_pull_deltas_after_def fs_pull_delta_def filename_parse_def parse_u64_def from_str_radix_def to_digit_def
        filename_nonce_def ends_with_def run_storage run_small run_fs run_nat cong: run_congs)
  have d: "d_account_id demo_canonical = ''acc''" "is_canonical (d_status demo_canonical)" by (simp_all add: demo_canonical_def demo_candidate_def demo_delta_def)
  have m: "is_evm (m_network_config demo_metadata) = False" by (simp add: demo_metadata_def)
  show ?thesis
    by (simp add: get_delta_since_def r p d m require_miden_def demo_env still_chain_def bindS_def map_errS_def on_storage_def ask_net_def Let_def)
qed

theorem delta_since_merges_canonical_witness:
  "\<exists>ds. ds \<noteq> [] \<and> set ds = {e. \<exists>m \<ge> 0. fs_delta_view [''g''] (ga_storage demo_history) ''acc'' m = Some e \<and> is_canonical (d_status e)}"
  using delta_since_merges_canonical[OF demo_history_run demo_file_backed demo_history_ok] by blast

end
