(* ===== verification/Rust_Net.thy ===== *)
theory Rust_Net
  imports Rust_Std
begin

text \<open>
  The parts of Rust's standard library the HTTP layers use: splitting a string at a character,
  the parser of \<open>std::net::IpAddr\<close> (IPv4 in four decimal octets without leading zeros, IPv6 in
  hexadecimal groups with one \<open>::\<close> and an optional trailing IPv4 part, the whole input consumed)
  and the printer (the longest run of at least two zero groups becomes \<open>::\<close>, the first of equal
  runs; an IPv4-mapped address keeps its dotted part). A parser takes the rest of the input
  and returns what it read with the new rest.
\<close>

section \<open>Splitting\<close>

fun split_on :: "char \<Rightarrow> string \<Rightarrow> string list" where
  "split_on sep [] = [[]]"
| "split_on sep (c # cs) =
     (if c = sep then [] # split_on sep cs
      else (case split_on sep cs of [] \<Rightarrow> [[c]] | w # ws \<Rightarrow> (c # w) # ws))"

fun find_map :: "('a \<Rightarrow> 'b option) \<Rightarrow> 'a list \<Rightarrow> 'b option" where
  "find_map f [] = None"
| "find_map f (x # xs) = (case f x of Some y \<Rightarrow> Some y | None \<Rightarrow> find_map f xs)"

lemma split_on_nonempty [simp]: "split_on sep s \<noteq> []"
  by (induction s) (auto split: list.splits)

lemma split_on_none: "sep \<notin> set s \<Longrightarrow> split_on sep s = [s]"
  by (induction s) auto

lemma find_map_SomeD: "find_map f xs = Some y \<Longrightarrow> \<exists>x \<in> set xs. f x = Some y"
  by (induction xs) (auto split: option.splits)

section \<open>IP addresses\<close>

datatype ip_addr = IpV4 "nat list" | IpV6 "nat list"

type_synonym 'a reader = "string \<Rightarrow> ('a \<times> string) option"

text \<open>\<open>read_number(radix, Some(max), zero_prefix)\<close> on a value below \<open>bound\<close>.\<close>

fun digits_of :: "nat \<Rightarrow> string \<Rightarrow> nat list \<times> string" where
  "digits_of radix [] = ([], [])"
| "digits_of radix (c # cs) =
     (case to_digit radix c of
        None \<Rightarrow> ([], c # cs)
      | Some d \<Rightarrow> (case digits_of radix cs of (ds, rest) \<Rightarrow> (d # ds, rest)))"

definition read_number :: "nat \<Rightarrow> nat \<Rightarrow> bool \<Rightarrow> nat \<Rightarrow> nat reader" where
  "read_number radix max_digits zero_prefix bound s =
     (case digits_of radix s of (ds, rest) \<Rightarrow>
        let n = foldl (\<lambda>a d. a * radix + d) 0 ds in
        if length ds > max_digits \<or> ds = [] \<or> (\<not> zero_prefix \<and> hd ds = 0 \<and> length ds > 1) \<or> n \<ge> bound
        then None else Some (n, rest))"

definition read_char_is :: "char \<Rightarrow> unit reader" where
  "read_char_is c s = (case s of [] \<Rightarrow> None | d # ds \<Rightarrow> if d = c then Some ((), ds) else None)"

text \<open>\<open>read_separator(sep, index, inner)\<close>: the separator comes before every element but the first.\<close>

definition read_separator :: "char \<Rightarrow> nat \<Rightarrow> 'a reader \<Rightarrow> 'a reader" where
  "read_separator sep i inner s =
     (if i = 0 then inner s else (case read_char_is sep s of None \<Rightarrow> None | Some (_, r) \<Rightarrow> inner r))"

fun read_octets :: "nat \<Rightarrow> nat \<Rightarrow> nat list reader" where
  "read_octets i 0 s = Some ([], s)"
| "read_octets i (Suc k) s =
     (case read_separator (CHR ''.'') i (read_number 10 3 False 256) s of
        None \<Rightarrow> None
      | Some (n, r) \<Rightarrow> (case read_octets (Suc i) k r of None \<Rightarrow> None | Some (ns, r') \<Rightarrow> Some (n # ns, r')))"

definition read_ipv4_addr :: "nat list reader" where
  "read_ipv4_addr = read_octets 0 4"

text \<open>\<open>read_groups\<close> on a slice of \<open>i + k\<close> groups, from index \<open>i\<close> on: the groups, whether an IPv4 part ended them, the rest.\<close>

fun read_groups :: "nat \<Rightarrow> nat \<Rightarrow> string \<Rightarrow> nat list \<times> bool \<times> string" where
  "read_groups i 0 s = ([], False, s)"
| "read_groups i (Suc k) s =
     (case (if k = 0 then None else read_separator (CHR '':'') i read_ipv4_addr s) of
        Some (octets, r) \<Rightarrow> ([octets ! 0 * 256 + octets ! 1, octets ! 2 * 256 + octets ! 3], True, r)
      | None \<Rightarrow>
          (case read_separator (CHR '':'') i (read_number 16 4 True 65536) s of
             None \<Rightarrow> ([], False, s)
           | Some (g, r) \<Rightarrow> (case read_groups (Suc i) k r of (gs, v4, r') \<Rightarrow> (g # gs, v4, r'))))"

definition read_ipv6_addr :: "nat list reader" where
  "read_ipv6_addr s =
     (case read_groups 0 8 s of (head, head_ipv4, r) \<Rightarrow>
        if length head = 8 then Some (head, r)
        else if head_ipv4 then None
        else (case read_char_is (CHR '':'') r of None \<Rightarrow> None | Some (_, r1) \<Rightarrow>
             (case read_char_is (CHR '':'') r1 of None \<Rightarrow> None | Some (_, r2) \<Rightarrow>
             (case read_groups 0 (8 - (length head + 1)) r2 of (tail, _, r3) \<Rightarrow>
                Some (head @ replicate (8 - length head - length tail) 0 @ tail, r3)))))"

definition read_ip_addr :: "ip_addr reader" where
  "read_ip_addr s =
     (case read_ipv4_addr s of
        Some (v4, r) \<Rightarrow> Some (IpV4 v4, r)
      | None \<Rightarrow> map_option (\<lambda>(v6, r). (IpV6 v6, r)) (read_ipv6_addr s))"

definition parse_ip :: "string \<Rightarrow> ip_addr option" where
  "parse_ip s = (case read_ip_addr s of Some (ip, []) \<Rightarrow> Some ip | _ \<Rightarrow> None)"

definition join_with :: "char \<Rightarrow> string list \<Rightarrow> string" where
  "join_with sep ws = (case ws of [] \<Rightarrow> [] | w # ws' \<Rightarrow> w @ concat (map (\<lambda>v. sep # v) ws'))"

text \<open>The longest run of zero groups: its start and its length.\<close>

fun zero_span :: "nat \<Rightarrow> nat \<times> nat \<Rightarrow> nat \<times> nat \<Rightarrow> nat list \<Rightarrow> nat \<times> nat" where
  "zero_span i current longest [] = longest"
| "zero_span i (start, len) longest (g # gs) =
     (if g = 0 then
        (let current = (if len = 0 then i else start, Suc len) in
         zero_span (Suc i) current (if snd current > snd longest then current else longest) gs)
      else zero_span (Suc i) (0, 0) longest gs)"

fun show_ip :: "ip_addr \<Rightarrow> string" where
  "show_ip (IpV4 octets) = join_with (CHR ''.'') (map show_nat octets)"
| "show_ip (IpV6 gs) =
     (if take 6 gs = [0, 0, 0, 0, 0, 65535]
      then ''::ffff:'' @ join_with (CHR ''.'')
             (map show_nat [gs ! 6 div 256, gs ! 6 mod 256, gs ! 7 div 256, gs ! 7 mod 256])
      else (case zero_span 0 (0, 0) (0, 0) gs of (start, len) \<Rightarrow>
        if len > 1 then join_with (CHR '':'') (map show_hex (take start gs)) @ ''::'' @
                        join_with (CHR '':'') (map show_hex (drop (start + len) gs))
        else join_with (CHR '':'') (map show_hex gs)))"

end
