(* ===== verification/Rate_Limit.thy ===== *)
theory Rate_Limit
  imports Rust_Net Guardian_Auth
begin

text \<open>
  The HTTP rate limiter (\<open>server/src/middleware/rate_limit.rs\<close>). The store is a map from keys to
  entries with two fixed windows each; \<open>check_burst\<close> and \<open>check_sustained\<close> first clean up, then count
  the request in their window. \<open>Instant::now()\<close> is a reading of the clock \<open>tick\<close>: the \<open>n\<close>-th reading
  of the process is \<open>tick n\<close>, in nanoseconds, and the state counts the readings, so that the readings of
  one operation differ, as in the code. \<open>duration_since\<close> saturates at zero. The environment of
  the process is a parameter of \<open>from_env\<close>. Every check runs to its end before the next one starts.

  The locale \<open>fixed_window\<close> states what one window of a key goes through (the reference \<open>window_check\<close>,
  and being dropped only once it has expired) and proves the bound of twice the limit in any interval
  as long as the window; it is interpreted for the sustained window, and for the burst window between
  cleanups.
\<close>

section \<open>Configuration\<close>

definition DEFAULT_BURST_PER_SEC :: nat where
  "DEFAULT_BURST_PER_SEC = 10"

definition DEFAULT_PER_MIN :: nat where
  "DEFAULT_PER_MIN = 60"

definition CLEANUP_INTERVAL_SECS :: nat where
  "CLEANUP_INTERVAL_SECS = 60"

record rate_limit_config =
  rl_enabled :: bool
  burst_per_sec :: nat
  per_min :: nat

type_synonym env_vars = "string \<Rightarrow> string option"

definition env_flag :: "env_vars \<Rightarrow> string \<Rightarrow> bool \<Rightarrow> bool" where
  "env_flag env key default_value =
     (case env key of
        None \<Rightarrow> default_value
      | Some v \<Rightarrow> to_ascii_lowercase (trim_str v) \<notin> {''0'', ''false'', ''no'', ''off''})"

definition env_u32 :: "env_vars \<Rightarrow> string \<Rightarrow> nat \<Rightarrow> nat" where
  "env_u32 env key d =
     (case Option.bind (env key) (\<lambda>v. res_ok (from_str_radix u32_bound 10 v)) of Some n \<Rightarrow> n | None \<Rightarrow> d)"

definition rate_limit_from_env :: "env_vars \<Rightarrow> rate_limit_config" where
  "rate_limit_from_env env =
     \<lparr> rl_enabled = env_flag env ''GUARDIAN_RATE_LIMIT_ENABLED'' True,
       burst_per_sec = env_u32 env ''GUARDIAN_RATE_BURST_PER_SEC'' DEFAULT_BURST_PER_SEC,
       per_min = env_u32 env ''GUARDIAN_RATE_PER_MIN'' DEFAULT_PER_MIN \<rparr>"

definition rate_limit_new :: "nat \<Rightarrow> nat \<Rightarrow> rate_limit_config" where
  "rate_limit_new burst minute = \<lparr> rl_enabled = True, burst_per_sec = burst, per_min = minute \<rparr>"

definition rate_limit_default :: rate_limit_config where
  "rate_limit_default =
     \<lparr> rl_enabled = True, burst_per_sec = DEFAULT_BURST_PER_SEC, per_min = DEFAULT_PER_MIN \<rparr>"

section \<open>The store\<close>

type_synonym instant = nat

definition secs :: "nat \<Rightarrow> nat" where
  "secs n = n * 1000000000"

definition duration_since :: "instant \<Rightarrow> instant \<Rightarrow> nat" where
  "duration_since later earlier = saturating_sub later earlier"

record rate_limit_entry =
  burst_count :: nat
  burst_window_start :: instant
  sustained_count :: nat
  sustained_window_start :: instant

record rate_limit_store =
  rs_entries :: "(string, rate_limit_entry) dir"
  rs_last_cleanup :: instant
  rs_reads :: nat

definition instant_now :: "(nat \<Rightarrow> instant) \<Rightarrow> rate_limit_store \<Rightarrow> instant \<times> rate_limit_store" where
  "instant_now tick s = (tick (rs_reads s), s \<lparr> rs_reads := Suc (rs_reads s) \<rparr>)"

definition rate_limit_entry_new :: "instant \<Rightarrow> rate_limit_entry" where
  "rate_limit_entry_new now =
     \<lparr> burst_count = 0, burst_window_start = now, sustained_count = 0, sustained_window_start = now \<rparr>"

definition rate_limit_store_new :: "(nat \<Rightarrow> instant) \<Rightarrow> rate_limit_store" where
  "rate_limit_store_new tick = \<lparr> rs_entries = [], rs_last_cleanup = tick 0, rs_reads = 1 \<rparr>"

definition maybe_cleanup :: "(nat \<Rightarrow> instant) \<Rightarrow> rate_limit_store \<Rightarrow> rate_limit_store" where
  "maybe_cleanup tick s =
     (case instant_now tick s of (t, s) \<Rightarrow>
        if secs CLEANUP_INTERVAL_SECS \<le> duration_since t (rs_last_cleanup s) then
          (case instant_now tick s of (now, s) \<Rightarrow>
             s \<lparr> rs_entries := dir_retain (\<lambda>_ e. duration_since now (sustained_window_start e) < secs 120)
                                 (rs_entries s),
                 rs_last_cleanup := now \<rparr>)
        else s)"

text \<open>\<open>entries.entry(key).or_insert_with(RateLimitEntry::new)\<close>: the clock is read for a new entry only.\<close>

definition or_insert_entry ::
  "(nat \<Rightarrow> instant) \<Rightarrow> string \<Rightarrow> rate_limit_store \<Rightarrow> rate_limit_entry \<times> rate_limit_store" where
  "or_insert_entry tick key s =
     (case dir_get (rs_entries s) key of
        Some e \<Rightarrow> (e, s)
      | None \<Rightarrow> (case instant_now tick s of (t, s) \<Rightarrow> (rate_limit_entry_new t, s)))"

definition put_entry :: "string \<Rightarrow> rate_limit_entry \<Rightarrow> rate_limit_store \<Rightarrow> rate_limit_store" where
  "put_entry key e s = s \<lparr> rs_entries := dir_put key e (rs_entries s) \<rparr>"

datatype rate_limit_type = Burst | Sustained

fun rate_limit_type_as_str :: "rate_limit_type \<Rightarrow> string" where
  "rate_limit_type_as_str Burst = ''burst''"
| "rate_limit_type_as_str Sustained = ''sustained''"

definition check_burst ::
  "rate_limit_config \<Rightarrow> (nat \<Rightarrow> instant) \<Rightarrow> string \<Rightarrow> (rate_limit_store, rate_limit_type, unit) comp" where
  "check_burst cfg tick key s =
     (let s = maybe_cleanup tick s in
      case instant_now tick s of (now, s) \<Rightarrow>
      case or_insert_entry tick key s of (entry, s) \<Rightarrow>
      let entry = (if secs 1 \<le> duration_since now (burst_window_start entry)
                   then entry \<lparr> burst_count := 0, burst_window_start := now \<rparr> else entry) in
      if burst_per_sec cfg \<le> burst_count entry then (Inl Burst, put_entry key entry s)
      else (Inr (), put_entry key (entry \<lparr> burst_count := u32_add (burst_count entry) 1 \<rparr>) s))"

definition check_sustained ::
  "rate_limit_config \<Rightarrow> (nat \<Rightarrow> instant) \<Rightarrow> string \<Rightarrow> (rate_limit_store, rate_limit_type, unit) comp" where
  "check_sustained cfg tick key s =
     (let s = maybe_cleanup tick s in
      case instant_now tick s of (now, s) \<Rightarrow>
      case or_insert_entry tick key s of (entry, s) \<Rightarrow>
      let entry = (if secs 60 \<le> duration_since now (sustained_window_start entry)
                   then entry \<lparr> sustained_count := 0, sustained_window_start := now \<rparr> else entry) in
      if per_min cfg \<le> sustained_count entry then (Inl Sustained, put_entry key entry s)
      else (Inr (), put_entry key (entry \<lparr> sustained_count := u32_add (sustained_count entry) 1 \<rparr>) s))"

section \<open>Keys of a request\<close>

record http_request =
  rq_path :: string
  rq_query :: "string option"
  rq_headers :: headers
  rq_peer :: "ip_addr option"

definition header_text :: "http_request \<Rightarrow> string \<Rightarrow> string option" where
  "header_text req name = Option.bind (rq_headers req name) id"

definition extract_forwarded_for_ip :: "http_request \<Rightarrow> string option" where
  "extract_forwarded_for_ip req =
     Option.bind (header_text req ''x-forwarded-for'') (\<lambda>v.
       find_map (\<lambda>entry. map_option show_ip (parse_ip entry)) (map trim_str (split_on (CHR '','') v)))"

definition extract_real_ip :: "http_request \<Rightarrow> string option" where
  "extract_real_ip req =
     Option.bind (header_text req ''x-real-ip'') (\<lambda>v. map_option show_ip (parse_ip v))"

definition extract_client_ip :: "http_request \<Rightarrow> string" where
  "extract_client_ip req =
     (case extract_forwarded_for_ip req of
        Some ip \<Rightarrow> ip
      | None \<Rightarrow> (case extract_real_ip req of
          Some ip \<Rightarrow> ip
        | None \<Rightarrow> (case rq_peer req of Some ip \<Rightarrow> show_ip ip | None \<Rightarrow> ''unknown'')))"

definition extract_enhanced_key :: "http_request \<Rightarrow> string option" where
  "extract_enhanced_key req =
     (case Option.bind (rq_query req) (\<lambda>q. find_map (strip_prefix ''account_id='') (split_on (CHR ''&'') q)) of
        Some v \<Rightarrow> Some (''account:'' @ v)
      | None \<Rightarrow> map_option (\<lambda>v. ''signer:'' @ (if length v > 16 then take 16 v else v))
                  (header_text req ''x-pubkey''))"

section \<open>The service\<close>

definition burst_keys :: "http_request \<Rightarrow> string list" where
  "burst_keys req =
     (let base = ''ip:'' @ extract_client_ip req @ ''|endpoint:'' @ rq_path req in
      base # (case extract_enhanced_key req of Some extra \<Rightarrow> [base @ ''|'' @ extra] | None \<Rightarrow> []))"

definition sustained_keys :: "http_request \<Rightarrow> string list" where
  "sustained_keys req =
     (let base = ''ip:'' @ extract_client_ip req in
      base # (case extract_enhanced_key req of Some extra \<Rightarrow> [base @ ''|'' @ extra] | None \<Rightarrow> []))"

fun first_limited ::
  "(string \<Rightarrow> ('s, 'e, unit) comp) \<Rightarrow> string list \<Rightarrow> 's \<Rightarrow> ('e \<times> string) option \<times> 's" where
  "first_limited check [] s = (None, s)"
| "first_limited check (key # keys) s =
     (case check key s of
        (Inl e, s) \<Rightarrow> (Some (e, key), s)
      | (Inr _, s) \<Rightarrow> first_limited check keys s)"

definition limit_request ::
  "rate_limit_config \<Rightarrow> (nat \<Rightarrow> instant) \<Rightarrow> http_request \<Rightarrow> rate_limit_store \<Rightarrow>
     (rate_limit_type \<times> string) option \<times> rate_limit_store" where
  "limit_request cfg tick req s =
     (case first_limited (check_burst cfg tick) (burst_keys req) s of
        (Some l, s) \<Rightarrow> (Some l, s)
      | (None, s) \<Rightarrow> first_limited (check_sustained cfg tick) (sustained_keys req) s)"

record http_reply =
  hr_status :: nat
  hr_headers :: "(string \<times> string) list"
  hr_body :: json

definition retry_after :: "rate_limit_type \<Rightarrow> nat" where
  "retry_after t = (case t of Burst \<Rightarrow> 1 | Sustained \<Rightarrow> 60)"

definition rate_limit_response :: "rate_limit_type \<Rightarrow> http_reply" where
  "rate_limit_response t =
     \<lparr> hr_status = 429, hr_headers = [(''Retry-After'', show_nat (retry_after t))],
       hr_body = JObject
         [(''success'', JBool False),
          (''error'', JString (''Rate limit exceeded ('' @ rate_limit_type_as_str t @
             '' limit). Retry after '' @ show_nat (retry_after t) @ '' seconds.'')),
          (''retry_after_secs'', JNum (PosInt (retry_after t)))] \<rparr>"

text \<open>The wrapped service is a parameter on its own state.\<close>

definition rate_limit_call ::
  "rate_limit_config \<Rightarrow> (nat \<Rightarrow> instant) \<Rightarrow> (http_request \<Rightarrow> ('w, 'e, http_reply) comp) \<Rightarrow>
     http_request \<Rightarrow> (rate_limit_store \<times> 'w, 'e, http_reply) comp" where
  "rate_limit_call cfg tick inner req sw =
     (case sw of (s, w) \<Rightarrow>
        if \<not> rl_enabled cfg then (case inner req w of (r, w) \<Rightarrow> (r, s, w))
        else (case limit_request cfg tick req s of
          (None, s) \<Rightarrow> (case inner req w of (r, w) \<Rightarrow> (r, s, w))
        | (Some (t, key), s) \<Rightarrow> (Inr (rate_limit_response t), s, w)))"

section \<open>Fixed windows\<close>

text \<open>
  The reference: a window is its start and its count. A check at \<open>now\<close> opens a new window at
  \<open>fresh\<close> when there is none, starts it over at \<open>now\<close> when it is as old as \<open>W\<close>, and counts the request
  when the limit \<open>L\<close> is not reached.
\<close>

definition window_check ::
  "nat \<Rightarrow> nat \<Rightarrow> instant \<Rightarrow> instant \<Rightarrow> (instant \<times> nat) option \<Rightarrow> bool \<times> (instant \<times> nat)" where
  "window_check W L now fresh win =
     (case (case win of None \<Rightarrow> (fresh, 0) | Some wc \<Rightarrow> wc) of (w, c) \<Rightarrow>
        case (if W \<le> now - w then (now, 0) else (w, c)) of (w, c) \<Rightarrow>
          if L \<le> c then (False, (w, c)) else (True, (w, Suc c)))"

definition among :: "nat \<Rightarrow> nat \<Rightarrow> nat list \<Rightarrow> nat" where
  "among a b H = length (filter (\<lambda>x. a \<le> x \<and> x < b) H)"

definition since :: "nat \<Rightarrow> nat list \<Rightarrow> nat" where
  "since a H = length (filter (\<lambda>x. a \<le> x) H)"

lemma among_Nil [simp]: "among a b [] = 0"
  by (simp add: among_def)

lemma among_append [simp]: "among a b (H @ H') = among a b H + among a b H'"
  by (simp add: among_def)

lemma among_Cons [simp]: "among a b (x # H) = (if a \<le> x \<and> x < b then 1 else 0) + among a b H"
  by (simp add: among_def)

lemma since_simps [simp]:
  "since a [] = 0" "since a (H @ H') = since a H + since a H'"
  "since a (x # H) = (if a \<le> x then 1 else 0) + since a H"
  by (simp_all add: since_def)

lemma among_le_since: "among a b H \<le> since a H"
  by (induction H) auto

lemma since_future: "\<forall>x \<in> set H. x \<le> l \<Longrightarrow> l < a \<Longrightarrow> since a H = 0"
  by (induction H) auto

text \<open>
  What an operation may do to the window of a key, between the clock readings \<open>l\<close> and \<open>l'\<close>: leave it,
  drop it when it has expired, open an empty one, or check a request at \<open>now\<close>; the last argument collects the times of
  the accepted requests.
\<close>

inductive window_op ::
  "nat \<Rightarrow> nat \<Rightarrow> instant \<Rightarrow> (instant \<times> nat) option \<Rightarrow> instant \<Rightarrow> (instant \<times> nat) option \<Rightarrow> nat list \<Rightarrow> bool"
  for W L :: nat where
  leave: "l \<le> l' \<Longrightarrow> window_op W L l win l' win []"
| expire: "l \<le> l' \<Longrightarrow> w + W \<le> l' \<Longrightarrow> window_op W L l (Some (w, c)) l' None []"
| opened: "l \<le> w \<Longrightarrow> w \<le> l' \<Longrightarrow> window_op W L l None l' (Some (w, 0)) []"
| checked: "l \<le> now \<Longrightarrow> now \<le> fresh \<Longrightarrow> fresh \<le> l' \<Longrightarrow> window_check W L now fresh win = (ok, wc) \<Longrightarrow>
    window_op W L l win l' (Some wc) (if ok then [now] else [])"
| chain: "window_op W L l win l1 win1 a \<Longrightarrow> window_op W L l1 win1 l2 win2 b \<Longrightarrow>
    window_op W L l win l2 win2 (a @ b)"

text \<open>
  The invariant of a window and of the times \<open>H\<close> it accepted so far: what was accepted after the start of
  the open window is in its count, and what was accepted within one length of the start fills at
  most one window more.
\<close>

definition window_inv :: "nat \<Rightarrow> nat \<Rightarrow> instant \<Rightarrow> (instant \<times> nat) option \<Rightarrow> nat list \<Rightarrow> bool" where
  "window_inv W L l win H \<longleftrightarrow>
     (\<forall>x \<in> set H. x \<le> l) \<and> (\<forall>t. among t (t + W) H \<le> 2 * L) \<and>
     (case win of
        None \<Rightarrow> (\<forall>t. l < t + W \<longrightarrow> since t H \<le> L)
      | Some (w, c) \<Rightarrow> w \<le> l \<and> c \<le> L \<and> (\<forall>t > w. since t H \<le> c) \<and> (\<forall>t. w < t + W \<longrightarrow> since t H \<le> L + c))"

lemma window_inv_start: "window_inv W L l None []"
  by (simp add: window_inv_def)

lemma window_inv_open:
  assumes inv: "window_inv W L l win H" and time: "l \<le> now" "now \<le> fresh" "fresh \<le> l'" and W: "0 < W"
    and wc: "(case win of None \<Rightarrow> (fresh, 0) | Some wc \<Rightarrow> wc) = (w0, c0)"
    and w1: "(if W \<le> now - w0 then (now, 0) else (w0, c0)) = (w, c)"
  shows "w \<le> l'" and "c \<le> L" and "\<And>t. w < t \<Longrightarrow> since t H \<le> c" and "\<And>t. w < t + W \<Longrightarrow> since t H \<le> L + c"
    and "\<And>t. now < t + W \<Longrightarrow> since t H \<le> L + c"
proof -
  have old: "\<forall>x \<in> set H. x \<le> l" using inv by (simp add: window_inv_def)
  have "w \<le> l' \<and> c \<le> L \<and> (\<forall>t. w < t \<longrightarrow> since t H \<le> c) \<and> (\<forall>t. w < t + W \<longrightarrow> since t H \<le> L + c) \<and>
    (\<forall>t. now < t + W \<longrightarrow> since t H \<le> L + c)"
  proof (cases win)
    case None
    then have "w = fresh" "c = 0" using wc w1 time W by (auto split: if_splits)
    then show ?thesis
      using None inv time since_future[OF old] by (auto simp: window_inv_def)
  next
    case (Some wc0)
    with inv wc have h: "w0 \<le> l" "c0 \<le> L" "\<forall>t > w0. since t H \<le> c0" "\<forall>t. w0 < t + W \<longrightarrow> since t H \<le> L + c0"
      by (auto simp: window_inv_def)
    show ?thesis
    proof (cases "W \<le> now - w0")
      case True
      then have wc1: "w = now" "c = 0" using w1 by auto
      have "since t H \<le> L" if "now < t + W" for t
      proof -
        have "w0 < t" using that True W by linarith
        then have "since t H \<le> c0" using h(3) by blast
        then show ?thesis using h(2) by linarith
      qed
      then show ?thesis using wc1 time since_future[OF old] by auto
    next
      case False
      then have "w = w0" "c = c0" using w1 by auto
      then show ?thesis using h time by auto
    qed
  qed
  then show "w \<le> l'" and "c \<le> L" and "\<And>t. w < t \<Longrightarrow> since t H \<le> c" and "\<And>t. w < t + W \<Longrightarrow> since t H \<le> L + c"
    and "\<And>t. now < t + W \<Longrightarrow> since t H \<le> L + c"
    by blast+
qed

lemma window_op_inv:
  assumes "window_op W L l win l' win' acc" and "window_inv W L l win H" and "0 < W"
  shows "window_inv W L l' win' (H @ acc)"
  using assms
proof (induction arbitrary: H rule: window_op.induct)
  case (leave l l' win)
  then show ?case by (fastforce simp: window_inv_def split: option.splits)
next
  case (expire l l' w c)
  have "since t H \<le> L" if "l' < t + W" for t
  proof -
    have "w < t" using that expire.hyps(2) by simp
    then show ?thesis using expire.prems(1) by (fastforce simp: window_inv_def)
  qed
  then show ?case using expire by (fastforce simp: window_inv_def)
next
  case (opened l w l')
  then show ?case using since_future[of H l] by (auto simp: window_inv_def)
next
  case (checked l now fresh l' win ok wc)
  obtain w0 c0 where wc0: "(case win of None \<Rightarrow> (fresh, 0) | Some wc \<Rightarrow> wc) = (w0, c0)" by fastforce
  obtain w c where w1: "(if W \<le> now - w0 then (now, 0) else (w0, c0)) = (w, c)" by fastforce
  note o = window_inv_open[OF checked.prems(1) checked.hyps(1-3) checked.prems(2) wc0 w1]
  have wc: "(ok, wc) = (if L \<le> c then (False, (w, c)) else (True, (w, Suc c)))"
    using checked.hyps(4) wc0 w1 by (simp add: window_check_def)
  have old: "\<forall>x \<in> set H. x \<le> l'" and bound: "\<And>t. among t (t + W) H \<le> 2 * L"
    using checked.prems(1) checked.hyps(1-3) by (auto simp: window_inv_def)
  show ?case
  proof (cases "L \<le> c")
    case True
    then show ?thesis using wc o old bound by (auto simp: window_inv_def)
  next
    case False
    have "among t (t + W) (H @ [now]) \<le> 2 * L" for t
      using bound[of t] among_le_since[of t "t + W" H] o(5)[of t] False by (cases "now < t + W") auto
    moreover have "since t (H @ [now]) \<le> L + Suc c" if "w < t + W" for t
      using o(4)[OF that] by simp
    moreover have "since t (H @ [now]) \<le> Suc c" if "w < t" for t
      using o(3)[OF that] by simp
    ultimately show ?thesis
      using wc False o(1) old checked.hyps by (simp add: window_inv_def del: since_simps among_append)
  qed
next
  case (chain l win l1 win1 a l2 win2 b)
  from chain.IH(2)[OF chain.IH(1)[OF chain.prems] chain.prems(2)] show ?case by simp
qed

text \<open>The interface: every step of a system changes each window by a window operation.\<close>

locale fixed_window =
  fixes W L :: nat
    and look :: "'s \<Rightarrow> 'k \<Rightarrow> (instant \<times> nat) option"
    and time :: "'s \<Rightarrow> instant"
    and step :: "'s \<Rightarrow> 's \<Rightarrow> ('k \<times> instant) list \<Rightarrow> bool"
  assumes W_pos: "0 < W"
    and step_window: "step s s' acc \<Longrightarrow>
      window_op W L (time s) (look s k) (time s') (look s' k) (map snd (filter (\<lambda>a. fst a = k) acc))"
begin

definition times :: "'k \<Rightarrow> ('k \<times> instant) list \<Rightarrow> instant list" where
  "times k acc = map snd (filter (\<lambda>a. fst a = k) acc)"

inductive steps :: "'s \<Rightarrow> 's \<Rightarrow> ('k \<times> instant) list \<Rightarrow> bool" where
  none: "steps s s []"
| more: "steps s s1 acc \<Longrightarrow> step s1 s2 acc' \<Longrightarrow> steps s s2 (acc @ acc')"

lemma times_append [simp]: "times k (a @ b) = times k a @ times k b"
  by (simp add: times_def)

lemma steps_one: "step s s' acc \<Longrightarrow> steps s s' acc"
  using more[OF none] by fastforce

lemma steps_trans: "steps s1 s2 b \<Longrightarrow> steps s s1 a \<Longrightarrow> steps s s2 (a @ b)"
  by (induction rule: steps.induct) (auto simp flip: append_assoc intro: more)

lemma steps_inv: "steps s s' acc \<Longrightarrow> window_inv W L (time s) (look s k) H \<Longrightarrow>
    window_inv W L (time s') (look s' k) (H @ times k acc)"
proof (induction rule: steps.induct)
  case (more s s1 acc s2 acc')
  then show ?case
    using window_op_inv[OF step_window[OF more.hyps(2), of k] more.IH W_pos] by (simp add: times_def)
qed (simp add: times_def)

theorem at_most_twice: "steps s s' acc \<Longrightarrow> window_inv W L (time s) (look s k) [] \<Longrightarrow>
    among t (t + W) (times k acc) \<le> 2 * L"
  using steps_inv[of s s' acc k "[]"] by (simp add: window_inv_def)

end

section \<open>The windows of the store\<close>

definition sustained_window :: "rate_limit_store \<Rightarrow> string \<Rightarrow> (instant \<times> nat) option" where
  "sustained_window s key =
     map_option (\<lambda>e. (sustained_window_start e, sustained_count e)) (dir_get (rs_entries s) key)"

definition burst_window :: "rate_limit_store \<Rightarrow> string \<Rightarrow> (instant \<times> nat) option" where
  "burst_window s key = map_option (\<lambda>e. (burst_window_start e, burst_count e)) (dir_get (rs_entries s) key)"

definition next_reading :: "(nat \<Rightarrow> instant) \<Rightarrow> rate_limit_store \<Rightarrow> instant" where
  "next_reading tick s = tick (rs_reads s)"

text \<open>\<open>Instant\<close> never goes back, and the limits are \<open>u32\<close>.\<close>

definition clocked :: "rate_limit_config \<Rightarrow> (nat \<Rightarrow> instant) \<Rightarrow> bool" where
  "clocked cfg tick \<longleftrightarrow> mono tick \<and> per_min cfg < u32_bound \<and> burst_per_sec cfg < u32_bound"

definition cleanup_due :: "(nat \<Rightarrow> instant) \<Rightarrow> rate_limit_store \<Rightarrow> bool" where
  "cleanup_due tick s \<longleftrightarrow> secs CLEANUP_INTERVAL_SECS \<le> duration_since (tick (rs_reads s)) (rs_last_cleanup s)"

text \<open>The reading a check takes for its request.\<close>

definition check_time :: "(nat \<Rightarrow> instant) \<Rightarrow> rate_limit_store \<Rightarrow> instant" where
  "check_time tick s = tick (rs_reads (maybe_cleanup tick s))"

definition accepted :: "string \<Rightarrow> instant \<Rightarrow> rate_limit_type + unit \<Rightarrow> (string \<times> instant) list" where
  "accepted key now r = (if is_ok r then [(key, now)] else [])"

lemma duration_since_eq [simp]: "duration_since a b = a - b"
  by (simp add: duration_since_def saturating_sub_def)

lemma u32_add_one: "c < L \<Longrightarrow> L < u32_bound \<Longrightarrow> u32_add c (Suc 0) = Suc c"
  by (simp add: u32_add_def)

lemma maybe_cleanup_cases:
  obtains "\<not> cleanup_due tick s" "maybe_cleanup tick s = s \<lparr> rs_reads := Suc (rs_reads s) \<rparr>"
  | "cleanup_due tick s" "maybe_cleanup tick s = s \<lparr> rs_reads := Suc (Suc (rs_reads s)),
      rs_entries := dir_retain (\<lambda>_ e. tick (Suc (rs_reads s)) - sustained_window_start e < secs 120) (rs_entries s),
      rs_last_cleanup := tick (Suc (rs_reads s)) \<rparr>"
  by (cases "cleanup_due tick s") (auto simp: maybe_cleanup_def instant_now_def cleanup_due_def)

lemma cleanup_wf: "dir_wf (rs_entries s) \<Longrightarrow> dir_wf (rs_entries (maybe_cleanup tick s))"
  by (cases rule: maybe_cleanup_cases[of tick s]) auto

lemma cleanup_reads: "rs_reads s < rs_reads (maybe_cleanup tick s)"
  by (cases rule: maybe_cleanup_cases[of tick s]) auto

text \<open>A cleanup drops a sustained window only when it has expired.\<close>

lemma cleanup_sustained:
  assumes "mono tick" and "dir_wf (rs_entries s)"
  shows "window_op (secs 60) L (next_reading tick s) (sustained_window s k)
    (next_reading tick (maybe_cleanup tick s)) (sustained_window (maybe_cleanup tick s) k) []"
proof (cases rule: maybe_cleanup_cases[of tick s])
  case 1
  then show ?thesis
    using monoD[OF assms(1), of "rs_reads s" "Suc (rs_reads s)"]
    by (simp add: next_reading_def sustained_window_def window_op.leave)
next
  case 2
  have le: "tick (rs_reads s) \<le> tick (Suc (Suc (rs_reads s)))" "tick (Suc (rs_reads s)) \<le> tick (Suc (Suc (rs_reads s)))"
    using assms(1) by (simp_all add: monoD)
  show ?thesis
  proof (cases "dir_get (rs_entries s) k")
    case None
    then show ?thesis
      using 2 assms le by (auto simp: next_reading_def sustained_window_def dir_get_retain intro: window_op.leave)
  next
    case (Some e)
    show ?thesis
    proof (cases "tick (Suc (rs_reads s)) - sustained_window_start e < secs 120")
      case True
      then show ?thesis
        using 2 Some assms le by (auto simp: next_reading_def sustained_window_def dir_get_retain intro: window_op.leave)
    next
      case False
      then have "sustained_window_start e + secs 60 \<le> tick (Suc (Suc (rs_reads s)))"
        using le by (simp add: secs_def)
      then show ?thesis
        using False 2 Some assms le
        by (auto simp: next_reading_def sustained_window_def dir_get_retain intro: window_op.expire)
    qed
  qed
qed

lemma or_insert_cases:
  obtains e where "dir_get (rs_entries s) key = Some e" "or_insert_entry tick key s = (e, s)"
  | "dir_get (rs_entries s) key = None"
    "or_insert_entry tick key s = (rate_limit_entry_new (tick (rs_reads s)), s \<lparr> rs_reads := Suc (rs_reads s) \<rparr>)"
  by (cases "dir_get (rs_entries s) key") (auto simp: or_insert_entry_def instant_now_def)

lemmas check_defs = check_burst_def check_sustained_def instant_now_def put_entry_def Let_def
lemmas window_defs = sustained_window_def burst_window_def rate_limit_entry_new_def window_check_def

text \<open>A check, in terms of the windows: the one it is about is checked, the other one of the key at most opened.\<close>

lemma check_sustained_windows:
  assumes "clocked cfg tick" and "check_sustained cfg tick key s = (r, s')"
  shows "\<exists>fresh s1. s1 = maybe_cleanup tick s \<and> check_time tick s \<le> fresh \<and> fresh \<le> next_reading tick s' \<and>
    rs_reads s1 < rs_reads s' \<and> rs_last_cleanup s' = rs_last_cleanup s1 \<and>
    (\<exists>e. rs_entries s' = dir_put key e (rs_entries s1)) \<and>
    (\<exists>wc. sustained_window s' key = Some wc \<and>
      window_check (secs 60) (per_min cfg) (check_time tick s) fresh (sustained_window s1 key) = (is_ok r, wc)) \<and>
    burst_window s' key = Some (case burst_window s1 key of None \<Rightarrow> (fresh, 0) | Some w \<Rightarrow> w)"
proof -
  define s1 where "s1 = maybe_cleanup tick s"
  have le: "tick (rs_reads s1) \<le> tick (Suc (rs_reads s1))" "tick (Suc (rs_reads s1)) \<le> tick (Suc (Suc (rs_reads s1)))"
    using assms(1) by (simp_all add: clocked_def monoD)
  have u32: "c < per_min cfg \<Longrightarrow> u32_add c (Suc 0) = Suc c" for c
    using assms(1) by (simp add: clocked_def u32_add_one)
  show ?thesis
  proof (cases rule: or_insert_cases[of "s1 \<lparr> rs_reads := Suc (rs_reads s1) \<rparr>" key tick])
    case (1 e)
    then show ?thesis
      using assms(2) le u32
      by (intro exI[of _ "tick (rs_reads s1)"] exI[of _ s1])
         (auto simp: check_defs window_defs next_reading_def check_time_def s1_def[symmetric] split: if_splits)
  next
    case 2
    then show ?thesis
      using assms(2) le u32
      by (intro exI[of _ "tick (Suc (rs_reads s1))"] exI[of _ s1])
         (auto simp: check_defs window_defs next_reading_def check_time_def s1_def[symmetric] split: if_splits)
  qed
qed

lemma check_burst_windows:
  assumes "clocked cfg tick" and "check_burst cfg tick key s = (r, s')"
  shows "\<exists>fresh s1. s1 = maybe_cleanup tick s \<and> check_time tick s \<le> fresh \<and> fresh \<le> next_reading tick s' \<and>
    rs_reads s1 < rs_reads s' \<and> rs_last_cleanup s' = rs_last_cleanup s1 \<and>
    (\<exists>e. rs_entries s' = dir_put key e (rs_entries s1)) \<and>
    (\<exists>wc. burst_window s' key = Some wc \<and>
      window_check (secs 1) (burst_per_sec cfg) (check_time tick s) fresh (burst_window s1 key) = (is_ok r, wc)) \<and>
    sustained_window s' key = Some (case sustained_window s1 key of None \<Rightarrow> (fresh, 0) | Some w \<Rightarrow> w)"
proof -
  define s1 where "s1 = maybe_cleanup tick s"
  have le: "tick (rs_reads s1) \<le> tick (Suc (rs_reads s1))" "tick (Suc (rs_reads s1)) \<le> tick (Suc (Suc (rs_reads s1)))"
    using assms(1) by (simp_all add: clocked_def monoD)
  have u32: "c < burst_per_sec cfg \<Longrightarrow> u32_add c (Suc 0) = Suc c" for c
    using assms(1) by (simp add: clocked_def u32_add_one)
  show ?thesis
  proof (cases rule: or_insert_cases[of "s1 \<lparr> rs_reads := Suc (rs_reads s1) \<rparr>" key tick])
    case (1 e)
    then show ?thesis
      using assms(2) le u32
      by (intro exI[of _ "tick (rs_reads s1)"] exI[of _ s1])
         (auto simp: check_defs window_defs next_reading_def check_time_def s1_def[symmetric] split: if_splits)
  next
    case 2
    then show ?thesis
      using assms(2) le u32
      by (intro exI[of _ "tick (Suc (rs_reads s1))"] exI[of _ s1])
         (auto simp: check_defs window_defs next_reading_def check_time_def s1_def[symmetric] split: if_splits)
  qed
qed

definition key_times :: "string \<Rightarrow> (string \<times> instant) list \<Rightarrow> instant list" where
  "key_times k acc = map snd (filter (\<lambda>a. fst a = k) acc)"

lemma key_times_simps [simp]:
  "key_times k [] = []" "key_times k (accepted key now r) = (if k = key \<and> is_ok r then [now] else [])"
  by (auto simp: key_times_def accepted_def)

lemma window_op_kept:
  assumes "l \<le> fresh" "fresh \<le> l'"
  shows "window_op W L l win l' (Some (case win of None \<Rightarrow> (fresh, 0) | Some w \<Rightarrow> w)) []"
  using assms by (cases win) (auto intro: window_op.leave window_op.opened)

lemma other_windows:
  assumes "rs_entries s' = dir_put key e (rs_entries s1)" and "k \<noteq> key" and "next_reading tick s1 \<le> next_reading tick s'"
  shows "window_op W L (next_reading tick s1) (sustained_window s1 k) (next_reading tick s') (sustained_window s' k) []"
    and "window_op W L (next_reading tick s1) (burst_window s1 k) (next_reading tick s') (burst_window s' k) []"
proof -
  have "sustained_window s' k = sustained_window s1 k" "burst_window s' k = burst_window s1 k"
    using assms(1,2) by (simp_all add: sustained_window_def burst_window_def)
  then show "window_op W L (next_reading tick s1) (sustained_window s1 k) (next_reading tick s') (sustained_window s' k) []"
    and "window_op W L (next_reading tick s1) (burst_window s1 k) (next_reading tick s') (burst_window s' k) []"
    using assms(3) by (simp_all add: window_op.leave)
qed

lemma check_sustained_ops:
  assumes clk: "clocked cfg tick" and run: "check_sustained cfg tick key s = (r, s')"
  defines "s1 \<equiv> maybe_cleanup tick s"
  shows "window_op (secs 60) (per_min cfg) (next_reading tick s1) (sustained_window s1 k) (next_reading tick s')
      (sustained_window s' k) (key_times k (accepted key (check_time tick s) r))" (is ?sustained)
    and "window_op (secs 1) (burst_per_sec cfg) (next_reading tick s1) (burst_window s1 k) (next_reading tick s')
      (burst_window s' k) []" (is ?burst)
proof -
  from check_sustained_windows[OF clk run] obtain fresh e wc where
    h: "next_reading tick s1 \<le> fresh" "fresh \<le> next_reading tick s'" "rs_entries s' = dir_put key e (rs_entries s1)"
      "sustained_window s' key = Some wc"
      "window_check (secs 60) (per_min cfg) (next_reading tick s1) fresh (sustained_window s1 key) = (is_ok r, wc)"
      "burst_window s' key = Some (case burst_window s1 key of None \<Rightarrow> (fresh, 0) | Some w \<Rightarrow> w)"
    by (auto simp: s1_def check_time_def next_reading_def)
  show ?sustained
  proof (cases "k = key")
    case True
    then show ?thesis
      using window_op.checked[OF order_refl h(1,2,5)] h(4)
      by (cases "is_ok r") (simp_all add: check_time_def next_reading_def s1_def)
  qed (use other_windows[OF h(3)] h(1,2) in simp)
  show ?burst
    using h window_op_kept[OF h(1,2)] other_windows(2)[OF h(3)] by (cases "k = key") simp_all
qed

lemma check_burst_ops:
  assumes clk: "clocked cfg tick" and run: "check_burst cfg tick key s = (r, s')"
  defines "s1 \<equiv> maybe_cleanup tick s"
  shows "window_op (secs 1) (burst_per_sec cfg) (next_reading tick s1) (burst_window s1 k) (next_reading tick s')
      (burst_window s' k) (key_times k (accepted key (check_time tick s) r))" (is ?burst)
    and "window_op (secs 60) (per_min cfg) (next_reading tick s1) (sustained_window s1 k) (next_reading tick s')
      (sustained_window s' k) []" (is ?sustained)
proof -
  from check_burst_windows[OF clk run] obtain fresh e wc where
    h: "next_reading tick s1 \<le> fresh" "fresh \<le> next_reading tick s'" "rs_entries s' = dir_put key e (rs_entries s1)"
      "burst_window s' key = Some wc"
      "window_check (secs 1) (burst_per_sec cfg) (next_reading tick s1) fresh (burst_window s1 key) = (is_ok r, wc)"
      "sustained_window s' key = Some (case sustained_window s1 key of None \<Rightarrow> (fresh, 0) | Some w \<Rightarrow> w)"
    by (auto simp: s1_def check_time_def next_reading_def)
  show ?burst
  proof (cases "k = key")
    case True
    then show ?thesis
      using window_op.checked[OF order_refl h(1,2,5)] h(4)
      by (cases "is_ok r") (simp_all add: check_time_def next_reading_def s1_def)
  qed (use other_windows[OF h(3)] h(1,2) in simp)
  show ?sustained
    using h window_op_kept[OF h(1,2)] other_windows(1)[OF h(3)] by (cases "k = key") simp_all
qed

definition sustained_step ::
  "rate_limit_config \<Rightarrow> (nat \<Rightarrow> instant) \<Rightarrow> rate_limit_store \<Rightarrow> rate_limit_store \<Rightarrow> (string \<times> instant) list \<Rightarrow> bool" where
  "sustained_step cfg tick s s' acc \<longleftrightarrow> clocked cfg tick \<and> dir_wf (rs_entries s) \<and>
     (\<exists>key r. check_sustained cfg tick key s = (r, s') \<and> acc = accepted key (check_time tick s) r \<or>
        check_burst cfg tick key s = (r, s') \<and> acc = [])"

definition burst_step ::
  "rate_limit_config \<Rightarrow> (nat \<Rightarrow> instant) \<Rightarrow> rate_limit_store \<Rightarrow> rate_limit_store \<Rightarrow> (string \<times> instant) list \<Rightarrow> bool" where
  "burst_step cfg tick s s' acc \<longleftrightarrow> clocked cfg tick \<and> \<not> cleanup_due tick s \<and>
     (\<exists>key r. check_burst cfg tick key s = (r, s') \<and> acc = accepted key (check_time tick s) r \<or>
        check_sustained cfg tick key s = (r, s') \<and> acc = [])"

interpretation sustained: fixed_window "secs 60" "per_min cfg" sustained_window "next_reading tick" "sustained_step cfg tick"
  for cfg tick
proof unfold_locales
  fix s s' acc k assume "sustained_step cfg tick s s' acc"
  then obtain key r where clk: "clocked cfg tick" and wf: "dir_wf (rs_entries s)" and
    run: "check_sustained cfg tick key s = (r, s') \<and> acc = accepted key (check_time tick s) r \<or>
        check_burst cfg tick key s = (r, s') \<and> acc = []"
    by (auto simp: sustained_step_def)
  have "window_op (secs 60) (per_min cfg) (next_reading tick (maybe_cleanup tick s)) (sustained_window (maybe_cleanup tick s) k)
      (next_reading tick s') (sustained_window s' k) (key_times k acc)"
    using run check_sustained_ops(1)[OF clk] check_burst_ops(2)[OF clk] by auto
  with cleanup_sustained[of tick s] clk wf
  have "window_op (secs 60) (per_min cfg) (next_reading tick s) (sustained_window s k) (next_reading tick s')
      (sustained_window s' k) ([] @ key_times k acc)"
    unfolding clocked_def by (blast intro: window_op.chain)
  then show "window_op (secs 60) (per_min cfg) (next_reading tick s) (sustained_window s k) (next_reading tick s')
      (sustained_window s' k) (map snd (filter (\<lambda>a. fst a = k) acc))"
    by (simp add: key_times_def)
qed (simp add: secs_def)

interpretation burst: fixed_window "secs 1" "burst_per_sec cfg" burst_window "next_reading tick" "burst_step cfg tick"
  for cfg tick
proof unfold_locales
  fix s s' acc k assume "burst_step cfg tick s s' acc"
  then obtain key r where clk: "clocked cfg tick" and nd: "\<not> cleanup_due tick s" and
    run: "check_burst cfg tick key s = (r, s') \<and> acc = accepted key (check_time tick s) r \<or>
        check_sustained cfg tick key s = (r, s') \<and> acc = []"
    by (auto simp: burst_step_def)
  have s1: "window_op (secs 1) (burst_per_sec cfg) (next_reading tick s) (burst_window s k)
      (next_reading tick (maybe_cleanup tick s)) (burst_window (maybe_cleanup tick s) k) []"
    using nd clk by (cases rule: maybe_cleanup_cases[of tick s])
      (simp_all add: burst_window_def next_reading_def clocked_def monoD window_op.leave)
  have "window_op (secs 1) (burst_per_sec cfg) (next_reading tick (maybe_cleanup tick s)) (burst_window (maybe_cleanup tick s) k)
      (next_reading tick s') (burst_window s' k) (key_times k acc)"
    using run check_burst_ops(1)[OF clk] check_sustained_ops(2)[OF clk] by auto
  from window_op.chain[OF s1 this]
  show "window_op (secs 1) (burst_per_sec cfg) (next_reading tick s) (burst_window s k) (next_reading tick s')
      (burst_window s' k) (map snd (filter (\<lambda>a. fst a = k) acc))"
    by (simp add: key_times_def)
qed (simp add: secs_def)

section \<open>Requests\<close>

lemma check_wf:
  assumes "clocked cfg tick" and "dir_wf (rs_entries s)"
  shows "check_sustained cfg tick key s = (r, s') \<Longrightarrow> dir_wf (rs_entries s')"
    and "check_burst cfg tick key s = (r, s') \<Longrightarrow> dir_wf (rs_entries s')"
  using check_sustained_windows[OF assms(1)] check_burst_windows[OF assms(1)] cleanup_wf[OF assms(2)] by fastforce+

text \<open>A run of the store in which every accepted request was accepted at a reading taken during the run.\<close>

definition sustained_run ::
  "rate_limit_config \<Rightarrow> (nat \<Rightarrow> instant) \<Rightarrow> rate_limit_store \<Rightarrow> rate_limit_store \<Rightarrow> (string \<times> instant) list \<Rightarrow> bool" where
  "sustained_run cfg tick s s' acc \<longleftrightarrow> sustained.steps cfg tick s s' acc \<and> dir_wf (rs_entries s') \<and>
     rs_reads s \<le> rs_reads s' \<and>
     (\<forall>a \<in> set acc. tick (rs_reads s) \<le> snd a \<and> snd a \<le> tick (rs_reads s' - 1))"

lemma sustained_run_refl: "dir_wf (rs_entries s) \<Longrightarrow> sustained_run cfg tick s s []"
  by (simp add: sustained_run_def sustained.none)

lemma sustained_run_trans:
  assumes "mono tick" and "sustained_run cfg tick s s1 a" and "sustained_run cfg tick s1 s2 b"
  shows "sustained_run cfg tick s s2 (a @ b)"
proof -
  have "tick (rs_reads s) \<le> tick (rs_reads s1)" "tick (rs_reads s1 - 1) \<le> tick (rs_reads s2 - 1)"
    using assms by (auto simp: sustained_run_def intro!: monoD[OF assms(1)])
  then show ?thesis
    using assms(2,3) sustained.steps_trans unfolding sustained_run_def by fastforce
qed

lemma check_sustained_run:
  assumes clk: "clocked cfg tick" and wf: "dir_wf (rs_entries s)" and run: "check_sustained cfg tick key s = (r, s')"
  shows "sustained_run cfg tick s s' (accepted key (check_time tick s) r)"
proof -
  have "sustained_step cfg tick s s' (accepted key (check_time tick s) r)"
    using assms by (auto simp: sustained_step_def)
  moreover have reads: "rs_reads s < rs_reads (maybe_cleanup tick s)" "rs_reads (maybe_cleanup tick s) < rs_reads s'"
    using check_sustained_windows[OF clk run] cleanup_reads by auto
  moreover have "tick (rs_reads s) \<le> check_time tick s" "check_time tick s \<le> tick (rs_reads s' - 1)"
    using clk reads monoD[of tick "rs_reads s"] monoD[of tick _ "rs_reads s' - 1"]
    by (simp_all add: check_time_def clocked_def)
  ultimately show ?thesis
    using sustained.steps_one check_wf(1)[OF clk wf run] by (auto simp: sustained_run_def accepted_def)
qed

lemma check_burst_run:
  assumes clk: "clocked cfg tick" and wf: "dir_wf (rs_entries s)" and run: "check_burst cfg tick key s = (r, s')"
  shows "sustained_run cfg tick s s' []"
proof -
  have "sustained_step cfg tick s s' []"
    using assms by (auto simp: sustained_step_def)
  moreover have "rs_reads s \<le> rs_reads s'"
    using check_burst_windows[OF clk run] cleanup_reads[of s tick] by auto
  ultimately show ?thesis
    using sustained.steps_one check_wf(2)[OF clk wf run] by (auto simp: sustained_run_def)
qed

lemma first_limited_burst_run:
  assumes "clocked cfg tick"
  shows "dir_wf (rs_entries s) \<Longrightarrow> first_limited (check_burst cfg tick) keys s = (l, s') \<Longrightarrow> sustained_run cfg tick s s' []"
proof (induction keys arbitrary: s)
  case (Cons key keys)
  obtain r s1 where c: "check_burst cfg tick key s = (r, s1)" by fastforce
  note one = check_burst_run[OF assms Cons.prems(1) c]
  show ?case
  proof (cases r)
    case (Inr u)
    then have "sustained_run cfg tick s1 s' []"
      using Cons.IH[of s1] Cons.prems c one by (simp add: sustained_run_def)
    from sustained_run_trans[OF _ one this] show ?thesis using assms by (simp add: clocked_def)
  qed (use Cons.prems c one in simp)
qed (simp add: sustained_run_refl)

lemma first_limited_sustained_run:
  assumes "clocked cfg tick"
  shows "dir_wf (rs_entries s) \<Longrightarrow> first_limited (check_sustained cfg tick) keys s = (l, s') \<Longrightarrow>
    \<exists>acc. sustained_run cfg tick s s' acc \<and> (l = None \<longrightarrow> set keys \<subseteq> fst ` set acc)"
proof (induction keys arbitrary: s)
  case (Cons key keys)
  obtain r s1 where c: "check_sustained cfg tick key s = (r, s1)" by fastforce
  note one = check_sustained_run[OF assms Cons.prems(1) c]
  show ?case
  proof (cases r)
    case (Inr u)
    then obtain acc where acc: "sustained_run cfg tick s1 s' acc" "l = None \<longrightarrow> set keys \<subseteq> fst ` set acc"
      using Cons.IH[of s1] Cons.prems c one by (auto simp: sustained_run_def)
    have "sustained_run cfg tick s s' (accepted key (check_time tick s) r @ acc)"
      using sustained_run_trans[OF _ one acc(1)] assms by (simp add: clocked_def)
    then show ?thesis
      using acc(2) Inr by (intro exI[of _ "accepted key (check_time tick s) r @ acc"]) (auto simp: accepted_def)
  qed (use Cons.prems c one in auto)
qed (auto intro: sustained_run_refl)

lemma limit_request_run:
  assumes "clocked cfg tick" and "dir_wf (rs_entries s)" and "limit_request cfg tick req s = (l, s')"
  shows "\<exists>acc. sustained_run cfg tick s s' acc \<and>
    (l = None \<longrightarrow> ''ip:'' @ extract_client_ip req \<in> fst ` set acc)"
proof -
  obtain lb s1 where b: "first_limited (check_burst cfg tick) (burst_keys req) s = (lb, s1)" by fastforce
  note one = first_limited_burst_run[OF assms(1,2) b]
  show ?thesis
  proof (cases lb)
    case None
    then have "first_limited (check_sustained cfg tick) (sustained_keys req) s1 = (l, s')"
      using assms(3) b by (simp add: limit_request_def)
    from first_limited_sustained_run[OF assms(1) _ this] one obtain acc where
      "sustained_run cfg tick s1 s' acc" "l = None \<longrightarrow> set (sustained_keys req) \<subseteq> fst ` set acc"
      by (auto simp: sustained_run_def)
    then show ?thesis
      using sustained_run_trans[OF _ one] assms(1) by (auto simp: clocked_def sustained_keys_def Let_def)
  qed (use assms(3) b one in \<open>auto simp: limit_request_def\<close>)
qed

text \<open>
  The requests a store handles one after the other: for each the client address, the first clock
  reading that it could take, the last one it took, and whether it was let through.
\<close>

fun admissions ::
  "rate_limit_config \<Rightarrow> (nat \<Rightarrow> instant) \<Rightarrow> http_request list \<Rightarrow> rate_limit_store \<Rightarrow>
     (string \<times> instant \<times> instant \<times> bool) list" where
  "admissions cfg tick [] s = []"
| "admissions cfg tick (req # reqs) s =
     (case limit_request cfg tick req s of (l, s') \<Rightarrow>
        (extract_client_ip req, tick (rs_reads s), tick (rs_reads s' - 1), l = None) # admissions cfg tick reqs s')"

definition admitted_within :: "string \<Rightarrow> instant \<Rightarrow> instant \<Rightarrow> (string \<times> instant \<times> instant \<times> bool) list \<Rightarrow> nat" where
  "admitted_within ip a b = length \<circ> filter (\<lambda>(client, start, finish, ok). client = ip \<and> ok \<and> a \<le> start \<and> finish < b)"

lemma admissions_run:
  assumes clk: "clocked cfg tick"
  shows "dir_wf (rs_entries s) \<Longrightarrow> \<exists>s' acc. sustained_run cfg tick s s' acc \<and>
    admitted_within ip a b (admissions cfg tick reqs s) \<le> among a b (sustained.times (''ip:'' @ ip) acc)"
proof (induction reqs arbitrary: s)
  case Nil
  then show ?case using sustained_run_refl by (fastforce simp: admitted_within_def)
next
  case (Cons req reqs)
  obtain l s1 where q: "limit_request cfg tick req s = (l, s1)" by fastforce
  from limit_request_run[OF clk Cons.prems q] obtain acc1 where
    one: "sustained_run cfg tick s s1 acc1" and key: "l = None \<longrightarrow> ''ip:'' @ extract_client_ip req \<in> fst ` set acc1"
    by blast
  from Cons.IH[of s1] one obtain s2 acc2 where rest: "sustained_run cfg tick s1 s2 acc2"
    "admitted_within ip a b (admissions cfg tick reqs s1) \<le> among a b (sustained.times (''ip:'' @ ip) acc2)"
    by (auto simp: sustained_run_def)
  have "1 \<le> among a b (sustained.times (''ip:'' @ ip) acc1)"
    if "l = None" "extract_client_ip req = ip" "a \<le> tick (rs_reads s)" "tick (rs_reads s1 - 1) < b"
  proof -
    from key that obtain x where "(''ip:'' @ ip, x) \<in> set acc1" by force
    moreover from this one have "tick (rs_reads s) \<le> x" "x \<le> tick (rs_reads s1 - 1)"
      by (auto simp: sustained_run_def)
    ultimately have "x \<in> set (filter (\<lambda>x. a \<le> x \<and> x < b) (sustained.times (''ip:'' @ ip) acc1))"
      using that by (force simp: sustained.times_def)
    from length_pos_if_in_set[OF this] show ?thesis by (simp only: among_def One_nat_def Suc_le_eq)
  qed
  then have "admitted_within ip a b (admissions cfg tick (req # reqs) s) \<le>
      among a b (sustained.times (''ip:'' @ ip) (acc1 @ acc2))"
    using q rest(2) by (auto simp: admitted_within_def)
  then show ?case
    using sustained_run_trans[OF _ one rest(1)] clk unfolding clocked_def by blast
qed

end
