(* ===== verification/Rate_Limit_Properties.thy ===== *)
theory Rate_Limit_Properties
  imports Rate_Limit "HOL-Library.Code_Target_Nat"
begin

text \<open>
  What the rate limiter guarantees: the bound of the sustained limit per client, over any sequence of requests,
  and what its cleanup does to a burst window that is in use.
\<close>

section \<open>Properties\<close>

text \<open>
  C31: The sustained limit holds per client: of the requests of one client address that a limiter handles, whatever
  their endpoints, accounts and signers and whatever other requests it handles, at most \<open>2 * per_min\<close>
  that start and finish within any interval of one minute are let through. (Cleanups and new windows included; the clock is only
  assumed to be monotone.)
\<close>

theorem sustained_bound:
  assumes "clocked cfg tick"
  shows "admitted_within ip t (t + secs 60) (admissions cfg tick reqs (rate_limit_store_new tick)) \<le> 2 * per_min cfg"
proof -
  have "dir_wf (rs_entries (rate_limit_store_new tick))"
    by (simp add: rate_limit_store_new_def)
  from admissions_run[OF assms this] obtain s' acc where
    run: "sustained_run cfg tick (rate_limit_store_new tick) s' acc"
    and le: "admitted_within ip t (t + secs 60) (admissions cfg tick reqs (rate_limit_store_new tick)) \<le>
      among t (t + secs 60) (sustained.times (''ip:'' @ ip) acc)" by blast
  have "window_inv (secs 60) (per_min cfg) (next_reading tick (rate_limit_store_new tick))
      (sustained_window (rate_limit_store_new tick) (''ip:'' @ ip)) []"
    by (simp add: sustained_window_def rate_limit_store_new_def window_inv_start)
  with run have "among t (t + secs 60) (sustained.times (''ip:'' @ ip) acc) \<le> 2 * per_min cfg"
    unfolding sustained_run_def by (blast intro: sustained.at_most_twice)
  with le show ?thesis by linarith
qed

definition limited_request :: http_request where
  "limited_request = \<lparr> rq_path = ''/delta'', rq_query = Some ''account_id=0xab&nonce=1'', rq_headers = (\<lambda>_. None),
     rq_peer = Some (IpV4 [10, 0, 0, 7]) \<rparr>"

definition demo_tick :: "nat \<Rightarrow> instant" where
  "demo_tick n = (if n < 19 then 0 else secs 61)"

lemma demo_clocked: "clocked (rate_limit_new 5 1) demo_tick"
  by (simp add: clocked_def rate_limit_new_def u32_bound_def mono_def demo_tick_def secs_def)

text \<open>One request a minute is allowed: of three, the first and the one a minute later pass.\<close>

theorem sustained_bound_witness:
  "clocked (rate_limit_new 5 1) demo_tick \<and>
   map (snd \<circ> snd \<circ> snd) (admissions (rate_limit_new 5 1) demo_tick [limited_request, limited_request, limited_request]
      (rate_limit_store_new demo_tick)) = [True, False, True] \<and>
   admitted_within ''10.0.0.7'' 0 (0 + secs 60) (admissions (rate_limit_new 5 1) demo_tick
      [limited_request, limited_request, limited_request] (rate_limit_store_new demo_tick)) \<le> 2 * per_min (rate_limit_new 5 1)"
proof (intro conjI)
  show "map (snd \<circ> snd \<circ> snd) (admissions (rate_limit_new 5 1) demo_tick [limited_request, limited_request, limited_request]
      (rate_limit_store_new demo_tick)) = [True, False, True]"
    by code_simp
qed (use sustained_bound[OF demo_clocked] demo_clocked in blast)+

text \<open>
  C32: A cleanup forgets burst windows that are in use. It goes by the start of the sustained window, which a check
  of a burst key never moves: once the entry of such a key is two minutes old, the next cleanup drops it, and
  the request is let through even if the limit of the current second was already reached.
\<close>

theorem cleanup_forgets_burst:
  assumes "clocked cfg tick" and "dir_wf (rs_entries s)" and "dir_get (rs_entries s) key = Some e"
    and "cleanup_due tick s" and "sustained_window_start e + secs 120 \<le> tick (rs_reads s)" and "0 < burst_per_sec cfg"
  shows "fst (check_burst cfg tick key s) = Inr ()"
proof -
  obtain r s' where run: "check_burst cfg tick key s = (r, s')" by fastforce
  have "tick (rs_reads s) \<le> tick (Suc (rs_reads s))"
    using assms(1) by (simp add: clocked_def monoD)
  then have "burst_window (maybe_cleanup tick s) key = None"
    using assms by (cases rule: maybe_cleanup_cases[of tick s]) (auto simp: burst_window_def dir_get_retain)
  with check_burst_windows[OF assms(1) run] assms(6) have "is_ok r"
    by (auto simp: window_check_def split: if_splits)
  then show ?thesis using run by (cases r) auto
qed

text \<open>
  Two requests a second are allowed. A key is checked when the store starts, a minute later (when the first cleanup
  runs), twice 120.9 seconds after the start, and a third time in the same second, 0.1 seconds later.
\<close>

definition busy_tick :: "nat \<Rightarrow> instant" where
  "busy_tick n = (if n < 4 then 0 else if n < 7 then secs 61 else if n < 11 then 120900000000 else secs 121)"

definition busy_key :: string where
  "busy_key = ''ip:10.0.0.7|endpoint:/delta''"

fun busy_store :: "nat \<Rightarrow> rate_limit_store" where
  "busy_store 0 = rate_limit_store_new busy_tick"
| "busy_store (Suc n) = snd (check_burst (rate_limit_new 2 60) busy_tick busy_key (busy_store n))"

definition busy_entry :: rate_limit_entry where
  "busy_entry = \<lparr> burst_count = 2, burst_window_start = 120900000000, sustained_count = 0, sustained_window_start = 0 \<rparr>"

lemma busy_clocked: "clocked (rate_limit_new 2 60) busy_tick"
  by (simp add: clocked_def rate_limit_new_def u32_bound_def mono_def busy_tick_def secs_def)

lemma busy_run:
  "rs_entries (busy_store 4) = [(busy_key, busy_entry)]" "rs_last_cleanup (busy_store 4) = 61000000000" "rs_reads (busy_store 4) = 11"
  by code_simp+

theorem cleanup_forgets_burst_witness:
  "burst_count busy_entry = burst_per_sec (rate_limit_new 2 60) \<and>
   busy_tick (rs_reads (busy_store 4)) - burst_window_start busy_entry < secs 1 \<and>
   fst (check_burst (rate_limit_new 2 60) busy_tick busy_key (busy_store 4)) = Inr ()"
proof -
  have "fst (check_burst (rate_limit_new 2 60) busy_tick busy_key (busy_store 4)) = Inr ()"
    by (rule cleanup_forgets_burst[OF busy_clocked, where e = busy_entry])
       (simp_all add: busy_run dir_wf_def dir_get_def cleanup_due_def CLEANUP_INTERVAL_SECS_def busy_tick_def secs_def
          busy_entry_def rate_limit_new_def)
  then show ?thesis
    by (simp add: busy_run busy_tick_def busy_entry_def rate_limit_new_def secs_def)
qed

end
