(* ===== verification/Sessions.thy ===== *)
theory Sessions
  imports Prelude "HOL-Library.Multiset"
begin

text \<open>
  Logging in by signing a challenge, as an interface: what a server with pending challenges and
  sessions promises of each of its operations, and what follows for any sequence of them. The operator
  dashboard and the EVM login are two implementations; each interprets the locale on its own operations.
\<close>

section \<open>Lists of pending challenges\<close>

definition pending_of :: "('k, 'c list) dir \<Rightarrow> 'k \<Rightarrow> 'c list" where
  "pending_of d k = (case dir_get d k of Some cs \<Rightarrow> cs | None \<Rightarrow> [])"

fun position :: "('a \<Rightarrow> bool) \<Rightarrow> 'a list \<Rightarrow> nat option" where
  "position p [] = None"
| "position p (x # xs) = (if p x then Some 0 else map_option Suc (position p xs))"

definition remove_nth :: "nat \<Rightarrow> 'a list \<Rightarrow> 'a list" where
  "remove_nth i xs = take i xs @ drop (Suc i) xs"

text \<open>\<open>if pending.is_empty() { challenges.remove(..) }\<close> after \<open>pending\<close> was written back.\<close>

definition put_or_remove :: "'k \<Rightarrow> 'c list \<Rightarrow> ('k, 'c list) dir \<Rightarrow> ('k, 'c list) dir" where
  "put_or_remove k cs d = (if cs = [] then dir_del k d else dir_put k cs d)"

text \<open>\<open>if pending.len() > max { pending.drain(0..pending.len() - max) }\<close>.\<close>

definition keep_newest :: "nat \<Rightarrow> 'c list \<Rightarrow> 'c list" where
  "keep_newest n cs = (if length cs > n then drop (length cs - n) cs else cs)"

lemma position_Some:
  "position p xs = Some i \<Longrightarrow> i < length xs \<and> p (xs ! i)"
  by (induction xs arbitrary: i) (auto split: if_splits)

lemma mset_remove_nth: "i < length xs \<Longrightarrow> mset (remove_nth i xs) = mset xs - {#xs ! i#}"
proof -
  assume i: "i < length xs"
  then have "mset xs = mset (take i xs @ xs ! i # drop (Suc i) xs)" by (simp add: id_take_nth_drop[symmetric])
  then show ?thesis by (simp add: remove_nth_def)
qed

lemma pending_of_put [simp]: "pending_of (dir_put k cs d) j = (if j = k then cs else pending_of d j)"
  by (simp add: pending_of_def)

lemma pending_of_put_or_remove [simp]: "pending_of (put_or_remove k cs d) j = (if j = k then cs else pending_of d j)"
  by (simp add: pending_of_def put_or_remove_def)

lemma pending_of_Nil [simp]: "pending_of [] k = []"
  by (simp add: pending_of_def)

lemma mset_filter_subset [simp]: "mset (filter p xs) \<subseteq># mset xs"
  by (simp add: multiset_filter_subset)

lemma mset_drop_subset: "mset (drop n xs) \<subseteq># mset xs"
  by (metis append_take_drop_id mset_append mset_subset_eq_add_right)

lemma mset_keep_newest: "mset (keep_newest n (filter p xs @ [c])) \<subseteq># add_mset c (mset xs)"
proof -
  have "mset (keep_newest n (filter p xs @ [c])) \<subseteq># mset (filter p xs @ [c])"
    unfolding keep_newest_def by (simp only: mset_drop_subset subset_mset.order_refl split: if_split) simp
  also have "\<dots> \<subseteq># add_mset c (mset xs)" by simp
  finally show ?thesis .
qed

lemma length_keep_newest: "length (keep_newest n cs) \<le> n \<or> keep_newest n cs = cs \<and> length cs \<le> n"
  by (auto simp: keep_newest_def)

lemma dir_retain_map_le: "dir_wf d \<Longrightarrow> dir_get (dir_retain p d) \<subseteq>\<^sub>m dir_get d"
  by (auto simp: map_le_def dir_get_retain split: option.splits)

lemma map_le_comp: "m \<subseteq>\<^sub>m n \<Longrightarrow> map_option f \<circ> m \<subseteq>\<^sub>m map_option f \<circ> n"
  by (auto simp: map_le_def dom_def)

lemma map_le_upd: "m \<subseteq>\<^sub>m n \<Longrightarrow> m(k := v) \<subseteq>\<^sub>m n(k := v)"
  by (auto simp: map_le_def dom_def)

lemma mset_diff_mono: "A \<subseteq># B \<Longrightarrow> A - C \<subseteq># B - (C :: 'a multiset)"
  by (simp add: subseteq_mset_def diff_le_mono)

section \<open>Steps\<close>

datatype ('id, 'ch) session_event =
    Issued 'id 'ch
  | Verified 'id 'ch string int
  | Authenticated 'id string int
  | LoggedOut string
  | Quiet

fun verifies :: "'id \<Rightarrow> 'ch \<Rightarrow> ('id, 'ch) session_event \<Rightarrow> bool" where
  "verifies i c (Verified j d _ _) = (i = j \<and> c = d)"
| "verifies i c _ = False"

text \<open>
  \<open>pend\<close> lists the challenges an identity can still answer, \<open>sess\<close> gives the identity and the expiry of a
  token. Every step may also forget challenges and sessions; it adds only what its event says. \<open>answered i c\<close>
  says that the identity has answered the challenge.
\<close>

locale challenge_sessions =
  fixes pend :: "'s \<Rightarrow> 'id \<Rightarrow> 'ch list"
    and sess :: "'s \<Rightarrow> string \<Rightarrow> ('id \<times> int) option"
    and answered :: "'id \<Rightarrow> 'ch \<Rightarrow> bool"
    and step :: "'s \<Rightarrow> ('id, 'ch) session_event \<Rightarrow> 's \<Rightarrow> bool"
  assumes step_pend: "step s ev s' \<Longrightarrow> mset (pend s' i) \<subseteq>#
      (case ev of Issued j c \<Rightarrow> (if j = i then add_mset c (mset (pend s i)) else mset (pend s i))
       | Verified j c t e \<Rightarrow> (if j = i then mset (pend s i) - {#c#} else mset (pend s i))
       | _ \<Rightarrow> mset (pend s i))"
    and step_sess: "step s ev s' \<Longrightarrow> sess s' \<subseteq>\<^sub>m
      (case ev of Verified j c t e \<Rightarrow> (sess s)(t \<mapsto> (j, e)) | LoggedOut t \<Rightarrow> (sess s)(t := None) | _ \<Rightarrow> sess s)"
    and step_verified: "step s (Verified i c t e) s' \<Longrightarrow> c \<in> set (pend s i) \<and> answered i c"
    and step_auth: "step s (Authenticated i t now) s' \<Longrightarrow> \<exists>e. sess s t = Some (i, e) \<and> now < e"
begin

inductive run :: "'s \<Rightarrow> ('id, 'ch) session_event list \<Rightarrow> 's \<Rightarrow> bool" where
  start: "run s [] s"
| next_step: "run s tr s1 \<Longrightarrow> step s1 ev s2 \<Longrightarrow> run s (tr @ [ev]) s2"

inductive_cases run_snocE: "run s (tr @ [ev]) s'"

definition fresh :: "'s \<Rightarrow> bool" where
  "fresh s \<longleftrightarrow> (\<forall>i. pend s i = []) \<and> (\<forall>t. sess s t = None)"

definition uses :: "'id \<Rightarrow> 'ch \<Rightarrow> ('id, 'ch) session_event list \<Rightarrow> nat" where
  "uses i c tr = length (filter (verifies i c) tr)"

definition issues :: "'id \<Rightarrow> 'ch \<Rightarrow> ('id, 'ch) session_event list \<Rightarrow> nat" where
  "issues i c tr = length (filter (\<lambda>ev. ev = Issued i c) tr)"

lemma map_leD: "m \<subseteq>\<^sub>m n \<Longrightarrow> m k = Some v \<Longrightarrow> n k = Some v"
  by (metis domI map_le_def)

lemma pend_count: "c \<in> set xs \<Longrightarrow> 0 < count (mset xs) c"
  by simp

lemma run_counts:
  "run s tr s' \<Longrightarrow> fresh s \<Longrightarrow> uses i c tr + count (mset (pend s' i)) c \<le> issues i c tr"
proof (induction rule: run.induct)
  case (start s)
  then show ?case by (simp add: fresh_def uses_def issues_def)
next
  case (next_step s tr s1 ev s2)
  note p = mset_subset_eq_count[OF step_pend[OF next_step.hyps(2), of i], of c]
  show ?case
  proof (cases ev)
    case (Verified j d t e)
    define n where "n = count (mset (pend s1 i)) c"
    have "0 < n" if "c = d" "j = i"
      using step_verified[of s1 j d t e s2] next_step.hyps(2) Verified that pend_count[of c] by (simp add: n_def)
    then show ?thesis
      using p next_step.IH[OF next_step.prems] Verified unfolding n_def[symmetric]
      by (auto simp: uses_def issues_def n_def[symmetric] split: if_splits)
  qed (use p next_step in \<open>auto simp: uses_def issues_def split: if_splits\<close>)
qed

theorem single_use: "run s tr s' \<Longrightarrow> fresh s \<Longrightarrow> uses i c tr \<le> issues i c tr"
  using run_counts[of s tr s' i c] by linarith

lemma issued_before: "0 < issues i c tr \<Longrightarrow> Issued i c \<in> set tr"
  by (auto simp: issues_def filter_empty_conv)

text \<open>Where a session comes from.\<close>

definition login :: "'id \<Rightarrow> string \<Rightarrow> int \<Rightarrow> ('id, 'ch) session_event list \<Rightarrow> bool" where
  "login i t e tr \<longleftrightarrow> (\<exists>tr1 c tr2. tr = tr1 @ Verified i c t e # tr2 \<and> LoggedOut t \<notin> set tr2 \<and>
     Issued i c \<in> set tr1 \<and> answered i c)"

lemma login_snoc: "login i t e tr \<Longrightarrow> ev \<noteq> LoggedOut t \<Longrightarrow> login i t e (tr @ [ev])"
  unfolding login_def by fastforce

lemma run_sess: "run s tr s' \<Longrightarrow> fresh s \<Longrightarrow> sess s' t = Some (i, e) \<Longrightarrow> login i t e tr"
proof (induction arbitrary: i e rule: run.induct)
  case (start s)
  then show ?case by (simp add: fresh_def)
next
  case (next_step s tr s1 ev s2)
  note p = step_sess[OF next_step.hyps(2)]
  have new: "login i t e (tr @ [ev])" if "ev = Verified i c t e" for c
  proof -
    have "c \<in> set (pend s1 i)" "answered i c" using step_verified next_step.hyps(2) that by blast+
    then have "0 < issues i c tr"
      using run_counts[OF next_step.hyps(1) next_step.prems(1), of i c] pend_count[OF \<open>c \<in> set (pend s1 i)\<close>] by linarith
    then have "Issued i c \<in> set tr" by (rule issued_before)
    then show ?thesis using that \<open>answered i c\<close> unfolding login_def by (intro exI[of _ tr] exI[of _ c] exI[of _ "[]"]) simp
  qed
  have "sess s1 t = Some (i, e) \<and> ev \<noteq> LoggedOut t \<or> (\<exists>c. ev = Verified i c t e)"
    using map_leD[OF p next_step.prems(2)] by (cases ev) (auto split: if_splits)
  then show ?case
    using new next_step.IH[OF next_step.prems(1)] login_snoc by blast
qed

theorem authenticated_login:
  assumes "run s (tr @ [Authenticated i t now]) s'" and "fresh s"
  shows "\<exists>e. login i t e tr \<and> now < e"
proof -
  from assms(1) obtain s1 where "run s tr s1" "step s1 (Authenticated i t now) s'"
    by (auto elim: run_snocE)
  then show ?thesis using step_auth run_sess[OF _ assms(2)] by blast
qed

end

end
