(* ===== verification/Dashboard_Session.thy ===== *)
theory Dashboard_Session
  imports Sessions Rate_Limit Guardian_Services
begin

text \<open>
  The login of dashboard operators (\<open>server/src/dashboard/\<close>): configuration, the allowlist of operator keys and
  its reloading, challenges, sessions, logout and the session middleware. What an operation draws from
  outside is an argument: the current contents of the allowlist source, the clock of the rate limiter, the
  time, the random bytes. The operations interpret the locale \<open>challenge_sessions\<close>.
\<close>

section \<open>Configuration (dashboard/config.rs)\<close>

record dashboard_config =
  dc_canonical_domain :: string
  dc_cookie_name :: string
  dc_nonce_ttl :: int
  dc_session_ttl :: int
  dc_max_outstanding_challenges :: nat
  dc_commitment_rate_limit :: rate_limit_config
  dc_filesystem_aggregate_threshold :: nat
  dc_environment :: string
  dc_cursor_secret_hex :: "string option"

definition chrono_seconds :: "int \<Rightarrow> int" where
  "chrono_seconds n = n * 1000000000"

definition dashboard_config_default :: dashboard_config where
  "dashboard_config_default =
     \<lparr> dc_canonical_domain = ''*'', dc_cookie_name = ''guardian_operator_session'',
       dc_nonce_ttl = chrono_seconds 300, dc_session_ttl = chrono_seconds (8 * 60 * 60),
       dc_max_outstanding_challenges = 8,
       dc_commitment_rate_limit = \<lparr> rl_enabled = True, burst_per_sec = 5, per_min = 30 \<rparr>,
       dc_filesystem_aggregate_threshold = 1000, dc_environment = ''testnet'', dc_cursor_secret_hex = None \<rparr>"

definition dashboard_config_from_env :: "env_vars \<Rightarrow> dashboard_config" where
  "dashboard_config_from_env env =
     (let config = dashboard_config_default;
          config = (case env ''GUARDIAN_ENVIRONMENT'' of Some e \<Rightarrow> config \<lparr> dc_environment := e \<rparr> | None \<Rightarrow> config) in
      case env ''GUARDIAN_DASHBOARD_CURSOR_SECRET'' of
        Some h \<Rightarrow> config \<lparr> dc_cursor_secret_hex := Some h \<rparr> | None \<Rightarrow> config)"

section \<open>The allowlist (dashboard/allowlist.rs)\<close>

record operator =
  op_operator_id :: string
  op_commitment :: string

type_synonym allowlist = "(string, operator) dir"

datatype allowlist_source = AllowStatic | AllowFile string | AllowSecret string

text \<open>Reading a file, a secret of the secrets manager, and \<open>serde_json\<close> on a list of strings.\<close>

record allowlist_io =
  read_keys_file :: "string \<Rightarrow> string + string"
  read_secret :: "string \<Rightarrow> string + string option"
  parse_string_list :: "string \<Rightarrow> string + string list"

definition ENV_OPERATOR_PUBLIC_KEYS_FILE :: string where
  "ENV_OPERATOR_PUBLIC_KEYS_FILE = ''GUARDIAN_OPERATOR_PUBLIC_KEYS_FILE''"

definition ENV_OPERATOR_PUBLIC_KEYS_SECRET_ID :: string where
  "ENV_OPERATOR_PUBLIC_KEYS_SECRET_ID = ''GUARDIAN_OPERATOR_PUBLIC_KEYS_SECRET_ID''"

definition ensure_aws_region :: "env_vars \<Rightarrow> string + unit" where
  "ensure_aws_region env =
     (case env ''AWS_REGION'' of
        Some v \<Rightarrow> if trim_str v \<noteq> [] then Inr ()
                  else Inl (''AWS_REGION must not be empty when '' @ ENV_OPERATOR_PUBLIC_KEYS_SECRET_ID @ '' is set'')
      | None \<Rightarrow> Inl (''AWS_REGION is required when '' @ ENV_OPERATOR_PUBLIC_KEYS_SECRET_ID @ '' is set''))"

definition allowlist_source_from_env :: "env_vars \<Rightarrow> string + allowlist_source" where
  "allowlist_source_from_env env =
     (let from_file = (case env ENV_OPERATOR_PUBLIC_KEYS_FILE of
            Some path \<Rightarrow> if trim_str path \<noteq> [] then AllowFile (trim_str path) else AllowStatic
          | None \<Rightarrow> AllowStatic) in
      case env ENV_OPERATOR_PUBLIC_KEYS_SECRET_ID of
        Some secret_id \<Rightarrow>
          if trim_str secret_id \<noteq> []
          then bind_res (ensure_aws_region env) (\<lambda>_. Inr (AllowSecret (trim_str secret_id))) else Inr from_file
      | None \<Rightarrow> Inr from_file)"

fun add_public_keys ::
  "('sig, 'pk, 'su, 'n) externals \<Rightarrow> string \<Rightarrow> nat \<Rightarrow> allowlist \<Rightarrow> string list \<Rightarrow> string + allowlist" where
  "add_public_keys X label index by_commitment [] = Inr by_commitment"
| "add_public_keys X label index by_commitment (key # keys) =
     (let key = trim_str key in
      if key = [] then Inl (label @ '' entry '' @ show_nat (index + 1) @ '' must not be empty'')
      else
      bind_res (map_err (\<lambda>e. ''Failed to parse '' @ label @ '' entry '' @ show_nat (index + 1) @ '': '' @ e)
        (public_key_from_hex X key)) (\<lambda>public_key.
      let commitment = word_into_hex X (pk_to_commitment X public_key) in
      if dir_get by_commitment commitment \<noteq> None
      then Inl (''Duplicate operator public key commitment in '' @ label @ '': '' @ commitment)
      else add_public_keys X label (index + 1)
             (dir_put commitment \<lparr> op_operator_id = commitment, op_commitment = commitment \<rparr> by_commitment) keys))"

definition allowlist_from_json ::
  "('sig, 'pk, 'su, 'n) externals \<Rightarrow> allowlist_io \<Rightarrow> string \<Rightarrow> string \<Rightarrow> string + allowlist" where
  "allowlist_from_json X io label text =
     bind_res (map_err (\<lambda>e. ''Failed to parse '' @ label @ '': '' @ e) (parse_string_list io text))
       (add_public_keys X label 0 [])"

definition allowlist_load ::
  "('sig, 'pk, 'su, 'n) externals \<Rightarrow> allowlist_io \<Rightarrow> allowlist_source \<Rightarrow> string + allowlist" where
  "allowlist_load X io src =
     (case src of
        AllowStatic \<Rightarrow> Inr []
      | AllowFile path \<Rightarrow>
          bind_res (map_err (\<lambda>e. ''Failed to read '' @ ENV_OPERATOR_PUBLIC_KEYS_FILE @ '' file '' @ path @ '': '' @ e)
            (read_keys_file io path)) (\<lambda>text.
          allowlist_from_json X io (ENV_OPERATOR_PUBLIC_KEYS_FILE @ ''='' @ path) text)
      | AllowSecret secret_id \<Rightarrow>
          bind_res (map_err (\<lambda>e. ''Failed to load '' @ ENV_OPERATOR_PUBLIC_KEYS_SECRET_ID @ '' '' @ secret_id @
              '' from Secrets Manager: '' @ e) (read_secret io secret_id)) (\<lambda>text.
          bind_res (ok_or (''Secret '' @ secret_id @ '' does not contain a secret string value'') text) (\<lambda>text.
          allowlist_from_json X io (ENV_OPERATOR_PUBLIC_KEYS_SECRET_ID @ ''='' @ secret_id) text)))"

definition allowlist_load_dynamic ::
  "('sig, 'pk, 'su, 'n) externals \<Rightarrow> allowlist_io \<Rightarrow> allowlist_source \<Rightarrow> string + allowlist option" where
  "allowlist_load_dynamic X io src =
     (case src of AllowStatic \<Rightarrow> Inr None | _ \<Rightarrow> map_sum id Some (allowlist_load X io src))"

definition normalize_commitment :: "('sig, 'pk, 'su, 'n) externals \<Rightarrow> string \<Rightarrow> string + string" where
  "normalize_commitment X c = map_sum id (word_into_hex X) (word_from_hex X c)"

section \<open>State (dashboard/state.rs, types.rs, util.rs)\<close>

record operator_challenge_payload =
  ocp_domain :: string
  ocp_commitment :: string
  ocp_nonce :: string
  ocp_expires_at :: string

definition signing_digest ::
  "('sig, 'pk, 'su, 'n) externals \<Rightarrow> operator_challenge_payload \<Rightarrow> string + mword" where
  "signing_digest X p = payload_from_json_value X (JObject
     [(''domain'', JString (ocp_domain p)), (''commitment'', JString (ocp_commitment p)),
      (''nonce'', JString (ocp_nonce p)), (''expires_at'', JString (ocp_expires_at p))])"

record pending_challenge =
  pc_signing_digest :: mword
  pc_issued_at :: int
  pc_expires_at :: int

record operator_session =
  os_operator :: operator
  os_issued_at :: int
  os_expires_at :: int

record dashboard_state =
  ds_allowlist :: allowlist
  ds_challenges :: "(string, pending_challenge list) dir"
  ds_sessions :: "(string, operator_session) dir"
  ds_rate_limits :: rate_limit_store

record issued_session =
  is_operator :: operator
  is_expires_at :: string
  is_cookie_header :: string

text \<open>What never changes: the libraries, the configuration, the source of the allowlist, the clock of the limiter.\<close>

record ('sig, 'pk, 'su, 'n) dash_env =
  dx_ext :: "('sig, 'pk, 'su, 'n) externals"
  dx_chrono :: chrono_ops
  dx_cookie_date :: "int \<Rightarrow> string"
  dx_config :: dashboard_config
  dx_source :: allowlist_source
  dx_tick :: "nat \<Rightarrow> instant"

definition dashboard_state_new :: "('sig, 'pk, 'su, 'n) dash_env \<Rightarrow> allowlist \<Rightarrow> dashboard_state" where
  "dashboard_state_new D allowlist =
     \<lparr> ds_allowlist = allowlist, ds_challenges = [], ds_sessions = [], ds_rate_limits = rate_limit_store_new (dx_tick D) \<rparr>"

definition random_hex :: "('sig, 'pk, 'su, 'n) dash_env \<Rightarrow> string \<Rightarrow> string" where
  "random_hex D random = hex_encode (dx_ext D) random"

definition rate_limit_error :: "rate_limit_type \<Rightarrow> guardian_error" where
  "rate_limit_error t = RateLimitExceeded (case t of Burst \<Rightarrow> 1 | Sustained \<Rightarrow> 60) ''operator_commitment''"

definition refresh_allowlist ::
  "('sig, 'pk, 'su, 'n) dash_env \<Rightarrow> allowlist_io \<Rightarrow> (dashboard_state, guardian_error, unit) comp" where
  "refresh_allowlist D io s =
     (case allowlist_load_dynamic (dx_ext D) io (dx_source D) of
        Inl e \<Rightarrow> (Inl (ConfigurationError e), s)
      | Inr None \<Rightarrow> (Inr (), s)
      | Inr (Some updated) \<Rightarrow> (Inr (), s \<lparr> ds_allowlist := updated \<rparr>))"

definition on_limits :: "(rate_limit_store, rate_limit_type, 'a) comp \<Rightarrow> (dashboard_state, guardian_error, 'a) comp" where
  "on_limits m s = (case m (ds_rate_limits s) of (r, l) \<Rightarrow> (map_err rate_limit_error r, s \<lparr> ds_rate_limits := l \<rparr>))"

definition rate_limit_commitment ::
  "('sig, 'pk, 'su, 'n) dash_env \<Rightarrow> string \<Rightarrow> string \<Rightarrow> (dashboard_state, guardian_error, unit) comp" where
  "rate_limit_commitment D endpoint commitment =
     (let cfg = dc_commitment_rate_limit (dx_config D);
          key = ''endpoint:'' @ endpoint @ ''|commitment:'' @ commitment in
      if \<not> rl_enabled cfg then okS ()
      else bindS (on_limits (check_burst cfg (dx_tick D) key)) (\<lambda>_. on_limits (check_sustained cfg (dx_tick D) key)))"

definition session_cookie_header :: "('sig, 'pk, 'su, 'n) dash_env \<Rightarrow> string \<Rightarrow> int \<Rightarrow> int \<Rightarrow> string" where
  "session_cookie_header D token issued_at expires_at =
     dc_cookie_name (dx_config D) @ ''='' @ token @ ''; HttpOnly; SameSite=Strict; Path=/; Max-Age='' @
       show_nat (nat (max 0 ((expires_at - issued_at) div 1000000000))) @ ''; Expires='' @ dx_cookie_date D expires_at"

definition clear_cookie_header :: "('sig, 'pk, 'su, 'n) dash_env \<Rightarrow> string" where
  "clear_cookie_header D = dc_cookie_name (dx_config D) @
     ''=; HttpOnly; SameSite=Strict; Path=/; Max-Age=0; Expires=Thu, 01 Jan 1970 00:00:00 GMT''"

record operator_challenge =
  oc_payload :: operator_challenge_payload
  oc_signing_digest :: string

definition lookup_name :: "('sig, 'pk, 'su, 'n) externals \<Rightarrow> string \<Rightarrow> string" where
  "lookup_name X commitment = (case normalize_commitment X commitment of Inr c \<Rightarrow> c | Inl _ \<Rightarrow> commitment)"

definition newest_challenges :: "nat \<Rightarrow> pending_challenge list \<Rightarrow> pending_challenge list" where
  "newest_challenges n pending =
     (if length pending > n then drop (length pending - n) (sort_key pc_issued_at pending) else pending)"

definition issue_challenge ::
  "('sig, 'pk, 'su, 'n) dash_env \<Rightarrow> allowlist_io \<Rightarrow> string \<Rightarrow> int \<Rightarrow> string
   \<Rightarrow> (dashboard_state, guardian_error, operator_challenge) comp" where
  "issue_challenge D io commitment now random =
     bindS (refresh_allowlist D io) (\<lambda>_.
     bindS (rate_limit_commitment D ''challenge'' commitment) (\<lambda>_.
     let X = dx_ext D; cfg = dx_config D; normalized = lookup_name X commitment;
         payload = \<lparr> ocp_domain = dc_canonical_domain cfg, ocp_commitment = normalized, ocp_nonce = random_hex D random,
                     ocp_expires_at = to_rfc3339 (dx_chrono D) (now + dc_nonce_ttl cfg) \<rparr> in
     bindS (liftS (map_err (\<lambda>e. ConfigurationError (''Failed to create challenge digest: '' @ e))
       (signing_digest X payload))) (\<lambda>digest s.
     (Inr \<lparr> oc_payload = payload, oc_signing_digest = word_into_hex X digest \<rparr>,
      case dir_get (ds_allowlist s) normalized of
        None \<Rightarrow> s
      | Some _ \<Rightarrow>
          let pending = filter (\<lambda>c. pc_expires_at c > now) (pending_of (ds_challenges s) normalized) @
                [\<lparr> pc_signing_digest = digest, pc_issued_at = now, pc_expires_at = now + dc_nonce_ttl cfg \<rparr>] in
          s \<lparr> ds_challenges := dir_put normalized
                (newest_challenges (dc_max_outstanding_challenges cfg) pending) (ds_challenges s) \<rparr>))))"

definition matching_challenge :: "('sig, 'pk, 'su, 'n) externals \<Rightarrow> 'sig \<Rightarrow> pending_challenge list \<Rightarrow> nat option" where
  "matching_challenge X signature =
     position (\<lambda>c. sig_verify X signature (pc_signing_digest c) (sig_public_key X signature))"

definition operator_verify ::
  "('sig, 'pk, 'su, 'n) dash_env \<Rightarrow> allowlist_io \<Rightarrow> string \<Rightarrow> string \<Rightarrow> int \<Rightarrow> string
   \<Rightarrow> (dashboard_state, guardian_error, issued_session) comp" where
  "operator_verify D io commitment signature_hex now random =
     (let X = dx_ext D; invalid = AuthenticationFailed ''Invalid operator credentials'' in
      bindS (refresh_allowlist D io) (\<lambda>_.
      bindS (rate_limit_commitment D ''verify'' commitment) (\<lambda>_.
      bindS (liftS (map_err (\<lambda>_. invalid) (normalize_commitment X commitment))) (\<lambda>normalized.
      bindS (\<lambda>s. (ok_or invalid (dir_get (ds_allowlist s) normalized), s)) (\<lambda>operator.
      bindS (liftS (map_err (\<lambda>_. invalid) (signature_from_hex X signature_hex))) (\<lambda>signature.
      if word_into_hex X (pk_to_commitment X (sig_public_key X signature)) \<noteq> normalized then errS invalid
      else (\<lambda>s.
        let pending = filter (\<lambda>c. pc_expires_at c > now) (pending_of (ds_challenges s) normalized) in
        case matching_challenge X signature pending of
          None \<Rightarrow> (Inl invalid, s \<lparr> ds_challenges := put_or_remove normalized pending (ds_challenges s) \<rparr>)
        | Some index \<Rightarrow>
            let s = s \<lparr> ds_challenges := put_or_remove normalized (remove_nth index pending) (ds_challenges s) \<rparr>;
                expires_at = now + dc_session_ttl (dx_config D);
                identity = \<lparr> op_operator_id = op_operator_id operator, op_commitment = op_commitment operator \<rparr>;
                token = random_hex D random;
                sessions = dir_retain (\<lambda>_ r. os_expires_at r > now) (ds_sessions s) in
            (Inr \<lparr> is_operator = identity, is_expires_at = to_rfc3339 (dx_chrono D) expires_at,
                   is_cookie_header = session_cookie_header D token now expires_at \<rparr>,
             s \<lparr> ds_sessions := dir_put token
                   \<lparr> os_operator = identity, os_issued_at = now, os_expires_at = expires_at \<rparr> sessions \<rparr>))))))))"

definition authenticate_session ::
  "('sig, 'pk, 'su, 'n) dash_env \<Rightarrow> allowlist_io \<Rightarrow> string \<Rightarrow> int \<Rightarrow> (dashboard_state, guardian_error, operator) comp" where
  "authenticate_session D io token now =
     bindS (refresh_allowlist D io) (\<lambda>_ s.
     let invalid = AuthenticationFailed ''Invalid operator session'';
         sessions = dir_retain (\<lambda>_ r. os_expires_at r > now) (ds_sessions s);
         s = s \<lparr> ds_sessions := sessions \<rparr> in
     case dir_get sessions token of
       None \<Rightarrow> (Inl invalid, s)
     | Some session \<Rightarrow>
         if dir_get (ds_allowlist s) (op_commitment (os_operator session)) = None
         then (Inl invalid, s \<lparr> ds_sessions := dir_del token sessions \<rparr>)
         else (Inr (os_operator session), s))"

definition operator_logout :: "string option \<Rightarrow> int \<Rightarrow> dashboard_state \<Rightarrow> dashboard_state" where
  "operator_logout token now s =
     (let sessions = dir_retain (\<lambda>_ r. os_expires_at r > now) (ds_sessions s) in
      s \<lparr> ds_sessions := (case token of Some t \<Rightarrow> dir_del t sessions | None \<Rightarrow> sessions) \<rparr>)"

section \<open>The session middleware (dashboard/middleware.rs)\<close>

fun split_once :: "char \<Rightarrow> string \<Rightarrow> (string \<times> string) option" where
  "split_once sep [] = None"
| "split_once sep (c # cs) =
     (if c = sep then Some ([], cs) else map_option (\<lambda>(a, b). (c # a, b)) (split_once sep cs))"

definition extract_cookie :: "headers \<Rightarrow> string \<Rightarrow> string option" where
  "extract_cookie hs cookie_name =
     Option.bind (Option.bind (hs ''cookie'') id) (\<lambda>raw.
       find_map (\<lambda>item. Option.bind (split_once (CHR ''='') (trim_str item)) (\<lambda>(name, v).
         if name = cookie_name then Some v else None)) (split_on (CHR '';'') raw))"

text \<open>The inner service gets the operator as an extension of the request.\<close>

definition require_dashboard_session ::
  "('sig, 'pk, 'su, 'n) dash_env \<Rightarrow> allowlist_io \<Rightarrow> headers \<Rightarrow> int \<Rightarrow> (operator \<Rightarrow> (dashboard_state, guardian_error, 'a) comp)
   \<Rightarrow> (dashboard_state, guardian_error, 'a) comp" where
  "require_dashboard_session D io hs now inner =
     bindS (liftS (ok_or (AuthenticationFailed ''Invalid operator session'')
       (extract_cookie hs (dc_cookie_name (dx_config D))))) (\<lambda>token.
     bindS (authenticate_session D io token now) inner)"

section \<open>The contract\<close>

datatype operator_login =
    OpIssue allowlist_io string int string
  | OpVerify allowlist_io string string int string
  | OpAuthenticate allowlist_io string int
  | OpLogout "string option" int

text \<open>The challenge that a successful \<open>verify\<close> answers, and that a successful \<open>issue_challenge\<close> stores.\<close>

definition op_matched :: "('sig, 'pk, 'su, 'n) dash_env \<Rightarrow> string \<Rightarrow> string \<Rightarrow> int \<Rightarrow> dashboard_state \<Rightarrow> pending_challenge" where
  "op_matched D commitment signature_hex now s =
     (let pending = filter (\<lambda>c. pc_expires_at c > now) (pending_of (ds_challenges s) (lookup_name (dx_ext D) commitment)) in
      case signature_from_hex (dx_ext D) signature_hex of
        Inr signature \<Rightarrow> pending ! the (matching_challenge (dx_ext D) signature pending)
      | Inl _ \<Rightarrow> pending ! 0)"

definition op_issued :: "('sig, 'pk, 'su, 'n) dash_env \<Rightarrow> int \<Rightarrow> operator_challenge \<Rightarrow> pending_challenge option" where
  "op_issued D now c =
     map_option (\<lambda>d. \<lparr> pc_signing_digest = d, pc_issued_at = now, pc_expires_at = now + dc_nonce_ttl (dx_config D) \<rparr>)
       (res_ok (signing_digest (dx_ext D) (oc_payload c)))"

definition operator_login_step ::
  "('sig, 'pk, 'su, 'n) dash_env \<Rightarrow> operator_login \<Rightarrow> dashboard_state
   \<Rightarrow> (string, pending_challenge) session_event \<times> dashboard_state" where
  "operator_login_step D req s =
     (case req of
        OpIssue io commitment now random \<Rightarrow>
          (case issue_challenge D io commitment now random s of
             (Inr c, s') \<Rightarrow>
               (case (dir_get (ds_allowlist s') (lookup_name (dx_ext D) commitment), op_issued D now c) of
                  (Some _, Some p) \<Rightarrow> Issued (lookup_name (dx_ext D) commitment) p | _ \<Rightarrow> Quiet, s')
           | (Inl _, s') \<Rightarrow> (Quiet, s'))
      | OpVerify io commitment signature_hex now random \<Rightarrow>
          (case operator_verify D io commitment signature_hex now random s of
             (Inr v, s') \<Rightarrow> (Verified (op_commitment (is_operator v)) (op_matched D commitment signature_hex now s)
                              (random_hex D random) (now + dc_session_ttl (dx_config D)), s')
           | (Inl _, s') \<Rightarrow> (Quiet, s'))
      | OpAuthenticate io token now \<Rightarrow>
          (case authenticate_session D io token now s of
             (Inr operator, s') \<Rightarrow> (Authenticated (op_commitment operator) token now, s') | (Inl _, s') \<Rightarrow> (Quiet, s'))
      | OpLogout token now \<Rightarrow>
          (case token of Some t \<Rightarrow> LoggedOut t | None \<Rightarrow> Quiet, operator_logout token now s))"

definition op_pend :: "dashboard_state \<Rightarrow> string \<Rightarrow> pending_challenge list" where
  "op_pend s i = pending_of (ds_challenges s) i"

definition op_sess :: "dashboard_state \<Rightarrow> string \<Rightarrow> (string \<times> int) option" where
  "op_sess s t = map_option (\<lambda>r. (op_commitment (os_operator r), os_expires_at r)) (dir_get (ds_sessions s) t)"

text \<open>The identity has signed the digest of the challenge, with a key whose commitment it is.\<close>

definition op_answered :: "('sig, 'pk, 'su, 'n) dash_env \<Rightarrow> string \<Rightarrow> pending_challenge \<Rightarrow> bool" where
  "op_answered D i c \<longleftrightarrow> (\<exists>signature. sig_verify (dx_ext D) signature (pc_signing_digest c) (sig_public_key (dx_ext D) signature) \<and>
     word_into_hex (dx_ext D) (pk_to_commitment (dx_ext D) (sig_public_key (dx_ext D) signature)) = i)"

text \<open>The allowlist maps a commitment to the operator of that commitment; the sessions are a map.\<close>

definition names_ok :: "allowlist \<Rightarrow> bool" where
  "names_ok al \<longleftrightarrow> (\<forall>c p. dir_get al c = Some p \<longrightarrow> op_commitment p = c)"

definition dash_inv :: "dashboard_state \<Rightarrow> bool" where
  "dash_inv s \<longleftrightarrow> dir_wf (ds_sessions s) \<and> names_ok (ds_allowlist s)"

definition op_step ::
  "('sig, 'pk, 'su, 'n) dash_env \<Rightarrow> dashboard_state \<Rightarrow> (string, pending_challenge) session_event \<Rightarrow> dashboard_state \<Rightarrow> bool" where
  "op_step D s ev s' \<longleftrightarrow> dash_inv s \<and> (\<exists>req. operator_login_step D req s = (ev, s'))"

lemma names_okD: "names_ok al \<Longrightarrow> dir_get al c = Some p \<Longrightarrow> op_commitment p = c"
  by (simp add: names_ok_def)

lemma names_ok_put: "names_ok al \<Longrightarrow> op_commitment p = c \<Longrightarrow> names_ok (dir_put c p al)"
  unfolding names_ok_def by (intro allI impI) (metis dir_get_put option.inject)

lemma add_public_keys_names:
  "add_public_keys X label i al keys = Inr al' \<Longrightarrow> names_ok al \<Longrightarrow> names_ok al'"
proof (induction keys arbitrary: i al)
  case (Cons key keys)
  then obtain pk where
    "add_public_keys X label (i + 1) (dir_put (word_into_hex X (pk_to_commitment X pk))
      \<lparr> op_operator_id = word_into_hex X (pk_to_commitment X pk), op_commitment = word_into_hex X (pk_to_commitment X pk) \<rparr> al) keys = Inr al'"
    by (cases "public_key_from_hex X (trim_str key)") (auto simp: Let_def split: if_splits)
  from Cons.IH[OF this] show ?case using Cons.prems(2) by (simp add: names_ok_put)
qed simp

lemma allowlist_load_names: "allowlist_load_dynamic X io src = Inr (Some al) \<Longrightarrow> names_ok al"
proof -
  have nil: "names_ok []" by (simp add: names_ok_def)
  assume "allowlist_load_dynamic X io src = Inr (Some al)"
  then have "allowlist_load X io src = Inr al"
    by (cases src; cases "allowlist_load X io src") (auto simp: allowlist_load_dynamic_def)
  then show ?thesis
    using nil by (cases src) (auto simp: allowlist_load_def allowlist_from_json_def result_simps intro: add_public_keys_names)
qed

lemma refresh_run:
  assumes "refresh_allowlist D io s = (r, s')"
  shows "ds_challenges s' = ds_challenges s" and "ds_sessions s' = ds_sessions s" and "dash_inv s \<Longrightarrow> dash_inv s'"
  using assms allowlist_load_names[of "dx_ext D" io "dx_source D"]
  by (auto simp: refresh_allowlist_def dash_inv_def split: sum.splits option.splits)

lemma on_limits_run: "on_limits m s = (r, s') \<Longrightarrow> \<exists>l. s' = s \<lparr> ds_rate_limits := l \<rparr>"
  by (auto simp: on_limits_def split: prod.splits)

lemma rate_limit_commitment_run:
  "rate_limit_commitment D endpoint c s = (r, s') \<Longrightarrow> \<exists>l. s' = s \<lparr> ds_rate_limits := l \<rparr>"
proof -
  assume a: "rate_limit_commitment D endpoint c s = (r, s')"
  have "(\<exists>l. s' = s \<lparr> ds_rate_limits := l \<rparr>) \<or> s' = s"
    using a by (auto simp: rate_limit_commitment_def Let_def bindS_def split: if_splits prod.splits sum.splits dest!: on_limits_run)
  then show ?thesis by (metis dashboard_state.surjective dashboard_state.update_convs(4))
qed

text \<open>The two guards at the start of an operation change neither challenges nor sessions.\<close>

lemma guards_run:
  assumes "bindS (refresh_allowlist D io) (\<lambda>_. bindS (rate_limit_commitment D endpoint c) (\<lambda>_. k)) s = (r, s')"
  obtains (failed) e where "r = Inl e" "ds_challenges s' = ds_challenges s" "ds_sessions s' = ds_sessions s" "dash_inv s \<Longrightarrow> dash_inv s'"
  | (passed) s1 where "k s1 = (r, s')" "ds_challenges s1 = ds_challenges s" "ds_sessions s1 = ds_sessions s" "dash_inv s \<Longrightarrow> dash_inv s1"
proof -
  obtain r1 s1 where 1: "refresh_allowlist D io s = (r1, s1)" by fastforce
  obtain r2 s2 where 2: "rate_limit_commitment D endpoint c s1 = (r2, s2)" by fastforce
  from rate_limit_commitment_run[OF 2] obtain l where l: "s2 = s1 \<lparr> ds_rate_limits := l \<rparr>" by blast
  show thesis
  proof (cases r1)
    case (Inl e)
    then have "r = Inl e" "s' = s1" using assms 1 by (simp_all add: bindS_def)
    then show thesis using refresh_run[OF 1] by (intro failed[of e]) simp_all
  next
    case (Inr u)
    show thesis
    proof (cases r2)
      case (Inl e)
      then have "r = Inl e" "s' = s2" using assms 1 2 \<open>r1 = Inr u\<close> by (simp_all add: bindS_def)
      then show thesis using refresh_run[OF 1] l by (intro failed[of e]) (simp_all add: dash_inv_def)
    next
      case (Inr v)
      then have "k s2 = (r, s')" using assms 1 2 \<open>r1 = Inr u\<close> by (simp add: bindS_def)
      then show thesis using refresh_run[OF 1] l by (intro passed[of s2]) (simp_all add: dash_inv_def)
    qed
  qed
qed

lemma mset_newest: "mset (newest_challenges n (filter p xs @ [c])) \<subseteq># add_mset c (mset xs)"
proof -
  have "mset (newest_challenges n (filter p xs @ [c])) \<subseteq># mset (filter p xs @ [c])"
    using mset_drop_subset[of "length (filter p xs @ [c]) - n" "sort_key pc_issued_at (filter p xs @ [c])"]
    unfolding newest_challenges_def by (simp only: mset_sort subset_mset.order_refl split: if_split) simp
  also have "\<dots> \<subseteq># add_mset c (mset xs)" by simp
  finally show ?thesis .
qed

lemma issue_run:
  assumes "issue_challenge D io commitment now random s = (r, s')" and "dash_inv s"
  shows "ds_sessions s' = ds_sessions s" and "dash_inv s'"
    and "case r of Inl _ \<Rightarrow> op_pend s' i = op_pend s i
      | Inr c \<Rightarrow> (\<exists>p. op_issued D now c = Some p \<and>
          (if dir_get (ds_allowlist s') (lookup_name (dx_ext D) commitment) = None \<or> i \<noteq> lookup_name (dx_ext D) commitment
           then op_pend s' i = op_pend s i
           else mset (op_pend s' i) \<subseteq># add_mset p (mset (op_pend s i))))"
proof -
  show "ds_sessions s' = ds_sessions s"
    using assms(1)[unfolded issue_challenge_def]
    by (cases rule: guards_run) (auto simp: Let_def bindS_def split: sum.splits option.splits)
  show "dash_inv s'"
    using assms(1)[unfolded issue_challenge_def] assms(2)
    by (cases rule: guards_run) (auto simp: Let_def bindS_def dash_inv_def split: sum.splits option.splits)
  show "case r of Inl _ \<Rightarrow> op_pend s' i = op_pend s i
      | Inr c \<Rightarrow> (\<exists>p. op_issued D now c = Some p \<and>
          (if dir_get (ds_allowlist s') (lookup_name (dx_ext D) commitment) = None \<or> i \<noteq> lookup_name (dx_ext D) commitment
           then op_pend s' i = op_pend s i
           else mset (op_pend s' i) \<subseteq># add_mset p (mset (op_pend s i))))"
    using assms(1)[unfolded issue_challenge_def] mset_newest
    by (cases rule: guards_run) (auto simp: Let_def bindS_def op_issued_def op_pend_def split: sum.splits option.splits)
qed

lemma operator_verify_run:
  assumes "operator_verify D io commitment signature_hex now random s = (r, s')" and "dash_inv s"
  shows "(case r of
      Inl _ \<Rightarrow> ds_sessions s' = ds_sessions s \<and> mset (op_pend s' i) \<subseteq># mset (op_pend s i)
    | Inr v \<Rightarrow> (\<exists>k sg. let n = op_commitment (is_operator v);
          pending = filter (\<lambda>c. pc_expires_at c > now) (op_pend s n) in
        k < length pending \<and> op_matched D commitment signature_hex now s = pending ! k \<and>
        sig_verify (dx_ext D) sg (pc_signing_digest (pending ! k)) (sig_public_key (dx_ext D) sg) \<and>
        word_into_hex (dx_ext D) (pk_to_commitment (dx_ext D) (sig_public_key (dx_ext D) sg)) = n \<and>
        op_pend s' i = (if i = n then remove_nth k pending else op_pend s i) \<and>
        ds_sessions s' = dir_put (random_hex D random)
          \<lparr> os_operator = is_operator v, os_issued_at = now, os_expires_at = now + dc_session_ttl (dx_config D) \<rparr>
          (dir_retain (\<lambda>_ r. os_expires_at r > now) (ds_sessions s)))) \<and> dash_inv s'"
  using assms(1)[unfolded operator_verify_def Let_def]
proof (cases rule: guards_run)
  case (failed e)
  then show ?thesis using assms(2) by (simp add: op_pend_def)
next
  case (passed s1)
  let ?X = "dx_ext D"
  have inv1: "dash_inv s1" using passed assms(2) by simp
  show ?thesis
  proof (cases "normalize_commitment ?X commitment")
    case (Inl e)
    then show ?thesis using passed inv1 by (auto simp: bindS_def op_pend_def)
  next
    case n: (Inr n)
    show ?thesis
    proof (cases "dir_get (ds_allowlist s1) n")
      case None
      then show ?thesis using passed inv1 n by (auto simp: bindS_def op_pend_def)
    next
      case p: (Some p)
      then have pn: "op_commitment p = n" using inv1 names_okD by (auto simp: dash_inv_def)
      show ?thesis
      proof (cases "signature_from_hex ?X signature_hex")
        case (Inl e)
        then show ?thesis using passed inv1 n p by (auto simp: bindS_def op_pend_def)
      next
        case sg: (Inr sg)
        let ?p = "filter (\<lambda>c. pc_expires_at c > now) (pending_of (ds_challenges s1) n)"
        show ?thesis
        proof (cases "word_into_hex ?X (pk_to_commitment ?X (sig_public_key ?X sg)) = n")
          case False
          then show ?thesis using passed inv1 n p sg by (auto simp: bindS_def op_pend_def)
        next
          case True
          show ?thesis
          proof (cases "matching_challenge ?X sg ?p")
            case None
            then show ?thesis
              using passed inv1 n p sg True by (auto simp: bindS_def op_pend_def Let_def dash_inv_def)
          next
            case (Some k)
            then have k: "k < length ?p" "sig_verify ?X sg (pc_signing_digest (?p ! k)) (sig_public_key ?X sg)"
              using position_Some unfolding matching_challenge_def by blast+
            have m: "op_matched D commitment signature_hex now s = ?p ! k"
              using passed n sg Some by (simp add: op_matched_def lookup_name_def Let_def)
            have out: "r = Inr \<lparr> is_operator = \<lparr> op_operator_id = op_operator_id p, op_commitment = n \<rparr>,
                is_expires_at = to_rfc3339 (dx_chrono D) (now + dc_session_ttl (dx_config D)),
                is_cookie_header = session_cookie_header D (random_hex D random) now (now + dc_session_ttl (dx_config D)) \<rparr>"
              "s' = s1 \<lparr> ds_challenges := put_or_remove n (remove_nth k ?p) (ds_challenges s1),
                ds_sessions := dir_put (random_hex D random) \<lparr> os_operator = \<lparr> op_operator_id = op_operator_id p, op_commitment = n \<rparr>,
                  os_issued_at = now, os_expires_at = now + dc_session_ttl (dx_config D) \<rparr>
                  (dir_retain (\<lambda>_ r. os_expires_at r > now) (ds_sessions s1)) \<rparr>"
              using passed n p pn sg True Some by (auto simp: bindS_def Let_def)
            show ?thesis
              unfolding out using k m True passed(2,3) inv1
              by (auto simp: Let_def op_pend_def dash_inv_def intro!: exI[of _ k] exI[of _ sg])
          qed
        qed
      qed
    qed
  qed
qed

lemma authenticate_run:
  assumes "authenticate_session D io token now s = (r, s')" and "dash_inv s"
  shows "dash_inv s'" and "ds_challenges s' = ds_challenges s" and "dir_get (ds_sessions s') \<subseteq>\<^sub>m dir_get (ds_sessions s)"
    and "r = Inr operator \<Longrightarrow> (\<exists>x. dir_get (ds_sessions s) token = Some x \<and> os_operator x = operator \<and> now < os_expires_at x) \<and>
      dir_get (ds_allowlist s') (op_commitment operator) \<noteq> None"
proof -
  obtain r1 s1 where 1: "refresh_allowlist D io s = (r1, s1)" by fastforce
  note h = refresh_run[OF 1]
  have wf: "dir_wf (ds_sessions s)" using assms(2) by (simp add: dash_inv_def)
  have del: "dir_get (dir_del t d) \<subseteq>\<^sub>m dir_get d" for t and d :: "(string, operator_session) dir"
    by (auto simp: map_le_def)
  note sub = dir_retain_map_le[OF wf, of "\<lambda>_ r. os_expires_at r > now"] map_le_trans[OF del dir_retain_map_le[OF wf]]
  show "dash_inv s'"
    using assms 1 h by (auto simp: authenticate_session_def bindS_def Let_def dash_inv_def split: sum.splits option.splits if_splits)
  show "ds_challenges s' = ds_challenges s"
    using assms(1) 1 h by (auto simp: authenticate_session_def bindS_def Let_def split: sum.splits option.splits if_splits)
  show "dir_get (ds_sessions s') \<subseteq>\<^sub>m dir_get (ds_sessions s)"
    using assms(1) 1 h sub by (auto simp: authenticate_session_def bindS_def Let_def split: sum.splits option.splits if_splits)
  show "(\<exists>x. dir_get (ds_sessions s) token = Some x \<and> os_operator x = operator \<and> now < os_expires_at x) \<and>
      dir_get (ds_allowlist s') (op_commitment operator) \<noteq> None" if "r = Inr operator"
    using assms(1) 1 h wf that
    by (auto simp: authenticate_session_def bindS_def Let_def dir_get_retain split: sum.splits option.splits if_splits)
qed

lemma op_sess_alt: "op_sess s = map_option (\<lambda>r. (op_commitment (os_operator r), os_expires_at r)) \<circ> dir_get (ds_sessions s)"
  by (auto simp: op_sess_def)

lemma op_login_cases:
  assumes "operator_login_step D req s = (ev, s')"
  obtains (issue) io c now random r where "req = OpIssue io c now random" "issue_challenge D io c now random s = (r, s')"
  | (verify) io c sg now random r where "req = OpVerify io c sg now random" "operator_verify D io c sg now random s = (r, s')"
  | (auth) io t now r where "req = OpAuthenticate io t now" "authenticate_session D io t now s = (r, s')"
  | (logout) t now where "req = OpLogout t now" "s' = operator_logout t now s"
  using assms by (cases req) (auto simp: operator_login_step_def split: prod.splits sum.splits)

lemma op_step_pend:
  assumes "operator_login_step D req s = (ev, s')" and inv: "dash_inv s"
  shows "mset (op_pend s' i) \<subseteq>#
      (case ev of Issued j c \<Rightarrow> (if j = i then add_mset c (mset (op_pend s i)) else mset (op_pend s i))
       | Verified j c t e \<Rightarrow> (if j = i then mset (op_pend s i) - {#c#} else mset (op_pend s i))
       | _ \<Rightarrow> mset (op_pend s i))"
  using assms(1)
proof (cases rule: op_login_cases)
  case (issue io c now random r)
  then show ?thesis
    using issue_run(3)[OF issue(2) inv, of i] assms(1) by (auto simp: operator_login_step_def split: sum.splits option.splits if_splits)
next
  case (verify io c sg now random r)
  show ?thesis
  proof (cases r)
    case (Inl e)
    then show ?thesis using operator_verify_run[OF verify(2) inv, of i] assms(1) verify by (auto simp: operator_login_step_def)
  next
    case (Inr v)
    let ?p = "filter (\<lambda>c. pc_expires_at c > now) (op_pend s (op_commitment (is_operator v)))"
    from operator_verify_run[OF verify(2) inv, of i] Inr obtain k where k: "k < length ?p" "op_matched D c sg now s = ?p ! k"
      "op_pend s' i = (if i = op_commitment (is_operator v) then remove_nth k ?p else op_pend s i)"
      by (auto simp: Let_def)
    have "mset ?p - {#?p ! k#} \<subseteq># mset (op_pend s (op_commitment (is_operator v))) - {#?p ! k#}"
      by (rule mset_diff_mono) simp
    then show ?thesis
      using assms(1) verify Inr k by (auto simp: operator_login_step_def mset_remove_nth)
  qed
next
  case (auth io t now r)
  then show ?thesis using authenticate_run(2)[OF auth(2) inv] assms(1) by (auto simp: operator_login_step_def op_pend_def split: sum.splits)
next
  case (logout t now)
  then show ?thesis using assms(1) by (auto simp: operator_login_step_def op_pend_def operator_logout_def Let_def split: option.splits)
qed

lemma op_step_inv:
  assumes "operator_login_step D req s = (ev, s')" and inv: "dash_inv s"
  shows "dash_inv s'"
  using assms(1)
proof (cases rule: op_login_cases)
  case (logout t now)
  then show ?thesis using inv by (simp add: operator_logout_def dash_inv_def Let_def split: option.splits)
next
  case (issue io c now random r)
  show ?thesis by (rule issue_run(2)[OF issue(2) inv])
next
  case (verify io c sg now random r)
  then show ?thesis using operator_verify_run[OF verify(2) inv, of "[]"] by simp
next
  case (auth io t now r)
  show ?thesis by (rule authenticate_run(1)[OF auth(2) inv])
qed

lemma op_step_sess:
  assumes "operator_login_step D req s = (ev, s')" and inv: "dash_inv s"
  shows "op_sess s' \<subseteq>\<^sub>m
    (case ev of Verified j c t e \<Rightarrow> (op_sess s)(t \<mapsto> (j, e)) | LoggedOut t \<Rightarrow> (op_sess s)(t := None) | _ \<Rightarrow> op_sess s)"
  using assms(1)
proof (cases rule: op_login_cases)
  case (issue io c now random r)
  then show ?thesis
    using issue_run(1)[OF issue(2) inv] assms(1) by (auto simp: operator_login_step_def op_sess_alt split: sum.splits option.splits)
next
  case (verify io c sg now random r)
  have wf: "dir_wf (ds_sessions s)" using inv by (simp add: dash_inv_def)
  show ?thesis
  proof (cases r)
    case (Inl e)
    then show ?thesis using operator_verify_run[OF verify(2) inv, of "[]"] assms(1) verify by (auto simp: operator_login_step_def op_sess_alt)
  next
    case (Inr v)
    let ?f = "\<lambda>r. (op_commitment (os_operator r), os_expires_at r)"
    from operator_verify_run[OF verify(2) inv, of "[]"] Inr
    have "op_sess s' = (map_option ?f \<circ> dir_get (dir_retain (\<lambda>_ r. os_expires_at r > now) (ds_sessions s)))
      (random_hex D random \<mapsto> (op_commitment (is_operator v), now + dc_session_ttl (dx_config D)))"
      by (auto simp: op_sess_alt Let_def)
    then show ?thesis
      using assms(1) verify Inr map_le_upd[OF map_le_comp[OF dir_retain_map_le[OF wf]]]
      by (auto simp: operator_login_step_def op_sess_alt)
  qed
next
  case (auth io t now r)
  then show ?thesis using map_le_comp[OF authenticate_run(3)[OF auth(2) inv]] assms(1)
    by (auto simp: operator_login_step_def op_sess_alt split: sum.splits)
next
  case (logout t now)
  have wf: "dir_wf (ds_sessions s)" using inv by (simp add: dash_inv_def)
  let ?m = "map_option (\<lambda>r. (op_commitment (os_operator r), os_expires_at r)) \<circ> dir_get (dir_retain (\<lambda>_ r. os_expires_at r > now) (ds_sessions s))"
  have "op_sess s' = (case t of Some k \<Rightarrow> ?m(k := None) | None \<Rightarrow> ?m)"
    using logout(2) by (auto simp: op_sess_alt operator_logout_def Let_def split: option.splits)
  then show ?thesis
    using assms(1) logout map_le_upd[OF map_le_comp[OF dir_retain_map_le[OF wf]]] map_le_comp[OF dir_retain_map_le[OF wf]]
    by (auto simp: operator_login_step_def op_sess_alt split: option.splits)
qed

lemma op_step_verified:
  assumes "operator_login_step D req s = (Verified i c t e, s')" and inv: "dash_inv s"
  shows "c \<in> set (op_pend s i) \<and> op_answered D i c"
  using assms(1)
proof (cases rule: op_login_cases)
  case (verify io com sg now random r)
  then obtain v where r: "r = Inr v" and iv: "i = op_commitment (is_operator v)" "c = op_matched D com sg now s"
    using assms(1) by (auto simp: operator_login_step_def split: sum.splits)
  from operator_verify_run[OF verify(2) inv, of i] r show ?thesis
    using iv by (auto simp: Let_def op_answered_def dest!: nth_mem)
qed (use assms(1) in \<open>auto simp: operator_login_step_def split: sum.splits option.splits prod.splits\<close>)

lemma op_step_auth:
  assumes "operator_login_step D req s = (Authenticated i t now, s')" and inv: "dash_inv s"
  shows "\<exists>e. op_sess s t = Some (i, e) \<and> now < e"
  using assms(1)
proof (cases rule: op_login_cases)
  case (auth io t' now' r)
  then show ?thesis using authenticate_run(4)[OF auth(2) inv] assms(1)
    by (auto simp: operator_login_step_def op_sess_def split: sum.splits)
qed (use assms(1) in \<open>auto simp: operator_login_step_def split: sum.splits option.splits prod.splits\<close>)

interpretation operators: challenge_sessions op_pend op_sess "op_answered D" "op_step D"
  for D :: "('sig, 'pk, 'su, 'n) dash_env"
  by (unfold_locales; unfold op_step_def; blast intro: op_step_pend op_step_sess op_step_auth dest: op_step_verified)

fun operator_logins ::
  "('sig, 'pk, 'su, 'n) dash_env \<Rightarrow> operator_login list \<Rightarrow> dashboard_state
   \<Rightarrow> (string, pending_challenge) session_event list \<times> dashboard_state" where
  "operator_logins D [] s = ([], s)"
| "operator_logins D (req # reqs) s =
     (case operator_login_step D req s of (ev, s1) \<Rightarrow>
      case operator_logins D reqs s1 of (evs, s2) \<Rightarrow> (ev # evs, s2))"

abbreviation operator_run :: "('sig, 'pk, 'su, 'n) dash_env \<Rightarrow> dashboard_state
   \<Rightarrow> (string, pending_challenge) session_event list \<Rightarrow> dashboard_state \<Rightarrow> bool" where
  "operator_run D \<equiv> challenge_sessions.run (op_step D)"

lemma operator_logins_run:
  "operator_run D s0 tr s \<Longrightarrow> dash_inv s \<Longrightarrow> operator_logins D reqs s = (evs, s') \<Longrightarrow>
     operator_run D s0 (tr @ evs) s' \<and> dash_inv s'"
proof (induction reqs arbitrary: tr s evs)
  case (Cons req reqs)
  obtain ev s1 where one: "operator_login_step D req s = (ev, s1)" by fastforce
  then have "op_step D s ev s1" using Cons.prems(2) by (auto simp: op_step_def)
  then have "operator_run D s0 (tr @ [ev]) s1" using Cons.prems(1) operators.next_step by blast
  moreover obtain evs1 where "operator_logins D reqs s1 = (evs1, s')" "evs = ev # evs1"
    using Cons.prems(3) one by (auto split: prod.splits)
  ultimately show ?case
    using Cons.IH[of "tr @ [ev]" s1 evs1] op_step_inv[OF one Cons.prems(2)] by simp
qed simp

lemma dash_inv_new: "names_ok al \<Longrightarrow> dash_inv (dashboard_state_new D al)"
  by (simp add: dash_inv_def dashboard_state_new_def)

lemma operators_fresh: "operators.fresh (dashboard_state_new D al)"
  by (simp add: operators.fresh_def op_pend_def op_sess_def dashboard_state_new_def)

end
