(* ===== verification/Evm_U256.thy ===== *)
theory Evm_U256
  imports Guardian_Types "HOL-Library.Word"
begin

text \<open>
  The 256-bit nonces of EVM proposals (\<open>server/src/evm/proposal.rs\<close>): a \<open>[u8; 32]\<close> in big-endian order is a list of
  \<open>8 word\<close>, the carries and remainders are \<open>16 word\<close> as in the code. Parsing multiplies by ten and adds a digit,
  byte by byte with carry; printing divides by ten until nothing is left. The lemmas give each loop its
  meaning on the number \<open>be_val\<close> of the bytes, and show that no 16-bit operation overflows.
\<close>

unbundle bit_operations_syntax

type_synonym byte = "8 word"

definition be_val :: "byte list \<Rightarrow> nat" where
  "be_val bs = foldl (\<lambda>a b. a * 256 + unat b) 0 bs"

definition bytes_of :: "string \<Rightarrow> byte list" where
  "bytes_of s = map (\<lambda>c. word_of_nat (of_char c)) s"

definition string_of :: "byte list \<Rightarrow> string" where
  "string_of bs = map (\<lambda>b. char_of (unat b)) bs"

definition evm_error :: "string \<Rightarrow> guardian_error" where
  "evm_error m = InvalidEvmProposal m"

section \<open>Arithmetic on 32 bytes\<close>

definition mul_byte :: "byte \<Rightarrow> byte \<Rightarrow> byte list \<times> 16 word \<Rightarrow> byte list \<times> 16 word" where
  "mul_byte factor b = (\<lambda>(out, carry).
     let nxt = ucast b * ucast factor + carry :: 16 word in (ucast (nxt AND 0xff) # out, drop_bit 8 nxt))"

definition multiply_u256_small :: "byte list \<Rightarrow> byte \<Rightarrow> guardian_error + byte list" where
  "multiply_u256_small bytes factor =
     (case foldr (mul_byte factor) bytes ([], 0) of (out, carry) \<Rightarrow>
        if carry > 0 then Inl (evm_error ''nonce exceeds uint256'') else Inr out)"

text \<open>The loop of \<open>add_u256_small\<close> on the reversed bytes; it returns as soon as the carry is zero.\<close>

fun add_rev :: "16 word \<Rightarrow> byte list \<Rightarrow> byte list option" where
  "add_rev carry [] = None"
| "add_rev carry (b # bs) =
     (let nxt = ucast b + carry; b' = ucast (nxt AND 0xff); carry' = drop_bit 8 nxt in
      if carry' = 0 then Some (b' # bs) else map_option ((#) b') (add_rev carry' bs))"

definition add_u256_small :: "byte list \<Rightarrow> byte \<Rightarrow> guardian_error + byte list" where
  "add_u256_small bytes v =
     ok_or (evm_error ''nonce exceeds uint256'') (map_option rev (add_rev (ucast v) (rev bytes)))"

definition div_byte :: "byte \<Rightarrow> byte list \<times> 16 word \<Rightarrow> byte \<Rightarrow> byte list \<times> 16 word" where
  "div_byte divisor = (\<lambda>(out, remainder) b.
     let v = push_bit 8 remainder + ucast b in (out @ [ucast (v div ucast divisor)], v mod ucast divisor))"

definition div_mod_u256_small :: "byte list \<Rightarrow> byte \<Rightarrow> byte list \<times> byte" where
  "div_mod_u256_small bytes divisor =
     (case foldl (div_byte divisor) ([], 0) bytes of (out, remainder) \<Rightarrow> (out, ucast remainder))"

definition shift_right_64 :: "byte list \<Rightarrow> byte list" where
  "shift_right_64 bytes = map (\<lambda>i. if 8 \<le> i then bytes ! (i - 8) else 0) [0..<32]"

section \<open>Values\<close>

lemma be_val_Nil [simp]: "be_val [] = 0"
  by (simp add: be_val_def)

lemma foldl_be_val: "foldl (\<lambda>a b. a * 256 + unat (b :: byte)) v bs = v * 256 ^ length bs + be_val bs"
proof (induction bs arbitrary: v rule: rev_induct)
  case (snoc b bs)
  have "be_val (bs @ [b]) = be_val bs * 256 + unat b" by (simp add: be_val_def)
  then show ?case using snoc by (simp add: algebra_simps)
qed simp

lemma be_val_Cons: "be_val (b # bs) = unat b * 256 ^ length bs + be_val bs"
  using foldl_be_val[of "unat b" bs] by (simp add: be_val_def)

lemma be_val_append: "be_val (as @ bs) = be_val as * 256 ^ length bs + be_val bs"
  using foldl_be_val[of "be_val as" bs] by (simp add: be_val_def)

lemma be_val_snoc [simp]: "be_val (bs @ [b]) = be_val bs * 256 + unat b"
  by (simp add: be_val_append be_val_Cons)

lemma unat_byte: "unat (b :: byte) < 256"
  using unsigned_less[of b] by simp

lemma be_val_bound: "be_val bs < 256 ^ length bs"
proof (induction bs rule: rev_induct)
  case (snoc b bs)
  have "be_val (bs @ [b]) < be_val bs * 256 + 256" using unat_byte[of b] by simp
  also have "\<dots> \<le> 256 ^ length bs * 256" using snoc by simp
  finally show ?case by (simp add: mult.commute)
qed simp

text \<open>The 16-bit steps, as naturals.\<close>

lemma unat_u16_of_byte [simp]: "unat (ucast (b :: byte) :: 16 word) = unat b"
  using unat_byte[of b] by (simp add: unsigned_ucast_eq take_bit_nat_eq_self)

lemma split_u16:
  fixes n :: "16 word"
  shows "unat (ucast (n AND 0xff) :: byte) = unat n mod 256" and "unat (drop_bit 8 n) = unat n div 256"
proof -
  have "n AND 0xff = take_bit 8 n" by (simp add: take_bit_eq_mask mask_eq_exp_minus_1)
  then have "unat (ucast (n AND 0xff) :: byte) = take_bit 8 (unat n)"
    by (simp add: unsigned_ucast_eq unsigned_take_bit_eq)
  then show "unat (ucast (n AND 0xff) :: byte) = unat n mod 256" by (simp add: take_bit_eq_mod)
  show "unat (drop_bit 8 n) = unat n div 256"
    unfolding unat_drop_bit_eq by (simp add: drop_bit_eq_div)
qed

lemma unat_mul_step:
  assumes "unat c < 256"
  shows "unat (ucast (b :: byte) * ucast (f :: byte) + c :: 16 word) = unat b * unat f + unat c"
proof -
  have "unat b * unat f \<le> 255 * 255" using unat_byte[of b] unat_byte[of f] by (intro mult_le_mono) simp_all
  then have "unat b * unat f + unat c < 2 ^ 16" using assms by simp
  then show ?thesis by (simp add: unat_word_ariths)
qed

lemma mul_bytes:
  "foldr (mul_byte f) bs ([], 0) = (out, carry) \<Longrightarrow>
     length out = length bs \<and> unat carry < 256 \<and>
     be_val bs * unat f = unat carry * 256 ^ length bs + be_val out"
proof (induction bs arbitrary: out carry)
  case (Cons b bs)
  obtain out1 c1 where r: "foldr (mul_byte f) bs ([], 0) = (out1, c1)" by fastforce
  note IH = Cons.IH[OF r]
  let ?n = "ucast b * ucast f + c1 :: 16 word"
  have n: "unat ?n = unat b * unat f + unat c1" using unat_mul_step IH by blast
  have out: "out = ucast (?n AND 0xff) # out1" "carry = drop_bit 8 ?n"
    using Cons.prems r by (auto simp: mul_byte_def[of f b] Let_def)
  have "unat b * unat f \<le> 255 * 255" using unat_byte[of b] unat_byte[of f] by (intro mult_le_mono) simp_all
  then have "unat ?n < 256 * 256" using IH n by linarith
  then have "unat carry < 256" by (simp add: out split_u16 less_mult_imp_div_less)
  moreover have "be_val (b # bs) * unat f = unat carry * 256 ^ length (b # bs) + be_val out"
  proof -
    have "be_val (b # bs) * unat f = (unat b * unat f + unat c1) * 256 ^ length bs + be_val out1"
      using IH by (simp add: be_val_Cons algebra_simps)
    also have "\<dots> = (unat carry * 256 + unat (hd out)) * 256 ^ length bs + be_val out1"
      by (simp only: out list.sel split_u16 n div_mult_mod_eq)
    also have "\<dots> = unat carry * 256 ^ length (b # bs) + be_val out"
      using IH by (simp add: out(1) be_val_Cons algebra_simps)
    finally show ?thesis .
  qed
  ultimately show ?case using IH by (simp add: out)
qed simp

lemma multiply_u256_small_eq:
  "(case multiply_u256_small bs f of
      Inr out \<Rightarrow> length out = length bs \<and> be_val out = be_val bs * unat f
    | Inl e \<Rightarrow> 256 ^ length bs \<le> be_val bs * unat f \<and> e = evm_error ''nonce exceeds uint256'')"
proof -
  obtain out carry where r: "foldr (mul_byte f) bs ([], 0) = (out, carry)" by fastforce
  note h = mul_bytes[OF r]
  show ?thesis
  proof (cases "carry = 0")
    case True
    then show ?thesis using h r by (simp add: multiply_u256_small_def)
  next
    case False
    then have "1 \<le> unat carry" by (simp add: unat_gt_0 Suc_le_eq)
    then have "1 * 256 ^ length bs \<le> unat carry * 256 ^ length bs" by (rule mult_le_mono1)
    then have "256 ^ length bs \<le> be_val bs * unat f" using h by (elim conjE) linarith
    then show ?thesis using False r by (simp add: multiply_u256_small_def word_gt_0)
  qed
qed

lemma unat_add_step:
  assumes "unat c < 256"
  shows "unat (ucast (b :: byte) + c :: 16 word) = unat b + unat c"
  using unat_mul_step[OF assms, of b 1] by simp

lemma add_rev_eq:
  "unat c < 256 \<Longrightarrow> bs \<noteq> [] \<or> c \<noteq> 0 \<Longrightarrow> (case add_rev c bs of
      Some out \<Rightarrow> length out = length bs \<and> be_val (rev out) = be_val (rev bs) + unat c
    | None \<Rightarrow> 256 ^ length bs \<le> be_val (rev bs) + unat c)"
proof (induction c bs rule: add_rev.induct)
  case (1 carry)
  then show ?case by (simp add: Suc_le_eq unat_gt_0)
next
  case (2 c b bs)
  let ?n = "ucast b + c :: 16 word"
  have n: "unat ?n = unat b + unat c" using unat_add_step 2 by blast
  then have small: "unat (drop_bit 8 ?n) < 256"
    using 2 unat_byte[of b] by (simp add: split_u16)
  have val: "unat b + unat c = unat (drop_bit 8 ?n) * 256 + unat (ucast (?n AND 0xff) :: byte)"
    by (simp add: split_u16 n)
  show ?case
  proof (cases "drop_bit 8 ?n = 0")
    case True
    then show ?thesis using val by (simp add: Let_def)
  next
    case False
    then show ?thesis
      using 2(1)[OF refl refl refl False small] False val
      by (auto simp: Let_def split: option.splits)
  qed
qed

lemma add_u256_small_eq:
  assumes "bs \<noteq> []"
  shows "(case add_u256_small bs v of
      Inr out \<Rightarrow> length out = length bs \<and> be_val out = be_val bs + unat v
    | Inl e \<Rightarrow> 256 ^ length bs \<le> be_val bs + unat v \<and> e = evm_error ''nonce exceeds uint256'')"
  using add_rev_eq[of "ucast v" "rev bs"] assms unat_byte[of v]
  by (auto simp: add_u256_small_def split: option.splits)

lemma unat_div_step:
  assumes "unat (r :: 16 word) < unat (d :: byte)"
  shows "unat (push_bit 8 r + ucast (b :: byte)) = unat r * 256 + unat b" and "unat r * 256 + unat b < unat d * 256"
proof -
  have d: "unat d < 256" by (rule unat_byte)
  have b: "unat b < 256" by (rule unat_byte)
  have "unat r * 256 < 2 ^ 16" using assms d by simp
  then have "unat (push_bit 8 r) = unat r * 256"
    by (simp add: push_bit_eq_mult unat_word_ariths)
  moreover have "unat r * 256 + unat b < 2 ^ 16" using assms d b by simp
  ultimately show "unat (push_bit 8 r + ucast b) = unat r * 256 + unat b"
    by (simp add: unat_word_ariths)
  show "unat r * 256 + unat b < unat d * 256" using assms b by linarith
qed

lemma div_bytes:
  assumes "0 < unat d"
  shows "foldl (div_byte d) ([], 0) bs = (out, r) \<Longrightarrow>
    length out = length bs \<and> unat r < unat d \<and> be_val bs = be_val out * unat d + unat r"
proof (induction bs arbitrary: out r rule: rev_induct)
  case (snoc b bs)
  obtain out1 r1 where f: "foldl (div_byte d) ([], 0) bs = (out1, r1)" by fastforce
  note IH = snoc.IH[OF f]
  let ?v = "push_bit 8 r1 + ucast b :: 16 word"
  have v: "unat ?v = unat r1 * 256 + unat b" "unat ?v < unat d * 256"
    using unat_div_step[of r1 d b] IH by auto
  have out: "out = out1 @ [ucast (?v div ucast d)]" "r = ?v mod ucast d"
    using snoc.prems f by (auto simp: div_byte_def Let_def)
  have q: "unat (ucast (?v div ucast d) :: byte) = unat ?v div unat d"
  proof -
    have "unat ?v div unat d < 256" using v(2) by (simp add: less_mult_imp_div_less mult.commute)
    then show ?thesis by (simp add: unsigned_ucast_eq unat_div take_bit_nat_eq_self)
  qed
  have "be_val (bs @ [b]) = be_val out1 * unat d * 256 + unat ?v"
    using IH v(1) by (simp add: algebra_simps)
  moreover have "be_val out = be_val out1 * 256 + unat ?v div unat d" "unat r = unat ?v mod unat d"
    by (simp_all add: out q unat_mod)
  moreover have "unat ?v = unat ?v div unat d * unat d + unat ?v mod unat d"
    by (simp only: div_mult_mod_eq)
  ultimately have "be_val (bs @ [b]) = be_val out * unat d + unat r"
    by (simp only: distrib_right mult.assoc mult.commute[of "unat d" 256])
  moreover have "unat r < unat d" using assms by (simp add: out unat_mod)
  ultimately show ?case using IH by (simp add: out)
qed (use assms in simp)

lemma div_mod_10:
  assumes "div_mod_u256_small bs 10 = (out, r)"
  shows "length out = length bs" and "be_val out = be_val bs div 10" and "unat r = be_val bs mod 10"
proof -
  obtain out1 r1 where f: "foldl (div_byte 10) ([], 0) bs = (out1, r1)" by fastforce
  then have o: "out = out1" "r = ucast r1" using assms by (auto simp: div_mod_u256_small_def)
  have ten: "unat (10 :: byte) = 10" by simp
  note h = div_bytes[OF _ f, unfolded ten]
  then have "unat r1 < 10" by simp
  then have "unat r = unat r1" by (simp add: o unsigned_ucast_eq take_bit_nat_eq_self)
  with h show "length out = length bs" and "be_val out = be_val bs div 10" and "unat r = be_val bs mod 10"
    by (simp_all add: o)
qed

lemma be_val_0_iff: "be_val bs = 0 \<longleftrightarrow> list_all (\<lambda>b. b = 0) bs"
  by (induction bs) (auto simp: be_val_Cons unat_eq_0)

section \<open>Decimal and hexadecimal\<close>

function decimal_digits :: "byte list \<Rightarrow> string" where
  "decimal_digits work =
     (if list_all (\<lambda>b. b = 0) work then []
      else (case div_mod_u256_small work 10 of (q, r) \<Rightarrow> char_of (48 + unat r) # decimal_digits q))"
  by auto
termination
proof (relation "measure be_val")
  fix work q r assume "\<not> list_all (\<lambda>b. b = 0) work" "(q, r) = div_mod_u256_small work 10"
  then show "(q, work) \<in> measure be_val"
    using div_mod_10(2)[of work q r] be_val_0_iff[of work] by simp
qed simp

declare decimal_digits.simps [simp del]

definition u256_to_decimal :: "byte list \<Rightarrow> string" where
  "u256_to_decimal bytes = (if list_all (\<lambda>b. b = 0) bytes then ''0'' else rev (decimal_digits bytes))"

definition is_ascii_digit :: "char \<Rightarrow> bool" where
  "is_ascii_digit c = (48 \<le> (of_char c :: nat) \<and> (of_char c :: nat) \<le> 57)"

fun parse_decimal :: "byte list \<Rightarrow> string \<Rightarrow> guardian_error + byte list" where
  "parse_decimal bytes [] = Inr bytes"
| "parse_decimal bytes (c # cs) =
     bind_res (multiply_u256_small bytes 10) (\<lambda>bytes.
     bind_res (add_u256_small bytes (word_of_nat (of_char c - 48))) (\<lambda>bytes.
     parse_decimal bytes cs))"

definition parse_u256 :: "('sig, 'pk, 'su, 'n) externals \<Rightarrow> string \<Rightarrow> guardian_error + byte list" where
  "parse_u256 X v =
     (case strip_prefix ''0x'' v of
        Some hex_value \<Rightarrow>
          if length hex_value > 64 then Inl (evm_error ''nonce exceeds uint256'')
          else if \<not> list_all is_hexdigit hex_value then Inl (evm_error ''nonce hex value is invalid'')
          else map_err (\<lambda>e. evm_error (''nonce is invalid: '' @ e))
                 (map_sum id bytes_of (hex_decode X (replicate (64 - length hex_value) (CHR ''0'') @ hex_value)))
      | None \<Rightarrow>
          (let v = trim_str v in
           if v = [] \<or> \<not> list_all is_ascii_digit v
           then Inl (evm_error ''nonce must be a decimal string or 0x-prefixed hex'')
           else parse_decimal (replicate 32 0) v))"

record normalized_nonce =
  nn_decimal :: string
  nn_nonce_key :: string
  nn_bytes :: "byte list"

definition normalize_nonce :: "('sig, 'pk, 'su, 'n) externals \<Rightarrow> string \<Rightarrow> guardian_error + normalized_nonce" where
  "normalize_nonce X v =
     bind_res (parse_u256 X v) (\<lambda>bytes.
     Inr \<lparr> nn_decimal = u256_to_decimal bytes, nn_nonce_key = u256_to_decimal (shift_right_64 bytes), nn_bytes = bytes \<rparr>)"

definition low_u64 :: "normalized_nonce \<Rightarrow> nat" where
  "low_u64 n = be_val (take 8 (drop 24 (nn_bytes n)))"

datatype rust_ordering = OrdLess | OrdEqual | OrdGreater

fun cmp_bytes :: "byte list \<Rightarrow> byte list \<Rightarrow> rust_ordering" where
  "cmp_bytes (a # as) (b # bs) = (if a < b then OrdLess else if b < a then OrdGreater else cmp_bytes as bs)"
| "cmp_bytes [] [] = OrdEqual"
| "cmp_bytes [] (b # bs) = OrdLess"
| "cmp_bytes (a # as) [] = OrdGreater"

definition compare_u256_decimal :: "('sig, 'pk, 'su, 'n) externals \<Rightarrow> string \<Rightarrow> string \<Rightarrow> guardian_error + rust_ordering" where
  "compare_u256_decimal X left right =
     bind_res (parse_u256 X left) (\<lambda>left. bind_res (parse_u256 X right) (\<lambda>right. Inr (cmp_bytes left right)))"

section \<open>What the loops compute\<close>

lemma decimal_digits_show: "be_val bs \<noteq> 0 \<Longrightarrow> rev (decimal_digits bs) = show_nat (be_val bs)"
proof (induction bs rule: decimal_digits.induct)
  case (1 work)
  obtain q r where d: "div_mod_u256_small work 10 = (q, r)" by fastforce
  note v = div_mod_10[OF d]
  have nz: "\<not> list_all (\<lambda>b. b = 0) work" using 1 by (simp add: be_val_0_iff)
  have digit: "char_of (48 + unat r) = digit_char (be_val work mod 10)"
    by (simp add: v(3) digit_char_def)
  have rec: "rev (decimal_digits work) = rev (decimal_digits q) @ [digit_char (be_val work mod 10)]"
    by (subst decimal_digits.simps) (simp add: nz d digit)
  show ?case
  proof (cases "be_val work < 10")
    case True
    then have "decimal_digits q = []"
      using v(2) be_val_0_iff[of q] by (subst decimal_digits.simps) simp
    then show ?thesis using True rec by (simp add: show_nat_def show_radix.simps)
  next
    case False
    then have "rev (decimal_digits q) = show_nat (be_val q)"
      using 1(1)[OF nz d[symmetric]] v(2) by simp
    then show ?thesis using False rec v(2) by (simp add: show_nat_def show_radix.simps[of 10 "be_val work"])
  qed
qed

lemma u256_to_decimal_eq: "u256_to_decimal bs = show_nat (be_val bs)"
proof (cases "be_val bs = 0")
  case True
  then have "list_all (\<lambda>b. b = 0) bs" by (simp add: be_val_0_iff)
  moreover have "show_nat 0 = ''0''" by code_simp
  ultimately show ?thesis using True by (simp add: u256_to_decimal_def)
next
  case False
  then show ?thesis using decimal_digits_show[OF False] be_val_0_iff[of bs] by (simp add: u256_to_decimal_def)
qed

definition dec_num :: "nat \<Rightarrow> string \<Rightarrow> nat" where
  "dec_num a s = foldl (\<lambda>a c. a * 10 + (of_char c - 48)) a s"

lemma dec_num_simps [simp]: "dec_num a [] = a" "dec_num a (c # s) = dec_num (a * 10 + (of_char c - 48)) s"
  by (simp_all add: dec_num_def)

lemma dec_num_ge: "a \<le> dec_num a s"
proof (induction s arbitrary: a)
  case (Cons c s)
  have "a \<le> a * 10 + (of_char c - 48)" by simp
  then show ?case using Cons[of "a * 10 + (of_char c - 48)"] by simp
qed simp

lemma unat_small: "n < 256 \<Longrightarrow> unat (word_of_nat n :: byte) = n"
  by (simp add: unat_of_nat)

lemma digit_byte: "is_ascii_digit c \<Longrightarrow> unat (word_of_nat (of_char c - 48) :: byte) = of_char c - 48"
  unfolding is_ascii_digit_def by (rule unat_small) linarith

lemma parse_decimal_eq:
  assumes "list_all is_ascii_digit s" and "length bs = 32"
  shows "(case parse_decimal bs s of
      Inr out \<Rightarrow> length out = 32 \<and> be_val out = dec_num (be_val bs) s
    | Inl e \<Rightarrow> 256 ^ 32 \<le> dec_num (be_val bs) s \<and> e = evm_error ''nonce exceeds uint256'')"
  using assms
proof (induction s arbitrary: bs)
  case (Cons c s)
  let ?d = "of_char c - 48 :: nat"
  have step: "be_val bs * 10 + ?d \<le> dec_num (be_val bs) (c # s)" using dec_num_ge by simp
  have d: "unat (word_of_nat ?d :: byte) = ?d" using Cons.prems(1) digit_byte by simp
  show ?case
  proof (cases "multiply_u256_small bs 10")
    case (Inl e)
    then show ?thesis using multiply_u256_small_eq[of bs 10] Cons.prems(2) step by auto
  next
    case (Inr b1)
    then have b1: "length b1 = 32" "be_val b1 = be_val bs * 10"
      using multiply_u256_small_eq[of bs 10] Cons.prems(2) by auto
    then have ne: "b1 \<noteq> []" by auto
    show ?thesis
    proof (cases "add_u256_small b1 (word_of_nat ?d)")
      case (Inl e)
      then show ?thesis using add_u256_small_eq[OF ne, of "word_of_nat ?d"] b1 \<open>multiply_u256_small bs 10 = Inr b1\<close> d step by auto
    next
      case (Inr b2)
      then have "length b2 = 32" "be_val b2 = be_val bs * 10 + ?d"
        using add_u256_small_eq[OF ne, of "word_of_nat ?d"] b1 d by auto
      then show ?thesis
        using Cons.IH[of b2] Cons.prems(1) Inr \<open>multiply_u256_small bs 10 = Inr b1\<close> by (auto split: sum.splits)
    qed
  qed
qed simp

lemma cmp_bytes_eq:
  "length as = length bs \<Longrightarrow> cmp_bytes as bs =
     (if be_val as < be_val bs then OrdLess else if be_val bs < be_val as then OrdGreater else OrdEqual)"
proof (induction as bs rule: list_induct2)
  case (Cons a as b bs)
  let ?P = "256 ^ length bs :: nat"
  have tail: "be_val as < ?P" "be_val bs < ?P"
    using be_val_bound[of as] be_val_bound[of bs] Cons.hyps by simp_all
  have less: "u * ?P + x < v * ?P + y" if "u < v" "x < ?P" for u v x y :: nat
  proof -
    have "Suc u * ?P \<le> v * ?P" using that(1) by (intro mult_le_mono1) simp
    then show ?thesis using that(2) by simp
  qed
  consider "unat a < unat b" | "unat b < unat a" | "unat a = unat b" by linarith
  then show ?case
  proof cases
    case 1
    then show ?thesis using less[OF 1 tail(1), of "be_val bs"] Cons.hyps by (simp add: word_less_nat_alt be_val_Cons)
  next
    case 2
    then show ?thesis using less[OF 2 tail(2), of "be_val as"] Cons.hyps by (simp add: word_less_nat_alt be_val_Cons)
  next
    case 3
    then show ?thesis using Cons by (simp add: word_less_nat_alt be_val_Cons)
  qed
qed simp

lemma shift_right_64_parts:
  assumes "length bs = 32"
  shows "shift_right_64 bs = replicate 8 0 @ take 24 bs"
  by (rule nth_equalityI) (use assms in \<open>auto simp: shift_right_64_def nth_append\<close>)

lemma be_val_zeros: "be_val (replicate n 0 @ bs) = be_val bs"
  by (induction n) (simp_all add: be_val_Cons)

lemma be_val_parts:
  assumes "length bs = 32"
  shows "be_val (take 24 bs) = be_val bs div 2 ^ 64" and "be_val (drop 24 bs) = be_val bs mod 2 ^ 64"
proof -
  have e: "be_val bs = be_val (take 24 bs) * 2 ^ 64 + be_val (drop 24 bs)"
    using be_val_append[of "take 24 bs" "drop 24 bs"] assms by simp
  have "be_val (drop 24 bs) < 2 ^ 64" using be_val_bound[of "drop 24 bs"] assms by simp
  then show "be_val (take 24 bs) = be_val bs div 2 ^ 64" and "be_val (drop 24 bs) = be_val bs mod 2 ^ 64"
    by (simp_all add: e)
qed

lemma shift_right_64_eq: "length bs = 32 \<Longrightarrow> be_val (shift_right_64 bs) = be_val bs div 2 ^ 64"
  by (simp only: shift_right_64_parts be_val_zeros be_val_parts)

section \<open>Nonces\<close>

text \<open>
  What \<open>hex::decode\<close> is documented to return on an even number of hexadecimal digits: a byte for each pair.
\<close>

definition hex_digit :: "char \<Rightarrow> nat" where
  "hex_digit c = (case to_digit 16 c of Some d \<Rightarrow> d | None \<Rightarrow> 0)"

fun hex_pairs :: "string \<Rightarrow> string" where
  "hex_pairs (a # b # s) = char_of (hex_digit a * 16 + hex_digit b) # hex_pairs s"
| "hex_pairs s = []"

definition hex_reads :: "('sig, 'pk, 'su, 'n) externals \<Rightarrow> bool" where
  "hex_reads X \<longleftrightarrow> (\<forall>h. list_all is_hexdigit h \<and> even (length h) \<longrightarrow> hex_decode X h = Inr (hex_pairs h))"

definition hex_num :: "string \<Rightarrow> nat" where
  "hex_num s = foldl (\<lambda>a c. a * 16 + hex_digit c) 0 s"

text \<open>The number a nonce string denotes, and which strings denote a number below \<open>2 ^ 256\<close>.\<close>

definition nonce_value :: "string \<Rightarrow> nat" where
  "nonce_value v = (case strip_prefix ''0x'' v of Some h \<Rightarrow> hex_num h | None \<Rightarrow> dec_num 0 (trim_str v))"

definition nonce_valid :: "string \<Rightarrow> bool" where
  "nonce_valid v = (case strip_prefix ''0x'' v of
      Some h \<Rightarrow> length h \<le> 64 \<and> list_all is_hexdigit h
    | None \<Rightarrow> trim_str v \<noteq> [] \<and> list_all is_ascii_digit (trim_str v) \<and> dec_num 0 (trim_str v) < 2 ^ 256)"

lemma hex_digit_less: "is_hexdigit c \<Longrightarrow> hex_digit c < 16"
  by (auto simp: is_hexdigit_def hex_digit_def to_digit_def Let_def split: if_splits)

lemma foldl_hex: "foldl (\<lambda>a c. a * 16 + hex_digit c) v s = v * 16 ^ length s + hex_num s"
proof (induction s arbitrary: v rule: rev_induct)
  case (snoc c s)
  have "hex_num (s @ [c]) = hex_num s * 16 + hex_digit c" by (simp add: hex_num_def)
  then show ?case using snoc by (simp add: algebra_simps)
qed (simp add: hex_num_def)

lemma hex_pairs_val:
  "even (length h) \<Longrightarrow> list_all is_hexdigit h \<Longrightarrow>
     length (hex_pairs h) = length h div 2 \<and> be_val (bytes_of (hex_pairs h)) = hex_num h"
proof (induction h rule: hex_pairs.induct)
  case (1 a b s)
  have d: "hex_digit a < 16" "hex_digit b < 16" using 1 hex_digit_less by auto
  then have n: "hex_digit a * 16 + hex_digit b < 256" by linarith
  then have "of_char (char_of (hex_digit a * 16 + hex_digit b) :: char) = hex_digit a * 16 + hex_digit b" by simp
  then have byte: "unat (word_of_nat (of_char (char_of (hex_digit a * 16 + hex_digit b) :: char)) :: byte) = hex_digit a * 16 + hex_digit b"
    using unat_small[OF n] by (simp only:)
  have "(16 :: nat) ^ (2 * n) = 256 ^ n" for n by (simp add: power_mult)
  then have "(256 :: nat) ^ length (hex_pairs s) = 16 ^ length s"
    using 1 by (auto elim!: evenE)
  then show ?case
    using 1 byte foldl_hex[of "hex_digit a * 16 + hex_digit b" s]
    by (auto simp: bytes_of_def be_val_Cons hex_num_def)
qed (auto simp: hex_num_def bytes_of_def)

lemma hex_num_zeros: "hex_num (replicate k (CHR ''0'') @ h) = hex_num h"
proof -
  have "hex_num (replicate k (CHR ''0'')) = 0"
    by (induction k) (simp_all add: hex_num_def hex_digit_def to_digit_def)
  then show ?thesis using foldl_hex[of 0 h] by (simp add: hex_num_def)
qed

lemma parse_u256_ok:
  assumes "hex_reads X" and "parse_u256 X v = Inr bytes"
  shows "nonce_valid v" and "length bytes = 32" and "be_val bytes = nonce_value v"
proof -
  have "nonce_valid v \<and> length bytes = 32 \<and> be_val bytes = nonce_value v"
  proof (cases "strip_prefix ''0x'' v")
    case None
    let ?t = "trim_str v"
    from None assms(2) have t: "?t \<noteq> []" "list_all is_ascii_digit ?t" and p: "parse_decimal (replicate 32 0) ?t = Inr bytes"
      by (auto simp: parse_u256_def Let_def split: if_splits)
    have "be_val (replicate 32 0) = 0" using be_val_zeros[of 32 "[]"] by simp
    then have "length bytes = 32" "be_val bytes = dec_num 0 ?t"
      using parse_decimal_eq[OF t(2), of "replicate 32 0"] p by simp_all
    then show ?thesis using None t be_val_bound[of bytes] by (simp add: nonce_valid_def nonce_value_def)
  next
    case (Some h)
    let ?p = "replicate (64 - length h) (CHR ''0'') @ h"
    from Some assms(2) have h: "length h \<le> 64" "list_all is_hexdigit h"
      by (auto simp: parse_u256_def split: if_splits)
    have hex: "list_all is_hexdigit ?p" "length ?p = 64"
      using h by (auto simp: is_hexdigit_def to_digit_def list_all_iff)
    then have "hex_decode X ?p = Inr (hex_pairs ?p)" using assms(1) by (simp add: hex_reads_def)
    then have "bytes = bytes_of (hex_pairs ?p)"
      using Some assms(2) h by (simp add: parse_u256_def)
    moreover have "length (hex_pairs ?p) = 32" "be_val (bytes_of (hex_pairs ?p)) = hex_num h"
      using hex_pairs_val[of ?p] hex hex_num_zeros by auto
    ultimately show ?thesis
      using Some h by (simp add: nonce_valid_def nonce_value_def bytes_of_def)
  qed
  then show "nonce_valid v" and "length bytes = 32" and "be_val bytes = nonce_value v" by blast+
qed

lemma parse_u256_total:
  assumes "hex_reads X" and "nonce_valid v"
  shows "\<exists>bytes. parse_u256 X v = Inr bytes"
proof (cases "strip_prefix ''0x'' v")
  case None
  let ?t = "trim_str v"
  from None assms(2) have t: "?t \<noteq> []" "list_all is_ascii_digit ?t" "dec_num 0 ?t < 2 ^ 256"
    by (auto simp: nonce_valid_def)
  have "be_val (replicate 32 0) = 0" using be_val_zeros[of 32 "[]"] by simp
  then have "parse_decimal (replicate 32 0) ?t \<noteq> Inl e" for e
    using parse_decimal_eq[OF t(2), of "replicate 32 0"] t(3) by auto
  then obtain b where "parse_decimal (replicate 32 0) ?t = Inr b" by (metis sum.exhaust)
  then show ?thesis using None t by (simp add: parse_u256_def Let_def)
next
  case (Some h)
  then have "length h \<le> 64" "list_all is_hexdigit h" using assms(2) by (auto simp: nonce_valid_def)
  then have "list_all is_hexdigit (replicate (64 - length h) (CHR ''0'') @ h)" "length (replicate (64 - length h) (CHR ''0'') @ h) = 64"
    by (auto simp: is_hexdigit_def to_digit_def list_all_iff)
  then have "hex_decode X (replicate (64 - length h) (CHR ''0'') @ h) = Inr (hex_pairs (replicate (64 - length h) (CHR ''0'') @ h))"
    using assms(1) unfolding hex_reads_def by auto
  then show ?thesis using Some \<open>length h \<le> 64\<close> \<open>list_all is_hexdigit h\<close> by (simp add: parse_u256_def)
qed

end
