(* ===== verification/Evm_Session.thy ===== *)
theory Evm_Session
  imports Sessions Evm_U256 Guardian_Auth
begin

text \<open>
  EVM login (\<open>server/src/evm/session.rs\<close>) with the parts of \<open>evm/contracts.rs\<close> and \<open>evm/proposal.rs\<close> it calls:
  hexadecimal input, addresses, and the recovery of the signer of an EIP-712 session message. The crate
  \<open>alloy\<close> is a parameter. Instants are nanoseconds, \<open>random\<close> the 32 random bytes an operation draws.
  The operations interpret the locale \<open>challenge_sessions\<close>.
\<close>

section \<open>The crate alloy\<close>

text \<open>
  \<open>alloy_session_hash\<close> is the EIP-712 signing hash of \<open>GuardianEvmSession\<close> in the domain of the server,
  \<open>alloy_signature\<close> is \<open>Signature::from_str\<close>, \<open>alloy_recover\<close> is \<open>recover_address_from_prehash\<close>, \<open>alloy_debug\<close>
  prints an address with \<open>{:?}\<close>, \<open>alloy_id\<close> is \<open>keccak256\<close> of the ABI encoding of the tuple that
  identifies a proposal, \<open>alloy_u256\<close> and \<open>alloy_u192\<close> are \<open>parse\<close>.
\<close>

record 'asig alloy_ops =
  alloy_session_hash :: "string \<Rightarrow> string \<Rightarrow> nat \<Rightarrow> nat \<Rightarrow> string"
  alloy_signature :: "string \<Rightarrow> string + 'asig"
  alloy_recover :: "'asig \<Rightarrow> string \<Rightarrow> string + string"
  alloy_debug :: "string \<Rightarrow> string"
  alloy_id :: "nat \<Rightarrow> string \<Rightarrow> string \<Rightarrow> string \<Rightarrow> nat \<Rightarrow> string"
  alloy_u256 :: "string \<Rightarrow> string + nat"
  alloy_u192 :: "string \<Rightarrow> string + nat"

section \<open>Hexadecimal input (evm/proposal.rs)\<close>

definition parse_hex :: "('sig, 'pk, 'su, 'n) externals \<Rightarrow> string \<Rightarrow> string \<Rightarrow> guardian_error + string" where
  "parse_hex X v field =
     bind_res (ok_or (evm_error (field @ '' must start with 0x'')) (strip_prefix ''0x'' v)) (\<lambda>clean.
     if odd (length clean) then Inl (evm_error (field @ '' must contain whole bytes''))
     else map_err (\<lambda>e. evm_error (field @ '' is invalid hex: '' @ e)) (hex_decode X clean))"

definition parse_fixed_hex :: "('sig, 'pk, 'su, 'n) externals \<Rightarrow> string \<Rightarrow> nat \<Rightarrow> string \<Rightarrow> guardian_error + string" where
  "parse_fixed_hex X v expected_len field =
     bind_res (parse_hex X v field) (\<lambda>bytes.
     if length bytes \<noteq> expected_len
     then Inl (evm_error (field @ '' must be '' @ show_nat expected_len @ '' bytes'')) else Inr bytes)"

definition format_fixed_hex :: "('sig, 'pk, 'su, 'n) externals \<Rightarrow> string \<Rightarrow> string" where
  "format_fixed_hex X bytes = ''0x'' @ hex_encode X bytes"

definition normalize_signature :: "('sig, 'pk, 'su, 'n) externals \<Rightarrow> string \<Rightarrow> guardian_error + string" where
  "normalize_signature X sg =
     bind_res (parse_fixed_hex X sg 65 ''signature'') (\<lambda>bytes. Inr (format_fixed_hex X bytes))"

section \<open>Recovery of signers (evm/contracts.rs)\<close>

definition parse_address :: "('sig, 'pk, 'su, 'n) externals \<Rightarrow> string \<Rightarrow> guardian_error + string" where
  "parse_address X v =
     bind_res (map_err InvalidInput (normalize_evm_address v)) (\<lambda>normalized.
     map_err InvalidInput (hex_decode X (trim_0x normalized)))"

definition parse_b256 :: "('sig, 'pk, 'su, 'n) externals \<Rightarrow> string \<Rightarrow> string \<Rightarrow> guardian_error + string" where
  "parse_b256 X v field =
     bind_res (ok_or (evm_error (field @ '' must start with 0x'')) (strip_prefix ''0x'' v)) (\<lambda>clean.
     if length clean \<noteq> 64 then Inl (evm_error (field @ '' must be 32 bytes''))
     else map_err (\<lambda>e. evm_error (field @ '' is invalid hex: '' @ e)) (hex_decode X clean))"

definition recover_address_from_b256 :: "'asig alloy_ops \<Rightarrow> string \<Rightarrow> string \<Rightarrow> string + string" where
  "recover_address_from_b256 A hash signature_hex =
     bind_res (alloy_signature A signature_hex) (\<lambda>signature.
     bind_res (alloy_recover A signature hash) (\<lambda>address.
     Inr (alloy_debug A address)))"

record evm_challenge =
  ec_address :: string
  ec_nonce :: string
  ec_issued_at :: int
  ec_expires_at :: int

definition timestamp_u64 :: "int \<Rightarrow> nat" where
  "timestamp_u64 t = nat (t div 1000000000 mod 2 ^ 64)"

definition recover_session_address ::
  "('sig, 'pk, 'su, 'n) externals \<Rightarrow> 'asig alloy_ops \<Rightarrow> evm_challenge \<Rightarrow> string \<Rightarrow> guardian_error + string" where
  "recover_session_address X A c signature =
     bind_res (parse_address X (ec_address c)) (\<lambda>wallet.
     bind_res (parse_b256 X (ec_nonce c) ''nonce'') (\<lambda>nonce.
     let hash = alloy_session_hash A wallet nonce (timestamp_u64 (ec_issued_at c)) (timestamp_u64 (ec_expires_at c)) in
     map_err (\<lambda>e. AuthenticationFailed (''recover failed: '' @ e)) (recover_address_from_b256 A hash signature)))"

section \<open>Challenges and sessions (evm/session.rs)\<close>

definition duration_secs :: "int \<Rightarrow> int" where
  "duration_secs n = n * 1000000000"

definition CHALLENGE_TTL_SECS :: int where
  "CHALLENGE_TTL_SECS = 300"

definition SESSION_TTL_SECS :: int where
  "SESSION_TTL_SECS = 8 * 60 * 60"

definition MAX_OUTSTANDING_CHALLENGES :: nat where
  "MAX_OUTSTANDING_CHALLENGES = 8"

definition EVM_COOKIE_NAME :: string where
  "EVM_COOKIE_NAME = ''guardian_evm_session''"

record evm_session_record =
  es_address :: string
  es_expires_at :: int

record evm_session_state =
  es_challenges :: "(string, evm_challenge list) dir"
  es_sessions :: "(string, evm_session_record) dir"

record verified_evm_session =
  vs_address :: string
  vs_expires_at :: int
  vs_cookie_header :: string

definition evm_session_default :: evm_session_state where
  "evm_session_default = \<lparr> es_challenges = [], es_sessions = [] \<rparr>"

definition random_hex_32 :: "('sig, 'pk, 'su, 'n) externals \<Rightarrow> string \<Rightarrow> string" where
  "random_hex_32 X random = ''0x'' @ hex_encode X random"

definition evm_clear_cookie_header :: "(int \<Rightarrow> string) \<Rightarrow> int \<Rightarrow> string" where
  "evm_clear_cookie_header cookie_date now =
     EVM_COOKIE_NAME @ ''=; HttpOnly; SameSite=Strict; Path=/; Max-Age=0; Expires='' @
       cookie_date (now - duration_secs 86400)"

definition evm_session_cookie_header :: "(int \<Rightarrow> string) \<Rightarrow> string \<Rightarrow> int \<Rightarrow> string" where
  "evm_session_cookie_header cookie_date token expires_at =
     EVM_COOKIE_NAME @ ''='' @ token @ ''; HttpOnly; SameSite=Strict; Path=/; Max-Age='' @
       show_nat (nat SESSION_TTL_SECS) @ ''; Expires='' @ cookie_date expires_at"

definition evm_issue_challenge ::
  "('sig, 'pk, 'su, 'n) externals \<Rightarrow> string \<Rightarrow> int \<Rightarrow> string \<Rightarrow> (evm_session_state, guardian_error, evm_challenge) comp" where
  "evm_issue_challenge X address now random =
     bindS (liftS (map_err InvalidInput (normalize_evm_address address))) (\<lambda>address s.
     let challenge = \<lparr> ec_address = address, ec_nonce = random_hex_32 X random, ec_issued_at = now,
                       ec_expires_at = now + duration_secs CHALLENGE_TTL_SECS \<rparr>;
         pending = filter (\<lambda>c. ec_expires_at c > now) (pending_of (es_challenges s) address) @ [challenge] in
     (Inr challenge,
      s \<lparr> es_challenges := dir_put address (keep_newest MAX_OUTSTANDING_CHALLENGES pending) (es_challenges s) \<rparr>))"

definition evm_matching :: "string \<Rightarrow> evm_challenge list \<Rightarrow> nat option" where
  "evm_matching nonce = position (\<lambda>c. eq_ignore_ascii_case (ec_nonce c) nonce)"

definition evm_verify ::
  "('sig, 'pk, 'su, 'n) externals \<Rightarrow> 'asig alloy_ops \<Rightarrow> (int \<Rightarrow> string) \<Rightarrow> string \<Rightarrow> string \<Rightarrow> string \<Rightarrow> int \<Rightarrow> string
   \<Rightarrow> (evm_session_state, guardian_error, verified_evm_session) comp" where
  "evm_verify X A cookie_date address nonce signature now random =
     bindS (liftS (map_err InvalidInput (normalize_evm_address address))) (\<lambda>address.
     bindS (liftS (normalize_signature X signature)) (\<lambda>signature s.
     let pending = filter (\<lambda>c. ec_expires_at c > now) (pending_of (es_challenges s) address);
         s1 = s \<lparr> es_challenges := dir_put address pending (es_challenges s) \<rparr> in
     case evm_matching nonce pending of
       None \<Rightarrow> (Inl (AuthenticationFailed ''No active EVM challenge matched the nonce''), s1)
     | Some index \<Rightarrow>
         (case recover_session_address X A (pending ! index) signature of
            Inl e \<Rightarrow> (Inl e, s1)
          | Inr recovered \<Rightarrow>
              if recovered \<noteq> address
              then (Inl (AuthenticationFailed ''EVM session signature does not match requested address''), s1)
              else
                let s2 = s1 \<lparr> es_challenges := put_or_remove address (remove_nth index pending) (es_challenges s1) \<rparr>;
                    token = random_hex_32 X random;
                    expires_at = now + duration_secs SESSION_TTL_SECS;
                    sessions = dir_retain (\<lambda>_ r. es_expires_at r > now) (es_sessions s2) in
                (Inr \<lparr> vs_address = address, vs_expires_at = expires_at,
                       vs_cookie_header = evm_session_cookie_header cookie_date token expires_at \<rparr>,
                 s2 \<lparr> es_sessions := dir_put token \<lparr> es_address = address, es_expires_at = expires_at \<rparr> sessions \<rparr>))))"

definition evm_authenticate :: "string \<Rightarrow> int \<Rightarrow> (evm_session_state, guardian_error, string) comp" where
  "evm_authenticate token now s =
     (let sessions = dir_retain (\<lambda>_ r. es_expires_at r > now) (es_sessions s) in
      (map_sum id es_address (ok_or (AuthenticationFailed ''Invalid EVM session'') (dir_get sessions token)),
       s \<lparr> es_sessions := sessions \<rparr>))"

definition evm_logout :: "string option \<Rightarrow> int \<Rightarrow> evm_session_state \<Rightarrow> evm_session_state" where
  "evm_logout token now s =
     (let sessions = dir_retain (\<lambda>_ r. es_expires_at r > now) (es_sessions s) in
      s \<lparr> es_sessions := (case token of Some t \<Rightarrow> dir_del t sessions | None \<Rightarrow> sessions) \<rparr>)"

section \<open>The contract\<close>

datatype evm_login =
    EvmIssue string int string
  | EvmVerify string string string int string
  | EvmAuthenticate string int
  | EvmLogout "string option" int

definition evm_matched :: "string \<Rightarrow> int \<Rightarrow> string \<Rightarrow> evm_session_state \<Rightarrow> evm_challenge" where
  "evm_matched nonce now address s =
     (let pending = filter (\<lambda>c. ec_expires_at c > now) (pending_of (es_challenges s) address) in
      pending ! the (evm_matching nonce pending))"

text \<open>One request, with the event it amounts to.\<close>

definition evm_login_step ::
  "('sig, 'pk, 'su, 'n) externals \<Rightarrow> 'asig alloy_ops \<Rightarrow> (int \<Rightarrow> string) \<Rightarrow> evm_login \<Rightarrow> evm_session_state
   \<Rightarrow> (string, evm_challenge) session_event \<times> evm_session_state" where
  "evm_login_step X A cookie_date req s =
     (case req of
        EvmIssue a now random \<Rightarrow>
          (case evm_issue_challenge X a now random s of
             (Inr c, s') \<Rightarrow> (Issued (ec_address c) c, s') | (Inl _, s') \<Rightarrow> (Quiet, s'))
      | EvmVerify a nonce signature now random \<Rightarrow>
          (case evm_verify X A cookie_date a nonce signature now random s of
             (Inr v, s') \<Rightarrow> (Verified (vs_address v) (evm_matched nonce now (vs_address v) s) (random_hex_32 X random)
                              (vs_expires_at v), s')
           | (Inl _, s') \<Rightarrow> (Quiet, s'))
      | EvmAuthenticate token now \<Rightarrow>
          (case evm_authenticate token now s of
             (Inr a, s') \<Rightarrow> (Authenticated a token now, s') | (Inl _, s') \<Rightarrow> (Quiet, s'))
      | EvmLogout token now \<Rightarrow>
          (case token of Some t \<Rightarrow> LoggedOut t | None \<Rightarrow> Quiet, evm_logout token now s))"

definition evm_pend :: "evm_session_state \<Rightarrow> string \<Rightarrow> evm_challenge list" where
  "evm_pend s i = pending_of (es_challenges s) i"

definition evm_sess :: "evm_session_state \<Rightarrow> string \<Rightarrow> (string \<times> int) option" where
  "evm_sess s t = map_option (\<lambda>r. (es_address r, es_expires_at r)) (dir_get (es_sessions s) t)"

definition evm_answered :: "('sig, 'pk, 'su, 'n) externals \<Rightarrow> 'asig alloy_ops \<Rightarrow> string \<Rightarrow> evm_challenge \<Rightarrow> bool" where
  "evm_answered X A i c \<longleftrightarrow> (\<exists>signature. recover_session_address X A c signature = Inr i)"

definition evm_step ::
  "('sig, 'pk, 'su, 'n) externals \<Rightarrow> 'asig alloy_ops \<Rightarrow> (int \<Rightarrow> string) \<Rightarrow> evm_session_state
   \<Rightarrow> (string, evm_challenge) session_event \<Rightarrow> evm_session_state \<Rightarrow> bool" where
  "evm_step X A cookie_date s ev s' \<longleftrightarrow>
     dir_wf (es_sessions s) \<and> (\<exists>req. evm_login_step X A cookie_date req s = (ev, s'))"

lemma evm_verify_Inr:
  assumes "evm_verify X A cd a nonce signature now random s = (Inr v, s')"
  obtains i sg where
    "i < length (filter (\<lambda>c. ec_expires_at c > now) (evm_pend s (vs_address v)))"
    "evm_matched nonce now (vs_address v) s = filter (\<lambda>c. ec_expires_at c > now) (evm_pend s (vs_address v)) ! i"
    "recover_session_address X A (evm_matched nonce now (vs_address v) s) sg = Inr (vs_address v)"
    "vs_expires_at v = now + duration_secs SESSION_TTL_SECS"
    "\<And>j. evm_pend s' j = (if j = vs_address v
       then remove_nth i (filter (\<lambda>c. ec_expires_at c > now) (evm_pend s (vs_address v))) else evm_pend s j)"
    "es_sessions s' = dir_put (random_hex_32 X random) \<lparr> es_address = vs_address v, es_expires_at = vs_expires_at v \<rparr>
       (dir_retain (\<lambda>_ r. es_expires_at r > now) (es_sessions s))"
proof -
  from assms obtain a' sg where n: "normalize_evm_address a = Inr a'" "normalize_signature X signature = Inr sg"
    by (auto simp: evm_verify_def bindS_Inr_iff)
  let ?p = "filter (\<lambda>c. ec_expires_at c > now) (pending_of (es_challenges s) a')"
  from assms n obtain i where i: "evm_matching nonce ?p = Some i"
    and r: "recover_session_address X A (?p ! i) sg = Inr a'"
    and v: "v = \<lparr> vs_address = a', vs_expires_at = now + duration_secs SESSION_TTL_SECS,
        vs_cookie_header = evm_session_cookie_header cd (random_hex_32 X random) (now + duration_secs SESSION_TTL_SECS) \<rparr>"
    by (auto simp: evm_verify_def bindS_def Let_def split: option.splits sum.splits if_splits)
  have "evm_matched nonce now a' s = ?p ! i" using i by (simp add: evm_matched_def)
  moreover have "i < length ?p" using i position_Some unfolding evm_matching_def by blast
  moreover have "evm_pend s' j = (if j = a' then remove_nth i ?p else evm_pend s j)"
    "es_sessions s' = dir_put (random_hex_32 X random) \<lparr> es_address = a', es_expires_at = vs_expires_at v \<rparr>
       (dir_retain (\<lambda>_ r. es_expires_at r > now) (es_sessions s))" for j
    using assms n i r v by (auto simp: evm_verify_def bindS_def Let_def evm_pend_def)
  ultimately show thesis using r v by (intro that[of i sg]) (simp_all add: evm_pend_def)
qed

lemma evm_sess_alt: "evm_sess s = map_option (\<lambda>r. (es_address r, es_expires_at r)) \<circ> dir_get (es_sessions s)"
  by (auto simp: evm_sess_def)

lemma evm_issue_cases:
  assumes "evm_issue_challenge X a now random s = (r, s')"
  shows "es_sessions s' = es_sessions s"
    and "case r of Inr c \<Rightarrow> mset (evm_pend s' i) \<subseteq># (if ec_address c = i then add_mset c (mset (evm_pend s i)) else mset (evm_pend s i))
      | Inl _ \<Rightarrow> s' = s"
  using assms mset_keep_newest
  by (auto simp: evm_issue_challenge_def bindS_def Let_def evm_pend_def split: sum.splits)

lemma evm_verify_fails:
  assumes "evm_verify X A cd a nonce signature now random s = (Inl e, s')"
  shows "es_sessions s' = es_sessions s" and "mset (evm_pend s' i) \<subseteq># mset (evm_pend s i)"
  using assms by (auto simp: evm_verify_def bindS_def Let_def evm_pend_def split: sum.splits option.splits if_splits)

lemma evm_step_pend:
  assumes "evm_login_step X A cd req s = (ev, s')"
  shows "mset (evm_pend s' i) \<subseteq>#
      (case ev of Issued j c \<Rightarrow> (if j = i then add_mset c (mset (evm_pend s i)) else mset (evm_pend s i))
       | Verified j c t e \<Rightarrow> (if j = i then mset (evm_pend s i) - {#c#} else mset (evm_pend s i))
       | _ \<Rightarrow> mset (evm_pend s i))"
proof (cases req)
  case (EvmIssue a now random)
  obtain r where "evm_issue_challenge X a now random s = (r, s')"
    using assms EvmIssue by (auto simp: evm_login_step_def split: prod.splits sum.splits)
  then show ?thesis using assms EvmIssue evm_issue_cases(2)[of X a now random s r s' i]
    by (auto simp: evm_login_step_def split: sum.splits)
next
  case (EvmVerify a nonce signature now random)
  obtain r where r: "evm_verify X A cd a nonce signature now random s = (r, s')"
    using assms EvmVerify by (auto simp: evm_login_step_def split: prod.splits sum.splits)
  show ?thesis
  proof (cases r)
    case (Inl e)
    then show ?thesis using assms EvmVerify r evm_verify_fails by (auto simp: evm_login_step_def)
  next
    case (Inr v)
    let ?p = "filter (\<lambda>c. ec_expires_at c > now) (evm_pend s (vs_address v))"
    from r Inr obtain k where k: "k < length ?p" "evm_matched nonce now (vs_address v) s = ?p ! k"
      "\<And>j. evm_pend s' j = (if j = vs_address v then remove_nth k ?p else evm_pend s j)"
      by (auto elim: evm_verify_Inr)
    have "mset ?p - {#?p ! k#} \<subseteq># mset (evm_pend s (vs_address v)) - {#?p ! k#}"
      by (rule mset_diff_mono) simp
    then show ?thesis
      using assms EvmVerify r Inr k by (auto simp: evm_login_step_def mset_remove_nth)
  qed
qed (use assms in \<open>auto simp: evm_login_step_def evm_pend_def evm_authenticate_def evm_logout_def Let_def
      split: prod.splits sum.splits option.splits\<close>)

lemma evm_step_sess:
  assumes "evm_login_step X A cd req s = (ev, s')" and wf: "dir_wf (es_sessions s)"
  shows "dir_wf (es_sessions s') \<and> evm_sess s' \<subseteq>\<^sub>m
    (case ev of Verified j c t e \<Rightarrow> (evm_sess s)(t \<mapsto> (j, e)) | LoggedOut t \<Rightarrow> (evm_sess s)(t := None) | _ \<Rightarrow> evm_sess s)"
proof (cases req)
  case (EvmIssue a now random)
  obtain r where "evm_issue_challenge X a now random s = (r, s')"
    using assms EvmIssue by (auto simp: evm_login_step_def split: prod.splits sum.splits)
  then show ?thesis using assms EvmIssue evm_issue_cases(1)[of X a now random s r s']
    by (auto simp: evm_login_step_def evm_sess_alt split: sum.splits)
next
  case (EvmVerify a nonce signature now random)
  obtain r where r: "evm_verify X A cd a nonce signature now random s = (r, s')"
    using assms EvmVerify by (auto simp: evm_login_step_def split: prod.splits sum.splits)
  show ?thesis
  proof (cases r)
    case (Inl e)
    then show ?thesis using assms EvmVerify r evm_verify_fails(1)[OF r[unfolded Inl]] by (auto simp: evm_login_step_def evm_sess_alt)
  next
    case (Inr v)
    with r have e: "es_sessions s' = dir_put (random_hex_32 X random) \<lparr> es_address = vs_address v, es_expires_at = vs_expires_at v \<rparr>
       (dir_retain (\<lambda>_ r. es_expires_at r > now) (es_sessions s))" by (auto elim: evm_verify_Inr)
    have "evm_sess s' = (map_option (\<lambda>r. (es_address r, es_expires_at r)) \<circ> dir_get (dir_retain (\<lambda>_ r. es_expires_at r > now) (es_sessions s)))
      (random_hex_32 X random \<mapsto> (vs_address v, vs_expires_at v))"
      by (auto simp: evm_sess_alt e)
    then show ?thesis
      using assms EvmVerify r Inr map_le_upd[OF map_le_comp[OF dir_retain_map_le[OF wf]]] e
      by (auto simp: evm_login_step_def evm_sess_alt)
  qed
next
  case (EvmAuthenticate t now)
  then show ?thesis
    using assms map_le_comp[OF dir_retain_map_le[OF wf]]
    by (auto simp: evm_login_step_def evm_sess_alt evm_authenticate_def Let_def split: sum.splits)
next
  case (EvmLogout t now)
  show ?thesis
  proof (cases t)
    case (Some k)
    have "evm_sess s' = (map_option (\<lambda>r. (es_address r, es_expires_at r)) \<circ> dir_get (dir_retain (\<lambda>_ r. es_expires_at r > now) (es_sessions s)))(k := None)"
      using assms EvmLogout Some by (auto simp: evm_login_step_def evm_sess_alt evm_logout_def Let_def)
    then show ?thesis
      using assms EvmLogout Some map_le_upd[OF map_le_comp[OF dir_retain_map_le[OF wf]]]
      by (auto simp: evm_login_step_def evm_sess_alt evm_logout_def Let_def)
  qed (use assms EvmLogout map_le_comp[OF dir_retain_map_le[OF wf]] in
        \<open>auto simp: evm_login_step_def evm_sess_alt evm_logout_def Let_def\<close>)
qed

lemma evm_step_verified:
  assumes "evm_login_step X A cd req s = (Verified i c t e, s')"
  shows "c \<in> set (evm_pend s i) \<and> evm_answered X A i c"
proof -
  from assms obtain a nonce signature now random v where r: "evm_verify X A cd a nonce signature now random s = (Inr v, s')"
    and iv: "i = vs_address v" "c = evm_matched nonce now (vs_address v) s"
    by (cases req) (auto simp: evm_login_step_def split: prod.splits sum.splits option.splits)
  from r show ?thesis by (rule evm_verify_Inr) (use iv in \<open>auto simp: evm_answered_def dest!: nth_mem\<close>)
qed

interpretation evm: challenge_sessions evm_pend evm_sess "evm_answered X A" "evm_step X A cd"
  for X :: "('sig, 'pk, 'su, 'n) externals" and A :: "'asig alloy_ops" and cd :: "int \<Rightarrow> string"
proof unfold_locales
  fix s i t now s' assume "evm_step X A cd s (Authenticated i t now) s'"
  then obtain req where wf: "dir_wf (es_sessions s)" and "evm_login_step X A cd req s = (Authenticated i t now, s')"
    by (auto simp: evm_step_def)
  then have "evm_authenticate t now s = (Inr i, s')"
    by (cases req) (auto simp: evm_login_step_def split: prod.splits sum.splits option.splits)
  with wf show "\<exists>e. evm_sess s t = Some (i, e) \<and> now < e"
    by (auto simp: evm_sess_def evm_authenticate_def Let_def dir_get_retain split: option.splits if_splits)
qed (unfold evm_step_def, (blast intro: evm_step_pend conjunct2[OF evm_step_sess] dest: evm_step_verified)+)

text \<open>A sequence of requests on one server, with its events.\<close>

fun evm_logins ::
  "('sig, 'pk, 'su, 'n) externals \<Rightarrow> 'asig alloy_ops \<Rightarrow> (int \<Rightarrow> string) \<Rightarrow> evm_login list \<Rightarrow> evm_session_state
   \<Rightarrow> (string, evm_challenge) session_event list \<times> evm_session_state" where
  "evm_logins X A cd [] s = ([], s)"
| "evm_logins X A cd (req # reqs) s =
     (case evm_login_step X A cd req s of (ev, s1) \<Rightarrow>
      case evm_logins X A cd reqs s1 of (evs, s2) \<Rightarrow> (ev # evs, s2))"

abbreviation evm_run :: "('sig, 'pk, 'su, 'n) externals \<Rightarrow> 'asig alloy_ops \<Rightarrow> (int \<Rightarrow> string) \<Rightarrow> evm_session_state
   \<Rightarrow> (string, evm_challenge) session_event list \<Rightarrow> evm_session_state \<Rightarrow> bool" where
  "evm_run X A cd \<equiv> challenge_sessions.run (evm_step X A cd)"

lemma evm_logins_run:
  "evm_run X A cd s0 tr s \<Longrightarrow> dir_wf (es_sessions s) \<Longrightarrow> evm_logins X A cd reqs s = (evs, s') \<Longrightarrow>
     evm_run X A cd s0 (tr @ evs) s'"
proof (induction reqs arbitrary: tr s evs)
  case (Cons req reqs)
  obtain ev s1 where one: "evm_login_step X A cd req s = (ev, s1)" by fastforce
  then have "evm_step X A cd s ev s1" using Cons.prems(2) by (auto simp: evm_step_def)
  then have "evm_run X A cd s0 (tr @ [ev]) s1" using Cons.prems(1) evm.next_step by blast
  moreover obtain evs1 where "evm_logins X A cd reqs s1 = (evs1, s')" "evs = ev # evs1"
    using Cons.prems(3) one by (auto split: prod.splits)
  ultimately show ?case
    using Cons.IH[of "tr @ [ev]" s1 evs1] evm_step_sess[OF one Cons.prems(2)] by simp
qed simp

lemma evm_logins_wf:
  "evm_logins X A cd reqs s = (evs, s') \<Longrightarrow> dir_wf (es_sessions s) \<Longrightarrow> dir_wf (es_sessions s')"
proof (induction reqs arbitrary: s evs)
  case (Cons req reqs)
  obtain ev s1 where one: "evm_login_step X A cd req s = (ev, s1)" by fastforce
  obtain evs1 where "evm_logins X A cd reqs s1 = (evs1, s')" using Cons.prems(1) one by (auto split: prod.splits)
  then show ?case using Cons.IH evm_step_sess[OF one Cons.prems(2)] by blast
qed simp

lemma evm_logins_from_start:
  "evm_logins X A cd reqs evm_session_default = (evs, s) \<Longrightarrow> evm_run X A cd evm_session_default evs s"
  using evm_logins_run[OF evm.start, of evm_session_default X A cd reqs evs s] by (simp add: evm_session_default_def)

lemma evm_fresh: "evm.fresh evm_session_default"
  by (simp add: evm.fresh_def evm_pend_def evm_sess_def evm_session_default_def)

end
