(* ===== verification/Login_Properties.thy ===== *)
theory Login_Properties
  imports Dashboard_Session Evm_Session Instances "HOL-Library.Code_Target_Nat"
begin

text \<open>
  What the two logins guarantee: who holds a session has answered a challenge of the server, and a challenge
  is answered once. Both follow from the locale \<open>challenge_sessions\<close> through its interpretations.
\<close>

section \<open>Operators\<close>

text \<open>
  C33: An operator session is a login. If a token authenticates an operator, then, in the sequence of requests the
  server has handled since it started, the token was given out by a successful \<open>verify\<close> that answered, with a
  signature of the key of that commitment, a challenge issued earlier to that commitment; the token was
  not logged out since, the session has not expired, and the commitment is on the allowlist now.
\<close>

theorem operator_authenticated:
  assumes "names_ok al" and "operator_logins D reqs (dashboard_state_new D al) = (evs, s)"
    and "authenticate_session D src token now s = (Inr operator, s')"
  shows "\<exists>evs1 c e evs2. evs = evs1 @ Verified (op_commitment operator) c token e # evs2 \<and>
    LoggedOut token \<notin> set evs2 \<and> Issued (op_commitment operator) c \<in> set evs1 \<and>
    op_answered D (op_commitment operator) c \<and> now < e \<and>
    dir_get (ds_allowlist s') (op_commitment operator) \<noteq> None"
proof -
  have run: "operator_run D (dashboard_state_new D al) evs s" "dash_inv s"
    using operator_logins_run[OF operators.start dash_inv_new[OF assms(1)] assms(2)] by simp_all
  have "operator_login_step D (OpAuthenticate src token now) s = (Authenticated (op_commitment operator) token now, s')"
    using assms(3) by (simp add: operator_login_step_def)
  then have "op_step D s (Authenticated (op_commitment operator) token now) s'"
    using run(2) by (auto simp: op_step_def)
  then have "operator_run D (dashboard_state_new D al) (evs @ [Authenticated (op_commitment operator) token now]) s'"
    using operators.next_step run(1) by blast
  from operators.authenticated_login[OF this operators_fresh] show ?thesis
    using authenticate_run(4)[OF assms(3) run(2) refl] unfolding operators.login_def by blast
qed

text \<open>A server with one operator.\<close>

definition login_sig :: string where
  "login_sig = replicate 1524 (CHR ''z'')"

definition login_ext :: "(string, unit, unit, unit) externals" where
  "login_ext = demo_ext \<lparr> hex_decode := (\<lambda>h. Inr (if h = ''sg'' then login_sig else h)),
     sig_verify := (\<lambda>sg m pk. sg = login_sig) \<rparr>"

definition login_env :: "(string, unit, unit, unit) dash_env" where
  "login_env = \<lparr> dx_ext = login_ext, dx_chrono = \<lparr> to_rfc3339 = (\<lambda>t. ''t''), parse_from_rfc3339 = (\<lambda>_. Some 0), rfc3339_error = (\<lambda>_. []) \<rparr>,
     dx_cookie_date = (\<lambda>_. ''d''),
     dx_config = dashboard_config_default \<lparr> dc_commitment_rate_limit := \<lparr> rl_enabled = False, burst_per_sec = 5, per_min = 30 \<rparr> \<rparr>,
     dx_source = AllowStatic, dx_tick = (\<lambda>_. 0) \<rparr>"

definition login_io :: allowlist_io where
  "login_io = \<lparr> read_keys_file = (\<lambda>_. Inr []), read_secret = (\<lambda>_. Inr None), parse_string_list = (\<lambda>_. Inr []) \<rparr>"

definition one_operator :: allowlist where
  "one_operator = [(''0xk'', \<lparr> op_operator_id = ''0xk'', op_commitment = ''0xk'' \<rparr>)]"

definition login_requests :: "operator_login list" where
  "login_requests = [OpIssue login_io ''k'' 0 ''n'', OpVerify login_io ''k'' ''sg'' 1 ''tok'']"

definition login_challenge :: pending_challenge where
  "login_challenge = \<lparr> pc_signing_digest = mword_zero, pc_issued_at = 0, pc_expires_at = 300000000000 \<rparr>"

definition login_start :: dashboard_state where
  "login_start = dashboard_state_new login_env one_operator"

lemma login_env_simps:
  "dx_ext login_env = login_ext" "dx_source login_env = AllowStatic" "rl_enabled (dc_commitment_rate_limit (dx_config login_env)) = False"
  "dc_nonce_ttl (dx_config login_env) = 300000000000" "dc_session_ttl (dx_config login_env) = 28800000000000"
  "dc_max_outstanding_challenges (dx_config login_env) = 8"
  "lookup_name login_ext ''k'' = ''0xk''" "signing_digest login_ext p = Inr mword_zero" "normalize_commitment login_ext ''k'' = Inr ''0xk''"
  "signature_from_hex login_ext ''sg'' = Inr login_sig" "sig_verify login_ext sg m pk = (sg = login_sig)"
  "word_into_hex login_ext w = ''0xk''" "hex_encode login_ext b = b"
  by (simp_all add: login_env_def dashboard_config_default_def chrono_seconds_def login_ext_def demo_ext_def lookup_name_def
      normalize_commitment_def word_from_hex_def word_into_hex_def signing_digest_def payload_from_json_value_def payload_from_bytes_def
      signature_from_hex_def EXPECTED_SIG_LEN_def login_sig_def strip_0x_once_def)

lemma login_run:
  "operator_logins login_env login_requests login_start =
     ([Issued ''0xk'' login_challenge, Verified ''0xk'' login_challenge ''tok'' 28800000000001],
      login_start \<lparr> ds_sessions := [(''tok'', \<lparr> os_operator = \<lparr> op_operator_id = ''0xk'', op_commitment = ''0xk'' \<rparr>,
        os_issued_at = 1, os_expires_at = 28800000000001 \<rparr>)] \<rparr>)"
  by (simp add: login_requests_def operator_login_step_def issue_challenge_def refresh_allowlist_def rate_limit_commitment_def
     allowlist_load_dynamic_def login_env_simps Let_def bindS_def login_start_def dashboard_state_new_def one_operator_def
     op_issued_def login_challenge_def dir_get_def dir_put_def dir_del_def dir_retain_def newest_challenges_def pending_of_def operator_verify_def matching_challenge_def
     op_matched_def remove_nth_def put_or_remove_def random_hex_def)

lemma login_authenticated:
  "fst (authenticate_session login_env login_io ''tok'' 2 (snd (operator_logins login_env login_requests login_start))) =
   Inr \<lparr> op_operator_id = ''0xk'', op_commitment = ''0xk'' \<rparr>"
  unfolding login_run
  by (simp add: authenticate_session_def refresh_allowlist_def allowlist_load_dynamic_def login_env_simps bindS_def
      Let_def dir_get_def dir_retain_def login_start_def dashboard_state_new_def one_operator_def)

lemma login_names: "names_ok one_operator"
  by (simp add: names_ok_def one_operator_def dir_get_def)

theorem operator_authenticated_witness:
  "\<exists>evs1 c e evs2. fst (operator_logins login_env login_requests (dashboard_state_new login_env one_operator)) =
      evs1 @ Verified ''0xk'' c ''tok'' e # evs2 \<and> LoggedOut ''tok'' \<notin> set evs2 \<and> Issued ''0xk'' c \<in> set evs1 \<and>
      op_answered login_env ''0xk'' c \<and> 2 < e"
proof -
  obtain evs s where run: "operator_logins login_env login_requests (dashboard_state_new login_env one_operator) = (evs, s)"
    by fastforce
  moreover obtain s' where "authenticate_session login_env login_io ''tok'' 2 s =
      (Inr \<lparr> op_operator_id = ''0xk'', op_commitment = ''0xk'' \<rparr>, s')"
    using login_authenticated run by (cases "authenticate_session login_env login_io ''tok'' 2 s") (simp add: login_start_def)
  ultimately show ?thesis using operator_authenticated[OF login_names] by fastforce
qed

text \<open>
  C34: A challenge is used once: in any sequence of requests since the server started, a challenge issued to a commitment
  is answered by at most as many successful logins as it was issued times.
\<close>

theorem operator_challenge_once:
  assumes "names_ok al" and "operator_logins D reqs (dashboard_state_new D al) = (evs, s)"
  shows "length (filter (verifies i c) evs) \<le> length (filter (\<lambda>ev. ev = Issued i c) evs)"
proof -
  have "operator_run D (dashboard_state_new D al) evs s"
    using operator_logins_run[OF operators.start dash_inv_new[OF assms(1)] assms(2)] by simp
  from operators.single_use[OF this operators_fresh, of i c] show ?thesis
    by (simp add: operators.uses_def operators.issues_def)
qed

theorem operator_challenge_once_witness:
  "names_ok one_operator \<and>
   length (filter (verifies ''0xk'' login_challenge)
     (fst (operator_logins login_env login_requests (dashboard_state_new login_env one_operator)))) = 1 \<and>
   length (filter (verifies ''0xk'' login_challenge)
     (fst (operator_logins login_env login_requests (dashboard_state_new login_env one_operator)))) \<le>
   length (filter (\<lambda>ev. ev = Issued ''0xk'' login_challenge)
     (fst (operator_logins login_env login_requests (dashboard_state_new login_env one_operator))))"
  using operator_challenge_once[OF login_names, of login_env login_requests, OF prod.collapse[symmetric], of "''0xk''" login_challenge]
    login_names login_run by (simp add: login_start_def)

section \<open>EVM accounts\<close>

text \<open>
  C35: An EVM session is a login, and a challenge is used once. If a token authenticates an address, then the token was given
  out by a successful \<open>verify\<close> that answered a challenge issued earlier to that address, with a signature from which
  the address is recovered; the token was not logged out since and the session has not expired. And no
  challenge is answered by more logins than it was issued times.
\<close>

theorem evm_authenticated:
  assumes "evm_logins X A cd reqs evm_session_default = (evs, s)" and "evm_authenticate token now s = (Inr address, s')"
  shows "(\<exists>evs1 c e evs2. evs = evs1 @ Verified address c token e # evs2 \<and> LoggedOut token \<notin> set evs2 \<and>
      Issued address c \<in> set evs1 \<and> evm_answered X A address c \<and> now < e) \<and>
    (\<forall>i c. length (filter (verifies i c) evs) \<le> length (filter (\<lambda>ev. ev = Issued i c) evs))"
proof -
  note run = evm_logins_from_start[OF assms(1)]
  have "evm_login_step X A cd (EvmAuthenticate token now) s = (Authenticated address token now, s')"
    using assms(2) by (simp add: evm_login_step_def)
  then have "evm_step X A cd s (Authenticated address token now) s'"
    using evm_logins_wf[OF assms(1)] by (auto simp: evm_step_def evm_session_default_def)
  then have "evm_run X A cd evm_session_default (evs @ [Authenticated address token now]) s'"
    using evm.next_step run by blast
  from evm.authenticated_login[OF this evm_fresh] evm.single_use[OF run evm_fresh] show ?thesis
    unfolding evm.login_def evm.uses_def evm.issues_def by blast
qed

text \<open>A wallet logs in with the challenge it was given.\<close>

definition evm_wallet :: string where
  "evm_wallet = ''0x'' @ replicate 40 (CHR ''1'')"

definition evm_signed :: string where
  "evm_signed = replicate 65 (CHR ''z'')"

definition evm_nonce :: string where
  "evm_nonce = replicate 64 (CHR ''0'')"

definition evm_ext :: "(string, unit, unit, unit) externals" where
  "evm_ext = demo_ext \<lparr> hex_decode := (\<lambda>h. Inr (if h = ''sg'' then evm_signed else h)) \<rparr>"

definition evm_alloy :: "string alloy_ops" where
  "evm_alloy = \<lparr> alloy_session_hash = (\<lambda>w n i e. ''h''), alloy_signature = Inr, alloy_recover = (\<lambda>sg h. Inr ''a''),
     alloy_debug = (\<lambda>_. evm_wallet), alloy_id = (\<lambda>c a v h n. ''id''), alloy_u256 = (\<lambda>_. Inr 0), alloy_u192 = (\<lambda>_. Inr 0) \<rparr>"

definition evm_challenge_1 :: evm_challenge where
  "evm_challenge_1 = \<lparr> ec_address = evm_wallet, ec_nonce = ''0x'' @ evm_nonce, ec_issued_at = 0, ec_expires_at = 300000000000 \<rparr>"

definition evm_requests :: "evm_login list" where
  "evm_requests = [EvmIssue evm_wallet 0 evm_nonce, EvmVerify evm_wallet (''0x'' @ evm_nonce) ''0xsg'' 1 ''tok'']"

lemma evm_wallet_normal: "normalize_evm_address evm_wallet = Inr evm_wallet"
proof -
  have "trim_str evm_wallet = evm_wallet"
    by (rule trim_str_id) (simp_all add: evm_wallet_def is_blank_def)
  then show ?thesis
    by (simp add: normalize_evm_address_def evm_wallet_def list_all_iff is_hexdigit_def to_digit_def to_ascii_lowercase_def
        map_replicate_const[symmetric] to_lower_def)
qed

lemma evm_wallet_bytes: "\<exists>b. parse_address evm_ext evm_wallet = Inr b"
  by (simp add: parse_address_def evm_wallet_normal evm_ext_def)

lemma evm_login_simps:
  "normalize_evm_address evm_wallet = Inr evm_wallet" "normalize_signature evm_ext ''0xsg'' = Inr (''0x'' @ evm_signed)"
  "recover_session_address evm_ext evm_alloy evm_challenge_1 sg = Inr evm_wallet" "hex_encode evm_ext b = b"
proof -
  show "recover_session_address evm_ext evm_alloy evm_challenge_1 sg = Inr evm_wallet"
    using evm_wallet_bytes by (auto simp: recover_session_address_def evm_challenge_1_def parse_b256_def evm_nonce_def
        evm_ext_def recover_address_from_b256_def evm_alloy_def Let_def)
qed (simp_all add: evm_wallet_normal normalize_signature_def parse_fixed_hex_def parse_hex_def evm_ext_def demo_ext_def
      format_fixed_hex_def evm_signed_def)

lemma evm_login_run:
  "evm_logins evm_ext evm_alloy (\<lambda>_. ''d'') evm_requests evm_session_default =
     ([Issued evm_wallet evm_challenge_1, Verified evm_wallet evm_challenge_1 ''0xtok'' 28800000000001],
      \<lparr> es_challenges = [], es_sessions = [(''0xtok'', \<lparr> es_address = evm_wallet, es_expires_at = 28800000000001 \<rparr>)] \<rparr>)"
  by (simp add: evm_requests_def evm_login_step_def evm_issue_challenge_def evm_verify_def evm_session_default_def bindS_def Let_def
      evm_login_simps evm_login_simps(3)[unfolded evm_challenge_1_def, simplified]
      random_hex_32_def duration_secs_def CHALLENGE_TTL_SECS_def SESSION_TTL_SECS_def MAX_OUTSTANDING_CHALLENGES_def
      keep_newest_def pending_of_def dir_get_def dir_put_def dir_del_def dir_retain_def put_or_remove_def remove_nth_def evm_matching_def
      evm_matched_def eq_ignore_ascii_case_def evm_challenge_1_def)

theorem evm_authenticated_witness:
  "fst (evm_authenticate ''0xtok'' 2 (snd (evm_logins evm_ext evm_alloy (\<lambda>_. ''d'') evm_requests evm_session_default))) = Inr evm_wallet \<and>
   (\<exists>evs1 c e evs2. fst (evm_logins evm_ext evm_alloy (\<lambda>_. ''d'') evm_requests evm_session_default) =
      evs1 @ Verified evm_wallet c ''0xtok'' e # evs2 \<and> LoggedOut ''0xtok'' \<notin> set evs2 \<and>
      Issued evm_wallet c \<in> set evs1 \<and> evm_answered evm_ext evm_alloy evm_wallet c \<and> 2 < e)"
proof -
  have "fst (evm_authenticate ''0xtok'' 2 (snd (evm_logins evm_ext evm_alloy (\<lambda>_. ''d'') evm_requests evm_session_default))) = Inr evm_wallet"
    unfolding evm_login_run by (simp add: evm_authenticate_def dir_retain_def dir_get_def)
  then obtain s' where run: "evm_authenticate ''0xtok'' 2 (snd (evm_logins evm_ext evm_alloy (\<lambda>_. ''d'') evm_requests evm_session_default)) = (Inr evm_wallet, s')"
    by (metis prod.collapse)
  from evm_authenticated[OF prod.collapse[symmetric] run] show ?thesis using run by simp
qed

end
