(* ===== verification/Evm_Proposal.thy ===== *)
theory Evm_Proposal
  imports Evm_Session Guardian_Services
begin

text \<open>
  EVM proposals (\<open>server/src/evm/proposal.rs\<close>) and what \<open>evm/contracts.rs\<close> computes for them without the chain:
  the proposal record and the delta it is stored in, its input as normalised from a request, the
  filter, and the recovery of a signer from the hash of a user operation. The lemmas give the round trip
  through the stored delta.
\<close>

section \<open>Data\<close>

definition EVM_PROPOSAL_KIND :: string where
  "EVM_PROPOSAL_KIND = ''evm''"

record evm_proposal_signature =
  eps_signer :: string
  eps_signature :: string
  eps_signed_at :: int

record evm_proposal =
  ep_proposal_id :: string
  ep_account_id :: string
  ep_chain_id :: nat
  ep_smart_account_address :: string
  ep_validator_address :: string
  ep_user_op_hash :: string
  ep_payload :: string
  ep_nonce :: string
  ep_nonce_key :: string
  ep_proposer :: string
  ep_signer_snapshot :: "string list"
  ep_threshold :: nat
  ep_signatures :: "evm_proposal_signature list"
  ep_created_at :: int
  ep_expires_at :: int

record evm_proposal_filter =
  ef_chain_id :: "nat option"
  ef_smart_account_address :: "string option"
  ef_validator_address :: "string option"

record executable_evm_proposal =
  ee_hash :: string
  ee_payload :: string
  ee_signatures :: "string list"
  ee_signers :: "string list"

record normalized_evm_input =
  ni_chain_id :: nat
  ni_smart_account_address :: string
  ni_validator_address :: string
  ni_hash :: string
  ni_hash_bytes :: string
  ni_payload :: string
  ni_nonce :: normalized_nonce
  ni_proposer :: string
  ni_signature :: evm_proposal_signature
  ni_ttl_seconds :: nat

record evm_proposal_payload =
  pp_kind :: string
  pp_proposal_id :: string
  pp_chain_id :: nat
  pp_smart_account_address :: string
  pp_validator_address :: string
  pp_user_op_hash :: string
  pp_payload :: string
  pp_nonce :: string
  pp_nonce_key :: string
  pp_proposer :: string
  pp_signer_snapshot :: "string list"
  pp_threshold :: nat
  pp_created_at :: int
  pp_expires_at :: int

section \<open>Normalisation\<close>

definition normalize_proposal_id :: "('sig, 'pk, 'su, 'n) externals \<Rightarrow> string \<Rightarrow> guardian_error + string" where
  "normalize_proposal_id X i =
     bind_res (parse_fixed_hex X i 32 ''proposal_id'') (\<lambda>bytes. Inr (format_fixed_hex X bytes))"

definition normalize_hash :: "('sig, 'pk, 'su, 'n) externals \<Rightarrow> string \<Rightarrow> guardian_error + string \<times> string" where
  "normalize_hash X h =
     bind_res (parse_fixed_hex X h 32 ''hash'') (\<lambda>bytes. Inr (format_fixed_hex X bytes, bytes))"

definition normalized_input_new ::
  "('sig, 'pk, 'su, 'n) externals \<Rightarrow> nat \<Rightarrow> string \<Rightarrow> string \<Rightarrow> string \<Rightarrow> string \<Rightarrow> string \<Rightarrow> string \<Rightarrow>
     evm_proposal_signature \<Rightarrow> nat \<Rightarrow> guardian_error + normalized_evm_input" where
  "normalized_input_new X chain_id smart_account_address validator_address hash payload nonce proposer signature ttl_seconds =
     (if chain_id = 0 then Inl (InvalidEvmProposal ''chain_id must be greater than zero'')
      else if ttl_seconds = 0 then Inl (InvalidEvmProposal ''ttl_seconds must be greater than zero'')
      else
      bind_res (parse_fixed_hex X hash 32 ''hash'') (\<lambda>hash_bytes.
      bind_res (map_err InvalidInput (normalize_evm_address proposer)) (\<lambda>proposer.
      bind_res (map_err InvalidInput (normalize_evm_address (eps_signer signature))) (\<lambda>signer.
      bind_res (normalize_signature X (eps_signature signature)) (\<lambda>sg.
      if signer \<noteq> proposer then Inl (SignerNotAuthorized signer)
      else
      bind_res (map_err InvalidInput (normalize_evm_address smart_account_address)) (\<lambda>account.
      bind_res (map_err InvalidInput (normalize_evm_address validator_address)) (\<lambda>validator.
      bind_res (normalize_nonce X nonce) (\<lambda>n.
      Inr \<lparr> ni_chain_id = chain_id, ni_smart_account_address = account, ni_validator_address = validator,
            ni_hash = format_fixed_hex X hash_bytes, ni_hash_bytes = hash_bytes, ni_payload = payload, ni_nonce = n,
            ni_proposer = proposer,
            ni_signature = \<lparr> eps_signer = signer, eps_signature = sg, eps_signed_at = eps_signed_at signature \<rparr>,
            ni_ttl_seconds = ttl_seconds \<rparr>))))))))"

section \<open>The stored delta\<close>

text \<open>\<open>serde_json\<close> on the payload; \<open>From\<close> and \<open>TryFrom\<close> on the signatures.\<close>

definition json_int :: "int \<Rightarrow> json" where
  "json_int i = JNum (if i < 0 then NegInt i else PosInt (nat i))"

definition evm_payload_to_json :: "evm_proposal_payload \<Rightarrow> json" where
  "evm_payload_to_json p =
     JObject [(''kind'', JString (pp_kind p)), (''proposal_id'', JString (pp_proposal_id p)),
       (''chain_id'', JNum (PosInt (pp_chain_id p))),
       (''smart_account_address'', JString (pp_smart_account_address p)),
       (''validator_address'', JString (pp_validator_address p)), (''user_op_hash'', JString (pp_user_op_hash p)),
       (''payload'', JString (pp_payload p)), (''nonce'', JString (pp_nonce p)),
       (''nonce_key'', JString (pp_nonce_key p)), (''proposer'', JString (pp_proposer p)),
       (''signer_snapshot'', JArray (map JString (pp_signer_snapshot p))),
       (''threshold'', JNum (PosInt (pp_threshold p))), (''created_at'', json_int (pp_created_at p)),
       (''expires_at'', json_int (pp_expires_at p))]"

definition evm_payload_from_json :: "json \<Rightarrow> evm_proposal_payload option" where
  "evm_payload_from_json v =
     Option.bind (json_get_str v ''kind'') (\<lambda>kind.
     Option.bind (json_get_str v ''proposal_id'') (\<lambda>proposal_id.
     Option.bind (Option.bind (json_get v ''chain_id'') json_to_u64) (\<lambda>chain_id.
     Option.bind (json_get_str v ''smart_account_address'') (\<lambda>account.
     Option.bind (json_get_str v ''validator_address'') (\<lambda>validator.
     Option.bind (json_get_str v ''user_op_hash'') (\<lambda>hash.
     Option.bind (json_get_str v ''payload'') (\<lambda>payload.
     Option.bind (json_get_str v ''nonce'') (\<lambda>nonce.
     Option.bind (json_get_str v ''nonce_key'') (\<lambda>nonce_key.
     Option.bind (json_get_str v ''proposer'') (\<lambda>proposer.
     Option.bind (Option.bind (Option.bind (json_get v ''signer_snapshot'') json_array) (\<lambda>xs. those (map json_str xs))) (\<lambda>snapshot.
     Option.bind (Option.bind (json_get v ''threshold'') json_to_u64) (\<lambda>threshold.
     Option.bind (Option.bind (json_get v ''created_at'') json_i64) (\<lambda>created_at.
     Option.bind (Option.bind (json_get v ''expires_at'') json_i64) (\<lambda>expires_at.
     Some \<lparr> pp_kind = kind, pp_proposal_id = proposal_id, pp_chain_id = chain_id, pp_smart_account_address = account,
            pp_validator_address = validator, pp_user_op_hash = hash, pp_payload = payload, pp_nonce = nonce,
            pp_nonce_key = nonce_key, pp_proposer = proposer, pp_signer_snapshot = snapshot, pp_threshold = threshold,
            pp_created_at = created_at, pp_expires_at = expires_at \<rparr>))))))))))))))"

definition low_u64_nonce :: "('sig, 'pk, 'su, 'n) externals \<Rightarrow> evm_proposal_payload \<Rightarrow> nat" where
  "low_u64_nonce X p = (case normalize_nonce X (pp_nonce p) of Inr n \<Rightarrow> low_u64 n | Inl _ \<Rightarrow> 0)"

definition evm_signature_try_from ::
  "('sig, 'pk, 'su, 'n) externals \<Rightarrow> cosigner_signature \<Rightarrow> guardian_error + evm_proposal_signature" where
  "evm_signature_try_from X c =
     bind_res (case cs_signature c of
        PSEcdsa sg _ \<Rightarrow> normalize_signature X sg
      | PSFalcon _ \<Rightarrow> Inl (InvalidProposalSignature ''EVM proposals require ECDSA signatures'')) (\<lambda>sg.
     bind_res (map_err InvalidInput (normalize_evm_address (cs_signer_id c))) (\<lambda>signer.
     Inr \<lparr> eps_signer = signer, eps_signature = sg,
           eps_signed_at = (case parse_i64 (cs_timestamp c) of Some t \<Rightarrow> t | None \<Rightarrow> 0) \<rparr>))"

definition evm_signature_into :: "evm_proposal_signature \<Rightarrow> cosigner_signature" where
  "evm_signature_into e =
     \<lparr> cs_signature = PSEcdsa (eps_signature e) None, cs_timestamp = show_int (eps_signed_at e), cs_signer_id = eps_signer e \<rparr>"

text \<open>\<open>perr\<close> is the message of \<open>serde_json\<close> for a payload of another shape.\<close>

definition evm_from_delta ::
  "('sig, 'pk, 'su, 'n) externals \<Rightarrow> (json \<Rightarrow> string) \<Rightarrow> string \<Rightarrow> delta_object \<Rightarrow> guardian_error + evm_proposal" where
  "evm_from_delta X perr commitment d =
     bind_res (ok_or (InvalidEvmProposal (''invalid EVM payload: '' @ perr (d_payload d))) (evm_payload_from_json (d_payload d))) (\<lambda>p.
     if pp_kind p \<noteq> EVM_PROPOSAL_KIND then Inl (InvalidEvmProposal ''delta_payload.kind must be evm'')
     else if pp_proposal_id p \<noteq> commitment
     then Inl (InvalidEvmProposal ''proposal commitment does not match payload proposal_id'')
     else
     bind_res (case d_status d of
        Pending _ _ sigs \<Rightarrow> collect_res (evm_signature_try_from X) sigs
      | _ \<Rightarrow> Inl (ProposalNotFound (d_account_id d) commitment)) (\<lambda>signatures.
     Inr \<lparr> ep_proposal_id = pp_proposal_id p, ep_account_id = d_account_id d, ep_chain_id = pp_chain_id p,
           ep_smart_account_address = pp_smart_account_address p, ep_validator_address = pp_validator_address p,
           ep_user_op_hash = pp_user_op_hash p, ep_payload = pp_payload p, ep_nonce = pp_nonce p,
           ep_nonce_key = pp_nonce_key p, ep_proposer = pp_proposer p, ep_signer_snapshot = pp_signer_snapshot p,
           ep_threshold = pp_threshold p, ep_signatures = signatures, ep_created_at = pp_created_at p,
           ep_expires_at = pp_expires_at p \<rparr>))"

definition proposal_id_from_delta :: "('sig, 'pk, 'su, 'n) externals \<Rightarrow> delta_object \<Rightarrow> guardian_error + string" where
  "proposal_id_from_delta X d =
     (case json_get_str (d_payload d) ''proposal_id'' of
        Some i \<Rightarrow> normalize_proposal_id X i
      | None \<Rightarrow> Inl (InvalidEvmProposal ''EVM delta proposal payload is missing proposal_id''))"

definition evm_from_stored_delta ::
  "('sig, 'pk, 'su, 'n) externals \<Rightarrow> (json \<Rightarrow> string) \<Rightarrow> delta_object \<Rightarrow> guardian_error + evm_proposal" where
  "evm_from_stored_delta X perr d = bind_res (proposal_id_from_delta X d) (\<lambda>i. evm_from_delta X perr i d)"

definition evm_payload_of :: "evm_proposal \<Rightarrow> evm_proposal_payload" where
  "evm_payload_of p =
     \<lparr> pp_kind = EVM_PROPOSAL_KIND, pp_proposal_id = ep_proposal_id p, pp_chain_id = ep_chain_id p,
       pp_smart_account_address = ep_smart_account_address p, pp_validator_address = ep_validator_address p,
       pp_user_op_hash = ep_user_op_hash p, pp_payload = ep_payload p, pp_nonce = ep_nonce p,
       pp_nonce_key = ep_nonce_key p, pp_proposer = ep_proposer p, pp_signer_snapshot = ep_signer_snapshot p,
       pp_threshold = ep_threshold p, pp_created_at = ep_created_at p, pp_expires_at = ep_expires_at p \<rparr>"

definition evm_into_delta :: "('sig, 'pk, 'su, 'n) externals \<Rightarrow> evm_proposal \<Rightarrow> delta_object" where
  "evm_into_delta X p =
     (let payload = evm_payload_of p in
      \<lparr> d_account_id = evm_account_id (pp_chain_id payload) (pp_smart_account_address payload),
        d_nonce = low_u64_nonce X payload, d_prev_commitment = [], d_new_commitment = None,
        d_payload = evm_payload_to_json payload, d_ack_sig = [], d_ack_pubkey = [], d_ack_scheme = [],
        d_status = Pending (show_int (ep_created_at p)) (ep_proposer p) (map evm_signature_into (ep_signatures p)) \<rparr>)"

section \<open>Questions about a proposal\<close>

definition has_signer :: "evm_proposal \<Rightarrow> string \<Rightarrow> bool" where
  "has_signer p signer = list_ex (\<lambda>c. eq_ignore_ascii_case c signer) (ep_signer_snapshot p)"

definition has_signature_from :: "evm_proposal \<Rightarrow> string \<Rightarrow> bool" where
  "has_signature_from p signer = list_ex (\<lambda>e. eq_ignore_ascii_case (eps_signer e) signer) (ep_signatures p)"

definition signature_count :: "evm_proposal \<Rightarrow> nat" where
  "signature_count p = length (ep_signatures p)"

definition is_executable :: "evm_proposal \<Rightarrow> bool" where
  "is_executable p \<longleftrightarrow> ep_threshold p \<le> signature_count p"

definition executable :: "evm_proposal \<Rightarrow> executable_evm_proposal" where
  "executable p =
     \<lparr> ee_hash = ep_user_op_hash p, ee_payload = ep_payload p, ee_signatures = map eps_signature (ep_signatures p),
       ee_signers = map eps_signer (ep_signatures p) \<rparr>"

definition filter_normalize :: "evm_proposal_filter \<Rightarrow> guardian_error + evm_proposal_filter" where
  "filter_normalize f =
     (let norm = (\<lambda>a. case a of None \<Rightarrow> Inr None
                      | Some a \<Rightarrow> map_sum id Some (map_err InvalidInput (normalize_evm_address a))) in
      bind_res (norm (ef_smart_account_address f)) (\<lambda>account.
      bind_res (norm (ef_validator_address f)) (\<lambda>validator.
      Inr \<lparr> ef_chain_id = ef_chain_id f, ef_smart_account_address = account, ef_validator_address = validator \<rparr>)))"

definition filter_matches :: "evm_proposal_filter \<Rightarrow> evm_proposal \<Rightarrow> bool" where
  "filter_matches f p \<longleftrightarrow>
     (case ef_chain_id f of Some c \<Rightarrow> ep_chain_id p = c | None \<Rightarrow> True) \<and>
     (case ef_smart_account_address f of Some a \<Rightarrow> eq_ignore_ascii_case (ep_smart_account_address p) a | None \<Rightarrow> True) \<and>
     (case ef_validator_address f of Some a \<Rightarrow> eq_ignore_ascii_case (ep_validator_address p) a | None \<Rightarrow> True)"

section \<open>Signatures and identity (evm/contracts.rs)\<close>

definition recover_hash_address :: "'asig alloy_ops \<Rightarrow> string \<Rightarrow> string \<Rightarrow> guardian_error + string" where
  "recover_hash_address A hash signature =
     map_err (\<lambda>e. InvalidProposalSignature (''recover failed: '' @ e)) (recover_address_from_b256 A hash signature)"

definition verify_proposal_signature :: "'asig alloy_ops \<Rightarrow> normalized_evm_input \<Rightarrow> string \<Rightarrow> guardian_error + string" where
  "verify_proposal_signature A i signature = recover_hash_address A (ni_hash_bytes i) signature"

definition parse_u256_decimal :: "'asig alloy_ops \<Rightarrow> string \<Rightarrow> guardian_error + nat" where
  "parse_u256_decimal A v = map_err (\<lambda>e. InvalidEvmProposal (''invalid uint256: '' @ e)) (alloy_u256 A v)"

definition compute_proposal_id ::
  "('sig, 'pk, 'su, 'n) externals \<Rightarrow> 'asig alloy_ops \<Rightarrow> normalized_evm_input \<Rightarrow> guardian_error + string" where
  "compute_proposal_id X A i =
     bind_res (parse_address X (ni_smart_account_address i)) (\<lambda>account.
     bind_res (parse_address X (ni_validator_address i)) (\<lambda>validator.
     bind_res (parse_u256_decimal A (nn_decimal (ni_nonce i))) (\<lambda>nonce.
     Inr (''0x'' @ hex_encode X (alloy_id A (ni_chain_id i) account validator (ni_hash_bytes i) nonce)))))"

section \<open>Lemmas\<close>

text \<open>Documented law of the crate \<open>hex\<close>: decoding inverts encoding, two digits to a byte.\<close>

definition hex_codec :: "('sig, 'pk, 'su, 'n) externals \<Rightarrow> bool" where
  "hex_codec X \<longleftrightarrow> (\<forall>b. hex_decode X (hex_encode X b) = Inr b \<and> length (hex_encode X b) = 2 * length b)"

lemma parse_format_fixed_hex:
  "hex_codec X \<Longrightarrow> length b = n \<Longrightarrow> parse_fixed_hex X (format_fixed_hex X b) n field = Inr b"
  by (simp add: hex_codec_def parse_fixed_hex_def parse_hex_def format_fixed_hex_def)

lemma normalize_signature_idem:
  assumes "hex_codec X" and "normalize_signature X v = Inr s"
  shows "normalize_signature X s = Inr s"
  using assms parse_format_fixed_hex[OF assms(1)]
  by (auto simp: normalize_signature_def parse_fixed_hex_def[of X v] result_simps split: if_splits)

lemma normalize_hash_format:
  "hex_codec X \<Longrightarrow> length b = 32 \<Longrightarrow> normalize_hash X (format_fixed_hex X b) = Inr (format_fixed_hex X b, b)"
  by (simp add: normalize_hash_def parse_format_fixed_hex)

lemma parse_fixed_hex_length: "parse_fixed_hex X v n field = Inr b \<Longrightarrow> length b = n"
  by (auto simp: parse_fixed_hex_def result_simps split: if_splits)

lemma json_i64_int: "json_i64 (json_int i) = (if i < 2 ^ 63 then Some i else None)"
  by (auto simp: json_int_def)

lemma those_map_id: "those (map Some xs) = Some xs"
  by (induction xs) simp_all

lemma evm_payload_roundtrip:
  "evm_payload_from_json (evm_payload_to_json p) =
     (if pp_chain_id p < u64_bound \<and> pp_threshold p < u64_bound \<and> pp_created_at p < 2 ^ 63 \<and> pp_expires_at p < 2 ^ 63
      then Some p else None)"
  by (simp add: json_to_u64_def evm_payload_from_json_def evm_payload_to_json_def json_i64_int those_map_id comp_def)

definition normal_signature :: "('sig, 'pk, 'su, 'n) externals \<Rightarrow> evm_proposal_signature \<Rightarrow> bool" where
  "normal_signature X e \<longleftrightarrow> normalize_evm_address (eps_signer e) = Inr (eps_signer e) \<and>
     normalize_signature X (eps_signature e) = Inr (eps_signature e)"

text \<open>What reading makes of the time of a signature.\<close>

definition reread :: "evm_proposal_signature \<Rightarrow> evm_proposal_signature" where
  "reread e = e \<lparr> eps_signed_at := (case parse_i64 (show_int (eps_signed_at e)) of Some t \<Rightarrow> t | None \<Rightarrow> 0) \<rparr>"

lemma reread_sel [simp]: "eps_signer (reread e) = eps_signer e" "eps_signature (reread e) = eps_signature e"
  by (simp_all add: reread_def)

lemma signature_roundtrip: "normal_signature X e \<Longrightarrow> evm_signature_try_from X (evm_signature_into e) = Inr (reread e)"
  by (simp add: evm_signature_try_from_def evm_signature_into_def normal_signature_def reread_def)

lemma signatures_roundtrip:
  "(\<And>e. e \<in> set es \<Longrightarrow> normal_signature X e) \<Longrightarrow>
     collect_res (evm_signature_try_from X) (map evm_signature_into es) = Inr (map reread es)"
  by (induction es) (simp_all add: signature_roundtrip)

lemma evm_reread:
  assumes "\<And>e. e \<in> set (ep_signatures p) \<Longrightarrow> normal_signature X e"
  shows "evm_from_delta X perr c (evm_into_delta X p) = Inr q \<longleftrightarrow>
    c = ep_proposal_id p \<and> ep_chain_id p < u64_bound \<and> ep_threshold p < u64_bound \<and> ep_created_at p < 2 ^ 63 \<and> ep_expires_at p < 2 ^ 63 \<and>
    q = p \<lparr> ep_account_id := evm_account_id (ep_chain_id p) (ep_smart_account_address p),
            ep_signatures := map reread (ep_signatures p) \<rparr>"
  using signatures_roundtrip[of "ep_signatures p" X] assms
  by (auto simp: evm_from_delta_def evm_into_delta_def Let_def evm_payload_roundtrip evm_payload_of_def result_simps)

end
