(* ===== verification/Evm_Service.thy ===== *)
theory Evm_Service
  imports Evm_Proposal Dashboard_Session
begin

text \<open>
  The EVM side of the Guardian: the chains it knows (\<open>server/src/evm/config.rs\<close>), the calls to the contracts of an
  account (\<open>evm/contracts.rs\<close>), and the services on accounts and proposals (\<open>evm/service.rs\<close>). A service runs on the
  application of \<open>Guardian_Services\<close> together with the chain, whose contract calls are parameters (\<open>evm_rpc\<close>)
  that may fail and may answer differently each time, and the EVM sessions.
\<close>

section \<open>Chains (evm/config.rs)\<close>

definition RPC_URLS_ENV :: string where
  "RPC_URLS_ENV = ''GUARDIAN_EVM_RPC_URLS''"

definition ENTRYPOINT_ADDRESS_ENV :: string where
  "ENTRYPOINT_ADDRESS_ENV = ''GUARDIAN_EVM_ENTRYPOINT_ADDRESS''"

definition DEFAULT_ENTRYPOINT_ADDRESS :: string where
  "DEFAULT_ENTRYPOINT_ADDRESS = ''0x433709009b8330fda32311df1c2afa402ed8d009''"

record evm_chain_config =
  cc_chain_id :: nat
  cc_rpc_url :: string
  cc_entrypoint_address :: string

type_synonym evm_chain_registry = "(nat, evm_chain_config) dir"

definition is_http_url :: "string \<Rightarrow> bool" where
  "is_http_url v \<longleftrightarrow> starts_with ''http://'' v \<or> starts_with ''https://'' v"

text \<open>A \<open>BTreeMap\<close> is a directory that is iterated in the order of its keys.\<close>

fun parse_map_entries :: "string \<Rightarrow> string list \<Rightarrow> (nat, string) dir \<Rightarrow> string + (nat, string) dir" where
  "parse_map_entries env_var [] values = Inr values"
| "parse_map_entries env_var (entry # entries) values =
     bind_res (ok_or (env_var @ '' entries must use chain_id=value format'') (split_once (CHR ''='') entry)) (\<lambda>(chain_id, v).
     bind_res (map_err (\<lambda>_. env_var @ '' chain ID '' @ [CHR 0x27] @ chain_id @ [CHR 0x27] @ '' is invalid'')
       (parse_u64 (trim_str chain_id))) (\<lambda>c.
     if c = 0 then Inl (env_var @ '' chain ID must be greater than zero'')
     else parse_map_entries env_var entries (dir_put c (trim_str v) values)))"

definition parse_map :: "env_vars \<Rightarrow> string \<Rightarrow> string + (nat, string) dir" where
  "parse_map env env_var =
     (case env env_var of
        None \<Rightarrow> Inr []
      | Some raw \<Rightarrow> parse_map_entries env_var (filter (\<lambda>e. e \<noteq> []) (map trim_str (split_on (CHR '','') raw))) [])"

fun insert_chains :: "string \<Rightarrow> (nat \<times> string) list \<Rightarrow> evm_chain_registry \<Rightarrow> string + evm_chain_registry" where
  "insert_chains entrypoint [] reg = Inr reg"
| "insert_chains entrypoint ((chain_id, rpc_url) # rest) reg =
     (if \<not> is_http_url rpc_url
      then Inl (RPC_URLS_ENV @ '' entry for chain '' @ show_nat chain_id @ '' must be an http or https URL'')
      else insert_chains entrypoint rest
             (dir_put chain_id \<lparr> cc_chain_id = chain_id, cc_rpc_url = rpc_url, cc_entrypoint_address = entrypoint \<rparr> reg))"

definition from_rpc_urls :: "(nat, string) dir \<Rightarrow> string \<Rightarrow> string + evm_chain_registry" where
  "from_rpc_urls rpc_urls entrypoint_address =
     bind_res (map_err (\<lambda>e. ENTRYPOINT_ADDRESS_ENV @ '': '' @ e) (normalize_evm_address entrypoint_address)) (\<lambda>entrypoint.
     insert_chains entrypoint (sort_key fst rpc_urls) [])"

definition registry_from_env :: "env_vars \<Rightarrow> string + evm_chain_registry" where
  "registry_from_env env =
     bind_res (parse_map env RPC_URLS_ENV) (\<lambda>rpc_urls.
     from_rpc_urls rpc_urls (case env ENTRYPOINT_ADDRESS_ENV of Some a \<Rightarrow> a | None \<Rightarrow> DEFAULT_ENTRYPOINT_ADDRESS))"

definition registry_new :: "evm_chain_config list \<Rightarrow> evm_chain_registry" where
  "registry_new configs = foldl (\<lambda>reg c. dir_put (cc_chain_id c) c reg) [] configs"

definition registry_get :: "evm_chain_registry \<Rightarrow> nat \<Rightarrow> evm_chain_config option" where
  "registry_get reg chain_id = dir_get reg chain_id"

definition supported_chains :: "evm_chain_registry \<Rightarrow> nat list" where
  "supported_chains reg = sort (map fst reg)"

section \<open>The application with its chain\<close>

text \<open>
  A contract call gets the RPC URL and the address of the contract first; an error is the text of the
  provider. \<open>rpc_url\<close> is the parsing of the URL. \<open>ev_add_secs\<close> is chrono's \<open>now + Duration::seconds(n)\<close>, \<open>None\<close> where it
  panics; \<open>ev_perr\<close> and \<open>ev_cookie_date\<close> are serde's message and the formatting of a date.
\<close>

record 'ch evm_rpc =
  rpc_url :: "string \<Rightarrow> string + unit"
  rpc_is_module_installed :: "string \<Rightarrow> string \<Rightarrow> nat \<Rightarrow> string \<Rightarrow> string \<Rightarrow> ('ch, string, bool) comp"
  rpc_get_signer_count :: "string \<Rightarrow> string \<Rightarrow> string \<Rightarrow> ('ch, string, nat) comp"
  rpc_get_signers :: "string \<Rightarrow> string \<Rightarrow> string \<Rightarrow> nat \<Rightarrow> nat \<Rightarrow> ('ch, string, string list) comp"
  rpc_threshold :: "string \<Rightarrow> string \<Rightarrow> string \<Rightarrow> ('ch, string, nat) comp"
  rpc_get_nonce :: "string \<Rightarrow> string \<Rightarrow> string \<Rightarrow> nat \<Rightarrow> ('ch, string, nat) comp"

record ('asig, 'ch) evm_env =
  ev_alloy :: "'asig alloy_ops"
  ev_rpc :: "'ch evm_rpc"
  ev_chains :: evm_chain_registry
  ev_add_secs :: "int \<Rightarrow> int \<Rightarrow> int option"
  ev_perr :: "json \<Rightarrow> string"
  ev_cookie_date :: "int \<Rightarrow> string"

record ('st, 'ms, 'nc, 'ch) evm_app =
  ea_app :: "('st, 'ms, 'nc) gapp"
  ea_chain :: 'ch
  ea_sessions :: evm_session_state

type_synonym ('st, 'ms, 'nc, 'ch, 'a) evm_service = "(('st, 'ms, 'nc, 'ch) evm_app, guardian_error, 'a) comp"

definition on_app :: "(('st, 'ms, 'nc) gapp, 'e, 'a) comp \<Rightarrow> (('st, 'ms, 'nc, 'ch) evm_app, 'e, 'a) comp" where
  "on_app m s = (case m (ea_app s) of (r, a) \<Rightarrow> (r, s \<lparr> ea_app := a \<rparr>))"

definition on_chain :: "('ch, 'e, 'a) comp \<Rightarrow> (('st, 'ms, 'nc, 'ch) evm_app, 'e, 'a) comp" where
  "on_chain m s = (case m (ea_chain s) of (r, c) \<Rightarrow> (r, s \<lparr> ea_chain := c \<rparr>))"

definition on_sessions :: "(evm_session_state, 'e, 'a) comp \<Rightarrow> (('st, 'ms, 'nc, 'ch) evm_app, 'e, 'a) comp" where
  "on_sessions m s = (case m (ea_sessions s) of (r, x) \<Rightarrow> (r, s \<lparr> ea_sessions := x \<rparr>))"

definition evm_now :: "(('st, 'ms, 'nc, 'ch) evm_app, 'e, int) comp" where
  "evm_now = on_app clock_now"

definition contract_call :: "('ch, string, 'a) comp \<Rightarrow> ('ch, guardian_error, 'a) comp" where
  "contract_call m = map_errS RpcUnavailable m"

section \<open>Contracts (evm/contracts.rs)\<close>

record evm_signer_snapshot =
  ss_signers :: "string list"
  ss_threshold :: nat

definition provider :: "'ch evm_rpc \<Rightarrow> evm_chain_config \<Rightarrow> guardian_error + string" where
  "provider R cfg =
     bind_res (map_err (\<lambda>e. InvalidNetworkConfig (''invalid RPC URL: '' @ e)) (rpc_url R (cc_rpc_url cfg)))
       (\<lambda>_. Inr (cc_rpc_url cfg))"

definition ensure_validator_installed ::
  "('sig, 'pk, 'su, 'n) externals \<Rightarrow> 'ch evm_rpc \<Rightarrow> evm_chain_config \<Rightarrow> string \<Rightarrow> string \<Rightarrow> ('ch, guardian_error, unit) comp" where
  "ensure_validator_installed X R cfg smart_account_address validator_address =
     bindS (liftS (provider R cfg)) (\<lambda>url.
     bindS (liftS (parse_address X smart_account_address)) (\<lambda>account.
     bindS (liftS (parse_address X validator_address)) (\<lambda>validator.
     bindS (contract_call (rpc_is_module_installed R url account 1 validator [])) (\<lambda>installed.
     if installed then okS ()
     else errS (RpcValidationFailed ''multisig validator is not installed on smart account'')))))"

definition signer_bytes_to_address :: "('sig, 'pk, 'su, 'n) externals \<Rightarrow> string \<Rightarrow> guardian_error + string" where
  "signer_bytes_to_address X v =
     (if length v \<noteq> 20
      then Inl (RpcValidationFailed (''EVM v1 supports 20-byte EOA signers only; got '' @ show_nat (length v) @ '' bytes''))
      else Inr (''0x'' @ hex_encode X v))"

definition signer_snapshot ::
  "('sig, 'pk, 'su, 'n) externals \<Rightarrow> 'ch evm_rpc \<Rightarrow> evm_chain_config \<Rightarrow> string \<Rightarrow> string
   \<Rightarrow> ('ch, guardian_error, evm_signer_snapshot) comp" where
  "signer_snapshot X R cfg smart_account_address validator_address =
     bindS (liftS (provider R cfg)) (\<lambda>url.
     bindS (liftS (parse_address X smart_account_address)) (\<lambda>account.
     bindS (liftS (parse_address X validator_address)) (\<lambda>validator.
     bindS (contract_call (rpc_get_signer_count R url validator account)) (\<lambda>signer_count.
     if 1024 < signer_count
     then errS (RpcValidationFailed (''signer count '' @ show_nat signer_count @ '' exceeds safety limit''))
     else
     bindS (contract_call (rpc_get_signers R url validator account 0 signer_count)) (\<lambda>raw_signers.
     bindS (liftS (collect_res (signer_bytes_to_address X) raw_signers)) (\<lambda>signers.
     if signers = [] then errS (RpcValidationFailed ''multisig validator returned no EOA signers'')
     else
     bindS (contract_call (rpc_threshold R url validator account)) (\<lambda>threshold.
     if threshold = 0 \<or> length signers < threshold
     then errS (RpcValidationFailed (''unreachable threshold '' @ show_nat threshold @ '' for '' @
            show_nat (length signers) @ '' signer(s)''))
     else okS \<lparr> ss_signers = signers, ss_threshold = threshold \<rparr>)))))))"

definition entrypoint_nonce ::
  "('sig, 'pk, 'su, 'n) externals \<Rightarrow> 'asig alloy_ops \<Rightarrow> 'ch evm_rpc \<Rightarrow> evm_chain_config \<Rightarrow> string \<Rightarrow> string
   \<Rightarrow> ('ch, guardian_error, string) comp" where
  "entrypoint_nonce X A R cfg smart_account_address nonce_key =
     bindS (liftS (provider R cfg)) (\<lambda>url.
     bindS (liftS (parse_address X (cc_entrypoint_address cfg))) (\<lambda>entrypoint.
     bindS (liftS (map_err (\<lambda>e. InvalidEvmProposal (''invalid nonce key: '' @ e)) (alloy_u192 A nonce_key))) (\<lambda>key.
     bindS (liftS (parse_address X smart_account_address)) (\<lambda>account.
     bindS (contract_call (rpc_get_nonce R url entrypoint account key)) (\<lambda>nonce.
     okS (show_nat nonce))))))"

section \<open>Helpers of the services (evm/service.rs)\<close>

definition evm_network_parts :: "network_config \<Rightarrow> guardian_error + nat \<times> string \<times> string" where
  "evm_network_parts cfg =
     (case cfg of
        NetEvm chain_id account_address validator \<Rightarrow> Inr (chain_id, account_address, validator)
      | NetMiden _ \<Rightarrow> Inl (UnsupportedForNetwork ''miden'' ''evm_proposal''))"

definition normalize_session_address :: "string \<Rightarrow> guardian_error + string" where
  "normalize_session_address address = map_err InvalidInput (normalize_evm_address address)"

definition ensure_snapshot_signer :: "evm_proposal \<Rightarrow> string \<Rightarrow> guardian_error + unit" where
  "ensure_snapshot_signer p signer = (if has_signer p signer then Inr () else Inl (SignerNotAuthorized signer))"

definition is_evm_delta :: "delta_object \<Rightarrow> bool" where
  "is_evm_delta d \<longleftrightarrow> json_get_str (d_payload d) ''kind'' = Some EVM_PROPOSAL_KIND"

definition load_evm_metadata :: "('st, 'ms, 'nc) genv \<Rightarrow> string \<Rightarrow> ('st, 'ms, 'nc, 'ch, account_metadata) evm_service" where
  "load_evm_metadata G account_id =
     bindS (storage_err ''Failed to check account: '' (on_app (on_meta (ms_get (ge_meta G) account_id)))) (\<lambda>found.
     bindS (liftS (ok_or (AccountNotFound account_id) found)) (\<lambda>metadata.
     if \<not> is_evm (m_network_config metadata) then errS (UnsupportedForNetwork ''miden'' ''evm_proposal'')
     else okS metadata))"

definition proposal_is_inactive ::
  "('sig, 'pk, 'su, 'n) externals \<Rightarrow> ('asig, 'ch) evm_env \<Rightarrow> evm_proposal \<Rightarrow> ('st, 'ms, 'nc, 'ch, bool) evm_service" where
  "proposal_is_inactive X V p =
     bindS evm_now (\<lambda>now.
     if ep_expires_at p \<le> timestamp_millis now then okS True
     else
     bindS (liftS (ok_or (UnsupportedEvmChain (ep_chain_id p)) (registry_get (ev_chains V) (ep_chain_id p)))) (\<lambda>chain.
     bindS (on_chain (entrypoint_nonce X (ev_alloy V) (ev_rpc V) chain (ep_smart_account_address p) (ep_nonce_key p))) (\<lambda>current.
     bindS (liftS (compare_u256_decimal X (ep_nonce p) current)) (\<lambda>order.
     okS (order = OrdLess)))))"

definition delete_evm_proposal :: "('st, 'ms, 'nc) genv \<Rightarrow> string \<Rightarrow> string \<Rightarrow> ('st, 'ms, 'nc, 'ch, unit) evm_service" where
  "delete_evm_proposal G account_id proposal_id =
     storage_err [] (on_app (on_storage (delete_delta_proposal (ge_storage G) account_id proposal_id)))"

definition load_active_proposal ::
  "('sig, 'pk, 'su, 'n) externals \<Rightarrow> ('asig, 'ch) evm_env \<Rightarrow> ('st, 'ms, 'nc) genv \<Rightarrow> string \<Rightarrow> string
   \<Rightarrow> ('st, 'ms, 'nc, 'ch, evm_proposal) evm_service" where
  "load_active_proposal X V G account_id proposal_id =
     bindS (liftS (normalize_proposal_id X proposal_id)) (\<lambda>proposal_id.
     bindS (map_errS (\<lambda>_. ProposalNotFound account_id proposal_id)
       (on_app (on_storage (pull_delta_proposal (ge_storage G) account_id proposal_id)))) (\<lambda>delta.
     bindS (liftS (evm_from_delta X (ev_perr V) proposal_id delta)) (\<lambda>proposal.
     bindS (proposal_is_inactive X V proposal) (\<lambda>inactive.
     if inactive
     then bindS (delete_evm_proposal G account_id proposal_id) (\<lambda>_. errS (ProposalNotFound account_id proposal_id))
     else okS proposal))))"

section \<open>Accounts\<close>

record register_evm_params =
  rp_chain_id :: nat
  rp_account_address :: string
  rp_multisig_validator_address :: string
  rp_session_address :: string

record register_evm_result =
  rr_account_id :: string
  rr_chain_id :: nat
  rr_account_address :: string
  rr_multisig_validator_address :: string
  rr_signers :: "string list"
  rr_threshold :: nat

definition register_account ::
  "('sig, 'pk, 'su, 'n) externals \<Rightarrow> ('asig, 'ch) evm_env \<Rightarrow> ('st, 'ms, 'nc) genv \<Rightarrow> register_evm_params
   \<Rightarrow> ('st, 'ms, 'nc, 'ch, register_evm_result) evm_service" where
  "register_account X V G p =
     bindS (liftS (map_err InvalidInput (normalize_evm_address (rp_account_address p)))) (\<lambda>account0.
     bindS (liftS (map_err InvalidInput (normalize_evm_address (rp_multisig_validator_address p)))) (\<lambda>validator0.
     let account_id = evm_account_id (rp_chain_id p) account0 in
     bindS (liftS (map_err InvalidNetworkConfig
       (validate_for_account (NetEvm (rp_chain_id p) account0 validator0) account_id))) (\<lambda>network_config.
     case network_config of
       NetMiden _ \<Rightarrow> errS (InvalidNetworkConfig ''expected EVM network config'')
     | NetEvm chain_id account_address validator \<Rightarrow>
     bindS (liftS (normalize_session_address (rp_session_address p))) (\<lambda>session_address.
     bindS (liftS (ok_or (UnsupportedEvmChain chain_id) (registry_get (ev_chains V) chain_id))) (\<lambda>chain.
     bindS (on_chain (ensure_validator_installed X (ev_rpc V) chain account_address validator)) (\<lambda>_.
     bindS (on_chain (signer_snapshot X (ev_rpc V) chain account_address validator)) (\<lambda>snapshot.
     if \<not> list_ex (\<lambda>signer. eq_ignore_ascii_case signer session_address) (ss_signers snapshot)
     then errS (SignerNotAuthorized session_address)
     else
     bindS (on_app (now_rfc3339 G)) (\<lambda>now.
     bindS (storage_err ''Failed to check existing account: '' (on_app (on_meta (ms_get (ge_meta G) account_id)))) (\<lambda>existing.
     bindS (storage_err ''Failed to store metadata: '' (on_app (on_meta (ms_set (ge_meta G)
       \<lparr> m_account_id = account_id, m_auth = EvmEcdsa (ss_signers snapshot), m_network_config = network_config,
         m_created_at = (case existing of Some m \<Rightarrow> m_created_at m | None \<Rightarrow> now), m_updated_at = now,
         m_has_pending_candidate = False,
         m_last_auth_timestamp = Option.bind existing m_last_auth_timestamp \<rparr>)))) (\<lambda>_.
     okS \<lparr> rr_account_id = account_id, rr_chain_id = chain_id, rr_account_address = account_address,
           rr_multisig_validator_address = validator, rr_signers = ss_signers snapshot,
           rr_threshold = ss_threshold snapshot \<rparr>))))))))))"

section \<open>Proposals\<close>

record create_evm_params =
  cp_account_id :: string
  cp_user_op_hash :: string
  cp_payload :: string
  cp_nonce :: string
  cp_ttl_seconds :: nat
  cp_signature :: string
  cp_session_address :: string

record approve_evm_params =
  ap_account_id :: string
  ap_proposal_id :: string
  ap_signature :: string
  ap_session_address :: string

text \<open>\<open>ttl as i64\<close>.\<close>

definition u64_as_i64 :: "nat \<Rightarrow> int" where
  "u64_as_i64 n = i64_wrap (int n)"

text \<open>The checks of a new proposal, up to its identity.\<close>

definition check_new_proposal ::
  "('sig, 'pk, 'su, 'n) externals \<Rightarrow> ('asig, 'ch) evm_env \<Rightarrow> ('st, 'ms, 'nc) genv \<Rightarrow> create_evm_params
   \<Rightarrow> ('st, 'ms, 'nc, 'ch, normalized_evm_input \<times> evm_signer_snapshot \<times> string) evm_service" where
  "check_new_proposal X V G p =
     bindS (load_evm_metadata G (cp_account_id p)) (\<lambda>metadata.
     bindS (liftS (evm_network_parts (m_network_config metadata))) (\<lambda>(chain_id, account_address, validator_address).
     bindS (liftS (normalize_session_address (cp_session_address p))) (\<lambda>session_address.
     bindS (liftS (normalize_signature X (cp_signature p))) (\<lambda>sg.
     bindS evm_now (\<lambda>now.
     bindS (liftS (normalized_input_new X chain_id account_address validator_address (cp_user_op_hash p) (cp_payload p)
       (cp_nonce p) session_address
       \<lparr> eps_signer = session_address, eps_signature = sg, eps_signed_at = timestamp_millis now \<rparr> (cp_ttl_seconds p))) (\<lambda>input.
     bindS (liftS (ok_or (UnsupportedEvmChain (ni_chain_id input)) (registry_get (ev_chains V) (ni_chain_id input)))) (\<lambda>chain.
     bindS (on_chain (ensure_validator_installed X (ev_rpc V) chain (ni_smart_account_address input) (ni_validator_address input))) (\<lambda>_.
     bindS (on_chain (signer_snapshot X (ev_rpc V) chain (ni_smart_account_address input) (ni_validator_address input))) (\<lambda>snapshot.
     if \<not> list_ex (\<lambda>signer. eq_ignore_ascii_case signer (ni_proposer input)) (ss_signers snapshot)
     then errS (SignerNotAuthorized (ni_proposer input))
     else
     bindS (liftS (verify_proposal_signature (ev_alloy V) input (eps_signature (ni_signature input)))) (\<lambda>recovered.
     if recovered \<noteq> ni_proposer input
     then errS (InvalidProposalSignature ''initial proposal signature signer does not match proposer'')
     else
     bindS (liftS (compute_proposal_id X (ev_alloy V) input)) (\<lambda>proposal_id.
     okS (input, snapshot, proposal_id))))))))))))"

text \<open>The proposal that is already stored under the identity and still active; an inactive one is deleted.\<close>

definition existing_proposal ::
  "('sig, 'pk, 'su, 'n) externals \<Rightarrow> ('asig, 'ch) evm_env \<Rightarrow> ('st, 'ms, 'nc) genv \<Rightarrow> string \<Rightarrow> string
   \<Rightarrow> ('st, 'ms, 'nc, 'ch, evm_proposal option) evm_service" where
  "existing_proposal X V G account_id proposal_id =
     observeS (on_app (on_storage (pull_delta_proposal (ge_storage G) account_id proposal_id))) (\<lambda>r.
     case r of
       Inl _ \<Rightarrow> okS None
     | Inr delta \<Rightarrow>
         bindS (liftS (evm_from_delta X (ev_perr V) proposal_id delta)) (\<lambda>existing.
         bindS (proposal_is_inactive X V existing) (\<lambda>inactive.
         if inactive then bindS (delete_evm_proposal G account_id proposal_id) (\<lambda>_. okS None)
         else okS (Some existing))))"

text \<open>A result \<open>None\<close> is a handler that panicked: the time of expiry is out of the range of chrono.\<close>

definition create_proposal ::
  "('sig, 'pk, 'su, 'n) externals \<Rightarrow> ('asig, 'ch) evm_env \<Rightarrow> ('st, 'ms, 'nc) genv \<Rightarrow> create_evm_params
   \<Rightarrow> ('st, 'ms, 'nc, 'ch, evm_proposal option) evm_service" where
  "create_proposal X V G p =
     bindS (check_new_proposal X V G p) (\<lambda>(input, snapshot, proposal_id).
     bindS (existing_proposal X V G (cp_account_id p) proposal_id) (\<lambda>existing.
     case existing of
       Some q \<Rightarrow> okS (Some q)
     | None \<Rightarrow>
     bindS evm_now (\<lambda>now.
     case ev_add_secs V now (u64_as_i64 (ni_ttl_seconds input)) of
       None \<Rightarrow> okS None
     | Some expires \<Rightarrow>
     let proposal =
       \<lparr> ep_proposal_id = proposal_id, ep_account_id = cp_account_id p, ep_chain_id = ni_chain_id input,
         ep_smart_account_address = ni_smart_account_address input, ep_validator_address = ni_validator_address input,
         ep_user_op_hash = ni_hash input, ep_payload = ni_payload input, ep_nonce = nn_decimal (ni_nonce input),
         ep_nonce_key = nn_nonce_key (ni_nonce input), ep_proposer = ni_proposer input,
         ep_signer_snapshot = ss_signers snapshot, ep_threshold = ss_threshold snapshot,
         ep_signatures = [ni_signature input], ep_created_at = timestamp_millis now,
         ep_expires_at = timestamp_millis expires \<rparr> in
     bindS (storage_err [] (on_app (on_storage (submit_delta_proposal (ge_storage G) proposal_id (evm_into_delta X proposal))))) (\<lambda>_.
     okS (Some proposal)))))"

fun active_proposals ::
  "('sig, 'pk, 'su, 'n) externals \<Rightarrow> ('asig, 'ch) evm_env \<Rightarrow> ('st, 'ms, 'nc) genv \<Rightarrow> string \<Rightarrow> string \<Rightarrow> delta_object list
   \<Rightarrow> ('st, 'ms, 'nc, 'ch, evm_proposal list) evm_service" where
  "active_proposals X V G account_id session_address [] = okS []"
| "active_proposals X V G account_id session_address (delta # deltas) =
     (if \<not> is_evm_delta delta then active_proposals X V G account_id session_address deltas
      else
      bindS (liftS (evm_from_stored_delta X (ev_perr V) delta)) (\<lambda>proposal.
      bindS (proposal_is_inactive X V proposal) (\<lambda>inactive.
      if inactive
      then bindS (delete_evm_proposal G account_id (ep_proposal_id proposal)) (\<lambda>_.
             active_proposals X V G account_id session_address deltas)
      else
      bindS (liftS (ensure_snapshot_signer proposal session_address)) (\<lambda>_.
      bindS (active_proposals X V G account_id session_address deltas) (\<lambda>rest.
      okS (proposal # rest))))))"

definition list_proposals ::
  "('sig, 'pk, 'su, 'n) externals \<Rightarrow> ('asig, 'ch) evm_env \<Rightarrow> ('st, 'ms, 'nc) genv \<Rightarrow> string \<Rightarrow> string
   \<Rightarrow> ('st, 'ms, 'nc, 'ch, evm_proposal list) evm_service" where
  "list_proposals X V G account_id session_address =
     bindS (load_evm_metadata G account_id) (\<lambda>_.
     bindS (liftS (normalize_session_address session_address)) (\<lambda>session_address.
     bindS (storage_err [] (on_app (on_storage (pull_all_delta_proposals (ge_storage G) account_id)))) (\<lambda>deltas.
     bindS (active_proposals X V G account_id session_address deltas) (\<lambda>active.
     okS (sort_key ep_created_at active)))))"

definition get_proposal ::
  "('sig, 'pk, 'su, 'n) externals \<Rightarrow> ('asig, 'ch) evm_env \<Rightarrow> ('st, 'ms, 'nc) genv \<Rightarrow> string \<Rightarrow> string \<Rightarrow> string
   \<Rightarrow> ('st, 'ms, 'nc, 'ch, evm_proposal) evm_service" where
  "get_proposal X V G account_id commitment session_address =
     bindS (load_active_proposal X V G account_id commitment) (\<lambda>proposal.
     bindS (liftS (normalize_session_address session_address)) (\<lambda>session_address.
     bindS (liftS (ensure_snapshot_signer proposal session_address)) (\<lambda>_.
     okS proposal)))"

definition approve_proposal ::
  "('sig, 'pk, 'su, 'n) externals \<Rightarrow> ('asig, 'ch) evm_env \<Rightarrow> ('st, 'ms, 'nc) genv \<Rightarrow> approve_evm_params
   \<Rightarrow> ('st, 'ms, 'nc, 'ch, evm_proposal) evm_service" where
  "approve_proposal X V G p =
     bindS (liftS (normalize_proposal_id X (ap_proposal_id p))) (\<lambda>proposal_id.
     bindS (liftS (normalize_session_address (ap_session_address p))) (\<lambda>signer.
     bindS (load_active_proposal X V G (ap_account_id p) proposal_id) (\<lambda>proposal.
     bindS (liftS (ensure_snapshot_signer proposal signer)) (\<lambda>_.
     if has_signature_from proposal signer then errS (ProposalAlreadySigned signer)
     else
     bindS (liftS (normalize_hash X (ep_user_op_hash proposal))) (\<lambda>(_, hash_bytes).
     bindS (liftS (normalize_signature X (ap_signature p))) (\<lambda>signature.
     bindS (liftS (recover_hash_address (ev_alloy V) hash_bytes signature)) (\<lambda>recovered.
     if recovered \<noteq> signer
     then errS (InvalidProposalSignature ''approval signature signer does not match signer'')
     else
     bindS evm_now (\<lambda>now.
     let proposal = proposal \<lparr> ep_signatures := ep_signatures proposal @
           [\<lparr> eps_signer = signer, eps_signature = signature, eps_signed_at = timestamp_millis now \<rparr>] \<rparr> in
     bindS (storage_err [] (on_app (on_storage (update_delta_proposal (ge_storage G) proposal_id (evm_into_delta X proposal))))) (\<lambda>_.
     okS proposal)))))))))"

definition executable_proposal ::
  "('sig, 'pk, 'su, 'n) externals \<Rightarrow> ('asig, 'ch) evm_env \<Rightarrow> ('st, 'ms, 'nc) genv \<Rightarrow> string \<Rightarrow> string \<Rightarrow> string
   \<Rightarrow> ('st, 'ms, 'nc, 'ch, executable_evm_proposal) evm_service" where
  "executable_proposal X V G account_id commitment session_address =
     bindS (get_proposal X V G account_id commitment session_address) (\<lambda>proposal.
     if \<not> is_executable proposal
     then errS (InsufficientSignatures (ep_threshold proposal) (signature_count proposal))
     else okS (executable proposal))"

definition cancel_proposal ::
  "('sig, 'pk, 'su, 'n) externals \<Rightarrow> ('asig, 'ch) evm_env \<Rightarrow> ('st, 'ms, 'nc) genv \<Rightarrow> string \<Rightarrow> string \<Rightarrow> string
   \<Rightarrow> ('st, 'ms, 'nc, 'ch, unit) evm_service" where
  "cancel_proposal X V G account_id commitment session_address =
     bindS (liftS (normalize_proposal_id X commitment)) (\<lambda>proposal_id.
     bindS (liftS (normalize_session_address session_address)) (\<lambda>session_address.
     bindS (load_active_proposal X V G account_id proposal_id) (\<lambda>proposal.
     if \<not> eq_ignore_ascii_case (ep_proposer proposal) session_address
     then errS (AuthorizationFailed ''Only the proposal creator can cancel this EVM proposal'')
     else delete_evm_proposal G account_id proposal_id)))"

end
