(* ===== verification/Evm_Api.thy ===== *)
theory Evm_Api
  imports Evm_Service
begin

text \<open>
  The HTTP endpoints of the EVM side (\<open>server/src/api/evm.rs\<close>): a handler takes the headers, the query and the
  body as parsed, reads the session from the cookie where it needs one, and calls the service. \<open>random\<close> is the
  random bytes a handler draws, \<open>utc\<close> the system time the clearing of the cookie reads.
\<close>

definition timestamp_secs :: "int \<Rightarrow> int" where
  "timestamp_secs t = t div 1000000000"

definition session_typed_data :: "evm_challenge \<Rightarrow> json" where
  "session_typed_data c =
     (let field = (\<lambda>n t. JObject [(''name'', JString n), (''type'', JString t)]) in
      JObject
       [(''domain'', JObject [(''name'', JString ''Guardian EVM Session''), (''version'', JString ''1'')]),
        (''types'', JObject
          [(''EIP712Domain'', JArray [field ''name'' ''string'', field ''version'' ''string'']),
           (''GuardianEvmSession'', JArray [field ''wallet'' ''address'', field ''nonce'' ''bytes32'',
              field ''issued_at'' ''uint64'', field ''expires_at'' ''uint64''])]),
        (''primaryType'', JString ''GuardianEvmSession''),
        (''message'', JObject [(''wallet'', JString (ec_address c)), (''nonce'', JString (ec_nonce c)),
           (''issued_at'', json_int (timestamp_secs (ec_issued_at c))),
           (''expires_at'', json_int (timestamp_secs (ec_expires_at c)))])])"

record challenge_response =
  chr_address :: string
  chr_nonce :: string
  chr_issued_at :: int
  chr_expires_at :: int
  chr_typed_data :: json

record verify_session_request =
  vr_address :: string
  vr_nonce :: string
  vr_signature :: string

record verify_session_response =
  vo_address :: string
  vo_expires_at :: int

record register_account_request =
  ra_chain_id :: nat
  ra_account_address :: string
  ra_multisig_validator_address :: string

record create_proposal_request =
  cq_account_id :: string
  cq_user_op_hash :: string
  cq_payload :: string
  cq_nonce :: string
  cq_ttl_seconds :: nat
  cq_signature :: string

record approve_proposal_request =
  aq_account_id :: string
  aq_signature :: string

definition challenge_evm_session ::
  "('sig, 'pk, 'su, 'n) externals \<Rightarrow> string \<Rightarrow> string \<Rightarrow> ('st, 'ms, 'nc, 'ch, challenge_response) evm_service" where
  "challenge_evm_session X random address =
     bindS evm_now (\<lambda>now.
     bindS (on_sessions (evm_issue_challenge X address now random)) (\<lambda>c.
     okS \<lparr> chr_address = ec_address c, chr_nonce = ec_nonce c, chr_issued_at = timestamp_secs (ec_issued_at c),
           chr_expires_at = timestamp_secs (ec_expires_at c), chr_typed_data = session_typed_data c \<rparr>))"

definition verify_evm_session ::
  "('sig, 'pk, 'su, 'n) externals \<Rightarrow> ('asig, 'ch) evm_env \<Rightarrow> string \<Rightarrow> verify_session_request
   \<Rightarrow> ('st, 'ms, 'nc, 'ch, (string \<times> string) list \<times> verify_session_response) evm_service" where
  "verify_evm_session X V random q =
     bindS evm_now (\<lambda>now.
     bindS (on_sessions (evm_verify X (ev_alloy V) (ev_cookie_date V) (vr_address q) (vr_nonce q) (vr_signature q) now random)) (\<lambda>v.
     okS ([(''set-cookie'', vs_cookie_header v)],
          \<lparr> vo_address = vs_address v, vo_expires_at = timestamp_millis (vs_expires_at v) \<rparr>)))"

definition logout_evm_session ::
  "('asig, 'ch) evm_env \<Rightarrow> int \<Rightarrow> headers \<Rightarrow> ('st, 'ms, 'nc, 'ch, (string \<times> string) list \<times> bool) evm_service" where
  "logout_evm_session V utc hs =
     bindS evm_now (\<lambda>now.
     bindS (on_sessions (\<lambda>x. (Inr (), evm_logout (extract_cookie hs EVM_COOKIE_NAME) now x))) (\<lambda>_.
     okS ([(''set-cookie'', evm_clear_cookie_header (ev_cookie_date V) utc)], True)))"

definition require_evm_session :: "headers \<Rightarrow> ('st, 'ms, 'nc, 'ch, string) evm_service" where
  "require_evm_session hs =
     bindS (liftS (ok_or (AuthenticationFailed ''Missing EVM session'') (extract_cookie hs EVM_COOKIE_NAME))) (\<lambda>token.
     bindS evm_now (\<lambda>now.
     on_sessions (evm_authenticate token now)))"

definition register_evm_account ::
  "('sig, 'pk, 'su, 'n) externals \<Rightarrow> ('asig, 'ch) evm_env \<Rightarrow> ('st, 'ms, 'nc) genv \<Rightarrow> headers \<Rightarrow> register_account_request
   \<Rightarrow> ('st, 'ms, 'nc, 'ch, register_evm_result) evm_service" where
  "register_evm_account X V G hs q =
     bindS (require_evm_session hs) (\<lambda>session_address.
     register_account X V G
       \<lparr> rp_chain_id = ra_chain_id q, rp_account_address = ra_account_address q,
         rp_multisig_validator_address = ra_multisig_validator_address q, rp_session_address = session_address \<rparr>)"

definition create_evm_proposal ::
  "('sig, 'pk, 'su, 'n) externals \<Rightarrow> ('asig, 'ch) evm_env \<Rightarrow> ('st, 'ms, 'nc) genv \<Rightarrow> headers \<Rightarrow> create_proposal_request
   \<Rightarrow> ('st, 'ms, 'nc, 'ch, evm_proposal option) evm_service" where
  "create_evm_proposal X V G hs q =
     bindS (require_evm_session hs) (\<lambda>session_address.
     create_proposal X V G
       \<lparr> cp_account_id = cq_account_id q, cp_user_op_hash = cq_user_op_hash q, cp_payload = cq_payload q,
         cp_nonce = cq_nonce q, cp_ttl_seconds = cq_ttl_seconds q, cp_signature = cq_signature q,
         cp_session_address = session_address \<rparr>)"

definition list_evm_proposals ::
  "('sig, 'pk, 'su, 'n) externals \<Rightarrow> ('asig, 'ch) evm_env \<Rightarrow> ('st, 'ms, 'nc) genv \<Rightarrow> headers \<Rightarrow> string
   \<Rightarrow> ('st, 'ms, 'nc, 'ch, evm_proposal list) evm_service" where
  "list_evm_proposals X V G hs account_id =
     bindS (require_evm_session hs) (list_proposals X V G account_id)"

definition get_evm_proposal ::
  "('sig, 'pk, 'su, 'n) externals \<Rightarrow> ('asig, 'ch) evm_env \<Rightarrow> ('st, 'ms, 'nc) genv \<Rightarrow> headers \<Rightarrow> string \<Rightarrow> string
   \<Rightarrow> ('st, 'ms, 'nc, 'ch, evm_proposal) evm_service" where
  "get_evm_proposal X V G hs proposal_id account_id =
     bindS (require_evm_session hs) (get_proposal X V G account_id proposal_id)"

definition approve_evm_proposal ::
  "('sig, 'pk, 'su, 'n) externals \<Rightarrow> ('asig, 'ch) evm_env \<Rightarrow> ('st, 'ms, 'nc) genv \<Rightarrow> headers \<Rightarrow> string \<Rightarrow> approve_proposal_request
   \<Rightarrow> ('st, 'ms, 'nc, 'ch, evm_proposal) evm_service" where
  "approve_evm_proposal X V G hs proposal_id q =
     bindS (require_evm_session hs) (\<lambda>session_address.
     approve_proposal X V G
       \<lparr> ap_account_id = aq_account_id q, ap_proposal_id = proposal_id, ap_signature = aq_signature q,
         ap_session_address = session_address \<rparr>)"

definition get_executable_evm_proposal ::
  "('sig, 'pk, 'su, 'n) externals \<Rightarrow> ('asig, 'ch) evm_env \<Rightarrow> ('st, 'ms, 'nc) genv \<Rightarrow> headers \<Rightarrow> string \<Rightarrow> string
   \<Rightarrow> ('st, 'ms, 'nc, 'ch, executable_evm_proposal) evm_service" where
  "get_executable_evm_proposal X V G hs proposal_id account_id =
     bindS (require_evm_session hs) (executable_proposal X V G account_id proposal_id)"

definition cancel_evm_proposal ::
  "('sig, 'pk, 'su, 'n) externals \<Rightarrow> ('asig, 'ch) evm_env \<Rightarrow> ('st, 'ms, 'nc) genv \<Rightarrow> headers \<Rightarrow> string \<Rightarrow> string
   \<Rightarrow> ('st, 'ms, 'nc, 'ch, bool) evm_service" where
  "cancel_evm_proposal X V G hs proposal_id account_id =
     bindS (require_evm_session hs) (\<lambda>session_address.
     bindS (cancel_proposal X V G account_id proposal_id session_address) (\<lambda>_. okS True))"

end
