(* ===== verification/Evm_System.thy ===== *)
theory Evm_System
  imports Evm_Api Guardian_Instances
begin

text \<open>
  What holds of EVM proposals, whatever requests arrive and whatever fails. The locale \<open>evm_backends\<close> extends the
  contracts of the two stores; in it, every endpoint is shown to keep the invariant \<open>evm_good\<close>: a proposal that can be
  read from the storage carries only approvals of distinct signers of the snapshot taken from the chain, each with a
  signature over the hash of the user operation that recovers to the signer.
\<close>

section \<open>Good proposals\<close>

definition approved ::
  "('sig, 'pk, 'su, 'n) externals \<Rightarrow> 'asig alloy_ops \<Rightarrow> evm_proposal \<Rightarrow> evm_proposal_signature \<Rightarrow> bool" where
  "approved X A p e \<longleftrightarrow> normal_signature X e \<and> has_signer p (eps_signer e) \<and>
     (\<exists>n hash. normalize_hash X (ep_user_op_hash p) = Inr (n, hash) \<and>
        recover_hash_address A hash (eps_signature e) = Inr (eps_signer e))"

text \<open>The snapshot is an answer of the contracts of the account on its chain.\<close>

definition snapshot_of_chain ::
  "('sig, 'pk, 'su, 'n) externals \<Rightarrow> ('asig, 'ch) evm_env \<Rightarrow> evm_proposal \<Rightarrow> bool" where
  "snapshot_of_chain X V p \<longleftrightarrow>
     (\<exists>cfg ch ch'. registry_get (ev_chains V) (ep_chain_id p) = Some cfg \<and>
        signer_snapshot X (ev_rpc V) cfg (ep_smart_account_address p) (ep_validator_address p) ch =
          (Inr \<lparr> ss_signers = ep_signer_snapshot p, ss_threshold = ep_threshold p \<rparr>, ch'))"

definition proposal_ok ::
  "('sig, 'pk, 'su, 'n) externals \<Rightarrow> ('asig, 'ch) evm_env \<Rightarrow> evm_proposal \<Rightarrow> bool" where
  "proposal_ok X V p \<longleftrightarrow>
     evm_account_id (ep_chain_id p) (ep_smart_account_address p) = ep_account_id p \<and>
     distinct (map eps_signer (ep_signatures p)) \<and>
     (\<forall>e \<in> set (ep_signatures p). approved X (ev_alloy V) p e) \<and> snapshot_of_chain X V p"

definition stored_ok ::
  "('sig, 'pk, 'su, 'n) externals \<Rightarrow> ('asig, 'ch) evm_env \<Rightarrow> string \<Rightarrow> delta_object \<Rightarrow> bool" where
  "stored_ok X V a d \<longleftrightarrow>
     d_account_id d = a \<and> (\<forall>c p. evm_from_delta X (ev_perr V) c d = Inr p \<longrightarrow> proposal_ok X V p)"

text \<open>An EVM account is named after its chain and address.\<close>

definition named_after_chain :: "account_metadata \<Rightarrow> bool" where
  "named_after_chain m \<longleftrightarrow>
     (\<forall>c a v. m_network_config m = NetEvm c a v \<longrightarrow> m_account_id m = evm_account_id c a \<and> normalize_evm_address a = Inr a)"

definition evm_view_ok ::
  "(string \<Rightarrow> bool) \<Rightarrow> ('sig, 'pk, 'su, 'n) externals \<Rightarrow> ('asig, 'ch) evm_env \<Rightarrow> gabs \<Rightarrow> bool" where
  "evm_view_ok ok X V x \<longleftrightarrow>
     (\<forall>a m. snd x a = Some m \<longrightarrow> ok a \<and> named_after_chain m) \<and>
     (\<forall>a h d. gv_props (fst x) a h = Some d \<longrightarrow> stored_ok X V a d)"

lemma stored_into:
  assumes "proposal_ok X V p" and "a = evm_account_id (ep_chain_id p) (ep_smart_account_address p)"
  shows "stored_ok X V a (evm_into_delta X p)"
proof -
  have n: "normal_signature X e" if "e \<in> set (ep_signatures p)" for e
    using assms(1) that by (auto simp: proposal_ok_def approved_def)
  have "proposal_ok X V q"
    if "q = p \<lparr> ep_account_id := evm_account_id (ep_chain_id p) (ep_smart_account_address p),
            ep_signatures := map reread (ep_signatures p) \<rparr>" for q
    using assms(1) that
    by (auto simp: proposal_ok_def snapshot_of_chain_def approved_def normal_signature_def has_signer_def comp_def)
  then show ?thesis
    using assms(2) evm_reread[of p X, OF n] by (auto simp: stored_ok_def evm_into_delta_def Let_def evm_payload_of_def)
qed

section \<open>Triples that keep an invariant\<close>

text \<open>\<open>I\<close> holds at every end, and a result satisfies \<open>F\<close>.\<close>

abbreviation keep :: "('s \<Rightarrow> bool) \<Rightarrow> ('s, 'e, 'a) comp \<Rightarrow> ('a \<Rightarrow> bool) \<Rightarrow> bool" where
  "keep I m F \<equiv> tripleS I I m (\<lambda>z s. I s \<and> F z)"

lemma keep_bind: "keep I m F \<Longrightarrow> (\<And>z. F z \<Longrightarrow> keep I (f z) H) \<Longrightarrow> keep I (bindS m f) H"
  by (rule tripleS_bindS, assumption, rule tripleS_fact)

lemma keep_lift: "(\<And>z. r = Inr z \<Longrightarrow> keep I (f z) H) \<Longrightarrow> keep I (bindS (liftS r) f) H"
  by (cases r) (auto simp: tripleS_def bindS_def)

lemma keep_lift2: "(\<And>a b. r = Inr (a, b) \<Longrightarrow> keep I (f a b) H) \<Longrightarrow> keep I (bindS (liftS r) (\<lambda>(a, b). f a b)) H"
  by (rule keep_lift) auto

lemma keep_lift3:
  "(\<And>a b c. r = Inr (a, b, c) \<Longrightarrow> keep I (f a b c) H) \<Longrightarrow> keep I (bindS (liftS r) (\<lambda>(a, b, c). f a b c)) H"
  by (rule keep_lift) auto

lemma keep_observe:
  "keep I m F \<Longrightarrow> (\<And>e. keep I (f (Inl e)) H) \<Longrightarrow> (\<And>z. F z \<Longrightarrow> keep I (f (Inr z)) H) \<Longrightarrow> keep I (observeS m f) H"
  by (rule tripleS_observeS, assumption, assumption, rule tripleS_fact)

lemma keep_ok: "F z \<Longrightarrow> keep I (okS z) F"
  by (rule tripleS_okS) simp

lemma keep_err: "keep I (errS e) F"
  by (rule tripleS_errS)

lemma keep_map_err: "keep I m F \<Longrightarrow> keep I (map_errS g m) F"
  by (rule tripleS_map_errS)

lemma keep_weaken: "keep I m F \<Longrightarrow> (\<And>z. F z \<Longrightarrow> H z) \<Longrightarrow> keep I m H"
  by (erule tripleS_conseq) auto

lemma keep_result: "keep I m F \<Longrightarrow> I s \<Longrightarrow> m s = (Inr z, s') \<Longrightarrow> I s' \<and> F z"
  by (fastforce dest: tripleSD)

lemma keep_run: "keep I m F \<Longrightarrow> I s \<Longrightarrow> m s = (r, s') \<Longrightarrow> I s'"
  by (cases r) (fastforce dest: tripleSD)+

lemma keep_evm_case:
  "(\<And>c a v. net = NetEvm c a v \<Longrightarrow> keep I (f c a v) F) \<Longrightarrow>
     keep I (case net of NetMiden _ \<Rightarrow> errS e | NetEvm c a v \<Rightarrow> f c a v) F"
  by (cases net) (simp_all add: keep_err)

lemma keep_option:
  "(x = None \<Longrightarrow> keep I m F) \<Longrightarrow> (\<And>y. x = Some y \<Longrightarrow> keep I (f y) F) \<Longrightarrow> keep I (case x of None \<Rightarrow> m | Some y \<Rightarrow> f y) F"
  by (cases x) simp_all

lemmas keep_steps = tripleS_if keep_lift keep_err

lemma signer_snapshot_result:
  "signer_snapshot X R cfg a v ch = (Inr r, ch') \<Longrightarrow> 1 \<le> ss_threshold r \<and> ss_threshold r \<le> length (ss_signers r)"
  by (auto simp: signer_snapshot_def bindS_Inr_iff split: if_splits)

section \<open>Requests\<close>

text \<open>
  A step is one HTTP request, run to its end. The account a request on an existing proposal names satisfies \<open>ok\<close>:
  these handlers hand the name to the storage without looking the account up.
\<close>

inductive evm_http ::
  "(string \<Rightarrow> bool) \<Rightarrow> ('sig, 'pk, 'su, 'n) externals \<Rightarrow> ('asig, 'ch) evm_env \<Rightarrow> ('st, 'ms, 'nc) genv
   \<Rightarrow> ('st, 'ms, 'nc, 'ch) evm_app \<Rightarrow> ('st, 'ms, 'nc, 'ch) evm_app \<Rightarrow> bool"
  for ok X V G where
  challenge: "challenge_evm_session X random a s = (r, s') \<Longrightarrow> evm_http ok X V G s s'"
| verify: "verify_evm_session X V random q s = (r, s') \<Longrightarrow> evm_http ok X V G s s'"
| logout: "logout_evm_session V utc hs s = (r, s') \<Longrightarrow> evm_http ok X V G s s'"
| register: "register_evm_account X V G hs q s = (r, s') \<Longrightarrow> evm_http ok X V G s s'"
| create: "create_evm_proposal X V G hs q s = (r, s') \<Longrightarrow> evm_http ok X V G s s'"
| list: "list_evm_proposals X V G hs a s = (r, s') \<Longrightarrow> evm_http ok X V G s s'"
| get: "get_evm_proposal X V G hs c a s = (r, s') \<Longrightarrow> ok a \<Longrightarrow> evm_http ok X V G s s'"
| approve: "approve_evm_proposal X V G hs c q s = (r, s') \<Longrightarrow> ok (aq_account_id q) \<Longrightarrow> evm_http ok X V G s s'"
| execute: "get_executable_evm_proposal X V G hs c a s = (r, s') \<Longrightarrow> ok a \<Longrightarrow> evm_http ok X V G s s'"
| cancel: "cancel_evm_proposal X V G hs c a s = (r, s') \<Longrightarrow> ok a \<Longrightarrow> evm_http ok X V G s s'"

section \<open>The services keep the invariant\<close>

locale evm_backends = guardian_backends B sinv ok_id abs M minv mabs
  for B :: "'st storage_backend" and sinv ok_id abs
    and M :: "'ms metadata_store" and minv mabs +
  assumes evm_ids: "normalize_evm_address a = Inr a \<Longrightarrow> ok_id (evm_account_id c a)"
begin

definition evm_good ::
  "('sig, 'pk, 'su, 'n) externals \<Rightarrow> ('asig, 'ch) evm_env \<Rightarrow> ('st, 'ms, 'nc, 'ch) evm_app \<Rightarrow> bool" where
  "evm_good X V s \<longleftrightarrow>
     sinv (ga_storage (ea_app s)) \<and> minv (ga_meta (ea_app s)) \<and> evm_view_ok ok_id X V (view (ea_app s))"

lemma evm_goodD:
  assumes "evm_good X V s"
  shows "sinv (ga_storage (ea_app s))" "minv (ga_meta (ea_app s))"
    "mabs (ga_meta (ea_app s)) a = Some m \<Longrightarrow> ok_id a \<and> named_after_chain m"
    "gv_props (abs (ga_storage (ea_app s))) a h = Some d \<Longrightarrow> stored_ok X V a d"
  using assms by (auto simp: evm_good_def evm_view_ok_def view_def)

lemma keep_chain: "(\<And>ch r ch'. m ch = (Inr r, ch') \<Longrightarrow> F r) \<Longrightarrow> keep (evm_good X V) (on_chain m) F"
  by (rule tripleSI) (auto simp: on_chain_def evm_good_def split: prod.splits sum.splits)

lemma keep_installed: "keep (evm_good X V) (on_chain (ensure_validator_installed Y R cfg a v)) (\<lambda>_. True)"
  by (rule keep_chain) simp

lemma keep_snapshot:
  "keep (evm_good X V) (on_chain (signer_snapshot Y R cfg a v)) (\<lambda>z. \<exists>ch ch'. signer_snapshot Y R cfg a v ch = (Inr z, ch'))"
  by (rule keep_chain) blast

lemma keep_now: "keep (evm_good X V) evm_now (\<lambda>_. True)"
  by (rule tripleSI)
    (auto simp: evm_now_def on_app_def clock_now_def evm_good_def view_def split: prod.splits list.splits sum.splits)

lemma keep_sessions: "keep (evm_good X V) (on_sessions m) (\<lambda>_. True)"
  by (rule tripleSI) (auto simp: on_sessions_def evm_good_def split: prod.splits sum.splits)

lemma keep_rfc3339: "keep (evm_good X V) (on_app (now_rfc3339 G)) (\<lambda>_. True)"
  by (rule tripleSI)
    (auto simp: on_app_def now_rfc3339_def bindS_def clock_now_def evm_good_def view_def split: prod.splits list.splits sum.splits)

lemma keep_storage:
  assumes "\<And>st r st'. op st = (r, st') \<Longrightarrow> sinv st \<Longrightarrow> (\<And>a h d. gv_props (abs st) a h = Some d \<Longrightarrow> stored_ok X V a d) \<Longrightarrow>
      sinv st' \<and> (\<forall>a h d. gv_props (abs st') a h = Some d \<longrightarrow> stored_ok X V a d) \<and> (\<forall>z. r = Inr z \<longrightarrow> F z)"
  shows "keep (evm_good X V :: ('st, 'ms, 'nc, 'ch) evm_app \<Rightarrow> bool) (on_app (on_storage op)) F"
proof (rule tripleSI)
  fix s :: "('st, 'ms, 'nc, 'ch) evm_app" and r s' assume s: "evm_good X V s" and run: "on_app (on_storage op) s = (r, s')"
  obtain st where st: "op (ga_storage (ea_app s)) = (r, st)" "s' = s \<lparr> ea_app := (ea_app s) \<lparr> ga_storage := st \<rparr> \<rparr>"
    using run by (auto simp: on_app_def on_storage_def split: prod.splits)
  note law = assms[OF st(1) evm_goodD(1,4)[OF s]]
  then have "evm_good X V s'" using s by (simp add: evm_good_def evm_view_ok_def view_def st(2))
  then show "(case r of Inl _ \<Rightarrow> evm_good X V | Inr z \<Rightarrow> \<lambda>s. evm_good X V s \<and> F z) s'"
    using law by (cases r) auto
qed

lemma keep_pull:
  assumes "ok_id a"
  shows "keep (evm_good X V) (on_app (on_storage (pull_delta_proposal B a c))) (stored_ok X V a)"
proof (rule keep_storage)
  fix st r st' assume run: "pull_delta_proposal B a c st = (r, st')" "sinv st"
    and ok: "\<And>a h d. gv_props (abs st) a h = Some d \<Longrightarrow> stored_ok X V a d"
  show "sinv st' \<and> (\<forall>a h d. gv_props (abs st') a h = Some d \<longrightarrow> stored_ok X V a d) \<and> (\<forall>z. r = Inr z \<longrightarrow> stored_ok X V a z)"
    using pull_proposal_law[OF run assms] ok by auto
qed

lemma keep_pull_all:
  assumes "ok_id a"
  shows "keep (evm_good X V) (on_app (on_storage (pull_all_delta_proposals B a))) (\<lambda>ds. \<forall>d \<in> set ds. stored_ok X V a d)"
proof (rule keep_storage)
  fix st r st' assume run: "pull_all_delta_proposals B a st = (r, st')" "sinv st"
    and ok: "\<And>a h d. gv_props (abs st) a h = Some d \<Longrightarrow> stored_ok X V a d"
  show "sinv st' \<and> (\<forall>a h d. gv_props (abs st') a h = Some d \<longrightarrow> stored_ok X V a d) \<and>
      (\<forall>ds. r = Inr ds \<longrightarrow> (\<forall>d \<in> set ds. stored_ok X V a d))"
    using pull_all_proposals_law[OF run assms] ok by (auto simp: subset_iff) blast
qed

lemma keep_delete:
  assumes "ok_id a"
  shows "keep (evm_good X V) (on_app (on_storage (delete_delta_proposal B a c))) (\<lambda>_. True)"
proof (rule keep_storage)
  fix st r st' assume run: "delete_delta_proposal B a c st = (r, st')" "sinv st"
    and ok: "\<And>a h d. gv_props (abs st) a h = Some d \<Longrightarrow> stored_ok X V a d"
  show "sinv st' \<and> (\<forall>a h d. gv_props (abs st') a h = Some d \<longrightarrow> stored_ok X V a d) \<and> (\<forall>z. r = Inr z \<longrightarrow> True)"
    using delete_proposal_law[OF run assms] ok by (cases "is_ok r") (auto split: if_splits)
qed

lemma keep_write:
  assumes "\<And>st r st'. op st = (r, st') \<Longrightarrow> sinv st \<Longrightarrow> sinv st' \<and>
      (if is_ok r then \<exists>h. commitment_key c = Some h \<and> abs st' = put_prop (d_account_id d) h (Some d) (abs st) else abs st' = abs st)"
    and "stored_ok X V (d_account_id d) d"
  shows "keep (evm_good X V) (on_app (on_storage op)) (\<lambda>_. True)"
proof (rule keep_storage)
  fix st r st' assume run: "op st = (r, st')" "sinv st"
    and ok: "\<And>a h d. gv_props (abs st) a h = Some d \<Longrightarrow> stored_ok X V a d"
  show "sinv st' \<and> (\<forall>a h d. gv_props (abs st') a h = Some d \<longrightarrow> stored_ok X V a d) \<and> (\<forall>z. r = Inr z \<longrightarrow> True)"
    using assms(1)[OF run] assms(2) ok by (cases "is_ok r") (auto split: if_splits)
qed

lemma keep_put:
  assumes "proposal_ok X V p" and "ok_id (ep_account_id p)"
  shows "keep (evm_good X V) (on_app (on_storage (submit_delta_proposal B c (evm_into_delta X p)))) (\<lambda>_. True)"
    and "keep (evm_good X V) (on_app (on_storage (update_delta_proposal B c (evm_into_delta X p)))) (\<lambda>_. True)"
proof -
  have a: "d_account_id (evm_into_delta X p) = ep_account_id p"
    using assms(1) by (simp add: evm_into_delta_def Let_def evm_payload_of_def proposal_ok_def)
  then have "stored_ok X V (d_account_id (evm_into_delta X p)) (evm_into_delta X p)"
    using stored_into[OF assms(1)] assms(1) by (simp add: proposal_ok_def)
  note ok = this
  show "keep (evm_good X V) (on_app (on_storage (submit_delta_proposal B c (evm_into_delta X p)))) (\<lambda>_. True)"
    by (rule keep_write[OF _ ok, where c = c], rule submit_proposal_law) (simp_all only: a assms(2))
  show "keep (evm_good X V) (on_app (on_storage (update_delta_proposal B c (evm_into_delta X p)))) (\<lambda>_. True)"
    by (rule keep_write[OF _ ok, where c = c], rule update_proposal_law) (simp_all only: a assms(2))
qed

lemma keep_get:
  "keep (evm_good X V :: ('st, 'ms, 'nc, 'ch) evm_app \<Rightarrow> bool) (on_app (on_meta (ms_get M a))) (\<lambda>m. \<forall>z. m = Some z \<longrightarrow> ok_id a \<and> named_after_chain z \<and> m_account_id z = a)"
proof (rule tripleSI)
  fix s :: "('st, 'ms, 'nc, 'ch) evm_app" and r s' assume s: "evm_good X V s" and run: "on_app (on_meta (ms_get M a)) s = (r, s')"
  obtain ms where ms: "ms_get M a (ga_meta (ea_app s)) = (r, ms)" "s' = s \<lparr> ea_app := (ea_app s) \<lparr> ga_meta := ms \<rparr> \<rparr>"
    using run by (auto simp: on_app_def on_meta_def split: prod.splits)
  note law = get_law[OF ms(1) evm_goodD(2)[OF s]]
  then have "evm_good X V s'" using s by (simp add: evm_good_def evm_view_ok_def view_def ms(2))
  then show "(case r of Inl _ \<Rightarrow> evm_good X V | Inr m \<Rightarrow> \<lambda>s. evm_good X V s \<and>
      (\<forall>z. m = Some z \<longrightarrow> ok_id a \<and> named_after_chain z \<and> m_account_id z = a)) s'"
    using law evm_goodD(3)[OF s] key_law[OF evm_goodD(2)[OF s]] by (cases r) auto
qed

lemma keep_set:
  assumes "ok_id (m_account_id m)" and "named_after_chain m"
  shows "keep (evm_good X V :: ('st, 'ms, 'nc, 'ch) evm_app \<Rightarrow> bool) (on_app (on_meta (ms_set M m))) (\<lambda>_. True)"
proof (rule tripleSI)
  fix s :: "('st, 'ms, 'nc, 'ch) evm_app" and r s' assume s: "evm_good X V s" and run: "on_app (on_meta (ms_set M m)) s = (r, s')"
  obtain ms where ms: "ms_set M m (ga_meta (ea_app s)) = (r, ms)" "s' = s \<lparr> ea_app := (ea_app s) \<lparr> ga_meta := ms \<rparr> \<rparr>"
    using run by (auto simp: on_app_def on_meta_def split: prod.splits)
  have "evm_good X V s'"
    using set_law[OF ms(1) evm_goodD(2)[OF s]] s assms by (auto simp: evm_good_def evm_view_ok_def view_def ms(2) split: if_splits)
  then show "(case r of Inl _ \<Rightarrow> evm_good X V | Inr m \<Rightarrow> \<lambda>s. evm_good X V s \<and> True) s'" by (cases r) auto
qed

lemma keep_metadata:
  assumes "uses G"
  shows "keep (evm_good X V) (load_evm_metadata G a)
    (\<lambda>m. ok_id a \<and> m_account_id m = a \<and> named_after_chain m \<and> is_evm (m_network_config m))"
  unfolding load_evm_metadata_def
  by (rule keep_bind[OF keep_map_err[OF keep_get, folded assms[unfolded uses_def, THEN conjunct2]]])
    (auto intro!: keep_steps keep_ok simp: result_simps)

lemma keep_inactive: "keep (evm_good X V) (proposal_is_inactive X V p) (\<lambda>_. True)"
  unfolding proposal_is_inactive_def
  by (intro keep_bind[OF keep_now] keep_bind[OF keep_chain[where F = "\<lambda>_. True"]] keep_steps keep_ok TrueI)

lemma keep_delete_evm:
  assumes "uses G" and "ok_id a"
  shows "keep (evm_good X V) (delete_evm_proposal G a c) (\<lambda>_. True)"
  using keep_map_err[OF keep_delete[OF assms(2)]] assms(1) by (simp add: delete_evm_proposal_def uses_def)

lemma keep_load:
  assumes "uses G" and "ok_id a"
  shows "keep (evm_good X V) (load_active_proposal X V G a c) (\<lambda>p. proposal_ok X V p \<and> ep_account_id p = a)"
proof -
  have B: "ge_storage G = B" using assms(1) by (simp add: uses_def)
  have ok: "proposal_ok X V p \<and> ep_account_id p = a"
    if "stored_ok X V a d" "evm_from_delta X (ev_perr V) i d = Inr p" for i d p
    using that by (auto simp: stored_ok_def evm_from_delta_def result_simps split: if_splits)
  show ?thesis
    unfolding load_active_proposal_def B
    by (intro keep_lift keep_bind[OF keep_map_err[OF keep_pull[OF assms(2)]]] keep_bind[OF keep_inactive] tripleS_if
        keep_bind[OF keep_delete_evm[OF assms]] keep_err keep_ok ok)
qed

lemma keep_register:
  assumes "uses G"
  shows "keep (evm_good X V) (register_account X V G p) (\<lambda>_. True)"
proof -
  have M: "ge_meta G = M" using assms by (simp add: uses_def)
  have n: "normalize_evm_address a = Inr a \<and> evm_account_id (rp_chain_id p) a0 = evm_account_id c a"
    if "validate_for_account (NetEvm (rp_chain_id p) a0 v0) (evm_account_id (rp_chain_id p) a0) = Inr (NetEvm c a v)"
    for a0 v0 c a v
    using that normalize_evm_address_idem
    by (auto simp: validate_for_account_def result_simps Let_def split: if_splits)
  show ?thesis
    unfolding register_account_def M Let_def
    by (intro keep_lift keep_evm_case keep_bind[OF keep_installed] keep_bind[OF keep_snapshot] tripleS_if keep_err keep_ok TrueI
        keep_bind[OF keep_rfc3339] keep_bind[OF keep_map_err[OF keep_get]] keep_bind[OF keep_map_err[OF keep_set]])
      (auto dest!: n intro: evm_ids simp: named_after_chain_def result_simps)
qed

lemma keep_active:
  assumes "uses G" and "ok_id a" and "\<And>d. d \<in> set ds \<Longrightarrow> stored_ok X V a d"
  shows "keep (evm_good X V) (active_proposals X V G a addr ds) (\<lambda>ps. \<forall>p \<in> set ps. proposal_ok X V p \<and> has_signer p addr)"
  using assms(3)
proof (induction ds)
  case Nil
  show ?case unfolding active_proposals.simps by (rule keep_ok) simp
next
  case (Cons d ds)
  have ok: "proposal_ok X V p" if "evm_from_stored_delta X (ev_perr V) d = Inr p" for p
    using that Cons.prems[of d] by (auto simp: stored_ok_def evm_from_stored_delta_def result_simps)
  note IH = Cons.IH[OF Cons.prems[OF list.set_intros(2)]]
  show ?case
    unfolding active_proposals.simps
    by (intro tripleS_if IH keep_lift keep_bind[OF keep_inactive] keep_bind[OF keep_delete_evm[OF assms(1,2)]]
        keep_bind[OF IH] keep_ok)
      (auto dest: ok simp: ensure_snapshot_signer_def split: if_splits)
qed

lemma keep_list:
  assumes "uses G"
  shows "keep (evm_good X V) (list_proposals X V G a addr)
    (\<lambda>ps. \<exists>n. normalize_evm_address addr = Inr n \<and> (\<forall>p \<in> set ps. proposal_ok X V p \<and> has_signer p n))"
proof -
  have B: "ge_storage G = B" using assms by (simp add: uses_def)
  show ?thesis
    unfolding list_proposals_def B normalize_session_address_def
    by (rule keep_bind[OF keep_metadata[OF assms]], rule keep_lift,
        rule keep_bind[OF keep_map_err[OF keep_pull_all]], blast,
        rule keep_bind[OF keep_active[OF assms]], blast, blast)
      (auto intro!: keep_ok simp: result_simps)
qed

lemma keep_get_proposal:
  assumes "uses G" and "ok_id a"
  shows "keep (evm_good X V) (get_proposal X V G a c addr) (\<lambda>p. proposal_ok X V p \<and> ep_account_id p = a)"
  unfolding get_proposal_def
  by (intro keep_bind[OF keep_load[OF assms]] keep_lift keep_ok)

lemma keep_executable:
  assumes "uses G" and "ok_id a"
  shows "keep (evm_good X V) (executable_proposal X V G a c addr)
    (\<lambda>r. \<exists>p. proposal_ok X V p \<and> ep_account_id p = a \<and> ep_threshold p \<le> length (ep_signatures p) \<and> r = executable p)"
  unfolding executable_proposal_def
  by (intro keep_bind[OF keep_get_proposal[OF assms]] tripleS_if keep_err keep_ok)
    (auto simp: is_executable_def signature_count_def)

lemma keep_cancel:
  assumes "uses G" and "ok_id a"
  shows "keep (evm_good X V) (cancel_proposal X V G a c addr) (\<lambda>_. True)"
  unfolding cancel_proposal_def
  by (intro keep_lift keep_bind[OF keep_load[OF assms]] tripleS_if keep_err keep_delete_evm assms)

lemma approved_appended:
  assumes "proposal_ok X V p" and "has_signer p signer" and "\<not> has_signature_from p signer"
    and "normalize_evm_address x = Inr signer" and "normalize_signature X sg0 = Inr sg" and "hex_codec X"
    and "normalize_hash X (ep_user_op_hash p) = Inr (n, hash)" and "recover_hash_address (ev_alloy V) hash sg = Inr signer"
  shows "proposal_ok X V (p \<lparr> ep_signatures := ep_signatures p @ [\<lparr> eps_signer = signer, eps_signature = sg, eps_signed_at = t \<rparr>] \<rparr>)"
proof -
  have "signer \<notin> eps_signer ` set (ep_signatures p)"
    using assms(3) by (auto simp: has_signature_from_def list_ex_iff eq_ignore_ascii_case_def)
  moreover have "normal_signature X \<lparr> eps_signer = signer, eps_signature = sg, eps_signed_at = t \<rparr>"
    using normalize_evm_address_idem[OF assms(4)] normalize_signature_idem[OF assms(6,5)] by (simp add: normal_signature_def)
  ultimately show ?thesis
    using assms by (auto simp: proposal_ok_def approved_def has_signer_def snapshot_of_chain_def)
qed

lemma keep_approve:
  assumes "uses G" and "ok_id (ap_account_id p)" and "hex_codec X"
  shows "keep (evm_good X V) (approve_proposal X V G p) (\<lambda>q. proposal_ok X V q)"
proof -
  have B: "ge_storage G = B" using assms(1) by (simp add: uses_def)
  have ok: "proposal_ok X V (q \<lparr> ep_signatures := ep_signatures q @ [\<lparr> eps_signer = signer, eps_signature = sg, eps_signed_at = t \<rparr>] \<rparr>)"
    if "normalize_session_address x = Inr signer" "proposal_ok X V q" "ensure_snapshot_signer q signer = Inr u"
      "\<not> has_signature_from q signer" "normalize_hash X (ep_user_op_hash q) = Inr (n, hash)"
      "normalize_signature X sg0 = Inr sg" "recover_hash_address (ev_alloy V) hash sg = Inr signer" for x signer q u n hash sg0 sg t
    using that approved_appended[of X V q signer x sg0 sg n hash t] assms(3)
    by (auto simp: normalize_session_address_def ensure_snapshot_signer_def result_simps split: if_splits)
  show ?thesis
    unfolding approve_proposal_def B Let_def
    by (intro keep_lift2 keep_lift keep_bind[OF keep_load[OF assms(1,2)]] tripleS_if keep_err keep_bind[OF keep_now]
        keep_bind[OF keep_map_err[OF keep_put(2)]] keep_ok) (use assms(2) in \<open>auto intro: ok\<close>)
qed

definition fresh_input ::
  "('sig, 'pk, 'su, 'n) externals \<Rightarrow> ('asig, 'ch) evm_env \<Rightarrow> string \<Rightarrow> normalized_evm_input \<Rightarrow> evm_signer_snapshot \<Rightarrow> bool" where
  "fresh_input X V a i snap \<longleftrightarrow>
     ok_id a \<and> evm_account_id (ni_chain_id i) (ni_smart_account_address i) = a \<and>
     normal_signature X (ni_signature i) \<and> eps_signer (ni_signature i) = ni_proposer i \<and>
     list_ex (\<lambda>signer. eq_ignore_ascii_case signer (ni_proposer i)) (ss_signers snap) \<and>
     normalize_hash X (ni_hash i) = Inr (ni_hash i, ni_hash_bytes i) \<and>
     recover_hash_address (ev_alloy V) (ni_hash_bytes i) (eps_signature (ni_signature i)) = Inr (ni_proposer i) \<and>
     (\<exists>cfg ch ch'. registry_get (ev_chains V) (ni_chain_id i) = Some cfg \<and>
        signer_snapshot X (ev_rpc V) cfg (ni_smart_account_address i) (ni_validator_address i) ch = (Inr snap, ch'))"

lemma normalized_input_facts:
  assumes "normalized_input_new X c a v hash payload nonce proposer sg ttl = Inr i" and "hex_codec X"
    and "normalize_evm_address a = Inr a"
  shows "ni_chain_id i = c" "ni_smart_account_address i = a" "normal_signature X (ni_signature i)"
    "eps_signer (ni_signature i) = ni_proposer i" "normalize_hash X (ni_hash i) = Inr (ni_hash i, ni_hash_bytes i)"
  using assms normalize_evm_address_idem normalize_signature_idem[OF assms(2)]
    normalize_hash_format[OF assms(2) parse_fixed_hex_length[of X hash 32 "''hash''"]]
  by (auto simp: normalized_input_new_def result_simps normal_signature_def split: if_splits)

lemma keep_check:
  assumes "uses G" and "hex_codec X"
  shows "keep (evm_good X V) (check_new_proposal X V G p)
    (\<lambda>(i, snap, _). fresh_input X V (cp_account_id p) i snap)"
proof -
  have fresh: "fresh_input X V a i snap"
    if "ok_id a" "m_account_id m = a" "named_after_chain m" "evm_network_parts (m_network_config m) = Inr (c, ad, v)"
      "normalized_input_new X c ad v hash payload nonce proposer sg ttl = Inr i"
      "registry_get (ev_chains V) (ni_chain_id i) = Some cfg"
      "signer_snapshot X (ev_rpc V) cfg (ni_smart_account_address i) (ni_validator_address i) ch = (Inr snap, ch')"
      "list_ex (\<lambda>signer. eq_ignore_ascii_case signer (ni_proposer i)) (ss_signers snap)"
      "verify_proposal_signature (ev_alloy V) i (eps_signature (ni_signature i)) = Inr (ni_proposer i)"
    for a m c ad v hash payload nonce proposer sg ttl i cfg ch snap ch'
  proof -
    have n: "m_network_config m = NetEvm c ad v" using that(4) by (auto simp: evm_network_parts_def split: network_config.splits)
    then have ad: "normalize_evm_address ad = Inr ad" "evm_account_id c ad = a" using that(2,3) by (auto simp: named_after_chain_def)
    show ?thesis
      using that ad normalized_input_facts[OF that(5) assms(2) ad(1)]
      unfolding fresh_input_def verify_proposal_signature_def by blast
  qed
  show ?thesis
    unfolding check_new_proposal_def
    by (intro keep_bind[OF keep_metadata[OF assms(1)]] keep_lift3 keep_lift keep_bind[OF keep_now] tripleS_if keep_err keep_ok
        keep_bind[OF keep_installed] keep_bind[OF keep_snapshot])
      (auto intro: fresh simp: result_simps)
qed

lemma keep_existing:
  assumes "uses G" and "ok_id a"
  shows "keep (evm_good X V) (existing_proposal X V G a c) (\<lambda>q. \<forall>p. q = Some p \<longrightarrow> proposal_ok X V p)"
proof -
  have B: "ge_storage G = B" using assms(1) by (simp add: uses_def)
  have ok: "proposal_ok X V p" if "stored_ok X V a d" "evm_from_delta X (ev_perr V) i d = Inr p" for i d p
    using that by (auto simp: stored_ok_def)
  show ?thesis
    unfolding existing_proposal_def B
    by (rule keep_observe[OF keep_pull[OF assms(2)]]; simp only: sum.case)
      (intro keep_lift keep_bind[OF keep_inactive] keep_bind[OF keep_delete_evm[OF assms]] tripleS_if keep_ok;
       auto dest: ok)+
qed

lemma keep_create:
  assumes "uses G" and "hex_codec X"
  shows "keep (evm_good X V) (create_proposal X V G p) (\<lambda>q. \<forall>p. q = Some p \<longrightarrow> proposal_ok X V p)"
proof -
  have B: "ge_storage G = B" using assms(1) by (simp add: uses_def)
  have ok: "proposal_ok X V \<lparr> ep_proposal_id = c, ep_account_id = a, ep_chain_id = ni_chain_id i,
      ep_smart_account_address = ni_smart_account_address i, ep_validator_address = ni_validator_address i,
      ep_user_op_hash = ni_hash i, ep_payload = ni_payload i, ep_nonce = n, ep_nonce_key = nk,
      ep_proposer = ni_proposer i, ep_signer_snapshot = ss_signers snap, ep_threshold = ss_threshold snap,
      ep_signatures = [ni_signature i], ep_created_at = t, ep_expires_at = e \<rparr>"
    if "fresh_input X V a i snap" for c a i n nk snap t e
    using that by (cases snap) (auto simp: fresh_input_def proposal_ok_def approved_def has_signer_def snapshot_of_chain_def)
  show ?thesis
    unfolding create_proposal_def B
  proof (rule keep_bind[OF keep_check[OF assms]], simp only: split_paired_all prod.case)
    fix i snap c assume i: "fresh_input X V (cp_account_id p) i snap"
    then have a: "ok_id (cp_account_id p)" by (simp add: fresh_input_def)
    show "keep (evm_good X V)
      (bindS (existing_proposal X V G (cp_account_id p) c) (\<lambda>existing. case existing of
          Some q \<Rightarrow> okS (Some q)
        | None \<Rightarrow> bindS evm_now (\<lambda>now. case ev_add_secs V now (u64_as_i64 (ni_ttl_seconds i)) of
            None \<Rightarrow> okS None
          | Some expires \<Rightarrow>
            let proposal = \<lparr> ep_proposal_id = c, ep_account_id = cp_account_id p, ep_chain_id = ni_chain_id i,
              ep_smart_account_address = ni_smart_account_address i, ep_validator_address = ni_validator_address i,
              ep_user_op_hash = ni_hash i, ep_payload = ni_payload i, ep_nonce = nn_decimal (ni_nonce i),
              ep_nonce_key = nn_nonce_key (ni_nonce i), ep_proposer = ni_proposer i,
              ep_signer_snapshot = ss_signers snap, ep_threshold = ss_threshold snap,
              ep_signatures = [ni_signature i], ep_created_at = timestamp_millis now, ep_expires_at = timestamp_millis expires \<rparr> in
            bindS (storage_err [] (on_app (on_storage (submit_delta_proposal B c (evm_into_delta X proposal))))) (\<lambda>_.
            okS (Some proposal))))) (\<lambda>q. \<forall>p. q = Some p \<longrightarrow> proposal_ok X V p)"
      unfolding Let_def
      by (intro keep_bind[OF keep_existing[OF assms(1) a]] keep_option keep_bind[OF keep_now] keep_ok
          keep_bind[OF keep_map_err[OF keep_put(1)]]) (use a in \<open>auto intro: ok[OF i]\<close>)
  qed
qed

lemma keep_session: "keep (evm_good X V) (require_evm_session hs) (\<lambda>_. True)"
  unfolding require_evm_session_def by (intro keep_lift keep_bind[OF keep_now] keep_sessions)

lemma keep_any: "keep I m F \<Longrightarrow> keep I m (\<lambda>_. True)"
  by (erule keep_weaken) simp

lemma keep_login:
  "keep (evm_good X V) (challenge_evm_session Y random a) (\<lambda>_. True)"
  "keep (evm_good X V) (verify_evm_session Y W random q) (\<lambda>_. True)"
  "keep (evm_good X V) (logout_evm_session W utc hs) (\<lambda>_. True)"
  unfolding challenge_evm_session_def verify_evm_session_def logout_evm_session_def
  by (intro keep_bind[OF keep_now] keep_bind[OF keep_sessions] keep_ok TrueI)+

lemma keep_endpoints:
  assumes "uses G" and "hex_codec X"
  shows "keep (evm_good X V) (register_evm_account X V G hs rq) (\<lambda>_. True)"
    and "keep (evm_good X V) (create_evm_proposal X V G hs cq) (\<lambda>_. True)"
    and "keep (evm_good X V) (list_evm_proposals X V G hs a) (\<lambda>_. True)"
    and "ok_id a \<Longrightarrow> keep (evm_good X V) (get_evm_proposal X V G hs c a) (\<lambda>_. True)"
    and "ok_id (aq_account_id q) \<Longrightarrow> keep (evm_good X V) (approve_evm_proposal X V G hs c q) (\<lambda>_. True)"
    and "ok_id a \<Longrightarrow> keep (evm_good X V) (cancel_evm_proposal X V G hs c a) (\<lambda>_. True)"
  unfolding register_evm_account_def create_evm_proposal_def list_evm_proposals_def get_evm_proposal_def
    approve_evm_proposal_def cancel_evm_proposal_def
  by (intro keep_bind[OF keep_session] keep_register[OF assms(1)] keep_any[OF keep_create[OF assms]]
      keep_any[OF keep_list[OF assms(1)]] keep_any[OF keep_get_proposal[OF assms(1)]]
      keep_any[OF keep_approve[OF assms(1) _ assms(2)]] keep_bind[OF keep_cancel[OF assms(1)]] keep_ok TrueI; simp)+

lemma keep_execute:
  assumes "uses G" and "ok_id a"
  shows "keep (evm_good X V) (get_executable_evm_proposal X V G hs c a)
    (\<lambda>r. \<exists>p. proposal_ok X V p \<and> ep_account_id p = a \<and> ep_threshold p \<le> length (ep_signatures p) \<and> r = executable p)"
  unfolding get_executable_evm_proposal_def by (intro keep_bind[OF keep_session] keep_executable[OF assms])

lemma evm_http_keeps:
  fixes s :: "('st, 'ms, 'a, 'b) evm_app"
  assumes "evm_http ok_id X V G s s'" and "uses G" and "hex_codec X" and "evm_good X V s"
  shows "evm_good X V s'"
  using assms(1)
proof cases
  case challenge
  then show ?thesis using keep_run[OF keep_login(1) assms(4)] by blast
next
  case verify
  then show ?thesis using keep_run[OF keep_login(2) assms(4)] by blast
next
  case logout
  then show ?thesis using keep_run[OF keep_login(3) assms(4)] by blast
next
  case register
  then show ?thesis using keep_run[OF keep_endpoints(1)[OF assms(2,3)] assms(4)] by blast
next
  case create
  then show ?thesis using keep_run[OF keep_endpoints(2)[OF assms(2,3)] assms(4)] by blast
next
  case list
  then show ?thesis using keep_run[OF keep_endpoints(3)[OF assms(2,3)] assms(4)] by blast
next
  case get
  then show ?thesis using keep_run[OF keep_endpoints(4)[OF assms(2,3) get(2)] assms(4)] by blast
next
  case approve
  then show ?thesis using keep_run[OF keep_endpoints(5)[OF assms(2,3) approve(2)] assms(4)] by blast
next
  case execute
  then show ?thesis using keep_run[OF keep_execute[OF assms(2) execute(2)] assms(4)] by blast
next
  case cancel
  then show ?thesis using keep_run[OF keep_endpoints(6)[OF assms(2,3) cancel(2)] assms(4)] by blast
qed

lemma evm_https_keep:
  assumes "(evm_http ok_id X V G)\<^sup>*\<^sup>* s s'" and "uses G" and "hex_codec X" and "evm_good X V s"
  shows "evm_good X V s'"
  using assms(1,4) by (induction rule: rtranclp_induct) (use evm_http_keeps[OF _ assms(2,3)] in blast)+

end

section \<open>The file-backed server\<close>

lemma normal_address_chars: "normalize_evm_address a = Inr n \<Longrightarrow> set n \<subseteq> insert (CHR ''x'') {c. is_hexdigit c}"
proof -
  have "is_hexdigit (CHR ''0'')" by code_simp
  then show "normalize_evm_address a = Inr n \<Longrightarrow> set n \<subseteq> insert (CHR ''x'') {c. is_hexdigit c}"
    using hexdigit_lower
    by (auto simp: normalize_evm_address_def result_simps to_ascii_lowercase_def list_all_iff split: if_splits)
qed

lemma plain_evm_id: "normalize_evm_address a = Inr a \<Longrightarrow> plain_name (evm_account_id c a)"
  using normal_address_chars[of a a] is_hexdigit_not_slash plain_seq_name[of c]
  by (auto simp: plain_name_def evm_account_id_def)

interpretation evm_server: evm_backends "filesystem_service app" "fs_inv app" plain_name "fs_view app"
  filesystem_metadata_store meta_inv meta_view
  by unfold_locales (rule plain_evm_id)

definition evm_server_ok ::
  "path \<Rightarrow> ('sig, 'pk, 'su, 'n) externals \<Rightarrow> ('asig, 'ch) evm_env \<Rightarrow> (gcontent fsys, meta_fs, 'nc, 'ch) evm_app \<Rightarrow> bool" where
  "evm_server_ok app X V s \<longleftrightarrow>
     fs_inv app (ga_storage (ea_app s)) \<and> meta_inv (ga_meta (ea_app s)) \<and>
     evm_view_ok plain_name X V (guardian_view app (ea_app s))"

lemma evm_server_simps: "evm_server.evm_good app X V s = evm_server_ok app X V s"
  by (simp add: evm_server.evm_good_def evm_server_ok_def guardian_simps)

end
