(* ===== verification/Evm_Properties.thy ===== *)
theory Evm_Properties
  imports Evm_System "HOL-Library.Code_Target_Nat"
begin

text \<open>
  Properties of the EVM side: the arithmetic on nonces against the numbers they denote, and what an executable proposal
  carries.
\<close>

section \<open>Nonces\<close>

definition real_hex :: "(string, string, unit, unit) externals" where
  "real_hex = two_keys
     \<lparr> hex_encode := (\<lambda>b. concat (map (\<lambda>c. [digit_char (of_char c div 16), digit_char (of_char c mod 16)]) b)),
       hex_decode := (\<lambda>h. if odd (length h) then Inl ''Odd number of digits''
                          else if list_all is_hexdigit h then Inr (hex_pairs h) else Inl ''Invalid character'') \<rparr>"

lemma real_hex_reads: "hex_reads real_hex"
  by (simp add: hex_reads_def real_hex_def)

text \<open>
  C36: A nonce is normalised to its value. On a string that denotes a number below \<open>2 ^ 256\<close>, in decimal or as \<open>0x\<close> and at most 64
  hexadecimal digits, \<open>normalize_nonce\<close> returns the decimal form of the number, the decimal form of its upper 192 bits as the key
  and its lower 64 bits; every other string is refused. Two such strings compare as the numbers they denote.
\<close>

theorem nonce_normalized:
  assumes "hex_reads X"
  shows "(case normalize_nonce X v of
      Inl _ \<Rightarrow> \<not> nonce_valid v
    | Inr n \<Rightarrow> nonce_valid v \<and> nn_decimal n = show_nat (nonce_value v) \<and>
        nn_nonce_key n = show_nat (nonce_value v div 2 ^ 64) \<and> low_u64 n = nonce_value v mod 2 ^ 64) \<and>
    (nonce_valid v \<and> nonce_valid w \<longrightarrow> compare_u256_decimal X v w =
      Inr (if nonce_value v < nonce_value w then OrdLess else if nonce_value w < nonce_value v then OrdGreater else OrdEqual))"
proof
  show "case normalize_nonce X v of
      Inl _ \<Rightarrow> \<not> nonce_valid v
    | Inr n \<Rightarrow> nonce_valid v \<and> nn_decimal n = show_nat (nonce_value v) \<and>
        nn_nonce_key n = show_nat (nonce_value v div 2 ^ 64) \<and> low_u64 n = nonce_value v mod 2 ^ 64"
  proof (cases "parse_u256 X v")
    case (Inl e)
    then show ?thesis using parse_u256_total[OF assms, of v] by (auto simp: normalize_nonce_def)
  next
    case (Inr bytes)
    note ok = parse_u256_ok[OF assms Inr]
    then have "take 8 (drop 24 bytes) = drop 24 bytes" by simp
    then show ?thesis
      using ok be_val_parts(2)[OF ok(2)]
      by (simp add: normalize_nonce_def Inr u256_to_decimal_eq shift_right_64_eq low_u64_def)
  qed
  show "nonce_valid v \<and> nonce_valid w \<longrightarrow> compare_u256_decimal X v w =
      Inr (if nonce_value v < nonce_value w then OrdLess else if nonce_value w < nonce_value v then OrdGreater else OrdEqual)"
  proof
    assume "nonce_valid v \<and> nonce_valid w"
    then obtain a b where p: "parse_u256 X v = Inr a" "parse_u256 X w = Inr b"
      using parse_u256_total[OF assms] by blast
    show "compare_u256_decimal X v w =
      Inr (if nonce_value v < nonce_value w then OrdLess else if nonce_value w < nonce_value v then OrdGreater else OrdEqual)"
      using parse_u256_ok[OF assms p(1)] parse_u256_ok[OF assms p(2)] by (simp add: compare_u256_decimal_def p cmp_bytes_eq)
  qed
qed

theorem nonce_normalized_witness:
  "nn_decimal (the (res_ok (normalize_nonce real_hex ''0x10000000000000005''))) = ''18446744073709551621'' \<and>
   compare_u256_decimal real_hex ''0x10000000000000005'' ''18446744073709551620'' = Inr OrdGreater"
proof -
  have v: "nonce_valid ''0x10000000000000005''" "nonce_valid ''18446744073709551620''"
    "nonce_value ''0x10000000000000005'' = 18446744073709551621" "nonce_value ''18446744073709551620'' = 18446744073709551620"
    by code_simp+
  have "show_nat 18446744073709551621 = ''18446744073709551621''" by code_simp
  then show ?thesis
    using nonce_normalized[OF real_hex_reads, of "''0x10000000000000005''" "''18446744073709551620''"] v
    by (auto split: sum.splits)
qed

section \<open>Executable proposals\<close>

text \<open>
  C37: In every state the file-backed server reaches from a good one by EVM requests, whatever they return and whatever
  fails in the storage or on the chain, an executable proposal that is served carries approvals of distinct addresses, at least as
  many as the threshold, and each of them is a signer in the snapshot and its signature over the served hash recovers to the
  address. Snapshot and threshold are an answer of the validator contract of the account on its configured chain, and
  the threshold is positive.
\<close>

theorem executable_approved:
  assumes "hex_codec X" and "file_backed app G" and "evm_server_ok app X V s0" and "(evm_http plain_name X V G)\<^sup>*\<^sup>* s0 s"
    and "plain_name a" and "get_executable_evm_proposal X V G hs c a s = (Inr r, s')"
  shows "\<exists>p cfg ch ch'. r = executable p \<and> a = evm_account_id (ep_chain_id p) (ep_smart_account_address p) \<and>
    registry_get (ev_chains V) (ep_chain_id p) = Some cfg \<and>
    signer_snapshot X (ev_rpc V) cfg (ep_smart_account_address p) (ep_validator_address p) ch =
      (Inr \<lparr> ss_signers = ep_signer_snapshot p, ss_threshold = ep_threshold p \<rparr>, ch') \<and>
    1 \<le> ep_threshold p \<and> ep_threshold p \<le> length (ee_signers r) \<and> distinct (ee_signers r) \<and>
    length (ee_signatures r) = length (ee_signers r) \<and>
    (\<forall>i < length (ee_signers r).
      (\<exists>signer \<in> set (ep_signer_snapshot p). eq_ignore_ascii_case signer (ee_signers r ! i)) \<and>
      (\<exists>n hash. normalize_hash X (ee_hash r) = Inr (n, hash) \<and>
        recover_hash_address (ev_alloy V) hash (ee_signatures r ! i) = Inr (ee_signers r ! i)))"
proof -
  have G: "guardian.uses app G" using assms(2) by (simp add: guardian_simps)
  have "evm_server.evm_good app X V s"
    using evm_server.evm_https_keep[OF assms(4) G assms(1)] assms(3) by (simp add: evm_server_simps)
  from keep_result[OF evm_server.keep_execute[OF G assms(5)] this assms(6)]
  obtain p where p: "proposal_ok X V p" "ep_account_id p = a" "ep_threshold p \<le> length (ep_signatures p)" "r = executable p"
    by blast
  from p(1) obtain cfg ch ch' where snap: "registry_get (ev_chains V) (ep_chain_id p) = Some cfg"
    "signer_snapshot X (ev_rpc V) cfg (ep_smart_account_address p) (ep_validator_address p) ch =
      (Inr \<lparr> ss_signers = ep_signer_snapshot p, ss_threshold = ep_threshold p \<rparr>, ch')"
    by (auto simp: proposal_ok_def snapshot_of_chain_def)
  have e: "approved X (ev_alloy V) p (ep_signatures p ! i)" if "i < length (ep_signatures p)" for i
    using p(1) that by (simp add: proposal_ok_def)
  show ?thesis
    using snap p e signer_snapshot_result[OF snap(2)]
    by (intro exI[of _ p] exI[of _ cfg] exI[of _ ch] exI[of _ ch'])
      (auto simp: executable_def proposal_ok_def approved_def has_signer_def list_ex_iff)
qed

text \<open>A codec that writes every byte twice.\<close>

fun every_second :: "'a list \<Rightarrow> 'a list" where
  "every_second (a # b # s) = b # every_second s"
| "every_second s = []"

definition twice :: "(string, string, unit, unit) externals" where
  "twice = two_keys \<lparr> hex_encode := (\<lambda>b. concat (map (\<lambda>c. [c, c]) b)), hex_decode := (\<lambda>h. Inr (every_second h)) \<rparr>"

lemma twice_codec: "hex_codec twice"
proof -
  have "every_second (concat (map (\<lambda>c. [c, c]) b)) = b \<and> length (concat (map (\<lambda>c. [c, c]) b)) = 2 * length b" for b :: string
    by (induction b) simp_all
  then show ?thesis by (simp add: hex_codec_def twice_def)
qed

definition demo_rpc :: "unit evm_rpc" where
  "demo_rpc = \<lparr> rpc_url = (\<lambda>_. Inr ()), rpc_is_module_installed = (\<lambda>_ _ _ _ _. okS True), rpc_get_signer_count = (\<lambda>_ _ _. okS 2),
     rpc_get_signers = (\<lambda>_ _ _ _ _. okS [replicate 20 (CHR ''a''), replicate 20 (CHR ''b'')]),
     rpc_threshold = (\<lambda>_ _ _. okS 2), rpc_get_nonce = (\<lambda>_ _ _ _. okS 0) \<rparr>"

text \<open>A signature whose first twenty bytes are the address of its signer.\<close>

definition demo_alloy :: "string alloy_ops" where
  "demo_alloy = \<lparr> alloy_session_hash = (\<lambda>_ _ _ _. []), alloy_signature = Inr, alloy_recover = (\<lambda>sg h. Inr (take 40 (drop 2 sg))),
     alloy_debug = (\<lambda>a. ''0x'' @ a), alloy_id = (\<lambda>_ _ _ _ _. replicate 32 (CHR ''a'')), alloy_u256 = (\<lambda>s. Inr (dec_num 0 s)),
     alloy_u192 = (\<lambda>s. Inr (dec_num 0 s)) \<rparr>"

definition demo_evm :: "(string, unit) evm_env" where
  "demo_evm = \<lparr> ev_alloy = demo_alloy, ev_rpc = demo_rpc,
     ev_chains = [(1, \<lparr> cc_chain_id = 1, cc_rpc_url = ''http://node'', cc_entrypoint_address = DEFAULT_ENTRYPOINT_ADDRESS \<rparr>)],
     ev_add_secs = (\<lambda>t n. Some (t + n * 1000000000)), ev_perr = (\<lambda>_. ''shape''), ev_cookie_date = (\<lambda>_. ''date'') \<rparr>"

definition evm_address :: "char \<Rightarrow> string" where
  "evm_address c = ''0x'' @ replicate 40 c"

definition demo_evm_account :: account_metadata where
  "demo_evm_account = \<lparr> m_account_id = evm_account_id 1 (evm_address (CHR ''c'')),
     m_auth = EvmEcdsa [evm_address (CHR ''a''), evm_address (CHR ''b'')],
     m_network_config = NetEvm 1 (evm_address (CHR ''c'')) (evm_address (CHR ''d'')), m_created_at = ''t'', m_updated_at = ''t'',
     m_has_pending_candidate = False, m_last_auth_timestamp = None \<rparr>"

definition demo_evm_app :: "(gcontent fsys, meta_fs, unit, unit) evm_app" where
  "demo_evm_app = \<lparr> ea_app = \<lparr> ga_storage = \<lparr> fs_files = [], fs_dirs = [[''g'']], fs_faults = [], fs_stat_faults = [], fs_clock = [] \<rparr>,
       ga_meta = demo_meta \<lparr> mf_cache := [(m_account_id demo_evm_account, demo_evm_account)] \<rparr>, ga_net = (), ga_clock = [] \<rparr>,
     ea_chain = (),
     ea_sessions = \<lparr> es_challenges = [],
       es_sessions = [(''ta'', \<lparr> es_address = evm_address (CHR ''a''), es_expires_at = 9 \<rparr>),
                      (''tb'', \<lparr> es_address = evm_address (CHR ''b''), es_expires_at = 9 \<rparr>)] \<rparr> \<rparr>"

definition with_cookie :: "string \<Rightarrow> headers" where
  "with_cookie token h = (if h = ''cookie'' then Some (Some (''guardian_evm_session='' @ token)) else None)"

definition demo_id :: string where
  "demo_id = ''0x'' @ replicate 64 (CHR ''a'')"

definition demo_approval :: "char \<Rightarrow> evm_proposal_signature" where
  "demo_approval c = \<lparr> eps_signer = evm_address c, eps_signature = ''0x'' @ replicate 130 c, eps_signed_at = 0 \<rparr>"

definition demo_evm_proposal :: "char list \<Rightarrow> evm_proposal" where
  "demo_evm_proposal cs = \<lparr> ep_proposal_id = demo_id, ep_account_id = m_account_id demo_evm_account, ep_chain_id = 1,
     ep_smart_account_address = evm_address (CHR ''c''), ep_validator_address = evm_address (CHR ''d''),
     ep_user_op_hash = ''0x'' @ replicate 64 (CHR ''e''), ep_payload = ''{}'', ep_nonce = ''7'', ep_nonce_key = ''0'',
     ep_proposer = evm_address (CHR ''a''), ep_signer_snapshot = [evm_address (CHR ''a''), evm_address (CHR ''b'')],
     ep_threshold = 2, ep_signatures = map demo_approval cs, ep_created_at = 0, ep_expires_at = 60000 \<rparr>"

definition demo_with :: "char list \<Rightarrow> (gcontent fsys, meta_fs, unit, unit) evm_app" where
  "demo_with cs = (let dir = [''g'', m_account_id demo_evm_account]; app = ea_app demo_evm_app in
     demo_evm_app \<lparr> ea_app := app \<lparr> ga_storage := (ga_storage app)
       \<lparr> fs_files := [(dir @ [''proposals'', replicate 64 (CHR ''a'') @ ''.json''], Intact (GDelta (evm_into_delta twice (demo_evm_proposal cs))))],
         fs_dirs := [[''g''], dir, dir @ [''proposals'']] \<rparr> \<rparr> \<rparr>)"

lemma demo_create:
  "snd (create_evm_proposal twice demo_evm demo_genv (with_cookie ''ta'')
     \<lparr> cq_account_id = m_account_id demo_evm_account, cq_user_op_hash = ''0x'' @ replicate 64 (CHR ''e''), cq_payload = ''{}'',
       cq_nonce = ''7'', cq_ttl_seconds = 60, cq_signature = ''0x'' @ replicate 130 (CHR ''a'') \<rparr> demo_evm_app) = demo_with ''a''"
  by code_simp

lemma demo_approve:
  "snd (approve_evm_proposal twice demo_evm demo_genv (with_cookie ''tb'') demo_id
     \<lparr> aq_account_id = m_account_id demo_evm_account, aq_signature = ''0x'' @ replicate 130 (CHR ''b'') \<rparr> (demo_with ''a'')) = demo_with ''ab''"
  by code_simp

definition demo_executable :: executable_evm_proposal where
  "demo_executable = executable (demo_evm_proposal ''ab'')"

lemma demo_execute:
  "get_executable_evm_proposal twice demo_evm demo_genv (with_cookie ''ta'') demo_id (m_account_id demo_evm_account) (demo_with ''ab'')
     = (Inr demo_executable, demo_with ''ab'')"
  by code_simp

lemma demo_evm_start: "evm_server_ok [''g''] twice demo_evm demo_evm_app"
proof -
  have "normalize_evm_address (evm_address (CHR ''c'')) = Inr (evm_address (CHR ''c''))" by code_simp
  moreover have "plain_name (m_account_id demo_evm_account)" by code_simp
  ultimately show ?thesis
    by (auto simp: evm_server_ok_def fs_inv_def plain_path_def parents_def demo_evm_app_def meta_inv_def evm_view_ok_def
        guardian_view_def meta_view_def fs_prop_view_def fget_def named_after_chain_def demo_evm_account_def demo_meta_def dir_get_def dir_wf_def)
qed

theorem executable_approved_witness:
  "distinct (ee_signers demo_executable) \<and>
   (\<exists>p. demo_executable = executable p \<and> 1 \<le> ep_threshold p \<and> ep_threshold p \<le> length (ee_signers demo_executable))"
proof -
  have "(evm_http plain_name twice demo_evm demo_genv)\<^sup>*\<^sup>* demo_evm_app (demo_with ''ab'')"
  proof (rule rtranclp.rtrancl_into_rtrancl[OF r_into_rtranclp])
    show "evm_http plain_name twice demo_evm demo_genv demo_evm_app (demo_with ''a'')"
      using evm_http.create[OF surjective_pairing] demo_create by metis
    have "plain_name (m_account_id demo_evm_account)" by code_simp
    then show "evm_http plain_name twice demo_evm demo_genv (demo_with ''a'') (demo_with ''ab'')"
      using evm_http.approve[OF surjective_pairing] demo_approve by (metis approve_proposal_request.select_convs(1))
  qed
  moreover have "plain_name (m_account_id demo_evm_account)" by code_simp
  ultimately show ?thesis
    using executable_approved[OF twice_codec demo_file_backed demo_evm_start _ _ demo_execute] by blast
qed

end
