(* ===== verification/Adn.thy ===== *)
theory Adn
  imports X402_Api
begin

text \<open>
  Agent debit notes: a note funded once, from which an agent pays one merchant with signed vouchers for growing amounts.
  The messages and the note storage (\<open>crates/agent-debit-note/src\<close>), the headers that carry requirements and vouchers
  (\<open>wire.rs\<close>, \<open>sdk.rs\<close>), the agent's client (\<open>crates/adn-client/src\<close>) and the facilitator's endpoint \<open>/adn/pay\<close>
  (\<open>x402-facilitator-server/src/adn.rs\<close>). Secret keys are a parameter.
\<close>

section \<open>Messages and storage (message.rs, types.rs, voucher.rs)\<close>

definition debit_message :: "('sig, 'pk, 'su, 'n) externals \<Rightarrow> mword \<Rightarrow> account_id \<Rightarrow> nat \<Rightarrow> mword" where
  "debit_message X serial merchant cumulative_amount =
     hasher_merge X serial (MWord (account_suffix merchant) (account_prefix merchant) (felt_new X cumulative_amount) 0)"

definition reclaim_message :: "('sig, 'pk, 'su, 'n) externals \<Rightarrow> mword \<Rightarrow> account_id \<Rightarrow> mword" where
  "reclaim_message X serial user =
     hasher_merge X serial (MWord (account_suffix user) (account_prefix user) 0 0)"

record agent_debit_note_storage =
  an_user_pubkey_commitment :: mword
  an_merchant_account_id :: account_id
  an_user_account_id :: account_id
  an_reclaim_block_height :: nat

definition debit_note_storage :: "('sig, 'pk, 'su, 'n) externals \<Rightarrow> agent_debit_note_storage \<Rightarrow> felt list" where
  "debit_note_storage X s =
     as_elements (an_user_pubkey_commitment s) @
     [account_suffix (an_merchant_account_id s), account_prefix (an_merchant_account_id s),
      account_suffix (an_user_account_id s), account_prefix (an_user_account_id s), felt_new X (an_reclaim_block_height s)]"

definition voucher_message :: "('sig, 'pk, 'su, 'n) externals \<Rightarrow> mword \<Rightarrow> account_id \<Rightarrow> nat \<Rightarrow> mword" where
  "voucher_message X serial merchant cumulative_amount = debit_message X serial merchant cumulative_amount"

text \<open>
  Secret keys are a parameter: \<open>AuthSecretKey\<close> (\<open>sk_sign\<close>, \<open>sk_commitment\<close> of its public key, \<open>sk_from_bytes\<close>), and the Falcon key inside
  it, \<open>None\<close> when it is of another scheme.
\<close>

record ('sk, 'fsk, 'sig, 'esig) secret_key_ops =
  sk_commitment :: "'sk \<Rightarrow> mword"
  sk_sign :: "'sk \<Rightarrow> mword \<Rightarrow> ('sig, 'esig) account_sig"
  sk_from_bytes :: "string \<Rightarrow> string + 'sk"
  sk_falcon :: "'sk \<Rightarrow> 'fsk option"
  falcon_sign :: "'fsk \<Rightarrow> mword \<Rightarrow> 'sig"

definition sign_voucher ::
  "('sig, 'pk, 'su, 'n) externals \<Rightarrow> ('sk, 'fsk, 'sig, 'esig) secret_key_ops \<Rightarrow> 'fsk \<Rightarrow> mword \<Rightarrow> account_id \<Rightarrow> nat \<Rightarrow> 'sig" where
  "sign_voucher X S sk serial merchant cumulative_amount =
     falcon_sign S sk (voucher_message X serial merchant cumulative_amount)"

definition verify_voucher ::
  "('sig, 'pk, 'su, 'n) externals \<Rightarrow> 'pk \<Rightarrow> mword \<Rightarrow> account_id \<Rightarrow> nat \<Rightarrow> 'sig \<Rightarrow> bool" where
  "verify_voucher X pk serial merchant cumulative_amount sg = sig_verify X sg (voucher_message X serial merchant cumulative_amount) pk"

definition signature_to_hex :: "('sig, 'pk, 'su, 'n) externals \<Rightarrow> 'sig \<Rightarrow> string" where
  "signature_to_hex X sg = ''0x'' @ hex_encode X (sig_to_bytes X sg)"

section \<open>Headers (wire.rs)\<close>

record miden_extra =
  me_min_reclaim_block_buffer :: nat

record payment_requirements =
  pr_scheme :: string
  pr_network :: string
  pr_amount :: string
  pr_asset :: string
  pr_pay_to :: string
  pr_max_timeout_seconds :: nat
  pr_extra :: "miden_extra option"

record payment_required =
  pq_x402_version :: nat
  pq_accepts :: "payment_requirements list"

record asset_entry =
  ae_faucet_id :: string
  ae_amount :: string

record note_details =
  nd_serial_num :: string
  nd_script :: string
  nd_inputs :: "string list"
  nd_assets :: "asset_entry list"

record payment_signature_setup =
  su_x402_version :: nat
  su_scheme :: string
  su_network :: string
  su_payer_account_id :: string
  su_reclaim_block_height :: nat
  su_note_commitment :: string
  su_note_details :: note_details

record cumulative_voucher_payload =
  cv_scheme :: string
  cv_network :: string
  cv_note_commitment :: string
  cv_cumulative_amount :: string
  cv_block_height_expiry :: nat
  cv_merchant_account_id :: string
  cv_signature :: string

record payment_response =
  po_success :: bool
  po_tx_hash :: "string option"
  po_settled_amount :: "string option"
  po_remainder_note_commitment :: "string option"
  po_remainder_balance :: "string option"

text \<open>The derived serialisation with camel-case names; \<open>u32\<close> and \<open>u64\<close> fields refuse larger numbers.\<close>

definition json_u32 :: "json \<Rightarrow> nat option" where
  "json_u32 v = Option.bind (json_u64 v) (\<lambda>n. if n < u32_bound then Some n else None)"

definition json_opt :: "('a \<Rightarrow> json) \<Rightarrow> 'a option \<Rightarrow> json" where
  "json_opt f x = (case x of None \<Rightarrow> JNull | Some a \<Rightarrow> f a)"

fun json_to_bool :: "json \<Rightarrow> bool option" where
  "json_to_bool (JBool b) = Some b"
| "json_to_bool _ = None"

text \<open>An \<open>Option\<close> field: absent and \<open>null\<close> are \<open>None\<close>.\<close>

definition opt_member :: "(json \<Rightarrow> 'a option) \<Rightarrow> json \<Rightarrow> string \<Rightarrow> 'a option option" where
  "opt_member parse v k =
     (case json_get v k of None \<Rightarrow> Some None | Some JNull \<Rightarrow> Some None | Some j \<Rightarrow> map_option Some (parse j))"

definition member :: "(json \<Rightarrow> 'a option) \<Rightarrow> json \<Rightarrow> string \<Rightarrow> 'a option" where
  "member parse v k = Option.bind (json_get v k) parse"

definition json_list :: "(json \<Rightarrow> 'a option) \<Rightarrow> json \<Rightarrow> 'a list option" where
  "json_list parse v = Option.bind (json_array v) (\<lambda>xs. those (map parse xs))"

definition miden_extra_to_json :: "miden_extra \<Rightarrow> json" where
  "miden_extra_to_json e = JObject [(''minReclaimBlockBuffer'', JNum (PosInt (me_min_reclaim_block_buffer e)))]"

definition miden_extra_from_json :: "json \<Rightarrow> miden_extra option" where
  "miden_extra_from_json v = map_option (\<lambda>n. \<lparr> me_min_reclaim_block_buffer = n \<rparr>) (member json_to_u64 v ''minReclaimBlockBuffer'')"

definition payment_requirements_to_json :: "payment_requirements \<Rightarrow> json" where
  "payment_requirements_to_json p =
     JObject [(''scheme'', JString (pr_scheme p)), (''network'', JString (pr_network p)), (''amount'', JString (pr_amount p)),
       (''asset'', JString (pr_asset p)), (''payTo'', JString (pr_pay_to p)),
       (''maxTimeoutSeconds'', JNum (PosInt (pr_max_timeout_seconds p))), (''extra'', json_opt miden_extra_to_json (pr_extra p))]"

definition payment_requirements_from_json :: "json \<Rightarrow> payment_requirements option" where
  "payment_requirements_from_json v =
     Option.bind (member json_str v ''scheme'') (\<lambda>scheme.
     Option.bind (member json_str v ''network'') (\<lambda>network.
     Option.bind (member json_str v ''amount'') (\<lambda>amount.
     Option.bind (member json_str v ''asset'') (\<lambda>asset.
     Option.bind (member json_str v ''payTo'') (\<lambda>pay_to.
     Option.bind (member json_u32 v ''maxTimeoutSeconds'') (\<lambda>timeout.
     Option.bind (opt_member miden_extra_from_json v ''extra'') (\<lambda>extra.
     Some \<lparr> pr_scheme = scheme, pr_network = network, pr_amount = amount, pr_asset = asset, pr_pay_to = pay_to,
            pr_max_timeout_seconds = timeout, pr_extra = extra \<rparr>)))))))"

definition payment_required_to_json :: "payment_required \<Rightarrow> json" where
  "payment_required_to_json p =
     JObject [(''x402Version'', JNum (PosInt (pq_x402_version p))),
       (''accepts'', JArray (map payment_requirements_to_json (pq_accepts p)))]"

definition payment_required_from_json :: "json \<Rightarrow> payment_required option" where
  "payment_required_from_json v =
     Option.bind (member json_u32 v ''x402Version'') (\<lambda>version.
     Option.bind (member (json_list payment_requirements_from_json) v ''accepts'') (\<lambda>accepts.
     Some \<lparr> pq_x402_version = version, pq_accepts = accepts \<rparr>))"

definition asset_entry_to_json :: "asset_entry \<Rightarrow> json" where
  "asset_entry_to_json a = JObject [(''faucetId'', JString (ae_faucet_id a)), (''amount'', JString (ae_amount a))]"

definition asset_entry_from_json :: "json \<Rightarrow> asset_entry option" where
  "asset_entry_from_json v =
     Option.bind (member json_str v ''faucetId'') (\<lambda>f. Option.bind (member json_str v ''amount'') (\<lambda>a.
     Some \<lparr> ae_faucet_id = f, ae_amount = a \<rparr>))"

definition note_details_to_json :: "note_details \<Rightarrow> json" where
  "note_details_to_json d =
     JObject [(''serialNum'', JString (nd_serial_num d)), (''script'', JString (nd_script d)),
       (''inputs'', JArray (map JString (nd_inputs d))), (''assets'', JArray (map asset_entry_to_json (nd_assets d)))]"

definition note_details_from_json :: "json \<Rightarrow> note_details option" where
  "note_details_from_json v =
     Option.bind (member json_str v ''serialNum'') (\<lambda>serial.
     Option.bind (member json_str v ''script'') (\<lambda>script.
     Option.bind (member (json_list json_str) v ''inputs'') (\<lambda>inputs.
     Option.bind (member (json_list asset_entry_from_json) v ''assets'') (\<lambda>assets.
     Some \<lparr> nd_serial_num = serial, nd_script = script, nd_inputs = inputs, nd_assets = assets \<rparr>))))"

definition setup_to_json :: "payment_signature_setup \<Rightarrow> json" where
  "setup_to_json s =
     JObject [(''x402Version'', JNum (PosInt (su_x402_version s))), (''scheme'', JString (su_scheme s)),
       (''network'', JString (su_network s)), (''payerAccountId'', JString (su_payer_account_id s)),
       (''reclaimBlockHeight'', JNum (PosInt (su_reclaim_block_height s))),
       (''noteCommitment'', JString (su_note_commitment s)), (''noteDetails'', note_details_to_json (su_note_details s))]"

definition setup_from_json :: "json \<Rightarrow> payment_signature_setup option" where
  "setup_from_json v =
     Option.bind (member json_u32 v ''x402Version'') (\<lambda>version.
     Option.bind (member json_str v ''scheme'') (\<lambda>scheme.
     Option.bind (member json_str v ''network'') (\<lambda>network.
     Option.bind (member json_str v ''payerAccountId'') (\<lambda>payer.
     Option.bind (member json_to_u64 v ''reclaimBlockHeight'') (\<lambda>reclaim.
     Option.bind (member json_str v ''noteCommitment'') (\<lambda>commitment.
     Option.bind (member note_details_from_json v ''noteDetails'') (\<lambda>details.
     Some \<lparr> su_x402_version = version, su_scheme = scheme, su_network = network, su_payer_account_id = payer,
            su_reclaim_block_height = reclaim, su_note_commitment = commitment, su_note_details = details \<rparr>)))))))"

definition voucher_to_json :: "cumulative_voucher_payload \<Rightarrow> json" where
  "voucher_to_json c =
     JObject [(''scheme'', JString (cv_scheme c)), (''network'', JString (cv_network c)),
       (''noteCommitment'', JString (cv_note_commitment c)), (''cumulativeAmount'', JString (cv_cumulative_amount c)),
       (''blockHeightExpiry'', JNum (PosInt (cv_block_height_expiry c))),
       (''merchantAccountId'', JString (cv_merchant_account_id c)), (''signature'', JString (cv_signature c))]"

definition voucher_from_json :: "json \<Rightarrow> cumulative_voucher_payload option" where
  "voucher_from_json v =
     Option.bind (member json_str v ''scheme'') (\<lambda>scheme.
     Option.bind (member json_str v ''network'') (\<lambda>network.
     Option.bind (member json_str v ''noteCommitment'') (\<lambda>commitment.
     Option.bind (member json_str v ''cumulativeAmount'') (\<lambda>amount.
     Option.bind (member json_to_u64 v ''blockHeightExpiry'') (\<lambda>expiry.
     Option.bind (member json_str v ''merchantAccountId'') (\<lambda>merchant.
     Option.bind (member json_str v ''signature'') (\<lambda>sg.
     Some \<lparr> cv_scheme = scheme, cv_network = network, cv_note_commitment = commitment, cv_cumulative_amount = amount,
            cv_block_height_expiry = expiry, cv_merchant_account_id = merchant, cv_signature = sg \<rparr>)))))))"

definition payment_response_to_json :: "payment_response \<Rightarrow> json" where
  "payment_response_to_json p =
     JObject [(''success'', JBool (po_success p)), (''txHash'', json_opt JString (po_tx_hash p)),
       (''settledAmount'', json_opt JString (po_settled_amount p)),
       (''remainderNoteCommitment'', json_opt JString (po_remainder_note_commitment p)),
       (''remainderBalance'', json_opt JString (po_remainder_balance p))]"

definition payment_response_from_json :: "json \<Rightarrow> payment_response option" where
  "payment_response_from_json v =
     Option.bind (member json_to_bool v ''success'') (\<lambda>success.
     Option.bind (opt_member json_str v ''txHash'') (\<lambda>tx.
     Option.bind (opt_member json_str v ''settledAmount'') (\<lambda>settled.
     Option.bind (opt_member json_str v ''remainderNoteCommitment'') (\<lambda>commitment.
     Option.bind (opt_member json_str v ''remainderBalance'') (\<lambda>balance.
     Some \<lparr> po_success = success, po_tx_hash = tx, po_settled_amount = settled, po_remainder_note_commitment = commitment,
            po_remainder_balance = balance \<rparr>)))))"

text \<open>
  \<open>serde_json\<close> between values and text is a parameter: \<open>sj_string\<close> prints, \<open>sj_parse\<close> reads, \<open>sj_shape\<close> is the message for a value of
  another shape.
\<close>

record serde_text =
  sj_string :: "json \<Rightarrow> string"
  sj_parse :: "string \<Rightarrow> string + json"
  sj_shape :: "json \<Rightarrow> string"

definition encode_header :: "('sig, 'pk, 'su, 'n) externals \<Rightarrow> serde_text \<Rightarrow> ('a \<Rightarrow> json) \<Rightarrow> 'a \<Rightarrow> string" where
  "encode_header X J to_json v = b64_encode X (sj_string J (to_json v))"

definition decode_header ::
  "('sig, 'pk, 'su, 'n) externals \<Rightarrow> serde_text \<Rightarrow> (json \<Rightarrow> 'a option) \<Rightarrow> string \<Rightarrow> string + 'a" where
  "decode_header X J from_json b64 =
     bind_res (map_err (\<lambda>e. ''base64 decode: '' @ e) (b64_decode X b64)) (\<lambda>bytes.
     bind_res (map_err (\<lambda>e. ''json decode: '' @ e) (sj_parse J bytes)) (\<lambda>v.
     ok_or (''json decode: '' @ sj_shape J v) (from_json v)))"

section \<open>Building the headers (sdk.rs, network.rs)\<close>

definition MIDEN_TESTNET :: string where
  "MIDEN_TESTNET = ''miden:testnet''"

definition MIDEN_MAINNET :: string where
  "MIDEN_MAINNET = ''miden:mainnet''"

definition build_payment_required ::
  "('sig, 'pk, 'su, 'n) externals \<Rightarrow> serde_text \<Rightarrow> string \<Rightarrow> string \<Rightarrow> nat \<Rightarrow> string \<Rightarrow> string" where
  "build_payment_required X J merchant_id faucet amount_per_request network =
     encode_header X J payment_required_to_json
       \<lparr> pq_x402_version = 1, pq_accepts = [\<lparr> pr_scheme = ''batch-settlement'', pr_network = network,
           pr_amount = show_nat amount_per_request, pr_asset = faucet, pr_pay_to = merchant_id,
           pr_max_timeout_seconds = 3600, pr_extra = Some \<lparr> me_min_reclaim_block_buffer = 100 \<rparr> \<rparr>] \<rparr>"

definition build_session_setup_header ::
  "('sig, 'pk, 'su, 'n) externals \<Rightarrow> serde_text \<Rightarrow> string \<Rightarrow> note_details \<Rightarrow> string \<Rightarrow> nat \<Rightarrow> string \<Rightarrow> string" where
  "build_session_setup_header X J note_commitment details payer_id reclaim_block network =
     encode_header X J setup_to_json
       \<lparr> su_x402_version = 1, su_scheme = ''batch-settlement'', su_network = network, su_payer_account_id = payer_id,
         su_reclaim_block_height = reclaim_block, su_note_commitment = note_commitment, su_note_details = details \<rparr>"

definition build_voucher :: "string \<Rightarrow> string \<Rightarrow> nat \<Rightarrow> nat \<Rightarrow> string \<Rightarrow> string \<Rightarrow> cumulative_voucher_payload" where
  "build_voucher note_commitment merchant_id cumulative_amount block_height_expiry signature_hex network =
     \<lparr> cv_scheme = ''batch-settlement'', cv_network = network, cv_note_commitment = note_commitment,
       cv_cumulative_amount = show_nat cumulative_amount, cv_block_height_expiry = block_height_expiry,
       cv_merchant_account_id = merchant_id, cv_signature = signature_hex \<rparr>"

definition encode_voucher_header :: "('sig, 'pk, 'su, 'n) externals \<Rightarrow> serde_text \<Rightarrow> cumulative_voucher_payload \<Rightarrow> string" where
  "encode_voucher_header X J v = encode_header X J voucher_to_json v"

section \<open>The agent's client (adn-client)\<close>

type_synonym hex4 = "string \<times> string \<times> string \<times> string"

record signed_debit =
  sd_note_id :: string
  sd_serial_num_hex :: hex4
  sd_merchant_account_id :: string
  sd_amount :: nat
  sd_signature_hex :: string
  sd_prepared_signature_hex :: string
  sd_expiry_block_height :: nat
  sd_agent_pubkey_commitment_hex :: string

record remainder_info =
  ri_note_id :: string
  ri_serial_num_hex :: hex4
  ri_balance :: nat
  ri_tx_id :: string
  ri_block_num :: nat

record 'sk adn_client =
  ac_agent_sk :: 'sk
  ac_note_id :: string
  ac_note_serial :: mword
  ac_balance :: nat
  ac_expiry_block :: nat
  ac_agent_pubkey_commitment :: mword

datatype adn_pay_error = InsufficientBalance nat nat

definition adn_client_new ::
  "('sk, 'fsk, 'sig, 'esig) secret_key_ops \<Rightarrow> 'sk \<Rightarrow> string \<Rightarrow> mword \<Rightarrow> nat \<Rightarrow> nat \<Rightarrow> 'sk adn_client" where
  "adn_client_new S sk note_id note_serial balance expiry_block =
     \<lparr> ac_agent_sk = sk, ac_note_id = note_id, ac_note_serial = note_serial, ac_balance = balance,
       ac_expiry_block = expiry_block, ac_agent_pubkey_commitment = sk_commitment S sk \<rparr>"

fun word_to_hex_array :: "mword \<Rightarrow> hex4" where
  "word_to_hex_array (MWord a b c d) =
     (''0x'' @ show_hex16 a, ''0x'' @ show_hex16 b, ''0x'' @ show_hex16 c, ''0x'' @ show_hex16 d)"

text \<open>The inner \<open>None\<close> is the panic on a key that is not a Falcon key. The timings are left out.\<close>

definition sign_debit ::
  "('sig, 'pk, 'su, 'n) externals \<Rightarrow> ('sig, 'esig, 'epk) ecdsa_ops \<Rightarrow> ('sk, 'fsk, 'sig, 'esig) secret_key_ops \<Rightarrow> 'sk adn_client
   \<Rightarrow> account_id \<Rightarrow> nat \<Rightarrow> adn_pay_error + signed_debit option" where
  "sign_debit X E S c merchant amount =
     (if ac_balance c < amount then Inl (InsufficientBalance amount (ac_balance c))
      else
      let message = debit_message X (ac_note_serial c) merchant amount;
          signature = sk_sign S (ac_agent_sk c) message in
      Inr (case signature of
        EcdsaSig _ \<Rightarrow> None
      | FalconSig inner \<Rightarrow> Some
        \<lparr> sd_note_id = ac_note_id c, sd_serial_num_hex = word_to_hex_array (ac_note_serial c),
          sd_merchant_account_id = account_to_hex X merchant, sd_amount = amount,
          sd_signature_hex = ''0x'' @ hex_encode X (sig_to_bytes X inner),
          sd_prepared_signature_hex =
            ''0x'' @ hex_encode X (concat (map (\<lambda>f. to_le_bytes f) (prepared_signature E signature message))),
          sd_expiry_block_height = ac_expiry_block c,
          sd_agent_pubkey_commitment_hex = ''0x'' @ hex_encode X (word_to_bytes X (ac_agent_pubkey_commitment c)) \<rparr>))"

definition update_remainder :: "remainder_info \<Rightarrow> 'sk adn_client \<Rightarrow> 'sk adn_client" where
  "update_remainder r c = c \<lparr> ac_note_id := ri_note_id r, ac_balance := ri_balance r \<rparr>"

section \<open>The endpoint /adn/pay (x402-facilitator-server/src/adn.rs)\<close>

record adn_pay_response =
  ao_accepted_at_unix_micros :: nat
  ao_facilitator_ack_signature :: string
  ao_facilitator_pubkey_commitment :: string

fun parse_serial_hex :: "('sig, 'pk, 'su, 'n) externals \<Rightarrow> hex4 \<Rightarrow> facilitator_error + mword" where
  "parse_serial_hex X (a, b, c, d) =
     (let felt = (\<lambda>i h. map_sum id (felt_new X) (map_err (\<lambda>e. Malformed (''serial_num['' @ show_nat i @ '']: '' @ show_int_error e))
            (from_str_radix u64_bound 16 (trim_0x h)))) in
      bind_res (felt 0 a) (\<lambda>a. bind_res (felt 1 b) (\<lambda>b. bind_res (felt 2 c) (\<lambda>c. bind_res (felt 3 d) (\<lambda>d.
      Inr (MWord a b c d))))))"

definition adn_decode_hex :: "('sig, 'pk, 'su, 'n) externals \<Rightarrow> string \<Rightarrow> facilitator_error + string" where
  "adn_decode_hex X s = map_err (\<lambda>e. Malformed (''hex: '' @ e)) (hex_decode X (trim_0x s))"

definition adn_ack_message :: "('sig, 'pk, 'su, 'n) externals \<Rightarrow> nat \<Rightarrow> string \<Rightarrow> string \<Rightarrow> nat \<Rightarrow> mword" where
  "adn_ack_message X accepted_at note_id merchant_id amount =
     hasher_hash X (to_be_bytes accepted_at @ note_id @ merchant_id @ to_be_bytes amount)"

text \<open>The body is the agent's \<open>signed_debit\<close>, field by field; \<open>now\<close> is the reading of the system clock.\<close>

definition adn_pay ::
  "('sig, 'pk, 'su, 'n) externals \<Rightarrow> key_ops \<Rightarrow> mword \<Rightarrow> nat \<Rightarrow> signed_debit \<Rightarrow> facilitator_error + adn_pay_response" where
  "adn_pay X K key now req =
     bind_res (parse_serial_hex X (sd_serial_num_hex req)) (\<lambda>serial_num.
     bind_res (map_err (\<lambda>e. Malformed (''merchant_account_id: '' @ e)) (account_from_hex X (sd_merchant_account_id req))) (\<lambda>merchant_id.
     bind_res (adn_decode_hex X (sd_signature_hex req)) (\<lambda>sig_bytes.
     bind_res (map_err (\<lambda>e. InvalidSignature (''Falcon decode: '' @ e)) (sig_from_bytes X sig_bytes)) (\<lambda>falcon_sig.
     let message = debit_message X serial_num merchant_id (sd_amount req);
         inline_pk = sig_public_key X falcon_sig in
     if \<not> sig_verify X falcon_sig message inline_pk
     then Inl (InvalidSignature ''Falcon signature failed to verify against debit message'')
     else
     let claimed = trim_0x (sd_agent_pubkey_commitment_hex req);
         expected = trim_0x (word_to_hex X (pk_to_commitment X inline_pk)) in
     if expected \<noteq> claimed
     then Inl (InvalidSignature (''pubkey commitment mismatch: sig has '' @ expected @ '', claimed '' @ claimed))
     else
     bind_res (sign_word_hex X K key (adn_ack_message X now (sd_note_id req) (sd_merchant_account_id req) (sd_amount req))) (\<lambda>ack.
     Inr \<lparr> ao_accepted_at_unix_micros = now, ao_facilitator_ack_signature = ack,
           ao_facilitator_pubkey_commitment = commitment_hex X key \<rparr>)))))"

end
