(* ===== verification/Adn_Wire.thy ===== *)
theory Adn_Wire
  imports Adn
begin

text \<open>
  The codecs of the debit-note protocol: the hex serial numbers, the round trips of the headers' JSON, and the signed debit against the facilitator's endpoint.
\<close>

section \<open>Serial numbers\<close>

lemma parse_digits_zeros: "1 < r \<Longrightarrow> 0 < b \<Longrightarrow> parse_digits r b 0 (replicate k (CHR ''0'') @ s) = parse_digits r b 0 s"
  by (induction k) (auto simp: to_digit_def)

lemma show_hex16_reads:
  assumes "n < u64_bound"
  shows "from_str_radix u64_bound 16 (show_hex16 n) = Inr n"
proof -
  obtain c cs where c: "show_radix 16 n = c # cs" "c \<noteq> CHR ''+''" "c \<noteq> CHR ''-''"
    using hd_show_radix_not_sign[of 16 n] by auto
  obtain d ds where d: "show_hex16 n = d # ds" "d \<noteq> CHR ''+''" "d \<noteq> CHR ''-''"
    using c by (cases "16 - length (show_hex n)") (auto simp: show_hex16_def show_hex_def)
  have "parse_digits 16 u64_bound 0 (show_hex16 n) = Inr n"
    using parse_digits_show[of 16 n u64_bound] assms
    by (simp add: show_hex16_def parse_digits_zeros show_hex_def u64_bound_def)
  then show ?thesis using d by (auto simp: from_str_radix_def split: list.split)
qed

lemma show_radix16_hex: "c \<in> set (show_radix 16 n) \<Longrightarrow> to_digit 16 c \<noteq> None"
proof (induction n rule: less_induct)
  case (less n)
  show ?case
  proof (cases "n < 16")
    case True
    then show ?thesis using less.prems by (simp add: show_radix.simps to_digit_digit_char)
  next
    case False
    then have "c \<in> set (show_radix 16 (n div 16)) \<or> c = digit_char (n mod 16)"
      using less.prems by (subst (asm) show_radix.simps) auto
    then show ?thesis using less.IH[of "n div 16"] False by (auto simp: to_digit_digit_char)
  qed
qed

lemma show_hex16_hex: "c \<in> set (show_hex16 n) \<Longrightarrow> to_digit 16 c \<noteq> None"
  using show_radix16_hex[of c n] by (auto simp: show_hex16_def show_hex_def to_digit_def)

lemma trim_0x_hex: "(\<And>c. c \<in> set s \<Longrightarrow> c \<noteq> CHR ''x'') \<Longrightarrow> trim_0x s = s"
  by (cases s rule: trim_0x.cases) auto

lemma trim_show_hex16 [simp]: "trim_0x (show_hex16 n) = show_hex16 n"
proof (rule trim_0x_hex)
  fix c
  assume "c \<in> set (show_hex16 n)"
  then show "c \<noteq> CHR ''x''" using show_hex16_hex[of c n] by (auto simp: to_digit_def)
qed

lemma parse_serial_word:
  assumes "\<And>f. f \<in> set (as_elements w) \<Longrightarrow> f < u64_bound \<and> felt_new X f = f"
  shows "parse_serial_hex X (word_to_hex_array w) = Inr w"
  using assms by (cases w) (simp add: show_hex16_reads Let_def)

section \<open>A signed debit at the facilitator\<close>

lemma trim_hex_encode: "hex_ok X \<Longrightarrow> trim_0x (hex_encode X b) = hex_encode X b"
  by (rule trim_0x_hex) (auto simp: hex_ok_def)

lemma adn_decode_hex_encode: "hex_ok X \<Longrightarrow> adn_decode_hex X (''0x'' @ hex_encode X b) = Inr b"
  by (simp add: adn_decode_hex_def trim_hex_encode) (simp add: hex_ok_def)

text \<open>
  The laws of the keys and codecs: account identifiers and signatures survive their texts, and a Falcon signature carries its signer's
  public key and verifies under it.
\<close>

definition falcon_ok :: "('sig, 'pk, 'su, 'n) externals \<Rightarrow> ('sk, 'fsk, 'sig, 'esig) secret_key_ops \<Rightarrow> 'sk \<Rightarrow> bool" where
  "falcon_ok X S sk \<longleftrightarrow>
     (\<forall>sg. sig_from_bytes X (sig_to_bytes X sg) = Inr sg) \<and>
     (\<forall>m sg. sk_sign S sk m = FalconSig sg \<longrightarrow>
        sig_verify X sg m (sig_public_key X sg) \<and> pk_to_commitment X (sig_public_key X sg) = sk_commitment S sk)"

lemma adn_pay_debit:
  assumes hex: "hex_ok X" and fal: "falcon_ok X S sk" and acc: "account_from_hex X (account_to_hex X merchant) = Inr merchant"
    and ser: "\<And>f. f \<in> set (as_elements serial) \<Longrightarrow> f < u64_bound \<and> felt_new X f = f"
    and key: "keystore_sign K key (adn_ack_message X now note_id (account_to_hex X merchant) amount) = Inr ack"
    and run: "sign_debit X E S (adn_client_new S sk note_id serial balance expiry) merchant amount = Inr (Some d)"
  shows "adn_pay X K key now d =
    Inr \<lparr> ao_accepted_at_unix_micros = now, ao_facilitator_ack_signature = ''0x'' @ hex_encode X ack,
          ao_facilitator_pubkey_commitment = commitment_hex X key \<rparr>"
proof -
  obtain sg where sg: "sk_sign S sk (debit_message X serial merchant amount) = FalconSig sg"
    and d: "sd_note_id d = note_id" "sd_serial_num_hex d = word_to_hex_array serial"
      "sd_merchant_account_id d = account_to_hex X merchant" "sd_amount d = amount"
      "sd_signature_hex d = ''0x'' @ hex_encode X (sig_to_bytes X sg)"
      "sd_agent_pubkey_commitment_hex d = ''0x'' @ hex_encode X (word_to_bytes X (sk_commitment S sk))"
    using run by (auto simp: sign_debit_def adn_client_new_def Let_def split: if_splits account_sig.splits)
  have v: "sig_from_bytes X (sig_to_bytes X sg) = Inr sg" "sig_verify X sg (debit_message X serial merchant amount) (sig_public_key X sg)"
    "pk_to_commitment X (sig_public_key X sg) = sk_commitment S sk"
    using fal sg by (simp_all add: falcon_ok_def)
  have "parse_serial_hex X (sd_serial_num_hex d) = Inr serial" unfolding d by (rule parse_serial_word[OF ser])
  moreover have "adn_decode_hex X (sd_signature_hex d) = Inr (sig_to_bytes X sg)" unfolding d by (rule adn_decode_hex_encode[OF hex])
  ultimately show ?thesis
    using v acc key by (simp add: adn_pay_def d Let_def word_to_hex_def sign_word_hex_def)
qed

lemma adn_pay_sound:
  assumes "adn_pay X K key now req = Inr ack"
  shows "\<exists>serial merchant bytes sg.
    parse_serial_hex X (sd_serial_num_hex req) = Inr serial \<and> account_from_hex X (sd_merchant_account_id req) = Inr merchant \<and>
    adn_decode_hex X (sd_signature_hex req) = Inr bytes \<and> sig_from_bytes X bytes = Inr sg \<and>
    verify_voucher X (sig_public_key X sg) serial merchant (sd_amount req) sg \<and>
    trim_0x (word_to_hex X (pk_to_commitment X (sig_public_key X sg))) = trim_0x (sd_agent_pubkey_commitment_hex req)"
  using assms
  by (auto simp: adn_pay_def Let_def verify_voucher_def voucher_message_def result_simps split: if_splits)

section \<open>The headers\<close>

text \<open>A header whose numbers fit the widths of its fields is read back from the text it is written as.\<close>

definition requirements_ok :: "payment_requirements \<Rightarrow> bool" where
  "requirements_ok p \<longleftrightarrow> pr_max_timeout_seconds p < u32_bound \<and>
     (case pr_extra p of None \<Rightarrow> True | Some e \<Rightarrow> me_min_reclaim_block_buffer e < u64_bound)"

definition required_ok :: "payment_required \<Rightarrow> bool" where
  "required_ok q \<longleftrightarrow> pq_x402_version q < u32_bound \<and> list_all requirements_ok (pq_accepts q)"

definition setup_ok :: "payment_signature_setup \<Rightarrow> bool" where
  "setup_ok s \<longleftrightarrow> su_x402_version s < u32_bound \<and> su_reclaim_block_height s < u64_bound"

definition voucher_ok :: "cumulative_voucher_payload \<Rightarrow> bool" where
  "voucher_ok c \<longleftrightarrow> cv_block_height_expiry c < u64_bound"

lemma those_map: "(\<And>x. x \<in> set xs \<Longrightarrow> parse (print x) = Some x) \<Longrightarrow> those (map (parse \<circ> print) xs) = Some xs"
  by (induction xs) auto

lemma json_list_print:
  "(\<And>x. x \<in> set xs \<Longrightarrow> parse (print x) = Some x) \<Longrightarrow> json_list parse (JArray (map print xs)) = Some xs"
  by (simp add: json_list_def those_map)

lemma requirements_print: "requirements_ok p \<Longrightarrow> payment_requirements_from_json (payment_requirements_to_json p) = Some p"
  by (cases "pr_extra p") (auto simp: payment_requirements_from_json_def payment_requirements_to_json_def requirements_ok_def member_def
      opt_member_def json_opt_def miden_extra_to_json_def miden_extra_from_json_def json_u32_def json_to_u64_def)

lemma required_print: "required_ok q \<Longrightarrow> payment_required_from_json (payment_required_to_json q) = Some q"
  by (simp add: payment_required_from_json_def payment_required_to_json_def required_ok_def member_def json_u32_def list_all_iff
      requirements_print json_list_print)

lemma note_details_print: "note_details_from_json (note_details_to_json d) = Some d"
  by (simp add: note_details_from_json_def note_details_to_json_def member_def json_list_print asset_entry_to_json_def asset_entry_from_json_def)

lemma setup_print: "setup_ok s \<Longrightarrow> setup_from_json (setup_to_json s) = Some s"
  by (simp add: setup_from_json_def setup_to_json_def setup_ok_def member_def json_u32_def json_to_u64_def note_details_print)

lemma voucher_print: "voucher_ok c \<Longrightarrow> voucher_from_json (voucher_to_json c) = Some c"
  by (simp add: voucher_from_json_def voucher_to_json_def voucher_ok_def member_def json_to_u64_def)

lemma payment_response_print: "payment_response_from_json (payment_response_to_json p) = Some p"
  by (cases "po_tx_hash p"; cases "po_settled_amount p"; cases "po_remainder_note_commitment p"; cases "po_remainder_balance p")
    (simp_all add: payment_response_from_json_def payment_response_to_json_def member_def opt_member_def json_opt_def)

lemma decode_encode:
  assumes "\<And>b. b64_decode X (b64_encode X b) = Inr b" and "sj_parse J (sj_string J (to_json v)) = Inr (to_json v)"
    and "from_json (to_json v) = Some v"
  shows "decode_header X J from_json (encode_header X J to_json v) = Inr v"
  using assms by (simp add: decode_header_def encode_header_def)

end
