(* ===== verification/Adn_Services.thy ===== *)
theory Adn_Services
  imports Adn
begin

text \<open>
  The three services of batch settlement (\<open>crates/adn-services/src\<close>): the merchant that serves requests against vouchers and settles every
  \<open>settle_after\<close> requests, the facilitator that consumes the debit note on chain, and the agent's payment loop. The Miden client,
  note files and HTTP are parameters. A panic is \<open>None\<close>, or a value of the agent's outcome.
\<close>

section \<open>Messages (lib.rs)\<close>

record verify_request =
  vq_note_file_hex :: string
  vq_merchant_id_hex :: string

record verify_response =
  vp_is_valid :: bool
  vp_note_balance :: nat
  vp_user_pub_key_hex :: string
  vp_reclaim_block_height :: nat
  vp_error :: "string option"

record settle_request =
  sq_note_file_hex :: string
  sq_agent_sk_hex :: string
  sq_serial_num :: hex4
  sq_cumulative_amount :: nat
  sq_merchant_id_hex :: string

record settle_response =
  sp_success :: bool
  sp_tx_hash :: string
  sp_settled_amount :: nat
  sp_remainder_balance :: nat
  sp_p2id_note_file_hex :: "string option"
  sp_remainder_note_file_hex :: "string option"
  sp_new_serial_num :: "hex4 option"
  sp_error :: "string option"

record adn_payment_required =
  ar_facilitator_url :: string
  ar_merchant_id_hex :: string
  ar_amount_per_request :: nat

record adn_payment_request =
  ap_note_file_hex :: "string option"
  ap_agent_sk_hex :: string
  ap_serial_num :: hex4
  ap_cumulative_amount :: nat
  ap_signature_hex :: string

record adn_payment_response =
  aq_success :: bool
  aq_resource :: "string option"
  aq_error :: "string option"
  aq_new_serial_num :: "hex4 option"
  aq_settlement_occurred :: "bool option"

section \<open>The facilitator (bin/facilitator.rs)\<close>

text \<open>
  \<open>nf_note\<close> is the note of a \<open>NoteFile::NoteWithProof\<close>, \<open>None\<close> for the other files. \<open>note_assets\<close> lists a note's assets: \<open>Some\<close> amount for a
  fungible one. An output record is whether it has an inclusion proof and the bytes of its exported file. \<open>mc_build\<close> is the
  request that consumes a note with its arguments and one advice entry.
\<close>

record ('c, 'nf, 'n, 'req) adn_client_ops =
  nf_from_bytes :: "string \<Rightarrow> string + 'nf"
  nf_note :: "'nf \<Rightarrow> 'n option"
  adn_note_id :: "'n \<Rightarrow> string"
  note_assets :: "'n \<Rightarrow> nat option list"
  mc_sync_state :: "'c \<Rightarrow> (string + unit) \<times> 'c"
  mc_import_notes :: "'nf \<Rightarrow> 'c \<Rightarrow> (string + unit) \<times> 'c"
  mc_get_input_note :: "string \<Rightarrow> 'c \<Rightarrow> string + bool option"
  mc_build :: "'n \<Rightarrow> mword \<Rightarrow> mword \<Rightarrow> felt list \<Rightarrow> string + 'req"
  mc_submit :: "account_id \<Rightarrow> 'req \<Rightarrow> 'c \<Rightarrow> (string + string) \<times> 'c"
  mc_get_output_notes :: "'c \<Rightarrow> string + (bool \<times> (string + string)) list"

definition parse_hex_felt :: "string \<Rightarrow> nat option" where
  "parse_hex_felt s =
     (let s = (case strip_prefix ''0x'' s of Some r \<Rightarrow> r | None \<Rightarrow> (case strip_prefix ''0X'' s of Some r \<Rightarrow> r | None \<Rightarrow> s)) in
      res_ok (from_str_radix u64_bound 16 s))"

fun serial_word :: "('sig, 'pk, 'su, 'n) externals \<Rightarrow> hex4 \<Rightarrow> mword option" where
  "serial_word X (a, b, c, d) =
     Option.bind (parse_hex_felt a) (\<lambda>a. Option.bind (parse_hex_felt b) (\<lambda>b.
     Option.bind (parse_hex_felt c) (\<lambda>c. Option.bind (parse_hex_felt d) (\<lambda>d.
     Some (MWord (felt_new X a) (felt_new X b) (felt_new X c) (felt_new X d))))))"

definition note_balance :: "('c, 'nf, 'n, 'req) adn_client_ops \<Rightarrow> 'n \<Rightarrow> nat" where
  "note_balance C note = (case note_assets C note of [] \<Rightarrow> 0 | a # _ \<Rightarrow> (case a of Some amount \<Rightarrow> amount | None \<Rightarrow> 0))"

definition invalid_note :: "string \<Rightarrow> verify_response" where
  "invalid_note e = \<lparr> vp_is_valid = False, vp_note_balance = 0, vp_user_pub_key_hex = '''', vp_reclaim_block_height = 0, vp_error = Some e \<rparr>"

definition handle_verify ::
  "('sig, 'pk, 'su, 'n) externals \<Rightarrow> ('c, 'nf, 'n, 'req) adn_client_ops \<Rightarrow> verify_request \<Rightarrow> verify_response" where
  "handle_verify X C req =
     (case hex_decode X (vq_note_file_hex req) of
        Inl e \<Rightarrow> invalid_note (''hex: '' @ e)
      | Inr bytes \<Rightarrow> (case nf_from_bytes C bytes of
          Inl e \<Rightarrow> invalid_note (''note: '' @ e)
        | Inr nf \<Rightarrow> (case nf_note C nf of
            None \<Rightarrow> invalid_note ''expected NoteWithProof''
          | Some note \<Rightarrow>
              let storage = note_storage_elements X note in
              \<lparr> vp_is_valid = True, vp_note_balance = note_balance C note,
                vp_user_pub_key_hex =
                  (if 4 \<le> length storage then ''0x'' @ hex_encode X (concat (map to_le_bytes (take 4 storage))) else ''''),
                vp_reclaim_block_height = (if 9 \<le> length storage then storage ! 8 else 0),
                vp_error = None \<rparr>)))"

definition settle_fail :: "string \<Rightarrow> settle_response" where
  "settle_fail msg =
     \<lparr> sp_success = False, sp_tx_hash = '''', sp_settled_amount = 0, sp_remainder_balance = 0, sp_p2id_note_file_hex = None,
       sp_remainder_note_file_hex = None, sp_new_serial_num = None, sp_error = Some msg \<rparr>"

text \<open>The wait for the note to be authenticated, \<open>Suc k\<close> attempts left: \<open>Some False\<close> is the timeout, \<open>None\<close> the panic of \<open>unwrap\<close>.\<close>

fun wait_authenticated ::
  "('c, 'nf, 'n, 'req) adn_client_ops \<Rightarrow> string \<Rightarrow> nat \<Rightarrow> 'c \<Rightarrow> bool option \<times> 'c" where
  "wait_authenticated C note_id 0 c = (Some True, c)"
| "wait_authenticated C note_id (Suc k) c =
     (case mc_sync_state C c of
        (Inl _, c) \<Rightarrow> (None, c)
      | (Inr _, c) \<Rightarrow>
          if mc_get_input_note C note_id c = Inr (Some True) then (Some True, c)
          else if k = 0 then (Some False, c)
          else wait_authenticated C note_id k c)"

record settle_outputs =
  so_p2id_hex :: "string option"
  so_remainder_hex :: "string option"
  so_new_serial :: "hex4 option"

fun serial_hex :: "mword \<Rightarrow> hex4" where
  "serial_hex (MWord a b c d) = (''0x'' @ show_hex a, ''0x'' @ show_hex b, ''0x'' @ show_hex c, ''0x'' @ show_hex d)"

definition scan_output ::
  "('sig, 'pk, 'su, 'n) externals \<Rightarrow> ('c, 'nf, 'n, 'req) adn_client_ops \<Rightarrow> bool \<times> (string + string) \<Rightarrow> settle_outputs \<Rightarrow> settle_outputs" where
  "scan_output X C r out =
     (case r of
        (True, Inr nf_bytes) \<Rightarrow>
          (case nf_from_bytes C nf_bytes of
             Inr nf \<Rightarrow> (case nf_note C nf of
                 Some n \<Rightarrow>
                   let items = length (note_storage_elements X n) in
                   if items = 2 \<and> so_p2id_hex out = None then out \<lparr> so_p2id_hex := Some (hex_encode X nf_bytes) \<rparr>
                   else if items = 9 \<and> so_remainder_hex out = None
                   then out \<lparr> so_remainder_hex := Some (hex_encode X nf_bytes), so_new_serial := Some (serial_hex (note_serial_num X n)) \<rparr>
                   else out
               | None \<Rightarrow> out)
           | Inl _ \<Rightarrow> out)
      | _ \<Rightarrow> out)"

text \<open>The search for the two output notes; when the attempts run out, what was found so far is the result.\<close>

fun wait_outputs ::
  "('sig, 'pk, 'su, 'n) externals \<Rightarrow> ('c, 'nf, 'n, 'req) adn_client_ops \<Rightarrow> bool \<Rightarrow> nat \<Rightarrow> settle_outputs \<Rightarrow> 'c \<Rightarrow> settle_outputs option \<times> 'c" where
  "wait_outputs X C fully_consumed 0 out c = (Some out, c)"
| "wait_outputs X C fully_consumed (Suc k) out c =
     (case mc_sync_state C c of
        (Inl _, c) \<Rightarrow> (None, c)
      | (Inr _, c) \<Rightarrow>
          (case mc_get_output_notes C c of
             Inl _ \<Rightarrow> (None, c)
           | Inr records \<Rightarrow>
               let out = fold (scan_output X C) records out in
               if so_p2id_hex out \<noteq> None \<and> so_remainder_hex out \<noteq> None then (Some out, c)
               else if so_p2id_hex out \<noteq> None \<and> fully_consumed then (Some out, c)
               else wait_outputs X C fully_consumed k out c))"

text \<open>
  \<open>process_settle\<close> after the note is authenticated: parse the request, sign the debit message with the agent's key, consume the note, collect
  the outputs.
\<close>

definition consume_note ::
  "('sig, 'pk, 'su, 'n) externals \<Rightarrow> ('sig, 'esig, 'epk) ecdsa_ops \<Rightarrow> ('sk, 'fsk, 'sig, 'esig) secret_key_ops
   \<Rightarrow> ('c, 'nf, 'n, 'req) adn_client_ops \<Rightarrow> account_id \<Rightarrow> settle_request \<Rightarrow> 'n \<Rightarrow> 'c \<Rightarrow> settle_response option \<times> 'c" where
  "consume_note X E S C facilitator_id req note c =
     (case account_from_hex X (sq_merchant_id_hex req) of Inl e \<Rightarrow> (Some (settle_fail (''merchant_id: '' @ e)), c) | Inr merchant_id \<Rightarrow>
     (case serial_word X (sq_serial_num req) of None \<Rightarrow> (None, c) | Some serial_num \<Rightarrow>
     (case hex_decode X (sq_agent_sk_hex req) of Inl e \<Rightarrow> (Some (settle_fail (''agent_sk hex: '' @ e)), c) | Inr agent_sk_bytes \<Rightarrow>
     (case sk_from_bytes S agent_sk_bytes of Inl e \<Rightarrow> (Some (settle_fail (''agent_sk: '' @ e)), c) | Inr agent_sk \<Rightarrow>
     let agent_pk = sk_commitment S agent_sk;
         amount = sq_cumulative_amount req;
         note_args = MWord (felt_new X amount) 0 0 0;
         message = hasher_merge X serial_num (MWord (account_suffix merchant_id) (account_prefix merchant_id) (felt_new X amount) 0);
         sg = sk_sign S agent_sk message;
         prepared = prepared_signature E sg message;
         sig_key = hasher_merge X agent_pk message in
     (case mc_build C note note_args sig_key prepared of Inl _ \<Rightarrow> (None, c) | Inr consume_req \<Rightarrow>
     (case mc_submit C facilitator_id consume_req c of
        (Inl e, c) \<Rightarrow> (Some (settle_fail e), c)
      | (Inr tx_id, c) \<Rightarrow>
          (case wait_outputs X C (note_balance C note = amount) 60 \<lparr> so_p2id_hex = None, so_remainder_hex = None, so_new_serial = None \<rparr> c of
             (None, c) \<Rightarrow> (None, c)
           | (Some out, c) \<Rightarrow>
               (Some \<lparr> sp_success = True, sp_tx_hash = tx_id, sp_settled_amount = amount,
                       sp_remainder_balance = note_balance C note - amount, sp_p2id_note_file_hex = so_p2id_hex out,
                       sp_remainder_note_file_hex = so_remainder_hex out, sp_new_serial_num = so_new_serial out,
                       sp_error = None \<rparr>, c))))))))"

definition process_settle ::
  "('sig, 'pk, 'su, 'n) externals \<Rightarrow> ('sig, 'esig, 'epk) ecdsa_ops \<Rightarrow> ('sk, 'fsk, 'sig, 'esig) secret_key_ops
   \<Rightarrow> ('c, 'nf, 'n, 'req) adn_client_ops \<Rightarrow> account_id \<Rightarrow> settle_request \<Rightarrow> 'c \<Rightarrow> settle_response option \<times> 'c" where
  "process_settle X E S C facilitator_id req c =
     (case hex_decode X (sq_note_file_hex req) of Inl e \<Rightarrow> (Some (settle_fail (''hex: '' @ e)), c) | Inr bytes \<Rightarrow>
     (case nf_from_bytes C bytes of Inl e \<Rightarrow> (Some (settle_fail (''note: '' @ e)), c) | Inr nf \<Rightarrow>
     (case nf_note C nf of None \<Rightarrow> (Some (settle_fail ''expected NoteWithProof''), c) | Some note \<Rightarrow>
     (case mc_sync_state C c of (Inl _, c) \<Rightarrow> (None, c) | (Inr _, c) \<Rightarrow>
     (case mc_import_notes C nf c of (_, c) \<Rightarrow>
     (case wait_authenticated C (adn_note_id C note) 60 c of
        (None, c) \<Rightarrow> (None, c)
      | (Some False, c) \<Rightarrow> (Some (settle_fail ''not authenticated timeout''), c)
      | (Some True, c) \<Rightarrow> consume_note X E S C facilitator_id req note c))))))"

text \<open>
  The endpoint and the worker thread behind it: the state is the client inside the worker, \<open>None\<close> once a panic has ended the thread. The
  request whose processing panicked loses its reply channel, later ones find the queue closed.
\<close>

definition handle_settle ::
  "('sig, 'pk, 'su, 'n) externals \<Rightarrow> ('sig, 'esig, 'epk) ecdsa_ops \<Rightarrow> ('sk, 'fsk, 'sig, 'esig) secret_key_ops
   \<Rightarrow> ('c, 'nf, 'n, 'req) adn_client_ops \<Rightarrow> account_id \<Rightarrow> settle_request \<Rightarrow> 'c option \<Rightarrow> settle_response \<times> 'c option" where
  "handle_settle X E S C facilitator_id req worker =
     (case worker of
        None \<Rightarrow> (settle_fail ''facilitator down'', None)
      | Some client \<Rightarrow> (case process_settle X E S C facilitator_id req client of
            (Some resp, client) \<Rightarrow> (resp, Some client)
          | (None, _) \<Rightarrow> (settle_fail ''facilitator dropped'', None)))"

section \<open>The merchant (bin/merchant.rs)\<close>

record merchant_inner =
  mi_facilitator_url :: string
  mi_merchant_id :: string
  mi_amount_per_request :: nat
  mi_settle_after :: nat
  mi_batch_count :: nat
  mi_latest_payment :: "adn_payment_request option"
  mi_current_note_file_hex :: "string option"

definition merchant_start :: "string \<Rightarrow> string \<Rightarrow> nat \<Rightarrow> nat \<Rightarrow> merchant_inner" where
  "merchant_start facilitator_url merchant_id amount_per_request settle_after =
     \<lparr> mi_facilitator_url = facilitator_url, mi_merchant_id = merchant_id, mi_amount_per_request = amount_per_request,
       mi_settle_after = settle_after, mi_batch_count = 0, mi_latest_payment = None, mi_current_note_file_hex = None \<rparr>"

definition handle_resource :: "merchant_inner \<Rightarrow> nat \<times> adn_payment_required" where
  "handle_resource s =
     (402, \<lparr> ar_facilitator_url = mi_facilitator_url s, ar_merchant_id_hex = mi_merchant_id s,
             ar_amount_per_request = mi_amount_per_request s \<rparr>)"

definition pay_error :: "string option \<Rightarrow> adn_payment_response" where
  "pay_error e = \<lparr> aq_success = False, aq_resource = None, aq_error = e, aq_new_serial_num = None, aq_settlement_occurred = None \<rparr>"

text \<open>
  \<open>handle_pay\<close> holds the lock twice: to count the voucher, when it either serves at once or prepares a settlement, and to record a
  settlement. Between the two it calls the facilitator without the lock.
\<close>

datatype pay_step = ServeNow "nat \<times> adn_payment_response" | CallFacilitator string settle_request

definition pay_receive :: "adn_payment_request \<Rightarrow> merchant_inner \<Rightarrow> pay_step \<times> merchant_inner" where
  "pay_receive payment s =
     (let s = s \<lparr> mi_batch_count := u64_add (mi_batch_count s) 1 \<rparr>;
          batch_count = mi_batch_count s;
          s = (if ap_note_file_hex payment \<noteq> None then s \<lparr> mi_current_note_file_hex := ap_note_file_hex payment \<rparr> else s);
          s = s \<lparr> mi_latest_payment := Some payment \<rparr> in
      if mi_settle_after s \<le> batch_count
      then (CallFacilitator (mi_facilitator_url s)
              \<lparr> sq_note_file_hex = (case mi_current_note_file_hex s of Some f \<Rightarrow> f | None \<Rightarrow> ''''),
                sq_agent_sk_hex = ap_agent_sk_hex payment, sq_serial_num = ap_serial_num payment,
                sq_cumulative_amount = ap_cumulative_amount payment, sq_merchant_id_hex = mi_merchant_id s \<rparr>,
            s \<lparr> mi_latest_payment := None \<rparr>)
      else (ServeNow (200, \<lparr> aq_success = True, aq_resource = Some (''premium content (request #'' @ show_nat batch_count @ '')''),
              aq_error = None, aq_new_serial_num = None, aq_settlement_occurred = None \<rparr>), s))"

text \<open>What the merchant's HTTP client makes of the call: a failed request, a body that is not a \<open>SettleResponse\<close>, or the response.\<close>

datatype settle_reply = SendFailed string | ParseFailed string | SettleReply settle_response

definition pay_settled :: "settle_reply \<Rightarrow> merchant_inner \<Rightarrow> (nat \<times> adn_payment_response) \<times> merchant_inner" where
  "pay_settled reply s =
     (case reply of
        SendFailed e \<Rightarrow> ((502, pay_error (Some (''facilitator: '' @ e))), s)
      | ParseFailed e \<Rightarrow> ((502, pay_error (Some (''parse: '' @ e))), s)
      | SettleReply settle_resp \<Rightarrow>
          if sp_success settle_resp
          then ((200, \<lparr> aq_success = True, aq_resource = Some ''premium content (after settlement)'', aq_error = None,
                        aq_new_serial_num = sp_new_serial_num settle_resp, aq_settlement_occurred = Some True \<rparr>),
                (case sp_remainder_note_file_hex settle_resp of
                   Some remainder \<Rightarrow> s \<lparr> mi_current_note_file_hex := Some remainder, mi_batch_count := 0 \<rparr>
                 | None \<Rightarrow> s \<lparr> mi_batch_count := 0 \<rparr>))
          else ((402, pay_error (sp_error settle_resp)), s))"

definition handle_pay ::
  "(string \<Rightarrow> settle_request \<Rightarrow> 'f \<Rightarrow> settle_reply \<times> 'f) \<Rightarrow> adn_payment_request \<Rightarrow> merchant_inner \<times> 'f
   \<Rightarrow> (nat \<times> adn_payment_response) \<times> merchant_inner \<times> 'f" where
  "handle_pay settle payment w =
     (case w of (s, f) \<Rightarrow>
      (case pay_receive payment s of
         (ServeNow reply, s) \<Rightarrow> (reply, s, f)
       | (CallFacilitator url req, s) \<Rightarrow>
           (case settle url req f of (r, f) \<Rightarrow>
           (case pay_settled r s of (reply, s) \<Rightarrow> (reply, s, f)))))"

section \<open>The agent's payment loop (bin/agent.rs, run_benchmark)\<close>

record bench_config =
  bc_agent_id_hex :: string
  bc_merchant_id_hex :: string
  bc_facilitator_id_hex :: string
  bc_faucet_id_hex :: string
  bc_agent_sk_hex :: string
  bc_note_file_hex :: string
  bc_serial_num :: hex4
  bc_adn_balance :: nat
  bc_facilitator_account_b64 :: string
  bc_merchant_account_b64 :: string
  bc_keystore_dir :: string

record agent_state =
  ag_serial :: hex4
  ag_serial_word :: mword
  ag_cumulative :: nat
  ag_send_note_file :: bool
  ag_settlements :: nat

text \<open>The outcome of a round: go on, leave with an error, panic.\<close>

datatype agent_out = Going agent_state | Bailed string | Panicked

definition next_payment ::
  "('sig, 'pk, 'su, 'n) externals \<Rightarrow> ('sk, 'fsk, 'sig, 'esig) secret_key_ops \<Rightarrow> bench_config \<Rightarrow> 'fsk \<Rightarrow> account_id \<Rightarrow> agent_state
   \<Rightarrow> adn_payment_request" where
  "next_payment X S config agent_sk merchant_id a =
     \<lparr> ap_note_file_hex = (if ag_send_note_file a then Some (bc_note_file_hex config) else None),
       ap_agent_sk_hex = bc_agent_sk_hex config, ap_serial_num = ag_serial a, ap_cumulative_amount = ag_cumulative a,
       ap_signature_hex = hex_encode X (sig_to_bytes X (sign_voucher X S agent_sk (ag_serial_word a) merchant_id (ag_cumulative a))) \<rparr>"

definition take_reply :: "('sig, 'pk, 'su, 'n) externals \<Rightarrow> nat \<Rightarrow> agent_state \<Rightarrow> string + adn_payment_response \<Rightarrow> agent_out" where
  "take_reply X i a reply =
     (case reply of
        Inl e \<Rightarrow> Bailed e
      | Inr resp \<Rightarrow>
          if aq_success resp
          then (if aq_settlement_occurred resp = Some True
                then let a = a \<lparr> ag_settlements := Suc (ag_settlements a) mod u32_bound \<rparr> in
                     (case aq_new_serial_num resp of
                        None \<Rightarrow> Going (a \<lparr> ag_cumulative := 0, ag_send_note_file := False \<rparr>)
                      | Some new_serial \<Rightarrow>
                          (case serial_word X new_serial of
                             None \<Rightarrow> Panicked
                           | Some v \<Rightarrow> Going (a \<lparr> ag_serial := new_serial, ag_serial_word := v, ag_cumulative := 0,
                                                   ag_send_note_file := False \<rparr>)))
                else Going a)
          else if 1 < i then Going a
          else Bailed ''first payment failed'')"

text \<open>One round, and the rounds \<open>i .. i + n - 1\<close>; \<open>post\<close> sends the payment to the merchant's \<open>/pay\<close> and reads the response.\<close>

definition pay_round ::
  "('sig, 'pk, 'su, 'n) externals \<Rightarrow> ('sk, 'fsk, 'sig, 'esig) secret_key_ops \<Rightarrow> (adn_payment_request \<Rightarrow> 'w \<Rightarrow> (string + adn_payment_response) \<times> 'w)
   \<Rightarrow> bench_config \<Rightarrow> 'fsk \<Rightarrow> account_id \<Rightarrow> nat \<Rightarrow> nat \<Rightarrow> agent_state \<Rightarrow> 'w \<Rightarrow> agent_out \<times> 'w" where
  "pay_round X S post config agent_sk merchant_id amount_per i a w =
     (let a = a \<lparr> ag_cumulative := u64_add (ag_cumulative a) amount_per \<rparr>;
          payment = next_payment X S config agent_sk merchant_id a;
          a = a \<lparr> ag_send_note_file := False \<rparr> in
      case post payment w of (reply, w) \<Rightarrow> (take_reply X i a reply, w))"

fun pay_loop ::
  "('sig, 'pk, 'su, 'n) externals \<Rightarrow> ('sk, 'fsk, 'sig, 'esig) secret_key_ops \<Rightarrow> (adn_payment_request \<Rightarrow> 'w \<Rightarrow> (string + adn_payment_response) \<times> 'w)
   \<Rightarrow> bench_config \<Rightarrow> 'fsk \<Rightarrow> account_id \<Rightarrow> nat \<Rightarrow> nat \<Rightarrow> nat \<Rightarrow> agent_state \<Rightarrow> 'w \<Rightarrow> agent_out \<times> 'w" where
  "pay_loop X S post config agent_sk merchant_id amount_per i 0 a w = (Going a, w)"
| "pay_loop X S post config agent_sk merchant_id amount_per i (Suc n) a w =
     (case pay_round X S post config agent_sk merchant_id amount_per i a w of
        (Going a, w) \<Rightarrow> pay_loop X S post config agent_sk merchant_id amount_per (Suc i) n a w
      | (out, w) \<Rightarrow> (out, w))"

definition agent_start :: "hex4 \<Rightarrow> mword \<Rightarrow> agent_state" where
  "agent_start serial word =
     \<lparr> ag_serial = serial, ag_serial_word = word, ag_cumulative = 0, ag_send_note_file = True, ag_settlements = 0 \<rparr>"

text \<open>The statistics index the sorted times at half their number, which panics when there is none.\<close>

definition run_benchmark ::
  "('sig, 'pk, 'su, 'n) externals \<Rightarrow> ('sk, 'fsk, 'sig, 'esig) secret_key_ops \<Rightarrow> (adn_payment_request \<Rightarrow> 'w \<Rightarrow> (string + adn_payment_response) \<times> 'w)
   \<Rightarrow> bench_config \<Rightarrow> nat \<Rightarrow> nat \<Rightarrow> 'w \<Rightarrow> agent_out \<times> 'w" where
  "run_benchmark X S post config payments amount_per w =
     (case account_from_hex X (bc_merchant_id_hex config) of Inl e \<Rightarrow> (Bailed e, w) | Inr merchant_id \<Rightarrow>
     (case hex_decode X (bc_agent_sk_hex config) of Inl e \<Rightarrow> (Bailed e, w) | Inr agent_sk_bytes \<Rightarrow>
     (case Option.bind (res_ok (sk_from_bytes S agent_sk_bytes)) (sk_falcon S) of
        None \<Rightarrow> (Bailed ''expected Falcon512Poseidon2 key'', w)
      | Some agent_sk \<Rightarrow>
     (case serial_word X (bc_serial_num config) of None \<Rightarrow> (Panicked, w) | Some word \<Rightarrow>
     (case pay_loop X S post config agent_sk merchant_id amount_per 1 payments (agent_start (bc_serial_num config) word) w of
        (Going a, w) \<Rightarrow> (if payments = 0 then Panicked else Going a, w)
      | (out, w) \<Rightarrow> (out, w))))))"

end
