(* ===== verification/Adn_System.thy ===== *)
theory Adn_System
  imports Adn_Services
begin

text \<open>
  The services of batch settlement put together. A link may lose a request, lose a reply or garble it, following a script. The world of a
  run is the merchant, the facilitator's worker behind its link, and two logs: the successful settlements the merchant was told of and the
  number of requests it served. The contract of the facilitator is the locale \<open>settlement_service\<close>; the bookkeeping of agent and merchant
  is proved once inside it and used for the modelled facilitator.
\<close>

section \<open>Links\<close>

datatype hop = Delivered | NotSent string | ReplyLost string | Garbled string

datatype 'r hop_result = Lost string | BadBody string | Got 'r

fun over_link :: "('f \<Rightarrow> 'r \<times> 'f) \<Rightarrow> 'f \<times> hop list \<Rightarrow> 'r hop_result \<times> 'f \<times> hop list" where
  "over_link call (f, []) = (case call f of (r, f) \<Rightarrow> (Got r, f, []))"
| "over_link call (f, Delivered # hops) = (case call f of (r, f) \<Rightarrow> (Got r, f, hops))"
| "over_link call (f, NotSent e # hops) = (Lost e, f, hops)"
| "over_link call (f, ReplyLost e # hops) = (case call f of (_, f) \<Rightarrow> (Lost e, f, hops))"
| "over_link call (f, Garbled e # hops) = (case call f of (_, f) \<Rightarrow> (BadBody e, f, hops))"

lemma over_link_got:
  assumes "over_link call (f, hops) = (Got r, f', hops')"
  shows "call f = (r, f')"
  using assms by (induction call "(f, hops)" rule: over_link.induct) (auto split: prod.splits)

definition settle_via ::
  "(settle_request \<Rightarrow> 'f \<Rightarrow> settle_response \<times> 'f) \<Rightarrow> string \<Rightarrow> settle_request \<Rightarrow> 'f \<times> hop list \<Rightarrow> settle_reply \<times> 'f \<times> hop list" where
  "settle_via endpoint url req w =
     (case over_link (endpoint req) w of
        (Lost e, w) \<Rightarrow> (SendFailed e, w) | (BadBody e, w) \<Rightarrow> (ParseFailed e, w) | (Got r, w) \<Rightarrow> (SettleReply r, w))"

section \<open>The run of an agent\<close>

definition note_settlement :: "settle_reply \<Rightarrow> settle_response list \<Rightarrow> settle_response list" where
  "note_settlement r log = (case r of SettleReply resp \<Rightarrow> if sp_success resp then log @ [resp] else log | _ \<Rightarrow> log)"

definition logged_settle ::
  "(string \<Rightarrow> settle_request \<Rightarrow> 'f \<Rightarrow> settle_reply \<times> 'f) \<Rightarrow> string \<Rightarrow> settle_request \<Rightarrow> 'f \<times> settle_response list
   \<Rightarrow> settle_reply \<times> 'f \<times> settle_response list" where
  "logged_settle settle url req w = (case w of (f, log) \<Rightarrow> (case settle url req f of (r, f) \<Rightarrow> (r, f, note_settlement r log)))"

type_synonym 'f adn_world = "((merchant_inner \<times> 'f \<times> settle_response list) \<times> nat) \<times> hop list"

text \<open>The merchant with the count of the requests it served, and the agent's request to it.\<close>

definition serve_pay ::
  "(string \<Rightarrow> settle_request \<Rightarrow> 'f \<Rightarrow> settle_reply \<times> 'f) \<Rightarrow> adn_payment_request
   \<Rightarrow> (merchant_inner \<times> 'f \<times> settle_response list) \<times> nat
   \<Rightarrow> adn_payment_response \<times> (merchant_inner \<times> 'f \<times> settle_response list) \<times> nat" where
  "serve_pay settle payment w =
     (case w of (m, served) \<Rightarrow>
      (case handle_pay (logged_settle settle) payment m of ((code, resp), m) \<Rightarrow>
       (resp, m, if aq_success resp then Suc served else served)))"

definition post_pay ::
  "(string \<Rightarrow> settle_request \<Rightarrow> 'f \<Rightarrow> settle_reply \<times> 'f) \<Rightarrow> adn_payment_request \<Rightarrow> 'f adn_world
   \<Rightarrow> (string + adn_payment_response) \<times> 'f adn_world" where
  "post_pay settle payment w =
     (case over_link (serve_pay settle payment) w of
        (Lost e, w) \<Rightarrow> (Inl e, w) | (BadBody e, w) \<Rightarrow> (Inl e, w) | (Got r, w) \<Rightarrow> (Inr r, w))"

definition settled_total :: "settle_response list \<Rightarrow> nat" where
  "settled_total log = sum_list (map sp_settled_amount log)"

text \<open>
  The books after \<open>n\<close> payments of \<open>amount\<close>: the merchant's batch is what the agent's cumulative amount is worth, settled and outstanding
  amounts make up the payments, and what was served beyond the settled amounts is at most the batch and at most \<open>settle_after - 1\<close>
  payments.
\<close>

definition books :: "nat \<Rightarrow> nat \<Rightarrow> nat \<Rightarrow> agent_state \<Rightarrow> 'f adn_world \<Rightarrow> bool" where
  "books amount k n a w =
     (case w of (((m, f, log), served), hops) \<Rightarrow>
        mi_settle_after m = k \<and> mi_batch_count m \<le> n \<and> ag_cumulative a = amount * mi_batch_count m \<and>
        settled_total log + ag_cumulative a = amount * n \<and>
        amount * served \<le> settled_total log + amount * min (mi_batch_count m) (k - 1))"

section \<open>The merchant's handler\<close>

lemma pay_receive_count:
  assumes "pay_receive p m = (st, m')" and "mi_batch_count m < n" and "n < u64_bound"
  shows "mi_batch_count m' = Suc (mi_batch_count m)" and "mi_settle_after m' = mi_settle_after m"
    and "case st of ServeNow (code, r) \<Rightarrow> Suc (mi_batch_count m) < mi_settle_after m \<and> aq_success r \<and> aq_settlement_occurred r = None
         | CallFacilitator url req \<Rightarrow> mi_settle_after m \<le> Suc (mi_batch_count m) \<and> sq_cumulative_amount req = ap_cumulative_amount p"
  using assms by (auto simp: pay_receive_def Let_def u64_add_def split: if_splits)

lemma pay_settled_cases:
  assumes "pay_settled r m = ((code, resp), m')"
  shows "mi_settle_after m' = mi_settle_after m"
    and "(\<exists>sr. r = SettleReply sr \<and> sp_success sr \<and> aq_success resp \<and> aq_settlement_occurred resp = Some True \<and> mi_batch_count m' = 0) \<or>
         ((\<forall>log. note_settlement r log = log) \<and> \<not> aq_success resp \<and> m' = m)"
  using assms by (auto simp: pay_settled_def note_settlement_def pay_error_def split: settle_reply.splits if_splits option.splits)

section \<open>The contract of the facilitator\<close>

locale settlement_service =
  fixes settle :: "string \<Rightarrow> settle_request \<Rightarrow> 'f \<Rightarrow> settle_reply \<times> 'f"
  assumes settled_amount:
    "settle url req f = (SettleReply r, f') \<Longrightarrow> sp_success r \<Longrightarrow> sp_settled_amount r = sq_cumulative_amount req"
begin

lemma serve_pay_outcome:
  assumes "serve_pay settle p ((m, f, log), served) = (resp, (m', f', log'), served')"
    and "mi_batch_count m < n" and "n < u64_bound"
  shows "mi_settle_after m' = mi_settle_after m \<and>
    ((aq_success resp \<and> aq_settlement_occurred resp = None \<and> Suc (mi_batch_count m) < mi_settle_after m \<and>
      mi_batch_count m' = Suc (mi_batch_count m) \<and> log' = log \<and> served' = Suc served) \<or>
     (aq_success resp \<and> aq_settlement_occurred resp = Some True \<and> mi_batch_count m' = 0 \<and> served' = Suc served \<and>
      settled_total log' = settled_total log + ap_cumulative_amount p) \<or>
     (\<not> aq_success resp \<and> mi_settle_after m \<le> Suc (mi_batch_count m) \<and> mi_batch_count m' = Suc (mi_batch_count m) \<and>
      log' = log \<and> served' = served))"
proof -
  obtain st m1 where rcv: "pay_receive p m = (st, m1)" by fastforce
  note c = pay_receive_count[OF rcv assms(2,3)]
  show ?thesis
  proof (cases st)
    case (ServeNow cr)
    then show ?thesis using assms(1) rcv c by (auto simp: serve_pay_def handle_pay_def split: prod.splits)
  next
    case (CallFacilitator url req)
    obtain r f1 where s: "settle url req f = (r, f1)" by fastforce
    obtain code resp1 m2 where ps: "pay_settled r m1 = ((code, resp1), m2)" by (metis prod.exhaust)
    have e: "resp1 = resp" "m2 = m'" "f1 = f'" "log' = note_settlement r log" "served' = (if aq_success resp then Suc served else served)"
      using assms(1) rcv CallFacilitator s ps by (auto simp: serve_pay_def handle_pay_def logged_settle_def)
    from pay_settled_cases[OF ps] c CallFacilitator e s show ?thesis
      by (auto simp: note_settlement_def settled_total_def dest: settled_amount)
  qed
qed

lemma pay_round_books:
  assumes books: "books amount k n a w" and bound: "amount * Suc n < u64_bound" "Suc n < u64_bound"
    and run: "pay_round X S (post_pay settle) config sk merchant amount i a w = (Going a', w')"
  shows "books amount k (Suc n) a' w'"
proof -
  obtain m f log served hops where w: "w = (((m, f, log), served), hops)" by (metis prod.exhaust)
  let ?c = "ag_cumulative a + amount"
  have b: "mi_settle_after m = k" "mi_batch_count m \<le> n" "ag_cumulative a = amount * mi_batch_count m"
    "settled_total log + ag_cumulative a = amount * n" "amount * served \<le> settled_total log + amount * min (mi_batch_count m) (k - 1)"
    using books by (auto simp: books_def w)
  have "?c \<le> amount * Suc n" using b(4) by simp
  then have add: "u64_add (ag_cumulative a) amount = ?c" using bound(1) by (simp add: u64_add_def)
  define a1 where "a1 = a\<lparr> ag_cumulative := ?c \<rparr>"
  define p where "p = next_payment X S config sk merchant a1"
  have pc: "ap_cumulative_amount p = ?c" by (simp add: p_def next_payment_def a1_def)
  obtain resp where post: "over_link (serve_pay settle p) (((m, f, log), served), hops) = (Got resp, w')"
    and take: "take_reply X i (a1\<lparr> ag_send_note_file := False \<rparr>) (Inr resp) = Going a'"
    using run unfolding pay_round_def Let_def add w a1_def[symmetric] p_def[symmetric]
    by (auto simp: post_pay_def take_reply_def split: prod.splits hop_result.splits)
  obtain m' f' log' served' hops' where w': "w' = (((m', f', log'), served'), hops')" by (metis prod.exhaust)
  have sv: "serve_pay settle p ((m, f, log), served) = (resp, (m', f', log'), served')"
    using over_link_got[OF post[unfolded w']] .
  have lt: "mi_batch_count m < Suc n" using b(2) by simp
  note out = conjunct1[OF serve_pay_outcome[OF sv lt bound(2)]] conjunct2[OF serve_pay_outcome[OF sv lt bound(2)]]
  have le: "amount * min (mi_batch_count m) (k - 1) \<le> amount * min (Suc (mi_batch_count m)) (k - 1)"
    by (rule mult_le_mono2) simp
  from out(2) take show ?thesis
  proof (elim disjE conjE)
    assume r: "aq_success resp" "aq_settlement_occurred resp = None" "Suc (mi_batch_count m) < mi_settle_after m"
      and st: "mi_batch_count m' = Suc (mi_batch_count m)" "log' = log" "served' = Suc served"
    have "min (Suc (mi_batch_count m)) (k - 1) = Suc (mi_batch_count m)" "min (mi_batch_count m) (k - 1) = mi_batch_count m"
      using r(3) b(1) by (simp_all add: min_def)
    with r st take out(1) b show ?thesis by (auto simp: books_def w' take_reply_def a1_def)
  next
    assume r: "aq_success resp" "aq_settlement_occurred resp = Some True" "mi_batch_count m' = 0"
      "settled_total log' = settled_total log + ap_cumulative_amount p" "served' = Suc served"
    have "ag_cumulative a' = 0" using take r by (auto simp: take_reply_def Let_def split: option.splits)
    moreover have "amount * min (mi_batch_count m) (k - 1) \<le> amount * mi_batch_count m" by simp
    then have "amount * served \<le> amount * n" using b(3,4,5) by linarith
    moreover have "settled_total log' = amount * Suc n" using r(4) pc b(4) by simp
    ultimately show ?thesis using r out(1) b(1) by (simp add: books_def w')
  next
    assume r: "\<not> aq_success resp" "mi_batch_count m' = Suc (mi_batch_count m)" "log' = log" "served' = served"
    then have "ag_cumulative a' = ?c" using take by (auto simp: take_reply_def a1_def split: if_splits)
    moreover have "amount * served \<le> settled_total log + amount * min (Suc (mi_batch_count m)) (k - 1)" using le b(5) by linarith
    ultimately show ?thesis using r out(1) b(1-4) by (simp add: books_def w')
  qed
qed

lemma pay_loop_books:
  assumes "books amount k n a w" and "amount * (n + j) < u64_bound" and "n + j < u64_bound"
    and "pay_loop X S (post_pay settle) config sk merchant amount i j a w = (Going a', w')"
  shows "books amount k (n + j) a' w'"
  using assms
proof (induction j arbitrary: i n a w)
  case 0
  then show ?case by simp
next
  case (Suc j)
  obtain a1 w1 where r: "pay_round X S (post_pay settle) config sk merchant amount i a w = (Going a1, w1)"
    and l: "pay_loop X S (post_pay settle) config sk merchant amount (Suc i) j a1 w1 = (Going a', w')"
    using Suc.prems(4) by (auto split: prod.splits agent_out.splits)
  have "amount * Suc n \<le> amount * (n + Suc j)" by (rule mult_le_mono2) simp
  then have "amount * Suc n < u64_bound" and "Suc n < u64_bound" using Suc.prems(2,3) by linarith+
  then have "books amount k (Suc n) a1 w1" by (rule pay_round_books[OF Suc.prems(1) _ _ r])
  from Suc.IH[OF this _ _ l] Suc.prems(2,3) show ?case by simp
qed

lemma run_books:
  assumes "amount * payments < u64_bound" and "payments < u64_bound"
    and "run_benchmark X S (post_pay settle) config payments amount
           (((merchant_start url mid apr k, f, []), 0), hops) = (Going a, w)"
  shows "books amount k payments a w"
proof -
  have "books amount k 0 (agent_start serial word) (((merchant_start url mid apr k, f, []), 0), hops)" for serial word
    by (simp add: books_def agent_start_def merchant_start_def settled_total_def)
  note start = pay_loop_books[OF this]
  obtain sk merchant word where
    "pay_loop X S (post_pay settle) config sk merchant amount 1 payments (agent_start (bc_serial_num config) word)
       (((merchant_start url mid apr k, f, []), 0), hops) = (Going a, w)"
    using assms(3) by (auto simp: run_benchmark_def split: sum.splits option.splits prod.splits agent_out.splits if_splits)
  from start[OF _ _ this] assms(1,2) show ?thesis by simp
qed

end

section \<open>The modelled facilitator\<close>

lemma consume_note_amount:
  assumes "consume_note X E S C fid req note c = (Some r, c')" and "sp_success r"
  shows "sp_settled_amount r = sq_cumulative_amount req" and "sp_remainder_balance r = note_balance C note - sq_cumulative_amount req"
  using assms by (auto simp: consume_note_def settle_fail_def Let_def split: sum.splits option.splits prod.splits)

lemma handle_settle_amount:
  assumes "handle_settle X E S C fid req worker = (r, worker')" and "sp_success r"
  shows "sp_settled_amount r = sq_cumulative_amount req"
proof -
  obtain c c' where "process_settle X E S C fid req c = (Some r, c')"
    using assms by (auto simp: handle_settle_def settle_fail_def split: option.splits prod.splits)
  then show ?thesis
    using assms(2) by (auto simp: process_settle_def settle_fail_def consume_note_amount split: sum.splits option.splits prod.splits bool.splits)
qed

interpretation facilitator_service: settlement_service "settle_via (handle_settle X E S C facilitator_id)" for X E S C facilitator_id
proof unfold_locales
  fix url req f r f'
  assume "settle_via (handle_settle X E S C facilitator_id) url req f = (SettleReply r, f')" and ok: "sp_success r"
  then have "over_link (handle_settle X E S C facilitator_id req) (fst f, snd f) = (Got r, fst f', snd f')"
    by (auto simp: settle_via_def split: prod.splits hop_result.splits)
  from handle_settle_amount[OF over_link_got[OF this] ok] show "sp_settled_amount r = sq_cumulative_amount req" .
qed

end
