(* ===== verification/Adn_Properties.thy ===== *)
theory Adn_Properties
  imports Adn_Wire Adn_System Instances
begin

text \<open>
  The properties of the debit notes: a signed debit at the facilitator, and the books of agent, merchant and facilitator.
  The facts about single steps that the properties do not cover come first.
\<close>

section \<open>Single steps\<close>

text \<open>An acknowledged debit is acknowledged again: the endpoint keeps no record of the debits it has seen.\<close>

lemma adn_pay_again:
  assumes "adn_pay X K key now req = Inr ack" and "\<And>m. \<exists>s. keystore_sign K key m = Inr s"
  shows "\<exists>ack'. adn_pay X K key later req = Inr ack'"
proof -
  obtain s where "keystore_sign K key (adn_ack_message X later (sd_note_id req) (sd_merchant_account_id req) (sd_amount req)) = Inr s"
    using assms(2) by blast
  then show ?thesis using assms(1) by (auto simp: adn_pay_def Let_def sign_word_hex_def result_simps split: if_splits)
qed

text \<open>Below the batch size the merchant serves whatever the signature of the voucher is.\<close>

lemma merchant_serves_unverified:
  assumes "Suc (mi_batch_count m) < mi_settle_after m" and "mi_settle_after m < u64_bound"
  shows "\<exists>r m'. handle_pay settle (p \<lparr> ap_signature_hex := sg \<rparr>) (m, f) = ((200, r), m', f) \<and> aq_success r"
  using assms by (simp add: handle_pay_def pay_receive_def Let_def u64_add_def)

text \<open>A serial number that is no hex number ends the worker: from then on every settlement fails.\<close>

lemma dead_worker: "handle_settle X E S C fid req None = (settle_fail ''facilitator down'', None)"
  by (simp add: handle_settle_def)

lemma bad_serial_kills_worker:
  assumes "serial_word X (sq_serial_num req) = None" and "account_from_hex X (sq_merchant_id_hex req) = Inr merchant"
    and "hex_decode X (sq_note_file_hex req) = Inr bytes" and "nf_from_bytes C bytes = Inr nf" and "nf_note C nf = Some note"
    and "\<And>c. mc_sync_state C c = (Inr (), c)" and "\<And>c. mc_get_input_note C (adn_note_id C note) c = Inr (Some True)"
  shows "handle_settle X E S C fid req (Some c) = (settle_fail ''facilitator dropped'', None)"
  using assms
  by (simp add: handle_settle_def process_settle_def consume_note_def numeral_eq_Suc split: prod.splits)

text \<open>After a settlement that reports no remainder the merchant keeps the note file and the agent the serial number of the spent note.\<close>

lemma settled_without_remainder:
  assumes "sp_success r" and "sp_remainder_note_file_hex r = None"
  shows "\<exists>resp. pay_settled (SettleReply r) m = ((200, resp), m \<lparr> mi_batch_count := 0 \<rparr>)"
  using assms by (simp add: pay_settled_def)

section \<open>Properties\<close>

text \<open>
  C38: A debit signed by the agent's client is acknowledged by the facilitator's endpoint, at any time and for any amount up to the balance;
  and every acknowledged request carries a signature that verifies, under the key whose commitment the request claims, the debit message of
  exactly its serial number, merchant and amount.
\<close>

theorem debit_acknowledged:
  assumes "hex_ok X" and "falcon_ok X S sk" and "account_from_hex X (account_to_hex X merchant) = Inr merchant"
    and "\<forall>f \<in> set (as_elements serial). f < u64_bound \<and> felt_new X f = f" and "\<forall>m. \<exists>s. keystore_sign K key m = Inr s"
    and "sign_debit X E S (adn_client_new S sk note_id serial balance expiry) merchant amount = Inr (Some d)"
  shows "amount \<le> balance \<and> (\<exists>ack. adn_pay X K key now d = Inr ack) \<and>
    (\<forall>req ack. adn_pay X K key now req = Inr ack \<longrightarrow>
       (\<exists>serial merchant bytes sg.
          parse_serial_hex X (sd_serial_num_hex req) = Inr serial \<and> account_from_hex X (sd_merchant_account_id req) = Inr merchant \<and>
          adn_decode_hex X (sd_signature_hex req) = Inr bytes \<and> sig_from_bytes X bytes = Inr sg \<and>
          verify_voucher X (sig_public_key X sg) serial merchant (sd_amount req) sg \<and>
          trim_0x (word_to_hex X (pk_to_commitment X (sig_public_key X sg))) = trim_0x (sd_agent_pubkey_commitment_hex req)))"
proof (intro conjI allI impI)
  show "amount \<le> balance"
    using assms(6) by (auto simp: sign_debit_def adn_client_new_def split: if_splits)
  obtain s where "keystore_sign K key (adn_ack_message X now note_id (account_to_hex X merchant) amount) = Inr s"
    using assms(5) by blast
  from adn_pay_debit[OF assms(1-3) _ this assms(6)] assms(4) show "\<exists>ack. adn_pay X K key now d = Inr ack" by blast
qed (rule adn_pay_sound)

text \<open>
  C39: An agent pays a fresh merchant \<open>payments\<close> times, over links that lose and garble messages, and the loop ends: the settlements the
  merchant was told of and the agent's outstanding cumulative amount make up exactly what the agent promised, the outstanding amount is what
  the merchant's current batch is worth, and what the merchant served beyond the settled amounts is at most \<open>settle_after - 1\<close> payments.
\<close>

theorem settlement_books:
  assumes "amount * payments < u64_bound" and "payments < u64_bound"
    and "run_benchmark X S (post_pay (settle_via (handle_settle X E S C facilitator_id))) config payments amount
           (((merchant_start url merchant_id price settle_after, (Some client, settle_hops), []), 0), pay_hops) =
         (Going a, (((m, f, log), served), hops))"
  shows "settled_total log + ag_cumulative a = amount * payments \<and> ag_cumulative a = amount * mi_batch_count m \<and>
    amount * served \<le> settled_total log + amount * (settle_after - 1)"
proof -
  have b: "books amount settle_after payments a (((m, f, log), served), hops)"
    by (rule facilitator_service.run_books[OF assms])
  have "amount * min (mi_batch_count m) (settle_after - 1) \<le> amount * (settle_after - 1)" by simp
  then have "settled_total log + amount * min (mi_batch_count m) (settle_after - 1) \<le> settled_total log + amount * (settle_after - 1)" by simp
  with b show ?thesis unfolding books_def prod.case by (meson order_trans)
qed

section \<open>Witnesses\<close>

text \<open>A hex codec, and keys whose signature of a message is the text of its elements.\<close>

definition hex_pair :: "char \<Rightarrow> string" where
  "hex_pair c = [digit_char (of_char c div 16), digit_char (of_char c mod 16)]"

fun unhex :: "string \<Rightarrow> string + string" where
  "unhex [] = Inr []"
| "unhex [c] = Inl ''Odd number of digits''"
| "unhex (a # b # s) =
     (case (to_digit 16 a, to_digit 16 b) of
        (Some x, Some y) \<Rightarrow> map_sum id (\<lambda>t. char_of (16 * x + y) # t) (unhex s)
      | _ \<Rightarrow> Inl ''Invalid character'')"

definition word_text :: "mword \<Rightarrow> string" where
  "word_text m = concat (map show_nat (as_elements m))"

fun word_plus :: "mword \<Rightarrow> mword \<Rightarrow> mword" where
  "word_plus (MWord a b c d) (MWord a' b' c' d') = MWord (a + a') (b + b') (c + c') (d + d')"

definition paper_ext :: "(string, unit, unit, string) externals" where
  "paper_ext = \<lparr> hex_encode = (\<lambda>b. concat (map hex_pair b)), hex_decode = unhex, b64_encode = (\<lambda>b. b), b64_decode = Inr,
     json_to_vec = (\<lambda>_. Inr []), felt_new = (\<lambda>n. n mod 18446744069414584321), hasher_hash = (\<lambda>b. MWord (length b) 0 0 0),
     hasher_merge = word_plus, hasher_hash_elements = (\<lambda>fs. MWord (sum_list fs) 0 0 0),
     rpo_hash_elements = (\<lambda>fs. MWord (sum_list fs) 0 0 0), word_to_bytes = word_text, word_from_bytes = (\<lambda>b. Inr mword_zero),
     sig_from_bytes = Inr, sig_to_bytes = (\<lambda>b. b), sig_public_key = (\<lambda>_. ()), sig_verify = (\<lambda>sg m pk. sg = word_text m),
     pk_from_bytes = (\<lambda>b. Inr ()), pk_to_commitment = (\<lambda>_. MWord 7 0 0 0), account_from_hex = (\<lambda>h. Inr (AccountId 1 2)),
     account_to_felts = (\<lambda>a. (account_suffix a, account_prefix a)), account_to_hex = (\<lambda>a. ''0x12''),
     summary_from_bytes = (\<lambda>b. Inr ()), summary_to_commitment = (\<lambda>_. mword_zero), summary_input_nullifiers = (\<lambda>_. []),
     summary_output_notes = (\<lambda>_. []), note_script_root = (\<lambda>_. mword_zero),
     note_storage_elements = (\<lambda>n. if n = ''p'' then [0, 0] else replicate 9 0), note_storage_commitment = (\<lambda>_. mword_zero),
     note_assets_commitment = (\<lambda>_. mword_zero), note_fungible_assets = (\<lambda>_. []), note_serial_num = (\<lambda>_. MWord 6 0 0 0),
     nullifier_bytes = (\<lambda>a b c d. ''n''), p2id_script_root = mword_zero, p2id_storage_target = (\<lambda>fs. Inr (AccountId 1 2)),
     show_word = (\<lambda>w. ''w'') \<rparr>"

definition paper_keys :: "(unit, unit, string, unit) secret_key_ops" where
  "paper_keys = \<lparr> sk_commitment = (\<lambda>_. MWord 7 0 0 0), sk_sign = (\<lambda>_ m. FalconSig (word_text m)), sk_from_bytes = (\<lambda>_. Inr ()),
     sk_falcon = (\<lambda>_. Some ()), falcon_sign = (\<lambda>_ m. word_text m) \<rparr>"

definition paper_client :: "(nat, string, string, nat) adn_client_ops" where
  "paper_client = \<lparr> nf_from_bytes = Inr, nf_note = Some, adn_note_id = (\<lambda>n. n), note_assets = (\<lambda>_. [Some 9000]),
     mc_sync_state = (\<lambda>c. (Inr (), Suc c)), mc_import_notes = (\<lambda>_ c. (Inr (), c)), mc_get_input_note = (\<lambda>_ c. Inr (Some True)),
     mc_build = (\<lambda>n a k p. Inr 0), mc_submit = (\<lambda>a r c. (Inr ''tx'', c)),
     mc_get_output_notes = (\<lambda>c. Inr [(True, Inr ''p''), (False, Inr ''x''), (True, Inr ''r'')]) \<rparr>"

lemma of_char_half: "(of_char c :: nat) div 16 < 16"
proof -
  have "(of_char c :: nat) < 256" by simp
  then show ?thesis by linarith
qed

lemma unhex_pair: "unhex (hex_pair c @ s) = map_sum id (\<lambda>t. c # t) (unhex s)"
proof -
  have "(of_char c :: nat) div 16 < 16" by (rule of_char_half)
  moreover have "of_char c mod 16 < (16 :: nat)" by simp
  ultimately show ?thesis by (simp add: hex_pair_def to_digit_digit_char)
qed

lemma unhex_hex: "unhex (concat (map hex_pair b)) = Inr b"
  by (induction b) (simp_all add: unhex_pair)

lemma digit_char_hex: "d < 16 \<Longrightarrow> digit_char d \<in> set ''0123456789abcdef''"
proof -
  have "\<forall>d \<in> {0..<16}. digit_char d \<in> set ''0123456789abcdef''" by code_simp
  then show "d < 16 \<Longrightarrow> digit_char d \<in> set ''0123456789abcdef''" by simp
qed

lemma paper_hex: "hex_ok paper_ext"
proof -
  have "set (hex_pair c) \<subseteq> set ''0123456789abcdef''" for c
    using digit_char_hex[OF of_char_half[of c]] digit_char_hex[of "of_char c mod 16"] by (simp add: hex_pair_def)
  then show ?thesis by (fastforce simp: hex_ok_def paper_ext_def unhex_hex)
qed

lemma paper_falcon: "falcon_ok paper_ext paper_keys ()"
  by (simp add: falcon_ok_def paper_ext_def paper_keys_def)

definition paper_debit :: signed_debit where
  "paper_debit = the (the (res_ok (sign_debit paper_ext demo_ecdsa paper_keys
     (adn_client_new paper_keys () ''note'' (MWord 5 0 1 9) 9000 100) (AccountId 1 2) 1000)))"

lemma paper_debit_signed:
  "sign_debit paper_ext demo_ecdsa paper_keys (adn_client_new paper_keys () ''note'' (MWord 5 0 1 9) 9000 100) (AccountId 1 2) 1000 =
   Inr (Some paper_debit)"
  by (simp add: paper_debit_def sign_debit_def adn_client_new_def paper_keys_def Let_def)

theorem debit_acknowledged_witness:
  "sd_amount paper_debit = 1000 \<and> (\<exists>ack. adn_pay paper_ext demo_keys mword_zero 77 paper_debit = Inr ack)"
proof -
  have "\<exists>ack. adn_pay paper_ext demo_keys mword_zero 77 paper_debit = Inr ack"
    using debit_acknowledged[OF paper_hex paper_falcon, of "AccountId 1 2" "MWord 5 0 1 9" demo_keys mword_zero demo_ecdsa "''note''" 9000 100 1000
        paper_debit 77] paper_debit_signed
    by (simp add: paper_ext_def demo_keys_def u64_bound_def)
  then show ?thesis
    by (simp add: paper_debit_def sign_debit_def adn_client_new_def paper_keys_def Let_def)
qed

definition paper_config :: bench_config where
  "paper_config = \<lparr> bc_agent_id_hex = ''0x11'', bc_merchant_id_hex = ''0x12'', bc_facilitator_id_hex = ''0x13'', bc_faucet_id_hex = ''0x14'',
     bc_agent_sk_hex = ''aa'', bc_note_file_hex = ''bb'', bc_serial_num = (''0x5'', ''0x0'', ''0x0'', ''0x0''), bc_adn_balance = 9000,
     bc_facilitator_account_b64 = '''', bc_merchant_account_b64 = '''', bc_keystore_dir = '''' \<rparr>"

text \<open>Four payments of 1000 with a batch of two, where the merchant's first call to the facilitator does not get through.\<close>

definition paper_run :: "agent_out \<times> (nat option \<times> hop list) adn_world" where
  "paper_run = run_benchmark paper_ext paper_keys
     (post_pay (settle_via (handle_settle paper_ext demo_ecdsa paper_keys paper_client (AccountId 3 4)))) paper_config 4 1000
     (((merchant_start ''http://f'' ''0x12'' 1000 2, (Some 0, [NotSent ''refused'']), []), 0), [])"

definition run_numbers :: "agent_out \<times> 'f adn_world \<Rightarrow> (nat \<times> nat \<times> nat) option" where
  "run_numbers r = (case r of (Going a, (((m, f, log), served), hops)) \<Rightarrow> Some (ag_cumulative a, length log, served) | _ \<Rightarrow> None)"

lemma paper_simps:
  "account_from_hex paper_ext h = Inr (AccountId 1 2)" "b64_decode paper_ext t = Inr t"
  "note_storage_elements paper_ext n = (if n = ''p'' then [0, 0] else replicate 9 0)" "note_serial_num paper_ext n = MWord 6 0 0 0"
  "hex_decode paper_ext ''aa'' = Inr [CHR 0xAA]" "hex_decode paper_ext (hex_encode paper_ext t) = Inr t" "hex_decode paper_ext ''bb'' = Inr [CHR 0xBB]"
  by (simp_all add: paper_ext_def unhex_hex to_digit_def char_of_def bit_numeral_simps bit_iff_odd)

lemma paper_serial:
  "serial_word paper_ext (''0x5'', ''0x0'', ''0x0'', ''0x0'') = Some (MWord 5 0 0 0)"
  "serial_word paper_ext (''0x6'', ''0x0'', ''0x0'', ''0x0'') = Some (MWord 6 0 0 0)"
  by (simp_all add: parse_hex_felt_def from_str_radix_def to_digit_def u64_bound_def paper_ext_def)

lemma paper_serial_hex: "serial_hex (MWord 6 0 0 0) = (''0x6'', ''0x0'', ''0x0'', ''0x0'')"
  by code_simp

lemma paper_settles:
  assumes "serial_word paper_ext (sq_serial_num req) = Some v" and "hex_decode paper_ext (sq_note_file_hex req) = Inr b"
    and "hex_decode paper_ext (sq_agent_sk_hex req) = Inr k"
  shows "handle_settle paper_ext demo_ecdsa paper_keys paper_client fid req (Some c) =
    (\<lparr> sp_success = True, sp_tx_hash = ''tx'', sp_settled_amount = sq_cumulative_amount req,
       sp_remainder_balance = 9000 - sq_cumulative_amount req, sp_p2id_note_file_hex = Some (hex_encode paper_ext ''p''),
       sp_remainder_note_file_hex = Some (hex_encode paper_ext ''r''),
       sp_new_serial_num = Some (''0x6'', ''0x0'', ''0x0'', ''0x0''), sp_error = None \<rparr>, Some (c + 3))"
  using assms wait_authenticated.simps(2)[of paper_client _ 59] wait_outputs.simps(2)[of paper_ext paper_client _ 59]
  by (simp add: handle_settle_def process_settle_def consume_note_def paper_simps paper_client_def paper_keys_def demo_ecdsa_def
      note_balance_def scan_output_def Let_def paper_serial_hex del: serial_hex.simps)

lemmas paper_defs = run_benchmark_def pay_round_def next_payment_def take_reply_def post_pay_def serve_pay_def handle_pay_def
  pay_receive_def pay_settled_def logged_settle_def note_settlement_def settle_via_def merchant_start_def agent_start_def pay_error_def
  u64_add_def u64_bound_def Let_def paper_config_def

lemma paper_run_numbers: "run_numbers paper_run = Some (1000, 1, 3)"
proof -
  have four: "(4 :: nat) = Suc (Suc (Suc (Suc 0)))" by simp
  have sk: "Option.bind (res_ok (sk_from_bytes paper_keys t)) (sk_falcon paper_keys) = Some ()" for t
    by (simp add: paper_keys_def)
  show ?thesis
    unfolding paper_run_def four by (simp add: paper_defs sk paper_simps paper_serial paper_settles run_numbers_def del: serial_word.simps)
qed

theorem settlement_books_witness:
  "\<exists>a m f log served hops. paper_run = (Going a, (((m, f, log), served), hops)) \<and> served = 3 \<and> settled_total log = 3000 \<and>
     mi_batch_count m = 1"
proof -
  obtain a m f log served hops where r: "paper_run = (Going a, (((m, f, log), served), hops))" and n: "ag_cumulative a = 1000" "served = 3"
    using paper_run_numbers by (auto simp: run_numbers_def split: prod.splits agent_out.splits)
  have "settled_total log + ag_cumulative a = 1000 * 4 \<and> ag_cumulative a = 1000 * mi_batch_count m \<and>
      1000 * served \<le> settled_total log + 1000 * (2 - 1)"
    by (rule settlement_books[OF _ _ r[unfolded paper_run_def]]) (simp_all add: u64_bound_def)
  then have "settled_total log = 3000" and "mi_batch_count m = 1" using n by simp_all
  with n(2) r show ?thesis by blast
qed

end
