(* ===== verification/Dashboard_Reads.thy ===== *)
theory Dashboard_Reads
  imports Dashboard_Session Guardian_Fs_Store "HOL-Library.Product_Lexorder"
begin

text \<open>
  The reads behind the operators' dashboard: signed page cursors (\<open>dashboard/cursor.rs\<close>), limits and cursors of a request
  (\<open>services/dashboard_pagination.rs\<close>), and the paged and aggregate reads of the storage and metadata traits with their file
  implementations (\<open>storage/filesystem.rs\<close>, \<open>metadata/filesystem.rs\<close>). An instant is a number of nanoseconds; \<open>bincode\<close>, the MAC and
  base64url are a parameter.
\<close>

section \<open>Cursors (dashboard/cursor.rs)\<close>

datatype cursor_kind = CKAccountList | CKAccountDeltas | CKAccountProposals | CKGlobalDeltas | CKGlobalProposals

fun show_cursor_kind :: "cursor_kind \<Rightarrow> string" where
  "show_cursor_kind CKAccountList = ''AccountList''"
| "show_cursor_kind CKAccountDeltas = ''AccountDeltas''"
| "show_cursor_kind CKAccountProposals = ''AccountProposals''"
| "show_cursor_kind CKGlobalDeltas = ''GlobalDeltas''"
| "show_cursor_kind CKGlobalProposals = ''GlobalProposals''"

record cursor =
  cu_kind :: cursor_kind
  cu_last_nonce :: "int option"
  cu_last_account_id :: "string option"
  cu_last_updated_at :: "int option"
  cu_last_commitment :: "string option"

definition cursor_account_list :: "int \<Rightarrow> string \<Rightarrow> cursor" where
  "cursor_account_list updated_at account_id =
     \<lparr> cu_kind = CKAccountList, cu_last_nonce = None, cu_last_account_id = Some account_id, cu_last_updated_at = Some updated_at,
       cu_last_commitment = None \<rparr>"

definition cursor_account_deltas :: "int \<Rightarrow> cursor" where
  "cursor_account_deltas last_nonce =
     \<lparr> cu_kind = CKAccountDeltas, cu_last_nonce = Some last_nonce, cu_last_account_id = None, cu_last_updated_at = None,
       cu_last_commitment = None \<rparr>"

definition cursor_account_proposals :: "int \<Rightarrow> string \<Rightarrow> cursor" where
  "cursor_account_proposals last_nonce last_commitment =
     \<lparr> cu_kind = CKAccountProposals, cu_last_nonce = Some last_nonce, cu_last_account_id = None, cu_last_updated_at = None,
       cu_last_commitment = Some last_commitment \<rparr>"

definition cursor_global_deltas :: "int \<Rightarrow> string \<Rightarrow> int \<Rightarrow> cursor" where
  "cursor_global_deltas last_status_timestamp last_account_id last_nonce =
     \<lparr> cu_kind = CKGlobalDeltas, cu_last_nonce = Some last_nonce, cu_last_account_id = Some last_account_id,
       cu_last_updated_at = Some last_status_timestamp, cu_last_commitment = None \<rparr>"

definition cursor_global_proposals :: "int \<Rightarrow> string \<Rightarrow> int \<Rightarrow> string \<Rightarrow> cursor" where
  "cursor_global_proposals last_status_timestamp last_account_id last_nonce last_commitment =
     \<lparr> cu_kind = CKGlobalProposals, cu_last_nonce = Some last_nonce, cu_last_account_id = Some last_account_id,
       cu_last_updated_at = Some last_status_timestamp, cu_last_commitment = Some last_commitment \<rparr>"

text \<open>\<open>hmac_new\<close> is the MAC of a key as a function of the message; \<open>verify_slice\<close> compares with it.\<close>

record cursor_codec =
  bincode_serialize :: "cursor \<Rightarrow> string + string"
  bincode_deserialize :: "string \<Rightarrow> string + cursor"
  hmac_new :: "string \<Rightarrow> string + (string \<Rightarrow> string)"
  b64url_encode :: "string \<Rightarrow> string"
  b64url_decode :: "string \<Rightarrow> string + string"

definition HMAC_TAG_LEN :: nat where
  "HMAC_TAG_LEN = 32"

definition CURSOR_SECRET_LEN :: nat where
  "CURSOR_SECRET_LEN = 32"

definition cursor_secret_from_hex :: "('sig, 'pk, 'su, 'n) externals \<Rightarrow> string \<Rightarrow> string + string" where
  "cursor_secret_from_hex X hex_str =
     (let trimmed = trim_str hex_str in
      bind_res (map_err (\<lambda>e. ''invalid hex: '' @ e)
        (hex_decode X (case strip_prefix ''0x'' trimmed of Some r \<Rightarrow> r | None \<Rightarrow> trimmed))) (\<lambda>raw.
      if length raw \<noteq> CURSOR_SECRET_LEN
      then Inl (''expected '' @ show_nat CURSOR_SECRET_LEN @ '' bytes, got '' @ show_nat (length raw))
      else Inr raw))"

definition cursor_encode :: "cursor_codec \<Rightarrow> cursor \<Rightarrow> string \<Rightarrow> guardian_error + string" where
  "cursor_encode K c secret =
     bind_res (map_err (\<lambda>e. ConfigurationError (''Failed to serialize cursor payload: '' @ e)) (bincode_serialize K c)) (\<lambda>payload.
     bind_res (map_err (\<lambda>e. ConfigurationError (''Failed to initialize HMAC: '' @ e)) (hmac_new K secret)) (\<lambda>mac.
     Inr (b64url_encode K (payload @ mac payload))))"

definition cursor_decode :: "cursor_codec \<Rightarrow> string \<Rightarrow> string \<Rightarrow> cursor_kind \<Rightarrow> guardian_error + cursor" where
  "cursor_decode K encoded secret expected_kind =
     bind_res (map_err (\<lambda>_. InvalidCursor ''malformed cursor encoding'') (b64url_decode K encoded)) (\<lambda>combined.
     if length combined \<le> HMAC_TAG_LEN then Inl (InvalidCursor ''cursor payload too short'')
     else
     let split_at = length combined - HMAC_TAG_LEN;
         payload = take split_at combined;
         tag = drop split_at combined in
     bind_res (map_err (\<lambda>e. ConfigurationError (''Failed to initialize HMAC: '' @ e)) (hmac_new K secret)) (\<lambda>mac.
     if mac payload \<noteq> tag then Inl (InvalidCursor ''cursor signature mismatch'')
     else
     bind_res (map_err (\<lambda>_. InvalidCursor ''corrupt cursor payload'') (bincode_deserialize K payload)) (\<lambda>c.
     if cu_kind c \<noteq> expected_kind
     then Inl (InvalidCursor (''cursor kind '' @ show_cursor_kind (cu_kind c) @ '' does not match expected '' @ show_cursor_kind expected_kind))
     else Inr c)))"

section \<open>Requests for a page (services/dashboard_pagination.rs)\<close>

definition DEFAULT_LIMIT :: nat where
  "DEFAULT_LIMIT = 50"

definition MAX_LIMIT :: nat where
  "MAX_LIMIT = 500"

record 'a paged_result =
  items :: "'a list"
  next_cursor :: "string option"

definition parse_limit :: "string option \<Rightarrow> guardian_error + nat" where
  "parse_limit raw =
     (case raw of
        None \<Rightarrow> Inr DEFAULT_LIMIT
      | Some s \<Rightarrow>
          if s = '''' then Inr DEFAULT_LIMIT
          else (case parse_i64 s of
            None \<Rightarrow> Inl (InvalidLimit (''limit must be a positive integer in [1, '' @ show_nat MAX_LIMIT @ ''], got '' @ quoted s))
          | Some v \<Rightarrow>
              if v < 1 then Inl (InvalidLimit (''limit must be at least 1, got '' @ show_int v))
              else if int MAX_LIMIT < v
              then Inl (InvalidLimit (''limit must be at most '' @ show_nat MAX_LIMIT @ '', got '' @ show_int v))
              else Inr (nat v)))"

definition parse_cursor :: "cursor_codec \<Rightarrow> string option \<Rightarrow> string \<Rightarrow> cursor_kind \<Rightarrow> guardian_error + cursor option" where
  "parse_cursor K raw secret expected_kind =
     (case raw of
        None \<Rightarrow> Inr None
      | Some s \<Rightarrow> if s = '''' then Inr None else map_sum id Some (cursor_decode K s secret expected_kind))"

section \<open>Reads of the file storage (storage/filesystem.rs)\<close>

text \<open>The casts \<open>as u64\<close> and \<open>as i64\<close> are \<open>i64_as_u64\<close> and \<open>i64_wrap\<close>.\<close>

record account_delta_cursor =
  adc_last_nonce :: int

definition parse_status_timestamp :: "chrono_ops \<Rightarrow> string \<Rightarrow> int option" where
  "parse_status_timestamp P raw = (if raw = '''' then None else parse_from_rfc3339 P raw)"

text \<open>The sort key of a status; \<open>min_utc\<close> is chrono's smallest instant, which stands for an unreadable timestamp.\<close>

definition status_instant :: "chrono_ops \<Rightarrow> int \<Rightarrow> delta_status \<Rightarrow> int" where
  "status_instant P min_utc st = (case parse_status_timestamp P (status_timestamp st) of Some t \<Rightarrow> t | None \<Rightarrow> min_utc)"

definition fs_list_account_deltas_paged :: "path \<Rightarrow> string \<Rightarrow> nat \<Rightarrow> account_delta_cursor option \<Rightarrow> delta_object list fs_op" where
  "fs_list_account_deltas_paged app account_id limit cursor =
     (let cutoff = map_option (\<lambda>c. i64_as_u64 (adc_last_nonce c)) cursor in
      bindS (fs_pull_deltas_after app account_id 0) (\<lambda>pulled.
      let deltas = filter (\<lambda>d. \<not> is_pending (d_status d)) pulled;
          deltas = filter (\<lambda>d. case cutoff of None \<Rightarrow> True | Some n \<Rightarrow> d_nonce d < n) deltas in
      okS (take limit (sort_key (\<lambda>d. - int (d_nonce d)) deltas))))"

text \<open>A stable sort in descending order of the key.\<close>

definition sort_desc :: "('a \<Rightarrow> 'k :: linorder) \<Rightarrow> 'a list \<Rightarrow> 'a list" where
  "sort_desc key rows = rev (sort_key key (rev rows))"

definition fs_list_account_proposals_paged :: "path \<Rightarrow> string \<Rightarrow> nat \<Rightarrow> account_proposal_cursor option \<Rightarrow> proposal_record list fs_op" where
  "fs_list_account_proposals_paged app account_id limit cursor =
     bindS (pending_proposals_with_commitment app account_id) (\<lambda>pairs.
     let kept = filter (\<lambda>(commitment, proposal). case cursor of
            None \<Rightarrow> True
          | Some c \<Rightarrow> let cn = i64_as_u64 (apc_last_nonce c) in
              d_nonce proposal < cn \<or> (d_nonce proposal = cn \<and> commitment < apc_last_commitment c)) pairs;
         rows = map (\<lambda>(commitment, proposal). \<lparr> pr_account_id = account_id, pr_commitment = commitment, pr_proposal = proposal \<rparr>) kept in
     okS (take limit (sort_desc (\<lambda>r. (d_nonce (pr_proposal r), pr_commitment r)) rows)))"

text \<open>Account directories: one call for each entry, one for its file type, one that reports the end.\<close>

fun next_dirs :: "(path \<times> bool) list \<Rightarrow> string list fs_op" where
  "next_dirs [] = err_prefix ''Failed to read directory entry: '' (io_call (okS []))"
| "next_dirs ((p, is_file) # es) =
     bindS (err_prefix ''Failed to read directory entry: '' (io_call (okS ()))) (\<lambda>_.
     bindS (err_prefix ''Failed to read file type: '' (io_call (okS ()))) (\<lambda>_.
     bindS (next_dirs es) (\<lambda>rest. okS (if is_file then rest else last p # rest))))"

definition account_dirs :: "path \<Rightarrow> string list fs_op" where
  "account_dirs app =
     bindS (fs_exists app) (\<lambda>ex.
     if \<not> ex then okS []
     else bindS (err_prefix ''Failed to read app directory: '' (fs_read_dir app)) next_dirs)"

definition fanout_account_ids :: "path \<Rightarrow> string list fs_op" where
  "fanout_account_ids app = bindS (account_dirs app) (\<lambda>ids. okS (sort ids))"

definition count_accounts :: "path \<Rightarrow> nat fs_op" where
  "count_accounts app = bindS (account_dirs app) (\<lambda>ids. okS (length ids))"

datatype aggregate_unavailable = FilesystemThresholdExceeded nat nat | CountFailed string

definition fs_enforce_aggregate_threshold :: "path \<Rightarrow> nat \<Rightarrow> (gcontent fsys, aggregate_unavailable, nat) comp" where
  "fs_enforce_aggregate_threshold app threshold =
     bindS (map_errS CountFailed (count_accounts app)) (\<lambda>count.
     if threshold < count then errS (FilesystemThresholdExceeded count threshold) else okS count)"

text \<open>The loop of the cross-account reads: read each account in turn and collect the rows.\<close>

fun fan_out :: "(string \<Rightarrow> 'a list fs_op) \<Rightarrow> string list \<Rightarrow> 'a list fs_op" where
  "fan_out read [] = okS []"
| "fan_out read (i # ids) = bindS (read i) (\<lambda>rows. bindS (fan_out read ids) (\<lambda>rest. okS (rows @ rest)))"

fun surfaced_kind :: "delta_status \<Rightarrow> delta_status_kind option" where
  "surfaced_kind (Pending _ _ _) = None"
| "surfaced_kind (Candidate _ _) = Some KCandidate"
| "surfaced_kind (Canonical _) = Some KCanonical"
| "surfaced_kind (Discarded _) = Some KDiscarded"

definition global_delta_after :: "chrono_ops \<Rightarrow> int \<Rightarrow> global_delta_cursor option \<Rightarrow> global_delta_row \<Rightarrow> bool" where
  "global_delta_after P min_utc cursor r =
     (case cursor of
        None \<Rightarrow> True
      | Some c \<Rightarrow>
          let parsed = status_instant P min_utc (d_status (gdr_delta r)) in
          if parsed < gdc_last_status_timestamp c then True
          else if gdc_last_status_timestamp c < parsed then False
          else if gdr_account_id r < gdc_last_account_id c then False
          else if gdc_last_account_id c < gdr_account_id r then True
          else i64_as_u64 (gdc_last_nonce c) < d_nonce (gdr_delta r))"

definition fs_list_global_deltas_paged ::
  "path \<Rightarrow> chrono_ops \<Rightarrow> int \<Rightarrow> nat \<Rightarrow> global_delta_cursor option \<Rightarrow> delta_status_kind list option \<Rightarrow> global_delta_row list fs_op" where
  "fs_list_global_deltas_paged app P min_utc limit cursor status_filter =
     bindS (fanout_account_ids app) (\<lambda>account_ids.
     bindS (fan_out (\<lambda>account_id.
       bindS (fs_pull_deltas_after app account_id 0) (\<lambda>deltas.
       okS (filter (global_delta_after P min_utc cursor)
         (map (\<lambda>d. \<lparr> gdr_account_id = account_id, gdr_delta = d \<rparr>)
           (filter (\<lambda>d. case surfaced_kind (d_status d) of
               None \<Rightarrow> False | Some k \<Rightarrow> (case status_filter of None \<Rightarrow> True | Some allowed \<Rightarrow> k \<in> set allowed)) deltas))))) account_ids) (\<lambda>rows.
     okS (take limit (sort_key
       (\<lambda>r. (- status_instant P min_utc (d_status (gdr_delta r)), gdr_account_id r, d_nonce (gdr_delta r))) rows))))"

definition global_proposal_after :: "chrono_ops \<Rightarrow> int \<Rightarrow> global_proposal_cursor option \<Rightarrow> proposal_record \<Rightarrow> bool" where
  "global_proposal_after P min_utc cursor r =
     (case cursor of
        None \<Rightarrow> True
      | Some c \<Rightarrow>
          let parsed = status_instant P min_utc (d_status (pr_proposal r));
              cn = i64_as_u64 (gpc_last_nonce c) in
          if parsed < gpc_last_originating_timestamp c then True
          else if gpc_last_originating_timestamp c < parsed then False
          else if pr_account_id r < gpc_last_account_id c then False
          else if gpc_last_account_id c < pr_account_id r then True
          else if d_nonce (pr_proposal r) < cn then False
          else if cn < d_nonce (pr_proposal r) then True
          else gpc_last_commitment c < pr_commitment r)"

definition fs_list_global_proposals_paged ::
  "path \<Rightarrow> chrono_ops \<Rightarrow> int \<Rightarrow> nat \<Rightarrow> global_proposal_cursor option \<Rightarrow> proposal_record list fs_op" where
  "fs_list_global_proposals_paged app P min_utc limit cursor =
     bindS (fanout_account_ids app) (\<lambda>account_ids.
     bindS (fan_out (\<lambda>account_id.
       bindS (pending_proposals_with_commitment app account_id) (\<lambda>pairs.
       okS (filter (global_proposal_after P min_utc cursor)
         (map (\<lambda>(commitment, proposal). \<lparr> pr_account_id = account_id, pr_commitment = commitment, pr_proposal = proposal \<rparr>) pairs)))) account_ids) (\<lambda>rows.
     okS (take limit (sort_key
       (\<lambda>r. (- status_instant P min_utc (d_status (pr_proposal r)), pr_account_id r, d_nonce (pr_proposal r), pr_commitment r)) rows))))"

fun count_status :: "delta_object \<Rightarrow> delta_status_counts \<Rightarrow> delta_status_counts" where
  "count_status d counts =
     (case d_status d of
        Candidate _ _ \<Rightarrow> counts \<lparr> n_candidate := u64_add (n_candidate counts) 1 \<rparr>
      | Canonical _ \<Rightarrow> counts \<lparr> n_canonical := u64_add (n_canonical counts) 1 \<rparr>
      | Discarded _ \<Rightarrow> counts \<lparr> n_discarded := u64_add (n_discarded counts) 1 \<rparr>
      | Pending _ _ _ \<Rightarrow> counts)"

definition fs_count_deltas_by_status :: "path \<Rightarrow> delta_status_counts fs_op" where
  "fs_count_deltas_by_status app =
     bindS (fanout_account_ids app) (\<lambda>account_ids.
     bindS (fan_out (\<lambda>account_id. fs_pull_deltas_after app account_id 0) account_ids) (\<lambda>deltas.
     okS (fold count_status deltas \<lparr> n_candidate = 0, n_canonical = 0, n_discarded = 0 \<rparr>)))"

definition fs_count_in_flight_proposals :: "path \<Rightarrow> nat fs_op" where
  "fs_count_in_flight_proposals app =
     bindS (fanout_account_ids app) (\<lambda>account_ids.
     bindS (fan_out (\<lambda>account_id. fs_pull_pending_proposals app account_id) account_ids) (\<lambda>proposals.
     okS (length proposals mod u64_bound)))"

definition later :: "chrono_ops \<Rightarrow> delta_object \<Rightarrow> int option \<Rightarrow> int option" where
  "later P d latest =
     (case parse_status_timestamp P (status_timestamp (d_status d)) of
        None \<Rightarrow> latest
      | Some ts \<Rightarrow> (case latest of None \<Rightarrow> Some ts | Some existing \<Rightarrow> if existing < ts then Some ts else Some existing))"

definition fs_latest_activity_timestamp :: "path \<Rightarrow> chrono_ops \<Rightarrow> int option fs_op" where
  "fs_latest_activity_timestamp app P =
     bindS (fanout_account_ids app) (\<lambda>account_ids.
     bindS (fan_out (\<lambda>account_id.
       bindS (fs_pull_deltas_after app account_id 0) (\<lambda>deltas.
       bindS (fs_pull_pending_proposals app account_id) (\<lambda>proposals. okS (deltas @ proposals)))) account_ids) (\<lambda>objects.
     okS (fold (later P) objects None)))"

section \<open>Paged metadata (metadata/filesystem.rs)\<close>

definition meta_after :: "chrono_ops \<Rightarrow> account_list_cursor option \<Rightarrow> account_metadata \<Rightarrow> bool" where
  "meta_after P cursor m =
     (case cursor of
        None \<Rightarrow> True
      | Some c \<Rightarrow> (case parse_from_rfc3339 P (m_updated_at m) of
            Some ts \<Rightarrow> ts < alc_last_updated_at c \<or> (ts = alc_last_updated_at c \<and> alc_last_account_id c < m_account_id m)
          | None \<Rightarrow> False))"

text \<open>Newest first; what has no readable time comes last.\<close>

definition meta_order :: "chrono_ops \<Rightarrow> account_metadata \<Rightarrow> nat \<times> int \<times> string" where
  "meta_order P m = (case parse_from_rfc3339 P (m_updated_at m) of Some ts \<Rightarrow> (0, - ts, m_account_id m) | None \<Rightarrow> (1, 0, m_account_id m))"

definition meta_list_paged :: "chrono_ops \<Rightarrow> nat \<Rightarrow> account_list_cursor option \<Rightarrow> account_metadata list meta_op" where
  "meta_list_paged P limit cursor s =
     (Inr (take limit (sort_key (meta_order P) (filter (meta_after P cursor) (map snd (mf_cache s))))), s)"

end
