(* ===== verification/Dashboard_Feeds.thy ===== *)
theory Dashboard_Feeds
  imports Dashboard_Reads
begin

text \<open>
  The operators' views: accounts, deltas and proposals page by page, one account, its vault, the summary of the server
  (\<open>services/dashboard_*.rs\<close>), and the handlers that parse a request for them (\<open>api/dashboard_feeds.rs\<close>, \<open>api/dashboard.rs\<close>). They read only.
  \<open>dash_reads\<close> is the part of the storage and metadata traits they call, with the configuration they use.
\<close>

section \<open>What the views read\<close>

datatype storage_type = StFilesystem | StPostgres

record build_info =
  bi_version :: string
  bi_git_commit :: string
  bi_profile :: string

record ('st, 'ms) dash_reads =
  dr_kind :: storage_type
  dr_pull_states_batch :: "string list \<Rightarrow> ('st, string, (string, state_object) dir) comp"
  dr_list_account_deltas_paged :: "string \<Rightarrow> nat \<Rightarrow> account_delta_cursor option \<Rightarrow> ('st, string, delta_object list) comp"
  dr_list_account_proposals_paged :: "string \<Rightarrow> nat \<Rightarrow> account_proposal_cursor option \<Rightarrow> ('st, string, proposal_record list) comp"
  dr_list_global_deltas_paged ::
    "nat \<Rightarrow> global_delta_cursor option \<Rightarrow> delta_status_kind list option \<Rightarrow> ('st, string, global_delta_row list) comp"
  dr_list_global_proposals_paged :: "nat \<Rightarrow> global_proposal_cursor option \<Rightarrow> ('st, string, proposal_record list) comp"
  dr_count_deltas_by_status :: "('st, string, delta_status_counts) comp"
  dr_count_in_flight_proposals :: "('st, string, nat) comp"
  dr_latest_activity_timestamp :: "('st, string, int option) comp"
  dr_list_paged :: "nat \<Rightarrow> account_list_cursor option \<Rightarrow> ('ms, string, account_metadata list) comp"
  dr_codec :: cursor_codec
  dr_secret :: string
  dr_config :: dashboard_config
  dr_build :: build_info
  dr_started_at :: int

definition file_dash :: "path \<Rightarrow> chrono_ops \<Rightarrow> int \<Rightarrow> cursor_codec \<Rightarrow> string \<Rightarrow> dashboard_config \<Rightarrow> build_info \<Rightarrow> int
  \<Rightarrow> (gcontent fsys, meta_fs) dash_reads" where
  "file_dash app P min_utc K secret config build started_at =
     \<lparr> dr_kind = StFilesystem, dr_pull_states_batch = default_pull_states_batch (fs_pull_state app),
       dr_list_account_deltas_paged = fs_list_account_deltas_paged app,
       dr_list_account_proposals_paged = fs_list_account_proposals_paged app,
       dr_list_global_deltas_paged = fs_list_global_deltas_paged app P min_utc,
       dr_list_global_proposals_paged = fs_list_global_proposals_paged app P min_utc,
       dr_count_deltas_by_status = fs_count_deltas_by_status app, dr_count_in_flight_proposals = fs_count_in_flight_proposals app,
       dr_latest_activity_timestamp = fs_latest_activity_timestamp app P, dr_list_paged = meta_list_paged P,
       dr_codec = K, dr_secret = secret, dr_config = config, dr_build = build, dr_started_at = started_at \<rparr>"

text \<open>\<open>u32::saturating_add\<close>: one row more than the page, to see whether there is a next one.\<close>

definition page_size :: "nat \<Rightarrow> nat" where
  "page_size limit = min (limit + 1) (u32_bound - 1)"

definition wrong_kind :: "cursor option \<Rightarrow> cursor_kind \<Rightarrow> bool" where
  "wrong_kind cursor kind = (case cursor of Some c \<Rightarrow> cu_kind c \<noteq> kind | None \<Rightarrow> False)"

section \<open>Limits on the fan-out (services/dashboard_pagination.rs)\<close>

definition enforce_aggregate_threshold ::
  "('st, 'ms, 'nc) genv \<Rightarrow> ('st, 'ms) dash_reads \<Rightarrow> string \<Rightarrow> ('st, 'ms, 'nc, unit) service" where
  "enforce_aggregate_threshold G D feed_label =
     (if dr_kind D \<noteq> StFilesystem then okS ()
      else
      bindS (storage_err ''Failed to list account metadata: '' (on_meta (ms_list (ge_meta G)))) (\<lambda>ids.
      let count = length ids; threshold = dc_filesystem_aggregate_threshold (dr_config D) in
      if threshold < count
      then errS (DataUnavailable (feed_label @ '': filesystem inventory size '' @ show_nat count @ '' exceeds aggregate threshold '' @ show_nat threshold))
      else okS ()))"

section \<open>Deltas of an account (services/dashboard_account_deltas.rs)\<close>

datatype dashboard_delta_status = DCandidate | DCanonical | DDiscarded

record dashboard_delta_entry =
  de_nonce :: nat
  de_status :: dashboard_delta_status
  de_status_timestamp :: string
  de_prev_commitment :: string
  de_new_commitment :: "string option"
  de_retry_count :: "nat option"
  de_proposal_type :: "string option"

fun decode_delta_status :: "delta_status \<Rightarrow> (dashboard_delta_status \<times> nat option \<times> string) option" where
  "decode_delta_status (Pending _ _ _) = None"
| "decode_delta_status (Candidate ts retries) = Some (DCandidate, Some retries, ts)"
| "decode_delta_status (Canonical ts) = Some (DCanonical, None, ts)"
| "decode_delta_status (Discarded ts) = Some (DDiscarded, None, ts)"

definition delta_entry_from :: "delta_object \<Rightarrow> dashboard_delta_entry option" where
  "delta_entry_from d =
     map_option (\<lambda>(status, retries, ts). \<lparr> de_nonce = d_nonce d, de_status = status, de_status_timestamp = ts,
       de_prev_commitment = d_prev_commitment d, de_new_commitment = d_new_commitment d, de_retry_count = retries,
       de_proposal_type = proposal_type d \<rparr>) (decode_delta_status (d_status d))"

definition list_account_deltas ::
  "('st, 'ms, 'nc) genv \<Rightarrow> ('st, 'ms) dash_reads \<Rightarrow> string \<Rightarrow> nat \<Rightarrow> cursor option
   \<Rightarrow> ('st, 'ms, 'nc, dashboard_delta_entry paged_result) service" where
  "list_account_deltas G D account_id limit cursor =
     (if wrong_kind cursor CKAccountDeltas then errS (InvalidCursor ''expected AccountDeltas cursor kind'')
      else
      bindS (storage_err (''Failed to load metadata for '' @ quoted account_id @ '': '') (on_meta (ms_get (ge_meta G) account_id))) (\<lambda>m.
      if m = None then errS (AccountNotFound account_id)
      else
      let storage_cursor = Option.bind cursor (\<lambda>c. map_option (\<lambda>n. \<lparr> adc_last_nonce = n \<rparr>) (cu_last_nonce c)) in
      bindS (map_errS (\<lambda>e. DataUnavailable (''Failed to load delta feed for '' @ quoted account_id @ '': '' @ e))
        (on_storage (dr_list_account_deltas_paged D account_id (page_size limit) storage_cursor))) (\<lambda>rows.
      let entries = List.map_filter delta_entry_from rows;
          has_more = limit < length entries;
          entries = take limit entries in
      bindS (liftS (if has_more \<and> entries \<noteq> []
          then map_sum id Some (cursor_encode (dr_codec D) (cursor_account_deltas (i64_wrap (int (de_nonce (last entries))))) (dr_secret D))
          else Inr None)) (\<lambda>next.
      okS \<lparr> items = entries, next_cursor = next \<rparr>))))"

section \<open>Proposals of an account (services/dashboard_account_proposals.rs)\<close>

record dashboard_proposal_entry =
  dp_commitment :: string
  dp_nonce :: nat
  dp_proposer_id :: string
  dp_originating_timestamp :: string
  dp_signatures_collected :: nat
  dp_signatures_required :: nat
  dp_prev_commitment :: string
  dp_new_commitment :: "string option"
  dp_proposal_type :: "string option"

fun signatures_required :: "auth \<Rightarrow> nat" where
  "signatures_required (MidenFalconRpo cs) = length cs mod u32_bound"
| "signatures_required (MidenEcdsa cs) = length cs mod u32_bound"
| "signatures_required (EvmEcdsa _) = 0"

definition proposal_entry_from :: "string \<Rightarrow> delta_object \<Rightarrow> auth \<Rightarrow> dashboard_proposal_entry option" where
  "proposal_entry_from commitment proposal auth =
     (case d_status proposal of
        Pending ts proposer sigs \<Rightarrow> Some \<lparr> dp_commitment = commitment, dp_nonce = d_nonce proposal, dp_proposer_id = proposer,
          dp_originating_timestamp = ts, dp_signatures_collected = length sigs mod u32_bound,
          dp_signatures_required = signatures_required auth, dp_prev_commitment = d_prev_commitment proposal,
          dp_new_commitment = d_new_commitment proposal, dp_proposal_type = proposal_type proposal \<rparr>
      | _ \<Rightarrow> None)"

fun is_evm_auth :: "auth \<Rightarrow> bool" where
  "is_evm_auth (EvmEcdsa _) = True"
| "is_evm_auth _ = False"

definition list_account_proposals ::
  "('st, 'ms, 'nc) genv \<Rightarrow> ('st, 'ms) dash_reads \<Rightarrow> string \<Rightarrow> nat \<Rightarrow> cursor option
   \<Rightarrow> ('st, 'ms, 'nc, dashboard_proposal_entry paged_result) service" where
  "list_account_proposals G D account_id limit cursor =
     (if wrong_kind cursor CKAccountProposals then errS (InvalidCursor ''expected AccountProposals cursor kind'')
      else
      bindS (storage_err (''Failed to load metadata for '' @ quoted account_id @ '': '') (on_meta (ms_get (ge_meta G) account_id))) (\<lambda>m.
      case m of
        None \<Rightarrow> errS (AccountNotFound account_id)
      | Some metadata \<Rightarrow>
          if is_evm_auth (m_auth metadata) then okS \<lparr> items = [], next_cursor = None \<rparr>
          else
          let storage_cursor = Option.bind cursor (\<lambda>c. case (cu_last_nonce c, cu_last_commitment c) of
                (Some n, Some h) \<Rightarrow> Some \<lparr> apc_last_nonce = n, apc_last_commitment = h \<rparr> | _ \<Rightarrow> None) in
          bindS (map_errS (\<lambda>e. DataUnavailable (''Failed to load proposal queue for '' @ quoted account_id @ '': '' @ e))
            (on_storage (dr_list_account_proposals_paged D account_id (page_size limit) storage_cursor))) (\<lambda>records.
          let entries = List.map_filter (\<lambda>r. proposal_entry_from (pr_commitment r) (pr_proposal r) (m_auth metadata)) records;
              has_more = limit < length entries;
              entries = take limit entries in
          bindS (liftS (if has_more \<and> entries \<noteq> []
              then map_sum id Some (cursor_encode (dr_codec D)
                (cursor_account_proposals (i64_wrap (int (dp_nonce (last entries)))) (dp_commitment (last entries))) (dr_secret D))
              else Inr None)) (\<lambda>next.
          okS \<lparr> items = entries, next_cursor = next \<rparr>))))"

section \<open>Deltas of all accounts (services/dashboard_global_deltas.rs)\<close>

text \<open>The entry of the global feed has the fields of the per-account entry and the account; here the one is nested in the other.\<close>

record dashboard_global_delta_entry =
  gd_account_id :: string
  gd_entry :: dashboard_delta_entry

fun status_token :: "string \<Rightarrow> dashboard_delta_status option" where
  "status_token t =
     (if t = ''candidate'' then Some DCandidate else if t = ''canonical'' then Some DCanonical
      else if t = ''discarded'' then Some DDiscarded else None)"

fun parse_status_tokens :: "string \<Rightarrow> string list \<Rightarrow> string list \<Rightarrow> guardian_error + dashboard_delta_status list" where
  "parse_status_tokens s seen [] = Inr []"
| "parse_status_tokens s seen (token # tokens) =
     (let t = trim_str token in
      if t = '''' then Inl (InvalidStatusFilter (''empty status token in filter '' @ quoted s))
      else if t \<in> set seen then parse_status_tokens s seen tokens
      else (case status_token t of
          None \<Rightarrow> Inl (InvalidStatusFilter (''unknown status value '' @ quoted t @ ''; allowed: candidate, canonical, discarded''))
        | Some k \<Rightarrow> bind_res (parse_status_tokens s (t # seen) tokens) (\<lambda>rest. Inr (k # rest))))"

definition parse_status_filter :: "string option \<Rightarrow> guardian_error + dashboard_delta_status list option" where
  "parse_status_filter raw =
     (case raw of
        None \<Rightarrow> Inr None
      | Some s \<Rightarrow> if s = '''' then Inr None else map_sum id Some (parse_status_tokens s [] (split_on (CHR '','') s)))"

definition global_entry_from :: "global_delta_row \<Rightarrow> dashboard_global_delta_entry option" where
  "global_entry_from r = map_option (\<lambda>e. \<lparr> gd_account_id = gdr_account_id r, gd_entry = e \<rparr>) (delta_entry_from (gdr_delta r))"

fun map_status_filter :: "dashboard_delta_status \<Rightarrow> delta_status_kind" where
  "map_status_filter DCandidate = KCandidate"
| "map_status_filter DCanonical = KCanonical"
| "map_status_filter DDiscarded = KDiscarded"

definition global_delta_cursor_of :: "cursor \<Rightarrow> global_delta_cursor option" where
  "global_delta_cursor_of c =
     (case (cu_last_updated_at c, cu_last_account_id c, cu_last_nonce c) of
        (Some ts, Some a, Some n) \<Rightarrow> Some \<lparr> gdc_last_status_timestamp = ts, gdc_last_account_id = a, gdc_last_nonce = n \<rparr>
      | _ \<Rightarrow> None)"

text \<open>The message of the two global feeds ends with the text of chrono's error.\<close>

definition not_rfc3339 :: "string \<Rightarrow> string \<Rightarrow> string \<Rightarrow> guardian_error" where
  "not_rfc3339 place raw detail = StorageError (place @ '': '' @ quoted raw @ detail)"

definition list_global_deltas ::
  "('st, 'ms, 'nc) genv \<Rightarrow> ('st, 'ms) dash_reads \<Rightarrow> nat \<Rightarrow> cursor option \<Rightarrow> dashboard_delta_status list option
   \<Rightarrow> ('st, 'ms, 'nc, dashboard_global_delta_entry paged_result) service" where
  "list_global_deltas G D limit cursor status_filter =
     (if wrong_kind cursor CKGlobalDeltas then errS (InvalidCursor ''expected GlobalDeltas cursor kind'')
      else
      bindS (enforce_aggregate_threshold G D ''global delta feed'') (\<lambda>_.
      let storage_filter = map_option (map map_status_filter) status_filter;
          storage_cursor = Option.bind cursor global_delta_cursor_of in
      bindS (map_errS (\<lambda>e. DataUnavailable (''Failed to load global delta feed: '' @ e))
        (on_storage (dr_list_global_deltas_paged D (page_size limit) storage_cursor storage_filter))) (\<lambda>rows.
      let has_more = limit < length rows;
          entries = take limit (List.map_filter global_entry_from rows) in
      bindS (liftS (if has_more \<and> entries \<noteq> []
          then let l = last entries; raw = de_status_timestamp (gd_entry l) in
            bind_res (ok_or (not_rfc3339 (''global delta cursor: stored status_timestamp is not RFC3339 for ('' @ quoted (gd_account_id l) @
                '', nonce '' @ show_nat (de_nonce (gd_entry l)) @ '')'') raw ('': '' @ rfc3339_error (ge_chrono G) raw)) (parse_from_rfc3339 (ge_chrono G) raw)) (\<lambda>ts.
            map_sum id Some (cursor_encode (dr_codec D)
              (cursor_global_deltas ts (gd_account_id l) (i64_wrap (int (de_nonce (gd_entry l))))) (dr_secret D)))
          else Inr None)) (\<lambda>next.
      okS \<lparr> items = entries, next_cursor = next \<rparr>))))"

section \<open>Proposals of all accounts (services/dashboard_global_proposals.rs)\<close>

record dashboard_global_proposal_entry =
  gp_account_id :: string
  gp_entry :: dashboard_proposal_entry

definition global_proposal_cursor_of :: "cursor \<Rightarrow> global_proposal_cursor option" where
  "global_proposal_cursor_of c =
     (case (cu_last_updated_at c, cu_last_account_id c, cu_last_nonce c, cu_last_commitment c) of
        (Some ts, Some a, Some n, Some h) \<Rightarrow>
          Some \<lparr> gpc_last_originating_timestamp = ts, gpc_last_account_id = a, gpc_last_nonce = n, gpc_last_commitment = h \<rparr>
      | _ \<Rightarrow> None)"

text \<open>The authorisation of each account is read once; an EVM account and one without metadata have none.\<close>

fun proposal_entries ::
  "('st, 'ms, 'nc) genv \<Rightarrow> (string, auth option) dir \<Rightarrow> proposal_record list
   \<Rightarrow> ('st, 'ms, 'nc, dashboard_global_proposal_entry list) service" where
  "proposal_entries G cache [] = okS []"
| "proposal_entries G cache (r # records) =
     bindS (case dir_get cache (pr_account_id r) of
              Some slot \<Rightarrow> okS slot
            | None \<Rightarrow>
                bindS (map_errS (\<lambda>e. DataUnavailable (''Failed to load metadata for '' @ quoted (pr_account_id r) @ '': '' @ e))
                  (on_meta (ms_get (ge_meta G) (pr_account_id r)))) (\<lambda>m.
                okS (case m of Some metadata \<Rightarrow> if is_evm_auth (m_auth metadata) then None else Some (m_auth metadata) | None \<Rightarrow> None))) (\<lambda>slot.
     bindS (proposal_entries G (dir_put (pr_account_id r) slot cache) records) (\<lambda>rest.
     okS (case Option.bind slot (proposal_entry_from (pr_commitment r) (pr_proposal r)) of
            Some e \<Rightarrow> \<lparr> gp_account_id = pr_account_id r, gp_entry = e \<rparr> # rest
          | None \<Rightarrow> rest)))"

definition list_global_proposals ::
  "('st, 'ms, 'nc) genv \<Rightarrow> ('st, 'ms) dash_reads \<Rightarrow> nat \<Rightarrow> cursor option
   \<Rightarrow> ('st, 'ms, 'nc, dashboard_global_proposal_entry paged_result) service" where
  "list_global_proposals G D limit cursor =
     (if wrong_kind cursor CKGlobalProposals then errS (InvalidCursor ''expected GlobalProposals cursor kind'')
      else
      bindS (enforce_aggregate_threshold G D ''global proposal feed'') (\<lambda>_.
      bindS (map_errS (\<lambda>e. DataUnavailable (''Failed to load global proposal feed: '' @ e))
        (on_storage (dr_list_global_proposals_paged D (page_size limit) (Option.bind cursor global_proposal_cursor_of)))) (\<lambda>rows.
      let has_more = limit < length rows;
          records = take limit rows in
      bindS (proposal_entries G [] records) (\<lambda>entries.
      bindS (liftS (if has_more \<and> records \<noteq> []
          then let anchor = last records; raw = status_timestamp (d_status (pr_proposal anchor)) in
            bind_res (ok_or (not_rfc3339 (''global proposal cursor: stored originating_timestamp is not RFC3339 for ('' @
                quoted (pr_account_id anchor) @ '', nonce '' @ show_nat (d_nonce (pr_proposal anchor)) @ '', commitment '' @
                quoted (pr_commitment anchor) @ '')'') raw ('': '' @ rfc3339_error (ge_chrono G) raw)) (parse_from_rfc3339 (ge_chrono G) raw)) (\<lambda>ts.
            map_sum id Some (cursor_encode (dr_codec D)
              (cursor_global_proposals ts (pr_account_id anchor) (i64_wrap (int (d_nonce (pr_proposal anchor)))) (pr_commitment anchor))
              (dr_secret D)))
          else Inr None)) (\<lambda>next.
      okS \<lparr> items = entries, next_cursor = next \<rparr>)))))"

section \<open>Accounts (services/dashboard_accounts.rs)\<close>

datatype dashboard_account_state_status = StateAvailable | StateUnavailable

record dashboard_account_summary =
  as_account_id :: string
  as_auth_scheme :: string
  as_authorized_signer_count :: nat
  as_has_pending_candidate :: bool
  as_current_commitment :: "string option"
  as_state_status :: dashboard_account_state_status
  as_created_at :: string
  as_updated_at :: string

record dashboard_account_detail =
  ad_account_id :: string
  ad_auth_scheme :: string
  ad_authorized_signer_count :: nat
  ad_authorized_signer_ids :: "string list"
  ad_has_pending_candidate :: bool
  ad_current_commitment :: "string option"
  ad_state_status :: dashboard_account_state_status
  ad_created_at :: string
  ad_updated_at :: string
  ad_state_created_at :: "string option"
  ad_state_updated_at :: "string option"

fun auth_signers :: "auth \<Rightarrow> string list" where
  "auth_signers (MidenFalconRpo cs) = cs"
| "auth_signers (MidenEcdsa cs) = cs"
| "auth_signers (EvmEcdsa signers) = signers"

definition normalized_authorized_signer_ids :: "auth \<Rightarrow> string list" where
  "normalized_authorized_signer_ids auth = remdups_adj (sort (auth_signers auth))"

definition summary_from_parts :: "account_metadata \<Rightarrow> string option \<Rightarrow> dashboard_account_state_status \<Rightarrow> dashboard_account_summary" where
  "summary_from_parts m commitment status =
     \<lparr> as_account_id = m_account_id m, as_auth_scheme = scheme_as_str (auth_scheme (m_auth m)),
       as_authorized_signer_count = length (normalized_authorized_signer_ids (m_auth m)),
       as_has_pending_candidate = m_has_pending_candidate m, as_current_commitment = commitment, as_state_status = status,
       as_created_at = m_created_at m, as_updated_at = m_updated_at m \<rparr>"

definition detail_from_parts :: "account_metadata \<Rightarrow> state_object \<Rightarrow> dashboard_account_detail" where
  "detail_from_parts m st =
     (let ids = normalized_authorized_signer_ids (m_auth m) in
      \<lparr> ad_account_id = m_account_id m, ad_auth_scheme = scheme_as_str (auth_scheme (m_auth m)),
        ad_authorized_signer_count = length ids, ad_authorized_signer_ids = ids,
        ad_has_pending_candidate = m_has_pending_candidate m, ad_current_commitment = Some (so_commitment st),
        ad_state_status = StateAvailable, ad_created_at = m_created_at m, ad_updated_at = m_updated_at m,
        ad_state_created_at = Some (so_created_at st), ad_state_updated_at = Some (so_updated_at st) \<rparr>)"

definition list_dashboard_accounts_paged ::
  "('st, 'ms, 'nc) genv \<Rightarrow> ('st, 'ms) dash_reads \<Rightarrow> nat \<Rightarrow> cursor option \<Rightarrow> ('st, 'ms, 'nc, dashboard_account_summary paged_result) service" where
  "list_dashboard_accounts_paged G D limit cursor =
     (if wrong_kind cursor CKAccountList then errS (InvalidCursor ''expected AccountList cursor kind'')
      else
      let storage_cursor = Option.bind cursor (\<lambda>c. case (cu_last_updated_at c, cu_last_account_id c) of
            (Some ts, Some a) \<Rightarrow> Some \<lparr> alc_last_updated_at = ts, alc_last_account_id = a \<rparr> | _ \<Rightarrow> None) in
      bindS (storage_err ''Failed to list metadata: '' (on_meta (dr_list_paged D (page_size limit) storage_cursor))) (\<lambda>rows.
      let has_more = limit < length rows;
          metadatas = take limit rows in
      bindS (storage_err ''Failed to batch-pull states: '' (on_storage (dr_pull_states_batch D (map m_account_id metadatas)))) (\<lambda>states.
      let summaries = map (\<lambda>m. case dir_get states (m_account_id m) of
              Some st \<Rightarrow> summary_from_parts m (Some (so_commitment st)) StateAvailable
            | None \<Rightarrow> summary_from_parts m None StateUnavailable) metadatas in
      bindS (liftS (if has_more \<and> summaries \<noteq> []
          then let l = last summaries in
            bind_res (ok_or (not_rfc3339 (''account list cursor: stored updated_at is not RFC3339 for '' @ quoted (as_account_id l))
                (as_updated_at l) []) (parse_from_rfc3339 (ge_chrono G) (as_updated_at l))) (\<lambda>ts.
            map_sum id Some (cursor_encode (dr_codec D) (cursor_account_list ts (as_account_id l)) (dr_secret D)))
          else Inr None)) (\<lambda>next.
      okS \<lparr> items = summaries, next_cursor = next \<rparr>))))"

definition get_dashboard_account :: "('st, 'ms, 'nc) genv \<Rightarrow> string \<Rightarrow> ('st, 'ms, 'nc, dashboard_account_detail) service" where
  "get_dashboard_account G account_id =
     bindS (storage_err ''Failed to load metadata: '' (on_meta (ms_get (ge_meta G) account_id))) (\<lambda>r.
     bindS (liftS (ok_or (AccountNotFound account_id) r)) (\<lambda>metadata.
     bindS (map_errS (\<lambda>_. AccountDataUnavailable account_id) (on_storage (pull_state (ge_storage G) account_id))) (\<lambda>account_state.
     okS (detail_from_parts metadata account_state))))"

section \<open>The vault of an account (services/dashboard_account_snapshot.rs)\<close>

record dashboard_vault_fungible_entry =
  vf_faucet_id :: string
  vf_amount :: string

record dashboard_vault_non_fungible_entry =
  vn_faucet_id :: string
  vn_vault_key :: string

record dashboard_vault_snapshot =
  vs_fungible :: "dashboard_vault_fungible_entry list"
  vs_non_fungible :: "dashboard_vault_non_fungible_entry list"

record dashboard_account_snapshot =
  sn_commitment :: string
  sn_updated_at :: string
  sn_has_pending_candidate :: bool
  sn_vault :: dashboard_vault_snapshot

text \<open>The assets of a Miden account decoded from the stored JSON are a parameter: faucet and amount, or faucet and vault key.\<close>

datatype vault_asset = FungibleAsset account_id nat | NonFungibleAsset account_id mword

fun fungible_entry :: "('sig, 'pk, 'su, 'n) externals \<Rightarrow> vault_asset \<Rightarrow> dashboard_vault_fungible_entry option" where
  "fungible_entry X (FungibleAsset faucet amount) = Some \<lparr> vf_faucet_id = account_to_hex X faucet, vf_amount = show_nat amount \<rparr>"
| "fungible_entry X (NonFungibleAsset _ _) = None"

fun non_fungible_entry :: "('sig, 'pk, 'su, 'n) externals \<Rightarrow> vault_asset \<Rightarrow> dashboard_vault_non_fungible_entry option" where
  "non_fungible_entry X (NonFungibleAsset faucet key) = Some \<lparr> vn_faucet_id = account_to_hex X faucet, vn_vault_key = word_into_hex X key \<rparr>"
| "non_fungible_entry X (FungibleAsset _ _) = None"

definition get_account_snapshot ::
  "('sig, 'pk, 'su, 'n) externals \<Rightarrow> (json \<Rightarrow> string + vault_asset list) \<Rightarrow> ('st, 'ms, 'nc) genv \<Rightarrow> string
   \<Rightarrow> ('st, 'ms, 'nc, dashboard_account_snapshot) service" where
  "get_account_snapshot X vault_of G account_id =
     bindS (storage_err ''Failed to load metadata: '' (on_meta (ms_get (ge_meta G) account_id))) (\<lambda>r.
     bindS (liftS (ok_or (AccountNotFound account_id) r)) (\<lambda>metadata.
     if is_evm (m_network_config metadata) then errS (UnsupportedForNetwork ''evm'' ''dashboard.account.snapshot'')
     else
     bindS (map_errS (\<lambda>_. AccountDataUnavailable account_id) (on_storage (pull_state (ge_storage G) account_id))) (\<lambda>account_state.
     bindS (map_errS (\<lambda>_. AccountDataUnavailable account_id) (liftS (vault_of (so_state_json account_state)))) (\<lambda>assets.
     okS \<lparr> sn_commitment = so_commitment account_state, sn_updated_at = so_updated_at account_state,
           sn_has_pending_candidate = m_has_pending_candidate metadata,
           sn_vault = \<lparr> vs_fungible = List.map_filter (fungible_entry X) assets,
                        vs_non_fungible = List.map_filter (non_fungible_entry X) assets \<rparr> \<rparr>))))"

section \<open>The summary of the server (services/dashboard_info.rs)\<close>

datatype dashboard_service_status = Healthy | Degraded

record dashboard_backend_info =
  db_storage :: string
  db_supported_ack_schemes :: "string list"
  db_canonicalization :: "canonicalization_config option"

record dashboard_info_response =
  di_service_status :: dashboard_service_status
  di_environment :: string
  di_build :: build_info
  di_started_at :: string
  di_backend :: dashboard_backend_info
  di_total_account_count :: nat
  di_accounts_by_auth_method :: "(string, nat) dir"
  di_latest_activity :: "string option"
  di_delta_status_counts :: delta_status_counts
  di_in_flight_proposal_count :: nat
  di_degraded_aggregates :: "string list"

definition degrade :: "string list \<Rightarrow> dashboard_info_response \<Rightarrow> dashboard_info_response" where
  "degrade names r = r \<lparr> di_service_status := Degraded, di_degraded_aggregates := di_degraded_aggregates r @ names \<rparr>"

text \<open>The accounts by method: \<open>None\<close> when a read failed, which ends the loop. The map is ordered by its keys.\<close>

fun count_methods ::
  "('st, 'ms, 'nc) genv \<Rightarrow> string list \<Rightarrow> (string, nat) dir \<Rightarrow> (('st, 'ms, 'nc) gapp, guardian_error, (string, nat) dir option) comp" where
  "count_methods G [] counts = okS (Some counts)"
| "count_methods G (i # ids) counts =
     observeS (on_meta (ms_get (ge_meta G) i)) (\<lambda>r.
     case r of
       Inl _ \<Rightarrow> okS None
     | Inr None \<Rightarrow> count_methods G ids counts
     | Inr (Some metadata) \<Rightarrow>
         let label = method_label (m_auth metadata);
             n = (case dir_get counts label of Some n \<Rightarrow> n | None \<Rightarrow> 0) in
         count_methods G ids (dir_put label (u64_add n 1) counts))"

definition or_degrade ::
  "string \<Rightarrow> (('st, 'ms, 'nc) gapp, string, 'a) comp \<Rightarrow> ('a \<Rightarrow> dashboard_info_response \<Rightarrow> dashboard_info_response)
   \<Rightarrow> dashboard_info_response \<Rightarrow> ('st, 'ms, 'nc, dashboard_info_response) service" where
  "or_degrade name read use r = observeS read (\<lambda>x. okS (case x of Inr v \<Rightarrow> use v r | Inl _ \<Rightarrow> degrade [name] r))"

definition AGG_DELTA_STATUS_COUNTS :: string where
  "AGG_DELTA_STATUS_COUNTS = ''delta_status_counts''"

definition AGG_IN_FLIGHT_PROPOSAL_COUNT :: string where
  "AGG_IN_FLIGHT_PROPOSAL_COUNT = ''in_flight_proposal_count''"

definition AGG_LATEST_ACTIVITY :: string where
  "AGG_LATEST_ACTIVITY = ''latest_activity''"

definition AGG_ACCOUNTS_BY_AUTH_METHOD :: string where
  "AGG_ACCOUNTS_BY_AUTH_METHOD = ''accounts_by_auth_method''"

definition info_start :: "('st, 'ms, 'nc) genv \<Rightarrow> ('st, 'ms) dash_reads \<Rightarrow> nat \<Rightarrow> dashboard_info_response" where
  "info_start G D n_accounts =
     \<lparr> di_service_status = Healthy, di_environment = dc_environment (dr_config D), di_build = dr_build D,
       di_started_at = to_rfc3339 (ge_chrono G) (dr_started_at D),
       di_backend = \<lparr> db_storage = (case dr_kind D of StFilesystem \<Rightarrow> ''filesystem'' | StPostgres \<Rightarrow> ''postgres''),
         db_supported_ack_schemes = [''ecdsa'', ''falcon''], db_canonicalization = ge_canonicalization G \<rparr>,
       di_total_account_count = n_accounts, di_accounts_by_auth_method = [], di_latest_activity = None,
       di_delta_status_counts = \<lparr> n_candidate = 0, n_canonical = 0, n_discarded = 0 \<rparr>, di_in_flight_proposal_count = 0,
       di_degraded_aggregates = [] \<rparr>"

definition get_dashboard_info ::
  "('st, 'ms, 'nc) genv \<Rightarrow> ('st, 'ms) dash_reads \<Rightarrow> ('st, 'ms, 'nc, dashboard_info_response) service" where
  "get_dashboard_info G D =
     bindS (storage_err ''Failed to list account metadata: '' (on_meta (ms_list (ge_meta G)))) (\<lambda>account_ids.
     let response = info_start G D (length account_ids);
         threshold = dc_filesystem_aggregate_threshold (dr_config D) in
     if dr_kind D = StFilesystem \<and> threshold < length account_ids
     then okS (degrade [AGG_DELTA_STATUS_COUNTS, AGG_IN_FLIGHT_PROPOSAL_COUNT, AGG_LATEST_ACTIVITY, AGG_ACCOUNTS_BY_AUTH_METHOD] response)
     else
     bindS (if threshold < length account_ids then okS (degrade [AGG_ACCOUNTS_BY_AUTH_METHOD] response)
        else bindS (count_methods G account_ids []) (\<lambda>counts. okS (case counts of
            None \<Rightarrow> degrade [AGG_ACCOUNTS_BY_AUTH_METHOD] response
          | Some c \<Rightarrow> response \<lparr> di_accounts_by_auth_method := sort_key fst c \<rparr>))) (\<lambda>response.
     bindS (or_degrade AGG_DELTA_STATUS_COUNTS (on_storage (dr_count_deltas_by_status D)) (\<lambda>c r. r \<lparr> di_delta_status_counts := c \<rparr>) response) (\<lambda>response.
     bindS (or_degrade AGG_IN_FLIGHT_PROPOSAL_COUNT (on_storage (dr_count_in_flight_proposals D)) (\<lambda>n r. r \<lparr> di_in_flight_proposal_count := n \<rparr>) response) (\<lambda>response.
     or_degrade AGG_LATEST_ACTIVITY (on_storage (dr_latest_activity_timestamp D))
       (\<lambda>ts r. r \<lparr> di_latest_activity := map_option (to_rfc3339 (ge_chrono G)) ts \<rparr>) response))))"

section \<open>Handlers (api/dashboard_feeds.rs, api/dashboard.rs)\<close>

record feed_query =
  fq_limit :: "string option"
  fq_cursor :: "string option"

definition paged_handler ::
  "('st, 'ms) dash_reads \<Rightarrow> cursor_kind \<Rightarrow> (nat \<Rightarrow> cursor option \<Rightarrow> ('st, 'ms, 'nc, 'a) service) \<Rightarrow> feed_query \<Rightarrow> ('st, 'ms, 'nc, 'a) service" where
  "paged_handler D kind service query =
     bindS (liftS (parse_limit (fq_limit query))) (\<lambda>limit.
     bindS (liftS (parse_cursor (dr_codec D) (fq_cursor query) (dr_secret D) kind)) (\<lambda>cursor.
     service limit cursor))"

definition list_account_deltas_handler ::
  "('st, 'ms, 'nc) genv \<Rightarrow> ('st, 'ms) dash_reads \<Rightarrow> string \<Rightarrow> feed_query \<Rightarrow> ('st, 'ms, 'nc, dashboard_delta_entry paged_result) service" where
  "list_account_deltas_handler G D account_id = paged_handler D CKAccountDeltas (list_account_deltas G D account_id)"

definition list_account_proposals_handler ::
  "('st, 'ms, 'nc) genv \<Rightarrow> ('st, 'ms) dash_reads \<Rightarrow> string \<Rightarrow> feed_query \<Rightarrow> ('st, 'ms, 'nc, dashboard_proposal_entry paged_result) service" where
  "list_account_proposals_handler G D account_id = paged_handler D CKAccountProposals (list_account_proposals G D account_id)"

definition list_global_deltas_handler ::
  "('st, 'ms, 'nc) genv \<Rightarrow> ('st, 'ms) dash_reads \<Rightarrow> string option \<Rightarrow> feed_query
   \<Rightarrow> ('st, 'ms, 'nc, dashboard_global_delta_entry paged_result) service" where
  "list_global_deltas_handler G D status =
     paged_handler D CKGlobalDeltas (\<lambda>limit cursor. bindS (liftS (parse_status_filter status)) (list_global_deltas G D limit cursor))"

definition list_global_proposals_handler ::
  "('st, 'ms, 'nc) genv \<Rightarrow> ('st, 'ms) dash_reads \<Rightarrow> feed_query \<Rightarrow> ('st, 'ms, 'nc, dashboard_global_proposal_entry paged_result) service" where
  "list_global_proposals_handler G D = paged_handler D CKGlobalProposals (list_global_proposals G D)"

definition list_operator_accounts ::
  "('st, 'ms, 'nc) genv \<Rightarrow> ('st, 'ms) dash_reads \<Rightarrow> feed_query \<Rightarrow> ('st, 'ms, 'nc, dashboard_account_summary paged_result) service" where
  "list_operator_accounts G D = paged_handler D CKAccountList (list_dashboard_accounts_paged G D)"

end
