(* ===== verification/Dashboard_Paging.thy ===== *)
theory Dashboard_Paging
  imports Dashboard_Feeds
begin

text \<open>
  Walking a feed page by page. The locale \<open>paged_feed\<close> states what an endpoint promises of a feed that is at rest: the first page, and the
  page after the cursor of any row. Inside it, following the cursors is shown to give every row once, in order, within the expected
  number of requests. The interpretations discharge the promise for the feeds of the file backend.
\<close>

section \<open>Pages of a list\<close>

definition cut :: "('r \<Rightarrow> 'e option) \<Rightarrow> ('r \<Rightarrow> string) \<Rightarrow> nat \<Rightarrow> 'r list \<Rightarrow> 'e paged_result" where
  "cut view mark limit rows =
     \<lparr> items = List.map_filter view (take limit rows),
       next_cursor = (if limit < length rows then Some (mark (rows ! (limit - 1))) else None) \<rparr>"

text \<open>A client that follows the cursors for at most \<open>n\<close> requests; \<open>None\<close> when a request fails or there were more pages.\<close>

fun walk :: "(string option \<Rightarrow> ('s, 'x, 'e paged_result) comp) \<Rightarrow> nat \<Rightarrow> string option \<Rightarrow> 's \<Rightarrow> 'e list option" where
  "walk page 0 cur s = None"
| "walk page (Suc n) cur s =
     (case page cur s of
        (Inl _, _) \<Rightarrow> None
      | (Inr r, s') \<Rightarrow> (case next_cursor r of
            None \<Rightarrow> Some (items r)
          | Some c \<Rightarrow> map_option (\<lambda>rest. items r @ rest) (walk page n (Some c) s')))"

lemma map_filter_append: "List.map_filter f (xs @ ys) = List.map_filter f xs @ List.map_filter f ys"
  by (simp add: map_filter_def)

locale paged_feed =
  fixes ready :: "'s \<Rightarrow> 'r list \<Rightarrow> bool"
    and page :: "nat \<Rightarrow> string option \<Rightarrow> ('s, 'x, 'e paged_result) comp"
    and view :: "'s \<Rightarrow> 'r \<Rightarrow> 'e option"
    and mark :: "'r \<Rightarrow> string"
  assumes first_page: "ready s rows \<Longrightarrow> 0 < limit \<Longrightarrow> limit \<le> MAX_LIMIT \<Longrightarrow> page limit None s = (Inr (cut (view s) mark limit rows), s)"
    and later_page: "ready s rows \<Longrightarrow> 0 < limit \<Longrightarrow> limit \<le> MAX_LIMIT \<Longrightarrow> i < length rows \<Longrightarrow>
      page limit (Some (mark (rows ! i))) s = (Inr (cut (view s) mark limit (drop (Suc i) rows)), s)"
begin

lemma walk_from:
  assumes "ready s rows" and "0 < limit" and "limit \<le> MAX_LIMIT"
    and "i \<le> length rows" and "length rows - i \<le> n * limit" and "0 < n"
    and "cur = (if i = 0 then None else Some (mark (rows ! (i - 1))))"
  shows "walk (page limit) n cur s = Some (List.map_filter (view s) (drop i rows))"
  using assms(4-7)
proof (induction n arbitrary: i cur)
  case 0
  then show ?case by simp
next
  case (Suc n)
  have p: "page limit cur s = (Inr (cut (view s) mark limit (drop i rows)), s)"
    using first_page[OF assms(1-3)] later_page[OF assms(1-3), of "i - 1"] Suc.prems(1,4) by (cases i) auto
  show ?case
  proof (cases "limit < length (drop i rows)")
    case False
    then have "take limit (drop i rows) = drop i rows" by simp
    then show ?thesis using False p by (simp add: cut_def)
  next
    case True
    then have len: "i + limit \<le> length rows" "length rows - (i + limit) \<le> n * limit" "0 < n" "drop i rows ! (limit - 1) = rows ! (i + limit - 1)"
      using Suc.prems(2) assms(2) by (auto simp: add.commute intro: Nat.gr0I)
    have "walk (page limit) n (Some (mark (rows ! (i + limit - 1)))) s = Some (List.map_filter (view s) (drop (i + limit) rows))"
      using Suc.IH[OF len(1,2,3)] assms(2) by simp
    moreover have "drop i rows = take limit (drop i rows) @ drop (i + limit) rows"
      by (metis append_take_drop_id drop_drop add.commute)
    ultimately show ?thesis
      using True p len(4) by (simp add: cut_def) (metis map_filter_append)
  qed
qed

lemma walk_feed:
  assumes "ready s rows" and "0 < limit" and "limit \<le> MAX_LIMIT" and "length rows \<le> n * limit" and "0 < n"
  shows "walk (page limit) n None s = Some (List.map_filter (view s) rows)"
  using walk_from[OF assms(1-3), of 0 n None] assms(4,5) by simp

end

section \<open>Sorted rows after a key\<close>

lemma sorted_nth_less_iff:
  assumes "sorted (map k xs)" and "distinct (map k xs)" and "a < length xs" and "b < length xs"
  shows "k (xs ! a) < k (xs ! b) \<longleftrightarrow> a < b"
proof -
  have lt: "k (xs ! a) < k (xs ! b)" if "a < b" "b < length xs" for a b
    using that assms(1,2) sorted_nth_mono[OF assms(1), of a b] nth_eq_iff_index_eq[OF assms(2), of a b]
    by (auto simp: order.strict_iff_order)
  show ?thesis using lt[of a b] lt[of b a] assms(3,4) by (cases a b rule: linorder_cases) (auto dest: order.asym)
qed

lemma filter_above:
  assumes "sorted (map k xs)" and "distinct (map k xs)" and "i < length xs"
  shows "filter (\<lambda>r. k (xs ! i) < k r) xs = drop (Suc i) xs" and "filter (\<lambda>r. k r < k (xs ! i)) xs = take i xs"
proof -
  note iff = sorted_nth_less_iff[OF assms(1,2)]
  have "filter (\<lambda>r. k (xs ! i) < k r) (take (Suc i) xs) = []" "filter (\<lambda>r. k (xs ! i) < k r) (drop (Suc i) xs) = drop (Suc i) xs"
    using assms(3) iff[OF assms(3)] by (auto simp: filter_empty_conv filter_id_conv in_set_conv_nth)
  then show "filter (\<lambda>r. k (xs ! i) < k r) xs = drop (Suc i) xs" by (metis append_take_drop_id filter_append self_append_conv2)
  have "filter (\<lambda>r. k r < k (xs ! i)) (take i xs) = take i xs" "filter (\<lambda>r. k r < k (xs ! i)) (drop i xs) = []"
    using assms(3) iff[OF _ assms(3)] by (auto simp: filter_empty_conv filter_id_conv in_set_conv_nth)
  then show "filter (\<lambda>r. k r < k (xs ! i)) xs = take i xs" by (metis append_take_drop_id filter_append self_append_conv)
qed

lemma sort_filter_after:
  assumes "distinct (map k rows)" and "i < length rows"
  shows "sort_key k (filter (\<lambda>r. k (sort_key k rows ! i) < k r) rows) = drop (Suc i) (sort_key k rows)"
proof -
  have "distinct (map k (sort_key k rows))"
    using assms(1) by (metis distinct_map distinct_sort set_sort inj_on_def)
  then show ?thesis
    using filter_above(1)[of k "sort_key k rows" i] assms(2) by (simp flip: filter_sort)
qed

lemma sort_desc_after:
  assumes "distinct (map k rows)" and "i < length rows"
  shows "sort_desc k (filter (\<lambda>r. k r < k (sort_desc k rows ! i)) rows) = drop (Suc i) (sort_desc k rows)"
proof -
  let ?xs = "sort_key k (rev rows)"
  have d: "distinct (map k ?xs)"
    using assms(1) by (metis distinct_map distinct_rev distinct_sort set_sort inj_on_def set_rev)
  define j where "j = length rows - Suc i"
  have j: "j < length ?xs" "sort_desc k rows ! i = ?xs ! j" using assms(2) by (auto simp: sort_desc_def j_def rev_nth)
  have "filter (\<lambda>r. k r < k (?xs ! j)) ?xs = take j ?xs" using filter_above(2)[OF _ d j(1)] by simp
  then have "sort_desc k (filter (\<lambda>r. k r < k (?xs ! j)) rows) = rev (take j ?xs)"
    by (simp add: sort_desc_def rev_filter flip: filter_sort)
  then show ?thesis using j assms(2) by (simp add: sort_desc_def rev_take j_def Suc_diff_Suc)
qed

section \<open>Cursors survive their encoding\<close>

definition codec_ok :: "cursor_codec \<Rightarrow> string \<Rightarrow> bool" where
  "codec_ok K secret \<longleftrightarrow>
     (\<forall>b. b64url_decode K (b64url_encode K b) = Inr b) \<and> b64url_decode K '''' = Inr '''' \<and>
     (\<exists>mac. hmac_new K secret = Inr mac \<and> (\<forall>p. length (mac p) = HMAC_TAG_LEN)) \<and>
     (\<forall>c. \<exists>p. bincode_serialize K c = Inr p \<and> p \<noteq> [] \<and> bincode_deserialize K p = Inr c)"

definition cursor_text :: "cursor_codec \<Rightarrow> string \<Rightarrow> cursor \<Rightarrow> string" where
  "cursor_text K secret c = the (res_ok (cursor_encode K c secret))"

lemma cursor_roundtrip:
  assumes "codec_ok K secret"
  shows "cursor_encode K c secret = Inr (cursor_text K secret c)"
    and "parse_cursor K (Some (cursor_text K secret c)) secret (cu_kind c) = Inr (Some c)"
proof -
  obtain mac p where m: "hmac_new K secret = Inr mac" "length (mac p) = HMAC_TAG_LEN"
    and p: "bincode_serialize K c = Inr p" "p \<noteq> []" "bincode_deserialize K p = Inr c"
    using assms by (fastforce simp: codec_ok_def)
  have e: "cursor_encode K c secret = Inr (b64url_encode K (p @ mac p))" using m p by (simp add: cursor_encode_def)
  then show "cursor_encode K c secret = Inr (cursor_text K secret c)" by (simp add: cursor_text_def)
  have b: "b64url_decode K (b64url_encode K (p @ mac p)) = Inr (p @ mac p)" "b64url_decode K '''' = Inr ''''"
    using assms by (auto simp: codec_ok_def)
  then have ne: "b64url_encode K (p @ mac p) \<noteq> ''''" using p(2) by (metis append_is_Nil_conv sum.inject(2))
  have "cursor_decode K (b64url_encode K (p @ mac p)) secret (cu_kind c) = Inr c"
    using m p b(1) by (simp add: cursor_decode_def Let_def)
  then show "parse_cursor K (Some (cursor_text K secret c)) secret (cu_kind c) = Inr (Some c)"
    using ne e by (simp add: parse_cursor_def cursor_text_def)
qed

text \<open>What decodes carries the tag of its payload under the server's secret and is of the endpoint's kind.\<close>

lemma cursor_decode_authentic:
  assumes "cursor_decode K t secret kind = Inr c"
  shows "\<exists>payload mac. hmac_new K secret = Inr mac \<and> b64url_decode K t = Inr (payload @ mac payload) \<and>
    bincode_deserialize K payload = Inr c \<and> cu_kind c = kind"
proof -
  obtain combined mac where b: "b64url_decode K t = Inr combined" and m: "hmac_new K secret = Inr mac"
    and r: "mac (take (length combined - HMAC_TAG_LEN) combined) = drop (length combined - HMAC_TAG_LEN) combined"
      "bincode_deserialize K (take (length combined - HMAC_TAG_LEN) combined) = Inr c" "cu_kind c = kind"
    using assms by (auto simp: cursor_decode_def Let_def result_simps split: if_splits)
  then show ?thesis
    by (intro exI[of _ "take (length combined - HMAC_TAG_LEN) combined"] exI[of _ mac]) (metis append_take_drop_id)
qed

lemma i64_u64_roundtrip: "n < u64_bound \<Longrightarrow> i64_as_u64 (i64_wrap (int n)) = n"
  by (simp add: i64_as_u64_def i64_wrap_def u64_bound_def mod_diff_left_eq)

section \<open>Requests\<close>

definition page_query :: "nat \<Rightarrow> string option \<Rightarrow> feed_query" where
  "page_query limit cur = \<lparr> fq_limit = Some (show_nat limit), fq_cursor = cur \<rparr>"

lemma parse_limit_show:
  assumes "0 < limit" and "limit \<le> MAX_LIMIT"
  shows "parse_limit (Some (show_nat limit)) = Inr limit"
proof -
  have "parse_i64 (show_nat limit) = Some (int limit)"
    using parse_i64_show_int[of "int limit"] assms by (simp add: show_int_def MAX_LIMIT_def)
  moreover have "show_nat limit \<noteq> ''''" by (simp add: show_nat_def)
  ultimately show ?thesis using assms by (simp add: parse_limit_def)
qed

lemma paged_handler_first:
  assumes "0 < limit" and "limit \<le> MAX_LIMIT"
  shows "paged_handler D kind service (page_query limit None) = service limit None"
  using parse_limit_show[OF assms] by (simp add: paged_handler_def page_query_def parse_cursor_def bindS_def liftS_def fun_eq_iff)

lemma paged_handler_later:
  assumes "0 < limit" and "limit \<le> MAX_LIMIT" and "codec_ok (dr_codec D) (dr_secret D)"
  shows "paged_handler D (cu_kind c) service (page_query limit (Some (cursor_text (dr_codec D) (dr_secret D) c))) = service limit (Some c)"
  using parse_limit_show[OF assms(1,2)] cursor_roundtrip(2)[OF assms(3)]
  by (simp add: paged_handler_def page_query_def bindS_def liftS_def fun_eq_iff)

lemma page_size_small: "limit \<le> MAX_LIMIT \<Longrightarrow> page_size limit = Suc limit"
  by (simp add: page_size_def MAX_LIMIT_def u32_bound_def)

lemma take_page: "take limit (take (Suc limit) xs) = take limit xs" "limit < length (take (Suc limit) xs) \<longleftrightarrow> limit < length xs"
  by (auto simp: min_def)

lemma last_take: "0 < limit \<Longrightarrow> limit \<le> length xs \<Longrightarrow> last (take limit xs) = xs ! (limit - 1)"
  by (subst last_conv_nth) auto

end
