(* ===== verification/Dashboard_Walk.thy ===== *)
theory Dashboard_Walk
  imports Dashboard_Paging
begin

text \<open>
  The feeds of the file backend as instances of \<open>paged_feed\<close>. A feed is at rest when the files and metadata it reads can be read and stay
  as they are, and its rows have distinct keys.
\<close>

lemma map_filter_total: "(\<And>r. r \<in> set rows \<Longrightarrow> view r \<noteq> None) \<Longrightarrow> List.map_filter view rows = map (\<lambda>r. the (view r)) rows"
  by (simp add: map_filter_def comp_def filter_True)

lemma map_filter_page:
  assumes "\<And>r. r \<in> set rows \<Longrightarrow> view r \<noteq> None"
  shows "List.map_filter view (take n rows) = take n (map (\<lambda>r. the (view r)) rows)"
proof -
  have "List.map_filter view (take n rows) = map (\<lambda>r. the (view r)) (take n rows)"
    by (rule map_filter_total) (use assms in_set_takeD in fast)
  then show ?thesis by (simp add: take_map)
qed

section \<open>Deltas of an account\<close>

definition delta_mark :: "('st, 'ms) dash_reads \<Rightarrow> delta_object \<Rightarrow> string" where
  "delta_mark D d = cursor_text (dr_codec D) (dr_secret D) (cursor_account_deltas (i64_wrap (int (d_nonce d))))"

lemma delta_entry_some: "\<not> is_pending (d_status d) \<Longrightarrow> \<exists>e. delta_entry_from d = Some e \<and> de_nonce e = d_nonce d \<and>
    de_status_timestamp e = status_timestamp (d_status d)"
  by (cases "d_status d") (auto simp: delta_entry_from_def)

lemma list_account_deltas_page:
  assumes meta: "ms_get (ge_meta G) a (ga_meta s) = (Inr (Some m), ga_meta s)"
    and read: "dr_list_account_deltas_paged D a (Suc limit) (Option.bind cursor (\<lambda>c. map_option (\<lambda>n. \<lparr> adc_last_nonce = n \<rparr>) (cu_last_nonce c)))
        (ga_storage s) = (Inr (take (Suc limit) rows), ga_storage s)"
    and rows: "\<And>d. d \<in> set rows \<Longrightarrow> \<not> is_pending (d_status d)" and kind: "\<not> wrong_kind cursor CKAccountDeltas"
    and codec: "codec_ok (dr_codec D) (dr_secret D)" and limit: "0 < limit" "limit \<le> MAX_LIMIT"
  shows "list_account_deltas G D a limit cursor s = (Inr (cut delta_entry_from (delta_mark D) limit rows), s)"
proof -
  have v: "delta_entry_from d \<noteq> None" "de_nonce (the (delta_entry_from d)) = d_nonce d" if "d \<in> set rows" for d
    using delta_entry_some[OF rows[OF that]] by auto
  note es = map_filter_page[OF v(1)]
  have last: "de_nonce (last (take limit (map (\<lambda>r. the (delta_entry_from r)) rows))) = d_nonce (rows ! (limit - 1))" if "limit < length rows"
    using that limit v(2) by (simp add: last_take)
  show ?thesis
    using meta read kind limit last cursor_roundtrip(1)[OF codec]
    by (auto simp: list_account_deltas_def bindS_def on_meta_def on_storage_def map_errS_def liftS_def okS_def page_size_small es cut_def
        delta_mark_def Let_def min_def)
qed

definition deltas_at_rest ::
  "path \<Rightarrow> (gcontent fsys, meta_fs, 'nc) genv \<Rightarrow> cursor_codec \<Rightarrow> string \<Rightarrow> string \<Rightarrow> (gcontent fsys, meta_fs, 'nc) gapp \<Rightarrow> delta_object list \<Rightarrow> bool" where
  "deltas_at_rest app G K secret a s rows \<longleftrightarrow>
     codec_ok K secret \<and> (\<exists>m. ms_get (ge_meta G) a (ga_meta s) = (Inr (Some m), ga_meta s)) \<and>
     (\<exists>ds. fs_pull_deltas_after app a 0 (ga_storage s) = (Inr ds, ga_storage s) \<and> distinct (map d_nonce ds) \<and>
        list_all (\<lambda>d. d_nonce d < u64_bound) ds \<and>
        rows = sort_key (\<lambda>d. - int (d_nonce d)) (filter (\<lambda>d. \<not> is_pending (d_status d)) ds))"

lemma account_deltas_read:
  assumes "fs_pull_deltas_after app a 0 st = (Inr ds, st)"
  shows "fs_list_account_deltas_paged app a n cursor st = (Inr (take n (sort_key (\<lambda>d. - int (d_nonce d))
    (filter (\<lambda>d. case map_option (\<lambda>c. i64_as_u64 (adc_last_nonce c)) cursor of None \<Rightarrow> True | Some n \<Rightarrow> d_nonce d < n)
      (filter (\<lambda>d. \<not> is_pending (d_status d)) ds)))), st)"
  using assms by (simp add: fs_list_account_deltas_paged_def bindS_def okS_def Let_def)

interpretation account_delta_feed: paged_feed
  "deltas_at_rest app G K secret a"
  "\<lambda>limit cur. list_account_deltas_handler G (file_dash app P u K secret config build t0) a (page_query limit cur)"
  "\<lambda>_. delta_entry_from" "delta_mark (file_dash app P u K secret config build t0)"
  for app G K secret a P u config build t0
proof unfold_locales
  let ?D = "file_dash app P u K secret config build t0"
  let ?k = "\<lambda>d. - int (d_nonce d)"
  fix s rows limit
  assume rest: "deltas_at_rest app G K secret a s rows" and limit: "0 < limit" "limit \<le> MAX_LIMIT"
  obtain m ds where codec: "codec_ok (dr_codec ?D) (dr_secret ?D)" and meta: "ms_get (ge_meta G) a (ga_meta s) = (Inr (Some m), ga_meta s)"
    and pull: "fs_pull_deltas_after app a 0 (ga_storage s) = (Inr ds, ga_storage s)" and dist: "distinct (map d_nonce ds)"
    and bnd: "list_all (\<lambda>d. d_nonce d < u64_bound) ds" and rows: "rows = sort_key ?k (filter (\<lambda>d. \<not> is_pending (d_status d)) ds)"
    using rest by (auto simp: deltas_at_rest_def file_dash_def)
  have np: "\<not> is_pending (d_status d)" if "d \<in> set rows" for d using that by (simp add: rows)
  show "list_account_deltas_handler G ?D a (page_query limit None) s = (Inr (cut delta_entry_from (delta_mark ?D) limit rows), s)"
    unfolding list_account_deltas_handler_def paged_handler_first[OF limit]
    by (rule list_account_deltas_page[OF meta _ np _ codec limit]) (simp_all add: file_dash_def account_deltas_read[OF pull] rows wrong_kind_def)
  fix i
  assume i: "i < length rows"
  have n: "d_nonce (rows ! i) < u64_bound" using i bnd nth_mem[OF i] by (auto simp: rows list_all_iff)
  have "distinct (map ?k (filter (\<lambda>d. \<not> is_pending (d_status d)) ds))"
    using dist by (auto simp: distinct_map distinct_filter inj_on_def)
  from sort_filter_after[OF this, of i] i
  have after: "sort_key ?k (filter (\<lambda>d. d_nonce d < d_nonce (rows ! i)) (filter (\<lambda>d. \<not> is_pending (d_status d)) ds)) = drop (Suc i) rows"
    by (simp add: rows)
  have np': "\<not> is_pending (d_status d)" if "d \<in> set (drop (Suc i) rows)" for d using that np in_set_dropD by fast
  let ?c = "cursor_account_deltas (i64_wrap (int (d_nonce (rows ! i))))"
  have k: "CKAccountDeltas = cu_kind ?c" by (simp add: cursor_account_deltas_def)
  show "list_account_deltas_handler G ?D a (page_query limit (Some (delta_mark ?D (rows ! i)))) s =
      (Inr (cut delta_entry_from (delta_mark ?D) limit (drop (Suc i) rows)), s)"
    unfolding list_account_deltas_handler_def delta_mark_def[of ?D "rows ! i"] k paged_handler_later[OF limit codec]
    by (rule list_account_deltas_page[OF meta _ np' _ codec limit])
      (simp_all add: file_dash_def account_deltas_read[OF pull] after[unfolded filter_filter] wrong_kind_def cursor_account_deltas_def i64_u64_roundtrip[OF n])
qed

section \<open>Proposals of an account\<close>

definition proposal_mark :: "('st, 'ms) dash_reads \<Rightarrow> proposal_record \<Rightarrow> string" where
  "proposal_mark D r = cursor_text (dr_codec D) (dr_secret D) (cursor_account_proposals (i64_wrap (int (d_nonce (pr_proposal r)))) (pr_commitment r))"

definition account_entry :: "auth \<Rightarrow> proposal_record \<Rightarrow> dashboard_proposal_entry option" where
  "account_entry auth r = proposal_entry_from (pr_commitment r) (pr_proposal r) auth"

lemma proposal_entry_some:
  "is_pending (d_status p) \<Longrightarrow> \<exists>e. proposal_entry_from h p auth = Some e \<and> dp_nonce e = d_nonce p \<and> dp_commitment e = h"
  by (cases "d_status p") (auto simp: proposal_entry_from_def)

lemma list_account_proposals_page:
  assumes meta: "ms_get (ge_meta G) a (ga_meta s) = (Inr (Some m), ga_meta s)" and evm: "\<not> is_evm_auth (m_auth m)"
    and read: "dr_list_account_proposals_paged D a (Suc limit) (Option.bind cursor (\<lambda>c. case (cu_last_nonce c, cu_last_commitment c) of
          (Some n, Some h) \<Rightarrow> Some \<lparr> apc_last_nonce = n, apc_last_commitment = h \<rparr> | _ \<Rightarrow> None))
        (ga_storage s) = (Inr (take (Suc limit) rows), ga_storage s)"
    and rows: "\<And>r. r \<in> set rows \<Longrightarrow> is_pending (d_status (pr_proposal r))" and kind: "\<not> wrong_kind cursor CKAccountProposals"
    and codec: "codec_ok (dr_codec D) (dr_secret D)" and limit: "0 < limit" "limit \<le> MAX_LIMIT"
  shows "list_account_proposals G D a limit cursor s = (Inr (cut (account_entry (m_auth m)) (proposal_mark D) limit rows), s)"
proof -
  have v: "account_entry (m_auth m) r \<noteq> None" "dp_nonce (the (account_entry (m_auth m) r)) = d_nonce (pr_proposal r)"
    "dp_commitment (the (account_entry (m_auth m) r)) = pr_commitment r" if "r \<in> set rows" for r
    using proposal_entry_some[OF rows[OF that], of "pr_commitment r" "m_auth m"] by (auto simp: account_entry_def)
  note es = map_filter_page[OF v(1), unfolded account_entry_def]
  have last: "dp_nonce (last (take limit (map (\<lambda>r. the (proposal_entry_from (pr_commitment r) (pr_proposal r) (m_auth m))) rows))) =
      d_nonce (pr_proposal (rows ! (limit - 1)))"
    "dp_commitment (last (take limit (map (\<lambda>r. the (proposal_entry_from (pr_commitment r) (pr_proposal r) (m_auth m))) rows))) =
      pr_commitment (rows ! (limit - 1))" if "limit < length rows"
    using that limit v(2,3)[unfolded account_entry_def] by (simp_all add: last_take)
  show ?thesis
    using meta evm read kind limit last cursor_roundtrip(1)[OF codec]
    by (auto simp: list_account_proposals_def bindS_def on_meta_def on_storage_def map_errS_def liftS_def okS_def page_size_small es cut_def
        proposal_mark_def account_entry_def[abs_def] Let_def min_def)
qed

abbreviation proposal_key :: "proposal_record \<Rightarrow> nat \<times> string" where
  "proposal_key r \<equiv> (d_nonce (pr_proposal r), pr_commitment r)"

definition account_records :: "string \<Rightarrow> (string \<times> delta_object) list \<Rightarrow> proposal_record list" where
  "account_records a = map (\<lambda>(h, p). \<lparr> pr_account_id = a, pr_commitment = h, pr_proposal = p \<rparr>)"

definition proposals_at_rest ::
  "path \<Rightarrow> (gcontent fsys, meta_fs, 'nc) genv \<Rightarrow> cursor_codec \<Rightarrow> string \<Rightarrow> string \<Rightarrow> auth \<Rightarrow> (gcontent fsys, meta_fs, 'nc) gapp
   \<Rightarrow> proposal_record list \<Rightarrow> bool" where
  "proposals_at_rest app G K secret a auth s rows \<longleftrightarrow>
     codec_ok K secret \<and> \<not> is_evm_auth auth \<and> (\<exists>m. m_auth m = auth \<and> ms_get (ge_meta G) a (ga_meta s) = (Inr (Some m), ga_meta s)) \<and>
     (\<exists>ps. pending_proposals_with_commitment app a (ga_storage s) = (Inr ps, ga_storage s) \<and>
        list_all (\<lambda>(h, p). is_pending (d_status p) \<and> d_nonce p < u64_bound) ps \<and>
        distinct (map proposal_key (account_records a ps)) \<and> rows = sort_desc proposal_key (account_records a ps))"

lemma set_sort_desc [simp]: "set (sort_desc k xs) = set xs" "length (sort_desc k xs) = length xs"
  by (simp_all add: sort_desc_def)

lemma account_proposals_read:
  assumes "pending_proposals_with_commitment app a st = (Inr ps, st)"
  shows "fs_list_account_proposals_paged app a n None st = (Inr (take n (sort_desc proposal_key (account_records a ps))), st)"
    and "i64_as_u64 cn = k \<Longrightarrow> fs_list_account_proposals_paged app a n (Some \<lparr> apc_last_nonce = cn, apc_last_commitment = h \<rparr>) st =
      (Inr (take n (sort_desc proposal_key (filter (\<lambda>r. proposal_key r < (k, h)) (account_records a ps)))), st)"
  using assms
  by (auto simp: fs_list_account_proposals_paged_def bindS_def okS_def Let_def account_records_def filter_map comp_def less_prod_def case_prod_unfold
      split_beta intro!: arg_cong[of _ _ "\<lambda>xs. take n (sort_desc proposal_key (map _ xs))"] filter_cong)

interpretation account_proposal_feed: paged_feed
  "proposals_at_rest app G K secret a auth"
  "\<lambda>limit cur. list_account_proposals_handler G (file_dash app P u K secret config build t0) a (page_query limit cur)"
  "\<lambda>_. account_entry auth" "proposal_mark (file_dash app P u K secret config build t0)"
  for app G K secret a auth P u config build t0
proof unfold_locales
  let ?D = "file_dash app P u K secret config build t0"
  fix s rows limit
  assume rest: "proposals_at_rest app G K secret a auth s rows" and limit: "0 < limit" "limit \<le> MAX_LIMIT"
  obtain m ps where codec: "codec_ok (dr_codec ?D) (dr_secret ?D)" and m: "m_auth m = auth" "\<not> is_evm_auth (m_auth m)"
    and meta: "ms_get (ge_meta G) a (ga_meta s) = (Inr (Some m), ga_meta s)"
    and pull: "pending_proposals_with_commitment app a (ga_storage s) = (Inr ps, ga_storage s)"
    and ok: "list_all (\<lambda>(h, p). is_pending (d_status p) \<and> d_nonce p < u64_bound) ps"
    and dist: "distinct (map proposal_key (account_records a ps))" and rows: "rows = sort_desc proposal_key (account_records a ps)"
    using rest by (auto simp: proposals_at_rest_def file_dash_def)
  have np: "is_pending (d_status (pr_proposal r)) \<and> d_nonce (pr_proposal r) < u64_bound" if "r \<in> set rows" for r
    using that ok by (auto simp: rows account_records_def list_all_iff)
  show "list_account_proposals_handler G ?D a (page_query limit None) s = (Inr (cut (account_entry auth) (proposal_mark ?D) limit rows), s)"
    unfolding list_account_proposals_handler_def paged_handler_first[OF limit] m(1)[symmetric]
    by (rule list_account_proposals_page[OF meta m(2) _ _ _ codec limit])
      (use np in \<open>simp_all add: file_dash_def account_proposals_read[OF pull] rows wrong_kind_def\<close>)
  fix i
  assume i: "i < length rows"
  have n: "d_nonce (pr_proposal (rows ! i)) < u64_bound" using np[OF nth_mem[OF i]] by simp
  from sort_desc_after[OF dist, of i] i
  have after: "sort_desc proposal_key (filter (\<lambda>r. proposal_key r < proposal_key (rows ! i)) (account_records a ps)) = drop (Suc i) rows"
    by (simp add: rows)
  have np': "is_pending (d_status (pr_proposal r))" if "r \<in> set (drop (Suc i) rows)" for r using that np in_set_dropD by fast
  let ?c = "cursor_account_proposals (i64_wrap (int (d_nonce (pr_proposal (rows ! i))))) (pr_commitment (rows ! i))"
  have k: "CKAccountProposals = cu_kind ?c" by (simp add: cursor_account_proposals_def)
  show "list_account_proposals_handler G ?D a (page_query limit (Some (proposal_mark ?D (rows ! i)))) s =
      (Inr (cut (account_entry auth) (proposal_mark ?D) limit (drop (Suc i) rows)), s)"
    unfolding list_account_proposals_handler_def proposal_mark_def[of ?D "rows ! i"] k paged_handler_later[OF limit codec] m(1)[symmetric]
    by (rule list_account_proposals_page[OF meta m(2) _ np' _ codec limit])
      (simp_all add: file_dash_def account_proposals_read(2)[OF pull i64_u64_roundtrip[OF n]] after[simplified] wrong_kind_def cursor_account_proposals_def)
qed

end
