(* ===== verification/Dashboard_Global.thy ===== *)
theory Dashboard_Global
  imports Dashboard_Walk
begin

text \<open>
  The deltas and the proposals of all accounts of the file backend as instances of \<open>paged_feed\<close>: the rows are those of every account
  directory, newest first, then by account, nonce and commitment.
\<close>

section \<open>Deltas of all accounts\<close>

lemma fan_out_at_rest:
  assumes "\<And>i. i \<in> set ids \<Longrightarrow> read i st = (Inr (f i), st)"
  shows "fan_out read ids st = (Inr (concat (map f ids)), st)"
  using assms by (induction ids) (simp_all add: bindS_def okS_def)

definition global_delta_key :: "chrono_ops \<Rightarrow> int \<Rightarrow> global_delta_row \<Rightarrow> int \<times> string \<times> nat" where
  "global_delta_key P u r = (- status_instant P u (d_status (gdr_delta r)), gdr_account_id r, d_nonce (gdr_delta r))"

definition surfaced :: "delta_status_kind list option \<Rightarrow> delta_object \<Rightarrow> bool" where
  "surfaced flt d = (case surfaced_kind (d_status d) of
     None \<Rightarrow> False | Some k \<Rightarrow> (case flt of None \<Rightarrow> True | Some allowed \<Rightarrow> k \<in> set allowed))"

definition all_rows :: "delta_status_kind list option \<Rightarrow> (string \<Rightarrow> delta_object list) \<Rightarrow> string list \<Rightarrow> global_delta_row list" where
  "all_rows flt ds ids = concat (map (\<lambda>a. map (\<lambda>d. \<lparr> gdr_account_id = a, gdr_delta = d \<rparr>) (filter (surfaced flt) (ds a))) ids)"

lemma all_rows_set: "r \<in> set (all_rows flt ds ids) \<longleftrightarrow> gdr_account_id r \<in> set ids \<and> gdr_delta r \<in> set (ds (gdr_account_id r)) \<and> surfaced flt (gdr_delta r)"
  by (cases r) (auto simp: all_rows_def)

lemma length_all_rows: "length (all_rows flt ds ids) \<le> length (concat (map ds ids))"
  by (induction ids) (auto simp: all_rows_def intro!: add_mono)

lemma distinct_all_rows:
  assumes "distinct ids" and "\<And>a. a \<in> set ids \<Longrightarrow> distinct (map d_nonce (ds a))"
  shows "distinct (map (global_delta_key P u) (all_rows flt ds ids))"
  using assms
proof (induction ids)
  case (Cons a ids)
  let ?here = "map (\<lambda>d. \<lparr> gdr_account_id = a, gdr_delta = d \<rparr>) (filter (surfaced flt) (ds a))"
  have split: "all_rows flt ds (a # ids) = ?here @ all_rows flt ds ids" by (simp add: all_rows_def)
  have "distinct (map (global_delta_key P u) ?here)"
    using Cons.prems(2)[of a] by (auto simp: distinct_map inj_on_def global_delta_key_def)
  moreover have "distinct (map (global_delta_key P u) (all_rows flt ds ids))" using Cons by simp
  moreover have "set (map (global_delta_key P u) ?here) \<inter> set (map (global_delta_key P u) (all_rows flt ds ids)) = {}"
    using Cons.prems(1) by (auto simp: all_rows_set global_delta_key_def)
  ultimately show ?case unfolding split map_append distinct_append by simp
qed (simp add: all_rows_def)

definition global_deltas_at_rest ::
  "path \<Rightarrow> (gcontent fsys, meta_fs, 'nc) genv \<Rightarrow> int \<Rightarrow> cursor_codec \<Rightarrow> string \<Rightarrow> dashboard_config \<Rightarrow> string option
   \<Rightarrow> (gcontent fsys, meta_fs, 'nc) gapp \<Rightarrow> global_delta_row list \<Rightarrow> bool" where
  "global_deltas_at_rest app G u K secret config status s rows \<longleftrightarrow>
     codec_ok K secret \<and>
     (\<exists>known. ms_list (ge_meta G) (ga_meta s) = (Inr known, ga_meta s) \<and> length known \<le> dc_filesystem_aggregate_threshold config) \<and>
     (\<exists>ids ds flt. parse_status_filter status = Inr flt \<and> fanout_account_ids app (ga_storage s) = (Inr ids, ga_storage s) \<and>
        (\<forall>a \<in> set ids. fs_pull_deltas_after app a 0 (ga_storage s) = (Inr (ds a), ga_storage s)) \<and>
        rows = sort_key (global_delta_key (ge_chrono G) u) (all_rows (map_option (map map_status_filter) flt) ds ids)) \<and>
     distinct (map (global_delta_key (ge_chrono G) u) rows) \<and>
     list_all (\<lambda>r. d_nonce (gdr_delta r) < u64_bound \<and> status_timestamp (d_status (gdr_delta r)) \<noteq> '''' \<and>
       parse_from_rfc3339 (ge_chrono G) (status_timestamp (d_status (gdr_delta r))) \<noteq> None) rows"

definition global_delta_place :: "chrono_ops \<Rightarrow> int \<Rightarrow> global_delta_row \<Rightarrow> global_delta_cursor" where
  "global_delta_place P u r = \<lparr> gdc_last_status_timestamp = status_instant P u (d_status (gdr_delta r)),
     gdc_last_account_id = gdr_account_id r, gdc_last_nonce = i64_wrap (int (d_nonce (gdr_delta r))) \<rparr>"

lemma global_delta_after_key:
  "d_nonce (gdr_delta r) < u64_bound \<Longrightarrow>
   global_delta_after P u (Some (global_delta_place P u r)) = (\<lambda>x. global_delta_key P u r < global_delta_key P u x)"
  by (auto simp: fun_eq_iff global_delta_after_def global_delta_place_def global_delta_key_def less_prod_def i64_u64_roundtrip Let_def)

lemma global_deltas_read:
  assumes "fanout_account_ids app st = (Inr ids, st)" and "\<And>a. a \<in> set ids \<Longrightarrow> fs_pull_deltas_after app a 0 st = (Inr (ds a), st)"
  shows "fs_list_global_deltas_paged app P u n cursor flt st =
    (Inr (take n (sort_key (global_delta_key P u) (filter (global_delta_after P u cursor) (all_rows flt ds ids)))), st)"
proof -
  let ?read = "\<lambda>a. bindS (fs_pull_deltas_after app a 0) (\<lambda>deltas.
       okS (filter (global_delta_after P u cursor) (map (\<lambda>d. \<lparr> gdr_account_id = a, gdr_delta = d \<rparr>) (filter (surfaced flt) deltas))))"
  have "fan_out ?read ids st = (Inr (concat (map (\<lambda>a. filter (global_delta_after P u cursor)
      (map (\<lambda>d. \<lparr> gdr_account_id = a, gdr_delta = d \<rparr>) (filter (surfaced flt) (ds a)))) ids)), st)"
    by (rule fan_out_at_rest) (simp add: bindS_def okS_def assms(2))
  then show ?thesis
    using assms(1)
    by (simp add: fs_list_global_deltas_paged_def bindS_def okS_def all_rows_def filter_concat comp_def global_delta_key_def[abs_def]
        surfaced_def[abs_def])
qed

definition global_delta_mark :: "('nc, 'mc, 'ne) genv \<Rightarrow> ('st, 'ms) dash_reads \<Rightarrow> int \<Rightarrow> global_delta_row \<Rightarrow> string" where
  "global_delta_mark G D u r = cursor_text (dr_codec D) (dr_secret D) (cursor_global_deltas
     (status_instant (ge_chrono G) u (d_status (gdr_delta r))) (gdr_account_id r) (i64_wrap (int (d_nonce (gdr_delta r)))))"

lemma global_entry_some: "\<not> is_pending (d_status (gdr_delta r)) \<Longrightarrow> \<exists>e. global_entry_from r = Some e \<and> gd_account_id e = gdr_account_id r \<and>
    de_nonce (gd_entry e) = d_nonce (gdr_delta r) \<and> de_status_timestamp (gd_entry e) = status_timestamp (d_status (gdr_delta r))"
  using delta_entry_some[of "gdr_delta r"] by (auto simp: global_entry_from_def)

lemma list_global_deltas_page:
  assumes thr: "enforce_aggregate_threshold G D ''global delta feed'' s = (Inr (), s)"
    and read: "dr_list_global_deltas_paged D (Suc limit) (Option.bind cursor global_delta_cursor_of) (map_option (map map_status_filter) flt)
        (ga_storage s) = (Inr (take (Suc limit) rows), ga_storage s)"
    and rows: "\<And>r. r \<in> set rows \<Longrightarrow> \<not> is_pending (d_status (gdr_delta r))"
    and ts: "\<And>r. r \<in> set rows \<Longrightarrow> parse_from_rfc3339 (ge_chrono G) (status_timestamp (d_status (gdr_delta r))) =
        Some (status_instant (ge_chrono G) u (d_status (gdr_delta r)))"
    and kind: "\<not> wrong_kind cursor CKGlobalDeltas"
    and codec: "codec_ok (dr_codec D) (dr_secret D)" and limit: "0 < limit" "limit \<le> MAX_LIMIT"
  shows "list_global_deltas G D limit cursor flt s = (Inr (cut global_entry_from (global_delta_mark G D u) limit rows), s)"
proof -
  have v: "global_entry_from r \<noteq> None" "gd_account_id (the (global_entry_from r)) = gdr_account_id r"
    "de_nonce (gd_entry (the (global_entry_from r))) = d_nonce (gdr_delta r)"
    "de_status_timestamp (gd_entry (the (global_entry_from r))) = status_timestamp (d_status (gdr_delta r))" if "r \<in> set rows" for r
    using global_entry_some[OF rows[OF that]] by auto
  note es = map_filter_page[OF v(1)]
  have last: "last (take limit (map (\<lambda>r. the (global_entry_from r)) rows)) = the (global_entry_from (rows ! (limit - 1)))"
    "rows ! (limit - 1) \<in> set rows" if "limit < length rows"
    using that limit by (simp_all add: last_take)
  show ?thesis
    using thr read kind limit last v(2-4)[OF last(2)] ts[OF last(2)] cursor_roundtrip(1)[OF codec]
    by (auto simp: list_global_deltas_def bindS_def on_storage_def map_errS_def liftS_def okS_def page_size_small es cut_def
        global_delta_mark_def Let_def min_def)
qed

lemma surfaced_not_pending: "surfaced flt d \<Longrightarrow> \<not> is_pending (d_status d)"
  by (cases "d_status d") (auto simp: surfaced_def)

interpretation global_delta_feed: paged_feed
  "global_deltas_at_rest app G u K secret config status"
  "\<lambda>limit cur. list_global_deltas_handler G (file_dash app (ge_chrono G) u K secret config build t0) status (page_query limit cur)"
  "\<lambda>_. global_entry_from" "global_delta_mark G (file_dash app (ge_chrono G) u K secret config build t0) u"
  for app G u K secret config status build t0
proof unfold_locales
  let ?P = "ge_chrono G"
  let ?D = "file_dash app ?P u K secret config build t0"
  let ?k = "global_delta_key ?P u"
  fix s rows limit
  assume rest: "global_deltas_at_rest app G u K secret config status s rows" and limit: "0 < limit" "limit \<le> MAX_LIMIT"
  obtain known ids ds flt where codec: "codec_ok (dr_codec ?D) (dr_secret ?D)"
    and meta: "ms_list (ge_meta G) (ga_meta s) = (Inr known, ga_meta s)" "length known \<le> dc_filesystem_aggregate_threshold config"
    and flt: "parse_status_filter status = Inr flt" and ids: "fanout_account_ids app (ga_storage s) = (Inr ids, ga_storage s)"
    and pull: "\<And>a. a \<in> set ids \<Longrightarrow> fs_pull_deltas_after app a 0 (ga_storage s) = (Inr (ds a), ga_storage s)"
    and rows: "rows = sort_key ?k (all_rows (map_option (map map_status_filter) flt) ds ids)"
    and dist: "distinct (map ?k rows)"
    and good: "list_all (\<lambda>r. d_nonce (gdr_delta r) < u64_bound \<and> status_timestamp (d_status (gdr_delta r)) \<noteq> '''' \<and>
       parse_from_rfc3339 ?P (status_timestamp (d_status (gdr_delta r))) \<noteq> None) rows"
    using rest by (auto simp: global_deltas_at_rest_def file_dash_def)
  let ?all = "all_rows (map_option (map map_status_filter) flt) ds ids"
  have thr: "enforce_aggregate_threshold G ?D ''global delta feed'' s = (Inr (), s)"
    using meta by (simp add: enforce_aggregate_threshold_def file_dash_def bindS_def map_errS_def on_meta_def okS_def Let_def)
  note read = global_deltas_read[OF ids pull]
  have np: "\<not> is_pending (d_status (gdr_delta r))" if "r \<in> set rows" for r
    using that by (auto simp: rows all_rows_def surfaced_not_pending)
  have ts: "parse_from_rfc3339 ?P (status_timestamp (d_status (gdr_delta r))) = Some (status_instant ?P u (d_status (gdr_delta r)))"
    if "r \<in> set rows" for r using that good by (auto simp: list_all_iff status_instant_def parse_status_timestamp_def)
  have run: "list_global_deltas_handler G ?D status q s = paged_handler ?D CKGlobalDeltas (\<lambda>l c. list_global_deltas G ?D l c flt) q s" for q
    by (simp add: list_global_deltas_handler_def flt paged_handler_def bindS_def liftS_def cong: sum.case_cong)
  show "list_global_deltas_handler G ?D status (page_query limit None) s = (Inr (cut global_entry_from (global_delta_mark G ?D u) limit rows), s)"
    unfolding run paged_handler_first[OF limit]
    by (rule list_global_deltas_page[OF thr _ np ts _ codec limit])
      (simp_all add: file_dash_def read rows wrong_kind_def global_delta_after_def)
  fix i
  assume i: "i < length rows"
  have n: "d_nonce (gdr_delta (rows ! i)) < u64_bound" using good nth_mem[OF i] by (auto simp: list_all_iff)
  have "distinct (map ?k ?all)" using dist by (auto simp: rows distinct_map)
  from sort_filter_after[OF this, of i] i
  have after: "sort_key ?k (filter (global_delta_after ?P u (Some (global_delta_place ?P u (rows ! i)))) ?all) = drop (Suc i) rows"
    by (simp add: rows global_delta_after_key[OF n, unfolded rows])
  let ?c = "cursor_global_deltas (status_instant ?P u (d_status (gdr_delta (rows ! i)))) (gdr_account_id (rows ! i)) (i64_wrap (int (d_nonce (gdr_delta (rows ! i)))))"
  have k: "CKGlobalDeltas = cu_kind ?c" and c: "global_delta_cursor_of ?c = Some (global_delta_place ?P u (rows ! i))"
    by (simp_all add: cursor_global_deltas_def global_delta_cursor_of_def global_delta_place_def)
  show "list_global_deltas_handler G ?D status (page_query limit (Some (global_delta_mark G ?D u (rows ! i)))) s =
      (Inr (cut global_entry_from (global_delta_mark G ?D u) limit (drop (Suc i) rows)), s)"
    unfolding run global_delta_mark_def[of _ ?D u "rows ! i"] k paged_handler_later[OF limit codec]
    by (rule list_global_deltas_page[OF thr _ _ _ _ codec limit])
      (use np ts in_set_dropD[of _ "Suc i" rows] k in \<open>simp_all add: c read after wrong_kind_def, simp_all add: file_dash_def read after\<close>)
qed

section \<open>Proposals of all accounts\<close>

definition global_proposal_key :: "chrono_ops \<Rightarrow> int \<Rightarrow> proposal_record \<Rightarrow> int \<times> string \<times> nat \<times> string" where
  "global_proposal_key P u r = (- status_instant P u (d_status (pr_proposal r)), pr_account_id r, d_nonce (pr_proposal r), pr_commitment r)"

definition global_proposal_place :: "chrono_ops \<Rightarrow> int \<Rightarrow> proposal_record \<Rightarrow> global_proposal_cursor" where
  "global_proposal_place P u r = \<lparr> gpc_last_originating_timestamp = status_instant P u (d_status (pr_proposal r)),
     gpc_last_account_id = pr_account_id r, gpc_last_nonce = i64_wrap (int (d_nonce (pr_proposal r))), gpc_last_commitment = pr_commitment r \<rparr>"

lemma global_proposal_after_key:
  "d_nonce (pr_proposal r) < u64_bound \<Longrightarrow>
   global_proposal_after P u (Some (global_proposal_place P u r)) = (\<lambda>x. global_proposal_key P u r < global_proposal_key P u x)"
  by (auto simp: fun_eq_iff global_proposal_after_def global_proposal_place_def global_proposal_key_def less_prod_def i64_u64_roundtrip Let_def)

definition all_records :: "(string \<Rightarrow> (string \<times> delta_object) list) \<Rightarrow> string list \<Rightarrow> proposal_record list" where
  "all_records ps ids = concat (map (\<lambda>a. account_records a (ps a)) ids)"

lemma global_proposals_read:
  assumes "fanout_account_ids app st = (Inr ids, st)"
    and "\<And>a. a \<in> set ids \<Longrightarrow> pending_proposals_with_commitment app a st = (Inr (ps a), st)"
  shows "fs_list_global_proposals_paged app P u n cursor st =
    (Inr (take n (sort_key (global_proposal_key P u) (filter (global_proposal_after P u cursor) (all_records ps ids)))), st)"
proof -
  let ?read = "\<lambda>a. bindS (pending_proposals_with_commitment app a) (\<lambda>pairs.
       okS (filter (global_proposal_after P u cursor) (account_records a pairs)))"
  have "fan_out ?read ids st = (Inr (concat (map (\<lambda>a. filter (global_proposal_after P u cursor) (account_records a (ps a))) ids)), st)"
    by (rule fan_out_at_rest) (simp add: bindS_def okS_def assms(2))
  then show ?thesis
    using assms(1)
    by (simp add: fs_list_global_proposals_paged_def bindS_def okS_def all_records_def filter_concat comp_def global_proposal_key_def[abs_def]
        account_records_def)
qed

text \<open>The entry of a proposal under the authorisation its account has; an EVM account and one without metadata show none.\<close>

definition account_slot :: "('st, 'ms, 'nc) genv \<Rightarrow> ('st, 'ms, 'nc) gapp \<Rightarrow> string \<Rightarrow> auth option" where
  "account_slot G s a = (case fst (ms_get (ge_meta G) a (ga_meta s)) of
     Inr (Some m) \<Rightarrow> if is_evm_auth (m_auth m) then None else Some (m_auth m) | _ \<Rightarrow> None)"

definition global_proposal_view ::
  "('st, 'ms, 'nc) genv \<Rightarrow> ('st, 'ms, 'nc) gapp \<Rightarrow> proposal_record \<Rightarrow> dashboard_global_proposal_entry option" where
  "global_proposal_view G s r = map_option (\<lambda>e. \<lparr> gp_account_id = pr_account_id r, gp_entry = e \<rparr>)
     (Option.bind (account_slot G s (pr_account_id r)) (proposal_entry_from (pr_commitment r) (pr_proposal r)))"

lemma proposal_entries_at_rest:
  assumes "\<And>r. r \<in> set rs \<Longrightarrow> \<exists>m. ms_get (ge_meta G) (pr_account_id r) (ga_meta s) = (Inr m, ga_meta s)"
    and "\<And>a slot. dir_get cache a = Some slot \<Longrightarrow> slot = account_slot G s a"
  shows "proposal_entries G cache rs s = (Inr (List.map_filter (global_proposal_view G s) rs), s)"
  using assms
proof (induction rs arbitrary: cache)
  case (Cons r rs)
  have put: "slot = account_slot G s a" if "dir_get (dir_put (pr_account_id r) (account_slot G s (pr_account_id r)) cache) a = Some slot" for a slot
    using that Cons.prems(2) by (auto split: if_splits)
  have IH: "proposal_entries G (dir_put (pr_account_id r) (account_slot G s (pr_account_id r)) cache) rs s =
      (Inr (List.map_filter (global_proposal_view G s) rs), s)"
    by (rule Cons.IH[OF Cons.prems(1) put]) simp_all
  obtain m where m: "ms_get (ge_meta G) (pr_account_id r) (ga_meta s) = (Inr m, ga_meta s)" using Cons.prems(1)[of r] by auto
  have "(case dir_get cache (pr_account_id r) of
              Some slot \<Rightarrow> okS slot
            | None \<Rightarrow>
                bindS (map_errS (\<lambda>e. DataUnavailable (''Failed to load metadata for '' @ quoted (pr_account_id r) @ '': '' @ e))
                  (on_meta (ms_get (ge_meta G) (pr_account_id r)))) (\<lambda>m.
                okS (case m of Some metadata \<Rightarrow> if is_evm_auth (m_auth metadata) then None else Some (m_auth metadata) | None \<Rightarrow> None))) s =
      (Inr (account_slot G s (pr_account_id r)), s)"
    using Cons.prems(2)[of "pr_account_id r"] m
    by (auto simp: bindS_def okS_def map_errS_def on_meta_def account_slot_def split: option.splits)
  then show ?case
    using IH by (simp add: bindS_def okS_def global_proposal_view_def[of G s r] List.map_filter_simps split: option.splits)
qed (simp add: okS_def map_filter_def)

definition global_proposals_at_rest ::
  "path \<Rightarrow> (gcontent fsys, meta_fs, 'nc) genv \<Rightarrow> int \<Rightarrow> cursor_codec \<Rightarrow> string \<Rightarrow> dashboard_config
   \<Rightarrow> (gcontent fsys, meta_fs, 'nc) gapp \<Rightarrow> proposal_record list \<Rightarrow> bool" where
  "global_proposals_at_rest app G u K secret config s rows \<longleftrightarrow>
     codec_ok K secret \<and>
     (\<exists>known. ms_list (ge_meta G) (ga_meta s) = (Inr known, ga_meta s) \<and> length known \<le> dc_filesystem_aggregate_threshold config) \<and>
     (\<exists>ids ps. fanout_account_ids app (ga_storage s) = (Inr ids, ga_storage s) \<and>
        (\<forall>a \<in> set ids. pending_proposals_with_commitment app a (ga_storage s) = (Inr (ps a), ga_storage s)) \<and>
        rows = sort_key (global_proposal_key (ge_chrono G) u) (all_records ps ids)) \<and>
     distinct (map (global_proposal_key (ge_chrono G) u) rows) \<and>
     list_all (\<lambda>r. (\<exists>m. ms_get (ge_meta G) (pr_account_id r) (ga_meta s) = (Inr m, ga_meta s)) \<and> d_nonce (pr_proposal r) < u64_bound \<and>
       status_timestamp (d_status (pr_proposal r)) \<noteq> '''' \<and>
       parse_from_rfc3339 (ge_chrono G) (status_timestamp (d_status (pr_proposal r))) \<noteq> None) rows"

definition global_proposal_mark :: "('nc, 'mc, 'ne) genv \<Rightarrow> ('st, 'ms) dash_reads \<Rightarrow> int \<Rightarrow> proposal_record \<Rightarrow> string" where
  "global_proposal_mark G D u r = cursor_text (dr_codec D) (dr_secret D) (cursor_global_proposals
     (status_instant (ge_chrono G) u (d_status (pr_proposal r))) (pr_account_id r) (i64_wrap (int (d_nonce (pr_proposal r)))) (pr_commitment r))"

lemma list_global_proposals_page:
  assumes thr: "enforce_aggregate_threshold G D ''global proposal feed'' s = (Inr (), s)"
    and read: "dr_list_global_proposals_paged D (Suc limit) (Option.bind cursor global_proposal_cursor_of)
        (ga_storage s) = (Inr (take (Suc limit) rows), ga_storage s)"
    and meta: "\<And>r. r \<in> set rows \<Longrightarrow> \<exists>m. ms_get (ge_meta G) (pr_account_id r) (ga_meta s) = (Inr m, ga_meta s)"
    and ts: "\<And>r. r \<in> set rows \<Longrightarrow> parse_from_rfc3339 (ge_chrono G) (status_timestamp (d_status (pr_proposal r))) =
        Some (status_instant (ge_chrono G) u (d_status (pr_proposal r)))"
    and kind: "\<not> wrong_kind cursor CKGlobalProposals"
    and codec: "codec_ok (dr_codec D) (dr_secret D)" and limit: "0 < limit" "limit \<le> MAX_LIMIT"
  shows "list_global_proposals G D limit cursor s = (Inr (cut (global_proposal_view G s) (global_proposal_mark G D u) limit rows), s)"
proof -
  have es: "proposal_entries G [] (take limit rows) s = (Inr (List.map_filter (global_proposal_view G s) (take limit rows)), s)"
    by (rule proposal_entries_at_rest[OF meta]) (auto dest: in_set_takeD)
  have last: "last (take limit rows) = rows ! (limit - 1)" "rows ! (limit - 1) \<in> set rows" if "limit < length rows"
    using that limit by (simp_all add: last_take)
  show ?thesis
    using thr read kind limit last ts[OF last(2)] cursor_roundtrip(1)[OF codec] es
    by (auto simp: list_global_proposals_def bindS_def on_storage_def map_errS_def liftS_def okS_def page_size_small cut_def
        global_proposal_mark_def Let_def min_def)
qed

interpretation global_proposal_feed: paged_feed
  "global_proposals_at_rest app G u K secret config"
  "\<lambda>limit cur. list_global_proposals_handler G (file_dash app (ge_chrono G) u K secret config build t0) (page_query limit cur)"
  "global_proposal_view G" "global_proposal_mark G (file_dash app (ge_chrono G) u K secret config build t0) u"
  for app G u K secret config build t0
proof unfold_locales
  let ?P = "ge_chrono G"
  let ?D = "file_dash app ?P u K secret config build t0"
  let ?k = "global_proposal_key ?P u"
  fix s rows limit
  assume rest: "global_proposals_at_rest app G u K secret config s rows" and limit: "0 < limit" "limit \<le> MAX_LIMIT"
  obtain known ids ps where codec: "codec_ok (dr_codec ?D) (dr_secret ?D)"
    and meta: "ms_list (ge_meta G) (ga_meta s) = (Inr known, ga_meta s)" "length known \<le> dc_filesystem_aggregate_threshold config"
    and ids: "fanout_account_ids app (ga_storage s) = (Inr ids, ga_storage s)"
    and pull: "\<And>a. a \<in> set ids \<Longrightarrow> pending_proposals_with_commitment app a (ga_storage s) = (Inr (ps a), ga_storage s)"
    and rows: "rows = sort_key ?k (all_records ps ids)" and dist: "distinct (map ?k rows)"
    and good: "\<And>r. r \<in> set rows \<Longrightarrow> (\<exists>m. ms_get (ge_meta G) (pr_account_id r) (ga_meta s) = (Inr m, ga_meta s)) \<and> d_nonce (pr_proposal r) < u64_bound \<and>
       status_timestamp (d_status (pr_proposal r)) \<noteq> '''' \<and> parse_from_rfc3339 ?P (status_timestamp (d_status (pr_proposal r))) \<noteq> None"
    using rest by (auto simp: global_proposals_at_rest_def file_dash_def list_all_iff)
  have thr: "enforce_aggregate_threshold G ?D ''global proposal feed'' s = (Inr (), s)"
    using meta by (simp add: enforce_aggregate_threshold_def file_dash_def bindS_def map_errS_def on_meta_def okS_def Let_def)
  note read = global_proposals_read[OF ids pull]
  have ts: "parse_from_rfc3339 ?P (status_timestamp (d_status (pr_proposal r))) = Some (status_instant ?P u (d_status (pr_proposal r)))"
    if "r \<in> set rows" for r using good[OF that] by (auto simp: status_instant_def parse_status_timestamp_def)
  show "list_global_proposals_handler G ?D (page_query limit None) s =
      (Inr (cut (global_proposal_view G s) (global_proposal_mark G ?D u) limit rows), s)"
    unfolding list_global_proposals_handler_def paged_handler_first[OF limit]
    by (rule list_global_proposals_page[OF thr _ _ ts _ codec limit])
      (use good in \<open>simp_all add: file_dash_def read rows wrong_kind_def global_proposal_after_def\<close>)
  fix i
  assume i: "i < length rows"
  have n: "d_nonce (pr_proposal (rows ! i)) < u64_bound" using good[OF nth_mem[OF i]] by simp
  have "distinct (map ?k (all_records ps ids))" using dist by (auto simp: rows distinct_map)
  from sort_filter_after[OF this, of i] i
  have after: "sort_key ?k (filter (global_proposal_after ?P u (Some (global_proposal_place ?P u (rows ! i)))) (all_records ps ids)) = drop (Suc i) rows"
    by (simp add: rows global_proposal_after_key[OF n, unfolded rows])
  let ?c = "cursor_global_proposals (status_instant ?P u (d_status (pr_proposal (rows ! i)))) (pr_account_id (rows ! i))
    (i64_wrap (int (d_nonce (pr_proposal (rows ! i))))) (pr_commitment (rows ! i))"
  have k: "CKGlobalProposals = cu_kind ?c" and c: "global_proposal_cursor_of ?c = Some (global_proposal_place ?P u (rows ! i))"
    by (simp_all add: cursor_global_proposals_def global_proposal_cursor_of_def global_proposal_place_def)
  show "list_global_proposals_handler G ?D (page_query limit (Some (global_proposal_mark G ?D u (rows ! i)))) s =
      (Inr (cut (global_proposal_view G s) (global_proposal_mark G ?D u) limit (drop (Suc i) rows)), s)"
    unfolding list_global_proposals_handler_def global_proposal_mark_def[of _ ?D u "rows ! i"] k paged_handler_later[OF limit codec]
    by (rule list_global_proposals_page[OF thr _ _ _ _ codec limit])
      (use good ts in_set_dropD[of _ "Suc i" rows] k in \<open>simp_all add: c read after wrong_kind_def, simp_all add: file_dash_def read after\<close>)
qed

end
