(* ===== verification/Dashboard_Instances.thy ===== *)
theory Dashboard_Instances
  imports Dashboard_Global Data_Properties
begin

text \<open>
  A codec that satisfies what the cursors rely on, and a small server with deltas of two accounts, on which the witnesses read the feeds.
\<close>

section \<open>A small codec and a small feed\<close>

text \<open>A cursor as text: its kind, then its fields, a character after a mark at a time; the tag is cut from the padded payload.\<close>

definition seal :: "string option \<Rightarrow> string" where
  "seal f = (case f of None \<Rightarrow> ''.'' | Some s \<Rightarrow> CHR ''+'' # concat (map (\<lambda>c. [CHR ''='', c]) s) @ ''.'')"

fun unseal_chars :: "string \<Rightarrow> string \<times> string" where
  "unseal_chars (a # c # rest) = (if a = CHR ''='' then apfst (Cons c) (unseal_chars rest) else ([], c # rest))"
| "unseal_chars rest = ([], [])"

definition unseal :: "string \<Rightarrow> string option \<times> string" where
  "unseal s = (if hd s = CHR ''+'' then apfst Some (unseal_chars (tl s)) else (None, tl s))"

lemma unseal_seal: "unseal (seal f @ rest) = (f, rest)"
proof -
  have "unseal_chars (concat (map (\<lambda>c. [CHR ''='', c]) s) @ CHR ''.'' # rest) = (s, rest)" for s
    by (induction s) (cases rest; simp)+
  then show ?thesis by (simp add: seal_def unseal_def split: option.splits)
qed

definition int_text :: "int \<Rightarrow> string" where
  "int_text i = (if i < 0 then CHR ''-'' else CHR ''+'') # replicate (nat (abs i)) (CHR ''1'')"

definition text_int :: "string \<Rightarrow> int" where
  "text_int t = (if hd t = CHR ''-'' then - int (length (tl t)) else int (length (tl t)))"

lemma text_int_text: "text_int (int_text i) = i"
  by (simp add: int_text_def text_int_def)

definition kinds :: "cursor_kind list" where
  "kinds = [CKAccountList, CKAccountDeltas, CKAccountProposals, CKGlobalDeltas, CKGlobalProposals]"

definition small_serialize :: "cursor \<Rightarrow> string" where
  "small_serialize c = seal (Some (show_cursor_kind (cu_kind c))) @ seal (map_option int_text (cu_last_nonce c)) @ seal (cu_last_account_id c) @
     seal (map_option int_text (cu_last_updated_at c)) @ seal (cu_last_commitment c)"

definition small_deserialize :: "string \<Rightarrow> cursor" where
  "small_deserialize t =
     (let (k, t) = unseal t; (n, t) = unseal t; (a, t) = unseal t; (u, t) = unseal t; (h, t) = unseal t in
      \<lparr> cu_kind = the (find (\<lambda>x. Some (show_cursor_kind x) = k) kinds), cu_last_nonce = map_option text_int n, cu_last_account_id = a,
        cu_last_updated_at = map_option text_int u, cu_last_commitment = h \<rparr>)"

definition small_codec :: cursor_codec where
  "small_codec = \<lparr> bincode_serialize = (\<lambda>c. Inr (small_serialize c)), bincode_deserialize = (\<lambda>t. Inr (small_deserialize t)),
     hmac_new = (\<lambda>secret. Inr (\<lambda>p. take 32 (p @ replicate 32 (CHR ''x'')))), b64url_encode = (\<lambda>t. t), b64url_decode = Inr \<rparr>"

lemma small_codec_ok: "codec_ok small_codec secret"
proof -
  have k: "the (find (\<lambda>x. show_cursor_kind x = show_cursor_kind k) kinds) = k" for k
    by (cases k) (simp_all add: kinds_def)
  have "small_deserialize (small_serialize c) = c" for c
    using unseal_seal[of "cu_last_commitment c" "[]"]
    by (cases c) (simp add: small_deserialize_def small_serialize_def unseal_seal k option.map_comp comp_def text_int_text option.map_ident)
  moreover have "small_serialize c \<noteq> []" for c by (simp add: small_serialize_def seal_def)
  ultimately show ?thesis by (simp add: codec_ok_def small_codec_def HMAC_TAG_LEN_def min_def)
qed

definition demo_second :: delta_object where
  "demo_second = demo_canonical \<lparr> d_nonce := 2, d_prev_commitment := ''c1'', d_status := Discarded ''t'' \<rparr>"

definition demo_other :: delta_object where
  "demo_other = demo_candidate \<lparr> d_account_id := ''bee'' \<rparr>"

definition demo_feed :: "(gcontent fsys, meta_fs, unit) gapp" where
  "demo_feed = demo_gapp \<lparr> ga_storage := \<lparr>
     fs_files = [([''g'', ''acc'', ''deltas'', ''1.json''], Intact (GDelta demo_canonical)),
       ([''g'', ''acc'', ''deltas'', ''2.json''], Intact (GDelta demo_second)), ([''g'', ''bee'', ''deltas'', ''1.json''], Intact (GDelta demo_other))],
     fs_dirs = [[''g''], [''g'', ''bee''], [''g'', ''acc''], [''g'', ''acc'', ''deltas''], [''g'', ''bee'', ''deltas'']],
     fs_faults = [], fs_stat_faults = [], fs_clock = [] \<rparr> \<rparr>"

definition demo_build :: build_info where
  "demo_build = \<lparr> bi_version = ''0.1'', bi_git_commit = ''abc'', bi_profile = ''release'' \<rparr>"

definition demo_rows :: "string \<Rightarrow> delta_object list" where
  "demo_rows a = (if a = ''acc'' then [demo_canonical, demo_second] else [demo_other])"

lemmas demo_deltas = demo_second_def demo_other_def demo_canonical_def demo_candidate_def demo_delta_def

lemma demo_feed_pull:
  "fs_pull_deltas_after [''g''] ''acc'' 0 (ga_storage demo_feed) = (Inr (demo_rows ''acc''), ga_storage demo_feed)"
  "fs_pull_deltas_after [''g''] ''bee'' 0 (ga_storage demo_feed) = (Inr (demo_rows ''bee''), ga_storage demo_feed)"
  by (simp_all add: demo_feed_def demo_deltas demo_rows_def fs_pull_deltas_after_def fs_pull_delta_def filename_parse_def parse_u64_def from_str_radix_def to_digit_def
      filename_nonce_def ends_with_def run_storage run_small run_fs run_nat cong: run_congs)

lemma demo_feed_ids: "fanout_account_ids [''g''] (ga_storage demo_feed) = (Inr [''acc'', ''bee''], ga_storage demo_feed)"
  by (simp add: demo_feed_def fanout_account_ids_def account_dirs_def run_storage run_small run_fs run_nat less_list_code cong: run_congs)

lemma demo_feed_view:
  assumes "fs_delta_view [''g''] (ga_storage demo_feed) a k = Some d"
  shows "(a, k, d) \<in> {(''acc'', 1, demo_canonical), (''acc'', 2, demo_second), (''bee'', 1, demo_other)}"
proof -
  have n: "show_nat k = ''1'' \<Longrightarrow> k = 1" "show_nat k = ''2'' \<Longrightarrow> k = 2" using show_nat_inj[of k 1] show_nat_inj[of k 2] by (simp_all add: show_small)
  show ?thesis using view_files(1)[OF _ assms] n by (auto simp: demo_feed_def)
qed

lemma demo_feed_ok: "guardian_ok [''g''] demo_feed"
proof -
  have "parents (ga_storage demo_feed)"
    by (auto simp: parents_def fget_def dir_get_def has_dir_def demo_feed_def split: if_splits)
  then have "fs_inv [''g''] (ga_storage demo_feed)" by (simp add: fs_inv_def demo_feed_def)
  moreover have "meta_inv (ga_meta demo_feed)" using demo_ok by (simp add: guardian_ok_def demo_feed_def)
  moreover have "gabs_ok plain_name (guardian_view [''g''] demo_feed)"
  proof -
    have m: "meta_view (ga_meta demo_feed) = [''acc'' \<mapsto> demo_metadata]" using demo_meta_view by (simp add: demo_feed_def)
    have p: "fs_prop_view [''g''] (ga_storage demo_feed) a h \<noteq> Some d" for a h d
      using view_files(2)[of "[''g'']" "ga_storage demo_feed" a h d] by (auto simp: demo_feed_def)
    have c: "candidates (fs_view [''g''] (ga_storage demo_feed)) a \<subseteq> (if a = ''bee'' then {1} else {})" for a
      by (auto simp: candidates_def demo_deltas dest!: demo_feed_view)
    have d: "d_account_id d = a \<and> d_nonce d = k \<and> k < u64_bound" if "fs_delta_view [''g''] (ga_storage demo_feed) a k = Some d" for a k d
      using demo_feed_view[OF that] fs_view_bound[OF that] by (auto simp: demo_deltas)
    have cc: "n = n'" if "n \<in> candidates (fs_view [''g''] (ga_storage demo_feed)) a" "n' \<in> candidates (fs_view [''g''] (ga_storage demo_feed)) a" for n n' a
      using c[of a] that by (auto split: if_splits)
    show ?thesis unfolding gabs_ok_def guardian_view_def
      using p d cc by (simp add: m plain_name_def)
  qed
  ultimately show ?thesis by (simp add: guardian_ok_def)
qed

lemma demo_feed_meta:
  "ms_get (ge_meta demo_genv) ''acc'' (ga_meta demo_feed) = (Inr (Some demo_metadata), ga_meta demo_feed)"
  "ms_list (ge_meta demo_genv) (ga_meta demo_feed) = (Inr [''acc''], ga_meta demo_feed)"
  by (simp_all add: demo_feed_def run_meta run_small run_fs run_nat meta_list_def cong: run_congs)

end
