(* ===== verification/Dashboard_Properties.thy ===== *)
theory Dashboard_Properties
  imports Dashboard_Instances
begin

text \<open>
  What the operators' dashboard shows of the deltas: a client that follows the cursors sees every delta of one account (C28) and of all
  accounts (C29), each once, newest first, whatever page size it asks for. The witnesses read the small server with two deltas, one row a page.
\<close>

lemma map_filter_Some:
  "(\<And>r. r \<in> set rows \<Longrightarrow> view r \<noteq> None) \<Longrightarrow> map view rows = map Some (List.map_filter view rows)"
  by (simp add: map_filter_total)

text \<open>What the file store reads for an account of a well-formed server.\<close>

lemma read_deltas:
  assumes "fs_pull_deltas_after app a 0 (ga_storage s) = (Inr ds, ga_storage s)" and "guardian_ok app s" and "plain_name a"
  shows "set ds = {d. \<exists>k. fs_delta_view app (ga_storage s) a k = Some d}"
    and "d \<in> set ds \<Longrightarrow> d_nonce d < u64_bound"
proof -
  show s: "set ds = {d. \<exists>k. fs_delta_view app (ga_storage s) a k = Some d}"
    using fs_pull_deltas_law[OF assms(1) _ assms(3)] assms(2) by (simp add: guardian_ok_def)
  show "d_nonce d < u64_bound" if "d \<in> set ds"
    using that assms(2) by (auto simp: s guardian_ok_def guardian_view_def dest: gabs_okD(2))
qed

text \<open>
  C28: A client that asks for the deltas of an account with any limit from 1 to 500 and follows the cursors, each sealed by the server
  and read back by it, gets within the expected number of requests an entry for exactly the deltas of the account that are not
  pending, each once, in strictly descending order of nonce. This holds while the files can be read and stay as they are.
\<close>

theorem delta_feed_complete:
  assumes "guardian_ok app s" and "plain_name a" and "codec_ok K secret"
    and "ms_get (ge_meta G) a (ga_meta s) = (Inr (Some m), ga_meta s)"
    and "fs_pull_deltas_after app a 0 (ga_storage s) = (Inr ds, ga_storage s)" and "distinct (map d_nonce ds)"
    and "0 < limit" and "limit \<le> MAX_LIMIT" and "0 < n" and "length ds \<le> n * limit"
  shows "\<exists>rows es. walk (\<lambda>cur. list_account_deltas_handler G (file_dash app P u K secret config build t0) a (page_query limit cur)) n None s = Some es \<and>
    map delta_entry_from rows = map Some es \<and> sorted_wrt (\<lambda>d e. d_nonce e < d_nonce d) rows \<and>
    set rows = {d. (\<exists>k. fs_delta_view app (ga_storage s) a k = Some d) \<and> \<not> is_pending (d_status d)}"
proof -
  let ?np = "filter (\<lambda>d. \<not> is_pending (d_status d)) ds"
  let ?rows = "sort_key (\<lambda>d. - int (d_nonce d)) ?np"
  have rest: "deltas_at_rest app G K secret a s ?rows"
    using assms(3-6) read_deltas(2)[OF assms(5,1,2)] by (auto simp: deltas_at_rest_def list_all_iff)
  have "length ?rows \<le> n * limit" using assms(10) by (auto intro: order_trans[OF length_filter_le])
  note w = account_delta_feed.walk_feed[OF rest assms(7,8) this assms(9)]
  have "map delta_entry_from ?rows = map Some (List.map_filter delta_entry_from ?rows)"
    by (rule map_filter_Some) (use delta_entry_some in fastforce)
  moreover have "sorted_wrt (\<lambda>d e. d_nonce e < d_nonce d) ?rows"
  proof -
    have "distinct (map (\<lambda>d. - int (d_nonce d)) ?rows)"
      using assms(6) by (auto simp: distinct_map inj_on_def)
    then have "sorted_wrt (<) (map (\<lambda>d. - int (d_nonce d)) ?rows)" by (simp add: strict_sorted_iff)
    then show ?thesis by (simp add: sorted_wrt_map)
  qed
  moreover have "set ?rows = {d. (\<exists>k. fs_delta_view app (ga_storage s) a k = Some d) \<and> \<not> is_pending (d_status d)}"
    using read_deltas(1)[OF assms(5,1,2)] by auto
  ultimately show ?thesis using w by blast
qed

theorem delta_feed_complete_witness:
  "\<exists>rows es. walk (\<lambda>cur. list_account_deltas_handler demo_genv (file_dash [''g''] (ge_chrono demo_genv) 0 small_codec ''k'' dashboard_config_default demo_build 0)
      ''acc'' (page_query 1 cur)) 2 None demo_feed = Some es \<and>
    map delta_entry_from rows = map Some es \<and> sorted_wrt (\<lambda>d e. d_nonce e < d_nonce d) rows \<and>
    set rows = {d. (\<exists>k. fs_delta_view [''g''] (ga_storage demo_feed) ''acc'' k = Some d) \<and> \<not> is_pending (d_status d)}"
  by (rule delta_feed_complete[OF demo_feed_ok _ small_codec_ok demo_feed_meta(1) demo_feed_pull(1)])
    (simp_all add: plain_name_def demo_rows_def demo_deltas MAX_LIMIT_def)

text \<open>
  C29: The feed over all accounts: with any limit from 1 to 500 and any status filter that parses, following the cursors gives within
  the expected number of requests an entry for exactly the deltas of the listed accounts that are not pending and pass the filter,
  each once, newest first, then by account and nonce. This holds while the files can be read and stay as they are, every status time
  is readable, and the server has no more accounts than the configured threshold.
\<close>

theorem global_delta_feed_complete:
  assumes "guardian_ok app s" and "codec_ok K secret" and "parse_status_filter status = Inr flt"
    and "ms_list (ge_meta G) (ga_meta s) = (Inr known, ga_meta s)" and "length known \<le> dc_filesystem_aggregate_threshold config"
    and "fanout_account_ids app (ga_storage s) = (Inr ids, ga_storage s)" and "distinct ids" and "list_all plain_name ids"
    and "list_all (\<lambda>a. fs_pull_deltas_after app a 0 (ga_storage s) = (Inr (ds a), ga_storage s) \<and> distinct (map d_nonce (ds a)) \<and>
      list_all (\<lambda>d. status_timestamp (d_status d) \<noteq> '''' \<and> parse_from_rfc3339 (ge_chrono G) (status_timestamp (d_status d)) \<noteq> None) (ds a)) ids"
    and "0 < limit" and "limit \<le> MAX_LIMIT" and "0 < n" and "length (concat (map ds ids)) \<le> n * limit"
  shows "\<exists>rows es. walk (\<lambda>cur. list_global_deltas_handler G (file_dash app (ge_chrono G) u K secret config build t0) status (page_query limit cur)) n None s
      = Some es \<and> map global_entry_from rows = map Some es \<and> sorted_wrt (<) (map (global_delta_key (ge_chrono G) u) rows) \<and>
    set rows = {r. gdr_account_id r \<in> set ids \<and> (\<exists>k. fs_delta_view app (ga_storage s) (gdr_account_id r) k = Some (gdr_delta r)) \<and>
      surfaced (map_option (map map_status_filter) flt) (gdr_delta r)}"
proof -
  let ?k = "global_delta_key (ge_chrono G) u"
  let ?f = "map_option (map map_status_filter) flt"
  let ?rows = "sort_key ?k (all_rows ?f ds ids)"
  have pull: "fs_pull_deltas_after app a 0 (ga_storage s) = (Inr (ds a), ga_storage s)" and dist: "distinct (map d_nonce (ds a))"
    and ts: "\<And>d. d \<in> set (ds a) \<Longrightarrow> status_timestamp (d_status d) \<noteq> '''' \<and> parse_from_rfc3339 (ge_chrono G) (status_timestamp (d_status d)) \<noteq> None"
    and nm: "plain_name a" if "a \<in> set ids" for a
    using that assms(8,9) by (auto simp: list_all_iff)
  note rd = read_deltas[OF pull assms(1) nm]
  have dk: "distinct (map ?k ?rows)" using distinct_all_rows[OF assms(7) dist] by (auto simp: distinct_map)
  have rest: "global_deltas_at_rest app G u K secret config status s ?rows"
    unfolding global_deltas_at_rest_def
    using assms(2-6) pull dk rd(2) ts by (auto simp: list_all_iff all_rows_def)
  have "length ?rows \<le> n * limit" using assms(13) length_all_rows[of ?f ds ids] by simp
  note w = global_delta_feed.walk_feed[OF rest assms(10,11) this assms(12)]
  have "map global_entry_from ?rows = map Some (List.map_filter global_entry_from ?rows)"
    by (rule map_filter_Some) (auto simp: all_rows_set dest!: surfaced_not_pending global_entry_some)
  moreover have "sorted_wrt (<) (map ?k ?rows)" using dk by (simp add: strict_sorted_iff)
  moreover have "set ?rows = {r. gdr_account_id r \<in> set ids \<and> (\<exists>k. fs_delta_view app (ga_storage s) (gdr_account_id r) k = Some (gdr_delta r)) \<and>
      surfaced ?f (gdr_delta r)}"
    by (auto simp: all_rows_set rd(1))
  ultimately show ?thesis using w by blast
qed

theorem global_delta_feed_complete_witness:
  "\<exists>rows es. walk (\<lambda>cur. list_global_deltas_handler demo_genv (file_dash [''g''] (ge_chrono demo_genv) 0 small_codec ''k'' dashboard_config_default demo_build 0)
      (Some ''candidate,discarded'') (page_query 1 cur)) 3 None demo_feed = Some es \<and>
    map global_entry_from rows = map Some es \<and> sorted_wrt (<) (map (global_delta_key (ge_chrono demo_genv) 0) rows) \<and>
    set rows = {r. gdr_account_id r \<in> set [''acc'', ''bee''] \<and> (\<exists>k. fs_delta_view [''g''] (ga_storage demo_feed) (gdr_account_id r) k = Some (gdr_delta r)) \<and>
      surfaced (map_option (map map_status_filter) (Some [DCandidate, DDiscarded])) (gdr_delta r)}"
proof -
  have f: "parse_status_filter (Some ''candidate,discarded'') = Inr (Some [DCandidate, DDiscarded])" by code_simp
  show ?thesis
    by (rule global_delta_feed_complete[OF demo_feed_ok small_codec_ok f demo_feed_meta(2) _ demo_feed_ids, where ds = demo_rows])
      (simp_all add: plain_name_def demo_feed_pull demo_env demo_genv_def, simp_all add: demo_rows_def demo_deltas dashboard_config_default_def MAX_LIMIT_def)
qed

end
