(* ===== verification/Guardian_Http.thy ===== *)
theory Guardian_Http
  imports Guardian_Instances
begin

text \<open>
  The HTTP endpoints of the delta API (\<open>server/src/api/http.rs\<close>): a handler takes the credentials from the headers and the query or
  body as parsed, binds the digest of its canonical JSON to the credentials, calls the service and chooses status and body. \<open>serde_error\<close> is
  the text of a failed deserialisation.
\<close>

section \<open>Requests and responses\<close>

record configure_request =
  hc_account_id :: string
  hc_auth :: auth
  hc_network_config :: "network_config option"
  hc_initial_state :: json

record delta_query =
  dq_account_id :: string
  dq_nonce :: nat

record state_query =
  sq_account_id :: string

record lookup_query =
  lq_key_commitment :: string

record lookup_response_account =
  la_account_id :: string

record proposal_query =
  pq_account_id :: string

record proposal_item_query =
  pi_account_id :: string
  pi_commitment :: string

record delta_proposal_request =
  dpr_account_id :: string
  dpr_nonce :: nat
  dpr_delta_payload :: json

record sign_proposal_request =
  spr_account_id :: string
  spr_commitment :: string
  spr_signature :: proposal_signature

record configure_response =
  cres_success :: bool
  cres_message :: string
  cres_ack_pubkey :: "string option"
  cres_ack_commitment :: "string option"
  cres_code :: "string option"

record pubkey_response =
  pk_commitment :: string
  pk_pubkey :: "string option"

record delta_proposal_response =
  dpo_delta :: delta_object
  dpo_commitment :: string

section \<open>JSON of the requests\<close>

fun auth_to_json :: "auth \<Rightarrow> json" where
  "auth_to_json (MidenFalconRpo cs) = JObject [(''MidenFalconRpo'', JObject [(''cosigner_commitments'', JArray (map JString cs))])]"
| "auth_to_json (MidenEcdsa cs) = JObject [(''MidenEcdsa'', JObject [(''cosigner_commitments'', JArray (map JString cs))])]"
| "auth_to_json (EvmEcdsa signers) = JObject [(''EvmEcdsa'', JObject [(''signers'', JArray (map JString signers))])]"

fun network_type_to_json :: "miden_network_type \<Rightarrow> json" where
  "network_type_to_json Local = JString ''local''"
| "network_type_to_json Devnet = JString ''devnet''"
| "network_type_to_json Testnet = JString ''testnet''"

fun network_config_to_json :: "network_config \<Rightarrow> json" where
  "network_config_to_json (NetMiden t) = JObject [(''kind'', JString ''miden''), (''network_type'', network_type_to_json t)]"
| "network_config_to_json (NetEvm chain account validator) =
     JObject [(''kind'', JString ''evm''), (''chain_id'', JNum (PosInt chain)), (''account_address'', JString account),
       (''multisig_validator_address'', JString validator)]"

definition configure_request_to_json :: "configure_request \<Rightarrow> json" where
  "configure_request_to_json r =
     JObject ([(''account_id'', JString (hc_account_id r)), (''auth'', auth_to_json (hc_auth r))]
       @ (case hc_network_config r of None \<Rightarrow> [] | Some c \<Rightarrow> [(''network_config'', network_config_to_json c)])
       @ [(''initial_state'', hc_initial_state r)])"

definition delta_query_to_json :: "delta_query \<Rightarrow> json" where
  "delta_query_to_json q = JObject [(''account_id'', JString (dq_account_id q)), (''nonce'', JNum (PosInt (dq_nonce q)))]"

definition state_query_to_json :: "state_query \<Rightarrow> json" where
  "state_query_to_json q = JObject [(''account_id'', JString (sq_account_id q))]"

definition proposal_query_to_json :: "proposal_query \<Rightarrow> json" where
  "proposal_query_to_json q = JObject [(''account_id'', JString (pq_account_id q))]"

definition proposal_item_query_to_json :: "proposal_item_query \<Rightarrow> json" where
  "proposal_item_query_to_json q = JObject [(''account_id'', JString (pi_account_id q)), (''commitment'', JString (pi_commitment q))]"

definition delta_proposal_request_to_json :: "delta_proposal_request \<Rightarrow> json" where
  "delta_proposal_request_to_json r =
     JObject [(''account_id'', JString (dpr_account_id r)), (''nonce'', JNum (PosInt (dpr_nonce r))), (''delta_payload'', dpr_delta_payload r)]"

definition sign_proposal_request_to_json :: "sign_proposal_request \<Rightarrow> json" where
  "sign_proposal_request_to_json r =
     JObject [(''account_id'', JString (spr_account_id r)), (''commitment'', JString (spr_commitment r)),
       (''signature'', proposal_signature_to_json (spr_signature r))]"

section \<open>The signed payload\<close>

record request_payload_parts =
  rp_payload :: mword
  rp_bytes :: string

definition apply_to :: "request_payload_parts \<Rightarrow> credentials \<Rightarrow> credentials" where
  "apply_to p c = with_request_payload_bytes (rp_bytes p) (with_request_payload (rp_payload p) c)"

definition request_payload_from_value :: "('sig, 'pk, 'su, 'n) externals \<Rightarrow> json \<Rightarrow> string + request_payload_parts" where
  "request_payload_from_value X v =
     bind_res (map_err (\<lambda>e. ''Failed to serialize JSON: '' @ e) (json_to_vec X (canonicalize_json v))) (\<lambda>bytes.
     Inr \<lparr> rp_payload = payload_from_bytes X bytes, rp_bytes = bytes \<rparr>)"

section \<open>Handlers\<close>

definition delta_default :: delta_object where
  "delta_default = \<lparr> d_account_id = [], d_nonce = 0, d_prev_commitment = [], d_new_commitment = None, d_payload = JNull,
     d_ack_sig = [], d_ack_pubkey = [], d_ack_scheme = [], d_status = status_default \<rparr>"

definition state_default :: state_object where
  "state_default = \<lparr> so_account_id = [], so_state_json = JNull, so_commitment = [], so_created_at = [], so_updated_at = [], so_auth_scheme = [] \<rparr>"

text \<open>An error travels in the account field of an otherwise empty object.\<close>

definition delta_error :: "string \<Rightarrow> delta_object" where
  "delta_error e = delta_default \<lparr> d_account_id := e \<rparr>"

definition state_error :: "string \<Rightarrow> state_object" where
  "state_error e = state_default \<lparr> so_account_id := e \<rparr>"

text \<open>What the handlers share: digest of the request, then the service under the completed credentials, then a status and a body for the outcome.\<close>

definition serve ::
  "('sig, 'pk, 'su, 'n) externals \<Rightarrow> json \<Rightarrow> credentials \<Rightarrow> (string \<Rightarrow> nat \<times> 'b) \<Rightarrow> (guardian_error + 'a \<Rightarrow> nat \<times> 'b)
   \<Rightarrow> (credentials \<Rightarrow> ('st, 'ms, 'nc, 'a) service) \<Rightarrow> ('st, 'ms, 'nc, nat \<times> 'b) service" where
  "serve X v creds bad answer f =
     (case request_payload_from_value X v of
        Inl e \<Rightarrow> okS (bad e)
      | Inr p \<Rightarrow> observeS (f (apply_to p creds)) (\<lambda>r. okS (answer r)))"

definition answer_with :: "nat \<Rightarrow> (string \<Rightarrow> 'b) \<Rightarrow> ('a \<Rightarrow> 'b) \<Rightarrow> guardian_error + 'a \<Rightarrow> nat \<times> 'b" where
  "answer_with status bad good r = (case r of Inr a \<Rightarrow> (200, good a) | Inl e \<Rightarrow> (status, bad (show_guardian_error e)))"

definition miden_default :: network_config where
  "miden_default = NetMiden Local"

definition configure_params :: "configure_request \<Rightarrow> credentials \<Rightarrow> configure_account_params" where
  "configure_params r creds =
     \<lparr> ca_account_id = hc_account_id r, ca_auth = hc_auth r,
       ca_network_config = (case hc_network_config r of Some c \<Rightarrow> c | None \<Rightarrow> miden_default),
       ca_initial_state = hc_initial_state r, ca_credential = creds \<rparr>"

definition configure_failed :: "string \<Rightarrow> string option \<Rightarrow> configure_response" where
  "configure_failed msg code =
     \<lparr> cres_success = False, cres_message = msg, cres_ack_pubkey = None, cres_ack_commitment = None, cres_code = code \<rparr>"

definition http_configure ::
  "('sig, 'pk, 'su, 'n) externals \<Rightarrow> ('sig, 'esig, 'epk) ecdsa_auth \<Rightarrow> ('st, 'ms, 'nc) genv \<Rightarrow> credentials \<Rightarrow> configure_request
   \<Rightarrow> ('st, 'ms, 'nc, nat \<times> configure_response) service" where
  "http_configure X E G creds r =
     serve X (configure_request_to_json r) creds (\<lambda>e. (400, configure_failed e None))
       (\<lambda>res. case res of
          Inr (account_id, pubkey, commitment) \<Rightarrow>
            (200, \<lparr> cres_success = True, cres_message = ''Account '' @ quoted account_id @ '' configured successfully'',
                    cres_ack_pubkey = Some pubkey, cres_ack_commitment = Some commitment, cres_code = None \<rparr>)
        | Inl e \<Rightarrow> (http_status e, configure_failed (show_guardian_error e) (Some (error_code e))))
       (\<lambda>c. configure_account X E G (configure_params r c))"

text \<open>\<open>push_delta\<close> digests the body as received, before it reads the delta from it.\<close>

definition http_push_delta ::
  "('sig, 'pk, 'su, 'n) externals \<Rightarrow> ('sig, 'esig, 'epk) ecdsa_auth \<Rightarrow> ('st, 'ms, 'nc) genv \<Rightarrow> (json \<Rightarrow> string) \<Rightarrow> credentials \<Rightarrow> json
   \<Rightarrow> ('st, 'ms, 'nc, nat \<times> delta_object) service" where
  "http_push_delta X E G serde_error creds v =
     (case request_payload_from_value X v of
        Inl e \<Rightarrow> okS (400, delta_error e)
      | Inr p \<Rightarrow> (case delta_from_json v of
            None \<Rightarrow> okS (400, delta_error (''Invalid delta payload: '' @ serde_error v))
          | Some delta \<Rightarrow> observeS (push_delta X E G delta (apply_to p creds)) (\<lambda>r. okS (answer_with 400 delta_error id r))))"

definition http_get_delta ::
  "('sig, 'pk, 'su, 'n) externals \<Rightarrow> ('sig, 'esig, 'epk) ecdsa_auth \<Rightarrow> ('st, 'ms, 'nc) genv \<Rightarrow> credentials \<Rightarrow> delta_query
   \<Rightarrow> ('st, 'ms, 'nc, nat \<times> delta_object) service" where
  "http_get_delta X E G creds q =
     serve X (delta_query_to_json q) creds (\<lambda>e. (400, delta_error e)) (answer_with 404 delta_error id)
       (get_delta X E G (dq_account_id q) (dq_nonce q))"

definition http_get_delta_since ::
  "('sig, 'pk, 'su, 'n) externals \<Rightarrow> ('sig, 'esig, 'epk) ecdsa_auth \<Rightarrow> ('st, 'ms, 'nc) genv \<Rightarrow> credentials \<Rightarrow> delta_query
   \<Rightarrow> ('st, 'ms, 'nc, nat \<times> delta_object) service" where
  "http_get_delta_since X E G creds q =
     serve X (delta_query_to_json q) creds (\<lambda>e. (400, delta_error e)) (answer_with 404 delta_error id)
       (get_delta_since X E G (dq_account_id q) (dq_nonce q))"

definition http_get_state ::
  "('sig, 'pk, 'su, 'n) externals \<Rightarrow> ('sig, 'esig, 'epk) ecdsa_auth \<Rightarrow> ('st, 'ms, 'nc) genv \<Rightarrow> credentials \<Rightarrow> state_query
   \<Rightarrow> ('st, 'ms, 'nc, nat \<times> state_object) service" where
  "http_get_state X E G creds q =
     serve X (state_query_to_json q) creds (\<lambda>e. (400, state_error e)) (answer_with 404 state_error id) (get_state X E G (sq_account_id q))"

text \<open>The lookup signs the queried key, not the request; its errors keep their status.\<close>

definition http_lookup ::
  "('sig, 'pk, 'su, 'n) externals \<Rightarrow> ('sig, 'esig, 'epk) ecdsa_auth \<Rightarrow> ('st, 'ms, 'nc) genv \<Rightarrow> credentials \<Rightarrow> lookup_query
   \<Rightarrow> ('st, 'ms, 'nc, lookup_response_account list) service" where
  "http_lookup X E G creds q =
     bindS (lookup_account X E G (lq_key_commitment q) creds) (\<lambda>accounts. okS (map (\<lambda>a. \<lparr> la_account_id = a \<rparr>) accounts))"

definition http_get_pubkey :: "ack_registry \<Rightarrow> string option \<Rightarrow> nat \<times> pubkey_response" where
  "http_get_pubkey A query =
     (let scheme = (case query of Some s \<Rightarrow> if eq_ignore_ascii_case s ''ecdsa'' then Ecdsa else Falcon | None \<Rightarrow> Falcon) in
      (200, \<lparr> pk_commitment = ack_commitment A scheme, pk_pubkey = (if scheme = Ecdsa then Some (ack_pubkey A scheme) else None) \<rparr>))"

definition proposal_error :: "string \<Rightarrow> delta_proposal_response" where
  "proposal_error e = \<lparr> dpo_delta = delta_error e, dpo_commitment = [] \<rparr>"

definition http_push_delta_proposal ::
  "('sig, 'pk, 'su, 'n) externals \<Rightarrow> ('sig, 'esig, 'epk) ecdsa_auth \<Rightarrow> ('st, 'ms, 'nc) genv \<Rightarrow> credentials \<Rightarrow> delta_proposal_request
   \<Rightarrow> ('st, 'ms, 'nc, nat \<times> delta_proposal_response) service" where
  "http_push_delta_proposal X E G creds r =
     serve X (delta_proposal_request_to_json r) creds (\<lambda>e. (400, proposal_error e))
       (answer_with 400 proposal_error (\<lambda>(delta, commitment). \<lparr> dpo_delta = delta, dpo_commitment = commitment \<rparr>))
       (push_delta_proposal X E G (dpr_account_id r) (dpr_nonce r) (dpr_delta_payload r))"

definition http_get_delta_proposals ::
  "('sig, 'pk, 'su, 'n) externals \<Rightarrow> ('sig, 'esig, 'epk) ecdsa_auth \<Rightarrow> ('st, 'ms, 'nc) genv \<Rightarrow> credentials \<Rightarrow> proposal_query
   \<Rightarrow> ('st, 'ms, 'nc, nat \<times> delta_object list) service" where
  "http_get_delta_proposals X E G creds q =
     serve X (proposal_query_to_json q) creds (\<lambda>_. (200, [])) (answer_with 200 (\<lambda>_. []) id) (get_delta_proposals X E G (pq_account_id q))"

definition http_get_delta_proposal ::
  "('sig, 'pk, 'su, 'n) externals \<Rightarrow> ('sig, 'esig, 'epk) ecdsa_auth \<Rightarrow> ('st, 'ms, 'nc) genv \<Rightarrow> credentials \<Rightarrow> proposal_item_query
   \<Rightarrow> ('st, 'ms, 'nc, nat \<times> delta_object) service" where
  "http_get_delta_proposal X E G creds q =
     serve X (proposal_item_query_to_json q) creds (\<lambda>e. (400, delta_error e)) (answer_with 404 delta_error id)
       (get_delta_proposal X E G (pi_account_id q) (pi_commitment q))"

definition http_sign_delta_proposal ::
  "('sig, 'pk, 'su, 'n) externals \<Rightarrow> ('sig, 'esig, 'epk) ecdsa_auth \<Rightarrow> ('st, 'ms, 'nc) genv \<Rightarrow> credentials \<Rightarrow> sign_proposal_request
   \<Rightarrow> ('st, 'ms, 'nc, nat \<times> delta_object) service" where
  "http_sign_delta_proposal X E G creds r =
     serve X (sign_proposal_request_to_json r) creds (\<lambda>e. (400, delta_error e)) (answer_with 400 delta_error id)
       (sign_delta_proposal X E G (spr_account_id r) (spr_commitment r) (spr_signature r))"

section \<open>The routes that a signature of the account opens (builder/handle.rs)\<close>

datatype http_call =
    HPushDelta json | HGetDelta delta_query | HGetDeltaSince delta_query | HGetState state_query
  | HPushProposal delta_proposal_request | HSignProposal sign_proposal_request
  | HGetProposal proposal_item_query | HGetProposals proposal_query

datatype http_body = BDelta delta_object | BState state_object | BProposal delta_proposal_response | BProposals "delta_object list"

text \<open>The extractor \<open>AuthHeader\<close> runs first and refuses a request without readable credentials.\<close>

definition auth_header :: "headers \<Rightarrow> guardian_error + credentials" where
  "auth_header hs = map_err AuthenticationFailed (extract_credentials_http hs)"

definition with_body :: "('a \<Rightarrow> http_body) \<Rightarrow> ('st, 'ms, 'nc, nat \<times> 'a) service \<Rightarrow> ('st, 'ms, 'nc, nat \<times> http_body) service" where
  "with_body B f = bindS f (\<lambda>(status, a). okS (status, B a))"

fun route ::
  "('sig, 'pk, 'su, 'n) externals \<Rightarrow> ('sig, 'esig, 'epk) ecdsa_auth \<Rightarrow> ('st, 'ms, 'nc) genv \<Rightarrow> (json \<Rightarrow> string) \<Rightarrow> credentials \<Rightarrow> http_call
   \<Rightarrow> ('st, 'ms, 'nc, nat \<times> http_body) service" where
  "route X E G serde_error c (HPushDelta v) = with_body BDelta (http_push_delta X E G serde_error c v)"
| "route X E G serde_error c (HGetDelta q) = with_body BDelta (http_get_delta X E G c q)"
| "route X E G serde_error c (HGetDeltaSince q) = with_body BDelta (http_get_delta_since X E G c q)"
| "route X E G serde_error c (HGetState q) = with_body BState (http_get_state X E G c q)"
| "route X E G serde_error c (HPushProposal r) = with_body BProposal (http_push_delta_proposal X E G c r)"
| "route X E G serde_error c (HSignProposal r) = with_body BDelta (http_sign_delta_proposal X E G c r)"
| "route X E G serde_error c (HGetProposal q) = with_body BDelta (http_get_delta_proposal X E G c q)"
| "route X E G serde_error c (HGetProposals q) = with_body BProposals (http_get_delta_proposals X E G c q)"

definition http_serve ::
  "('sig, 'pk, 'su, 'n) externals \<Rightarrow> ('sig, 'esig, 'epk) ecdsa_auth \<Rightarrow> ('st, 'ms, 'nc) genv \<Rightarrow> (json \<Rightarrow> string) \<Rightarrow> headers \<Rightarrow> http_call
   \<Rightarrow> ('st, 'ms, 'nc, nat \<times> http_body) service" where
  "http_serve X E G serde_error hs call = bindS (liftS (auth_header hs)) (\<lambda>c. route X E G serde_error c call)"

end
