(* ===== verification/Guardian_Grpc.thy ===== *)
theory Guardian_Grpc
  imports Guardian_Instances
begin

text \<open>
  The gRPC endpoints of the delta API (\<open>server/src/api/grpc.rs\<close> over the messages of \<open>proto/guardian.proto\<close>): a handler binds the digest of the
  encoded message to the credentials from the metadata, calls the service and answers in the message itself; only unreadable
  requests and the lookup answer with a status. The encoding of messages and the text of JSON values are a parameter.
\<close>

section \<open>Messages (proto/guardian.proto)\<close>

datatype proto_network = ProtoMiden string | ProtoEvm nat string string

record proto_signature =
  ps_scheme :: string
  ps_signature :: string
  ps_public_key_field :: "string option"

record proto_cosigner =
  pc_signer_id :: string
  pc_signature :: "proto_signature option"
  pc_timestamp :: string

datatype proto_status = ProtoPending string string "proto_cosigner list" | CandidateAt string | CanonicalAt string | DiscardedAt string

record proto_delta =
  pd_account_id :: string
  pd_nonce :: nat
  pd_prev_commitment :: string
  pd_delta_payload :: string
  pd_new_commitment :: string
  pd_ack_sig :: string
  pd_candidate_at :: string
  pd_canonical_at :: "string option"
  pd_discarded_at :: "string option"
  pd_status :: "proto_status option"
  pd_ack_pubkey :: "string option"
  pd_ack_scheme :: "string option"

record proto_state =
  pst_account_id :: string
  pst_state_json :: string
  pst_commitment :: string
  pst_created_at :: string
  pst_updated_at :: string
  pst_auth_scheme :: "string option"

text \<open>Each request with its fields in order; an absent message is \<open>None\<close>, and so is an unset variant inside the authorisation or the network.\<close>

datatype grpc_request =
    GConfigure string "auth option option" string "proto_network option option"
  | GPushDelta string nat string string
  | GGetDelta string nat
  | GGetDeltaSince string nat
  | GGetState string
  | GPushProposal string nat string
  | GGetProposals string
  | GGetProposal string string
  | GSignProposal string string "proto_signature option"
  | GLookup string

text \<open>Success, message and error code are in every response; \<open>gr_body\<close> holds the other fields.\<close>

record 'b grpc_reply =
  gr_success :: bool
  gr_message :: string
  gr_body :: 'b
  gr_error_code :: string

record grpc_codec =
  encode_to_vec :: "grpc_request \<Rightarrow> string"
  json_from_str :: "string \<Rightarrow> string + json"
  json_to_string :: "json \<Rightarrow> string"

section \<open>Conversions\<close>

fun proposal_signature_to_proto :: "proposal_signature \<Rightarrow> proto_signature" where
  "proposal_signature_to_proto (PSFalcon sg) = \<lparr> ps_scheme = ''falcon'', ps_signature = sg, ps_public_key_field = None \<rparr>"
| "proposal_signature_to_proto (PSEcdsa sg pk) = \<lparr> ps_scheme = ''ecdsa'', ps_signature = sg, ps_public_key_field = pk \<rparr>"

definition proto_signature_to_internal :: "proto_signature \<Rightarrow> (grpc_code \<times> string) + proposal_signature" where
  "proto_signature_to_internal p =
     (if ps_scheme p = ''falcon'' then Inr (PSFalcon (ps_signature p))
      else if ps_scheme p = ''ecdsa'' then Inr (PSEcdsa (ps_signature p) (ps_public_key_field p))
      else Inl (GrpcInvalidArgument, ''Unknown signature scheme: '' @ ps_scheme p))"

definition cosigner_to_proto :: "cosigner_signature \<Rightarrow> proto_cosigner" where
  "cosigner_to_proto c = \<lparr> pc_signer_id = cs_signer_id c, pc_signature = Some (proposal_signature_to_proto (cs_signature c)), pc_timestamp = cs_timestamp c \<rparr>"

fun status_to_proto :: "delta_status \<Rightarrow> proto_status" where
  "status_to_proto (Pending ts proposer sigs) = ProtoPending ts proposer (map cosigner_to_proto sigs)"
| "status_to_proto (Candidate ts _) = CandidateAt ts"
| "status_to_proto (Canonical ts) = CanonicalAt ts"
| "status_to_proto (Discarded ts) = DiscardedAt ts"

fun status_times :: "delta_status \<Rightarrow> string option \<times> string option \<times> string option" where
  "status_times (Pending ts _ _) = (Some ts, None, None)"
| "status_times (Candidate ts _) = (Some ts, None, None)"
| "status_times (Canonical ts) = (Some ts, Some ts, None)"
| "status_times (Discarded ts) = (None, None, Some ts)"

definition delta_to_proto :: "grpc_codec \<Rightarrow> delta_object \<Rightarrow> proto_delta" where
  "delta_to_proto K d =
     (let (candidate_at, canonical_at, discarded_at) = status_times (d_status d) in
      \<lparr> pd_account_id = d_account_id d, pd_nonce = d_nonce d, pd_prev_commitment = d_prev_commitment d,
        pd_delta_payload = json_to_string K (d_payload d),
        pd_new_commitment = (case d_new_commitment d of Some c \<Rightarrow> c | None \<Rightarrow> []), pd_ack_sig = d_ack_sig d,
        pd_candidate_at = (case candidate_at of Some t \<Rightarrow> t | None \<Rightarrow> []), pd_canonical_at = canonical_at, pd_discarded_at = discarded_at,
        pd_status = Some (status_to_proto (d_status d)), pd_ack_pubkey = Some (d_ack_pubkey d), pd_ack_scheme = Some (d_ack_scheme d) \<rparr>)"

definition state_to_proto :: "grpc_codec \<Rightarrow> state_object \<Rightarrow> proto_state" where
  "state_to_proto K st =
     \<lparr> pst_account_id = so_account_id st, pst_state_json = json_to_string K (so_state_json st), pst_commitment = so_commitment st,
       pst_created_at = so_created_at st, pst_updated_at = so_updated_at st, pst_auth_scheme = Some (so_auth_scheme st) \<rparr>"

definition miden_network_of :: "string \<Rightarrow> string + miden_network_type" where
  "miden_network_of text =
     (let t = to_ascii_lowercase text in
      if t = ''local'' \<or> t = ''midenlocal'' then Inr Local
      else if t = ''devnet'' \<or> t = ''midendevnet'' then Inr Devnet
      else if t = ''testnet'' \<or> t = ''midentestnet'' then Inr Testnet
      else Inl (''unsupported Miden network_type: '' @ t))"

definition network_try_from :: "proto_network option \<Rightarrow> string + network_config" where
  "network_try_from config =
     (case config of
        Some (ProtoMiden t) \<Rightarrow> map_sum id NetMiden (miden_network_of t)
      | Some (ProtoEvm chain account validator) \<Rightarrow> Inr (NetEvm chain account validator)
      | None \<Rightarrow> Inl ''Network type not specified'')"

section \<open>Handlers\<close>

type_synonym ('st, 'ms, 'nc, 'a) grpc_service = "(('st, 'ms, 'nc) gapp, grpc_code \<times> string, 'a) comp"

definition authenticated_request ::
  "('sig, 'pk, 'su, 'n) externals \<Rightarrow> grpc_codec \<Rightarrow> headers \<Rightarrow> grpc_request \<Rightarrow> (grpc_code \<times> string) + credentials" where
  "authenticated_request X K hs req =
     (let request_bytes = encode_to_vec K req in
      map_sum id (\<lambda>c. with_request_payload_bytes request_bytes (with_request_payload (payload_from_bytes X request_bytes) c))
        (extract_credentials_grpc hs))"

definition invalid_argument :: "string \<Rightarrow> string + 'a \<Rightarrow> (grpc_code \<times> string) + 'a" where
  "invalid_argument what r = map_err (\<lambda>e. (GrpcInvalidArgument, what @ e)) r"

text \<open>The outcome of a service as a response: \<open>good\<close> the fields of success, \<open>none\<close> the empty ones.\<close>

definition reply_with :: "string \<Rightarrow> ('a \<Rightarrow> 'b) \<Rightarrow> 'b \<Rightarrow> ('st, 'ms, 'nc, 'a) service \<Rightarrow> ('st, 'ms, 'nc, 'b grpc_reply) grpc_service" where
  "reply_with msg good none f =
     observeS f (\<lambda>r. okS (case r of
        Inr a \<Rightarrow> \<lparr> gr_success = True, gr_message = msg, gr_body = good a, gr_error_code = [] \<rparr>
      | Inl e \<Rightarrow> \<lparr> gr_success = False, gr_message = show_guardian_error e, gr_body = none, gr_error_code = error_code e \<rparr>))"

definition grpc_configure ::
  "('sig, 'pk, 'su, 'n) externals \<Rightarrow> ('sig, 'esig, 'epk) ecdsa_auth \<Rightarrow> ('st, 'ms, 'nc) genv \<Rightarrow> grpc_codec \<Rightarrow> headers
   \<Rightarrow> string \<Rightarrow> auth option option \<Rightarrow> string \<Rightarrow> proto_network option option \<Rightarrow> ('st, 'ms, 'nc, (string \<times> string) grpc_reply) grpc_service" where
  "grpc_configure X E G K hs account_id auth_config initial_state network =
     bindS (liftS (authenticated_request X K hs (GConfigure account_id auth_config initial_state network))) (\<lambda>credential.
     bindS (liftS (ok_or (GrpcInvalidArgument, ''Missing auth configuration'') auth_config)) (\<lambda>config.
     bindS (liftS (invalid_argument ''Invalid auth config: '' (auth_try_from config))) (\<lambda>auth.
     bindS (liftS (case network of
          Some n \<Rightarrow> invalid_argument ''Invalid network config: '' (network_try_from n)
        | None \<Rightarrow> Inr (NetMiden Local))) (\<lambda>network_config.
     bindS (liftS (invalid_argument ''Invalid initial_state JSON: '' (json_from_str K initial_state))) (\<lambda>state.
     observeS (configure_account X E G \<lparr> ca_account_id = account_id, ca_auth = auth, ca_network_config = network_config,
         ca_initial_state = state, ca_credential = credential \<rparr>) (\<lambda>r. okS (case r of
        Inr (configured, pubkey, commitment) \<Rightarrow>
          \<lparr> gr_success = True, gr_message = ''Account '' @ quoted configured @ '' configured successfully'',
            gr_body = (pubkey, commitment), gr_error_code = [] \<rparr>
      | Inl e \<Rightarrow> \<lparr> gr_success = False, gr_message = show_guardian_error e, gr_body = ([], []), gr_error_code = error_code e \<rparr>)))))))"

definition grpc_push_delta ::
  "('sig, 'pk, 'su, 'n) externals \<Rightarrow> ('sig, 'esig, 'epk) ecdsa_auth \<Rightarrow> ('st, 'ms, 'nc) genv \<Rightarrow> grpc_codec \<Rightarrow> headers
   \<Rightarrow> string \<Rightarrow> nat \<Rightarrow> string \<Rightarrow> string \<Rightarrow> ('st, 'ms, 'nc, (proto_delta option \<times> string option) grpc_reply) grpc_service" where
  "grpc_push_delta X E G K hs account_id nonce prev_commitment payload =
     bindS (liftS (authenticated_request X K hs (GPushDelta account_id nonce prev_commitment payload))) (\<lambda>auth.
     bindS (liftS (invalid_argument ''Invalid delta_payload JSON: '' (json_from_str K payload))) (\<lambda>delta_payload.
     reply_with ''Delta pushed successfully'' (\<lambda>d. (Some (delta_to_proto K d), Some (d_ack_sig d))) (None, None)
       (push_delta X E G \<lparr> d_account_id = account_id, d_nonce = nonce, d_prev_commitment = prev_commitment, d_new_commitment = None,
          d_payload = delta_payload, d_ack_sig = [], d_ack_pubkey = [], d_ack_scheme = [], d_status = status_default \<rparr> auth)))"

definition grpc_get_delta ::
  "('sig, 'pk, 'su, 'n) externals \<Rightarrow> ('sig, 'esig, 'epk) ecdsa_auth \<Rightarrow> ('st, 'ms, 'nc) genv \<Rightarrow> grpc_codec \<Rightarrow> headers
   \<Rightarrow> string \<Rightarrow> nat \<Rightarrow> ('st, 'ms, 'nc, proto_delta option grpc_reply) grpc_service" where
  "grpc_get_delta X E G K hs account_id nonce =
     bindS (liftS (authenticated_request X K hs (GGetDelta account_id nonce))) (\<lambda>auth.
     reply_with ''Delta retrieved successfully'' (\<lambda>d. Some (delta_to_proto K d)) None (get_delta X E G account_id nonce auth))"

definition grpc_get_delta_since ::
  "('sig, 'pk, 'su, 'n) externals \<Rightarrow> ('sig, 'esig, 'epk) ecdsa_auth \<Rightarrow> ('st, 'ms, 'nc) genv \<Rightarrow> grpc_codec \<Rightarrow> headers
   \<Rightarrow> string \<Rightarrow> nat \<Rightarrow> ('st, 'ms, 'nc, proto_delta option grpc_reply) grpc_service" where
  "grpc_get_delta_since X E G K hs account_id from_nonce =
     bindS (liftS (authenticated_request X K hs (GGetDeltaSince account_id from_nonce))) (\<lambda>auth.
     reply_with ''Merged delta retrieved successfully'' (\<lambda>d. Some (delta_to_proto K d)) None (get_delta_since X E G account_id from_nonce auth))"

definition grpc_get_state ::
  "('sig, 'pk, 'su, 'n) externals \<Rightarrow> ('sig, 'esig, 'epk) ecdsa_auth \<Rightarrow> ('st, 'ms, 'nc) genv \<Rightarrow> grpc_codec \<Rightarrow> headers
   \<Rightarrow> string \<Rightarrow> ('st, 'ms, 'nc, proto_state option grpc_reply) grpc_service" where
  "grpc_get_state X E G K hs account_id =
     bindS (liftS (authenticated_request X K hs (GGetState account_id))) (\<lambda>auth.
     reply_with ''State retrieved successfully'' (\<lambda>st. Some (state_to_proto K st)) None (get_state X E G account_id auth))"

definition grpc_get_pubkey :: "ack_registry \<Rightarrow> string option \<Rightarrow> string \<times> string option" where
  "grpc_get_pubkey A query =
     (let scheme = (case query of Some s \<Rightarrow> if eq_ignore_ascii_case s ''ecdsa'' then Ecdsa else Falcon | None \<Rightarrow> Falcon) in
      (ack_commitment A scheme, if scheme = Ecdsa then Some (ack_pubkey A scheme) else None))"

definition grpc_push_delta_proposal ::
  "('sig, 'pk, 'su, 'n) externals \<Rightarrow> ('sig, 'esig, 'epk) ecdsa_auth \<Rightarrow> ('st, 'ms, 'nc) genv \<Rightarrow> grpc_codec \<Rightarrow> headers
   \<Rightarrow> string \<Rightarrow> nat \<Rightarrow> string \<Rightarrow> ('st, 'ms, 'nc, (proto_delta option \<times> string) grpc_reply) grpc_service" where
  "grpc_push_delta_proposal X E G K hs account_id nonce payload =
     bindS (liftS (authenticated_request X K hs (GPushProposal account_id nonce payload))) (\<lambda>auth.
     bindS (liftS (invalid_argument ''Invalid delta payload: '' (json_from_str K payload))) (\<lambda>delta_payload.
     reply_with ''Delta proposal submitted successfully'' (\<lambda>(d, commitment). (Some (delta_to_proto K d), commitment)) (None, [])
       (push_delta_proposal X E G account_id nonce delta_payload auth)))"

definition grpc_get_delta_proposals ::
  "('sig, 'pk, 'su, 'n) externals \<Rightarrow> ('sig, 'esig, 'epk) ecdsa_auth \<Rightarrow> ('st, 'ms, 'nc) genv \<Rightarrow> grpc_codec \<Rightarrow> headers
   \<Rightarrow> string \<Rightarrow> ('st, 'ms, 'nc, proto_delta list grpc_reply) grpc_service" where
  "grpc_get_delta_proposals X E G K hs account_id =
     bindS (liftS (authenticated_request X K hs (GGetProposals account_id))) (\<lambda>auth.
     reply_with ''Delta proposals retrieved successfully'' (map (delta_to_proto K)) [] (get_delta_proposals X E G account_id auth))"

definition grpc_get_delta_proposal ::
  "('sig, 'pk, 'su, 'n) externals \<Rightarrow> ('sig, 'esig, 'epk) ecdsa_auth \<Rightarrow> ('st, 'ms, 'nc) genv \<Rightarrow> grpc_codec \<Rightarrow> headers
   \<Rightarrow> string \<Rightarrow> string \<Rightarrow> ('st, 'ms, 'nc, proto_delta option grpc_reply) grpc_service" where
  "grpc_get_delta_proposal X E G K hs account_id commitment =
     bindS (liftS (authenticated_request X K hs (GGetProposal account_id commitment))) (\<lambda>auth.
     reply_with ''Delta proposal retrieved successfully'' (\<lambda>d. Some (delta_to_proto K d)) None (get_delta_proposal X E G account_id commitment auth))"

definition grpc_sign_delta_proposal ::
  "('sig, 'pk, 'su, 'n) externals \<Rightarrow> ('sig, 'esig, 'epk) ecdsa_auth \<Rightarrow> ('st, 'ms, 'nc) genv \<Rightarrow> grpc_codec \<Rightarrow> headers
   \<Rightarrow> string \<Rightarrow> string \<Rightarrow> proto_signature option \<Rightarrow> ('st, 'ms, 'nc, proto_delta option grpc_reply) grpc_service" where
  "grpc_sign_delta_proposal X E G K hs account_id commitment signature =
     bindS (liftS (authenticated_request X K hs (GSignProposal account_id commitment signature))) (\<lambda>auth.
     bindS (liftS (ok_or (GrpcInvalidArgument, ''Missing signature payload'') signature)) (\<lambda>sg.
     bindS (liftS (proto_signature_to_internal sg)) (\<lambda>internal.
     reply_with ''Delta proposal signed successfully'' (\<lambda>d. Some (delta_to_proto K d)) None
       (sign_delta_proposal X E G account_id commitment internal auth))))"

definition grpc_lookup ::
  "('sig, 'pk, 'su, 'n) externals \<Rightarrow> ('sig, 'esig, 'epk) ecdsa_auth \<Rightarrow> ('st, 'ms, 'nc) genv \<Rightarrow> grpc_codec \<Rightarrow> headers
   \<Rightarrow> string \<Rightarrow> ('st, 'ms, 'nc, string list) grpc_service" where
  "grpc_lookup X E G K hs key_commitment =
     bindS (liftS (authenticated_request X K hs (GLookup key_commitment))) (\<lambda>credentials.
     map_errS (\<lambda>e. (grpc_status e, show_guardian_error e)) (lookup_account X E G key_commitment credentials))"

section \<open>A call and its success (builder/handle.rs serves them on one port)\<close>

definition succeeded :: "('st, 'ms, 'nc, 'b grpc_reply) grpc_service \<Rightarrow> ('st, 'ms, 'nc, bool) grpc_service" where
  "succeeded f = bindS f (\<lambda>r. okS (gr_success r))"

fun grpc_call ::
  "('sig, 'pk, 'su, 'n) externals \<Rightarrow> ('sig, 'esig, 'epk) ecdsa_auth \<Rightarrow> ('st, 'ms, 'nc) genv \<Rightarrow> grpc_codec \<Rightarrow> headers \<Rightarrow> grpc_request
   \<Rightarrow> ('st, 'ms, 'nc, bool) grpc_service" where
  "grpc_call X E G K hs (GConfigure a auth st network) = succeeded (grpc_configure X E G K hs a auth st network)"
| "grpc_call X E G K hs (GPushDelta a n prev payload) = succeeded (grpc_push_delta X E G K hs a n prev payload)"
| "grpc_call X E G K hs (GGetDelta a n) = succeeded (grpc_get_delta X E G K hs a n)"
| "grpc_call X E G K hs (GGetDeltaSince a n) = succeeded (grpc_get_delta_since X E G K hs a n)"
| "grpc_call X E G K hs (GGetState a) = succeeded (grpc_get_state X E G K hs a)"
| "grpc_call X E G K hs (GPushProposal a n payload) = succeeded (grpc_push_delta_proposal X E G K hs a n payload)"
| "grpc_call X E G K hs (GGetProposals a) = succeeded (grpc_get_delta_proposals X E G K hs a)"
| "grpc_call X E G K hs (GGetProposal a h) = succeeded (grpc_get_delta_proposal X E G K hs a h)"
| "grpc_call X E G K hs (GSignProposal a h sg) = succeeded (grpc_sign_delta_proposal X E G K hs a h sg)"
| "grpc_call X E G K hs (GLookup k) = bindS (grpc_lookup X E G K hs k) (\<lambda>_. okS True)"

end
