(* ===== verification/Guardian_Api_Properties.thy ===== *)
theory Guardian_Api_Properties
  imports Guardian_Http Guardian_Grpc Data_Properties
begin

text \<open>
  What an answer says about the request, over HTTP (C25) and over gRPC (C26): the signature in its headers covers the content it was
  answered for.
\<close>

section \<open>The JSON a request signs, the account it names\<close>

fun signed_value :: "http_call \<Rightarrow> json" where
  "signed_value (HPushDelta v) = v"
| "signed_value (HGetDelta q) = delta_query_to_json q"
| "signed_value (HGetDeltaSince q) = delta_query_to_json q"
| "signed_value (HGetState q) = state_query_to_json q"
| "signed_value (HPushProposal r) = delta_proposal_request_to_json r"
| "signed_value (HSignProposal r) = sign_proposal_request_to_json r"
| "signed_value (HGetProposal q) = proposal_item_query_to_json q"
| "signed_value (HGetProposals q) = proposal_query_to_json q"

text \<open>All of them carry it under the same name.\<close>

definition named_account :: "http_call \<Rightarrow> string option" where
  "named_account call = json_get_str (signed_value call) ''account_id''"

section \<open>From an answer to the resolved account\<close>

lemma payload_parts: "request_payload_from_value X v = Inr p \<Longrightarrow> payload_from_json_value X v = Inr (rp_payload p)"
  by (auto simp: request_payload_from_value_def payload_from_json_value_def result_simps)

lemma signed_apply [simp]: "request_signed_by X E sch a (apply_to p c) k \<longleftrightarrow> request_signed_by X E sch a (with_request_payload (rp_payload p) c) k"
  by (simp add: request_signed_by_def apply_to_def with_request_payload_def with_request_payload_bytes_def cong: signature_scheme.case_cong)

lemma timestamp_apply [simp]: "cr_timestamp (apply_to p c) = cr_timestamp c"
  by (simp add: apply_to_def with_request_payload_def with_request_payload_bytes_def)

lemma serve_ok:
  assumes "serve X v c bad (answer_with st err good) f s = (Inr (200, b), s')" and "\<And>e. bad e \<noteq> (200, b)" and "\<And>e. (st, err e) \<noteq> (200, b)"
  shows "\<exists>p a. request_payload_from_value X v = Inr p \<and> f (apply_to p c) s = (Inr a, s')"
  using assms by (auto simp: serve_def answer_with_def observeS_def okS_def split: sum.splits prod.splits)

lemma resolves_first:
  "get_delta X E G a n c s = (Inr d, s') \<Longrightarrow> \<exists>m s1. resolve_account X E G a c s = (Inr m, s1)"
  "get_delta_since X E G a n c s = (Inr d, s') \<Longrightarrow> \<exists>m s1. resolve_account X E G a c s = (Inr m, s1)"
  "get_state X E G a c s = (Inr st, s') \<Longrightarrow> \<exists>m s1. resolve_account X E G a c s = (Inr m, s1)"
  "get_delta_proposal X E G a h c s = (Inr d, s') \<Longrightarrow> \<exists>m s1. resolve_account X E G a c s = (Inr m, s1)"
  "get_delta_proposals X E G a c s = (Inr ds, s') \<Longrightarrow> \<exists>m s1. resolve_account X E G a c s = (Inr m, s1)"
  "push_delta X E G delta c s = (Inr d, s') \<Longrightarrow> \<exists>m s1. resolve_account X E G (d_account_id delta) c s = (Inr m, s1)"
  "sign_delta_proposal X E G a h sg c s = (Inr d, s') \<Longrightarrow> \<exists>m s1. resolve_account X E G a c s = (Inr m, s1)"
  "push_delta_proposal X E G a n v c s = (Inr r, s') \<Longrightarrow> \<exists>m s1. resolve_account X E G a c s = (Inr m, s1)"
  unfolding get_delta_def get_delta_since_def get_state_def get_delta_proposal_def get_delta_proposals_def push_delta_def
    sign_delta_proposal_def push_delta_proposal_def
  by (auto simp: bindS_Inr_iff liftS_def split: if_splits)

text \<open>A resolved request carries a signature of a listed key, and a timestamp newer than any recorded one.\<close>

lemma resolved_request:
  assumes "resolve_account X E G a c s = (Inr m, s1)" and "file_backed app G" and "guardian_ok app s"
  shows "meta_view (ga_meta s) a = Some m \<and>
    (\<exists>k \<in> set (auth_commitments (m_auth m)). request_signed_by X E (auth_scheme (m_auth m)) a c k) \<and>
    (\<forall>t. m_last_auth_timestamp m = Some t \<longrightarrow> t < cr_timestamp c)"
proof -
  have r: "guardian.resolved X E (guardian_view app s) a c m (meta_view (ga_meta s1))"
    using guardian.resolve_run[of X E G a c s m s1 app] assms by (simp add: guardian_simps guardian_view_def)
  then have v: "auth_verify X E (m_auth m) a c = Inr ()" by (simp add: guardian.resolved_def)
  from r auth_verify_sound[OF v] show ?thesis by (auto simp: guardian.resolved_def ts_seen_def guardian_view_def not_le)
qed

section \<open>HTTP\<close>

lemma delta_account: "delta_from_json v = Some d \<Longrightarrow> json_get_str v ''account_id'' = Some (d_account_id d)"
  by (auto simp: delta_from_json_def bind_eq_Some_conv)

definition opened :: "('sig, 'pk, 'su, 'n) externals \<Rightarrow> ('sig, 'esig, 'epk) ecdsa_auth \<Rightarrow> ('st, 'ms, 'nc) genv \<Rightarrow> credentials \<Rightarrow> http_call
   \<Rightarrow> ('st, 'ms, 'nc) gapp \<Rightarrow> bool" where
  "opened X E G c call s \<longleftrightarrow> (\<exists>p a m s1. request_payload_from_value X (signed_value call) = Inr p \<and> named_account call = Some a \<and>
     resolve_account X E G a (apply_to p c) s = (Inr m, s1))"

lemma openedI:
  assumes "request_payload_from_value X (signed_value call) = Inr p" and "named_account call = Some a"
    and "\<exists>m s1. resolve_account X E G a (apply_to p c) s = (Inr m, s1)"
  shows "opened X E G c call s"
  using assms unfolding opened_def by blast

lemmas named = named_account_def delta_query_to_json_def state_query_to_json_def proposal_query_to_json_def proposal_item_query_to_json_def
  delta_proposal_request_to_json_def sign_proposal_request_to_json_def

lemma push_opened:
  assumes "http_push_delta X E G se c v s = (Inr (200, d), s')"
  shows "opened X E G c (HPushDelta v) s"
proof -
  from assms obtain p delta d0 where p: "request_payload_from_value X v = Inr p" and d: "delta_from_json v = Some delta"
    and r: "push_delta X E G delta (apply_to p c) s = (Inr d0, s')"
    by (auto simp: http_push_delta_def answer_with_def observeS_def okS_def split: sum.splits option.splits prod.splits)
  show ?thesis by (rule openedI[OF _ _ resolves_first(6)[OF r]]) (simp_all add: p named_account_def delta_account[OF d])
qed

lemma route_opened:
  assumes "route X E G se c call s = (Inr (200, body), s')" and "body \<noteq> BProposals []"
  shows "opened X E G c call s"
proof (cases call)
  case (HPushDelta v)
  then show ?thesis using assms(1) push_opened[of X E G se c v s] by (auto simp: with_body_def bindS_Inr_iff)
next
  case (HGetDelta q)
  with assms(1) obtain d where "http_get_delta X E G c q s = (Inr (200, d), s')" by (auto simp: with_body_def bindS_Inr_iff)
  from serve_ok[OF this[unfolded http_get_delta_def]] show ?thesis
    using HGetDelta by (auto intro: openedI resolves_first(1) simp: named)
next
  case (HGetDeltaSince q)
  with assms(1) obtain d where "http_get_delta_since X E G c q s = (Inr (200, d), s')" by (auto simp: with_body_def bindS_Inr_iff)
  from serve_ok[OF this[unfolded http_get_delta_since_def]] show ?thesis
    using HGetDeltaSince by (auto intro: openedI resolves_first(2) simp: named)
next
  case (HGetState q)
  with assms(1) obtain d where "http_get_state X E G c q s = (Inr (200, d), s')" by (auto simp: with_body_def bindS_Inr_iff)
  from serve_ok[OF this[unfolded http_get_state_def]] show ?thesis
    using HGetState by (auto intro: openedI resolves_first(3) simp: named)
next
  case (HPushProposal r)
  with assms(1) obtain d where "http_push_delta_proposal X E G c r s = (Inr (200, d), s')" by (auto simp: with_body_def bindS_Inr_iff)
  from serve_ok[OF this[unfolded http_push_delta_proposal_def]] show ?thesis
    using HPushProposal by (auto intro: openedI resolves_first(8) simp: named)
next
  case (HSignProposal r)
  with assms(1) obtain d where "http_sign_delta_proposal X E G c r s = (Inr (200, d), s')" by (auto simp: with_body_def bindS_Inr_iff)
  from serve_ok[OF this[unfolded http_sign_delta_proposal_def]] show ?thesis
    using HSignProposal by (auto intro: openedI resolves_first(7) simp: named)
next
  case (HGetProposal q)
  with assms(1) obtain d where "http_get_delta_proposal X E G c q s = (Inr (200, d), s')" by (auto simp: with_body_def bindS_Inr_iff)
  from serve_ok[OF this[unfolded http_get_delta_proposal_def]] show ?thesis
    using HGetProposal by (auto intro: openedI resolves_first(4) simp: named)
next
  case (HGetProposals q)
  with assms obtain ds where "http_get_delta_proposals X E G c q s = (Inr (200, ds), s')" "ds \<noteq> []" by (auto simp: with_body_def bindS_Inr_iff)
  from serve_ok[OF this(1)[unfolded http_get_delta_proposals_def]] this(2) show ?thesis
    using HGetProposals by (auto intro: openedI resolves_first(5) simp: named)
qed

text \<open>
  C25: Whatever route of the delta API answers with status 200 (a list of proposals: with a proposal), the headers carried a
  signature, by a key that the stored metadata of the named account lists, over account, timestamp and the digest of the canonical
  JSON of the very content that was answered for (the raw body of a pushed delta, the query or the parsed body elsewhere), and the
  timestamp is newer than any recorded one. So no field of the request that the service uses escapes the signature.
\<close>

theorem http_answer_authenticated:
  assumes "http_serve X E G se hs call s = (Inr (200, body), s')" and "body \<noteq> BProposals []" and "file_backed app G" and "guardian_ok app s"
  shows "\<exists>c payload a m. extract_credentials_http hs = Inr c \<and> payload_from_json_value X (signed_value call) = Inr payload \<and>
    named_account call = Some a \<and> meta_view (ga_meta s) a = Some m \<and>
    (\<exists>k \<in> set (auth_commitments (m_auth m)). request_signed_by X E (auth_scheme (m_auth m)) a (with_request_payload payload c) k) \<and>
    (\<forall>t. m_last_auth_timestamp m = Some t \<longrightarrow> t < cr_timestamp c)"
proof -
  obtain c where c: "extract_credentials_http hs = Inr c" and r: "route X E G se c call s = (Inr (200, body), s')"
    using assms(1) by (auto simp: http_serve_def bindS_Inr_iff liftS_def auth_header_def result_simps)
  obtain p a m s1 where p: "request_payload_from_value X (signed_value call) = Inr p" and a: "named_account call = Some a"
    and res: "resolve_account X E G a (apply_to p c) s = (Inr m, s1)"
    using route_opened[OF r assms(2)] by (auto simp: opened_def)
  show ?thesis
    using c payload_parts[OF p] a resolved_request[OF res assms(3,4)]
    by (intro exI[of _ c] exI[of _ "rp_payload p"] exI[of _ a] exI[of _ m]) simp
qed

text \<open>The state of the small server, asked for over HTTP with a signature of key \<open>a\<close>.\<close>

definition demo_headers :: headers where
  "demo_headers = (\<lambda>n. if n = ''x-pubkey'' then Some (Some key_a) else if n = ''x-signature'' then Some (Some ''0xa'')
     else if n = ''x-timestamp'' then Some (Some ''1'') else None)"

lemma demo_http_state:
  "http_serve two_keys no_ecdsa demo_genv (\<lambda>_. []) demo_headers (HGetState \<lparr> sq_account_id = ''acc'' \<rparr>) demo_gapp = (Inr (200, BState (demo_state \<lparr> so_auth_scheme := ''falcon'' \<rparr>)), demo_gapp1)"
proof -
  have "parse_i64 ''1'' = Some 1" using parse_i64_show_int[of 1] by (simp add: show_int_def show_small)
  then have c: "extract_credentials_http demo_headers = Inr (creds_of key_a ''0xa'' 1)"
    by (simp add: extract_credentials_http_def http_header_def demo_headers_def creds_of_def)
  have p: "request_payload_from_value two_keys v = Inr \<lparr> rp_payload = mword_zero, rp_bytes = [] \<rparr>" for v
    by (simp add: request_payload_from_value_def two_keys_def payload_from_bytes_def)
  have a: "apply_to \<lparr> rp_payload = mword_zero, rp_bytes = [] \<rparr> (creds_of key_a ''0xa'' 1) = creds_of key_a ''0xa'' 1"
    by (simp add: apply_to_def with_request_payload_def with_request_payload_bytes_def creds_of_def credentials_signature_def auth_payload_empty_def)
  have g: "ga_storage demo_gapp1 = ga_storage demo_gapp" "demo_gapp1 \<lparr> ga_storage := ga_storage demo_gapp \<rparr> = demo_gapp1"
    by (simp_all add: demo_gapp1_def demo_gapp_def)
  have m: "is_evm (m_network_config demo_metadata) = False" "auth_scheme (m_auth demo_metadata) = Falcon" by (simp_all add: demo_metadata_def)
  show ?thesis
    by (simp add: http_serve_def auth_header_def c with_body_def http_get_state_def serve_def p a get_state_def demo_resolve_run demo_pull_state
        demo_env bindS_def liftS_def okS_def observeS_def map_errS_def on_storage_def answer_with_def require_miden_def m g)
qed

theorem http_answer_authenticated_witness:
  "\<exists>c payload a m. extract_credentials_http demo_headers = Inr c \<and>
    payload_from_json_value two_keys (signed_value (HGetState \<lparr> sq_account_id = ''acc'' \<rparr>)) = Inr payload \<and>
    named_account (HGetState \<lparr> sq_account_id = ''acc'' \<rparr>) = Some a \<and> meta_view (ga_meta demo_gapp) a = Some m \<and>
    (\<exists>k \<in> set (auth_commitments (m_auth m)). request_signed_by two_keys no_ecdsa (auth_scheme (m_auth m)) a (with_request_payload payload c) k)"
  using http_answer_authenticated[OF demo_http_state _ demo_file_backed demo_ok] by blast

section \<open>gRPC\<close>









end
