(* ===== verification/Spec2Isabelle.thy ===== *)
theory Spec2Isabelle
  imports X402_Properties Guardian_Race Data_Properties Rate_Limit_Properties Login_Properties Evm_Properties Adn_Properties Dashboard_Properties Guardian_Api_Properties
begin

text \<open>
  A verification library for the repository \<^emph>\<open>miden-x402\<close>: a payment facilitator for agents on Miden and the Guardian, the
  server that co-signs and orders the state changes of multi-signature accounts.

  \<^bold>\<open>The program\<close>

  \<^item> The \<^emph>\<open>x402 facilitator\<close> (\<open>crates/x402-facilitator-server\<close>) keeps, per agent, a mandate, a pending state, a write-ahead log of
    reserved nullifiers and a queue of payments, all as files. A payment is checked (signature of the hot key, mandate, note,
    nullifiers), acknowledged at once and later proved and submitted by a batch worker that talks to an actor
    owning the Miden client.
  \<^item> The \<^emph>\<open>Guardian\<close> (\<open>crates/server\<close>) authenticates requests, stores account states, deltas and proposals, co-signs accepted
    deltas, and a background job confirms them on the chain or gives them up. Beside the delta API it has an EVM side
    (sessions by wallet signature, proposals for user operations) and a dashboard for operators (login by challenge, listings page by page).
    A rate limiter stands in front.
  \<^item> \<^emph>\<open>Agent debit notes\<close> (\<open>crates/agent-debit-note\<close>, \<open>crates/adn-client\<close>, \<open>crates/adn-services\<close> and \<open>adn.rs\<close> of the facilitator) are the other way
    to pay: a note is funded once, the agent signs vouchers for growing cumulative amounts, the merchant serves against them and
    a facilitator settles the latest voucher on chain every few requests.
  \<^item> The \<^emph>\<open>shared crate\<close> (\<open>crates/shared\<close>) has the wire types and the messages that requests sign.

  \<^bold>\<open>How the model is built\<close>

  Stateful code is a computation \<open>('s, 'e, 'a) comp\<close> of \<open>Prelude\<close>: a function from a state to a result (\<open>Inl\<close> an error,
  \<open>Inr\<close> a value) and the next state, composed with \<open>bindS\<close> in the order of the source; every early return is a branch.
  Files are the explicit file system of \<open>Fs\<close>: every call consumes an entry of a script of faults, so that a theorem over all
  scripts covers every failure of every call, a torn write included. Times are nanoseconds read from a script of clock
  readings. Integers are naturals or integers with the wrap-around written out, and words where the code works
  on bytes (\<open>Evm_U256\<close>). Third-party code (signature schemes, hashes, codecs, the Miden types and client, the EVM contracts,
  chrono, random bytes) is a parameter: a record of functions (\<open>externals\<close>, \<open>ecdsa_auth\<close>, \<open>network_client\<close>, \<open>alloy_ops\<close>,
  \<open>evm_rpc\<close> and others); what a theorem needs of it is a named hypothesis (\<open>hex_ok\<close>, \<open>word_codec_ok\<close>, \<open>hex_codec\<close>,
  \<open>hex_reads\<close>, \<open>codec_ok\<close>), each a documented law of the library, and each witness has a concrete function that satisfies it.
  Interfaces are locales (\<open>fail_closed_log\<close> and \<open>kv_store\<close> in the facilitator, \<open>storage_contract\<close>, \<open>metadata_contract\<close>, \<open>guardian_backends\<close>,
  \<open>evm_backends\<close>, \<open>fixed_window\<close>, \<open>challenge_sessions\<close>, \<open>settlement_service\<close>, \<open>paged_feed\<close>), interpreted on the model of the code that provides them.

  \<^bold>\<open>Theories and sources\<close>

  \<^item> \<open>Prelude\<close>, \<open>Rust_Std\<close>, \<open>Rust_Net\<close>, \<open>Json\<close>, \<open>Externals\<close>, \<open>Fs\<close>: results, computations, directories, triples; the parts of
    the Rust standard library and of \<open>serde_json\<close> the sources use; parameters; the file system.
  \<^item> \<open>Shared\<close>: \<open>crates/shared/src\<close>.
  \<^item> \<open>X402_Types\<close>, \<open>X402_Store\<close>, \<open>X402_Submitter\<close>, \<open>X402_Api\<close>, \<open>X402_Worker\<close>: \<open>types.rs\<close> and \<open>error.rs\<close>, \<open>store.rs\<close>, \<open>submitter.rs\<close>,
    \<open>api.rs\<close> and \<open>key.rs\<close>, \<open>jobs.rs\<close> of the facilitator. \<open>X402_System\<close> composes them into a step relation with its invariant,
    \<open>X402_Runs\<close> has the runs of the handler in a state where nothing is in the way, and under scripts that fail at one chosen call;
    \<open>Instances\<close> has the concrete parameters of the witnesses; \<open>X402_Properties\<close> has C1 to C10.
  \<^item> \<open>Guardian_Types\<close>, \<open>Guardian_Auth\<close>, \<open>Guardian_Storage\<close>, \<open>Guardian_Fs_Store\<close>, \<open>Guardian_Metadata\<close>, \<open>Guardian_Services\<close>, \<open>Guardian_Canon\<close>:
    \<open>error.rs\<close>, \<open>delta_object.rs\<close>, \<open>state_object.rs\<close>; \<open>metadata/network.rs\<close> and \<open>metadata/auth\<close>; \<open>storage\<close>; \<open>metadata\<close>; \<open>services\<close>;
    \<open>jobs/canonicalization\<close> of the server. \<open>Guardian_Contract\<close> states what services rely on, \<open>Guardian_Spec\<close> is the abstract
    specification, \<open>Guardian_System\<close> the simulation, \<open>Guardian_Instances\<close> the file-backed server;
    \<open>Guardian_Properties\<close> has C11 to C18, \<open>Guardian_Race\<close> C19 and C40, \<open>Guardian_Job_Properties\<close> C20 to C22, \<open>Data_Properties\<close> C23, C24, C27 and C30.
  \<^item> \<open>Guardian_Http\<close>, \<open>Guardian_Grpc\<close>: \<open>api/http.rs\<close> and \<open>api/grpc.rs\<close>, the handlers around the services; \<open>Guardian_Api_Properties\<close> has C25 and C26.
  \<^item> \<open>Rate_Limit\<close>: \<open>middleware/rate_limit.rs\<close>; \<open>Rate_Limit_Properties\<close> has C31 and C32.
  \<^item> \<open>Sessions\<close>: the contract of logins by challenge; \<open>Dashboard_Session\<close> (\<open>dashboard/\<close>) and \<open>Evm_Session\<close> (\<open>evm/session.rs\<close>)
    interpret it; \<open>Login_Properties\<close> has C33 to C35.
  \<^item> \<open>Dashboard_Reads\<close>, \<open>Dashboard_Feeds\<close>: \<open>dashboard/cursor.rs\<close>, the paged and aggregate reads of \<open>storage/filesystem.rs\<close> and
    \<open>metadata/filesystem.rs\<close>, \<open>services/dashboard_*.rs\<close>, \<open>api/dashboard_feeds.rs\<close>. \<open>Dashboard_Paging\<close> has the locale \<open>paged_feed\<close>, \<open>Dashboard_Walk\<close> and
    \<open>Dashboard_Global\<close> its interpretation for the four feeds, \<open>Dashboard_Instances\<close> a concrete codec and server; \<open>Dashboard_Properties\<close> has C28 and C29.
  \<^item> \<open>Evm_U256\<close>, \<open>Evm_Proposal\<close>, \<open>Evm_Service\<close>, \<open>Evm_Api\<close>: \<open>evm/proposal.rs\<close>, \<open>evm/contracts.rs\<close>, \<open>evm/config.rs\<close>, \<open>evm/service.rs\<close>,
    \<open>api/evm.rs\<close>; \<open>Evm_System\<close> has the invariant of stored proposals; \<open>Evm_Properties\<close> has C36 and C37.
  \<^item> \<open>Adn\<close>: \<open>message.rs\<close>, \<open>types.rs\<close>, \<open>voucher.rs\<close>, \<open>wire.rs\<close>, \<open>sdk.rs\<close> of the debit notes, the agent's client and the endpoint \<open>/adn/pay\<close>;
    \<open>Adn_Wire\<close> has the lemmas on codecs and debits; \<open>Adn_Services\<close>: merchant, facilitator and payment loop of \<open>adn-services\<close>; \<open>Adn_System\<close>
    composes them over links that fail; \<open>Adn_Properties\<close> has C38 and C39.

  \<^bold>\<open>What the theorems show\<close>

  \<^item> Facilitator: no nullifier is acknowledged twice, acknowledged payments can be looked up and are what the agent's mandate and
    key allow, refusals change nothing, a valid payment is accepted with exactly the writes it needs, the worker records the outcome of
    its attempt. These hold for agent ids and nullifiers that are plain file names and truthful \<open>exists\<close> calls; C7 to C9 show, for every agent
    and payment of a kind, what happens with a failing stat, a hostile name and a failing rename.
  \<^item> Guardian: the services refine the abstract specification of \<open>Guardian_Spec\<close>; accepted deltas build on the stored
    state, one candidate at a time; signatures are counted once; replayed requests are refused, all this for requests that run one
    after another; C19 and C40 show what two requests can do to each other between their calls; the job confirms or gives up
    each candidate; stored objects survive their encodings; over HTTP and gRPC, what is answered was signed as a whole.
  \<^item> Rate limits, logins, EVM: bounds on admitted requests, a session implies an answered challenge, nonces are
    numbers below \<open>2 ^ 256\<close>, an executable proposal has the approvals of the contract's signers.
  \<^item> Dashboard: following the sealed cursors of a feed shows every row once, in order, for every page size.
  \<^item> Debit notes: honest debits are acknowledged and acknowledged debits are signed, the books of agent and merchant
    agree.

  \<^bold>\<open>Interleaving\<close>

  A step of the facilitator (\<open>sys_step\<close>) is a whole payment request, which holds the lock of its agent in the source, a whole registration,
  for which the source takes no lock, one listing, or one payment handled by the worker: overlapping registrations of one agent,
  and a worker that writes a record while a payment of the same agent is handled, are not covered. A step of the
  Guardian (\<open>gstep\<close>) is a whole request or tick, although the source holds no lock on the account; the theorems over \<open>gstep\<close> say so.

  \<^bold>\<open>Bounds and fuel\<close>

  No definition runs out of fuel. Loops of the source that wait (\<open>60\<close> attempts in the settlement of debit notes) are
  recursions on the attempts left. Scripts of faults, of clock readings and of link failures may have any length; an exhausted script
  of faults means no more faults, so the theorems cover every finite pattern of failures. Counters wrap where the source's type does;
  a theorem that needs no wrap-around says so in its hypotheses.

  \<^bold>\<open>Not modelled\<close>

  The database backends (their behaviour is the database's; the contracts the services need are the locales above), the
  extractors and listeners of \<open>axum\<close> and \<open>tonic\<close> (a handler gets the parsed query, body or message), start-up and configuration, logging and
  metrics, the client of the Miden network and the Miden client itself (parameters), the client SDKs, the assembly code of
  contracts and notes, benchmarks and the setup of test networks.
\<close>

end
